(* ===== verification/Go_Prelude.thy ===== *)
theory Go_Prelude
  imports Main "HOL-Library.AList"
begin

text \<open>
  What the components share of Go itself: maps as association lists, buffered channels, byte
  strings with the functions of package \<open>strings\<close> the SDK calls, and decimal and quoted
  formatting. A Go string is a list of bytes (\<^typ>\<open>string\<close>), so \<open>length\<close> is \<open>len\<close>.
\<close>

named_theorems chan_simps \<open>behaviour of buffered channels\<close>
named_theorems gomap_simps \<open>lookup, update and delete on Go maps\<close>

subsection \<open>Maps\<close>

text \<open>
  A Go map is an association list whose keys are distinct (\<open>wf_map\<close>); \<open>m[k]\<close> is
  \<open>map_of m k\<close>, \<open>m[k] = v\<close> is \<open>AList.update k v m\<close>, \<open>delete(m, k)\<close> is
  \<open>AList.delete k m\<close> and \<open>len(m)\<close> is \<open>length m\<close>.
\<close>

type_synonym 'v gomap = "(string \<times> 'v) list"

abbreviation wf_map :: "('k \<times> 'v) list \<Rightarrow> bool" where
  "wf_map m \<equiv> distinct (map fst m)"

declare map_of_eq_Some_iff [simp del] Some_eq_map_of_iff [simp del]

lemma map_of_update_gomap [simp, gomap_simps]:
  "map_of (AList.update k v m) k' = (if k' = k then Some v else map_of m k')"
  by (simp add: update_conv)

lemma map_of_delete_gomap [simp, gomap_simps]:
  "map_of (AList.delete k m) k' = (if k' = k then None else map_of m k')"
  by (simp add: delete_conv)

lemma wf_map_update [simp, intro]: "wf_map m \<Longrightarrow> wf_map (AList.update k v m)"
  by (rule distinct_update)

lemma wf_map_delete [simp, intro]: "wf_map m \<Longrightarrow> wf_map (AList.delete k m)"
  by (rule distinct_delete)

lemma update_fresh: "map_of m k = None \<Longrightarrow> AList.update k v m = m @ [(k, v)]"
  by (induction m) (auto split: if_splits)

lemma set_delete_gomap: "set (AList.delete k m) = {p \<in> set m. fst p \<noteq> k}"
  by (auto simp: AList.delete_eq)

subsection \<open>Buffered channels\<close>

text \<open>
  A channel of capacity \<open>cap\<close> is the list of its buffered values, oldest first. A send on
  a full channel blocks (\<open>None\<close>); a receive on an empty one finds nothing.
\<close>

definition chan_send :: "nat \<Rightarrow> 'a list \<Rightarrow> 'a \<Rightarrow> 'a list option" where
  "chan_send cap q x = (if length q < cap then Some (q @ [x]) else None)"

definition chan_recv :: "'a list \<Rightarrow> ('a \<times> 'a list) option" where
  "chan_recv q = (case q of [] \<Rightarrow> None | x # xs \<Rightarrow> Some (x, xs))"

text \<open>\<open>select { case q <- x: default: }\<close> drops the value when the buffer is full.\<close>

definition chan_try_send :: "nat \<Rightarrow> 'a list \<Rightarrow> 'a \<Rightarrow> 'a list" where
  "chan_try_send cap q x = (case chan_send cap q x of Some q' \<Rightarrow> q' | None \<Rightarrow> q)"

fun chan_send_all :: "nat \<Rightarrow> 'a list \<Rightarrow> 'a list \<Rightarrow> 'a list option" where
  "chan_send_all cap q [] = Some q"
| "chan_send_all cap q (x # xs) =
     (case chan_send cap q x of None \<Rightarrow> None | Some q' \<Rightarrow> chan_send_all cap q' xs)"

lemma chan_send_Some [chan_simps]: "chan_send cap q x = Some q' \<longleftrightarrow> length q < cap \<and> q' = q @ [x]"
  by (auto simp: chan_send_def)

lemma chan_recv_None [simp, chan_simps]: "chan_recv q = None \<longleftrightarrow> q = []"
  by (simp add: chan_recv_def split: list.split)

lemma chan_recv_Some [simp, chan_simps]: "chan_recv q = Some (x, q') \<longleftrightarrow> q = x # q'"
  by (auto simp: chan_recv_def split: list.split)

lemma chan_send_all_eq [chan_simps]:
  "length q + length xs \<le> cap \<Longrightarrow> chan_send_all cap q xs = Some (q @ xs)"
  by (induction xs arbitrary: q) (auto simp: chan_send_def)

lemma chan_try_send_length: "length q \<le> cap \<Longrightarrow> length (chan_try_send cap q x) \<le> cap"
  by (auto simp: chan_try_send_def chan_send_def)

lemma chan_try_send_set: "set (chan_try_send cap q x) \<subseteq> insert x (set q)"
  by (auto simp: chan_try_send_def chan_send_def split: if_splits)

text \<open>
  The interface the router relies on: a bounded FIFO. \<open>send\<close> keeps order and fails only
  when the buffer is full, \<open>recv\<close> takes the oldest value.
\<close>

locale bounded_fifo =
  fixes send :: "nat \<Rightarrow> 'q \<Rightarrow> 'a \<Rightarrow> 'q option"
    and recv :: "'q \<Rightarrow> ('a \<times> 'q) option"
    and contents :: "'q \<Rightarrow> 'a list"
  assumes send_room: "length (contents q) < cap \<Longrightarrow>
      \<exists>q'. send cap q x = Some q' \<and> contents q' = contents q @ [x]"
    and send_full: "cap \<le> length (contents q) \<Longrightarrow> send cap q x = None"
    and recv_empty: "contents q = [] \<Longrightarrow> recv q = None"
    and recv_oldest: "contents q = x # xs \<Longrightarrow> \<exists>q'. recv q = Some (x, q') \<and> contents q' = xs"
begin

lemma send_then_bound:
  "send cap q x = Some q' \<Longrightarrow> length (contents q') \<le> cap"
  using send_room [of q cap x] send_full [of cap q x] by (cases "length (contents q) < cap") auto

lemma recv_frees_slot:
  assumes "contents q = y # ys" "length (contents q) \<le> cap" "recv q = Some (z, q')"
  shows "\<exists>q''. send cap q' x = Some q'' \<and> contents q'' = ys @ [x]"
proof -
  from recv_oldest [OF assms(1)] assms(3) have "contents q' = ys" by auto
  then show ?thesis using send_room [of q' cap x] assms(1,2) by auto
qed

end

interpretation chan: bounded_fifo chan_send chan_recv "\<lambda>q. q"
  by unfold_locales (auto simp: chan_send_def chan_recv_def)

end
