(* ===== verification/Go_Strings.thy ===== *)
theory Go_Strings
  imports Go_Prelude
begin

text \<open>
  The functions of the packages \<open>strings\<close>, \<open>strconv\<close> and \<open>fmt\<close> the SDK uses, on byte
  strings. Case mapping is written out for ASCII and for the characters outside ASCII whose
  lower case or fold is an ASCII letter; white space is the whole Unicode set, in UTF-8.
\<close>

subsection \<open>Searching\<close>

definition hasPrefix :: "string \<Rightarrow> string \<Rightarrow> bool" where
  "hasPrefix s p \<longleftrightarrow> take (length p) s = p"

definition hasSuffix :: "string \<Rightarrow> string \<Rightarrow> bool" where
  "hasSuffix s p \<longleftrightarrow> hasPrefix (rev s) (rev p)"

definition trimPrefix :: "string \<Rightarrow> string \<Rightarrow> string" where
  "trimPrefix s p = (if hasPrefix s p then drop (length p) s else s)"

definition trimSuffix :: "string \<Rightarrow> string \<Rightarrow> string" where
  "trimSuffix s p = (if hasSuffix s p then take (length s - length p) s else s)"

fun str_index :: "string \<Rightarrow> string \<Rightarrow> nat option" where
  "str_index [] p = (if p = [] then Some 0 else None)"
| "str_index (c # s) p =
     (if hasPrefix (c # s) p then Some 0 else map_option Suc (str_index s p))"

definition str_contains :: "string \<Rightarrow> string \<Rightarrow> bool" where
  "str_contains s p \<longleftrightarrow> str_index s p \<noteq> None"

fun str_last_index :: "string \<Rightarrow> string \<Rightarrow> nat option" where
  "str_last_index [] p = (if p = [] then Some 0 else None)"
| "str_last_index (c # s) p =
     (case str_last_index s p of
        Some i \<Rightarrow> Some (Suc i)
      | None \<Rightarrow> if hasPrefix (c # s) p then Some 0 else None)"

lemma hasPrefix_append [simp]: "hasPrefix (p @ s) p"
  by (simp add: hasPrefix_def)

lemma hasPrefix_Nil [simp]: "hasPrefix s []"
  by (simp add: hasPrefix_def)

lemma hasPrefix_iff: "hasPrefix s p \<longleftrightarrow> (\<exists>t. s = p @ t)"
  by (metis hasPrefix_append append_take_drop_id hasPrefix_def)

lemma hasPrefix_Cons [simp]: "hasPrefix (c # s) (d # p) \<longleftrightarrow> c = d \<and> hasPrefix s p"
  by (simp add: hasPrefix_def)

lemma hasPrefix_Nil_left [simp]: "hasPrefix [] p \<longleftrightarrow> p = []"
  by (auto simp: hasPrefix_def)

lemma str_index_Some:
  "str_index s p = Some i \<Longrightarrow> i + length p \<le> length s \<and> take (length p) (drop i s) = p"
proof (induction s arbitrary: i)
  case Nil
  then show ?case by (auto split: if_splits)
next
  case (Cons c s)
  show ?case
  proof (cases "hasPrefix (c # s) p")
    case True
    with Cons.prems have "i = 0" by simp
    moreover have "length p \<le> length (c # s)"
      using True unfolding hasPrefix_def by (metis length_take min.cobounded2 min.commute)
    ultimately show ?thesis using True by (simp add: hasPrefix_def)
  next
    case False
    with Cons.prems obtain j where "str_index s p = Some j" "i = Suc j" by auto
    with Cons.IH show ?thesis by auto
  qed
qed

lemma str_index_append: "str_index (a @ p @ b) p \<noteq> None"
proof (induction a)
  case Nil
  show ?case
  proof (cases "p @ b")
    case (Cons c s)
    then have "hasPrefix (c # s) p" by (metis hasPrefix_append)
    with Cons show ?thesis by simp
  qed simp
qed simp

lemma str_index_None: "str_index s p = None \<longleftrightarrow> (\<nexists>a b. s = a @ p @ b)"
proof
  assume none: "str_index s p = None"
  show "\<nexists>a b. s = a @ p @ b"
  proof
    assume "\<exists>a b. s = a @ p @ b"
    then obtain a b where "s = a @ p @ b" by blast
    with none str_index_append [of a p b] show False by simp
  qed
next
  assume no: "\<nexists>a b. s = a @ p @ b"
  show "str_index s p = None"
  proof (rule ccontr)
    assume "str_index s p \<noteq> None"
    then obtain i where i: "str_index s p = Some i" by blast
    from str_index_Some [OF i] have "s = take i s @ p @ drop (length p) (drop i s)"
      by (metis append_take_drop_id)
    with no show False by blast
  qed
qed

lemma str_contains_iff: "str_contains s p \<longleftrightarrow> (\<exists>a b. s = a @ p @ b)"
  by (simp add: str_contains_def str_index_None)

lemma str_index_first:
  "str_index s p = Some i \<Longrightarrow> j < i \<Longrightarrow> take (length p) (drop j s) \<noteq> p"
proof (induction s arbitrary: i j)
  case Nil
  then show ?case by (auto split: if_splits)
next
  case (Cons c s)
  then show ?case
    by (cases j) (auto simp: hasPrefix_def split: if_splits)
qed

lemma str_index_char: "c \<notin> set s \<Longrightarrow> str_index (s @ c # t) [c] = Some (length s)"
  by (induction s) auto

subsection \<open>White space\<close>

text \<open>The UTF-8 encodings of \<open>unicode.IsSpace\<close>.\<close>

definition space_seqs :: "string list" where
  "space_seqs = [[CHR 0x09], [CHR 0x0A], [CHR 0x0B], [CHR 0x0C], [CHR 0x0D], [CHR 0x20],
     [CHR 0xC2, CHR 0x85], [CHR 0xC2, CHR 0xA0], [CHR 0xE1, CHR 0x9A, CHR 0x80],
     [CHR 0xE2, CHR 0x80, CHR 0x80], [CHR 0xE2, CHR 0x80, CHR 0x81],
     [CHR 0xE2, CHR 0x80, CHR 0x82], [CHR 0xE2, CHR 0x80, CHR 0x83],
     [CHR 0xE2, CHR 0x80, CHR 0x84], [CHR 0xE2, CHR 0x80, CHR 0x85],
     [CHR 0xE2, CHR 0x80, CHR 0x86], [CHR 0xE2, CHR 0x80, CHR 0x87],
     [CHR 0xE2, CHR 0x80, CHR 0x88], [CHR 0xE2, CHR 0x80, CHR 0x89],
     [CHR 0xE2, CHR 0x80, CHR 0x8A], [CHR 0xE2, CHR 0x80, CHR 0xA8],
     [CHR 0xE2, CHR 0x80, CHR 0xA9], [CHR 0xE2, CHR 0x80, CHR 0xAF],
     [CHR 0xE2, CHR 0x81, CHR 0x9F], [CHR 0xE3, CHR 0x80, CHR 0x80]]"

text \<open>Length of the sequence of \<open>seqs\<close> that starts \<open>s\<close>, if one does.\<close>

fun lead_seq :: "string list \<Rightarrow> string \<Rightarrow> nat option" where
  "lead_seq [] s = None"
| "lead_seq (p # ps) s = (if hasPrefix s p then Some (length p) else lead_seq ps s)"

lemma lead_seq_in: "lead_seq ps s = Some n \<Longrightarrow> \<exists>p\<in>set ps. hasPrefix s p \<and> n = length p"
  by (induction ps) (auto split: if_splits)

function strip_seqs :: "string list \<Rightarrow> string \<Rightarrow> string" where
  "strip_seqs ps s =
     (case lead_seq ps s of
        None \<Rightarrow> s
      | Some n \<Rightarrow> if n = 0 then s else strip_seqs ps (drop n s))"
  by pat_completeness auto
termination
proof (relation "measure (\<lambda>(ps, s). length s)", simp)
  fix ps s n
  assume "lead_seq ps s = Some n" "n \<noteq> 0"
  then have "n \<le> length s" "0 < n"
    by (auto dest!: lead_seq_in simp: hasPrefix_iff)
  then show "((ps, drop n s), (ps, s)) \<in> measure (\<lambda>(ps, s). length s)" by simp
qed

declare strip_seqs.simps [simp del]

definition trimLeftSpace :: "string \<Rightarrow> string" where
  "trimLeftSpace s = strip_seqs space_seqs s"

definition trimRightSpace :: "string \<Rightarrow> string" where
  "trimRightSpace s = rev (strip_seqs (map rev space_seqs) (rev s))"

definition trimSpace :: "string \<Rightarrow> string" where
  "trimSpace s = trimRightSpace (trimLeftSpace s)"

lemma lead_seq_None: "lead_seq ps s = None \<longleftrightarrow> (\<forall>p\<in>set ps. \<not> hasPrefix s p)"
  by (induction ps) auto

lemma strip_seqs_fix: "lead_seq ps s = None \<Longrightarrow> strip_seqs ps s = s"
  by (simp add: strip_seqs.simps)

lemma strip_seqs_suffix: "\<exists>t. s = t @ strip_seqs ps s"
proof (induction ps s rule: strip_seqs.induct)
  case (1 ps s)
  show ?case
  proof (cases "\<exists>n. lead_seq ps s = Some n \<and> n \<noteq> 0")
    case True
    then obtain n where n: "lead_seq ps s = Some n" "n \<noteq> 0" by blast
    with "1.IH" obtain t where "drop n s = t @ strip_seqs ps (drop n s)" by blast
    then have "s = (take n s @ t) @ strip_seqs ps (drop n s)"
      by (metis append.assoc append_take_drop_id)
    moreover have "strip_seqs ps s = strip_seqs ps (drop n s)"
      using n by (simp add: strip_seqs.simps [of ps s])
    ultimately show ?thesis by metis
  next
    case False
    then show ?thesis by (auto simp: strip_seqs.simps [of ps s] split: option.splits)
  qed
qed

lemma strip_seqs_done:
  "[] \<notin> set ps \<Longrightarrow> lead_seq ps (strip_seqs ps s) = None"
proof (induction ps s rule: strip_seqs.induct)
  case (1 ps s)
  show ?case
  proof (cases "lead_seq ps s")
    case None
    then show ?thesis by (simp add: strip_seqs_fix)
  next
    case (Some n)
    then have "n \<noteq> 0" using "1.prems" by (auto dest!: lead_seq_in)
    with Some 1 show ?thesis by (simp add: strip_seqs.simps [of ps s])
  qed
qed

lemma length_trimSpace: "length (trimSpace s) \<le> length s"
proof -
  obtain t where "s = t @ trimLeftSpace s"
    using strip_seqs_suffix [of s space_seqs] by (auto simp: trimLeftSpace_def)
  then have a: "length (trimLeftSpace s) \<le> length s" by (metis length_append le_add2)
  obtain u where "rev (trimLeftSpace s) = u @ strip_seqs (map rev space_seqs) (rev (trimLeftSpace s))"
    using strip_seqs_suffix by blast
  then have "length (trimSpace s) \<le> length (trimLeftSpace s)"
    unfolding trimSpace_def trimRightSpace_def by (metis length_append length_rev le_add2)
  with a show ?thesis by simp
qed

text \<open>\<open>strings.Fields\<close>; a string with its leading space cut off starts with a word.\<close>

fun word_len :: "string \<Rightarrow> nat" where
  "word_len [] = 0"
| "word_len (c # s) = (if lead_seq space_seqs (c # s) \<noteq> None then 0 else Suc (word_len s))"

lemma length_trimLeftSpace: "length (trimLeftSpace s) \<le> length s"
  using strip_seqs_suffix [of s space_seqs] by (metis length_append le_add2 trimLeftSpace_def)

function str_fields :: "string \<Rightarrow> string list" where
  "str_fields s = (let t = trimLeftSpace s; n = word_len t in
     if n = 0 then [] else take n t # str_fields (drop n t))"
  by pat_completeness auto
termination
proof (relation "measure length", simp)
  fix s t n
  assume t: "t = trimLeftSpace s" and n: "n = word_len t" "n \<noteq> 0"
  have "0 < length t" using n word_len.simps(1) by (metis length_greater_0_conv)
  moreover have "length t \<le> length s" using length_trimLeftSpace [of s] t by simp
  ultimately have "length t - n < length s" using n(2) by linarith
  then show "(drop n t, s) \<in> measure length" by simp
qed

declare str_fields.simps [simp del]

subsection \<open>Case mapping\<close>

definition char_lower :: "char \<Rightarrow> char" where
  "char_lower c = (if 65 \<le> (of_char c :: nat) \<and> (of_char c :: nat) \<le> 90
     then char_of ((of_char c :: nat) + 32) else c)"

definition char_upper :: "char \<Rightarrow> char" where
  "char_upper c = (if 97 \<le> (of_char c :: nat) \<and> (of_char c :: nat) \<le> 122
     then char_of ((of_char c :: nat) - 32) else c)"

definition is_ascii :: "string \<Rightarrow> bool" where
  "is_ascii s \<longleftrightarrow> (\<forall>c\<in>set s. (of_char c :: nat) < 128)"

text \<open>
  \<open>strings.ToLower\<close>, as far as the comparisons of the SDK can see it: ASCII letters, the
  Kelvin sign and the dotted capital I are mapped, U+023A grows from two bytes to three,
  every other character outside ASCII stays a character outside ASCII.
\<close>

fun toLower :: "string \<Rightarrow> string" where
  "toLower [] = []"
| "toLower (c # s) =
     (if hasPrefix (c # s) [CHR 0xE2, CHR 0x84, CHR 0xAA] then CHR ''k'' # toLower (drop 2 s)
      else if hasPrefix (c # s) [CHR 0xC4, CHR 0xB0] then CHR ''i'' # toLower (drop 1 s)
      else if hasPrefix (c # s) [CHR 0xC8, CHR 0xBA]
        then CHR 0xE2 # CHR 0xB1 # CHR 0xA5 # toLower (drop 1 s)
      else char_lower c # toLower s)"

lemma is_ascii_Cons [simp]: "is_ascii (c # s) \<longleftrightarrow> (of_char c :: nat) < 128 \<and> is_ascii s"
  by (auto simp: is_ascii_def)

lemma is_ascii_Nil [simp]: "is_ascii []"
  by (simp add: is_ascii_def)

lemma is_ascii_append [simp]: "is_ascii (s @ t) \<longleftrightarrow> is_ascii s \<and> is_ascii t"
  by (auto simp: is_ascii_def)

lemma is_ascii_drop: "is_ascii s \<Longrightarrow> is_ascii (drop n s)"
  by (auto simp: is_ascii_def dest: in_set_dropD)

lemma is_ascii_take: "is_ascii s \<Longrightarrow> is_ascii (take n s)"
  by (auto simp: is_ascii_def dest: in_set_takeD)

lemma toLower_ascii: "is_ascii s \<Longrightarrow> toLower s = map char_lower s"
proof (induction s)
  case (Cons c s)
  then have "c \<noteq> CHR 0xE2" "c \<noteq> CHR 0xC4" "c \<noteq> CHR 0xC8" by auto
  with Cons show ?case by simp
qed simp

lemma length_toLower_ascii: "is_ascii s \<Longrightarrow> length (toLower s) = length s"
  by (simp add: toLower_ascii)

text \<open>
  \<open>strings.EqualFold\<close> and the field-name folding of \<open>encoding/json\<close> against an ASCII name:
  the long s and the Kelvin sign fold to ASCII letters, all else outside ASCII to itself.
\<close>

fun foldName :: "string \<Rightarrow> string" where
  "foldName [] = []"
| "foldName (c # s) =
     (if hasPrefix (c # s) [CHR 0xE2, CHR 0x84, CHR 0xAA] then CHR ''K'' # foldName (drop 2 s)
      else if hasPrefix (c # s) [CHR 0xC5, CHR 0xBF] then CHR ''S'' # foldName (drop 1 s)
      else char_upper c # foldName s)"

definition equalFold :: "string \<Rightarrow> string \<Rightarrow> bool" where
  "equalFold s t \<longleftrightarrow> foldName s = foldName t"

subsection \<open>Formatting\<close>

definition digit_char :: "nat \<Rightarrow> char" where
  "digit_char d = char_of (48 + d)"

fun show_nat :: "nat \<Rightarrow> string" where
  "show_nat n = (if n < 10 then [digit_char n] else show_nat (n div 10) @ [digit_char (n mod 10)])"

declare show_nat.simps [simp del]

definition show_int :: "int \<Rightarrow> string" where
  "show_int i = (if i < 0 then ''-'' @ show_nat (nat (- i)) else show_nat (nat i))"

fun read_nat :: "nat \<Rightarrow> string \<Rightarrow> nat option" where
  "read_nat acc [] = Some acc"
| "read_nat acc (c # s) =
     (if 48 \<le> (of_char c :: nat) \<and> (of_char c :: nat) \<le> 57
      then read_nat (10 * acc + ((of_char c :: nat) - 48)) s else None)"

lemma of_digit_char: "d < 10 \<Longrightarrow> (of_char (digit_char d) :: nat) = 48 + d"
  by (simp add: digit_char_def)

lemma read_nat_append:
  "read_nat acc (s @ t) = (case read_nat acc s of None \<Rightarrow> None | Some a \<Rightarrow> read_nat a t)"
  by (induction s arbitrary: acc) auto

lemma read_show_nat: "read_nat 0 (show_nat n) = Some n"
proof (induction n rule: show_nat.induct)
  case (1 n)
  show ?case
  proof (cases "n < 10")
    case True
    then show ?thesis by (simp add: show_nat.simps [of n] of_digit_char)
  next
    case False
    with "1.IH" have "read_nat 0 (show_nat (n div 10)) = Some (n div 10)" by simp
    with False show ?thesis
      by (simp add: show_nat.simps [of n] read_nat_append of_digit_char)
  qed
qed

lemma show_nat_inj: "show_nat m = show_nat n \<Longrightarrow> m = n"
  by (metis read_show_nat option.inject)

definition hex_digit :: "nat \<Rightarrow> char" where
  "hex_digit d = (if d < 10 then char_of (48 + d) else char_of (87 + d))"

text \<open>\<open>strconv.Quote\<close>: control characters are escaped, the rest is kept.\<close>

definition quote_char :: "char \<Rightarrow> string" where
  "quote_char c = (let n = of_char c :: nat in
     if n = 34 then [CHR 92, CHR 34]
     else if n = 92 then [CHR 92, CHR 92]
     else if n = 7 then [CHR 92, CHR ''a''] else if n = 8 then [CHR 92, CHR ''b'']
     else if n = 9 then [CHR 92, CHR ''t''] else if n = 10 then [CHR 92, CHR ''n'']
     else if n = 11 then [CHR 92, CHR ''v''] else if n = 12 then [CHR 92, CHR ''f'']
     else if n = 13 then [CHR 92, CHR ''r'']
     else if n < 32 \<or> n = 127 then [CHR 92, CHR ''x'', hex_digit (n div 16), hex_digit (n mod 16)]
     else [c])"

definition go_quote :: "string \<Rightarrow> string" where
  "go_quote s = [CHR 34] @ concat (map quote_char s) @ [CHR 34]"

fun str_join :: "string \<Rightarrow> string list \<Rightarrow> string" where
  "str_join sep [] = []"
| "str_join sep [x] = x"
| "str_join sep (x # y # xs) = x @ sep @ str_join sep (y # xs)"

definition orDefault :: "string \<Rightarrow> string \<Rightarrow> string" where
  "orDefault value fallback = (if value = [] then fallback else value)"

end
