(* ===== verification/Go_Json.thy ===== *)
theory Go_Json
  imports Go_Strings
begin

text \<open>
  The part of \<open>encoding/json\<close> the SDK uses. A \<open>json.RawMessage\<close> is the value it holds:
  \<open>None\<close> is the empty message (\<open>len(raw) == 0\<close>), \<open>Some v\<close> the canonical text of \<open>v\<close>, the
  text \<open>json.Marshal\<close> writes. Decoding into a struct follows the package: members are matched
  by folded name, a later member overwrites an earlier one, \<open>null\<close> leaves a field as it is,
  a value of another type is an error.
\<close>

datatype json =
    JNull
  | JBool bool
  | JNum string
  | JStr string
  | JArr "json list"
  | JObj "(string \<times> json) list"

type_synonym raw = "json option"
type_synonym members = "(string \<times> json) list"

subsection \<open>Encoding\<close>

definition json_char :: "char \<Rightarrow> string" where
  "json_char c = (let n = of_char c :: nat in
     if n = 34 then [CHR 92, CHR 34] else if n = 92 then [CHR 92, CHR 92]
     else if n = 8 then [CHR 92, CHR ''b''] else if n = 12 then [CHR 92, CHR ''f'']
     else if n = 10 then [CHR 92, CHR ''n''] else if n = 13 then [CHR 92, CHR ''r'']
     else if n = 9 then [CHR 92, CHR ''t'']
     else if n < 32 \<or> n = 60 \<or> n = 62 \<or> n = 38
       then [CHR 92, CHR ''u'', CHR ''0'', CHR ''0'', hex_digit (n div 16), hex_digit (n mod 16)]
     else [c])"

fun json_chars :: "string \<Rightarrow> string" where
  "json_chars [] = []"
| "json_chars (c # s) =
     (if hasPrefix (c # s) [CHR 0xE2, CHR 0x80, CHR 0xA8]
        then CHR 92 # ''u2028'' @ json_chars (drop 2 s)
      else if hasPrefix (c # s) [CHR 0xE2, CHR 0x80, CHR 0xA9]
        then CHR 92 # ''u2029'' @ json_chars (drop 2 s)
      else json_char c @ json_chars s)"

definition json_string :: "string \<Rightarrow> string" where
  "json_string s = [CHR 34] @ json_chars s @ [CHR 34]"

fun json_text :: "json \<Rightarrow> string"
and json_texts :: "json list \<Rightarrow> string list"
and json_member_texts :: "members \<Rightarrow> string list" where
  "json_text JNull = ''null''"
| "json_text (JBool b) = (if b then ''true'' else ''false'')"
| "json_text (JNum n) = n"
| "json_text (JStr s) = json_string s"
| "json_text (JArr xs) = ''['' @ str_join '','' (json_texts xs) @ '']''"
| "json_text (JObj ms) = ''{'' @ str_join '','' (json_member_texts ms) @ ''}''"
| "json_texts [] = []"
| "json_texts (x # xs) = json_text x # json_texts xs"
| "json_member_texts [] = []"
| "json_member_texts ((k, v) # ms) = (json_string k @ '':'' @ json_text v) # json_member_texts ms"

definition raw_len :: "raw \<Rightarrow> nat" where
  "raw_len r = (case r of None \<Rightarrow> 0 | Some v \<Rightarrow> length (json_text v))"

subsection \<open>Decoding into a struct\<close>

text \<open>The members a struct is filled from; \<open>None\<close> when \<open>json.Unmarshal\<close> fails at once.\<close>

definition struct_members :: "raw \<Rightarrow> members option" where
  "struct_members r = (case r of
     Some JNull \<Rightarrow> Some []
   | Some (JObj ms) \<Rightarrow> Some ms
   | _ \<Rightarrow> None)"

abbreviation is_field :: "string \<Rightarrow> string \<Rightarrow> bool" where
  "is_field name key \<equiv> foldName key = foldName name"

fun dec_string :: "string \<Rightarrow> string \<Rightarrow> members \<Rightarrow> string option" where
  "dec_string name acc [] = Some acc"
| "dec_string name acc ((k, v) # ms) =
     (if is_field name k then
        (case v of JStr s \<Rightarrow> dec_string name s ms
         | JNull \<Rightarrow> dec_string name acc ms
         | _ \<Rightarrow> None)
      else dec_string name acc ms)"

fun dec_bool :: "string \<Rightarrow> bool \<Rightarrow> members \<Rightarrow> bool option" where
  "dec_bool name acc [] = Some acc"
| "dec_bool name acc ((k, v) # ms) =
     (if is_field name k then
        (case v of JBool b \<Rightarrow> dec_bool name b ms
         | JNull \<Rightarrow> dec_bool name acc ms
         | _ \<Rightarrow> None)
      else dec_bool name acc ms)"

text \<open>Integer fields take a literal \<open>strconv.ParseInt\<close> accepts, in the range of \<open>int64\<close>.\<close>

definition parse_int64 :: "string \<Rightarrow> int option" where
  "parse_int64 s = (case s of
       [] \<Rightarrow> None
     | c # t \<Rightarrow>
        (if c = CHR ''-'' then
           (case (if t = [] then None else read_nat 0 t) of
              Some n \<Rightarrow> if n \<le> 2 ^ 63 then Some (- int n) else None
            | None \<Rightarrow> None)
         else (case read_nat 0 s of
              Some n \<Rightarrow> if n < 2 ^ 63 then Some (int n) else None
            | None \<Rightarrow> None)))"

fun dec_int :: "string \<Rightarrow> int \<Rightarrow> members \<Rightarrow> int option" where
  "dec_int name acc [] = Some acc"
| "dec_int name acc ((k, v) # ms) =
     (if is_field name k then
        (case v of
           JNum t \<Rightarrow> (case parse_int64 t of Some i \<Rightarrow> dec_int name i ms | None \<Rightarrow> None)
         | JNull \<Rightarrow> dec_int name acc ms
         | _ \<Rightarrow> None)
      else dec_int name acc ms)"

text \<open>Pointer fields: \<open>null\<close> resets the pointer.\<close>

fun dec_int_ptr :: "string \<Rightarrow> int option \<Rightarrow> members \<Rightarrow> int option option" where
  "dec_int_ptr name acc [] = Some acc"
| "dec_int_ptr name acc ((k, v) # ms) =
     (if is_field name k then
        (case v of
           JNum t \<Rightarrow> (case parse_int64 t of Some i \<Rightarrow> dec_int_ptr name (Some i) ms | None \<Rightarrow> None)
         | JNull \<Rightarrow> dec_int_ptr name None ms
         | _ \<Rightarrow> None)
      else dec_int_ptr name acc ms)"

fun dec_string_ptr :: "string \<Rightarrow> string option \<Rightarrow> members \<Rightarrow> string option option" where
  "dec_string_ptr name acc [] = Some acc"
| "dec_string_ptr name acc ((k, v) # ms) =
     (if is_field name k then
        (case v of JStr s \<Rightarrow> dec_string_ptr name (Some s) ms
         | JNull \<Rightarrow> dec_string_ptr name None ms
         | _ \<Rightarrow> None)
      else dec_string_ptr name acc ms)"

text \<open>\<open>json.RawMessage\<close> and \<open>any\<close> fields keep the last value given; \<open>any\<close> reads \<open>null\<close> as nil.\<close>

fun dec_raw :: "string \<Rightarrow> raw \<Rightarrow> members \<Rightarrow> raw" where
  "dec_raw name acc [] = acc"
| "dec_raw name acc ((k, v) # ms) = dec_raw name (if is_field name k then Some v else acc) ms"

definition dec_any :: "string \<Rightarrow> members \<Rightarrow> json option" where
  "dec_any name ms = (case dec_raw name None ms of Some JNull \<Rightarrow> None | r \<Rightarrow> r)"

text \<open>
  A nested struct, by value or by pointer. \<open>f\<close> decodes the members into the struct already
  there, as the package does when a name is repeated; for a pointer the struct starts zero.
\<close>

fun dec_struct :: "(members \<Rightarrow> 'a \<Rightarrow> 'a option) \<Rightarrow> string \<Rightarrow> 'a \<Rightarrow> members \<Rightarrow> 'a option" where
  "dec_struct f name acc [] = Some acc"
| "dec_struct f name acc ((k, v) # ms) =
     (if is_field name k then
        (case v of
           JObj fs \<Rightarrow> (case f fs acc of Some x \<Rightarrow> dec_struct f name x ms | None \<Rightarrow> None)
         | JNull \<Rightarrow> dec_struct f name acc ms
         | _ \<Rightarrow> None)
      else dec_struct f name acc ms)"

fun dec_struct_ptr ::
  "(members \<Rightarrow> 'a \<Rightarrow> 'a option) \<Rightarrow> 'a \<Rightarrow> string \<Rightarrow> 'a option \<Rightarrow> members \<Rightarrow> 'a option option" where
  "dec_struct_ptr f zero name acc [] = Some acc"
| "dec_struct_ptr f zero name acc ((k, v) # ms) =
     (if is_field name k then
        (case v of
           JObj fs \<Rightarrow>
             (case f fs (case acc of Some a \<Rightarrow> a | None \<Rightarrow> zero) of
                Some x \<Rightarrow> dec_struct_ptr f zero name (Some x) ms
              | None \<Rightarrow> None)
         | JNull \<Rightarrow> dec_struct_ptr f zero name None ms
         | _ \<Rightarrow> None)
      else dec_struct_ptr f zero name acc ms)"

lemma dec_string_absent [simp]:
  "\<forall>k\<in>fst ` set ms. \<not> is_field name k \<Longrightarrow> dec_string name acc ms = Some acc"
  by (induction ms arbitrary: acc) auto

lemma dec_raw_absent [simp]:
  "\<forall>k\<in>fst ` set ms. \<not> is_field name k \<Longrightarrow> dec_raw name acc ms = acc"
  by (induction ms arbitrary: acc) auto

end
