(* ===== verification/Go_Errors.thy ===== *)
theory Go_Errors
  imports Go_Json
begin

text \<open>
  Go \<open>error\<close> values. A package-level sentinel is identified by its text, an error built at a
  call site carries its rendered text, \<open>fmt.Errorf\<close> with \<open>%w\<close> also the errors it wraps, and
  the JSON-RPC errors of both packages keep their fields.
\<close>

record rpc =
  Code :: int
  Message :: string
  Data :: raw

text \<open>The public RPC error types, all embedding \<open>*RPCError\<close>; \<open>RPCError\<close> itself is plain.\<close>

datatype rpc_class =
    PlainRPC | ParseError | InvalidRequestError | MethodNotFoundError | InvalidParamsError
  | InternalRPCError | ServerRPCError | ServerBusyError | RetryLimitExceededError

datatype go_error =
    Sentinel string
  | Text string
  | Wrapped string "go_error list"
  | AppRPC rpc
  | RPC rpc_class rpc

definition AppErrTransportClosed :: go_error where
  "AppErrTransportClosed = Sentinel ''appserver: transport closed''"

definition AppErrLimitExceeded :: go_error where
  "AppErrLimitExceeded = Sentinel ''appserver: limit exceeded''"

definition ErrTransportClosed :: go_error where
  "ErrTransportClosed = Sentinel ''codex: transport closed''"

definition ErrLimitExceeded :: go_error where
  "ErrLimitExceeded = Sentinel ''codex: limit exceeded''"

definition ErrStreamClosed :: go_error where
  "ErrStreamClosed = Sentinel ''codex: stream closed''"

abbreviation io_EOF :: go_error where
  "io_EOF \<equiv> Sentinel ''EOF''"

abbreviation io_ErrUnexpectedEOF :: go_error where
  "io_ErrUnexpectedEOF \<equiv> Sentinel ''unexpected EOF''"

abbreviation context_Canceled :: go_error where
  "context_Canceled \<equiv> Sentinel ''context canceled''"

definition app_rpc_text :: "rpc \<Rightarrow> string" where
  "app_rpc_text e = ''appserver: json-rpc error '' @ show_int (Code e) @ '': '' @ Message e"

definition rpc_text :: "rpc \<Rightarrow> string" where
  "rpc_text e = ''codex: json-rpc error '' @ show_int (Code e) @ '': '' @ Message e"

fun err_text :: "go_error \<Rightarrow> string" where
  "err_text (Sentinel s) = s"
| "err_text (Text s) = s"
| "err_text (Wrapped s es) = s"
| "err_text (AppRPC e) = app_rpc_text e"
| "err_text (RPC c e) = rpc_text e"

text \<open>\<open>errors.Is\<close>: the error or one it wraps, depth first. Sentinels compare by identity.\<close>

fun errors_Is :: "go_error \<Rightarrow> go_error \<Rightarrow> bool"
and errors_Is_any :: "go_error list \<Rightarrow> go_error \<Rightarrow> bool" where
  "errors_Is (Wrapped s es) t \<longleftrightarrow> errors_Is_any es t"
| "errors_Is (Sentinel s) t \<longleftrightarrow> t = Sentinel s"
| "errors_Is (Text s) t \<longleftrightarrow> False"
| "errors_Is (AppRPC e) t \<longleftrightarrow> False"
| "errors_Is (RPC c e) t \<longleftrightarrow> False"
| "errors_Is_any [] t \<longleftrightarrow> False"
| "errors_Is_any (e # es) t \<longleftrightarrow> errors_Is e t \<or> errors_Is_any es t"

text \<open>\<open>errors.As\<close> for \<open>*appserver.RPCError\<close>.\<close>

fun as_app_rpc :: "go_error \<Rightarrow> rpc option"
and as_app_rpc_any :: "go_error list \<Rightarrow> rpc option" where
  "as_app_rpc (Wrapped s es) = as_app_rpc_any es"
| "as_app_rpc (AppRPC e) = Some e"
| "as_app_rpc (Sentinel s) = None"
| "as_app_rpc (Text s) = None"
| "as_app_rpc (RPC c e) = None"
| "as_app_rpc_any [] = None"
| "as_app_rpc_any (e # es) = (case as_app_rpc e of Some r \<Rightarrow> Some r | None \<Rightarrow> as_app_rpc_any es)"

text \<open>
  \<open>errors.As\<close> for one of the public RPC error types. Each wrapper type unwraps to its
  \<open>*RPCError\<close>, so asking for the plain type succeeds on every RPC error.
\<close>

fun as_rpc :: "rpc_class \<Rightarrow> go_error \<Rightarrow> rpc option"
and as_rpc_any :: "rpc_class \<Rightarrow> go_error list \<Rightarrow> rpc option" where
  "as_rpc c (Wrapped s es) = as_rpc_any c es"
| "as_rpc c (RPC d e) = (if c = d \<or> c = PlainRPC then Some e else None)"
| "as_rpc c (AppRPC e) = None"
| "as_rpc c (Sentinel s) = None"
| "as_rpc c (Text s) = None"
| "as_rpc_any c [] = None"
| "as_rpc_any c (e # es) = (case as_rpc c e of Some r \<Rightarrow> Some r | None \<Rightarrow> as_rpc_any c es)"

definition invalid_request :: "string \<Rightarrow> go_error" where
  "invalid_request msg =
     RPC InvalidRequestError \<lparr>Code = - 32600, Message = msg, Data = None\<rparr>"

definition nil_context :: go_error where
  "nil_context = Text ''codex: nil context''"

lemmas sentinel_defs =
  AppErrTransportClosed_def AppErrLimitExceeded_def ErrTransportClosed_def ErrLimitExceeded_def
  ErrStreamClosed_def

end
