(* ===== verification/Router.thy ===== *)
theory Router
  imports Go_Errors
begin

text \<open>
  \<open>internal/router/router.go\<close>: the demultiplexer between the one reader of the app-server's
  output and the consumers of responses and notifications. The four route maps and the four
  sets of closed identifiers are functions of the route kind (what \<open>routeMaps\<close> selects);
  \<open>*routeState\<close> pointers are addresses of a heap, because \<open>releaseRouteItem\<close> compares them;
  response channels are addresses of a second heap.
\<close>

section \<open>Data\<close>

record Limits =
  MaxResponseWaiters :: int
  MaxRouteEvents :: int
  MaxRouteBytes :: int
  MaxGlobalEvents :: int
  MaxGlobalBytes :: int
  MaxTotalEvents :: int
  MaxTotalBytes :: int

definition mib :: int where
  "mib = 1024 * 1024"

definition DefaultLimits :: Limits where
  "DefaultLimits = \<lparr>MaxResponseWaiters = 1024, MaxRouteEvents = 256, MaxRouteBytes = 8 * mib,
     MaxGlobalEvents = 1024, MaxGlobalBytes = 32 * mib, MaxTotalEvents = 4096,
     MaxTotalBytes = 64 * mib\<rparr>"

definition normalizeLimits :: "Limits \<Rightarrow> Limits" where
  "normalizeLimits l =
    \<lparr>MaxResponseWaiters = (if MaxResponseWaiters l \<le> 0 then MaxResponseWaiters DefaultLimits else MaxResponseWaiters l),
     MaxRouteEvents = (if MaxRouteEvents l \<le> 0 then MaxRouteEvents DefaultLimits else MaxRouteEvents l),
     MaxRouteBytes = (if MaxRouteBytes l \<le> 0 then MaxRouteBytes DefaultLimits else MaxRouteBytes l),
     MaxGlobalEvents = (if MaxGlobalEvents l \<le> 0 then MaxGlobalEvents DefaultLimits else MaxGlobalEvents l),
     MaxGlobalBytes = (if MaxGlobalBytes l \<le> 0 then MaxGlobalBytes DefaultLimits else MaxGlobalBytes l),
     MaxTotalEvents = (if MaxTotalEvents l \<le> 0 then MaxTotalEvents DefaultLimits else MaxTotalEvents l),
     MaxTotalBytes = (if MaxTotalBytes l \<le> 0 then MaxTotalBytes DefaultLimits else MaxTotalBytes l)\<rparr>"

definition DefaultLimitsIfZero :: "Limits \<Rightarrow> Limits" where
  "DefaultLimitsIfZero l = normalizeLimits l"

record Response =
  Result :: raw
  RespErr :: "go_error option"

record routeItem =
  Raw :: raw
  ItemErr :: "go_error option"
  Size :: int

record routeState =
  queue :: "routeItem list option"
  pending :: "routeItem list"
  events :: int
  bytes :: int

definition new_routeState :: routeState where
  "new_routeState = \<lparr>queue = None, pending = [], events = 0, bytes = 0\<rparr>"

datatype routeKind = loginRoute | turnRoute | goalRoute | compactionRoute

definition all_kinds :: "routeKind list" where
  "all_kinds = [loginRoute, turnRoute, goalRoute, compactionRoute]"

type_synonym addr = nat

record MessageRouter =
  limits :: Limits
  failed :: "go_error option"
  responseWaiters :: "addr gomap"
  routes :: "routeKind \<Rightarrow> addr gomap"
  closed :: "routeKind \<Rightarrow> string set"
  globalQueue :: "routeItem list"
  globalEvents :: int
  globalBytes :: int
  totalEvents :: int
  totalBytes :: int
  routeHeap :: "addr \<Rightarrow> routeState"
  waiterHeap :: "addr \<Rightarrow> Response list"
  nextRouteAddr :: addr
  nextWaiterAddr :: addr

definition New :: "Limits \<Rightarrow> MessageRouter" where
  "New l = \<lparr>limits = normalizeLimits l, failed = None, responseWaiters = [],
     routes = (\<lambda>_. []), closed = (\<lambda>_. {}), globalQueue = [], globalEvents = 0,
     globalBytes = 0, totalEvents = 0, totalBytes = 0,
     routeHeap = (\<lambda>_. new_routeState), waiterHeap = (\<lambda>_. []),
     nextRouteAddr = 0, nextWaiterAddr = 0\<rparr>"

abbreviation route_cap :: "MessageRouter \<Rightarrow> nat" where
  "route_cap r \<equiv> nat (MaxRouteEvents (limits r))"

abbreviation global_cap :: "MessageRouter \<Rightarrow> nat" where
  "global_cap r \<equiv> nat (MaxGlobalEvents (limits r))"

section \<open>Response waiters\<close>

definition CreateResponseWaiter :: "string \<Rightarrow> MessageRouter \<Rightarrow> MessageRouter \<times> (go_error + addr)" where
  "CreateResponseWaiter rid r =
    (case failed r of
       Some e \<Rightarrow> (r, Inl e)
     | None \<Rightarrow>
        if map_of (responseWaiters r) rid \<noteq> None
        then (r, Inl (Text (''router: response waiter '' @ go_quote rid @ '' already registered'')))
        else if int (length (responseWaiters r)) \<ge> MaxResponseWaiters (limits r)
        then (r, Inl (Text ''router: response waiter limit exceeded''))
        else let w = nextWaiterAddr r in
          (r\<lparr>responseWaiters := AList.update rid w (responseWaiters r),
             waiterHeap := (waiterHeap r)(w := []), nextWaiterAddr := Suc w\<rparr>, Inr w))"

definition DiscardResponseWaiter :: "string \<Rightarrow> MessageRouter \<Rightarrow> MessageRouter" where
  "DiscardResponseWaiter rid r = r\<lparr>responseWaiters := AList.delete rid (responseWaiters r)\<rparr>"

text \<open>
  \<open>RouteResponse\<close> takes the waiter out of the map under the lock and sends after unlocking:
  two atomic parts. The send is on a channel of capacity one and blocks when it is full.
\<close>

definition takeWaiter :: "string \<Rightarrow> MessageRouter \<Rightarrow> MessageRouter \<times> addr option" where
  "takeWaiter rid r = (r\<lparr>responseWaiters := AList.delete rid (responseWaiters r)\<rparr>,
     map_of (responseWaiters r) rid)"

definition sendResponse :: "addr \<Rightarrow> Response \<Rightarrow> MessageRouter \<Rightarrow> MessageRouter option" where
  "sendResponse w resp r = map_option (\<lambda>q. r\<lparr>waiterHeap := (waiterHeap r)(w := q)\<rparr>)
     (chan_send 1 (waiterHeap r w) resp)"

definition RouteResponse :: "string \<Rightarrow> raw \<Rightarrow> go_error option \<Rightarrow> MessageRouter \<Rightarrow> MessageRouter option" where
  "RouteResponse rid res err r =
    (case takeWaiter rid r of
       (r', None) \<Rightarrow> Some r'
     | (r', Some w) \<Rightarrow> sendResponse w \<lparr>Result = res, RespErr = err\<rparr> r')"

section \<open>Routes\<close>

text \<open>
  The lines \<open>state := routes[id]; if state == nil { ... }\<close> of both \<open>registerRoute\<close> and
  \<open>routeScoped\<close>: the address in the map, a fresh zero state when there is none.
\<close>

definition ensureRoute :: "string \<Rightarrow> routeKind \<Rightarrow> MessageRouter \<Rightarrow> MessageRouter \<times> addr" where
  "ensureRoute rid k r =
    (case map_of (routes r k) rid of
       Some a \<Rightarrow> (r, a)
     | None \<Rightarrow> let a = nextRouteAddr r in
         (r\<lparr>routes := (routes r)(k := AList.update rid a (routes r k)),
            routeHeap := (routeHeap r)(a := new_routeState), nextRouteAddr := Suc a\<rparr>, a))"

text \<open>
  \<open>registerRoute\<close>. \<open>None\<close>: the replay of early notifications would block on a full channel
  while the router's mutex is held.
\<close>

definition registerRoute :: "string \<Rightarrow> routeKind \<Rightarrow> MessageRouter \<Rightarrow> (MessageRouter \<times> go_error option) option" where
  "registerRoute rid k r =
    (case failed r of
       Some e \<Rightarrow> Some (r, Some e)
     | None \<Rightarrow>
        let r1 = r\<lparr>closed := (closed r)(k := closed r k - {rid})\<rparr>;
            (r2, a) = ensureRoute rid k r1;
            st = routeHeap r2 a
        in if queue st \<noteq> None then Some (r2, None)
           else (case chan_send_all (route_cap r2) [] (pending st) of
               None \<Rightarrow> None
             | Some q \<Rightarrow> Some (r2\<lparr>routeHeap := (routeHeap r2)(a := st\<lparr>queue := Some q, pending := []\<rparr>)\<rparr>, None)))"

definition unregisterRoute :: "string \<Rightarrow> routeKind \<Rightarrow> MessageRouter \<Rightarrow> MessageRouter" where
  "unregisterRoute rid k r =
    (let r1 = (case map_of (routes r k) rid of
         Some a \<Rightarrow> r\<lparr>totalEvents := totalEvents r - events (routeHeap r a),
                     totalBytes := totalBytes r - bytes (routeHeap r a)\<rparr>
       | None \<Rightarrow> r)
     in r1\<lparr>routes := (routes r1)(k := AList.delete rid (routes r1 k)),
           closed := (closed r1)(k := insert rid (closed r1 k))\<rparr>)"

definition reserveTotal :: "int \<Rightarrow> MessageRouter \<Rightarrow> go_error + MessageRouter" where
  "reserveTotal sz r =
    (if totalEvents r + 1 > MaxTotalEvents (limits r) then Inl (Text ''router: total event limit exceeded'')
     else if totalBytes r + sz > MaxTotalBytes (limits r) then Inl (Text ''router: total byte limit exceeded'')
     else Inr (r\<lparr>totalEvents := totalEvents r + 1, totalBytes := totalBytes r + sz\<rparr>))"

text \<open>
  \<open>routeScoped\<close>. A limit error leaves an empty state registered in the map, as the code does.
  \<open>None\<close>: the send would block under the mutex.
\<close>

definition routeScoped :: "string \<Rightarrow> routeItem \<Rightarrow> routeKind \<Rightarrow> bool \<Rightarrow> MessageRouter \<Rightarrow> (MessageRouter \<times> go_error option) option" where
  "routeScoped rid item k onlyIfRegistered r =
    (case failed r of
       Some e \<Rightarrow> Some (r, Some e)
     | None \<Rightarrow>
        if rid \<in> closed r k then Some (r, None)
        else if onlyIfRegistered \<and> map_of (routes r k) rid = None then Some (r, None)
        else
         (let (r1, a) = ensureRoute rid k r;
              st = routeHeap r1 a
          in if events st + 1 > MaxRouteEvents (limits r1)
             then Some (r1, Some (Text (''router: route event limit exceeded for '' @ go_quote rid)))
             else if bytes st + Size item > MaxRouteBytes (limits r1)
             then Some (r1, Some (Text (''router: route byte limit exceeded for '' @ go_quote rid)))
             else (case reserveTotal (Size item) r1 of
                 Inl e \<Rightarrow> Some (r1, Some e)
               | Inr r2 \<Rightarrow>
                  let st2 = st\<lparr>events := events st + 1, bytes := bytes st + Size item\<rparr>
                  in case queue st of
                      None \<Rightarrow> Some (r2\<lparr>routeHeap := (routeHeap r2)(a := st2\<lparr>pending := pending st @ [item]\<rparr>)\<rparr>, None)
                    | Some q \<Rightarrow>
                       (case chan_send (route_cap r2) q item of
                          None \<Rightarrow> None
                        | Some q' \<Rightarrow> Some (r2\<lparr>routeHeap := (routeHeap r2)(a := st2\<lparr>queue := Some q'\<rparr>)\<rparr>, None)))))"

text \<open>The last part of \<open>RouteNotification\<close>: the queue of notifications with no scope.\<close>

definition routeGlobal :: "routeItem \<Rightarrow> MessageRouter \<Rightarrow> (MessageRouter \<times> go_error option) option" where
  "routeGlobal item r =
    (case failed r of
       Some e \<Rightarrow> Some (r, Some e)
     | None \<Rightarrow>
        if globalEvents r + 1 > MaxGlobalEvents (limits r)
        then Some (r, Some (Text ''router: global event limit exceeded''))
        else if globalBytes r + Size item > MaxGlobalBytes (limits r)
        then Some (r, Some (Text ''router: global byte limit exceeded''))
        else (case reserveTotal (Size item) r of
            Inl e \<Rightarrow> Some (r, Some e)
          | Inr r1 \<Rightarrow>
             (case chan_send (global_cap r1) (globalQueue r1) item of
                None \<Rightarrow> None
              | Some q \<Rightarrow> Some (r1\<lparr>globalEvents := globalEvents r1 + 1,
                    globalBytes := globalBytes r1 + Size item, globalQueue := q\<rparr>, None))))"

section \<open>Which route a notification takes\<close>

definition goalRelevantMethod :: "string \<Rightarrow> bool" where
  "goalRelevantMethod m \<longleftrightarrow> m \<in> {''thread/goal/updated'', ''thread/goal/cleared'',
     ''turn/started'', ''turn/completed'', ''turn/failed''}"

definition notificationTurnID :: "raw \<Rightarrow> string" where
  "notificationTurnID r =
    (case struct_members r of
       None \<Rightarrow> ''''
     | Some ms \<Rightarrow>
        (case (dec_string ''turnId'' '''' ms,
               dec_struct_ptr (\<lambda>fs i. dec_string ''id'' i fs) '''' ''turn'' None ms) of
           (Some tid, Some turn) \<Rightarrow>
             if tid \<noteq> '''' then tid else (case turn of Some i \<Rightarrow> i | None \<Rightarrow> '''')
         | _ \<Rightarrow> ''''))"

definition notificationLoginID :: "string \<Rightarrow> raw \<Rightarrow> string" where
  "notificationLoginID method r =
    (if method \<noteq> ''account/login/completed'' then ''''
     else case struct_members r of
        None \<Rightarrow> ''''
      | Some ms \<Rightarrow> (case dec_string ''loginId'' '''' ms of Some i \<Rightarrow> i | None \<Rightarrow> ''''))"

definition notificationThreadID :: "raw \<Rightarrow> string" where
  "notificationThreadID r =
    (case struct_members r of
        None \<Rightarrow> ''''
      | Some ms \<Rightarrow> (case dec_string ''threadId'' '''' ms of Some i \<Rightarrow> i | None \<Rightarrow> ''''))"

text \<open>\<open>json.Marshal\<close> of the envelope cannot fail on these values; an empty \<open>params\<close> is \<open>null\<close>.\<close>

definition notificationEnvelope :: "string \<Rightarrow> raw \<Rightarrow> json" where
  "notificationEnvelope method params =
     JObj [(''method'', JStr method), (''params'', case params of Some p \<Rightarrow> p | None \<Rightarrow> JNull)]"

definition notificationItem :: "string \<Rightarrow> raw \<Rightarrow> routeItem" where
  "notificationItem method params =
     \<lparr>Raw = Some (notificationEnvelope method params), ItemErr = None,
      Size = int (raw_len (Some (notificationEnvelope method params)))\<rparr>"

definition RouteNotification :: "string \<Rightarrow> raw \<Rightarrow> MessageRouter \<Rightarrow> (MessageRouter \<times> go_error option) option" where
  "RouteNotification method params r =
    (let item = notificationItem method params;
         threadID = notificationThreadID params;
         loginID = notificationLoginID method params;
         turnID = notificationTurnID params
     in if method = ''thread/compacted'' \<and> threadID \<noteq> ''''
        then routeScoped threadID item compactionRoute False r
        else if loginID \<noteq> '''' then routeScoped loginID item loginRoute False r
        else
         (case (if turnID \<noteq> '''' then routeScoped turnID item turnRoute False r else Some (r, None)) of
            None \<Rightarrow> None
          | Some (r1, Some e) \<Rightarrow> Some (r1, Some e)
          | Some (r1, None) \<Rightarrow>
             (case (if threadID \<noteq> '''' \<and> goalRelevantMethod method
                    then routeScoped threadID item goalRoute True r1 else Some (r1, None)) of
                None \<Rightarrow> None
              | Some (r2, Some e) \<Rightarrow> Some (r2, Some e)
              | Some (r2, None) \<Rightarrow> if turnID \<noteq> '''' then Some (r2, None) else routeGlobal item r2)))"

section \<open>Consumers\<close>

text \<open>
  A consumer looks its route up under the lock, receives from the channel outside the lock and
  then takes the lock again to release the accounting: three atomic parts. \<open>lookupRoute\<close> is
  the first; it hands out the pointer and the failure seen.
\<close>

definition kind_name :: "routeKind \<Rightarrow> string" where
  "kind_name k = (case k of loginRoute \<Rightarrow> ''login'' | turnRoute \<Rightarrow> ''turn''
     | goalRoute \<Rightarrow> ''goal'' | compactionRoute \<Rightarrow> ''compaction'')"

definition lookupRoute :: "string \<Rightarrow> routeKind \<Rightarrow> MessageRouter \<Rightarrow> go_error + (addr \<times> go_error option)" where
  "lookupRoute rid k r =
    (case map_of (routes r k) rid of
       Some a \<Rightarrow>
         if queue (routeHeap r a) = None
         then Inl (Text (''router: '' @ kind_name k @ '' '' @ go_quote rid @ '' is not registered''))
         else Inr (a, failed r)
     | None \<Rightarrow> Inl (Text (''router: '' @ kind_name k @ '' '' @ go_quote rid @ '' is not registered'')))"

definition recvRoute :: "addr \<Rightarrow> MessageRouter \<Rightarrow> (routeItem \<times> MessageRouter) option" where
  "recvRoute a r =
    (case queue (routeHeap r a) of
       None \<Rightarrow> None
     | Some q \<Rightarrow>
        (case chan_recv q of
           None \<Rightarrow> None
         | Some (item, q') \<Rightarrow>
            Some (item, r\<lparr>routeHeap := (routeHeap r)(a := (routeHeap r a)\<lparr>queue := Some q'\<rparr>)\<rparr>)))"

definition releaseRouteItem :: "string \<Rightarrow> addr \<Rightarrow> routeKind \<Rightarrow> int \<Rightarrow> MessageRouter \<Rightarrow> MessageRouter" where
  "releaseRouteItem rid a k sz r =
    (if map_of (routes r k) rid = Some a
     then r\<lparr>routeHeap := (routeHeap r)(a := (routeHeap r a)\<lparr>events := events (routeHeap r a) - 1,
                bytes := bytes (routeHeap r a) - sz\<rparr>),
            totalEvents := totalEvents r - 1, totalBytes := totalBytes r - sz\<rparr>
     else r)"

definition releaseGlobal :: "int \<Rightarrow> MessageRouter \<Rightarrow> MessageRouter" where
  "releaseGlobal sz r = r\<lparr>globalEvents := globalEvents r - 1, globalBytes := globalBytes r - sz,
     totalEvents := totalEvents r - 1, totalBytes := totalBytes r - sz\<rparr>"

definition recvGlobal :: "MessageRouter \<Rightarrow> (routeItem \<times> MessageRouter) option" where
  "recvGlobal r = (case chan_recv (globalQueue r) of
      None \<Rightarrow> None
    | Some (item, q) \<Rightarrow> Some (item, r\<lparr>globalQueue := q\<rparr>))"

text \<open>
  What a consumer gets: an item, an error, or nothing yet (it stays in the final \<open>select\<close>).
  \<open>ctxErr\<close> is \<open>ctx.Err()\<close> when the context is done.
\<close>

datatype next_result = Got raw "go_error option" | NextErr go_error | Waits

definition tryNextRoute :: "string \<Rightarrow> addr \<Rightarrow> routeKind \<Rightarrow> MessageRouter \<Rightarrow> (routeItem \<times> MessageRouter) option" where
  "tryNextRoute rid a k r = map_option (\<lambda>(item, r'). (item, releaseRouteItem rid a k (Size item) r')) (recvRoute a r)"

definition nextRoute :: "string \<Rightarrow> routeKind \<Rightarrow> go_error option \<Rightarrow> MessageRouter \<Rightarrow> MessageRouter \<times> next_result" where
  "nextRoute rid k ctxErr r =
    (case lookupRoute rid k r of
       Inl e \<Rightarrow> (r, NextErr e)
     | Inr (a, fl) \<Rightarrow>
        (case tryNextRoute rid a k r of
           Some (item, r') \<Rightarrow> (r', Got (Raw item) (ItemErr item))
         | None \<Rightarrow>
            (case fl of
               Some e \<Rightarrow> (r, NextErr e)
             | None \<Rightarrow> (case ctxErr of Some e \<Rightarrow> (r, NextErr e) | None \<Rightarrow> (r, Waits)))))"

definition tryNextGlobal :: "MessageRouter \<Rightarrow> (routeItem \<times> MessageRouter) option" where
  "tryNextGlobal r = map_option (\<lambda>(item, r'). (item, releaseGlobal (Size item) r')) (recvGlobal r)"

definition NextGlobal :: "go_error option \<Rightarrow> MessageRouter \<Rightarrow> MessageRouter \<times> next_result" where
  "NextGlobal ctxErr r =
    (case tryNextGlobal r of
       Some (item, r') \<Rightarrow> (r', Got (Raw item) (ItemErr item))
     | None \<Rightarrow>
        (case failed r of
           Some e \<Rightarrow> (r, NextErr e)
         | None \<Rightarrow> (case ctxErr of Some e \<Rightarrow> (r, NextErr e) | None \<Rightarrow> (r, Waits))))"

section \<open>Failure\<close>

text \<open>
  \<open>FailAll\<close>: the part under the lock records the failure and takes a snapshot of the waiters
  and of the registered queues; the sends follow outside the lock. Sends to route queues and to
  the global queue never block, they drop the item when the buffer is full.
\<close>

definition failure_of :: "go_error option \<Rightarrow> go_error" where
  "failure_of e = (case e of Some e \<Rightarrow> e | None \<Rightarrow> Text ''router: failed'')"

definition routeQueuesSnapshot :: "MessageRouter \<Rightarrow> routeKind \<Rightarrow> addr list" where
  "routeQueuesSnapshot r k = filter (\<lambda>a. queue (routeHeap r a) \<noteq> None) (map snd (routes r k))"

definition failAll_lock :: "go_error option \<Rightarrow> MessageRouter \<Rightarrow> (MessageRouter \<times> addr list \<times> addr list) option" where
  "failAll_lock err r =
    (case failed r of
       Some _ \<Rightarrow> None
     | None \<Rightarrow> Some (r\<lparr>failed := Some (failure_of err), responseWaiters := []\<rparr>,
         map snd (responseWaiters r), concat (map (routeQueuesSnapshot r) all_kinds)))"

definition failItem :: "go_error \<Rightarrow> routeItem" where
  "failItem e = \<lparr>Raw = None, ItemErr = Some e, Size = 0\<rparr>"

definition failQueue :: "go_error \<Rightarrow> addr \<Rightarrow> MessageRouter \<Rightarrow> MessageRouter" where
  "failQueue e a r =
    (case queue (routeHeap r a) of
       None \<Rightarrow> r
     | Some q \<Rightarrow> r\<lparr>routeHeap := (routeHeap r)(a :=
         (routeHeap r a)\<lparr>queue := Some (chan_try_send (route_cap r) q (failItem e))\<rparr>)\<rparr>)"

definition failGlobal :: "go_error \<Rightarrow> MessageRouter \<Rightarrow> MessageRouter" where
  "failGlobal e r = r\<lparr>globalQueue := chan_try_send (global_cap r) (globalQueue r) (failItem e)\<rparr>"

fun sendResponses :: "addr list \<Rightarrow> Response \<Rightarrow> MessageRouter \<Rightarrow> MessageRouter option" where
  "sendResponses [] resp r = Some r"
| "sendResponses (w # ws) resp r =
     (case sendResponse w resp r of None \<Rightarrow> None | Some r' \<Rightarrow> sendResponses ws resp r')"

definition FailAll :: "go_error option \<Rightarrow> MessageRouter \<Rightarrow> MessageRouter option" where
  "FailAll err r =
    (case failAll_lock err r of
       None \<Rightarrow> Some r
     | Some (r1, ws, qs) \<Rightarrow>
        (case sendResponses ws \<lparr>Result = None, RespErr = Some (failure_of err)\<rparr> r1 of
           None \<Rightarrow> None
         | Some r2 \<Rightarrow> Some (failGlobal (failure_of err) (fold (failQueue (failure_of err)) qs r2))))"

end
