(* ===== verification/Router_Inv.thy ===== *)
theory Router_Inv
  imports Router
begin

text \<open>
  The router as a concurrent system: every critical section and every channel operation is one
  step, consumers that have received an item and not yet released it are part of the state, and
  so are senders that hold a response channel. The invariant says how the counters, the queues
  and these goroutines agree; from it follow the bounds and that no send ever blocks.
\<close>

named_theorems router_inv \<open>preservation of the router invariant\<close>

section \<open>System states and steps\<close>

record rsys =
  rt :: MessageRouter
  waiting :: "(routeKind \<times> string \<times> addr) list"
  recvd :: "(routeKind \<times> string \<times> addr \<times> int) list"
  grecvd :: "int list"
  senders :: "(addr \<times> Response) list"
  failing :: "(addr option \<times> go_error) list"
  sent :: "addr list"

definition init_sys :: "Limits \<Rightarrow> rsys" where
  "init_sys l = \<lparr>rt = New l, waiting = [], recvd = [], grecvd = [], senders = [], failing = [], sent = []\<rparr>"

inductive rstep :: "rsys \<Rightarrow> rsys \<Rightarrow> bool" where
  create: "rstep s (s\<lparr>rt := fst (CreateResponseWaiter i (rt s))\<rparr>)"
| discard: "rstep s (s\<lparr>rt := DiscardResponseWaiter i (rt s)\<rparr>)"
| take: "takeWaiter i (rt s) = (r', Some w) \<Longrightarrow>
    rstep s (s\<lparr>rt := r', senders := (w, resp) # senders s\<rparr>)"
| take_none: "takeWaiter i (rt s) = (r', None) \<Longrightarrow> rstep s (s\<lparr>rt := r'\<rparr>)"
| send: "senders s = xs @ (w, resp) # ys \<Longrightarrow> sendResponse w resp (rt s) = Some r' \<Longrightarrow>
    rstep s (s\<lparr>rt := r', senders := xs @ ys, sent := w # sent s\<rparr>)"
| await: "waiterHeap (rt s) w = resp # q \<Longrightarrow>
    rstep s (s\<lparr>rt := (rt s)\<lparr>waiterHeap := (waiterHeap (rt s))(w := q)\<rparr>\<rparr>)"
| register: "registerRoute i k (rt s) = Some (r', e) \<Longrightarrow> rstep s (s\<lparr>rt := r'\<rparr>)"
| unregister: "rstep s (s\<lparr>rt := unregisterRoute i k (rt s)\<rparr>)"
| scoped: "0 \<le> Size item \<Longrightarrow> routeScoped i item k only (rt s) = Some (r', e) \<Longrightarrow>
    rstep s (s\<lparr>rt := r'\<rparr>)"
| global: "0 \<le> Size item \<Longrightarrow> routeGlobal item (rt s) = Some (r', e) \<Longrightarrow> rstep s (s\<lparr>rt := r'\<rparr>)"
| lookup: "lookupRoute i k (rt s) = Inr (a, fl) \<Longrightarrow>
    rstep s (s\<lparr>waiting := (k, i, a) # waiting s\<rparr>)"
| give_up: "waiting s = xs @ c # ys \<Longrightarrow> rstep s (s\<lparr>waiting := xs @ ys\<rparr>)"
| receive: "waiting s = xs @ (k, i, a) # ys \<Longrightarrow> recvRoute a (rt s) = Some (item, r') \<Longrightarrow>
    rstep s (s\<lparr>rt := r', waiting := xs @ ys, recvd := (k, i, a, Size item) # recvd s\<rparr>)"
| release: "recvd s = xs @ (k, i, a, z) # ys \<Longrightarrow>
    rstep s (s\<lparr>rt := releaseRouteItem i a k z (rt s), recvd := xs @ ys\<rparr>)"
| receive_global: "recvGlobal (rt s) = Some (item, r') \<Longrightarrow>
    rstep s (s\<lparr>rt := r', grecvd := Size item # grecvd s\<rparr>)"
| release_global: "grecvd s = xs @ z # ys \<Longrightarrow>
    rstep s (s\<lparr>rt := releaseGlobal z (rt s), grecvd := xs @ ys\<rparr>)"
| fail: "failAll_lock err (rt s) = Some (r', ws, qs) \<Longrightarrow>
    rstep s (s\<lparr>rt := r',
      senders := map (\<lambda>w. (w, \<lparr>Result = None, RespErr = Some (failure_of err)\<rparr>)) ws @ senders s,
      failing := map (\<lambda>a. (Some a, failure_of err)) qs @ [(None, failure_of err)]\<rparr>)"
| fail_queue: "failing s = (Some a, e) # fs \<Longrightarrow>
    rstep s (s\<lparr>rt := failQueue e a (rt s), failing := fs\<rparr>)"
| fail_global: "failing s = (None, e) # fs \<Longrightarrow>
    rstep s (s\<lparr>rt := failGlobal e (rt s), failing := fs\<rparr>)"

inductive rreach :: "Limits \<Rightarrow> rsys \<Rightarrow> bool" for l where
  start: "rreach l (init_sys l)"
| step: "rreach l s \<Longrightarrow> rstep s t \<Longrightarrow> rreach l t"

section \<open>The invariant\<close>

definition live :: "MessageRouter \<Rightarrow> addr set" where
  "live r = {a. \<exists>k i. map_of (routes r k) i = Some a}"

definition items :: "routeState \<Rightarrow> routeItem list" where
  "items st = (case queue st of None \<Rightarrow> pending st | Some q \<Rightarrow> q)"

definition sizes :: "routeItem list \<Rightarrow> int" where
  "sizes xs = sum_list (map Size xs)"

definition held :: "addr \<Rightarrow> (routeKind \<times> string \<times> addr \<times> int) list \<Rightarrow> int list" where
  "held a rc = map (\<lambda>(k, i, b, z). z) (filter (\<lambda>(k, i, b, z). b = a) rc)"

definition limits_pos :: "Limits \<Rightarrow> bool" where
  "limits_pos l \<longleftrightarrow> 0 < MaxResponseWaiters l \<and> 0 < MaxRouteEvents l \<and> 0 < MaxRouteBytes l \<and>
     0 < MaxGlobalEvents l \<and> 0 < MaxGlobalBytes l \<and> 0 < MaxTotalEvents l \<and> 0 < MaxTotalBytes l"

text \<open>Shape of the maps: distinct keys, addresses allocated, one owner per address.\<close>

definition routes_wf :: "MessageRouter \<Rightarrow> bool" where
  "routes_wf r \<longleftrightarrow> (\<forall>k. wf_map (routes r k)) \<and>
     (\<forall>k i a. map_of (routes r k) i = Some a \<longrightarrow> a < nextRouteAddr r) \<and>
     (\<forall>k i k' i' a. map_of (routes r k) i = Some a \<longrightarrow> map_of (routes r k') i' = Some a \<longrightarrow>
        k = k' \<and> i = i')"

text \<open>A goroutine's pointer belongs to the key it was looked up with.\<close>

definition owns :: "MessageRouter \<Rightarrow> routeKind \<Rightarrow> string \<Rightarrow> addr \<Rightarrow> bool" where
  "owns r k i a \<longleftrightarrow> a < nextRouteAddr r \<and>
     (\<forall>k' i'. map_of (routes r k') i' = Some a \<longrightarrow> k' = k \<and> i' = i)"

definition route_ok :: "Limits \<Rightarrow> routeState \<Rightarrow> int list \<Rightarrow> bool" where
  "route_ok l st zs \<longleftrightarrow>
     (queue st \<noteq> None \<longrightarrow> pending st = []) \<and>
     events st = int (length (items st)) + int (length zs) \<and>
     bytes st = sizes (items st) + sum_list zs \<and>
     (\<forall>x\<in>set (items st). 0 \<le> Size x) \<and> (\<forall>z\<in>set zs. 0 \<le> z) \<and>
     events st \<le> MaxRouteEvents l \<and> bytes st \<le> MaxRouteBytes l"

definition global_ok :: "MessageRouter \<Rightarrow> int list \<Rightarrow> bool" where
  "global_ok r zs \<longleftrightarrow>
     globalEvents r = int (length (globalQueue r)) + int (length zs) \<and>
     globalBytes r = sizes (globalQueue r) + sum_list zs \<and>
     (\<forall>x\<in>set (globalQueue r). 0 \<le> Size x) \<and> (\<forall>z\<in>set zs. 0 \<le> z) \<and>
     globalEvents r \<le> MaxGlobalEvents (limits r) \<and> globalBytes r \<le> MaxGlobalBytes (limits r)"

definition totals_ok :: "MessageRouter \<Rightarrow> bool" where
  "totals_ok r \<longleftrightarrow>
     totalEvents r = (\<Sum>a\<in>live r. events (routeHeap r a)) + globalEvents r \<and>
     totalBytes r = (\<Sum>a\<in>live r. bytes (routeHeap r a)) + globalBytes r \<and>
     totalEvents r \<le> MaxTotalEvents (limits r) \<and> totalBytes r \<le> MaxTotalBytes (limits r)"

definition acct :: "MessageRouter \<Rightarrow> (routeKind \<times> string \<times> addr \<times> int) list \<Rightarrow> int list \<Rightarrow> bool" where
  "acct r rc gc \<longleftrightarrow> (\<forall>a\<in>live r. route_ok (limits r) (routeHeap r a) (held a rc)) \<and>
     global_ok r gc \<and> totals_ok r"

definition waiters_ok :: "MessageRouter \<Rightarrow> (addr \<times> Response) list \<Rightarrow> addr list \<Rightarrow> bool" where
  "waiters_ok r sd st \<longleftrightarrow> wf_map (responseWaiters r) \<and>
     distinct (map snd (responseWaiters r) @ map fst sd @ st) \<and>
     (\<forall>w\<in>set (map snd (responseWaiters r) @ map fst sd @ st). w < nextWaiterAddr r) \<and>
     (\<forall>w\<in>set (map snd (responseWaiters r) @ map fst sd). waiterHeap r w = []) \<and>
     (\<forall>w. length (waiterHeap r w) \<le> 1) \<and>
     int (length (responseWaiters r)) \<le> MaxResponseWaiters (limits r)"

definition consumers_ok :: "rsys \<Rightarrow> bool" where
  "consumers_ok s \<longleftrightarrow>
     (\<forall>(k, i, a)\<in>set (waiting s). owns (rt s) k i a) \<and>
     (\<forall>(k, i, a, z)\<in>set (recvd s). owns (rt s) k i a)"

definition rinv :: "rsys \<Rightarrow> bool" where
  "rinv s \<longleftrightarrow> limits_pos (limits (rt s)) \<and> routes_wf (rt s) \<and> consumers_ok s \<and>
     waiters_ok (rt s) (senders s) (sent s) \<and>
     (failed (rt s) = None \<longrightarrow> failing s = [] \<and> acct (rt s) (recvd s) (grecvd s))"

section \<open>Preservation\<close>

subsection \<open>Lemmas on the parts\<close>

lemma normalizeLimits_pos: "limits_pos (normalizeLimits l)"
  by (simp add: limits_pos_def normalizeLimits_def DefaultLimits_def mib_def)

lemma live_finite: "routes_wf r \<Longrightarrow> finite (live r)"
  by (rule finite_subset [of _ "{..<nextRouteAddr r}"]) (auto simp: live_def routes_wf_def)

lemma liveI: "map_of (routes r k) i = Some a \<Longrightarrow> a \<in> live r"
  by (auto simp: live_def)

lemma live_cong [simp]:
  "live (r\<lparr>failed := f\<rparr>) = live r" "live (r\<lparr>responseWaiters := w\<rparr>) = live r"
  "live (r\<lparr>closed := c\<rparr>) = live r" "live (r\<lparr>globalQueue := q\<rparr>) = live r"
  "live (r\<lparr>globalEvents := n\<rparr>) = live r" "live (r\<lparr>globalBytes := n\<rparr>) = live r"
  "live (r\<lparr>totalEvents := n\<rparr>) = live r" "live (r\<lparr>totalBytes := n\<rparr>) = live r"
  "live (r\<lparr>routeHeap := h\<rparr>) = live r" "live (r\<lparr>waiterHeap := wh\<rparr>) = live r"
  "live (r\<lparr>nextRouteAddr := a\<rparr>) = live r" "live (r\<lparr>nextWaiterAddr := a\<rparr>) = live r"
  by (simp_all add: live_def)

lemma sizes_simps [simp]:
  "sizes [] = 0" "sizes (x # xs) = Size x + sizes xs" "sizes (xs @ ys) = sizes xs + sizes ys"
  by (simp_all add: sizes_def)

lemma sizes_nonneg: "\<forall>x\<in>set xs. 0 \<le> Size x \<Longrightarrow> 0 \<le> sizes xs"
  by (induction xs) auto

lemma sum_list_nonneg_int: "\<forall>z\<in>set zs. 0 \<le> z \<Longrightarrow> 0 \<le> sum_list (zs :: int list)"
  by (induction zs) auto

lemma held_simps [simp]:
  "held a [] = []"
  "held a ((k, i, b, z) # rc) = (if b = a then z # held a rc else held a rc)"
  "held a (xs @ ys) = held a xs @ held a ys"
  by (simp_all add: held_def)

text \<open>Changing the state at one live address changes a sum over the live addresses there only.\<close>

lemma sum_heap_upd:
  fixes g :: "routeState \<Rightarrow> int"
  assumes "finite L" "a \<in> L"
  shows "(\<Sum>x\<in>L. g ((h(a := v)) x)) = (\<Sum>x\<in>L. g (h x)) - g (h a) + g v"
proof -
  have "(\<Sum>x\<in>L. g ((h(a := v)) x)) = g v + (\<Sum>x\<in>L - {a}. g (h x))"
    using assms by (simp add: sum.remove [of L a])
  moreover have "(\<Sum>x\<in>L. g (h x)) = g (h a) + (\<Sum>x\<in>L - {a}. g (h x))"
    using assms by (simp add: sum.remove [of L a])
  ultimately show ?thesis by simp
qed

lemma sum_heap_insert:
  fixes g :: "routeState \<Rightarrow> int"
  assumes "finite L" "a \<notin> L"
  shows "(\<Sum>x\<in>insert a L. g ((h(a := v)) x)) = g v + (\<Sum>x\<in>L. g (h x))"
proof -
  have "(\<Sum>x\<in>L. g ((h(a := v)) x)) = (\<Sum>x\<in>L. g (h x))"
    by (rule sum.cong) (use assms in auto)
  with assms show ?thesis by simp
qed

text \<open>Each part of the invariant looks at some fields only.\<close>

lemma live_eq: "routes r' = routes r \<Longrightarrow> live r' = live r"
  by (simp add: live_def)

lemma routes_wf_cong:
  "routes_wf r \<Longrightarrow> routes r' = routes r \<Longrightarrow> nextRouteAddr r' = nextRouteAddr r \<Longrightarrow> routes_wf r'"
  by (simp add: routes_wf_def)

lemma owns_cong:
  "owns r k i a \<Longrightarrow> routes r' = routes r \<Longrightarrow> nextRouteAddr r' = nextRouteAddr r \<Longrightarrow> owns r' k i a"
  by (simp add: owns_def)

lemma routes_frame [simp]:
  "routes_wf (r\<lparr>routeHeap := h\<rparr>) = routes_wf r" "owns (r\<lparr>routeHeap := h\<rparr>) k i a = owns r k i a"
  "routes_wf (r\<lparr>closed := c\<rparr>) = routes_wf r" "owns (r\<lparr>closed := c\<rparr>) k i a = owns r k i a"
  "routes_wf (r\<lparr>totalEvents := n\<rparr>) = routes_wf r" "owns (r\<lparr>totalEvents := n\<rparr>) k i a = owns r k i a"
  "routes_wf (r\<lparr>totalBytes := n\<rparr>) = routes_wf r" "owns (r\<lparr>totalBytes := n\<rparr>) k i a = owns r k i a"
  "routes_wf (r\<lparr>globalEvents := n\<rparr>) = routes_wf r" "owns (r\<lparr>globalEvents := n\<rparr>) k i a = owns r k i a"
  "routes_wf (r\<lparr>globalBytes := n\<rparr>) = routes_wf r" "owns (r\<lparr>globalBytes := n\<rparr>) k i a = owns r k i a"
  "routes_wf (r\<lparr>globalQueue := q\<rparr>) = routes_wf r" "owns (r\<lparr>globalQueue := q\<rparr>) k i a = owns r k i a"
  "routes_wf (r\<lparr>responseWaiters := w\<rparr>) = routes_wf r" "owns (r\<lparr>responseWaiters := w\<rparr>) k i a = owns r k i a"
  "routes_wf (r\<lparr>waiterHeap := wh\<rparr>) = routes_wf r" "owns (r\<lparr>waiterHeap := wh\<rparr>) k i a = owns r k i a"
  "routes_wf (r\<lparr>nextWaiterAddr := w\<^sub>0\<rparr>) = routes_wf r" "owns (r\<lparr>nextWaiterAddr := w\<^sub>0\<rparr>) k i a = owns r k i a"
  "routes_wf (r\<lparr>failed := f\<rparr>) = routes_wf r" "owns (r\<lparr>failed := f\<rparr>) k i a = owns r k i a"
  by (simp_all add: routes_wf_def owns_def)

lemma waiters_ok_cong:
  "waiters_ok r sd st \<Longrightarrow> responseWaiters r' = responseWaiters r \<Longrightarrow> waiterHeap r' = waiterHeap r \<Longrightarrow>
   nextWaiterAddr r' = nextWaiterAddr r \<Longrightarrow> limits r' = limits r \<Longrightarrow> waiters_ok r' sd st"
  by (simp add: waiters_ok_def)

lemma global_ok_cong:
  "global_ok r gc \<Longrightarrow> globalQueue r' = globalQueue r \<Longrightarrow> globalEvents r' = globalEvents r \<Longrightarrow>
   globalBytes r' = globalBytes r \<Longrightarrow> limits r' = limits r \<Longrightarrow> global_ok r' gc"
  by (simp add: global_ok_def)

lemma acct_cong:
  assumes "acct r rc gc" "routes r' = routes r" "routeHeap r' = routeHeap r" "limits r' = limits r"
    "globalQueue r' = globalQueue r" "globalEvents r' = globalEvents r" "globalBytes r' = globalBytes r"
    "totalEvents r' = totalEvents r" "totalBytes r' = totalBytes r"
  shows "acct r' rc gc"
  using assms global_ok_cong [of r gc r']
  by (simp add: acct_def totals_ok_def live_eq [of r' r])

text \<open>A new state at one live address, the totals following it.\<close>

lemma acct_heap_upd:
  assumes acct: "acct r rc gc" and wf: "routes_wf r" and a: "a \<in> live r"
    and ok: "route_ok (limits r) st' (held a rc')"
    and others: "\<And>b. b \<noteq> a \<Longrightarrow> held b rc' = held b rc"
    and fields: "routes r' = routes r" "limits r' = limits r" "routeHeap r' = (routeHeap r)(a := st')"
      "globalQueue r' = globalQueue r" "globalEvents r' = globalEvents r" "globalBytes r' = globalBytes r"
      "totalEvents r' = totalEvents r + (events st' - events (routeHeap r a))"
      "totalBytes r' = totalBytes r + (bytes st' - bytes (routeHeap r a))"
    and bnd: "totalEvents r' \<le> MaxTotalEvents (limits r)" "totalBytes r' \<le> MaxTotalBytes (limits r)"
  shows "acct r' rc' gc"
proof -
  note fin = live_finite [OF wf]
  have l: "live r' = live r" by (rule live_eq) (rule fields(1))
  have "totals_ok r'"
    using acct bnd unfolding totals_ok_def acct_def l fields(2,3,5,6)
      sum_heap_upd [OF fin a] fields(7,8) by simp
  moreover have "global_ok r' gc"
    using acct fields by (auto simp: acct_def intro: global_ok_cong)
  moreover have "\<forall>b\<in>live r'. route_ok (limits r') (routeHeap r' b) (held b rc')"
    using acct ok others unfolding acct_def l fields(2,3) by auto
  ultimately show ?thesis by (simp add: acct_def)
qed

subsection \<open>Looking up or creating a route\<close>

lemma held_fresh: "\<forall>(k, i, b, z)\<in>set rc. b < n \<Longrightarrow> n \<le> a \<Longrightarrow> held a rc = []"
  by (induction rc) (auto split: if_splits)

lemma ensureRoute_fields:
  assumes "ensureRoute i k r = (r', a)"
  shows "limits r' = limits r" "failed r' = failed r" "responseWaiters r' = responseWaiters r"
    "closed r' = closed r" "waiterHeap r' = waiterHeap r" "nextWaiterAddr r' = nextWaiterAddr r"
    "globalQueue r' = globalQueue r" "globalEvents r' = globalEvents r" "globalBytes r' = globalBytes r"
    "totalEvents r' = totalEvents r" "totalBytes r' = totalBytes r"
    "map_of (routes r' k) i = Some a" "nextRouteAddr r \<le> nextRouteAddr r'"
  using assms by (auto simp: ensureRoute_def Let_def split: option.splits)

lemma ensureRoute_look:
  "ensureRoute i k r = (r', a) \<Longrightarrow>
     map_of (routes r' k') i' = (if k' = k \<and> i' = i then Some a else map_of (routes r k') i')"
  by (auto simp: ensureRoute_def Let_def split: option.splits)

lemma ensureRoute_maps: "ensureRoute i k r = (r', a) \<Longrightarrow> wf_map (routes r k') \<Longrightarrow> wf_map (routes r' k')"
  by (auto simp: ensureRoute_def Let_def split: option.splits)

lemma ensureRoute_keeps:
  "ensureRoute i k r = (r', a) \<Longrightarrow> map_of (routes r k') i' = Some b \<Longrightarrow> map_of (routes r' k') i' = Some b"
  by (auto simp: ensureRoute_def Let_def split: option.splits)

lemma ensureRoute_live:
  assumes e: "ensureRoute i k r = (r', a)"
  shows "live r' = insert a (live r)"
proof (intro equalityI subsetI)
  fix b assume "b \<in> live r'"
  then obtain k' i' where "map_of (routes r' k') i' = Some b" by (auto simp: live_def)
  then show "b \<in> insert a (live r)"
    by (auto simp: ensureRoute_look [OF e] intro: liveI split: if_splits)
next
  fix b assume b: "b \<in> insert a (live r)"
  show "b \<in> live r'"
  proof (cases "b = a")
    case True
    with liveI [OF ensureRoute_fields(12) [OF e]] show ?thesis by simp
  next
    case False
    with b obtain k' i' where "map_of (routes r k') i' = Some b" by (auto simp: live_def)
    from liveI [OF ensureRoute_keeps [OF e this]] show ?thesis .
  qed
qed

lemma ensureRoute_fresh:
  "ensureRoute i k r = (r', a) \<Longrightarrow> map_of (routes r k) i = None \<Longrightarrow>
     a = nextRouteAddr r \<and> routeHeap r' = (routeHeap r)(a := new_routeState) \<and> nextRouteAddr r' = Suc a"
  by (auto simp: ensureRoute_def Let_def)

lemma ensureRoute_old:
  "ensureRoute i k r = (r', a) \<Longrightarrow> map_of (routes r k) i = Some b \<Longrightarrow> r' = r \<and> a = b"
  by (auto simp: ensureRoute_def)

lemma ensureRoute_wf:
  assumes e: "ensureRoute i k r = (r', a)" and wf: "routes_wf r"
  shows "routes_wf r'"
proof (cases "map_of (routes r k) i")
  case (Some b)
  with ensureRoute_old [OF e] wf show ?thesis by simp
next
  case None
  note fresh = ensureRoute_fresh [OF e None]
  have "\<And>k' i' b. map_of (routes r k') i' = Some b \<Longrightarrow> b < a"
    using wf fresh by (auto simp: routes_wf_def)
  then show ?thesis
    using wf fresh ensureRoute_maps [OF e]
    by (auto simp: routes_wf_def ensureRoute_look [OF e] less_Suc_eq split: if_splits)
qed

lemma ensureRoute_owns:
  assumes "ensureRoute i k r = (r', a)" "owns r k' i' b"
  shows "owns r' k' i' b"
  using assms by (auto simp: ensureRoute_def Let_def owns_def split: option.splits if_splits)

lemma new_route_ok: "limits_pos l \<Longrightarrow> route_ok l new_routeState []"
  by (simp add: route_ok_def new_routeState_def items_def limits_pos_def)

lemma ensureRoute_acct:
  assumes e: "ensureRoute i k r = (r', a)" and wf: "routes_wf r" and acct: "acct r rc gc"
    and rc: "\<forall>(k, i, b, z)\<in>set rc. b < nextRouteAddr r" and pos: "limits_pos (limits r)"
  shows "acct r' rc gc"
proof (cases "map_of (routes r k) i")
  case (Some b)
  with ensureRoute_old [OF e] acct show ?thesis by simp
next
  case None
  note f = ensureRoute_fields [OF e] and fresh = ensureRoute_fresh [OF e None]
  from fresh have a: "a = nextRouteAddr r" and h: "routeHeap r' = (routeHeap r)(a := new_routeState)"
    by auto
  have notin: "a \<notin> live r" using wf a by (auto simp: routes_wf_def live_def)
  have fin: "finite (live r)" by (rule live_finite [OF wf])
  have l: "live r' = insert a (live r)" by (rule ensureRoute_live [OF e])
  have "held a rc = []" using rc a by (intro held_fresh [of _ "nextRouteAddr r"]) auto
  then have "route_ok (limits r') (routeHeap r' a) (held a rc)"
    using new_route_ok [OF pos] h f(1) by simp
  moreover have "(\<Sum>x\<in>live r'. events (routeHeap r' x)) = (\<Sum>x\<in>live r. events (routeHeap r x))"
    "(\<Sum>x\<in>live r'. bytes (routeHeap r' x)) = (\<Sum>x\<in>live r. bytes (routeHeap r x))"
    unfolding l h sum_heap_insert [OF fin notin] by (simp_all add: new_routeState_def)
  moreover have "\<forall>b\<in>live r. route_ok (limits r') (routeHeap r' b) (held b rc)"
    using acct notin unfolding acct_def h f(1) by auto
  moreover have "global_ok r' gc" using acct f by (auto simp: acct_def intro: global_ok_cong)
  ultimately show ?thesis
    using acct by (auto simp: acct_def totals_ok_def l f)
qed

subsection \<open>Registering\<close>

abbreviation reopen :: "string \<Rightarrow> routeKind \<Rightarrow> MessageRouter \<Rightarrow> MessageRouter" where
  "reopen i k r \<equiv> r\<lparr>closed := (closed r)(k := closed r k - {i})\<rparr>"

lemma registerRoute_failed: "failed r = Some x \<Longrightarrow> registerRoute i k r = Some (r, Some x)"
  by (simp add: registerRoute_def)

lemma items_register:
  "queue st = None \<Longrightarrow> items (st\<lparr>queue := Some (pending st), pending := []\<rparr>) = items st"
  by (simp add: items_def)

text \<open>
  On a router that has not failed, registering replays the early notifications into the new
  queue without blocking.
\<close>

lemma registerRoute_eq:
  assumes fl: "failed r = None" and wf: "routes_wf r" and acct: "acct r rc gc"
    and rc: "\<forall>(k, i, b, z)\<in>set rc. b < nextRouteAddr r" and pos: "limits_pos (limits r)"
    and e: "ensureRoute i k (reopen i k r) = (r2, a)"
  shows "registerRoute i k r = Some (case queue (routeHeap r2 a) of
      Some _ \<Rightarrow> r2
    | None \<Rightarrow> r2\<lparr>routeHeap := (routeHeap r2)(a := (routeHeap r2 a)
        \<lparr>queue := Some (pending (routeHeap r2 a)), pending := []\<rparr>)\<rparr>, None)"
proof (cases "queue (routeHeap r2 a)")
  case (Some q)
  with fl e show ?thesis by (simp add: registerRoute_def Let_def)
next
  case None
  have acct2: "acct r2 rc gc"
    by (rule ensureRoute_acct [OF e]) (use wf acct rc pos in \<open>auto intro: routes_wf_cong acct_cong\<close>)
  have "a \<in> live r2" using ensureRoute_live [OF e] by simp
  with acct2 have "route_ok (limits r2) (routeHeap r2 a) (held a rc)" by (simp add: acct_def)
  with None have "length (pending (routeHeap r2 a)) \<le> route_cap r2"
    by (auto simp: route_ok_def items_def)
  with None fl e show ?thesis
    by (simp add: registerRoute_def Let_def chan_send_all_eq)
qed

lemma registerRoute_inv:
  assumes fl: "failed r = None" and wf: "routes_wf r" and acct: "acct r rc gc"
    and rc: "\<forall>(k, i, b, z)\<in>set rc. b < nextRouteAddr r" and pos: "limits_pos (limits r)"
    and reg: "registerRoute i k r = Some (r', err)"
  shows "routes_wf r' \<and> acct r' rc gc \<and> (\<forall>k' i' b. owns r k' i' b \<longrightarrow> owns r' k' i' b) \<and>
    responseWaiters r' = responseWaiters r \<and> waiterHeap r' = waiterHeap r \<and>
    nextWaiterAddr r' = nextWaiterAddr r \<and> limits r' = limits r \<and> failed r' = None \<and> err = None"
proof -
  obtain r2 a where e: "ensureRoute i k (reopen i k r) = (r2, a)" by fastforce
  note f = ensureRoute_fields [OF e]
  have wf2: "routes_wf r2"
    by (rule ensureRoute_wf [OF e]) (rule routes_wf_cong [OF wf]; simp)
  have acct2: "acct r2 rc gc"
    by (rule ensureRoute_acct [OF e]) (use wf acct rc pos in \<open>auto intro: routes_wf_cong acct_cong\<close>)
  have own2: "owns r2 k' i' b" if "owns r k' i' b" for k' i' b
    by (rule ensureRoute_owns [OF e]) (rule owns_cong [OF that]; simp)
  have a: "a \<in> live r2" using ensureRoute_live [OF e] by simp
  have eq: "r' = (case queue (routeHeap r2 a) of
      Some _ \<Rightarrow> r2
    | None \<Rightarrow> r2\<lparr>routeHeap := (routeHeap r2)(a := (routeHeap r2 a)
        \<lparr>queue := Some (pending (routeHeap r2 a)), pending := []\<rparr>)\<rparr>)" "err = None"
    using registerRoute_eq [OF fl wf acct rc pos e] reg by auto
  show ?thesis
  proof (cases "queue (routeHeap r2 a)")
    case (Some q)
    with eq wf2 acct2 own2 f fl show ?thesis by simp
  next
    case None
    let ?st = "(routeHeap r2 a)\<lparr>queue := Some (pending (routeHeap r2 a)), pending := []\<rparr>"
    from None eq have r': "r' = r2\<lparr>routeHeap := (routeHeap r2)(a := ?st)\<rparr>" by simp
    have ok: "route_ok (limits r2) (routeHeap r2 a) (held a rc)" using acct2 a by (simp add: acct_def)
    have "acct r' rc gc"
    proof (rule acct_heap_upd [OF acct2 wf2 a, where st' = ?st])
      show "route_ok (limits r2) ?st (held a rc)"
        using ok None by (simp add: route_ok_def items_register)
    qed (use acct2 r' in \<open>auto simp: acct_def totals_ok_def\<close>)
    moreover have "routes_wf r'" "\<forall>k' i' b. owns r k' i' b \<longrightarrow> owns r' k' i' b"
      using wf2 own2 r' by simp_all
    ultimately show ?thesis using r' f fl eq(2) by simp
  qed
qed

subsection \<open>Unregistering\<close>

lemma unregisterRoute_look:
  "map_of (routes (unregisterRoute i k r) k') i' =
     (if k' = k \<and> i' = i then None else map_of (routes r k') i')"
  by (auto simp: unregisterRoute_def Let_def split: option.splits)

lemma unregisterRoute_fields:
  "limits (unregisterRoute i k r) = limits r" "failed (unregisterRoute i k r) = failed r"
  "responseWaiters (unregisterRoute i k r) = responseWaiters r"
  "waiterHeap (unregisterRoute i k r) = waiterHeap r"
  "nextWaiterAddr (unregisterRoute i k r) = nextWaiterAddr r"
  "nextRouteAddr (unregisterRoute i k r) = nextRouteAddr r"
  "routeHeap (unregisterRoute i k r) = routeHeap r"
  "globalQueue (unregisterRoute i k r) = globalQueue r"
  "globalEvents (unregisterRoute i k r) = globalEvents r"
  "globalBytes (unregisterRoute i k r) = globalBytes r"
  by (simp_all add: unregisterRoute_def Let_def split: option.splits)

lemma unregisterRoute_wf: "routes_wf r \<Longrightarrow> routes_wf (unregisterRoute i k r)"
proof -
  assume wf: "routes_wf r"
  have "wf_map (routes (unregisterRoute i k r) k')" for k'
    using wf by (auto simp: unregisterRoute_def Let_def routes_wf_def split: option.splits)
  then show ?thesis
    using wf by (auto simp: routes_wf_def unregisterRoute_look unregisterRoute_fields)
qed

lemma unregisterRoute_owns: "owns r k' i' b \<Longrightarrow> owns (unregisterRoute i k r) k' i' b"
  by (auto simp: owns_def unregisterRoute_look unregisterRoute_fields split: if_splits)

lemma unregisterRoute_live:
  assumes wf: "routes_wf r"
  shows "live (unregisterRoute i k r) = live r - (case map_of (routes r k) i of Some a \<Rightarrow> {a} | None \<Rightarrow> {})"
proof (intro equalityI subsetI)
  fix b assume "b \<in> live (unregisterRoute i k r)"
  then obtain k' i' where l: "map_of (routes r k') i' = Some b" "\<not> (k' = k \<and> i' = i)"
    by (auto simp: live_def unregisterRoute_look split: if_splits)
  then have "map_of (routes r k) i \<noteq> Some b" using wf unfolding routes_wf_def by blast
  with l show "b \<in> live r - (case map_of (routes r k) i of Some a \<Rightarrow> {a} | None \<Rightarrow> {})"
    by (auto intro: liveI split: option.splits)
next
  fix b assume "b \<in> live r - (case map_of (routes r k) i of Some a \<Rightarrow> {a} | None \<Rightarrow> {})"
  then obtain k' i' where "map_of (routes r k') i' = Some b" "map_of (routes r k) i \<noteq> Some b"
    by (auto simp: live_def split: option.splits)
  then have "map_of (routes (unregisterRoute i k r) k') i' = Some b"
    by (auto simp: unregisterRoute_look)
  then show "b \<in> live (unregisterRoute i k r)" by (rule liveI)
qed

lemma route_ok_nonneg: "route_ok l st zs \<Longrightarrow> 0 \<le> events st \<and> 0 \<le> bytes st"
  using sizes_nonneg [of "items st"] sum_list_nonneg_int [of zs] by (auto simp: route_ok_def)

lemma unregisterRoute_acct:
  assumes wf: "routes_wf r" and acct: "acct r rc gc"
  shows "acct (unregisterRoute i k r) rc gc"
proof -
  note fin = live_finite [OF wf]
  have g: "global_ok (unregisterRoute i k r) gc"
    using acct by (auto simp: acct_def unregisterRoute_fields intro: global_ok_cong)
  have rts: "\<forall>b\<in>live (unregisterRoute i k r).
      route_ok (limits (unregisterRoute i k r)) (routeHeap (unregisterRoute i k r) b) (held b rc)"
    using acct by (auto simp: acct_def unregisterRoute_live [OF wf] unregisterRoute_fields)
  have "totals_ok (unregisterRoute i k r)"
  proof (cases "map_of (routes r k) i")
    case None
    then show ?thesis using acct
      by (simp add: acct_def totals_ok_def unregisterRoute_live [OF wf] unregisterRoute_fields)
        (simp add: unregisterRoute_def)
  next
    case (Some a)
    then have a: "a \<in> live r" by (rule liveI)
    with acct have "0 \<le> events (routeHeap r a) \<and> 0 \<le> bytes (routeHeap r a)"
      by (auto simp: acct_def dest: route_ok_nonneg)
    moreover have "totalEvents (unregisterRoute i k r) = totalEvents r - events (routeHeap r a)"
      "totalBytes (unregisterRoute i k r) = totalBytes r - bytes (routeHeap r a)"
      using Some by (simp_all add: unregisterRoute_def)
    ultimately show ?thesis using acct a fin Some
      by (simp add: acct_def totals_ok_def unregisterRoute_live [OF wf] unregisterRoute_fields
          sum.remove [OF fin a])
  qed
  with g rts show ?thesis by (simp add: acct_def)
qed

subsection \<open>Routing\<close>

lemma routeScoped_failed: "failed r = Some x \<Longrightarrow> routeScoped i item k only r = Some (r, Some x)"
  by (simp add: routeScoped_def)

text \<open>The state an accepted item leaves in its route.\<close>

definition accept :: "routeItem \<Rightarrow> routeState \<Rightarrow> routeState" where
  "accept item st = (case queue st of
      None \<Rightarrow> st\<lparr>events := events st + 1, bytes := bytes st + Size item, pending := pending st @ [item]\<rparr>
    | Some q \<Rightarrow> st\<lparr>events := events st + 1, bytes := bytes st + Size item, queue := Some (q @ [item])\<rparr>)"

lemma accept_fields:
  "events (accept item st) = events st + 1" "bytes (accept item st) = bytes st + Size item"
  "items (accept item st) = items st @ [item]"
  "(queue (accept item st) = None) = (queue st = None)"
  "queue st \<noteq> None \<Longrightarrow> pending (accept item st) = pending st"
  by (auto simp: accept_def items_def split: option.splits)

lemma accept_ok:
  assumes "route_ok l st zs" "0 \<le> Size item" "events st + 1 \<le> MaxRouteEvents l"
    "bytes st + Size item \<le> MaxRouteBytes l"
  shows "route_ok l (accept item st) zs"
  using assms by (auto simp: route_ok_def accept_fields)

text \<open>Every way \<open>routeScoped\<close> ends on a router that has not failed; none of them blocks.\<close>

lemma routeScoped_cases:
  assumes fl: "failed r = None" and wf: "routes_wf r" and acct: "acct r rc gc"
    and rc: "\<forall>(k, i, b, z)\<in>set rc. b < nextRouteAddr r" and pos: "limits_pos (limits r)"
  obtains (dismissed) "routeScoped i item k only r = Some (r, None)"
      "i \<in> closed r k \<or> only \<and> map_of (routes r k) i = None"
    | (refused) r1 a e where "ensureRoute i k r = (r1, a)" "routeScoped i item k only r = Some (r1, Some e)"
        "i \<notin> closed r k" "\<not> (only \<and> map_of (routes r k) i = None)"
        "events (routeHeap r1 a) + 1 > MaxRouteEvents (limits r) \<or> bytes (routeHeap r1 a) + Size item > MaxRouteBytes (limits r) \<or>
         totalEvents r + 1 > MaxTotalEvents (limits r) \<or> totalBytes r + Size item > MaxTotalBytes (limits r)"
    | (accepted) r1 a where "ensureRoute i k r = (r1, a)"
        "i \<notin> closed r k" "\<not> (only \<and> map_of (routes r k) i = None)"
        "events (routeHeap r1 a) + 1 \<le> MaxRouteEvents (limits r)" "bytes (routeHeap r1 a) + Size item \<le> MaxRouteBytes (limits r)"
        "totalEvents r + 1 \<le> MaxTotalEvents (limits r)" "totalBytes r + Size item \<le> MaxTotalBytes (limits r)"
        "routeScoped i item k only r = Some (r1\<lparr>totalEvents := totalEvents r + 1, totalBytes := totalBytes r + Size item,
           routeHeap := (routeHeap r1)(a := accept item (routeHeap r1 a))\<rparr>, None)"
proof (cases "i \<in> closed r k \<or> only \<and> map_of (routes r k) i = None")
  case True
  with fl show ?thesis by (intro dismissed) (auto simp: routeScoped_def)
next
  case admitted: False
  obtain r1 a where e: "ensureRoute i k r = (r1, a)" by fastforce
  note f = ensureRoute_fields [OF e]
  have acct1: "acct r1 rc gc" by (rule ensureRoute_acct [OF e wf acct rc pos])
  have "a \<in> live r1" using ensureRoute_live [OF e] by simp
  with acct1 have ok: "route_ok (limits r) (routeHeap r1 a) (held a rc)" by (simp add: acct_def f)
  show ?thesis
  proof (cases "events (routeHeap r1 a) + 1 > MaxRouteEvents (limits r) \<or> bytes (routeHeap r1 a) + Size item > MaxRouteBytes (limits r) \<or>
         totalEvents r + 1 > MaxTotalEvents (limits r) \<or> totalBytes r + Size item > MaxTotalBytes (limits r)")
    case full: True
    then have "\<exists>err. routeScoped i item k only r = Some (r1, Some err)"
      using fl admitted e by (auto simp: routeScoped_def Let_def reserveTotal_def f)
    then obtain err where "routeScoped i item k only r = Some (r1, Some err)" ..
    with e admitted full show ?thesis by (intro refused) auto
  next
    case False
    have room: "length q < route_cap r1" if "queue (routeHeap r1 a) = Some q" for q
      using ok False that by (auto simp: route_ok_def items_def f)
    have "routeScoped i item k only r = Some (r1\<lparr>totalEvents := totalEvents r + 1, totalBytes := totalBytes r + Size item,
           routeHeap := (routeHeap r1)(a := accept item (routeHeap r1 a))\<rparr>, None)"
      using fl admitted e False room
      by (auto simp: routeScoped_def Let_def reserveTotal_def f accept_def chan_send_def split: option.splits)
    with e admitted False show ?thesis by (intro accepted) auto
  qed
qed

lemma routeScoped_inv:
  assumes fl: "failed r = None" and wf: "routes_wf r" and acct: "acct r rc gc"
    and rc: "\<forall>(k, i, b, z)\<in>set rc. b < nextRouteAddr r" and pos: "limits_pos (limits r)"
    and sz: "0 \<le> Size item" and res: "routeScoped i item k only r = Some (r', err)"
  shows "routes_wf r' \<and> acct r' rc gc \<and> (\<forall>k' i' b. owns r k' i' b \<longrightarrow> owns r' k' i' b) \<and>
    responseWaiters r' = responseWaiters r \<and> waiterHeap r' = waiterHeap r \<and>
    nextWaiterAddr r' = nextWaiterAddr r \<and> limits r' = limits r \<and> failed r' = None"
proof (rule routeScoped_cases [OF fl wf acct rc pos, of i item k only])
  assume "routeScoped i item k only r = Some (r, None)"
  with res wf acct fl show ?thesis by simp
next
  fix r1 a e
  assume e: "ensureRoute i k r = (r1, a)" and "routeScoped i item k only r = Some (r1, Some e)"
  with res have "r' = r1" by simp
  with ensureRoute_fields [OF e] ensureRoute_wf [OF e wf] ensureRoute_acct [OF e wf acct rc pos]
    ensureRoute_owns [OF e] fl show ?thesis by simp
next
  fix r1 a
  assume e: "ensureRoute i k r = (r1, a)"
    and lim: "events (routeHeap r1 a) + 1 \<le> MaxRouteEvents (limits r)" "bytes (routeHeap r1 a) + Size item \<le> MaxRouteBytes (limits r)"
      "totalEvents r + 1 \<le> MaxTotalEvents (limits r)" "totalBytes r + Size item \<le> MaxTotalBytes (limits r)"
    and "routeScoped i item k only r = Some (r1\<lparr>totalEvents := totalEvents r + 1, totalBytes := totalBytes r + Size item,
           routeHeap := (routeHeap r1)(a := accept item (routeHeap r1 a))\<rparr>, None)"
  with res have r': "r' = r1\<lparr>totalEvents := totalEvents r + 1, totalBytes := totalBytes r + Size item,
           routeHeap := (routeHeap r1)(a := accept item (routeHeap r1 a))\<rparr>" by simp
  note f = ensureRoute_fields [OF e]
  have wf1: "routes_wf r1" by (rule ensureRoute_wf [OF e wf])
  have acct1: "acct r1 rc gc" by (rule ensureRoute_acct [OF e wf acct rc pos])
  have a: "a \<in> live r1" using ensureRoute_live [OF e] by simp
  with acct1 have ok: "route_ok (limits r1) (routeHeap r1 a) (held a rc)" by (simp add: acct_def)
  have "acct r' rc gc"
    by (rule acct_heap_upd [OF acct1 wf1 a accept_ok [OF ok sz]])
      (use lim r' f in \<open>auto simp: accept_fields\<close>)
  with r' f wf1 ensureRoute_owns [OF e] fl show ?thesis by simp
qed

lemma routeGlobal_failed: "failed r = Some x \<Longrightarrow> routeGlobal item r = Some (r, Some x)"
  by (simp add: routeGlobal_def)

text \<open>The global queue accepts an item or refuses it by a limit; the send finds room.\<close>

lemma routeGlobal_eq:
  assumes fl: "failed r = None" and acct: "acct r rc gc"
  shows "\<exists>e. routeGlobal item r = Some (r, Some e) \<and>
      (globalEvents r + 1 > MaxGlobalEvents (limits r) \<or> globalBytes r + Size item > MaxGlobalBytes (limits r) \<or>
       totalEvents r + 1 > MaxTotalEvents (limits r) \<or> totalBytes r + Size item > MaxTotalBytes (limits r)) \<or>
    routeGlobal item r = Some (r\<lparr>globalEvents := globalEvents r + 1, globalBytes := globalBytes r + Size item,
      totalEvents := totalEvents r + 1, totalBytes := totalBytes r + Size item,
      globalQueue := globalQueue r @ [item]\<rparr>, None) \<and>
      globalEvents r + 1 \<le> MaxGlobalEvents (limits r) \<and> globalBytes r + Size item \<le> MaxGlobalBytes (limits r) \<and>
       totalEvents r + 1 \<le> MaxTotalEvents (limits r) \<and> totalBytes r + Size item \<le> MaxTotalBytes (limits r)"
proof (cases "globalEvents r + 1 > MaxGlobalEvents (limits r) \<or> globalBytes r + Size item > MaxGlobalBytes (limits r) \<or>
       totalEvents r + 1 > MaxTotalEvents (limits r) \<or> totalBytes r + Size item > MaxTotalBytes (limits r)")
  case True
  with fl show ?thesis by (auto simp: routeGlobal_def reserveTotal_def)
next
  case False
  with acct have "length (globalQueue r) < global_cap r" by (auto simp: acct_def global_ok_def)
  with fl False show ?thesis by (auto simp: routeGlobal_def reserveTotal_def chan_send_def)
qed

lemma routeGlobal_inv:
  assumes fl: "failed r = None" and acct: "acct r rc gc" and sz: "0 \<le> Size item"
    and res: "routeGlobal item r = Some (r', err)"
  shows "acct r' rc gc \<and> routes r' = routes r \<and> nextRouteAddr r' = nextRouteAddr r \<and>
    responseWaiters r' = responseWaiters r \<and> waiterHeap r' = waiterHeap r \<and>
    nextWaiterAddr r' = nextWaiterAddr r \<and> limits r' = limits r \<and> failed r' = None"
proof -
  from routeGlobal_eq [OF fl acct, of item] res have "r' = r \<or>
    r' = r\<lparr>globalEvents := globalEvents r + 1, globalBytes := globalBytes r + Size item,
      totalEvents := totalEvents r + 1, totalBytes := totalBytes r + Size item,
      globalQueue := globalQueue r @ [item]\<rparr> \<and>
      globalEvents r + 1 \<le> MaxGlobalEvents (limits r) \<and> globalBytes r + Size item \<le> MaxGlobalBytes (limits r) \<and>
       totalEvents r + 1 \<le> MaxTotalEvents (limits r) \<and> totalBytes r + Size item \<le> MaxTotalBytes (limits r)"
    by auto
  then show ?thesis
  proof
    assume "r' = r"
    with acct fl show ?thesis by simp
  next
    assume "r' = r\<lparr>globalEvents := globalEvents r + 1, globalBytes := globalBytes r + Size item,
      totalEvents := totalEvents r + 1, totalBytes := totalBytes r + Size item,
      globalQueue := globalQueue r @ [item]\<rparr> \<and>
      globalEvents r + 1 \<le> MaxGlobalEvents (limits r) \<and> globalBytes r + Size item \<le> MaxGlobalBytes (limits r) \<and>
       totalEvents r + 1 \<le> MaxTotalEvents (limits r) \<and> totalBytes r + Size item \<le> MaxTotalBytes (limits r)"
    with acct fl sz show ?thesis by (auto simp: acct_def global_ok_def totals_ok_def)
  qed
qed

subsection \<open>Receiving and releasing\<close>

lemma items_counters [simp]: "items (st\<lparr>events := e, bytes := b\<rparr>) = items st"
  by (simp add: items_def split: option.splits)

lemma recvRoute_Some:
  "recvRoute a r = Some (item, r') \<longleftrightarrow> (\<exists>q. queue (routeHeap r a) = Some (item # q) \<and>
     r' = r\<lparr>routeHeap := (routeHeap r)(a := (routeHeap r a)\<lparr>queue := Some q\<rparr>)\<rparr>)"
  by (auto simp: recvRoute_def split: option.splits)

lemma recvRoute_acct:
  assumes wf: "routes_wf r" and acct: "acct r rc gc" and rv: "recvRoute a r = Some (item, r')"
  shows "acct r' ((k, i, a, Size item) # rc) gc"
proof -
  obtain q where q: "queue (routeHeap r a) = Some (item # q)"
    and r': "r' = r\<lparr>routeHeap := (routeHeap r)(a := (routeHeap r a)\<lparr>queue := Some q\<rparr>)\<rparr>"
    using rv by (auto simp: recvRoute_Some)
  show ?thesis
  proof (cases "a \<in> live r")
    case True
    then have ok: "route_ok (limits r) (routeHeap r a) (held a rc)" using acct by (simp add: acct_def)
    show ?thesis
    proof (rule acct_heap_upd [OF acct wf True, where st' = "(routeHeap r a)\<lparr>queue := Some q\<rparr>"])
      show "route_ok (limits r) ((routeHeap r a)\<lparr>queue := Some q\<rparr>) (held a ((k, i, a, Size item) # rc))"
        using ok q by (auto simp: route_ok_def items_def)
    qed (use acct r' in \<open>auto simp: acct_def totals_ok_def\<close>)
  next
    case False
    have eqh: "routeHeap r' b = routeHeap r b" if "b \<in> live r" for b using False that r' by auto
    then have "(\<Sum>b\<in>live r. events (routeHeap r' b)) = (\<Sum>b\<in>live r. events (routeHeap r b))"
      "(\<Sum>b\<in>live r. bytes (routeHeap r' b)) = (\<Sum>b\<in>live r. bytes (routeHeap r b))"
      by simp_all
    moreover have "\<forall>b\<in>live r. route_ok (limits r) (routeHeap r' b) (held b ((k, i, a, Size item) # rc))"
      using acct eqh False by (auto simp: acct_def)
    ultimately show ?thesis
      using acct r' by (auto simp: acct_def totals_ok_def global_ok_def)
  qed
qed

lemma releaseRouteItem_fields:
  "limits (releaseRouteItem i a k z r) = limits r" "failed (releaseRouteItem i a k z r) = failed r"
  "routes (releaseRouteItem i a k z r) = routes r" "nextRouteAddr (releaseRouteItem i a k z r) = nextRouteAddr r"
  "responseWaiters (releaseRouteItem i a k z r) = responseWaiters r"
  "waiterHeap (releaseRouteItem i a k z r) = waiterHeap r"
  "nextWaiterAddr (releaseRouteItem i a k z r) = nextWaiterAddr r"
  by (simp_all add: releaseRouteItem_def)

lemma releaseRouteItem_acct:
  assumes wf: "routes_wf r" and acct: "acct r (xs @ (k, i, a, z) # ys) gc" and own: "owns r k i a"
  shows "acct (releaseRouteItem i a k z r) (xs @ ys) gc"
proof (cases "map_of (routes r k) i = Some a")
  case True
  then have a: "a \<in> live r" by (rule liveI)
  let ?st = "(routeHeap r a)\<lparr>events := events (routeHeap r a) - 1, bytes := bytes (routeHeap r a) - z\<rparr>"
  have ok: "route_ok (limits r) (routeHeap r a) (held a (xs @ (k, i, a, z) # ys))"
    using acct a unfolding acct_def by blast
  then have "0 \<le> z" by (simp add: route_ok_def)
  show ?thesis
  proof (rule acct_heap_upd [OF acct wf a, where st' = ?st])
    show "route_ok (limits r) ?st (held a (xs @ ys))"
      using ok by (auto simp: route_ok_def)
  qed (use True acct \<open>0 \<le> z\<close> in \<open>auto simp: releaseRouteItem_def acct_def totals_ok_def\<close>)
next
  case False
  with own have "a \<notin> live r" by (auto simp: owns_def live_def)
  then have "\<forall>b\<in>live r. held b (xs @ ys) = held b (xs @ (k, i, a, z) # ys)" by auto
  with False acct show ?thesis by (simp add: releaseRouteItem_def acct_def)
qed

lemma recvGlobal_acct:
  "acct r rc gc \<Longrightarrow> recvGlobal r = Some (item, r') \<Longrightarrow> acct r' rc (Size item # gc)"
  by (auto simp: recvGlobal_def acct_def global_ok_def totals_ok_def split: option.splits)

lemma recvGlobal_fields:
  assumes "recvGlobal r = Some (item, r')"
  shows "\<exists>q. globalQueue r = item # q \<and> r' = r\<lparr>globalQueue := q\<rparr>"
  using assms by (auto simp: recvGlobal_def split: option.splits)

lemma releaseGlobal_acct:
  "acct r rc (xs @ z # ys) \<Longrightarrow> acct (releaseGlobal z r) rc (xs @ ys)"
  by (auto simp: releaseGlobal_def acct_def global_ok_def totals_ok_def)

subsection \<open>Waiters\<close>

lemma waiters_create:
  assumes ok: "waiters_ok r sd st"
  shows "waiters_ok (fst (CreateResponseWaiter i r)) sd st"
proof -
  consider "fst (CreateResponseWaiter i r) = r"
    | "map_of (responseWaiters r) i = None" "int (length (responseWaiters r)) < MaxResponseWaiters (limits r)"
      "fst (CreateResponseWaiter i r) = r\<lparr>responseWaiters := responseWaiters r @ [(i, nextWaiterAddr r)],
         waiterHeap := (waiterHeap r)(nextWaiterAddr r := []), nextWaiterAddr := Suc (nextWaiterAddr r)\<rparr>"
    by (cases "failed r"; cases "map_of (responseWaiters r) i";
        cases "int (length (responseWaiters r)) < MaxResponseWaiters (limits r)")
      (auto simp: CreateResponseWaiter_def Let_def update_fresh)
  then show ?thesis
  proof cases
    case 1
    with ok show ?thesis by simp
  next
    case 2
    have "i \<notin> fst ` set (responseWaiters r)" using 2(1) by (simp add: map_of_eq_None_iff)
    moreover have "nextWaiterAddr r \<notin> set (map snd (responseWaiters r) @ map fst sd @ st)"
      using ok by (auto simp: waiters_ok_def)
    ultimately show ?thesis using ok 2 by (auto simp: waiters_ok_def less_Suc_eq)
  qed
qed

lemma snd_delete_subset: "set (map snd (AList.delete i m)) \<subseteq> set (map snd m)"
  by (auto simp: set_delete_gomap)

lemma distinct_snd_delete: "distinct (map snd m) \<Longrightarrow> distinct (map snd (AList.delete i m))"
  by (induction m) (auto simp: set_delete_gomap)

lemma length_delete_le: "length (AList.delete i m) \<le> length m"
  by (simp add: AList.delete_eq)

lemma waiters_discard:
  assumes ok: "waiters_ok r sd st"
  shows "waiters_ok (r\<lparr>responseWaiters := AList.delete i (responseWaiters r)\<rparr>) sd st"
proof -
  have sub: "snd ` set (AList.delete i (responseWaiters r)) \<subseteq> snd ` set (responseWaiters r)"
    using snd_delete_subset [of i "responseWaiters r"] by simp
  have "distinct (map snd (AList.delete i (responseWaiters r)))"
    using ok by (auto simp: waiters_ok_def intro: distinct_snd_delete)
  moreover have "int (length (AList.delete i (responseWaiters r))) \<le> MaxResponseWaiters (limits r)"
    using ok length_delete_le [of i "responseWaiters r"] by (simp add: waiters_ok_def)
  moreover have "snd ` set (AList.delete i (responseWaiters r)) \<inter> (fst ` set sd \<union> set st) = {}"
  proof -
    have "snd ` set (responseWaiters r) \<inter> (fst ` set sd \<union> set st) = {}"
      using ok by (simp add: waiters_ok_def)
    with sub show ?thesis by blast
  qed
  moreover have "\<forall>w\<in>snd ` set (AList.delete i (responseWaiters r)). w < nextWaiterAddr r \<and> waiterHeap r w = []"
  proof
    fix w assume "w \<in> snd ` set (AList.delete i (responseWaiters r))"
    then have "w \<in> set (map snd (responseWaiters r))" using sub by auto
    with ok show "w < nextWaiterAddr r \<and> waiterHeap r w = []"
      unfolding waiters_ok_def set_append by blast
  qed
  ultimately show ?thesis using ok by (auto simp: waiters_ok_def)
qed

lemma waiters_take:
  assumes ok: "waiters_ok r sd st" and w: "map_of (responseWaiters r) i = Some w"
  shows "waiters_ok (r\<lparr>responseWaiters := AList.delete i (responseWaiters r)\<rparr>) ((w, resp) # sd) st"
proof -
  have mem: "w \<in> set (map snd (responseWaiters r))" using map_of_SomeD [OF w] by force
  have "w \<notin> set (map snd (AList.delete i (responseWaiters r)))"
  proof
    assume "w \<in> set (map snd (AList.delete i (responseWaiters r)))"
    then obtain j where j: "(j, w) \<in> set (responseWaiters r)" "j \<noteq> i" by (auto simp: set_delete_gomap)
    moreover have "(i, w) \<in> set (responseWaiters r)" by (rule map_of_SomeD [OF w])
    moreover have "inj_on snd (set (responseWaiters r))"
      using ok by (auto simp: waiters_ok_def distinct_map)
    ultimately show False by (metis inj_onD prod.inject snd_conv)
  qed
  with waiters_discard [OF ok, of i] mem ok show ?thesis by (auto simp: waiters_ok_def)
qed

lemma waiters_send:
  assumes ok: "waiters_ok r (xs @ (w, resp) # ys) st"
  shows "\<exists>r'. sendResponse w resp r = Some r' \<and> waiters_ok r' (xs @ ys) (w # st) \<and>
     r' = r\<lparr>waiterHeap := (waiterHeap r)(w := [resp])\<rparr>"
proof -
  have "waiterHeap r w = []" using ok by (auto simp: waiters_ok_def)
  moreover from this have "sendResponse w resp r = Some (r\<lparr>waiterHeap := (waiterHeap r)(w := [resp])\<rparr>)"
    by (simp add: sendResponse_def chan_send_def)
  moreover have "waiters_ok (r\<lparr>waiterHeap := (waiterHeap r)(w := [resp])\<rparr>) (xs @ ys) (w # st)"
    using ok by (auto simp: waiters_ok_def)
  ultimately show ?thesis by simp
qed

lemma waiters_await:
  "waiters_ok r sd st \<Longrightarrow> waiterHeap r w = resp # q \<Longrightarrow>
     waiters_ok (r\<lparr>waiterHeap := (waiterHeap r)(w := q)\<rparr>) sd st"
  unfolding waiters_ok_def by (auto dest: spec [where x = w])

lemma waiters_fail:
  assumes "waiters_ok r sd st"
  shows "waiters_ok (r\<lparr>failed := f, responseWaiters := []\<rparr>) (map (\<lambda>w. (w, resp)) (map snd (responseWaiters r)) @ sd) st"
proof -
  have "map fst (map (\<lambda>w. (w, resp)) (map snd (responseWaiters r))) = map snd (responseWaiters r)"
    by (simp add: comp_def)
  then show ?thesis using assms by (simp add: waiters_ok_def) (auto simp: comp_def)
qed

subsection \<open>Every step preserves the invariant\<close>

lemma recvd_addrs:
  "consumers_ok s \<Longrightarrow> \<forall>(k, i, b, z)\<in>set (recvd s). b < nextRouteAddr (rt s)"
  by (auto simp: consumers_ok_def owns_def)

lemma consumers_ok_mono:
  assumes "consumers_ok s" "\<forall>k i b. owns (rt s) k i b \<longrightarrow> owns (rt t) k i b"
    "set (waiting t) \<subseteq> set (waiting s)" "set (recvd t) \<subseteq> set (recvd s)"
  shows "consumers_ok t"
  using assms unfolding consumers_ok_def by fast

lemmas rinv_parts = rinv_def consumers_ok_def

lemma rinv_init: "rinv (init_sys l)"
  using normalizeLimits_pos [of l]
  by (auto simp: rinv_def init_sys_def New_def routes_wf_def consumers_ok_def waiters_ok_def acct_def
      live_def global_ok_def totals_ok_def limits_pos_def)

text \<open>Steps that leave the routes alone.\<close>

lemma rinv_waiters_only:
  assumes inv: "rinv s" and rt: "routes r' = routes (rt s)" "nextRouteAddr r' = nextRouteAddr (rt s)"
      "routeHeap r' = routeHeap (rt s)" "limits r' = limits (rt s)" "failed r' = failed (rt s)"
      "globalQueue r' = globalQueue (rt s)" "globalEvents r' = globalEvents (rt s)" "globalBytes r' = globalBytes (rt s)"
      "totalEvents r' = totalEvents (rt s)" "totalBytes r' = totalBytes (rt s)"
    and w: "waiters_ok r' sd st"
  shows "rinv (s\<lparr>rt := r', senders := sd, sent := st\<rparr>)"
proof -
  have "consumers_ok (s\<lparr>rt := r', senders := sd, sent := st\<rparr>)"
    by (rule consumers_ok_mono [of s]) (use inv rt in \<open>auto simp: rinv_def intro: owns_cong\<close>)
  moreover have "acct r' (recvd s) (grecvd s)" if "failed r' = None"
    by (rule acct_cong) (use inv rt that in \<open>auto simp: rinv_def\<close>)
  ultimately show ?thesis using inv rt w by (auto simp: rinv_def intro: routes_wf_cong)
qed

lemma CreateResponseWaiter_frame:
  "routes (fst (CreateResponseWaiter i r)) = routes r"
  "nextRouteAddr (fst (CreateResponseWaiter i r)) = nextRouteAddr r"
  "routeHeap (fst (CreateResponseWaiter i r)) = routeHeap r"
  "limits (fst (CreateResponseWaiter i r)) = limits r"
  "failed (fst (CreateResponseWaiter i r)) = failed r"
  "globalQueue (fst (CreateResponseWaiter i r)) = globalQueue r"
  "globalEvents (fst (CreateResponseWaiter i r)) = globalEvents r"
  "globalBytes (fst (CreateResponseWaiter i r)) = globalBytes r"
  "totalEvents (fst (CreateResponseWaiter i r)) = totalEvents r"
  "totalBytes (fst (CreateResponseWaiter i r)) = totalBytes r"
  by (simp_all add: CreateResponseWaiter_def Let_def split: option.splits)

text \<open>Steps that change routes only: what \<open>registerRoute\<close> and \<open>routeScoped\<close> guarantee.\<close>

lemma rinv_routes_only:
  assumes inv: "rinv s"
    and keep: "routes_wf r' \<and> acct r' (recvd s) (grecvd s) \<and>
      (\<forall>k' i' b. owns (rt s) k' i' b \<longrightarrow> owns r' k' i' b) \<and>
      responseWaiters r' = responseWaiters (rt s) \<and> waiterHeap r' = waiterHeap (rt s) \<and>
      nextWaiterAddr r' = nextWaiterAddr (rt s) \<and> limits r' = limits (rt s) \<and> failed r' = None"
    and fl: "failed (rt s) = None"
  shows "rinv (s\<lparr>rt := r'\<rparr>)"
proof -
  have "consumers_ok (s\<lparr>rt := r'\<rparr>)"
    by (rule consumers_ok_mono [of s]) (use inv keep in \<open>auto simp: rinv_def\<close>)
  moreover have "waiters_ok r' (senders s) (sent s)"
    by (rule waiters_ok_cong [of "rt s"]) (use inv keep in \<open>auto simp: rinv_def\<close>)
  ultimately show ?thesis using inv keep fl by (simp add: rinv_def)
qed

lemma rinv_register:
  assumes inv: "rinv s" and reg: "registerRoute i k (rt s) = Some (r', e)"
  shows "rinv (s\<lparr>rt := r'\<rparr>)"
proof (cases "failed (rt s)")
  case None
  have "consumers_ok s" using inv by (simp add: rinv_def)
  from registerRoute_inv [OF None _ _ recvd_addrs [OF this] _ reg] inv None
  show ?thesis by (intro rinv_routes_only [OF inv _ None]) (auto simp: rinv_def)
next
  case (Some x)
  with reg have "s\<lparr>rt := r'\<rparr> = s" by (auto simp: registerRoute_failed)
  with inv show ?thesis by simp
qed

lemma rinv_scoped:
  assumes inv: "rinv s" and sz: "0 \<le> Size item" and res: "routeScoped i item k only (rt s) = Some (r', e)"
  shows "rinv (s\<lparr>rt := r'\<rparr>)"
proof (cases "failed (rt s)")
  case None
  have "consumers_ok s" using inv by (simp add: rinv_def)
  from routeScoped_inv [OF None _ _ recvd_addrs [OF this] _ sz res] inv None
  show ?thesis by (intro rinv_routes_only [OF inv _ None]) (auto simp: rinv_def)
next
  case (Some x)
  with res have "s\<lparr>rt := r'\<rparr> = s" by (auto simp: routeScoped_failed)
  with inv show ?thesis by simp
qed

lemma rinv_global:
  assumes inv: "rinv s" and sz: "0 \<le> Size item" and res: "routeGlobal item (rt s) = Some (r', e)"
  shows "rinv (s\<lparr>rt := r'\<rparr>)"
proof (cases "failed (rt s)")
  case None
  with inv have acct: "acct (rt s) (recvd s) (grecvd s)" by (simp add: rinv_def)
  from routeGlobal_inv [OF None acct sz res] inv
  show ?thesis by (intro rinv_routes_only [OF inv _ None]) (auto simp: rinv_def intro: routes_wf_cong owns_cong)
next
  case (Some x)
  with res have "s\<lparr>rt := r'\<rparr> = s" by (auto simp: routeGlobal_failed)
  with inv show ?thesis by simp
qed

lemma rinv_unregister: "rinv s \<Longrightarrow> rinv (s\<lparr>rt := unregisterRoute i k (rt s)\<rparr>)"
proof -
  assume inv: "rinv s"
  have "consumers_ok (s\<lparr>rt := unregisterRoute i k (rt s)\<rparr>)"
    by (rule consumers_ok_mono [of s]) (use inv unregisterRoute_owns in \<open>auto simp: rinv_def\<close>)
  moreover have "waiters_ok (unregisterRoute i k (rt s)) (senders s) (sent s)"
    by (rule waiters_ok_cong [of "rt s"]) (use inv in \<open>auto simp: rinv_def unregisterRoute_fields\<close>)
  ultimately show ?thesis
    using inv by (auto simp: rinv_def unregisterRoute_fields intro: unregisterRoute_wf unregisterRoute_acct)
qed

lemma rinv_receive:
  assumes inv: "rinv s" and w: "waiting s = xs @ (k, i, a) # ys" and rv: "recvRoute a (rt s) = Some (item, r')"
  shows "rinv (s\<lparr>rt := r', waiting := xs @ ys, recvd := (k, i, a, Size item) # recvd s\<rparr>)"
proof -
  obtain q where r': "r' = (rt s)\<lparr>routeHeap := (routeHeap (rt s))(a := (routeHeap (rt s) a)\<lparr>queue := Some q\<rparr>)\<rparr>"
    using rv by (auto simp: recvRoute_Some)
  have "acct r' ((k, i, a, Size item) # recvd s) (grecvd s)" if "failed (rt s) = None"
    by (rule recvRoute_acct [OF _ _ rv]) (use inv that in \<open>auto simp: rinv_def\<close>)
  moreover have "waiters_ok r' (senders s) (sent s)"
    by (rule waiters_ok_cong [of "rt s"]) (use inv r' in \<open>auto simp: rinv_def\<close>)
  ultimately show ?thesis using inv w r' by (auto simp: rinv_parts)
qed

lemma rinv_release:
  assumes inv: "rinv s" and rc: "recvd s = xs @ (k, i, a, z) # ys"
  shows "rinv (s\<lparr>rt := releaseRouteItem i a k z (rt s), recvd := xs @ ys\<rparr>)"
proof -
  have own: "owns (rt s) k i a" using inv rc by (auto simp: rinv_parts)
  have acct: "acct (releaseRouteItem i a k z (rt s)) (xs @ ys) (grecvd s)" if "failed (rt s) = None"
    by (rule releaseRouteItem_acct [OF _ _ own]) (use inv that rc in \<open>auto simp: rinv_def\<close>)
  have "waiters_ok (releaseRouteItem i a k z (rt s)) (senders s) (sent s)"
    by (rule waiters_ok_cong [of "rt s"]) (use inv in \<open>auto simp: rinv_def releaseRouteItem_fields\<close>)
  moreover have "consumers_ok (s\<lparr>rt := releaseRouteItem i a k z (rt s), recvd := xs @ ys\<rparr>)"
    by (rule consumers_ok_mono [of s])
      (use inv rc in \<open>auto simp: rinv_def releaseRouteItem_fields intro: owns_cong\<close>)
  ultimately show ?thesis
    using inv acct by (auto simp: rinv_def releaseRouteItem_fields intro: routes_wf_cong)
qed

text \<open>After a failure only shape and waiters matter: the counters are no longer consulted.\<close>

lemma rinv_failed_frame:
  assumes inv: "rinv s" and fl: "failed r' \<noteq> None"
    and fr: "routes r' = routes (rt s)" "nextRouteAddr r' = nextRouteAddr (rt s)" "limits r' = limits (rt s)"
    and w: "waiters_ok r' sd (sent s)"
  shows "rinv (s\<lparr>rt := r', senders := sd, failing := fs\<rparr>)"
proof -
  have "consumers_ok (s\<lparr>rt := r', senders := sd, failing := fs\<rparr>)"
    by (rule consumers_ok_mono [of s]) (use inv fr in \<open>auto simp: rinv_def intro: owns_cong\<close>)
  with inv fl fr w show ?thesis by (auto simp: rinv_def intro: routes_wf_cong)
qed

lemma failQueue_frame:
  "routes (failQueue e a r) = routes r" "nextRouteAddr (failQueue e a r) = nextRouteAddr r"
  "limits (failQueue e a r) = limits r" "failed (failQueue e a r) = failed r"
  "responseWaiters (failQueue e a r) = responseWaiters r" "waiterHeap (failQueue e a r) = waiterHeap r"
  "nextWaiterAddr (failQueue e a r) = nextWaiterAddr r"
  by (simp_all add: failQueue_def split: option.splits)

lemma rinv_step:
  assumes "rstep s t" and inv: "rinv s"
  shows "rinv t"
  using assms(1)
proof cases
  case (create i)
  then show ?thesis
    using rinv_waiters_only [OF inv CreateResponseWaiter_frame waiters_create, of "senders s" "sent s" i] inv
    by (simp add: rinv_def)
next
  case (discard i)
  then show ?thesis
    using rinv_waiters_only [OF inv, of "DiscardResponseWaiter i (rt s)" "senders s" "sent s"] inv
    by (simp add: DiscardResponseWaiter_def rinv_def waiters_discard)
next
  case (take i r' w resp)
  then show ?thesis
    using rinv_waiters_only [OF inv, of r' "(w, resp) # senders s" "sent s"] inv
    by (auto simp: takeWaiter_def rinv_def waiters_take)
next
  case (take_none i r')
  then show ?thesis
    using rinv_waiters_only [OF inv, of r' "senders s" "sent s"] inv
    by (auto simp: takeWaiter_def rinv_def waiters_discard)
next
  case (send xs w resp ys r')
  have "waiters_ok (rt s) (xs @ (w, resp) # ys) (sent s)" using inv send by (simp add: rinv_def)
  from waiters_send [OF this] send show ?thesis
    using rinv_waiters_only [OF inv, of r' "xs @ ys" "w # sent s"] by auto
next
  case (await w resp q)
  then show ?thesis
    using rinv_waiters_only [OF inv, of "(rt s)\<lparr>waiterHeap := (waiterHeap (rt s))(w := q)\<rparr>" "senders s" "sent s"] inv
    by (simp add: rinv_def waiters_await)
next
  case (register i k r' e)
  with inv show ?thesis by (simp add: rinv_register)
next
  case (unregister i k)
  with inv show ?thesis by (simp add: rinv_unregister)
next
  case (scoped item i k only r' e)
  with inv show ?thesis by (simp add: rinv_scoped)
next
  case (global item r' e)
  with inv show ?thesis by (simp add: rinv_global)
next
  case (lookup i k a fl)
  then have "map_of (routes (rt s) k) i = Some a" by (auto simp: lookupRoute_def split: option.splits if_splits)
  with inv have "owns (rt s) k i a" unfolding rinv_def routes_wf_def owns_def by blast
  with inv lookup show ?thesis by (auto simp: rinv_parts)
next
  case (give_up xs c ys)
  with inv show ?thesis by (auto simp: rinv_parts)
next
  case (receive xs k i a ys item r')
  with inv show ?thesis by (simp add: rinv_receive)
next
  case (release xs k i a z ys)
  with inv show ?thesis by (simp add: rinv_release)
next
  case (receive_global item r')
  then obtain q where "r' = (rt s)\<lparr>globalQueue := q\<rparr>" using recvGlobal_fields by blast
  moreover have "acct r' (recvd s) (Size item # grecvd s)" if "failed (rt s) = None"
    using recvGlobal_acct [OF _ receive_global(2)] inv that by (simp add: rinv_def)
  ultimately show ?thesis using inv receive_global by (auto simp: rinv_parts waiters_ok_def)
next
  case (release_global xs z ys)
  then have "acct (releaseGlobal z (rt s)) (recvd s) (xs @ ys)" if "failed (rt s) = None"
    using inv that by (auto simp: rinv_def intro: releaseGlobal_acct)
  with inv release_global show ?thesis by (auto simp: rinv_parts releaseGlobal_def waiters_ok_def)
next
  case (fail err r' ws qs)
  then have fl: "failed (rt s) = None" and eq: "r' = (rt s)\<lparr>failed := Some (failure_of err), responseWaiters := []\<rparr>"
    "ws = map snd (responseWaiters (rt s))"
    by (auto simp: failAll_lock_def split: option.splits)
  show ?thesis
    unfolding fail(1) using inv
    by (intro rinv_failed_frame [OF inv]) (simp_all add: eq rinv_def waiters_fail del: map_map)
next
  case (fail_queue a e fs)
  then have "failed (rt s) \<noteq> None" using inv by (auto simp: rinv_def)
  then have "rinv (s\<lparr>rt := failQueue e a (rt s), senders := senders s, failing := fs\<rparr>)"
    using inv by (intro rinv_failed_frame [OF inv])
      (auto simp: failQueue_frame rinv_def intro: waiters_ok_cong [OF _ failQueue_frame(5,6,7,3)])
  with fail_queue show ?thesis by simp
next
  case (fail_global e fs)
  then have "failed (rt s) \<noteq> None" using inv by (auto simp: rinv_def)
  then have "rinv (s\<lparr>rt := failGlobal e (rt s), senders := senders s, failing := fs\<rparr>)"
    using inv by (intro rinv_failed_frame [OF inv]) (auto simp: failGlobal_def rinv_def waiters_ok_def)
  with fail_global show ?thesis by simp
qed

lemma rreach_inv: "rreach l s \<Longrightarrow> rinv s"
  by (induction rule: rreach.induct) (auto intro: rinv_init rinv_step)

end
