(* ===== verification/Router_Props.thy ===== *)
theory Router_Props
  imports Router_Inv
begin

text \<open>
  What the router promises: an abstract view of it as one FIFO list per route, the interface its
  consumers rely on as a locale, and the properties of every reachable state of the concurrent
  system.
\<close>

section \<open>The abstract view\<close>

text \<open>The notifications a route holds, early ones included, and whether it has a consumer queue.\<close>

definition contents :: "routeKind \<Rightarrow> string \<Rightarrow> MessageRouter \<Rightarrow> routeItem list" where
  "contents k i r = (case map_of (routes r k) i of None \<Rightarrow> [] | Some a \<Rightarrow> items (routeHeap r a))"

definition registered :: "routeKind \<Rightarrow> string \<Rightarrow> MessageRouter \<Rightarrow> bool" where
  "registered k i r \<longleftrightarrow> (\<exists>a. map_of (routes r k) i = Some a \<and> queue (routeHeap r a) \<noteq> None)"

lemma contents_heap_upd:
  assumes "routes_wf r" "map_of (routes r k) i = Some a" "routes r' = routes r"
    "routeHeap r' = (routeHeap r)(a := st)"
  shows "contents k' i' r' = (if k' = k \<and> i' = i then items st else contents k' i' r)"
proof (cases "k' = k \<and> i' = i")
  case True
  with assms show ?thesis by (simp add: contents_def)
next
  case False
  then have "map_of (routes r k') i' \<noteq> Some a" using assms(1,2) unfolding routes_wf_def by blast
  with False assms(3,4) show ?thesis by (auto simp: contents_def split: option.splits)
qed

lemma contents_ensureRoute:
  assumes e: "ensureRoute i k r = (r', a)" and wf: "routes_wf r"
  shows "contents k' i' r' = contents k' i' r"
proof (cases "map_of (routes r k) i")
  case (Some b)
  with ensureRoute_old [OF e] show ?thesis by simp
next
  case None
  note fresh = ensureRoute_fresh [OF e None]
  have "map_of (routes r k') i' \<noteq> Some a"
    using wf fresh unfolding routes_wf_def by blast
  with fresh None show ?thesis
    by (auto simp: contents_def ensureRoute_look [OF e] new_routeState_def items_def split: option.splits)
qed

section \<open>The interface of a consumer\<close>

text \<open>
  Running a consumer: call \<open>next\<close> until it has \<open>n\<close> items or stops getting them.
\<close>

fun drain :: "('s \<Rightarrow> 's \<times> next_result) \<Rightarrow> nat \<Rightarrow> 's \<Rightarrow> 's \<times> (raw \<times> go_error option) list" where
  "drain nxt 0 s = (s, [])"
| "drain nxt (Suc n) s =
     (case nxt s of
        (s', Got v e) \<Rightarrow> (case drain nxt n s' of (s'', vs) \<Rightarrow> (s'', (v, e) # vs))
      | (s', _) \<Rightarrow> (s', []))"

locale route_source =
  fixes nxt :: "'id \<Rightarrow> 's \<Rightarrow> 's \<times> next_result"
    and held_items :: "'id \<Rightarrow> 's \<Rightarrow> routeItem list"
    and ready :: "'id \<Rightarrow> 's \<Rightarrow> bool"
  assumes nxt_head: "ready i s \<Longrightarrow> held_items i s = x # xs \<Longrightarrow>
      \<exists>s'. nxt i s = (s', Got (Raw x) (ItemErr x)) \<and> held_items i s' = xs \<and> ready i s' \<and>
        (\<forall>j. j \<noteq> i \<longrightarrow> held_items j s' = held_items j s \<and> ready j s' = ready j s)"
    and nxt_empty: "ready i s \<Longrightarrow> held_items i s = [] \<Longrightarrow>
      fst (nxt i s) = s \<and> (\<forall>v e. snd (nxt i s) \<noteq> Got v e)"
begin

text \<open>A consumer receives what the route holds, all of it and in order, and nothing else.\<close>

lemma drain_fifo:
  assumes "ready i s"
  shows "\<exists>s'. drain (nxt i) (length (held_items i s)) s =
      (s', map (\<lambda>x. (Raw x, ItemErr x)) (held_items i s)) \<and> held_items i s' = [] \<and>
      (\<forall>j. j \<noteq> i \<longrightarrow> held_items j s' = held_items j s)"
  using assms
proof (induction "held_items i s" arbitrary: s)
  case Nil
  then show ?case by (metis drain.simps(1) list.map(1) list.size(3))
next
  case (Cons x xs)
  from nxt_head [OF Cons.prems Cons.hyps(2) [symmetric]] obtain t where
    t: "nxt i s = (t, Got (Raw x) (ItemErr x))" "held_items i t = xs" "ready i t"
      "\<forall>j. j \<noteq> i \<longrightarrow> held_items j t = held_items j s" by blast
  from Cons.hyps(1) [OF t(2) [symmetric] t(3)] obtain u where
    "drain (nxt i) (length xs) t = (u, map (\<lambda>x. (Raw x, ItemErr x)) xs)" "held_items i u = []"
    "\<forall>j. j \<noteq> i \<longrightarrow> held_items j u = held_items j t" using t(2) by auto
  with t Cons.hyps(2) [symmetric] show ?case by auto
qed

lemma drain_prefix:
  assumes "ready i s" "n \<le> length (held_items i s)"
  shows "\<exists>s'. drain (nxt i) n s = (s', map (\<lambda>x. (Raw x, ItemErr x)) (take n (held_items i s))) \<and>
      held_items i s' = drop n (held_items i s)"
  using assms
proof (induction n arbitrary: s)
  case 0
  then show ?case by simp
next
  case (Suc n)
  then obtain x xs where h: "held_items i s = x # xs" by (cases "held_items i s") auto
  from nxt_head [OF Suc.prems(1) h] obtain t where
    t: "nxt i s = (t, Got (Raw x) (ItemErr x))" "held_items i t = xs" "ready i t" by blast
  have "n \<le> length (held_items i t)" using Suc.prems(2) h t(2) by simp
  from Suc.IH [OF t(3) this] obtain u where
    "drain (nxt i) n t = (u, map (\<lambda>x. (Raw x, ItemErr x)) (take n xs))" "held_items i u = drop n xs"
    using t(2) by auto
  with t h show ?case by simp
qed

end

text \<open>The router's \<open>nextRoute\<close> provides it, per kind and identifier.\<close>

lemma nextRoute_head:
  assumes wf: "routes_wf r" and reg: "registered k i r" and c: "contents k i r = x # xs"
  shows "\<exists>r'. nextRoute i k ctx r = (r', Got (Raw x) (ItemErr x)) \<and> routes_wf r' \<and>
    contents k i r' = xs \<and> registered k i r' \<and>
    (\<forall>k' i'. (k', i') \<noteq> (k, i) \<longrightarrow> contents k' i' r' = contents k' i' r \<and> registered k' i' r' = registered k' i' r)"
proof -
  obtain a where a: "map_of (routes r k) i = Some a" and q: "queue (routeHeap r a) = Some (x # xs)"
    using reg c by (auto simp: registered_def contents_def items_def)
  let ?st = "(routeHeap r a)\<lparr>queue := Some xs, events := events (routeHeap r a) - 1,
      bytes := bytes (routeHeap r a) - Size x\<rparr>"
  let ?r = "r\<lparr>routeHeap := (routeHeap r)(a := ?st), totalEvents := totalEvents r - 1,
      totalBytes := totalBytes r - Size x\<rparr>"
  have n: "nextRoute i k ctx r = (?r, Got (Raw x) (ItemErr x))"
    using a q by (simp add: nextRoute_def lookupRoute_def tryNextRoute_def recvRoute_def
        releaseRouteItem_def chan_recv_def)
  have cs: "contents k' i' ?r = (if k' = k \<and> i' = i then items ?st else contents k' i' r)" for k' i'
    by (rule contents_heap_upd [OF wf a]) simp_all
  have "registered k' i' ?r = registered k' i' r" if "(k', i') \<noteq> (k, i)" for k' i'
  proof -
    have "map_of (routes r k') i' \<noteq> Some a" using wf a that unfolding routes_wf_def by blast
    then show ?thesis by (auto simp: registered_def)
  qed
  moreover have "registered k i ?r" using a by (simp add: registered_def)
  moreover have "routes_wf ?r" using wf by simp
  moreover have "items ?st = xs" by (simp add: items_def)
  ultimately show ?thesis using n cs by (intro exI [of _ ?r]) (auto simp: split: if_splits)
qed

lemma nextRoute_empty:
  assumes reg: "registered k i r" and c: "contents k i r = []"
  shows "nextRoute i k ctx r = (r, case failed r of Some e \<Rightarrow> NextErr e
     | None \<Rightarrow> (case ctx of Some e \<Rightarrow> NextErr e | None \<Rightarrow> Waits))"
  using assms by (auto simp: registered_def contents_def items_def nextRoute_def lookupRoute_def
      tryNextRoute_def recvRoute_def split: option.splits)

interpretation rs: route_source
  "\<lambda>(k, i). nextRoute i k None" "\<lambda>(k, i). contents k i" "\<lambda>(k, i) r. routes_wf r \<and> registered k i r"
proof unfold_locales
  fix p :: "routeKind \<times> string" and r x xs
  assume "(case p of (k, i) \<Rightarrow> \<lambda>r. routes_wf r \<and> registered k i r) r" "(case p of (k, i) \<Rightarrow> contents k i) r = x # xs"
  then obtain k i where p: "p = (k, i)" "routes_wf r" "registered k i r" "contents k i r = x # xs"
    by (cases p) auto
  from nextRoute_head [OF p(2-4), of None] p(1,2)
  show "\<exists>s'. (case p of (k, i) \<Rightarrow> nextRoute i k None) r = (s', Got (Raw x) (ItemErr x)) \<and>
      (case p of (k, i) \<Rightarrow> contents k i) s' = xs \<and> (case p of (k, i) \<Rightarrow> \<lambda>r. routes_wf r \<and> registered k i r) s' \<and>
      (\<forall>j. j \<noteq> p \<longrightarrow> (case j of (k, i) \<Rightarrow> contents k i) s' = (case j of (k, i) \<Rightarrow> contents k i) r \<and>
        (case j of (k, i) \<Rightarrow> \<lambda>r. routes_wf r \<and> registered k i r) s' = (case j of (k, i) \<Rightarrow> \<lambda>r. routes_wf r \<and> registered k i r) r)"
    by auto
next
  fix p :: "routeKind \<times> string" and r
  assume "(case p of (k, i) \<Rightarrow> \<lambda>r. routes_wf r \<and> registered k i r) r" "(case p of (k, i) \<Rightarrow> contents k i) r = []"
  then show "fst ((case p of (k, i) \<Rightarrow> nextRoute i k None) r) = r \<and>
      (\<forall>v e. snd ((case p of (k, i) \<Rightarrow> nextRoute i k None) r) \<noteq> Got v e)"
    using nextRoute_empty by (cases p) (auto split: option.splits)
qed

section \<open>Properties of every reachable state\<close>

lemma rreach_failed_none:
  assumes "rreach l s" "failed (rt s) = None"
  shows "limits_pos (limits (rt s))" "routes_wf (rt s)" "acct (rt s) (recvd s) (grecvd s)"
    "\<forall>(k, i, b, z)\<in>set (recvd s). b < nextRouteAddr (rt s)"
  using rreach_inv [OF assms(1)] assms(2) recvd_addrs [of s] by (auto simp: rinv_def)

lemma rreach_limits: "rreach l s \<Longrightarrow> limits (rt s) = normalizeLimits l"
proof (induction rule: rreach.induct)
  case start
  show ?case by (simp add: init_sys_def New_def)
next
  case (step s t)
  from step.hyps(2) have "limits (rt t) = limits (rt s)"
  proof cases
    case (register i k r' e)
    then show ?thesis
      by (auto simp: registerRoute_def ensureRoute_def Let_def split: option.splits prod.splits if_splits)
  next
    case (scoped item i k only r' e)
    then show ?thesis
      by (auto simp: routeScoped_def ensureRoute_def reserveTotal_def Let_def
          split: option.splits prod.splits if_splits sum.splits)
  next
    case (global item r' e)
    then show ?thesis
      by (auto simp: routeGlobal_def reserveTotal_def split: option.splits if_splits sum.splits)
  qed (auto simp: CreateResponseWaiter_frame DiscardResponseWaiter_def takeWaiter_def sendResponse_def
      unregisterRoute_fields recvRoute_Some releaseRouteItem_fields releaseGlobal_def failAll_lock_def
      failQueue_frame failGlobal_def dest!: recvGlobal_fields split: option.splits)
  with step.IH show ?case by simp
qed

lemma rreach_sends:
  assumes "rreach l s" "0 \<le> Size item"
  shows "routeScoped i item k only (rt s) \<noteq> None \<and> routeGlobal item (rt s) \<noteq> None \<and>
    registerRoute i k (rt s) \<noteq> None"
proof (cases "failed (rt s)")
  case None
  note p = rreach_failed_none [OF assms(1) None]
  obtain r2 a where e: "ensureRoute i k (reopen i k (rt s)) = (r2, a)" by fastforce
  show ?thesis
    using routeScoped_cases [OF None p(2,3,4,1), of i item k only, of "routeScoped i item k only (rt s) \<noteq> None"]
      routeGlobal_eq [OF None p(3), of item] registerRoute_eq [OF None p(2,3,4,1) e] by auto
next
  case (Some e)
  then show ?thesis by (simp add: routeScoped_failed routeGlobal_failed registerRoute_failed)
qed

text \<open>C1: In every reachable state of the concurrent router no channel send blocks while the
  router's mutex is held: routing to a scope, routing to the global queue and replaying early
  notifications into a new queue all return, and a goroutine that holds a response channel finds
  room in it.\<close>
theorem router_never_blocks:
  assumes "rreach l s" "0 \<le> Size item"
  shows "routeScoped i item k only (rt s) \<noteq> None \<and> routeGlobal item (rt s) \<noteq> None \<and>
    registerRoute i k (rt s) \<noteq> None \<and>
    (\<forall>(w, resp)\<in>set (senders s). sendResponse w resp (rt s) \<noteq> None)"
proof -
  have "sendResponse w resp (rt s) \<noteq> None" if "(w, resp) \<in> set (senders s)" for w resp
  proof -
    from that obtain xs ys where "senders s = xs @ (w, resp) # ys" by (auto dest: split_list)
    then have "waiters_ok (rt s) (xs @ (w, resp) # ys) (sent s)"
      using rreach_inv [OF assms(1)] by (simp add: rinv_def)
    from waiters_send [OF this] show ?thesis by auto
  qed
  with rreach_sends [OF assms] show ?thesis by auto
qed

lemma rreach_example:
  "rreach DefaultLimits ((init_sys DefaultLimits)\<lparr>rt := fst (the (registerRoute ''t1'' turnRoute (New DefaultLimits)))\<rparr>)"
proof -
  obtain r' where r': "registerRoute ''t1'' turnRoute (New DefaultLimits) = Some (r', None)"
    by (simp add: registerRoute_def ensureRoute_def New_def new_routeState_def)
  have "rstep (init_sys DefaultLimits) ((init_sys DefaultLimits)\<lparr>rt := r'\<rparr>)"
    by (rule rstep.register) (use r' in \<open>simp add: init_sys_def\<close>)
  with r' show ?thesis by (auto intro: rreach.step rreach.start)
qed

text \<open>A state with a turn route on which two notifications were routed and a consumer that has
  received the first and not yet released it.\<close>

definition note_of :: "int \<Rightarrow> routeItem" where
  "note_of z = \<lparr>Raw = Some (JNum (show_int z)), ItemErr = None, Size = z\<rparr>"

definition queued_router :: MessageRouter where
  "queued_router = (let r1 = fst (the (registerRoute ''t1'' turnRoute (New DefaultLimits)));
     r2 = fst (the (routeScoped ''t1'' (note_of 4) turnRoute False r1))
     in fst (the (routeScoped ''t1'' (note_of 7) turnRoute False r2)))"

definition queued_sys :: rsys where
  "queued_sys = (init_sys DefaultLimits)\<lparr>rt := queued_router\<rparr>"

definition consuming_sys :: rsys where
  "consuming_sys = queued_sys\<lparr>rt := snd (the (recvRoute 0 queued_router)),
     recvd := [(turnRoute, ''t1'', 0, 4)]\<rparr>"

lemmas router_exec = registerRoute_def ensureRoute_def New_def new_routeState_def routeScoped_def
  reserveTotal_def normalizeLimits_def DefaultLimits_def mib_def chan_send_def chan_recv_def recvRoute_def
  note_of_def lookupRoute_def Let_def

lemma queued_router_eq:
  "failed queued_router = None" "routes queued_router = (\<lambda>_. [])(turnRoute := [(''t1'', 0)])"
  "routeHeap queued_router 0 = \<lparr>queue = Some [note_of 4, note_of 7], pending = [], events = 2, bytes = 11\<rparr>"
  "globalQueue queued_router = []"
  by (simp_all add: queued_router_def router_exec fun_upd_def)

lemma rreach_queued: "rreach DefaultLimits queued_sys"
proof -
  let ?r1 = "fst (the (registerRoute ''t1'' turnRoute (New DefaultLimits)))"
  let ?r2 = "fst (the (routeScoped ''t1'' (note_of 4) turnRoute False ?r1))"
  have 2: "rreach DefaultLimits ((init_sys DefaultLimits)\<lparr>rt := ?r2\<rparr>)"
    using rreach.step [OF rreach_example rstep.scoped [of "note_of 4" "''t1''" turnRoute False _ ?r2 None]]
    by (simp add: router_exec)
  have "routeScoped ''t1'' (note_of 7) turnRoute False ?r2 = Some (queued_router, None)"
    by (simp add: queued_router_def router_exec)
  with rreach.step [OF 2 rstep.scoped [of "note_of 7" "''t1''" turnRoute False _ queued_router None]]
  show ?thesis by (simp add: queued_sys_def note_of_def)
qed

lemma rreach_consuming: "rreach DefaultLimits consuming_sys"
proof -
  let ?w = "queued_sys\<lparr>waiting := [(turnRoute, ''t1'', 0)]\<rparr>"
  have "lookupRoute ''t1'' turnRoute (rt queued_sys) = Inr (0, None)" "waiting queued_sys = []"
    by (simp_all add: lookupRoute_def queued_router_eq queued_sys_def init_sys_def)
  then have 1: "rreach DefaultLimits ?w"
    using rreach.step [OF rreach_queued rstep.lookup [of "''t1''" turnRoute queued_sys 0 None]] by simp
  have "recvRoute 0 (rt ?w) = Some (note_of 4, snd (the (recvRoute 0 queued_router)))"
    by (simp add: queued_sys_def recvRoute_def queued_router_eq chan_recv_def)
  then have "rstep ?w (?w\<lparr>rt := snd (the (recvRoute 0 queued_router)), waiting := [] @ [],
      recvd := (turnRoute, ''t1'', 0, Size (note_of 4)) # recvd ?w\<rparr>)"
    by (intro rstep.receive) simp_all
  from rreach.step [OF 1 this] show ?thesis
    by (simp add: consuming_sys_def queued_sys_def init_sys_def note_of_def)
qed

lemma consuming_eq:
  "failed (rt consuming_sys) = None" "live (rt consuming_sys) = {0}"
  "items (routeHeap (rt consuming_sys) 0) = [note_of 7]" "held 0 (recvd consuming_sys) = [4]"
  "globalQueue (rt consuming_sys) = []" "grecvd consuming_sys = []"
  "contents turnRoute ''t1'' (rt consuming_sys) = [note_of 7]"
  by (auto simp: consuming_sys_def recvRoute_def queued_router_eq chan_recv_def live_def items_def held_def
      queued_sys_def init_sys_def contents_def)

theorem router_never_blocks_witness:
  "routeScoped ''t1'' \<lparr>Raw = Some JNull, ItemErr = None, Size = 4\<rparr> turnRoute False
     (fst (the (registerRoute ''t1'' turnRoute (New DefaultLimits)))) \<noteq> None"
  using router_never_blocks [OF rreach_example, of "\<lparr>Raw = Some JNull, ItemErr = None, Size = 4\<rparr>" "''t1''" turnRoute False]
  by simp

text \<open>C5: In every reachable state of a router that has not failed, what is queued respects the
  configured limits: the items and bytes of each route, of the global queue, and of all of them
  together.\<close>
theorem router_bounds:
  assumes "rreach l s" "failed (rt s) = None"
  shows "int (length (contents k i (rt s))) \<le> MaxRouteEvents (normalizeLimits l) \<and>
    sizes (contents k i (rt s)) \<le> MaxRouteBytes (normalizeLimits l) \<and>
    int (length (globalQueue (rt s))) \<le> MaxGlobalEvents (normalizeLimits l) \<and>
    sizes (globalQueue (rt s)) \<le> MaxGlobalBytes (normalizeLimits l) \<and>
    (\<Sum>a\<in>live (rt s). int (length (items (routeHeap (rt s) a)))) + int (length (globalQueue (rt s)))
      \<le> MaxTotalEvents (normalizeLimits l) \<and>
    (\<Sum>a\<in>live (rt s). sizes (items (routeHeap (rt s) a))) + sizes (globalQueue (rt s))
      \<le> MaxTotalBytes (normalizeLimits l)"
proof -
  note p = rreach_failed_none [OF assms] and lim = rreach_limits [OF assms(1)]
  have g: "global_ok (rt s) (grecvd s)" and t: "totals_ok (rt s)"
    and ro: "\<And>a. a \<in> live (rt s) \<Longrightarrow> route_ok (limits (rt s)) (routeHeap (rt s) a) (held a (recvd s))"
    using p(3) by (auto simp: acct_def)
  have nn: "int (length (items (routeHeap (rt s) a))) \<le> events (routeHeap (rt s) a)"
    "sizes (items (routeHeap (rt s) a)) \<le> bytes (routeHeap (rt s) a)" if "a \<in> live (rt s)" for a
    using ro [OF that] sum_list_nonneg_int [of "held a (recvd s)"] by (auto simp: route_ok_def)
  have r1: "int (length (contents k i (rt s))) \<le> MaxRouteEvents (limits (rt s)) \<and>
      sizes (contents k i (rt s)) \<le> MaxRouteBytes (limits (rt s))"
  proof (cases "map_of (routes (rt s) k) i")
    case None
    with p(1) show ?thesis by (simp add: contents_def limits_pos_def)
  next
    case (Some a)
    from nn [OF liveI [OF Some]] ro [OF liveI [OF Some]] Some
    show ?thesis by (simp add: contents_def route_ok_def)
  qed
  have gl: "int (length (globalQueue (rt s))) \<le> globalEvents (rt s)" "sizes (globalQueue (rt s)) \<le> globalBytes (rt s)"
    "globalEvents (rt s) \<le> MaxGlobalEvents (limits (rt s))" "globalBytes (rt s) \<le> MaxGlobalBytes (limits (rt s))"
    using g sum_list_nonneg_int [of "grecvd s"] by (auto simp: global_ok_def)
  have "(\<Sum>a\<in>live (rt s). int (length (items (routeHeap (rt s) a)))) \<le> (\<Sum>a\<in>live (rt s). events (routeHeap (rt s) a))"
    "(\<Sum>a\<in>live (rt s). sizes (items (routeHeap (rt s) a))) \<le> (\<Sum>a\<in>live (rt s). bytes (routeHeap (rt s) a))"
    by (auto intro!: sum_mono nn)
  with t r1 gl show ?thesis unfolding totals_ok_def lim [symmetric] by linarith
qed

theorem router_bounds_witness:
  "contents turnRoute ''t1'' (rt consuming_sys) = [note_of 7] \<and>
   int (length (contents turnRoute ''t1'' (rt consuming_sys))) \<le> 256"
  using router_bounds [OF rreach_consuming, of turnRoute "''t1''"] consuming_eq
  by (simp add: normalizeLimits_def DefaultLimits_def)



text \<open>C4: A response waiter is answered at most once: over any run the delivery log holds no
  channel twice, a channel that was answered is in no waiter table and with no sender, and no
  response channel ever holds more than one response.\<close>
theorem response_at_most_once:
  assumes "rreach l s"
  shows "distinct (sent s) \<and>
    (\<forall>w\<in>set (sent s). w \<notin> snd ` set (responseWaiters (rt s)) \<and> w \<notin> fst ` set (senders s)) \<and>
    (\<forall>w. length (waiterHeap (rt s) w) \<le> 1)"
proof -
  have "waiters_ok (rt s) (senders s) (sent s)" using rreach_inv [OF assms] by (simp add: rinv_def)
  then have d: "distinct (map snd (responseWaiters (rt s)) @ map fst (senders s) @ sent s)"
    "\<forall>w. length (waiterHeap (rt s) w) \<le> 1" by (auto simp: waiters_ok_def)
  from d(1) have "set (map snd (responseWaiters (rt s))) \<inter> set (sent s) = {}"
    "set (map fst (senders s)) \<inter> set (sent s) = {}" "distinct (sent s)" by auto
  with d(2) show ?thesis by auto
qed

theorem response_at_most_once_witness:
  "distinct (sent ((init_sys DefaultLimits)\<lparr>rt := fst (the (registerRoute ''t1'' turnRoute (New DefaultLimits)))\<rparr>))"
  using response_at_most_once [OF rreach_example] by simp

section \<open>Refinement of one FIFO per route\<close>

text \<open>
  The specification of a route table: one list per route, at most one notification accepted at
  a time, unregistering empties a route, everything else leaves the lists alone.
\<close>

type_synonym route_spec = "routeKind \<times> string \<Rightarrow> routeItem list"

definition spec_route :: "routeKind \<times> string \<Rightarrow> routeItem \<Rightarrow> route_spec \<Rightarrow> route_spec" where
  "spec_route p x f = f(p := f p @ [x])"

definition spec_clear :: "routeKind \<times> string \<Rightarrow> route_spec \<Rightarrow> route_spec" where
  "spec_clear p f = f(p := [])"

definition abs_routes :: "MessageRouter \<Rightarrow> route_spec" where
  "abs_routes r = (\<lambda>(k, i). contents k i r)"

lemma abs_routes_cong:
  "routes r' = routes r \<Longrightarrow> routeHeap r' = routeHeap r \<Longrightarrow> abs_routes r' = abs_routes r"
  by (auto simp: abs_routes_def contents_def fun_eq_iff split: option.splits)

lemma abs_ensureRoute: "ensureRoute i k r = (r', a) \<Longrightarrow> routes_wf r \<Longrightarrow> abs_routes r' = abs_routes r"
  by (auto simp: abs_routes_def contents_ensureRoute)

lemma abs_heap_upd:
  assumes "routes_wf r" "map_of (routes r k) i = Some a" "routes r' = routes r"
    "routeHeap r' = (routeHeap r)(a := st)"
  shows "abs_routes r' = (abs_routes r)((k, i) := items st)"
  using contents_heap_upd [OF assms] by (auto simp: abs_routes_def)

lemma abs_routeScoped:
  assumes fl: "failed r = None" and wf: "routes_wf r" and acct: "acct r rc gc"
    and rc: "\<forall>(k, i, b, z)\<in>set rc. b < nextRouteAddr r" and pos: "limits_pos (limits r)"
  shows "\<exists>r' e. routeScoped i item k only r = Some (r', e) \<and>
      abs_routes r' = (if e = None \<and> i \<notin> closed r k \<and> \<not> (only \<and> map_of (routes r k) i = None)
        then spec_route (k, i) item (abs_routes r) else abs_routes r)"
proof (rule routeScoped_cases [OF fl wf acct rc pos, of i item k only])
  assume "routeScoped i item k only r = Some (r, None)" "i \<in> closed r k \<or> only \<and> map_of (routes r k) i = None"
  then show ?thesis by auto
next
  fix r1 a e
  assume e: "ensureRoute i k r = (r1, a)" and "routeScoped i item k only r = Some (r1, Some e)"
  with abs_ensureRoute [OF e wf] show ?thesis by auto
next
  fix r1 a
  assume e: "ensureRoute i k r = (r1, a)" and adm: "i \<notin> closed r k" "\<not> (only \<and> map_of (routes r k) i = None)"
    and res: "routeScoped i item k only r = Some (r1\<lparr>totalEvents := totalEvents r + 1,
       totalBytes := totalBytes r + Size item, routeHeap := (routeHeap r1)(a := accept item (routeHeap r1 a))\<rparr>, None)"
  have a: "map_of (routes r1 k) i = Some a" by (rule ensureRoute_fields [OF e])
  have wf1: "routes_wf r1" by (rule ensureRoute_wf [OF e wf])
  have "abs_routes (r1\<lparr>totalEvents := totalEvents r + 1,
       totalBytes := totalBytes r + Size item, routeHeap := (routeHeap r1)(a := accept item (routeHeap r1 a))\<rparr>)
    = (abs_routes r1)((k, i) := items (accept item (routeHeap r1 a)))"
    by (rule abs_heap_upd [OF wf1 a]) simp_all
  also have "\<dots> = spec_route (k, i) item (abs_routes r1)"
    using a by (simp add: spec_route_def accept_fields abs_routes_def contents_def)
  finally show ?thesis using adm res abs_ensureRoute [OF e wf] by auto
qed

lemma abs_registerRoute:
  assumes fl: "failed r = None" and wf: "routes_wf r" and acct: "acct r rc gc"
    and rc: "\<forall>(k, i, b, z)\<in>set rc. b < nextRouteAddr r" and pos: "limits_pos (limits r)"
  shows "\<exists>r'. registerRoute i k r = Some (r', None) \<and> abs_routes r' = abs_routes r \<and> registered k i r'"
proof -
  obtain r2 a where e: "ensureRoute i k (reopen i k r) = (r2, a)" by fastforce
  have wf0: "routes_wf (reopen i k r)" using wf by simp
  have a: "map_of (routes r2 k) i = Some a" by (rule ensureRoute_fields [OF e])
  have same: "abs_routes r2 = abs_routes r"
    using abs_ensureRoute [OF e wf0] abs_routes_cong [of "reopen i k r" r] by simp
  show ?thesis
  proof (cases "queue (routeHeap r2 a)")
    case (Some q)
    with registerRoute_eq [OF fl wf acct rc pos e] same a show ?thesis by (auto simp: registered_def)
  next
    case None
    let ?st = "(routeHeap r2 a)\<lparr>queue := Some (pending (routeHeap r2 a)), pending := []\<rparr>"
    have "abs_routes (r2\<lparr>routeHeap := (routeHeap r2)(a := ?st)\<rparr>) = (abs_routes r2)((k, i) := items ?st)"
      by (rule abs_heap_upd [OF ensureRoute_wf [OF e wf0] a]) simp_all
    also have "\<dots> = abs_routes r2"
      using a None by (auto simp: items_register abs_routes_def contents_def)
    finally show ?thesis using registerRoute_eq [OF fl wf acct rc pos e] None same a
      by (auto simp: registered_def)
  qed
qed

text \<open>C6: The route operations refine the FIFO specification in every reachable state that has not
  failed: an accepted notification is appended to its own route and to no other, a dismissed or
  refused one changes no route, registering a route (with or without early notifications) keeps
  every route's notifications in order, and unregistering empties exactly that route.\<close>
theorem routes_refine_fifo:
  assumes "rreach l s" "failed (rt s) = None"
  shows "(\<exists>r' e. routeScoped i item k only (rt s) = Some (r', e) \<and>
      abs_routes r' = (if e = None \<and> i \<notin> closed (rt s) k \<and> \<not> (only \<and> map_of (routes (rt s) k) i = None)
        then spec_route (k, i) item (abs_routes (rt s)) else abs_routes (rt s))) \<and>
    (\<exists>r'. registerRoute i k (rt s) = Some (r', None) \<and> abs_routes r' = abs_routes (rt s) \<and> registered k i r') \<and>
    abs_routes (unregisterRoute i k (rt s)) = spec_clear (k, i) (abs_routes (rt s))"
proof -
  note p = rreach_failed_none [OF assms]
  have "abs_routes (unregisterRoute i k (rt s)) = spec_clear (k, i) (abs_routes (rt s))"
    by (auto simp: abs_routes_def spec_clear_def contents_def unregisterRoute_look unregisterRoute_fields fun_eq_iff
      split: option.splits)
  with abs_routeScoped [OF assms(2) p(2,3,4,1)] abs_registerRoute [OF assms(2) p(2,3,4,1)]
  show ?thesis by blast
qed

theorem routes_refine_fifo_witness:
  "\<exists>r' e. routeScoped ''t1'' \<lparr>Raw = Some JNull, ItemErr = None, Size = 4\<rparr> turnRoute False
      (fst (the (registerRoute ''t1'' turnRoute (New DefaultLimits)))) = Some (r', e) \<and>
     contents turnRoute ''t1'' r' = [\<lparr>Raw = Some JNull, ItemErr = None, Size = 4\<rparr>]"
proof -
  let ?r = "fst (the (registerRoute ''t1'' turnRoute (New DefaultLimits)))"
  let ?x = "\<lparr>Raw = Some JNull, ItemErr = None, Size = 4\<rparr>"
  have f: "failed ?r = None" "''t1'' \<notin> closed ?r turnRoute" "contents turnRoute ''t1'' ?r = []"
    "\<exists>r'. routeScoped ''t1'' ?x turnRoute False ?r = Some (r', None)"
    by (simp_all add: registerRoute_def ensureRoute_def New_def new_routeState_def contents_def items_def
        routeScoped_def reserveTotal_def normalizeLimits_def DefaultLimits_def mib_def chan_send_def)
  obtain r' e where "routeScoped ''t1'' ?x turnRoute False ?r = Some (r', e)"
    "abs_routes r' = (if e = None \<and> ''t1'' \<notin> closed ?r turnRoute \<and> \<not> (False \<and> map_of (routes ?r turnRoute) ''t1'' = None)
        then spec_route (turnRoute, ''t1'') ?x (abs_routes ?r) else abs_routes ?r)"
    using routes_refine_fifo [OF rreach_example, of "''t1''" ?x turnRoute False] f(1) by auto
  then show ?thesis using f by (auto simp: abs_routes_def spec_route_def fun_eq_iff)
qed

text \<open>A consumer of a registered route receives exactly the notifications the route holds, in
  the order they were routed, and takes none from any other route: after as many calls of
  \<open>nextRoute\<close> as there are notifications the route is empty and the others are as before.\<close>
theorem next_route_in_order:
  assumes "routes_wf r" "registered k i r"
  shows "\<exists>r'. drain (nextRoute i k None) (length (contents k i r)) r =
      (r', map (\<lambda>x. (Raw x, ItemErr x)) (contents k i r)) \<and> contents k i r' = [] \<and>
      (\<forall>k' i'. (k', i') \<noteq> (k, i) \<longrightarrow> contents k' i' r' = contents k' i' r)"
  using rs.drain_fifo [of "(k, i)" r] assms by auto

theorem next_route_in_order_witness:
  "\<exists>r'. drain (nextRoute ''t1'' turnRoute None) 2 queued_router =
     (r', [(Some (JNum ''4''), None), (Some (JNum ''7''), None)])"
proof -
  have "routes_wf queued_router" using rreach_inv [OF rreach_queued] by (simp add: rinv_def queued_sys_def)
  moreover have "registered turnRoute ''t1'' queued_router"
    "contents turnRoute ''t1'' queued_router = [note_of 4, note_of 7]"
    by (simp_all add: queued_router_eq contents_def items_def registered_def)
  moreover have "show_int 4 = ''4''" "show_int 7 = ''7''" by code_simp+
  ultimately show ?thesis using next_route_in_order [of queued_router turnRoute "''t1''"]
    by (auto simp: note_of_def numeral_2_eq_2)
qed

section \<open>Failure\<close>

lemma sendResponses_all:
  assumes "distinct ws" "\<forall>w\<in>set ws. waiterHeap r w = []"
  shows "sendResponses ws resp r = Some (r\<lparr>waiterHeap := (\<lambda>w. if w \<in> set ws then [resp] else waiterHeap r w)\<rparr>)"
  using assms
proof (induction ws arbitrary: r)
  case Nil
  then show ?case by simp
next
  case (Cons w ws)
  let ?r = "r\<lparr>waiterHeap := (waiterHeap r)(w := [resp])\<rparr>"
  have "sendResponse w resp r = Some ?r" using Cons.prems by (simp add: sendResponse_def chan_send_def)
  moreover have "\<forall>v\<in>set ws. waiterHeap ?r v = []" using Cons.prems by auto
  moreover have "(\<lambda>v. if v \<in> set ws then [resp] else waiterHeap ?r v) =
      (\<lambda>v. if v \<in> set (w # ws) then [resp] else waiterHeap r v)" by auto
  ultimately show ?case using Cons.IH [of ?r] Cons.prems by simp
qed

lemma fold_failQueue_frame:
  "routes (fold (failQueue e) qs r) = routes r" "limits (fold (failQueue e) qs r) = limits r"
  "failed (fold (failQueue e) qs r) = failed r" "responseWaiters (fold (failQueue e) qs r) = responseWaiters r"
  "waiterHeap (fold (failQueue e) qs r) = waiterHeap r"
  by (induction qs arbitrary: r) (simp_all add: failQueue_frame)

lemma chan_try_send_nonempty: "0 < cap \<Longrightarrow> chan_try_send cap q x \<noteq> []"
  by (auto simp: chan_try_send_def chan_send_def)

lemma failQueue_nonempty:
  assumes "0 < route_cap r" "queue (routeHeap r b) \<noteq> None" "b = a \<or> queue (routeHeap r b) \<noteq> Some []"
  shows "\<exists>x xs. queue (routeHeap (failQueue e a r) b) = Some (x # xs)"
proof -
  obtain q where q: "queue (routeHeap r b) = Some q" using assms(2) by auto
  have "chan_try_send (route_cap r) q' (failItem e) \<noteq> []" for q'
    by (rule chan_try_send_nonempty [OF assms(1)])
  with q assms(3) show ?thesis
    by (auto simp: failQueue_def neq_Nil_conv split: option.splits)
qed

lemma fold_failQueue_nonempty:
  assumes "0 < route_cap r" "queue (routeHeap r a) \<noteq> None"
    "a \<in> set qs \<or> queue (routeHeap r a) \<noteq> Some []"
  shows "\<exists>x xs. queue (routeHeap (fold (failQueue e) qs r) a) = Some (x # xs)"
  using assms
proof (induction qs arbitrary: r)
  case Nil
  then show ?case by (auto simp: neq_Nil_conv)
next
  case (Cons b qs)
  show ?case
  proof (cases "a = b \<or> queue (routeHeap r a) \<noteq> Some []")
    case True
    from failQueue_nonempty [OF Cons.prems(1,2), of b e] True
    have "\<exists>x xs. queue (routeHeap (failQueue e b r) a) = Some (x # xs)" by auto
    then show ?thesis using Cons.IH [of "failQueue e b r"] Cons.prems(1) by (auto simp: failQueue_frame)
  next
    case False
    then have "queue (routeHeap (failQueue e b r) a) = queue (routeHeap r a)"
      by (simp add: failQueue_def split: option.splits)
    then show ?thesis using Cons.IH [of "failQueue e b r"] Cons.prems False by (simp add: failQueue_frame)
  qed
qed

lemma snapshot_member:
  "map_of (routes r k) i = Some a \<Longrightarrow> queue (routeHeap r a) \<noteq> None \<Longrightarrow>
     a \<in> set (concat (map (routeQueuesSnapshot r) all_kinds))"
  by (cases k) (force simp: all_kinds_def routeQueuesSnapshot_def dest!: map_of_SomeD)+



section \<open>Dispatch\<close>

text \<open>After \<open>unregisterRoute\<close> a late notification for that identifier is dismissed without an
  error and without touching the router, and stays dismissed until the identifier is registered
  again.\<close>
theorem unregistered_dismissed:
  "failed r = None \<Longrightarrow> routeScoped i item k only (unregisterRoute i k r) = Some (unregisterRoute i k r, None) \<and>
   (\<forall>r' e. registerRoute i k (unregisterRoute i k r) = Some (r', e) \<longrightarrow> i \<notin> closed r' k)"
proof -
  assume fl: "failed r = None"
  have c: "i \<in> closed (unregisterRoute i k r) k"
    by (simp add: unregisterRoute_def Let_def split: option.splits)
  have "i \<notin> closed r' k" if "registerRoute i k (unregisterRoute i k r) = Some (r', e)" for r' e
  proof -
    obtain r2 a where e: "ensureRoute i k (reopen i k (unregisterRoute i k r)) = (r2, a)" by fastforce
    have "closed r2 = closed (reopen i k (unregisterRoute i k r))" by (rule ensureRoute_fields [OF e])
    with that e fl show ?thesis
      by (auto simp: registerRoute_def Let_def unregisterRoute_fields split: option.splits if_splits)
  qed
  with c fl show ?thesis by (simp add: routeScoped_def unregisterRoute_fields)
qed

theorem unregistered_dismissed_witness:
  "routeScoped ''t1'' \<lparr>Raw = None, ItemErr = None, Size = 0\<rparr> turnRoute False (unregisterRoute ''t1'' turnRoute (New DefaultLimits)) =
     Some (unregisterRoute ''t1'' turnRoute (New DefaultLimits), None)"
  using unregistered_dismissed [of "New DefaultLimits" "''t1''" "\<lparr>Raw = None, ItemErr = None, Size = 0\<rparr>" turnRoute False]
  by (simp add: New_def)

lemma routeScoped_globalQueue:
  "routeScoped i x k only r = Some (r', e) \<Longrightarrow> globalQueue r' = globalQueue r"
  by (auto simp: routeScoped_def ensureRoute_def reserveTotal_def Let_def
      split: option.splits prod.splits if_splits sum.splits)

text \<open>A notification that names a turn never reaches the global queue; one that names neither a
  turn nor a login and is not a compaction notice of a thread always goes through it, after being
  offered to the thread's goal route when its method is relevant to goals.\<close>
theorem notification_dispatch:
  "(notificationTurnID params \<noteq> '''' \<longrightarrow> RouteNotification m params r = Some (r', e) \<longrightarrow>
      globalQueue r' = globalQueue r) \<and>
    (notificationTurnID params = '''' \<and> notificationLoginID m params = '''' \<and>
     (m \<noteq> ''thread/compacted'' \<or> notificationThreadID params = '''') \<longrightarrow>
     RouteNotification m params r =
       (if notificationThreadID params \<noteq> '''' \<and> goalRelevantMethod m
        then (case routeScoped (notificationThreadID params) (notificationItem m params) goalRoute True r of
            None \<Rightarrow> None
          | Some (r1, Some err) \<Rightarrow> Some (r1, Some err)
          | Some (r1, None) \<Rightarrow> routeGlobal (notificationItem m params) r1)
        else routeGlobal (notificationItem m params) r))"
proof -
  have "globalQueue r' = globalQueue r"
    if "notificationTurnID params \<noteq> ''''" "RouteNotification m params r = Some (r', e)"
    using that by (auto simp: RouteNotification_def Let_def dest!: routeScoped_globalQueue
        split: option.splits prod.splits if_splits)
  then show ?thesis
    by (auto simp: RouteNotification_def Let_def split: option.splits)
qed

theorem notification_dispatch_witness:
  "RouteNotification ''warning'' (Some (JObj [])) (New DefaultLimits) =
     routeGlobal (notificationItem ''warning'' (Some (JObj []))) (New DefaultLimits)"
  using notification_dispatch [of "Some (JObj [])" "''warning''" "New DefaultLimits"]
  by (simp add: notificationTurnID_def notificationLoginID_def notificationThreadID_def struct_members_def)

text \<open>Whatever limits a caller asks for, the router runs with positive ones: a field that is
  zero or negative gets its default, every positive field is kept, and normalising twice changes
  nothing.\<close>
theorem normalized_limits:
  "limits_pos (normalizeLimits l) \<and> normalizeLimits (normalizeLimits l) = normalizeLimits l \<and>
   (limits_pos l \<longrightarrow> normalizeLimits l = l)"
  by (cases l) (auto simp: limits_pos_def normalizeLimits_def DefaultLimits_def mib_def)

theorem normalized_limits_witness: "normalizeLimits DefaultLimits = DefaultLimits"
  using normalized_limits [of DefaultLimits] by (simp add: limits_pos_def DefaultLimits_def mib_def)

end
