(* ===== verification/Codex_Types.thy ===== *)
theory Codex_Types
  imports Go_Errors "HOL-Library.Monad_Syntax"
begin

text \<open>
  \<open>types.go\<close>: the data the SDK hands to its callers and how it is read from the wire. Every
  struct that is decoded has a decoder over the members of a JSON object; the two casings the
  custom \<open>UnmarshalJSON\<close> methods accept are separate members, as in their auxiliary structs.
  An \<open>any\<close> is the JSON value it was read from. The text of an \<open>encoding/json\<close> error is not
  modelled, only that there is one (\<open>json_error\<close>).
\<close>

definition json_error :: go_error where
  "json_error = Text ''json: cannot unmarshal value''"

definition or_json_error :: "'a option \<Rightarrow> go_error + 'a" where
  "or_json_error r = (case r of Some x \<Rightarrow> Inr x | None \<Rightarrow> Inl json_error)"

lemma or_json_error_simps [simp]:
  "or_json_error None = Inl json_error" "or_json_error (Some x) = Inr x"
  by (simp_all add: or_json_error_def)

subsection \<open>Slices and maps\<close>

text \<open>
  Decoding into a slice reuses the elements already there, which matters only when a member is
  repeated; \<open>null\<close> resets the slice.
\<close>

fun dec_elems :: "(json \<Rightarrow> 'a \<Rightarrow> 'a option) \<Rightarrow> 'a \<Rightarrow> 'a list \<Rightarrow> json list \<Rightarrow> 'a list option" where
  "dec_elems f zero old [] = Some []"
| "dec_elems f zero old (v # vs) = do {
     x \<leftarrow> f v (case old of [] \<Rightarrow> zero | y # ys \<Rightarrow> y);
     xs \<leftarrow> dec_elems f zero (tl old) vs;
     Some (x # xs)
   }"

fun dec_slice :: "(json \<Rightarrow> 'a \<Rightarrow> 'a option) \<Rightarrow> 'a \<Rightarrow> string \<Rightarrow> 'a list \<Rightarrow> members \<Rightarrow> 'a list option" where
  "dec_slice f zero name acc [] = Some acc"
| "dec_slice f zero name acc ((k, v) # ms) =
     (if is_field name k then
        (case v of
           JArr vs \<Rightarrow> do { xs \<leftarrow> dec_elems f zero acc vs; dec_slice f zero name xs ms }
         | JNull \<Rightarrow> dec_slice f zero name [] ms
         | _ \<Rightarrow> None)
      else dec_slice f zero name acc ms)"

text \<open>An element that is a struct: \<open>null\<close> leaves it as it is.\<close>

definition elem_struct :: "(members \<Rightarrow> 'a \<Rightarrow> 'a option) \<Rightarrow> json \<Rightarrow> 'a \<Rightarrow> 'a option" where
  "elem_struct f v x = (case v of JObj ms \<Rightarrow> f ms x | JNull \<Rightarrow> Some x | _ \<Rightarrow> None)"

definition elem_raw :: "json \<Rightarrow> json \<Rightarrow> json option" where
  "elem_raw v x = Some v"

text \<open>A \<open>map[string]any\<close>, nil or not, filled from an object.\<close>

definition fill_map :: "members \<Rightarrow> json gomap \<Rightarrow> json gomap" where
  "fill_map ms m = fold (\<lambda>(k, v). AList.update k v) ms m"

definition elem_map :: "json \<Rightarrow> json gomap option \<Rightarrow> json gomap option option" where
  "elem_map v x = (case v of
       JObj ms \<Rightarrow> Some (Some (fill_map ms (case x of None \<Rightarrow> [] | Some m \<Rightarrow> m)))
     | JNull \<Rightarrow> Some None
     | _ \<Rightarrow> None)"

fun dec_map :: "string \<Rightarrow> json gomap option \<Rightarrow> members \<Rightarrow> json gomap option option" where
  "dec_map name acc [] = Some acc"
| "dec_map name acc ((k, v) # ms) =
     (if is_field name k then
        (case elem_map v acc of Some m \<Rightarrow> dec_map name m ms | None \<Rightarrow> None)
      else dec_map name acc ms)"

subsection \<open>Usage and errors\<close>

record Usage =
  InputTokens :: int
  CachedInputTokens :: int
  CacheWriteInputTokens :: int
  OutputTokens :: int
  ReasoningOutputTokens :: int
  TotalTokens :: int

definition pick :: "int option \<Rightarrow> int option \<Rightarrow> int" where
  "pick snake camel = (case snake of
      Some n \<Rightarrow> n
    | None \<Rightarrow> (case camel of Some n \<Rightarrow> n | None \<Rightarrow> 0))"

definition pick_field :: "string \<Rightarrow> string \<Rightarrow> members \<Rightarrow> int option" where
  "pick_field snake camel ms = do {
     s \<leftarrow> dec_int_ptr snake None ms;
     c \<leftarrow> dec_int_ptr camel None ms;
     Some (pick s c)
   }"

definition Usage_UnmarshalJSON :: "members \<Rightarrow> Usage option" where
  "Usage_UnmarshalJSON ms = do {
     i \<leftarrow> pick_field ''input_tokens'' ''inputTokens'' ms;
     c \<leftarrow> pick_field ''cached_input_tokens'' ''cachedInputTokens'' ms;
     w \<leftarrow> pick_field ''cache_write_input_tokens'' ''cacheWriteInputTokens'' ms;
     out \<leftarrow> pick_field ''output_tokens'' ''outputTokens'' ms;
     r \<leftarrow> pick_field ''reasoning_output_tokens'' ''reasoningOutputTokens'' ms;
     t \<leftarrow> pick_field ''total_tokens'' ''totalTokens'' ms;
     Some \<lparr>InputTokens = i, CachedInputTokens = c, CacheWriteInputTokens = w, OutputTokens = out,
           ReasoningOutputTokens = r, TotalTokens = t\<rparr>
   }"

definition zero_Usage :: Usage where
  "zero_Usage = \<lparr>InputTokens = 0, CachedInputTokens = 0, CacheWriteInputTokens = 0, OutputTokens = 0,
     ReasoningOutputTokens = 0, TotalTokens = 0\<rparr>"

abbreviation dec_usage_ptr :: "string \<Rightarrow> Usage option \<Rightarrow> members \<Rightarrow> Usage option option" where
  "dec_usage_ptr \<equiv> dec_struct_ptr (\<lambda>fs _. Usage_UnmarshalJSON fs) zero_Usage"

record ThreadError =
  te_Message :: string
  te_CodexErrorInfo :: string

definition zero_ThreadError :: ThreadError where
  "zero_ThreadError = \<lparr>te_Message = '''', te_CodexErrorInfo = ''''\<rparr>"

definition dec_ThreadError :: "members \<Rightarrow> ThreadError \<Rightarrow> ThreadError option" where
  "dec_ThreadError ms e = do {
     m \<leftarrow> dec_string ''message'' (te_Message e) ms;
     i \<leftarrow> dec_string ''codexErrorInfo'' (te_CodexErrorInfo e) ms;
     Some \<lparr>te_Message = m, te_CodexErrorInfo = i\<rparr>
   }"

abbreviation dec_error_ptr :: "string \<Rightarrow> ThreadError option \<Rightarrow> members \<Rightarrow> ThreadError option option" where
  "dec_error_ptr \<equiv> dec_struct_ptr dec_ThreadError zero_ThreadError"

subsection \<open>Thread items\<close>

record FileUpdateChange =
  fu_Path :: string
  fu_Kind :: string

record McpToolCallResult =
  mr_Content :: "json gomap option list"
  mr_StructuredContent :: "json option"

record TodoItem =
  td_Text :: string
  td_Completed :: bool

record UserMessageContentBlock =
  cb_Type :: string
  cb_Text :: string
  cb_TextElements :: "json list"

text \<open>
  The \<open>ThreadItem\<close> union: one constructor per struct, its arguments the struct's fields in
  their order, the first two being \<open>ID\<close> and \<open>Type\<close> (for \<open>UnknownItem\<close>: \<open>Type\<close> and \<open>Raw\<close>).
  The error of an MCP call is its message.
\<close>

datatype ThreadItem =
    UnknownItem string raw
  | AgentMessageItem string string string string
  | ReasoningItem string string string
  | CommandExecutionItem string string string string "int option" string
  | FileChangeItem string string "FileUpdateChange list" string
  | McpToolCallItem string string string string "json option" "McpToolCallResult option" "string option" string
  | WebSearchItem string string string
  | ErrorItem string string string
  | TodoListItem string string "TodoItem list"
  | UserMessageItem string string "string option" "UserMessageContentBlock list"
  | PlanItem string string string

fun ItemType :: "ThreadItem \<Rightarrow> string" where
  "ItemType (UnknownItem t _) = t"
| "ItemType (AgentMessageItem _ t _ _) = t"
| "ItemType (ReasoningItem _ t _) = t"
| "ItemType (CommandExecutionItem _ t _ _ _ _) = t"
| "ItemType (FileChangeItem _ t _ _) = t"
| "ItemType (McpToolCallItem _ t _ _ _ _ _ _) = t"
| "ItemType (WebSearchItem _ t _) = t"
| "ItemType (ErrorItem _ t _) = t"
| "ItemType (TodoListItem _ t _) = t"
| "ItemType (UserMessageItem _ t _ _) = t"
| "ItemType (PlanItem _ t _) = t"

definition dec_AgentMessageItem :: "members \<Rightarrow> ThreadItem option" where
  "dec_AgentMessageItem ms = do {
     i \<leftarrow> dec_string ''id'' '''' ms; t \<leftarrow> dec_string ''type'' '''' ms;
     x \<leftarrow> dec_string ''text'' '''' ms; p \<leftarrow> dec_string ''phase'' '''' ms;
     Some (AgentMessageItem i t x p)
   }"

definition dec_ReasoningItem :: "members \<Rightarrow> ThreadItem option" where
  "dec_ReasoningItem ms = do {
     i \<leftarrow> dec_string ''id'' '''' ms; t \<leftarrow> dec_string ''type'' '''' ms; x \<leftarrow> dec_string ''text'' '''' ms;
     Some (ReasoningItem i t x)
   }"

definition CommandExecutionStatus_IsInProgress :: "string \<Rightarrow> bool" where
  "CommandExecutionStatus_IsInProgress s \<longleftrightarrow> s = ''in_progress'' \<or> s = ''inProgress''"

definition CommandExecutionItem_UnmarshalJSON :: "members \<Rightarrow> ThreadItem option" where
  "CommandExecutionItem_UnmarshalJSON ms = do {
     i \<leftarrow> dec_string ''id'' '''' ms;
     t \<leftarrow> dec_string ''type'' '''' ms;
     c \<leftarrow> dec_string ''command'' '''' ms;
     s \<leftarrow> dec_string ''status'' '''' ms;
     ag \<leftarrow> dec_string_ptr ''aggregated_output'' None ms;
     agc \<leftarrow> dec_string_ptr ''aggregatedOutput'' None ms;
     ex \<leftarrow> dec_int_ptr ''exit_code'' None ms;
     exc \<leftarrow> dec_int_ptr ''exitCode'' None ms;
     Some (CommandExecutionItem i t c
        (case ag of Some a \<Rightarrow> a | None \<Rightarrow> (case agc of Some a \<Rightarrow> a | None \<Rightarrow> ''''))
        (case ex of Some e \<Rightarrow> Some e | None \<Rightarrow> exc) s)
   }"

definition dec_FileUpdateChange :: "members \<Rightarrow> FileUpdateChange \<Rightarrow> FileUpdateChange option" where
  "dec_FileUpdateChange ms x = do {
     p \<leftarrow> dec_string ''path'' (fu_Path x) ms; k \<leftarrow> dec_string ''kind'' (fu_Kind x) ms;
     Some \<lparr>fu_Path = p, fu_Kind = k\<rparr>
   }"

definition dec_FileChangeItem :: "members \<Rightarrow> ThreadItem option" where
  "dec_FileChangeItem ms = do {
     i \<leftarrow> dec_string ''id'' '''' ms; t \<leftarrow> dec_string ''type'' '''' ms;
     cs \<leftarrow> dec_slice (elem_struct dec_FileUpdateChange) \<lparr>fu_Path = '''', fu_Kind = ''''\<rparr> ''changes'' [] ms;
     s \<leftarrow> dec_string ''status'' '''' ms;
     Some (FileChangeItem i t cs s)
   }"

definition McpToolCallStatus_IsInProgress :: "string \<Rightarrow> bool" where
  "McpToolCallStatus_IsInProgress s \<longleftrightarrow> s = ''in_progress'' \<or> s = ''inProgress''"

definition McpToolCallResult_UnmarshalJSON :: "members \<Rightarrow> McpToolCallResult option" where
  "McpToolCallResult_UnmarshalJSON ms = do {
     c \<leftarrow> dec_slice elem_map None ''content'' [] ms;
     Some \<lparr>mr_Content = c,
       mr_StructuredContent = (case dec_any ''structured_content'' ms of
           Some v \<Rightarrow> Some v
         | None \<Rightarrow> dec_any ''structuredContent'' ms)\<rparr>
   }"

definition dec_McpToolCallItem :: "members \<Rightarrow> ThreadItem option" where
  "dec_McpToolCallItem ms = do {
     i \<leftarrow> dec_string ''id'' '''' ms; t \<leftarrow> dec_string ''type'' '''' ms;
     sv \<leftarrow> dec_string ''server'' '''' ms; tl \<leftarrow> dec_string ''tool'' '''' ms;
     r \<leftarrow> dec_struct_ptr (\<lambda>fs _. McpToolCallResult_UnmarshalJSON fs)
            \<lparr>mr_Content = [], mr_StructuredContent = None\<rparr> ''result'' None ms;
     e \<leftarrow> dec_struct_ptr (\<lambda>fs m. dec_string ''message'' m fs) '''' ''error'' None ms;
     s \<leftarrow> dec_string ''status'' '''' ms;
     Some (McpToolCallItem i t sv tl (dec_any ''arguments'' ms) r e s)
   }"

definition dec_WebSearchItem :: "members \<Rightarrow> ThreadItem option" where
  "dec_WebSearchItem ms = do {
     i \<leftarrow> dec_string ''id'' '''' ms; t \<leftarrow> dec_string ''type'' '''' ms; q \<leftarrow> dec_string ''query'' '''' ms;
     Some (WebSearchItem i t q)
   }"

definition dec_ErrorItem :: "members \<Rightarrow> ThreadItem option" where
  "dec_ErrorItem ms = do {
     i \<leftarrow> dec_string ''id'' '''' ms; t \<leftarrow> dec_string ''type'' '''' ms; m \<leftarrow> dec_string ''message'' '''' ms;
     Some (ErrorItem i t m)
   }"

definition dec_TodoItem :: "members \<Rightarrow> TodoItem \<Rightarrow> TodoItem option" where
  "dec_TodoItem ms x = do {
     t \<leftarrow> dec_string ''text'' (td_Text x) ms; c \<leftarrow> dec_bool ''completed'' (td_Completed x) ms;
     Some \<lparr>td_Text = t, td_Completed = c\<rparr>
   }"

definition dec_TodoListItem :: "members \<Rightarrow> ThreadItem option" where
  "dec_TodoListItem ms = do {
     i \<leftarrow> dec_string ''id'' '''' ms; t \<leftarrow> dec_string ''type'' '''' ms;
     xs \<leftarrow> dec_slice (elem_struct dec_TodoItem) \<lparr>td_Text = '''', td_Completed = False\<rparr> ''items'' [] ms;
     Some (TodoListItem i t xs)
   }"

definition dec_UserMessageContentBlock ::
  "members \<Rightarrow> UserMessageContentBlock \<Rightarrow> UserMessageContentBlock option" where
  "dec_UserMessageContentBlock ms x = do {
     t \<leftarrow> dec_string ''type'' (cb_Type x) ms; s \<leftarrow> dec_string ''text'' (cb_Text x) ms;
     es \<leftarrow> dec_slice elem_raw JNull ''text_elements'' (cb_TextElements x) ms;
     Some \<lparr>cb_Type = t, cb_Text = s, cb_TextElements = es\<rparr>
   }"

definition dec_UserMessageItem :: "members \<Rightarrow> ThreadItem option" where
  "dec_UserMessageItem ms = do {
     i \<leftarrow> dec_string ''id'' '''' ms; t \<leftarrow> dec_string ''type'' '''' ms;
     c \<leftarrow> dec_string_ptr ''clientId'' None ms;
     bs \<leftarrow> dec_slice (elem_struct dec_UserMessageContentBlock)
            \<lparr>cb_Type = '''', cb_Text = '''', cb_TextElements = []\<rparr> ''content'' [] ms;
     Some (UserMessageItem i t c bs)
   }"

definition dec_PlanItem :: "members \<Rightarrow> ThreadItem option" where
  "dec_PlanItem ms = do {
     i \<leftarrow> dec_string ''id'' '''' ms; t \<leftarrow> dec_string ''type'' '''' ms; x \<leftarrow> dec_string ''text'' '''' ms;
     Some (PlanItem i t x)
   }"

text \<open>
  \<open>parseThreadItem\<close>. A \<open>null\<close> item has no type and is kept as unknown; an empty message is
  an error, and so is a value that is not an object.
\<close>

definition parse_by_type :: "string \<Rightarrow> members \<Rightarrow> raw \<Rightarrow> ThreadItem option" where
  "parse_by_type t ms r =
    (if t = ''agent_message'' \<or> t = ''agentMessage'' then dec_AgentMessageItem ms
     else if t = ''reasoning'' then dec_ReasoningItem ms
     else if t = ''command_execution'' \<or> t = ''commandExecution'' then CommandExecutionItem_UnmarshalJSON ms
     else if t = ''file_change'' \<or> t = ''fileChange'' then dec_FileChangeItem ms
     else if t = ''mcp_tool_call'' \<or> t = ''mcpToolCall'' then dec_McpToolCallItem ms
     else if t = ''web_search'' \<or> t = ''webSearch'' then dec_WebSearchItem ms
     else if t = ''todo_list'' then dec_TodoListItem ms
     else if t = ''error'' then dec_ErrorItem ms
     else if t = ''userMessage'' \<or> t = ''user_message'' then dec_UserMessageItem ms
     else if t = ''plan'' then dec_PlanItem ms
     else Some (UnknownItem t r))"

definition parseThreadItem :: "raw \<Rightarrow> ThreadItem option" where
  "parseThreadItem r = do {
     ms \<leftarrow> struct_members r;
     t \<leftarrow> dec_string ''type'' '''' ms;
     parse_by_type t ms r
   }"

subsection \<open>Turns, goals and events\<close>

text \<open>
  A \<open>*time.Time\<close> is the Unix second it was made from, nil when that is zero. A
  \<open>time.Duration\<close> is an \<open>int64\<close> of nanoseconds: the product wraps.
\<close>

definition unixSecondsTime :: "int \<Rightarrow> int option" where
  "unixSecondsTime ts = (if ts = 0 then None else Some ts)"

definition int64 :: "int \<Rightarrow> int" where
  "int64 x = (x + 2 ^ 63) mod 2 ^ 64 - 2 ^ 63"

definition millis :: "int \<Rightarrow> int" where
  "millis d = int64 (d * 1000000)"

record TurnState =
  ts_ID :: string
  ts_Status :: string
  ts_Error :: "ThreadError option"
  ts_StartedAt :: "int option"
  ts_CompletedAt :: "int option"
  ts_Duration :: int

record TurnResult =
  tr_ID :: string
  tr_Status :: string
  tr_Error :: "ThreadError option"
  tr_StartedAt :: "int option"
  tr_CompletedAt :: "int option"
  tr_Duration :: int
  tr_FinalResponse :: string
  tr_Items :: "ThreadItem list"
  tr_Usage :: "Usage option"

record Goal =
  gl_Objective :: string
  gl_Status :: string
  gl_TokenBudget :: int
  gl_TokensUsed :: int
  gl_UpdatedAt :: "int option"

record Account =
  ac_Type :: string
  ac_Raw :: "json gomap option"

record ThreadEvent =
  ev_Type :: string
  ev_Method :: string
  ev_ThreadID :: string
  ev_TurnID :: string
  ev_Usage :: "Usage option"
  ev_Error :: "ThreadError option"
  ev_Item :: "ThreadItem option"
  ev_Message :: string
  ev_Turn :: "TurnState option"
  ev_Goal :: "Goal option"
  ev_Account :: "Account option"
  ev_ItemID :: string
  ev_Delta :: string
  ev_SummaryIndex :: int
  ev_Raw :: raw

definition zero_ThreadEvent :: ThreadEvent where
  "zero_ThreadEvent = \<lparr>ev_Type = '''', ev_Method = '''', ev_ThreadID = '''', ev_TurnID = '''',
     ev_Usage = None, ev_Error = None, ev_Item = None, ev_Message = '''', ev_Turn = None,
     ev_Goal = None, ev_Account = None, ev_ItemID = '''', ev_Delta = '''', ev_SummaryIndex = 0, ev_Raw = None\<rparr>"

text \<open>\<open>ThreadEvent.UnmarshalJSON\<close>, on the event \<open>e\<close> that is filled.\<close>

definition ThreadEvent_UnmarshalJSON :: "raw \<Rightarrow> ThreadEvent \<Rightarrow> go_error + ThreadEvent" where
  "ThreadEvent_UnmarshalJSON r e = or_json_error (do {
     ms \<leftarrow> struct_members r;
     t \<leftarrow> dec_string ''type'' '''' ms;
     th \<leftarrow> dec_string ''thread_id'' '''' ms;
     u \<leftarrow> dec_usage_ptr ''usage'' None ms;
     er \<leftarrow> dec_error_ptr ''error'' None ms;
     m \<leftarrow> dec_string ''message'' '''' ms;
     let e1 = e\<lparr>ev_Type := t, ev_ThreadID := th, ev_Usage := u, ev_Error := er, ev_Message := m, ev_Raw := r\<rparr>;
     (case dec_raw ''item'' None ms of
        None \<Rightarrow> Some e1
      | it \<Rightarrow> map_option (\<lambda>i. e1\<lparr>ev_Item := Some i\<rparr>) (parseThreadItem it))
   })"

end
