(* ===== verification/Turn.thy ===== *)
theory Turn
  imports Codex_Types
begin

text \<open>
  \<open>turn_api.go\<close>: from routed notifications to \<open>ThreadEvent\<close> values, the pull stream over one
  turn, and the collected result. The transport below a stream is a parameter here: \<open>nextTurn\<close>
  reads the next notification of the turn in a world \<open>'w\<close> (\<open>None\<close>: it waits for ever) and
  \<open>unregisterTurn\<close> drops the route; \<open>Transport\<close> supplies the router.
\<close>

named_theorems event_simps \<open>decoded notifications\<close>

section \<open>Notifications\<close>

definition orString :: "string \<Rightarrow> string \<Rightarrow> string" where
  "orString v fallback = (if v \<noteq> '''' then v else fallback)"

definition missing_method :: go_error where
  "missing_method = Text ''codex: notification missing method''"

definition splitNotification :: "raw \<Rightarrow> go_error + (string \<times> raw)" where
  "splitNotification r =
    (case (do { ms \<leftarrow> struct_members r; m \<leftarrow> dec_string ''method'' '''' ms; Some (m, dec_raw ''params'' None ms) }) of
       None \<Rightarrow> Inl json_error
     | Some (m, p) \<Rightarrow> if m = '''' then Inl missing_method else Inr (m, p))"

text \<open>\<open>json.Marshal\<close> sorts the two keys of the map and writes an empty \<open>RawMessage\<close> as \<open>null\<close>.\<close>

definition buildNotificationEnvelope :: "string \<Rightarrow> raw \<Rightarrow> raw" where
  "buildNotificationEnvelope m params =
     Some (JObj [(''method'', JStr m), (''params'', case params of Some p \<Rightarrow> p | None \<Rightarrow> JNull)])"

definition notificationGoalTurnID :: "raw \<Rightarrow> string" where
  "notificationGoalTurnID r =
    (case (do { ms \<leftarrow> struct_members r; dec_string ''turnId'' '''' ms }) of None \<Rightarrow> '''' | Some i \<Rightarrow> i)"

definition notificationTurnIDLocal :: "raw \<Rightarrow> string" where
  "notificationTurnIDLocal r =
    (case (do { ms \<leftarrow> struct_members r;
                tid \<leftarrow> dec_string ''turnId'' '''' ms;
                turn \<leftarrow> dec_struct_ptr (\<lambda>fs i. dec_string ''id'' i fs) '''' ''turn'' None ms;
                Some (tid, turn) }) of
       None \<Rightarrow> ''''
     | Some (tid, turn) \<Rightarrow> if tid \<noteq> '''' then tid else (case turn of Some i \<Rightarrow> i | None \<Rightarrow> ''''))"

definition inferNotificationMethod :: "raw \<Rightarrow> string" where
  "inferNotificationMethod r =
    (case (do { ms \<leftarrow> struct_members r;
                tid \<leftarrow> dec_string ''turnId'' '''' ms;
                turn \<leftarrow> dec_struct_ptr
                   (\<lambda>fs (i, s). do { i' \<leftarrow> dec_string ''id'' i fs; s' \<leftarrow> dec_string ''status'' s fs; Some (i', s') })
                   ('''', '''') ''turn'' None ms;
                Some (dec_raw ''item'' None ms, tid, dec_raw ''tokenUsage'' None ms, turn) }) of
       None \<Rightarrow> ''''
     | Some (item, tid, usage, turn) \<Rightarrow>
        if item \<noteq> None \<and> tid \<noteq> '''' then ''item/completed''
        else if usage \<noteq> None then ''thread/tokenUsage/updated''
        else (case turn of
            None \<Rightarrow> ''''
          | Some (i, s) \<Rightarrow>
             if s \<noteq> '''' then
               (if s = ''completed'' \<or> s = ''failed'' \<or> s = ''interrupted'' then ''turn/completed''
                else ''turn/started'')
             else if i \<noteq> '''' then ''turn/started'' else ''''))"

section \<open>Turn states\<close>

record turnWire =
  tw_ID :: string
  tw_Status :: string
  tw_Error :: "ThreadError option"
  tw_StartedAt :: int
  tw_CompletedAt :: int
  tw_DurationMs :: int
  tw_Items :: "json list"

definition zero_turnWire :: turnWire where
  "zero_turnWire = \<lparr>tw_ID = '''', tw_Status = '''', tw_Error = None, tw_StartedAt = 0,
     tw_CompletedAt = 0, tw_DurationMs = 0, tw_Items = []\<rparr>"

definition dec_turnWire :: "members \<Rightarrow> turnWire \<Rightarrow> turnWire option" where
  "dec_turnWire ms x = do {
     i \<leftarrow> dec_string ''id'' (tw_ID x) ms;
     s \<leftarrow> dec_string ''status'' (tw_Status x) ms;
     e \<leftarrow> dec_error_ptr ''error'' (tw_Error x) ms;
     st \<leftarrow> dec_int ''startedAt'' (tw_StartedAt x) ms;
     ct \<leftarrow> dec_int ''completedAt'' (tw_CompletedAt x) ms;
     d \<leftarrow> dec_int ''durationMs'' (tw_DurationMs x) ms;
     its \<leftarrow> dec_slice elem_raw JNull ''items'' (tw_Items x) ms;
     Some \<lparr>tw_ID = i, tw_Status = s, tw_Error = e, tw_StartedAt = st, tw_CompletedAt = ct,
           tw_DurationMs = d, tw_Items = its\<rparr>
   }"

definition decodeTurnState :: "turnWire \<Rightarrow> TurnState" where
  "decodeTurnState t = \<lparr>ts_ID = tw_ID t, ts_Status = tw_Status t, ts_Error = tw_Error t,
     ts_StartedAt = unixSecondsTime (tw_StartedAt t), ts_CompletedAt = unixSecondsTime (tw_CompletedAt t),
     ts_Duration = millis (tw_DurationMs t)\<rparr>"

section \<open>\<open>decodeTurnNotification\<close>, one definition per case\<close>

text \<open>
  Each case decodes the parameters (\<open>None\<close>: the decoder's error) and builds the event;
  \<open>base_event\<close> holds the fields every case sets.
\<close>

definition base_event :: "string \<Rightarrow> string \<Rightarrow> string \<Rightarrow> string \<Rightarrow> raw \<Rightarrow> ThreadEvent" where
  "base_event typ m thread turn r = zero_ThreadEvent
     \<lparr>ev_Type := typ, ev_Method := m, ev_ThreadID := thread, ev_TurnID := turn, ev_Raw := r\<rparr>"

definition decode_turn_started :: "string \<Rightarrow> raw \<Rightarrow> raw \<Rightarrow> ThreadEvent option" where
  "decode_turn_started threadID params r = do {
     ms \<leftarrow> struct_members params;
     th \<leftarrow> dec_string ''threadId'' '''' ms;
     t \<leftarrow> dec_struct dec_turnWire ''turn'' zero_turnWire ms;
     let st = decodeTurnState t;
     Some ((base_event ''turn.started'' ''turn/started'' (orString th threadID) (ts_ID st) r)\<lparr>ev_Turn := Some st\<rparr>)
   }"

definition decode_item_started :: "string \<Rightarrow> raw \<Rightarrow> raw \<Rightarrow> ThreadEvent option" where
  "decode_item_started threadID params r = do {
     ms \<leftarrow> struct_members params;
     th \<leftarrow> dec_string ''threadId'' '''' ms;
     tid \<leftarrow> dec_string ''turnId'' '''' ms;
     _ \<leftarrow> dec_int ''startedAtMs'' 0 ms;
     item \<leftarrow> (case dec_raw ''item'' None ms of
        None \<Rightarrow> Some None
      | it \<Rightarrow> map_option Some (parseThreadItem it));
     Some ((base_event ''item.started'' ''item/started'' (orString th threadID) tid r)\<lparr>ev_Item := item\<rparr>)
   }"

definition decode_error :: "string \<Rightarrow> raw \<Rightarrow> raw \<Rightarrow> ThreadEvent option" where
  "decode_error threadID params r = do {
     ms \<leftarrow> struct_members params;
     th \<leftarrow> dec_string ''threadId'' '''' ms;
     tid \<leftarrow> dec_string ''turnId'' '''' ms;
     e \<leftarrow> dec_error_ptr ''error'' None ms;
     _ \<leftarrow> dec_bool ''willRetry'' False ms;
     let ev = (base_event ''error'' ''error'' (orString th threadID) tid r)\<lparr>ev_Error := e\<rparr>;
     Some (case e of
        Some er \<Rightarrow> if te_Message er = '''' then ev\<lparr>ev_Message := te_CodexErrorInfo er\<rparr> else ev
      | None \<Rightarrow> ev)
   }"

definition decode_item_completed :: "string \<Rightarrow> raw \<Rightarrow> raw \<Rightarrow> ThreadEvent option" where
  "decode_item_completed threadID params r = do {
     ms \<leftarrow> struct_members params;
     th \<leftarrow> dec_string ''threadId'' '''' ms;
     tid \<leftarrow> dec_string ''turnId'' '''' ms;
     item \<leftarrow> parseThreadItem (dec_raw ''item'' None ms);
     Some ((base_event ''item.completed'' ''item/completed'' (orString th threadID) tid r)\<lparr>ev_Item := Some item\<rparr>)
   }"

definition decode_tokenUsage_updated :: "string \<Rightarrow> raw \<Rightarrow> raw \<Rightarrow> ThreadEvent option" where
  "decode_tokenUsage_updated threadID params r = do {
     ms \<leftarrow> struct_members params;
     th \<leftarrow> dec_string ''threadId'' '''' ms;
     tid \<leftarrow> dec_string ''turnId'' '''' ms;
     u \<leftarrow> dec_struct (\<lambda>fs u. dec_usage_ptr ''last'' u fs) ''tokenUsage'' None ms;
     Some ((base_event ''thread.token_usage.updated'' ''thread/tokenUsage/updated'' (orString th threadID) tid r)
       \<lparr>ev_Usage := u\<rparr>)
   }"

definition decode_turn_completed :: "string \<Rightarrow> raw \<Rightarrow> Usage option \<Rightarrow> raw \<Rightarrow> ThreadEvent option" where
  "decode_turn_completed threadID params latestUsage r = do {
     ms \<leftarrow> struct_members params;
     th \<leftarrow> dec_string ''threadId'' '''' ms;
     t \<leftarrow> dec_struct dec_turnWire ''turn'' zero_turnWire ms;
     let st = decodeTurnState t;
     Some ((base_event (if ts_Status st = ''failed'' then ''turn.failed'' else ''turn.completed'')
         ''turn/completed'' (orString th threadID) (ts_ID st) r)
       \<lparr>ev_Usage := latestUsage, ev_Error := ts_Error st, ev_Turn := Some st\<rparr>)
   }"

definition delta_event :: "string \<Rightarrow> string \<Rightarrow> string \<Rightarrow> raw \<Rightarrow> raw \<Rightarrow> ThreadEvent option" where
  "delta_event typ m threadID params r = do {
     ms \<leftarrow> struct_members params;
     th \<leftarrow> dec_string ''threadId'' '''' ms;
     tid \<leftarrow> dec_string ''turnId'' '''' ms;
     i \<leftarrow> dec_string ''itemId'' '''' ms;
     d \<leftarrow> dec_string ''delta'' '''' ms;
     Some ((base_event typ m (orString th threadID) tid r)\<lparr>ev_ItemID := i, ev_Delta := d\<rparr>)
   }"

definition decode_agentMessage_delta :: "string \<Rightarrow> raw \<Rightarrow> raw \<Rightarrow> ThreadEvent option" where
  "decode_agentMessage_delta = delta_event ''item.agent_message.delta'' ''item/agentMessage/delta''"

definition decode_reasoning_textDelta :: "string \<Rightarrow> raw \<Rightarrow> raw \<Rightarrow> ThreadEvent option" where
  "decode_reasoning_textDelta threadID params r = do {
     ms \<leftarrow> struct_members params;
     _ \<leftarrow> dec_int ''contentIndex'' 0 ms;
     delta_event ''item.reasoning_text.delta'' ''item/reasoning/textDelta'' threadID params r
   }"

definition decode_reasoning_summaryTextDelta :: "string \<Rightarrow> raw \<Rightarrow> raw \<Rightarrow> ThreadEvent option" where
  "decode_reasoning_summaryTextDelta =
     delta_event ''item.reasoning_summary_text.delta'' ''item/reasoning/summaryTextDelta''"

definition decode_reasoning_summaryPartAdded :: "string \<Rightarrow> raw \<Rightarrow> raw \<Rightarrow> ThreadEvent option" where
  "decode_reasoning_summaryPartAdded threadID params r = do {
     ms \<leftarrow> struct_members params;
     th \<leftarrow> dec_string ''threadId'' '''' ms;
     tid \<leftarrow> dec_string ''turnId'' '''' ms;
     i \<leftarrow> dec_string ''itemId'' '''' ms;
     n \<leftarrow> dec_int ''summaryIndex'' 0 ms;
     Some ((base_event ''item.reasoning_summary_part.added'' ''item/reasoning/summaryPartAdded''
         (orString th threadID) tid r)\<lparr>ev_ItemID := i, ev_SummaryIndex := n\<rparr>)
   }"

definition decode_commandExecution_outputDelta :: "string \<Rightarrow> raw \<Rightarrow> raw \<Rightarrow> ThreadEvent option" where
  "decode_commandExecution_outputDelta =
     delta_event ''item.command_execution.output_delta'' ''item/commandExecution/outputDelta''"

definition decode_fileChange_outputDelta :: "string \<Rightarrow> raw \<Rightarrow> raw \<Rightarrow> ThreadEvent option" where
  "decode_fileChange_outputDelta = delta_event ''item.file_change.output_delta'' ''item/fileChange/outputDelta''"

definition decode_plan_delta :: "string \<Rightarrow> raw \<Rightarrow> raw \<Rightarrow> ThreadEvent option" where
  "decode_plan_delta = delta_event ''item.plan.delta'' ''item/plan/delta''"

definition decode_mcpToolCall_progress :: "string \<Rightarrow> raw \<Rightarrow> raw \<Rightarrow> ThreadEvent option" where
  "decode_mcpToolCall_progress threadID params r = do {
     ms \<leftarrow> struct_members params;
     th \<leftarrow> dec_string ''threadId'' '''' ms;
     tid \<leftarrow> dec_string ''turnId'' '''' ms;
     i \<leftarrow> dec_string ''itemId'' '''' ms;
     msg \<leftarrow> dec_string ''message'' '''' ms;
     Some ((base_event ''item.mcp_tool_call.progress'' ''item/mcpToolCall/progress''
         (orString th threadID) tid r)\<lparr>ev_ItemID := i, ev_Message := msg\<rparr>)
   }"

definition decode_default :: "string \<Rightarrow> string \<Rightarrow> raw \<Rightarrow> ThreadEvent" where
  "decode_default m threadID r = base_event m m threadID '''' r"

text \<open>The whole function: the event, and whether it ends the turn.\<close>

definition decode_by_method ::
  "string \<Rightarrow> string \<Rightarrow> raw \<Rightarrow> raw \<Rightarrow> Usage option \<Rightarrow> go_error + (ThreadEvent \<times> bool)" where
  "decode_by_method m threadID params r latestUsage =
    (if m = ''turn/completed''
     then or_json_error (map_option (\<lambda>e. (e, True)) (decode_turn_completed threadID params latestUsage r))
     else or_json_error (map_option (\<lambda>e. (e, False))
       (if m = ''turn/started'' then decode_turn_started threadID params r
        else if m = ''item/started'' then decode_item_started threadID params r
        else if m = ''error'' then decode_error threadID params r
        else if m = ''item/completed'' then decode_item_completed threadID params r
        else if m = ''thread/tokenUsage/updated'' then decode_tokenUsage_updated threadID params r
        else if m = ''item/agentMessage/delta'' then decode_agentMessage_delta threadID params r
        else if m = ''item/reasoning/textDelta'' then decode_reasoning_textDelta threadID params r
        else if m = ''item/reasoning/summaryTextDelta'' then decode_reasoning_summaryTextDelta threadID params r
        else if m = ''item/reasoning/summaryPartAdded'' then decode_reasoning_summaryPartAdded threadID params r
        else if m = ''item/commandExecution/outputDelta'' then decode_commandExecution_outputDelta threadID params r
        else if m = ''item/fileChange/outputDelta'' then decode_fileChange_outputDelta threadID params r
        else if m = ''item/plan/delta'' then decode_plan_delta threadID params r
        else if m = ''item/mcpToolCall/progress'' then decode_mcpToolCall_progress threadID params r
        else Some (decode_default m threadID r))))"

definition decodeTurnNotification ::
  "string \<Rightarrow> raw \<Rightarrow> Usage option \<Rightarrow> go_error + (ThreadEvent \<times> bool)" where
  "decodeTurnNotification threadID r latestUsage =
    (case splitNotification r of
       Inr (m, params) \<Rightarrow> decode_by_method m threadID params r latestUsage
     | Inl err \<Rightarrow>
        (let m = inferNotificationMethod r
         in if m = '''' then Inl err else decode_by_method m threadID r r latestUsage))"

section \<open>The handle and the stream\<close>

record TurnHandle =
  th_threadID :: string
  th_id :: string
  th_started :: TurnState
  th_consumed :: bool

record TurnStream =
  st_threadID :: string
  st_id :: string
  latestUsage :: "Usage option"
  terminalErr :: "go_error option"
  terminalEOF :: bool
  st_closed :: bool

text \<open>\<open>StreamContext\<close> on a handle of a live client, the part under the handle's mutex.\<close>

definition StreamContext :: "TurnHandle \<Rightarrow> TurnHandle \<times> (go_error + TurnStream)" where
  "StreamContext h =
    (if th_consumed h then (h, Inl (Text ''codex: turn stream already consumed''))
     else (h\<lparr>th_consumed := True\<rparr>,
       Inr \<lparr>st_threadID = th_threadID h, st_id = th_id h, latestUsage = None, terminalErr = None,
            terminalEOF = False, st_closed = False\<rparr>))"

definition TurnStream_Close :: "(string \<Rightarrow> 'w \<Rightarrow> 'w) \<Rightarrow> TurnStream \<Rightarrow> 'w \<Rightarrow> 'w \<times> TurnStream" where
  "TurnStream_Close unregisterTurn s w =
    (if st_closed s then (w, s)
     else (unregisterTurn (st_id s) w, s\<lparr>st_closed := True\<rparr>))"

text \<open>
  \<open>Next\<close>. \<open>ctxErr\<close> is \<open>ctx.Err()\<close> when the context is already done; \<open>nextTurn\<close> also waits
  on the context.
\<close>

definition TurnStream_Next ::
  "(string \<Rightarrow> 'w \<Rightarrow> ('w \<times> (go_error + raw)) option) \<Rightarrow> (string \<Rightarrow> 'w \<Rightarrow> 'w) \<Rightarrow> go_error option \<Rightarrow>
   TurnStream \<Rightarrow> 'w \<Rightarrow> ('w \<times> TurnStream \<times> (go_error + ThreadEvent)) option" where
  "TurnStream_Next nextTurn unregisterTurn ctxErr s w =
    (case terminalErr s of
       Some e \<Rightarrow> Some (w, s, Inl e)
     | None \<Rightarrow>
        if terminalEOF s then Some (w, s, Inl io_EOF)
        else if st_closed s then Some (w, s, Inl ErrStreamClosed)
        else (case ctxErr of
            Some e \<Rightarrow> Some (w, s, Inl e)
          | None \<Rightarrow>
             (case nextTurn (st_id s) w of
                None \<Rightarrow> None
              | Some (w1, Inl e) \<Rightarrow>
                  (case TurnStream_Close unregisterTurn (s\<lparr>terminalErr := Some e\<rparr>) w1 of
                     (w2, s2) \<Rightarrow> Some (w2, s2, Inl e))
              | Some (w1, Inr r) \<Rightarrow>
                  (case decodeTurnNotification (st_threadID s) r (latestUsage s) of
                     Inl e \<Rightarrow>
                       (case TurnStream_Close unregisterTurn (s\<lparr>terminalErr := Some e\<rparr>) w1 of
                          (w2, s2) \<Rightarrow> Some (w2, s2, Inl e))
                   | Inr (ev, terminal) \<Rightarrow>
                       (let s1 = (case ev_Usage ev of Some u \<Rightarrow> s\<lparr>latestUsage := Some u\<rparr> | None \<Rightarrow> s);
                            s2 = (if terminal then s1\<lparr>terminalEOF := True\<rparr> else s1)
                        in Some (w1, s2, Inr ev))))))"

section \<open>Collecting a turn\<close>

definition finalAssistantResponse_step :: "ThreadItem \<Rightarrow> string option \<times> string \<Rightarrow> string option \<times> string" where
  "finalAssistantResponse_step it acc =
    (case acc of (answer, fallback) \<Rightarrow>
      if answer \<noteq> None then acc
      else (case it of
          AgentMessageItem _ _ text phase \<Rightarrow>
            if phase = ''final_answer'' then (Some text, fallback)
            else if phase = '''' \<and> fallback = '''' then (None, text)
            else acc
        | _ \<Rightarrow> acc))"

text \<open>The loop from the last item to the first, \<open>answer\<close> being the early return.\<close>

definition finalAssistantResponse :: "ThreadItem list \<Rightarrow> string" where
  "finalAssistantResponse items =
    (case foldr finalAssistantResponse_step items (None, '''') of
       (Some text, _) \<Rightarrow> text
     | (None, fallback) \<Rightarrow> fallback)"

record collected =
  completed :: "TurnState option"
  cl_items :: "ThreadItem list"
  cl_usage :: "Usage option"
  turnErr :: "ThreadError option"

definition no_events :: collected where
  "no_events = \<lparr>completed = None, cl_items = [], cl_usage = None, turnErr = None\<rparr>"

definition collect_event :: "ThreadEvent \<Rightarrow> collected \<Rightarrow> collected" where
  "collect_event ev c =
    (if ev_Type ev = ''item.completed'' then
       (case ev_Item ev of Some i \<Rightarrow> c\<lparr>cl_items := cl_items c @ [i]\<rparr> | None \<Rightarrow> c)
     else if ev_Type ev = ''thread.token_usage.updated'' then c\<lparr>cl_usage := ev_Usage ev\<rparr>
     else if ev_Type ev = ''turn.completed'' then
       c\<lparr>completed := ev_Turn ev, cl_usage := (if ev_Usage ev \<noteq> None then ev_Usage ev else cl_usage c)\<rparr>
     else if ev_Type ev = ''turn.failed'' then
       c\<lparr>completed := ev_Turn ev, turnErr := ev_Error ev,
         cl_usage := (if ev_Usage ev \<noteq> None then ev_Usage ev else cl_usage c)\<rparr>
     else c)"

definition finish_collect :: "string \<Rightarrow> string \<Rightarrow> collected \<Rightarrow> go_error + TurnResult" where
  "finish_collect missing failed c =
    (case completed c of
       None \<Rightarrow> Inl (Text missing)
     | Some t \<Rightarrow>
        if ts_Status t = ''failed'' then
          (case turnErr c of
             Some e \<Rightarrow> if te_Message e \<noteq> '''' then Inl (Text (te_Message e)) else Inl (Text failed)
           | None \<Rightarrow> Inl (Text failed))
        else Inr \<lparr>tr_ID = ts_ID t, tr_Status = ts_Status t, tr_Error = turnErr c,
               tr_StartedAt = ts_StartedAt t, tr_CompletedAt = ts_CompletedAt t,
               tr_Duration = ts_Duration t, tr_FinalResponse = finalAssistantResponse (cl_items c),
               tr_Items = cl_items c, tr_Usage = cl_usage c\<rparr>)"

text \<open>
  The loop of \<open>collectTurnResult\<close> over any \<open>Next\<close>; \<open>None\<close> is a loop that does not return.
\<close>

partial_function (option) collect_loop ::
  "('s \<Rightarrow> ('s \<times> (go_error + ThreadEvent)) option) \<Rightarrow> collected \<Rightarrow> 's \<Rightarrow> ('s \<times> (go_error + collected)) option" where
  "collect_loop nxt c s =
    (case nxt s of
       None \<Rightarrow> None
     | Some (s', Inl e) \<Rightarrow> Some (s', if errors_Is e io_EOF then Inr c else Inl e)
     | Some (s', Inr ev) \<Rightarrow> collect_loop nxt (collect_event ev c) s')"

definition collectTurnResult ::
  "('s \<Rightarrow> ('s \<times> (go_error + ThreadEvent)) option) \<Rightarrow> string \<Rightarrow> 's \<Rightarrow> ('s \<times> (go_error + TurnResult)) option" where
  "collectTurnResult nxt turnID s =
    (case collect_loop nxt no_events s of
       None \<Rightarrow> None
     | Some (s', Inl e) \<Rightarrow> Some (s', Inl e)
     | Some (s', Inr c) \<Rightarrow>
         Some (s', finish_collect ''codex: turn completed event not received''
           (''codex: turn '' @ turnID @ '' failed'') c))"

text \<open>\<open>RunContext\<close> of a handle: take the stream, collect, close it.\<close>

definition stream_next ::
  "(string \<Rightarrow> 'w \<Rightarrow> ('w \<times> (go_error + raw)) option) \<Rightarrow> (string \<Rightarrow> 'w \<Rightarrow> 'w) \<Rightarrow> go_error option \<Rightarrow>
   'w \<times> TurnStream \<Rightarrow> (('w \<times> TurnStream) \<times> (go_error + ThreadEvent)) option" where
  "stream_next nextTurn unregisterTurn ctxErr p =
     map_option (\<lambda>(w, s, x). ((w, s), x)) (TurnStream_Next nextTurn unregisterTurn ctxErr (snd p) (fst p))"

definition RunContext ::
  "(string \<Rightarrow> 'w \<Rightarrow> ('w \<times> (go_error + raw)) option) \<Rightarrow> (string \<Rightarrow> 'w \<Rightarrow> 'w) \<Rightarrow> go_error option \<Rightarrow>
   TurnHandle \<Rightarrow> 'w \<Rightarrow> ('w \<times> TurnHandle \<times> (go_error + TurnResult)) option" where
  "RunContext nextTurn unregisterTurn ctxErr h w =
    (case StreamContext h of
       (h', Inl e) \<Rightarrow> Some (w, h', Inl e)
     | (h', Inr s) \<Rightarrow>
        (case collectTurnResult (stream_next nextTurn unregisterTurn ctxErr) (th_id h) (w, s) of
           None \<Rightarrow> None
         | Some ((w1, s1), res) \<Rightarrow>
             (case TurnStream_Close unregisterTurn s1 w1 of (w2, s2) \<Rightarrow> Some (w2, h', res))))"

end
