(* ===== verification/Turn_Props.thy ===== *)
theory Turn_Props
  imports Turn
begin

text \<open>
  What holds of decoding, of the pull stream and of the collected result. \<open>turn_source\<close> is the
  interface a stream needs of its transport; the results proved in it are instantiated on the
  client in \<open>Client_Props\<close>.
\<close>

section \<open>Items\<close>

lemma item_decoders_type:
  "dec_AgentMessageItem ms = Some it \<Longrightarrow> dec_string ''type'' '''' ms = Some (ItemType it)"
  "dec_ReasoningItem ms = Some it \<Longrightarrow> dec_string ''type'' '''' ms = Some (ItemType it)"
  "CommandExecutionItem_UnmarshalJSON ms = Some it \<Longrightarrow> dec_string ''type'' '''' ms = Some (ItemType it)"
  "dec_FileChangeItem ms = Some it \<Longrightarrow> dec_string ''type'' '''' ms = Some (ItemType it)"
  "dec_McpToolCallItem ms = Some it \<Longrightarrow> dec_string ''type'' '''' ms = Some (ItemType it)"
  "dec_WebSearchItem ms = Some it \<Longrightarrow> dec_string ''type'' '''' ms = Some (ItemType it)"
  "dec_TodoListItem ms = Some it \<Longrightarrow> dec_string ''type'' '''' ms = Some (ItemType it)"
  "dec_ErrorItem ms = Some it \<Longrightarrow> dec_string ''type'' '''' ms = Some (ItemType it)"
  "dec_UserMessageItem ms = Some it \<Longrightarrow> dec_string ''type'' '''' ms = Some (ItemType it)"
  "dec_PlanItem ms = Some it \<Longrightarrow> dec_string ''type'' '''' ms = Some (ItemType it)"
  by (auto simp: dec_AgentMessageItem_def dec_ReasoningItem_def
      CommandExecutionItem_UnmarshalJSON_def dec_FileChangeItem_def dec_McpToolCallItem_def
      dec_WebSearchItem_def dec_TodoListItem_def dec_ErrorItem_def dec_UserMessageItem_def
      dec_PlanItem_def bind_eq_Some_conv)

lemma parse_by_type_ItemType:
  assumes "dec_string ''type'' '''' ms = Some t" "parse_by_type t ms r = Some it"
  shows "ItemType it = t"
  using assms(2) item_decoders_type [of ms it] unfolding assms(1) parse_by_type_def
  by (simp split: if_splits) auto

definition known_types :: "string list" where
  "known_types = [''agent_message'', ''agentMessage'', ''reasoning'', ''command_execution'', ''commandExecution'',
     ''file_change'', ''fileChange'', ''mcp_tool_call'', ''mcpToolCall'', ''web_search'', ''webSearch'',
     ''todo_list'', ''error'', ''userMessage'', ''user_message'', ''plan'']"

text \<open>An item keeps its wire type: what \<open>parseThreadItem\<close> returns reports exactly the \<open>type\<close>
  member of the message. An item of a type the SDK does not know never fails to parse and keeps
  the whole message.\<close>
theorem item_type_preserved:
  assumes "struct_members r = Some ms" "dec_string ''type'' '''' ms = Some t"
  shows "(\<forall>it. parseThreadItem r = Some it \<longrightarrow> ItemType it = t) \<and>
    (t \<notin> set known_types \<longrightarrow> parseThreadItem r = Some (UnknownItem t r))"
  using assms parse_by_type_ItemType [OF assms(2), of r]
  by (auto simp: parseThreadItem_def) (simp add: parse_by_type_def known_types_def)

theorem item_type_preserved_witness:
  "parseThreadItem (Some (JObj [(''type'', JStr ''futureItem''), (''x'', JNum ''1'')])) =
     Some (UnknownItem ''futureItem'' (Some (JObj [(''type'', JStr ''futureItem''), (''x'', JNum ''1'')])))"
proof -
  have d: "dec_string ''type'' '''' [(''type'', JStr ''futureItem''), (''x'', JNum ''1'')] = Some ''futureItem''"
    by code_simp
  show ?thesis
    using item_type_preserved [of "Some (JObj [(''type'', JStr ''futureItem''), (''x'', JNum ''1'')])", OF _ d]
    by (simp add: struct_members_def known_types_def)
qed

section \<open>Token usage\<close>

lemma hd_show_nat: "\<exists>c s. show_nat n = c # s \<and> c \<noteq> CHR ''-''"
proof (induction n rule: show_nat.induct)
  case (1 n)
  have "digit_char k \<noteq> CHR ''-''" if "k < 10" for k
    using of_digit_char [OF that] by auto
  with 1 show ?case by (cases "n < 10") (auto simp: show_nat.simps [of n])
qed

lemma parse_int64_show:
  assumes "- (2 ^ 63) \<le> n" "n < 2 ^ 63"
  shows "parse_int64 (show_int n) = Some n"
proof (cases "n < 0")
  case True
  then have le: "nat (- n) \<le> 2 ^ 63" using assms(1) by simp
  obtain c s where s: "show_nat (nat (- n)) = c # s" using hd_show_nat by blast
  have "read_nat 0 (c # s) = Some (nat (- n))" using read_show_nat [of "nat (- n)"] s by simp
  then show ?thesis using True le s by (simp add: parse_int64_def show_int_def)
next
  case False
  then have lt: "nat n < 2 ^ 63" using assms(2) by simp
  obtain c s where s: "show_nat (nat n) = c # s" "c \<noteq> CHR ''-''" using hd_show_nat by blast
  have "read_nat 0 (c # s) = Some (nat n)" using read_show_nat [of "nat n"] s by simp
  then show ?thesis using False lt s by (simp add: parse_int64_def show_int_def)
qed

text \<open>The object \<open>json.Marshal\<close> writes for a usage with its struct tags, and the one the
  app-server sends: the six counts under the snake-case or the camel-case names.\<close>

definition usage_members :: "string list \<Rightarrow> Usage \<Rightarrow> members" where
  "usage_members names u = zip names (map (\<lambda>n. JNum (show_int n))
     [InputTokens u, CachedInputTokens u, CacheWriteInputTokens u, OutputTokens u,
      ReasoningOutputTokens u, TotalTokens u])"

definition snake_names :: "string list" where
  "snake_names = [''input_tokens'', ''cached_input_tokens'', ''cache_write_input_tokens'', ''output_tokens'',
     ''reasoning_output_tokens'', ''total_tokens'']"

definition camel_names :: "string list" where
  "camel_names = [''inputTokens'', ''cachedInputTokens'', ''cacheWriteInputTokens'', ''outputTokens'',
     ''reasoningOutputTokens'', ''totalTokens'']"

definition int64_range :: "int \<Rightarrow> bool" where
  "int64_range n \<longleftrightarrow> - (2 ^ 63) \<le> n \<and> n < 2 ^ 63"

definition usage_in_range :: "Usage \<Rightarrow> bool" where
  "usage_in_range u \<longleftrightarrow> (\<forall>n\<in>set [InputTokens u, CachedInputTokens u, CacheWriteInputTokens u, OutputTokens u,
      ReasoningOutputTokens u, TotalTokens u]. int64_range n)"

lemma dec_int_ptr_absent:
  "foldName name \<notin> foldName ` fst ` set ms \<Longrightarrow> dec_int_ptr name acc ms = Some acc"
  by (induction ms arbitrary: acc) auto

lemma dec_int_ptr_member:
  assumes "distinct (map foldName names)" "length names = length ns" "i < length ns" "\<forall>n\<in>set ns. int64_range n"
  shows "dec_int_ptr (names ! i) acc (zip names (map (\<lambda>n. JNum (show_int n)) ns)) = Some (Some (ns ! i))"
  using assms
proof (induction names arbitrary: ns i acc)
  case (Cons a names)
  obtain n ms where ns: "ns = n # ms" using Cons.prems(2) by (cases ns) auto
  have p: "parse_int64 (show_int n) = Some n"
    using Cons.prems(4) ns parse_int64_show [of n] by (auto simp: int64_range_def)
  show ?case
  proof (cases i)
    case 0
    have "foldName a \<notin> foldName ` fst ` set (zip names (map (\<lambda>n. JNum (show_int n)) ms))"
      using Cons.prems(1) by (auto dest: set_zip_leftD)
    with 0 ns p show ?thesis by (simp add: dec_int_ptr_absent)
  next
    case (Suc j)
    have "foldName a \<noteq> foldName (names ! j)"
      using Cons.prems(1,2,3) ns Suc by auto
    moreover have "dec_int_ptr (names ! j) acc (zip names (map (\<lambda>n. JNum (show_int n)) ms)) = Some (Some (ms ! j))"
      by (rule Cons.IH) (use Cons.prems ns Suc in auto)
    ultimately show ?thesis using ns Suc by simp
  qed
qed simp

lemma usage_names_fold:
  "distinct (map foldName (snake_names @ camel_names))"
  by code_simp

lemma pick_field_snake:
  assumes "usage_in_range u" "i < 6"
  shows "pick_field (snake_names ! i) (camel_names ! i) (usage_members snake_names u) =
    Some ([InputTokens u, CachedInputTokens u, CacheWriteInputTokens u, OutputTokens u,
      ReasoningOutputTokens u, TotalTokens u] ! i)"
proof -
  have "dec_int_ptr (snake_names ! i) None (usage_members snake_names u) = Some (Some ([InputTokens u, CachedInputTokens u,
      CacheWriteInputTokens u, OutputTokens u, ReasoningOutputTokens u, TotalTokens u] ! i))"
    unfolding usage_members_def
    by (rule dec_int_ptr_member) (use assms usage_names_fold in \<open>auto simp: snake_names_def usage_in_range_def\<close>)
  moreover have "dec_int_ptr (camel_names ! i) None (usage_members snake_names u) = Some None"
  proof (rule dec_int_ptr_absent)
    have "camel_names ! i \<in> set camel_names" by (rule nth_mem) (use assms(2) in \<open>simp add: camel_names_def\<close>)
    then show "foldName (camel_names ! i) \<notin> foldName ` fst ` set (usage_members snake_names u)"
      using usage_names_fold by (fastforce simp: usage_members_def dest: set_zip_leftD)
  qed
  ultimately show ?thesis by (simp add: pick_field_def pick_def)
qed

lemma pick_field_camel:
  assumes "usage_in_range u" "i < 6"
  shows "pick_field (snake_names ! i) (camel_names ! i) (usage_members camel_names u) =
    Some ([InputTokens u, CachedInputTokens u, CacheWriteInputTokens u, OutputTokens u,
      ReasoningOutputTokens u, TotalTokens u] ! i)"
proof -
  have "dec_int_ptr (camel_names ! i) None (usage_members camel_names u) = Some (Some ([InputTokens u, CachedInputTokens u,
      CacheWriteInputTokens u, OutputTokens u, ReasoningOutputTokens u, TotalTokens u] ! i))"
    unfolding usage_members_def
    by (rule dec_int_ptr_member) (use assms usage_names_fold in \<open>auto simp: camel_names_def usage_in_range_def\<close>)
  moreover have "dec_int_ptr (snake_names ! i) None (usage_members camel_names u) = Some None"
  proof (rule dec_int_ptr_absent)
    have "snake_names ! i \<in> set snake_names" by (rule nth_mem) (use assms(2) in \<open>simp add: snake_names_def\<close>)
    then show "foldName (snake_names ! i) \<notin> foldName ` fst ` set (usage_members camel_names u)"
      using usage_names_fold by (fastforce simp: usage_members_def dest: set_zip_leftD)
  qed
  ultimately show ?thesis by (simp add: pick_field_def pick_def)
qed

lemma Usage_UnmarshalJSON_index:
  assumes "\<And>i. i < 6 \<Longrightarrow> pick_field (snake_names ! i) (camel_names ! i) ms =
    Some ([InputTokens u, CachedInputTokens u, CacheWriteInputTokens u, OutputTokens u,
      ReasoningOutputTokens u, TotalTokens u] ! i)"
  shows "Usage_UnmarshalJSON ms = Some u"
  using assms [of 0] assms [of 1] assms [of 2] assms [of 3] assms [of 4] assms [of 5]
  by (cases u) (simp add: Usage_UnmarshalJSON_def snake_names_def camel_names_def)

text \<open>Token usage is read back exactly, whichever casing the producer writes: every usage whose
  counts fit an \<open>int64\<close> decodes to itself from the snake-case object the SDK encodes and from the
  camel-case object of the app-server.\<close>
theorem usage_roundtrip:
  assumes "usage_in_range u"
  shows "Usage_UnmarshalJSON (usage_members snake_names u) = Some u \<and>
    Usage_UnmarshalJSON (usage_members camel_names u) = Some u"
  using Usage_UnmarshalJSON_index [OF pick_field_snake [OF assms]]
    Usage_UnmarshalJSON_index [OF pick_field_camel [OF assms]] by blast

theorem usage_roundtrip_witness:
  "Usage_UnmarshalJSON (usage_members camel_names \<lparr>InputTokens = 12, CachedInputTokens = 0,
     CacheWriteInputTokens = 3, OutputTokens = 7, ReasoningOutputTokens = - 1, TotalTokens = 9223372036854775807\<rparr>) =
   Some \<lparr>InputTokens = 12, CachedInputTokens = 0,
     CacheWriteInputTokens = 3, OutputTokens = 7, ReasoningOutputTokens = - 1, TotalTokens = 9223372036854775807\<rparr>"
  using usage_roundtrip [of "\<lparr>InputTokens = 12, CachedInputTokens = 0,
     CacheWriteInputTokens = 3, OutputTokens = 7, ReasoningOutputTokens = - 1, TotalTokens = 9223372036854775807\<rparr>"]
  by (simp add: usage_in_range_def int64_range_def)

section \<open>The final response\<close>

fun answer_texts :: "string \<Rightarrow> ThreadItem list \<Rightarrow> string list" where
  "answer_texts phase [] = []"
| "answer_texts phase (it # its) = (case it of
     AgentMessageItem _ _ text p \<Rightarrow> (if p = phase then text # answer_texts phase its else answer_texts phase its)
   | _ \<Rightarrow> answer_texts phase its)"

definition last_or :: "string \<Rightarrow> string list \<Rightarrow> string" where
  "last_or d xs = (if xs = [] then d else last xs)"

lemma last_filter: "filter P xs \<noteq> [] \<Longrightarrow> P (last (filter P xs))"
  using last_in_set [of "filter P xs"] by simp

lemma foldr_final:
  "foldr finalAssistantResponse_step its (None, '''') =
    (if answer_texts ''final_answer'' its \<noteq> [] then
       (Some (last (answer_texts ''final_answer'' its)), snd (foldr finalAssistantResponse_step its (None, '''')))
     else (None, last_or '''' (filter (\<lambda>t. t \<noteq> '''') (answer_texts '''' its))))"
  by (induction its) (auto simp: finalAssistantResponse_step_def last_or_def dest: last_filter
      split: ThreadItem.splits if_splits prod.splits)

text \<open>The final response of a turn is the text of its last agent message marked
  \<open>final_answer\<close>; when there is none, the last non-empty text of a message with no phase, and the
  empty string otherwise. Messages of other phases and other items never are the response.\<close>
theorem final_response_spec:
  "finalAssistantResponse its =
    (if answer_texts ''final_answer'' its \<noteq> [] then last (answer_texts ''final_answer'' its)
     else last_or '''' (filter (\<lambda>t. t \<noteq> '''') (answer_texts '''' its)))"
  unfolding finalAssistantResponse_def by (subst foldr_final) auto

section \<open>Decoding a notification\<close>

lemma base_event_fields [simp]:
  "ev_Method (base_event ty m th tu r) = m" "ev_Raw (base_event ty m th tu r) = r"
  by (simp_all add: base_event_def)

lemma turn_started_method: "decode_turn_started t p r = Some e \<Longrightarrow> ev_Method e = ''turn/started'' \<and> ev_Raw e = r"
  by (auto simp: decode_turn_started_def Let_def bind_eq_Some_conv)

lemma item_started_method: "decode_item_started t p r = Some e \<Longrightarrow> ev_Method e = ''item/started'' \<and> ev_Raw e = r"
  by (auto simp: decode_item_started_def Let_def bind_eq_Some_conv)

lemma error_method: "decode_error t p r = Some e \<Longrightarrow> ev_Method e = ''error'' \<and> ev_Raw e = r"
  by (auto simp: decode_error_def Let_def bind_eq_Some_conv split: option.splits if_splits)

lemma item_completed_method: "decode_item_completed t p r = Some e \<Longrightarrow> ev_Method e = ''item/completed'' \<and> ev_Raw e = r"
  by (auto simp: decode_item_completed_def Let_def bind_eq_Some_conv)

lemma tokenUsage_updated_method: "decode_tokenUsage_updated t p r = Some e \<Longrightarrow> ev_Method e = ''thread/tokenUsage/updated'' \<and> ev_Raw e = r"
  by (auto simp: decode_tokenUsage_updated_def Let_def bind_eq_Some_conv)

lemma turn_completed_method: "decode_turn_completed t p u r = Some e \<Longrightarrow> ev_Method e = ''turn/completed'' \<and> ev_Raw e = r"
  by (auto simp: decode_turn_completed_def Let_def bind_eq_Some_conv)

lemma delta_method: "delta_event ty m t p r = Some e \<Longrightarrow> ev_Method e = m \<and> ev_Raw e = r"
  by (auto simp: delta_event_def Let_def bind_eq_Some_conv)

lemma reasoning_summaryPartAdded_method: "decode_reasoning_summaryPartAdded t p r = Some e \<Longrightarrow> ev_Method e = ''item/reasoning/summaryPartAdded'' \<and> ev_Raw e = r"
  by (auto simp: decode_reasoning_summaryPartAdded_def Let_def bind_eq_Some_conv)

lemma mcpToolCall_progress_method: "decode_mcpToolCall_progress t p r = Some e \<Longrightarrow> ev_Method e = ''item/mcpToolCall/progress'' \<and> ev_Raw e = r"
  by (auto simp: decode_mcpToolCall_progress_def Let_def bind_eq_Some_conv)

lemmas decode_event_method = turn_started_method item_started_method error_method item_completed_method tokenUsage_updated_method turn_completed_method delta_method reasoning_summaryPartAdded_method mcpToolCall_progress_method

lemma decode_default_method [simp]:
  "ev_Method (decode_default m t r) = m" "ev_Raw (decode_default m t r) = r"
  by (simp_all add: decode_default_def)

lemma decode_delta_method:
  "decode_agentMessage_delta t p r = Some e \<Longrightarrow> ev_Method e = ''item/agentMessage/delta'' \<and> ev_Raw e = r"
  "decode_reasoning_textDelta t p r = Some e \<Longrightarrow> ev_Method e = ''item/reasoning/textDelta'' \<and> ev_Raw e = r"
  "decode_reasoning_summaryTextDelta t p r = Some e \<Longrightarrow>
     ev_Method e = ''item/reasoning/summaryTextDelta'' \<and> ev_Raw e = r"
  "decode_commandExecution_outputDelta t p r = Some e \<Longrightarrow>
     ev_Method e = ''item/commandExecution/outputDelta'' \<and> ev_Raw e = r"
  "decode_fileChange_outputDelta t p r = Some e \<Longrightarrow> ev_Method e = ''item/fileChange/outputDelta'' \<and> ev_Raw e = r"
  "decode_plan_delta t p r = Some e \<Longrightarrow> ev_Method e = ''item/plan/delta'' \<and> ev_Raw e = r"
  by (auto simp: decode_agentMessage_delta_def decode_reasoning_textDelta_def bind_eq_Some_conv
      decode_reasoning_summaryTextDelta_def decode_commandExecution_outputDelta_def
      decode_fileChange_outputDelta_def decode_plan_delta_def dest: decode_event_method)

lemma or_json_error_Inr [simp]: "or_json_error x = Inr y \<longleftrightarrow> x = Some y"
  by (cases x) simp_all

lemmas decode_methods = decode_event_method decode_delta_method

lemma if_SomeE: "(if m = k then x else y) = Some e \<Longrightarrow> (m = k \<Longrightarrow> x = Some e \<Longrightarrow> P) \<Longrightarrow> (y = Some e \<Longrightarrow> P) \<Longrightarrow> P"
  by (simp split: if_splits)

lemma decode_by_method_fields:
  assumes "decode_by_method m t p r u = Inr (e, fin)"
  shows "ev_Method e = m \<and> ev_Raw e = r \<and> (fin \<longleftrightarrow> m = ''turn/completed'')"
proof (cases "m = ''turn/completed''")
  case True
  with assms show ?thesis by (auto simp: decode_by_method_def dest: decode_event_method)
next
  case False
  with assms have "\<not> fin" by (auto simp: decode_by_method_def)
  moreover from assms False have "ev_Method e = m \<and> ev_Raw e = r"
    unfolding decode_by_method_def if_not_P [OF False] or_json_error_Inr map_option_eq_Some
    by (elim exE conjE if_SomeE) (auto dest: decode_methods)
  ultimately show ?thesis using False by simp
qed

text \<open>Decoding keeps the whole message in the event and marks as the end of the turn exactly
  the \<open>turn/completed\<close> notifications, whether the method is in the envelope or inferred from the
  parameters.\<close>
theorem decode_terminal:
  assumes "decodeTurnNotification t r u = Inr (e, fin)"
  shows "ev_Raw e = r \<and> (fin \<longleftrightarrow> ev_Method e = ''turn/completed'')"
  using assms unfolding decodeTurnNotification_def Let_def
  by (auto dest: decode_by_method_fields split: sum.splits if_splits prod.splits)

theorem decode_terminal_witness:
  "\<exists>e. decodeTurnNotification ''th'' (Some (JObj [(''turn'', JObj [(''id'', JStr ''t1''), (''status'', JStr ''failed'')])])) None
     = Inr (e, True) \<and> ev_Method e = ''turn/completed'' \<and> ev_Type e = ''turn.failed''"
proof -
  let ?r = "Some (JObj [(''turn'', JObj [(''id'', JStr ''t1''), (''status'', JStr ''failed'')])])"
  have "case decodeTurnNotification ''th'' ?r None of Inr (e, fin) \<Rightarrow> fin \<and> ev_Type e = ''turn.failed'' | _ \<Rightarrow> False"
    by code_simp
  then obtain e fin where d: "decodeTurnNotification ''th'' ?r None = Inr (e, fin)" "fin" "ev_Type e = ''turn.failed''"
    by (auto split: sum.splits)
  with decode_terminal [OF d(1)] show ?thesis by auto
qed

section \<open>The stream\<close>

text \<open>Repeated calls of \<open>Next\<close> with a live context: the results, until a call would wait.\<close>

fun next_many ::
  "(string \<Rightarrow> 'w \<Rightarrow> ('w \<times> (go_error + raw)) option) \<Rightarrow> (string \<Rightarrow> 'w \<Rightarrow> 'w) \<Rightarrow> nat \<Rightarrow> TurnStream \<Rightarrow> 'w \<Rightarrow>
   'w \<times> TurnStream \<times> (go_error + ThreadEvent) list" where
  "next_many nxt unreg 0 s w = (w, s, [])"
| "next_many nxt unreg (Suc n) s w =
     (case TurnStream_Next nxt unreg None s w of
        None \<Rightarrow> (w, s, [])
      | Some (w', s', x) \<Rightarrow> (case next_many nxt unreg n s' w' of (w'', s'', xs) \<Rightarrow> (w'', s'', x # xs)))"

definition stream_ended :: "TurnStream \<Rightarrow> go_error \<Rightarrow> bool" where
  "stream_ended s e \<longleftrightarrow> terminalErr s = Some e \<or> terminalErr s = None \<and>
     (terminalEOF s \<and> e = io_EOF \<or> \<not> terminalEOF s \<and> st_closed s \<and> e = ErrStreamClosed)"

lemma stream_ended_next:
  "stream_ended s e \<Longrightarrow> TurnStream_Next nxt unreg c s w = Some (w, s, Inl e)"
  by (auto simp: stream_ended_def TurnStream_Next_def)

lemma stream_ended_many:
  "stream_ended s e \<Longrightarrow> next_many nxt unreg n s w = (w, s, replicate n (Inl e))"
  by (induction n) (simp_all add: stream_ended_next)

lemma TurnStream_Next_live:
  assumes "TurnStream_Next nxt unreg None s w = Some (w', s', x)" "\<nexists>e. stream_ended s e"
  shows "(\<exists>e. x = Inl e \<and> stream_ended s' e \<and> st_closed s' \<and> (\<exists>w1. w' = unreg (st_id s) w1)) \<or>
    (\<exists>ev. x = Inr ev \<and> (if ev_Method ev = ''turn/completed'' then stream_ended s' io_EOF else (\<nexists>e. stream_ended s' e)) \<and>
       st_closed s' = st_closed s)"
proof -
  have live: "terminalErr s = None" "\<not> terminalEOF s" "\<not> st_closed s"
    using assms(2) by (cases "terminalErr s"; auto simp: stream_ended_def)+
  then obtain w1 y where y: "nxt (st_id s) w = Some (w1, y)"
    using assms(1) by (auto simp: TurnStream_Next_def split: option.splits)
  show ?thesis
  proof (cases "\<exists>r ev fin. y = Inr r \<and> decodeTurnNotification (st_threadID s) r (latestUsage s) = Inr (ev, fin)")
    case True
    then obtain r ev fin where r: "y = Inr r" "decodeTurnNotification (st_threadID s) r (latestUsage s) = Inr (ev, fin)"
      by blast
    have "fin \<longleftrightarrow> ev_Method ev = ''turn/completed''"
      using r(2) unfolding decodeTurnNotification_def Let_def
      by (auto dest: decode_by_method_fields split: sum.splits if_splits prod.splits)
    with assms(1) live y r show ?thesis
      by (auto simp: TurnStream_Next_def Let_def stream_ended_def split: if_splits option.splits)
  next
    case False
    with assms(1) live y show ?thesis
      by (auto simp: TurnStream_Next_def Let_def stream_ended_def TurnStream_Close_def
          split: if_splits option.splits sum.splits prod.splits)
  qed
qed

text \<open>The results of a run of \<open>Next\<close> calls: events, then one error for ever.\<close>

definition stream_results :: "(go_error + ThreadEvent) list \<Rightarrow> bool" where
  "stream_results xs \<longleftrightarrow> (\<exists>evs e k. xs = map Inr evs @ replicate k (Inl e) \<and>
    (\<forall>ev\<in>set (butlast evs). ev_Method ev \<noteq> ''turn/completed'') \<and>
    (evs \<noteq> [] \<and> ev_Method (last evs) = ''turn/completed'' \<longrightarrow> e = io_EOF))"

lemma stream_results_errors: "stream_results (replicate k (Inl e))"
  unfolding stream_results_def by (intro exI [of _ "[]"] exI [of _ e] exI [of _ k]) auto

lemma stream_results_last:
  "ev_Method ev = ''turn/completed'' \<Longrightarrow> stream_results (Inr ev # replicate k (Inl io_EOF))"
  unfolding stream_results_def by (intro exI [of _ "[ev]"] exI [of _ io_EOF] exI [of _ k]) auto

lemma stream_results_event:
  assumes "stream_results ys" "ev_Method ev \<noteq> ''turn/completed''"
  shows "stream_results (Inr ev # ys)"
proof -
  obtain evs e k where "ys = map Inr evs @ replicate k (Inl e)"
    "\<forall>ev\<in>set (butlast evs). ev_Method ev \<noteq> ''turn/completed''"
    "evs \<noteq> [] \<and> ev_Method (last evs) = ''turn/completed'' \<longrightarrow> e = io_EOF"
    using assms(1) by (auto simp: stream_results_def)
  with assms(2) show ?thesis unfolding stream_results_def
    by (intro exI [of _ "ev # evs"] exI [of _ e] exI [of _ k]) auto
qed

lemma next_many_results:
  "next_many nxt unreg n s w = (w', s', xs) \<Longrightarrow> stream_results xs"
proof (induction n arbitrary: s w xs)
  case 0
  then show ?case using stream_results_errors [of 0] by simp
next
  case (Suc n)
  consider e where "stream_ended s e" | "\<nexists>e. stream_ended s e" "TurnStream_Next nxt unreg None s w = None"
    | w1 s1 x where "\<nexists>e. stream_ended s e" "TurnStream_Next nxt unreg None s w = Some (w1, s1, x)"
    by (cases "TurnStream_Next nxt unreg None s w") (blast, metis prod.collapse)
  then show ?case
  proof cases
    case 1
    then show ?thesis using Suc.prems stream_ended_many [of s e nxt unreg "Suc n" w] stream_results_errors [of "Suc n" e]
      by simp
  next
    case 2
    then show ?thesis using Suc.prems stream_results_errors [of 0] by simp
  next
    case (3 w1 s1 x)
    obtain ys where ys: "next_many nxt unreg n s1 w1 = (w', s', ys)" "xs = x # ys"
      using Suc.prems 3(2) by (auto split: prod.splits)
    have ended: "ys = replicate n (Inl e)" if "stream_ended s1 e" for e
      using ys(1) stream_ended_many [OF that, of nxt unreg n w1] by simp
    from TurnStream_Next_live [OF 3(2,1)] consider e where "x = Inl e" "stream_ended s1 e"
      | ev where "x = Inr ev" "ev_Method ev = ''turn/completed''" "stream_ended s1 io_EOF"
      | ev where "x = Inr ev" "ev_Method ev \<noteq> ''turn/completed''" by (auto split: if_splits)
    then show ?thesis
    proof cases
      case 1
      then show ?thesis using ys(2) ended stream_results_errors [of "Suc n"] by simp
    next
      case 2
      then show ?thesis using ys(2) ended stream_results_last [of _ n] by simp
    next
      case 3
      then show ?thesis using ys stream_results_event [OF Suc.IH [OF ys(1)]] by simp
    qed
  qed
qed


section \<open>The collected result\<close>

text \<open>
  The events the notifications of one turn decode to, up to and including the first
  \<open>turn/completed\<close>; \<open>None\<close> when one of them does not decode or none ends the turn. The usage
  seen so far is threaded as the stream does.
\<close>

fun turn_events :: "string \<Rightarrow> Usage option \<Rightarrow> raw list \<Rightarrow> ThreadEvent list option" where
  "turn_events t u [] = None"
| "turn_events t u (r # rs) =
     (case decodeTurnNotification t r u of
        Inl e \<Rightarrow> None
      | Inr (ev, True) \<Rightarrow> Some [ev]
      | Inr (ev, False) \<Rightarrow>
          map_option ((#) ev) (turn_events t (if ev_Usage ev \<noteq> None then ev_Usage ev else u) rs))"

definition turn_result :: "string \<Rightarrow> ThreadEvent list \<Rightarrow> go_error + TurnResult" where
  "turn_result turnID evs = finish_collect ''codex: turn completed event not received''
     (''codex: turn '' @ turnID @ '' failed'') (fold collect_event evs no_events)"

lemma turn_events_nonempty: "turn_events t u rs \<noteq> Some []"
  by (cases rs) (auto split: sum.splits prod.splits bool.splits)

locale turn_source =
  fixes nextTurn :: "string \<Rightarrow> 'w \<Rightarrow> ('w \<times> (go_error + raw)) option"
    and unregisterTurn :: "string \<Rightarrow> 'w \<Rightarrow> 'w"
    and ok :: "string \<Rightarrow> 'w \<Rightarrow> bool"
    and queued :: "string \<Rightarrow> 'w \<Rightarrow> raw list"
  assumes next_queued: "ok i w \<Longrightarrow> queued i w = r # rs \<Longrightarrow>
      \<exists>w'. nextTurn i w = Some (w', Inr r) \<and> ok i w' \<and> queued i w' = rs"
    and unregister_empties: "ok i w \<Longrightarrow> queued i (unregisterTurn i w) = []"
begin

lemma collect_loop_events:
  assumes "ok (st_id s) w" "turn_events (st_threadID s) (latestUsage s) (queued (st_id s) w) = Some evs"
    "terminalErr s = None" "\<not> terminalEOF s" "\<not> st_closed s"
  shows "\<exists>w' s'. collect_loop (stream_next nextTurn unregisterTurn None) c (w, s) =
      Some ((w', s'), Inr (fold collect_event evs c)) \<and> ok (st_id s) w' \<and> st_id s' = st_id s \<and>
      \<not> st_closed s' \<and> length (queued (st_id s) w) = length evs + length (queued (st_id s) w')"
  using assms
proof (induction evs arbitrary: w s c)
  case Nil
  then show ?case by (simp add: turn_events_nonempty)
next
  case (Cons ev evs)
  obtain r rs where q: "queued (st_id s) w = r # rs" using Cons.prems(2) by (cases "queued (st_id s) w") auto
  obtain w1 where w1: "nextTurn (st_id s) w = Some (w1, Inr r)" "ok (st_id s) w1" "queued (st_id s) w1 = rs"
    using next_queued [OF Cons.prems(1) q] by blast
  obtain fin where d: "decodeTurnNotification (st_threadID s) r (latestUsage s) = Inr (ev, fin)"
    using Cons.prems(2) q by (auto split: sum.splits prod.splits bool.splits)
  define s1 where "s1 = s\<lparr>latestUsage := (if ev_Usage ev \<noteq> None then ev_Usage ev else latestUsage s)\<rparr>"
  have nx: "stream_next nextTurn unregisterTurn None (w, s) =
      Some ((w1, if fin then s1\<lparr>terminalEOF := True\<rparr> else s1), Inr ev)"
    using Cons.prems(3-5) w1 d
    by (auto simp: stream_next_def TurnStream_Next_def s1_def Let_def split: option.splits)
  show ?case
  proof (cases fin)
    case True
    then have "evs = []" using Cons.prems(2) q d by simp
    moreover have "stream_next nextTurn unregisterTurn None (w1, s1\<lparr>terminalEOF := True\<rparr>) =
        Some ((w1, s1\<lparr>terminalEOF := True\<rparr>), Inl io_EOF)"
      using Cons.prems(3) by (simp add: stream_next_def TurnStream_Next_def s1_def)
    ultimately show ?thesis
      using nx True w1 Cons.prems(5) q
      by (subst collect_loop.simps, simp) (subst collect_loop.simps, simp add: s1_def)
  next
    case False
    then have "turn_events (st_threadID s1) (latestUsage s1) (queued (st_id s1) w1) = Some evs"
      using Cons.prems(2) q d w1 by (auto simp: s1_def)
    from Cons.IH [OF _ this, of "collect_event ev c"] obtain w' s' where
      "collect_loop (stream_next nextTurn unregisterTurn None) (collect_event ev c) (w1, s1) =
        Some ((w', s'), Inr (fold collect_event evs (collect_event ev c)))" "ok (st_id s) w'"
      "st_id s' = st_id s" "\<not> st_closed s'" "length rs = length evs + length (queued (st_id s) w')"
      using w1 Cons.prems(3-5) by (auto simp: s1_def)
    then show ?thesis using nx False q by (subst collect_loop.simps) simp
  qed
qed

lemma run_collects:
  assumes "ok (th_id h) w" "\<not> th_consumed h"
    "turn_events (th_threadID h) None (queued (th_id h) w) = Some evs"
  shows "\<exists>w'. RunContext nextTurn unregisterTurn None h w =
      Some (w', h\<lparr>th_consumed := True\<rparr>, turn_result (th_id h) evs) \<and> queued (th_id h) w' = []"
proof -
  let ?s = "\<lparr>st_threadID = th_threadID h, st_id = th_id h, latestUsage = None, terminalErr = None,
            terminalEOF = False, st_closed = False\<rparr>"
  have "StreamContext h = (h\<lparr>th_consumed := True\<rparr>, Inr ?s)"
    using assms(2) by (simp add: StreamContext_def)
  moreover obtain w' s' where "collect_loop (stream_next nextTurn unregisterTurn None) no_events (w, ?s) =
      Some ((w', s'), Inr (fold collect_event evs no_events))" "ok (th_id h) w'" "st_id s' = th_id h" "\<not> st_closed s'"
    using collect_loop_events [of ?s w evs no_events] assms(1,3) by auto
  ultimately show ?thesis using unregister_empties [of "th_id h" w']
    by (auto simp: RunContext_def collectTurnResult_def turn_result_def TurnStream_Close_def)
qed

end

section \<open>What the result holds\<close>

text \<open>The specification of the collected fields over the events of a turn.\<close>

definition completed_items :: "ThreadEvent list \<Rightarrow> ThreadItem list" where
  "completed_items evs = concat (map (\<lambda>ev. if ev_Type ev = ''item.completed''
     then (case ev_Item ev of Some i \<Rightarrow> [i] | None \<Rightarrow> []) else []) evs)"

definition is_final :: "ThreadEvent \<Rightarrow> bool" where
  "is_final ev \<longleftrightarrow> ev_Type ev = ''turn.completed'' \<or> ev_Type ev = ''turn.failed''"

lemma collect_items: "cl_items (fold collect_event evs c) = cl_items c @ completed_items evs"
  by (induction evs arbitrary: c) (auto simp: collect_event_def completed_items_def split: option.splits)

definition usage_reports :: "ThreadEvent list \<Rightarrow> ThreadEvent list" where
  "usage_reports evs = filter (\<lambda>ev. ev_Type ev = ''thread.token_usage.updated'') evs"

definition reported_usage :: "Usage option \<Rightarrow> ThreadEvent list \<Rightarrow> Usage option" where
  "reported_usage u evs = (if usage_reports evs = [] then u else ev_Usage (last (usage_reports evs)))"

lemma collect_not_final:
  "\<forall>ev\<in>set evs. \<not> is_final ev \<Longrightarrow>
    completed (fold collect_event evs c) = completed c \<and> turnErr (fold collect_event evs c) = turnErr c \<and>
    cl_usage (fold collect_event evs c) = reported_usage (cl_usage c) evs"
  by (induction evs arbitrary: c)
    (auto simp: collect_event_def is_final_def reported_usage_def usage_reports_def split: option.splits)

text \<open>C10: The result of a turn whose last event ends it: a turn that did not fail gives its final
  state, all items completed during the turn in order, the response computed from them and the last
  usage reported; a failed turn gives an error that carries the turn's own message when it has one.\<close>
theorem turn_result_spec:
  assumes "\<forall>ev\<in>set evs. \<not> is_final ev" "is_final fin" "ev_Turn fin = Some st"
    "ev_Type fin = ''turn.failed'' \<longleftrightarrow> ts_Status st = ''failed''"
  shows "if ts_Status st = ''failed''
    then turn_result i (evs @ [fin]) = Inl (Text (case ev_Error fin of
        Some e \<Rightarrow> if te_Message e \<noteq> '''' then te_Message e else ''codex: turn '' @ i @ '' failed''
      | None \<Rightarrow> ''codex: turn '' @ i @ '' failed''))
    else turn_result i (evs @ [fin]) = Inr \<lparr>tr_ID = ts_ID st, tr_Status = ts_Status st, tr_Error = None,
        tr_StartedAt = ts_StartedAt st, tr_CompletedAt = ts_CompletedAt st, tr_Duration = ts_Duration st,
        tr_FinalResponse = finalAssistantResponse (completed_items evs), tr_Items = completed_items evs,
        tr_Usage = (if ev_Usage fin \<noteq> None then ev_Usage fin else reported_usage None evs)\<rparr>"
proof -
  let ?c = "fold collect_event evs no_events"
  have c: "completed ?c = None" "turnErr ?c = None" "cl_items ?c = completed_items evs"
    "cl_usage ?c = reported_usage None evs"
    using collect_not_final [OF assms(1), of no_events] collect_items [of evs no_events]
    by (simp_all add: no_events_def)
  show ?thesis
  proof (cases "ts_Status st = ''failed''")
    case True
    then have "collect_event fin ?c = ?c\<lparr>completed := Some st, turnErr := ev_Error fin,
        cl_usage := (if ev_Usage fin \<noteq> None then ev_Usage fin else cl_usage ?c)\<rparr>"
      using assms by (simp add: collect_event_def)
    then show ?thesis using True
      by (auto simp: turn_result_def finish_collect_def split: option.splits)
  next
    case False
    then have "collect_event fin ?c = ?c\<lparr>completed := Some st,
        cl_usage := (if ev_Usage fin \<noteq> None then ev_Usage fin else cl_usage ?c)\<rparr>"
      using assms by (auto simp: collect_event_def is_final_def)
    then show ?thesis using False c by (simp add: turn_result_def finish_collect_def)
  qed
qed

theorem turn_result_spec_witness:
  "turn_result ''t1'' [base_event ''item.completed'' ''item/completed'' ''th'' ''t1'' None
       \<lparr>ev_Item := Some (AgentMessageItem ''i'' ''agentMessage'' ''done'' ''final_answer'')\<rparr>,
     base_event ''turn.completed'' ''turn/completed'' ''th'' ''t1'' None
       \<lparr>ev_Turn := Some (decodeTurnState (zero_turnWire\<lparr>tw_ID := ''t1'', tw_Status := ''completed'', tw_DurationMs := 5\<rparr>))\<rparr>] =
   Inr \<lparr>tr_ID = ''t1'', tr_Status = ''completed'', tr_Error = None, tr_StartedAt = None, tr_CompletedAt = None,
     tr_Duration = 5000000, tr_FinalResponse = ''done'',
     tr_Items = [AgentMessageItem ''i'' ''agentMessage'' ''done'' ''final_answer''], tr_Usage = None\<rparr>"
  using turn_result_spec [of "[base_event ''item.completed'' ''item/completed'' ''th'' ''t1'' None
       \<lparr>ev_Item := Some (AgentMessageItem ''i'' ''agentMessage'' ''done'' ''final_answer'')\<rparr>]"
     "base_event ''turn.completed'' ''turn/completed'' ''th'' ''t1'' None
       \<lparr>ev_Turn := Some (decodeTurnState (zero_turnWire\<lparr>tw_ID := ''t1'', tw_Status := ''completed'', tw_DurationMs := 5\<rparr>))\<rparr>"
     "decodeTurnState (zero_turnWire\<lparr>tw_ID := ''t1'', tw_Status := ''completed'', tw_DurationMs := 5\<rparr>)" "''t1''"]
  by (simp add: is_final_def base_event_def zero_ThreadEvent_def decodeTurnState_def zero_turnWire_def
      completed_items_def reported_usage_def usage_reports_def finalAssistantResponse_def
      finalAssistantResponse_step_def millis_def int64_def unixSecondsTime_def)


end
