(* ===== verification/Goal.thy ===== *)
theory Goal
  imports Turn
begin

text \<open>
  \<open>goal.go\<close>: one logical goal spans several turns. \<open>goalOperation\<close> is the state shared by the
  route loop, which observes the notifications of the thread, and by the consumer of a
  \<open>GoalStream\<close>, which streams one turn after the other. Every definition is the work done
  between two points where the code may block or is under the operation's mutex; \<open>Goal_Props\<close>
  composes them in all interleavings.
\<close>

section \<open>The shared state\<close>

record goalOperation =
  g_threadID :: string
  logicalTurnID :: string
  currentTurnID :: string
  lastTurnID :: string
  pendingTurns :: "string list"
  g_status :: string
  cleared :: bool
  g_failed :: "go_error option"
  signalled :: bool
  registeredTurns :: "string list"

definition newGoalOperation :: "string \<Rightarrow> goalOperation" where
  "newGoalOperation threadID = \<lparr>g_threadID = threadID, logicalTurnID = '''', currentTurnID = '''',
     lastTurnID = '''', pendingTurns = [], g_status = '''', cleared = False, g_failed = None,
     signalled = False, registeredTurns = []\<rparr>"

text \<open>\<open>signalCh\<close> has capacity one and \<open>notify\<close> never blocks: a flag.\<close>

definition notify :: "goalOperation \<Rightarrow> goalOperation" where
  "notify g = g\<lparr>signalled := True\<rparr>"

definition fail_if_unset :: "go_error \<Rightarrow> goalOperation \<Rightarrow> goalOperation" where
  "fail_if_unset e g = (if g_failed g = None then g\<lparr>g_failed := Some e\<rparr> else g)"

definition goal_fail :: "go_error option \<Rightarrow> goalOperation \<Rightarrow> goalOperation" where
  "goal_fail err g = (case err of None \<Rightarrow> g | Some e \<Rightarrow> notify (fail_if_unset e g))"

definition noteTurnID :: "string \<Rightarrow> goalOperation \<Rightarrow> goalOperation" where
  "noteTurnID turnID g =
    (if turnID = '''' then g
     else if logicalTurnID g = ''''
     then g\<lparr>logicalTurnID := turnID, currentTurnID := turnID, lastTurnID := turnID\<rparr>
     else
      (let g1 = g\<lparr>currentTurnID := turnID, lastTurnID := turnID\<rparr>
       in if turnID = logicalTurnID g1 then g1
          else if turnID \<in> set (pendingTurns g1) then g1
          else g1\<lparr>pendingTurns := pendingTurns g1 @ [turnID]\<rparr>))"

definition goal_updated_payload :: "raw \<Rightarrow> (string \<times> string) option" where
  "goal_updated_payload params = do {
     ms \<leftarrow> struct_members params;
     tid \<leftarrow> dec_string ''turnId'' '''' ms;
     st \<leftarrow> dec_struct (\<lambda>fs s. dec_string ''status'' s fs) ''goal'' '''' ms;
     Some (tid, st)
   }"

definition turn_payload_id :: "raw \<Rightarrow> string option" where
  "turn_payload_id params = do {
     ms \<leftarrow> struct_members params;
     dec_struct (\<lambda>fs i. dec_string ''id'' i fs) ''turn'' '''' ms
   }"

definition observe_goal_updated :: "raw \<Rightarrow> goalOperation \<Rightarrow> goalOperation" where
  "observe_goal_updated params g =
    (case goal_updated_payload params of
       None \<Rightarrow> fail_if_unset json_error g
     | Some (tid, st) \<Rightarrow>
        (let g1 = g\<lparr>g_status := st\<rparr>;
             g2 = (if g_status g1 = ''active'' then g1\<lparr>cleared := False\<rparr> else g1)
         in if tid \<noteq> '''' then noteTurnID tid g2 else g2))"

definition observe_turn_started :: "raw \<Rightarrow> goalOperation \<Rightarrow> goalOperation" where
  "observe_turn_started params g =
    (case turn_payload_id params of
       None \<Rightarrow> fail_if_unset json_error g
     | Some i \<Rightarrow> if i \<noteq> '''' then noteTurnID i g else g)"

definition observe_turn_completed :: "raw \<Rightarrow> goalOperation \<Rightarrow> goalOperation" where
  "observe_turn_completed params g =
    (case turn_payload_id params of
       None \<Rightarrow> fail_if_unset json_error g
     | Some i \<Rightarrow>
        if i \<noteq> '''' \<and> currentTurnID g = i then g\<lparr>currentTurnID := '''', lastTurnID := i\<rparr> else g)"

definition observeGoalNotification :: "string \<Rightarrow> raw \<Rightarrow> goalOperation \<Rightarrow> goalOperation" where
  "observeGoalNotification m params g = notify
    (if m = ''thread/goal/updated'' then observe_goal_updated params g
     else if m = ''thread/goal/cleared'' then g\<lparr>cleared := True\<rparr>
     else if m = ''turn/started'' then observe_turn_started params g
     else if m = ''turn/completed'' then observe_turn_completed params g
     else g)"

definition goalRouteTurnID :: "string \<Rightarrow> raw \<Rightarrow> string" where
  "goalRouteTurnID m params =
    (if m = ''thread/goal/updated'' then notificationGoalTurnID params
     else if m = ''turn/started'' then notificationTurnIDLocal params
     else '''')"

text \<open>
  One iteration of \<open>routeLoop\<close>: \<open>err\<close> or \<open>r\<close> is what \<open>nextGoal\<close> returned. The result is
  the new state and whether the loop goes on; \<open>registerTurn\<close> is the transport's.
\<close>

definition routeLoop_step ::
  "(string \<Rightarrow> 'w \<Rightarrow> 'w \<times> go_error option) \<Rightarrow> go_error + raw \<Rightarrow> goalOperation \<Rightarrow> 'w \<Rightarrow> 'w \<times> goalOperation \<times> bool" where
  "routeLoop_step registerTurn nxt g w =
    (case nxt of
       Inl e \<Rightarrow> if errors_Is e context_Canceled then (w, g, False) else (w, goal_fail (Some e) g, False)
     | Inr r \<Rightarrow>
        (case splitNotification r of
           Inl e \<Rightarrow> (w, goal_fail (Some e) g, False)
         | Inr (m, params) \<Rightarrow>
            (let tid = goalRouteTurnID m params
             in if tid \<noteq> '''' \<and> tid \<notin> set (registeredTurns g)
                then (case registerTurn tid w of
                    (w1, Some e) \<Rightarrow> (w1, goal_fail (Some e) (g\<lparr>registeredTurns := tid # registeredTurns g\<rparr>), False)
                  | (w1, None) \<Rightarrow>
                      (w1, observeGoalNotification m params (g\<lparr>registeredTurns := tid # registeredTurns g\<rparr>), True))
                else (w, observeGoalNotification m params g, True))))"

section \<open>Waiting\<close>

definition goalTerminal :: "string \<Rightarrow> bool" where
  "goalTerminal s \<longleftrightarrow> s \<in> {''paused'', ''blocked'', ''usageLimited'', ''budgetLimited'', ''complete''}"

text \<open>
  \<open>awaitStart\<close> over the states it sees when it takes the lock, one per iteration; \<open>ended\<close> is
  how the last wait ends when no iteration decides.
\<close>

datatype wait_end = CtxDone go_error | TimedOut

definition start_check :: "goalOperation \<Rightarrow> (go_error + string) option" where
  "start_check g =
    (case g_failed g of
       Some e \<Rightarrow> Some (Inl e)
     | None \<Rightarrow>
        if logicalTurnID g \<noteq> '''' then Some (Inr (logicalTurnID g))
        else if cleared g \<or> goalTerminal (g_status g)
        then Some (Inl (Text ''codex: goal ended without starting a turn''))
        else None)"

fun awaitStart :: "wait_end \<Rightarrow> goalOperation list \<Rightarrow> go_error + string" where
  "awaitStart ended [] = (case ended of
     CtxDone e \<Rightarrow> Inl e
   | TimedOut \<Rightarrow> Inl (Text ''codex: timed out waiting for goal turn to start''))"
| "awaitStart ended (g # gs) = (case start_check g of Some r \<Rightarrow> r | None \<Rightarrow> awaitStart ended gs)"

definition finishPhysicalTurn :: "string \<Rightarrow> goalOperation \<Rightarrow> goalOperation" where
  "finishPhysicalTurn turnID g =
     notify (if currentTurnID g = turnID then g\<lparr>currentTurnID := ''''\<rparr> else g)"

text \<open>
  \<open>awaitContinuation\<close>, the decision of one iteration and the pop that follows a decision to
  go on, two separate critical sections as in the code.
\<close>

datatype decision = Failed go_error | Continue string | Terminal | Wait

definition continuation_check :: "string \<Rightarrow> goalOperation \<Rightarrow> decision" where
  "continuation_check previousTurnID g =
    (let nextTurnID = (case pendingTurns g of [] \<Rightarrow> '''' | t # ts \<Rightarrow> t);
         terminal = (nextTurnID = '''' \<and> currentTurnID g = '''' \<and> (cleared g \<or> goalTerminal (g_status g)))
     in case g_failed g of
          Some e \<Rightarrow> Failed e
        | None \<Rightarrow>
           if nextTurnID \<noteq> '''' \<and> nextTurnID \<noteq> previousTurnID then Continue nextTurnID
           else if terminal then Terminal else Wait)"

definition continuation_pop :: "string \<Rightarrow> goalOperation \<Rightarrow> goalOperation" where
  "continuation_pop nextTurnID g =
    (case pendingTurns g of
       [] \<Rightarrow> g
     | t # ts \<Rightarrow> if t = nextTurnID then g\<lparr>pendingTurns := ts\<rparr> else g)"

definition interruptTarget :: "goalOperation \<Rightarrow> string" where
  "interruptTarget g = (if currentTurnID g \<noteq> '''' then currentTurnID g else lastTurnID g)"

section \<open>The stream\<close>

definition rewriteLogicalGoalEvent :: "ThreadEvent \<Rightarrow> string \<Rightarrow> ThreadEvent" where
  "rewriteLogicalGoalEvent ev logical =
    (if logical = '''' then ev
     else ev\<lparr>ev_TurnID := logical, ev_Turn := map_option (\<lambda>t. t\<lparr>ts_ID := logical\<rparr>) (ev_Turn ev)\<rparr>)"

record GoalStream =
  gs_current :: "TurnStream option"
  gs_turnID :: string
  gs_done :: bool
  gs_closed :: bool

definition new_GoalStream :: GoalStream where
  "new_GoalStream = \<lparr>gs_current = None, gs_turnID = '''', gs_done = False, gs_closed = False\<rparr>"

text \<open>
  \<open>gs_closed\<close> is \<open>closeOnce\<close> of the handle; closing runs \<open>unregisterGoal\<close> the first time.
\<close>

definition GoalHandle_Close :: "('w \<Rightarrow> 'w) \<Rightarrow> GoalStream \<Rightarrow> 'w \<Rightarrow> 'w \<times> GoalStream" where
  "GoalHandle_Close unregisterGoal s w =
     (if gs_closed s then (w, s) else (unregisterGoal w, s\<lparr>gs_closed := True\<rparr>))"

text \<open>
  \<open>GoalStream.Next\<close> in three parts. The top of the loop picks the turn to stream and opens its
  stream; the handle is fresh, so \<open>StreamContext\<close> cannot refuse. \<open>None\<close>: there is no turn, the
  goal is over.
\<close>

definition goalstream_open :: "goalOperation \<Rightarrow> GoalStream \<Rightarrow> GoalStream option" where
  "goalstream_open g s =
    (case gs_current s of
       Some _ \<Rightarrow> Some s
     | None \<Rightarrow>
        (let t1 = (if gs_turnID s = '''' then logicalTurnID g else gs_turnID s);
             t2 = (if t1 = '''' then interruptTarget g else t1)
         in if t2 = '''' then None
            else Some (s\<lparr>gs_turnID := t2,
              gs_current := Some \<lparr>st_threadID = g_threadID g, st_id = t2, latestUsage = None,
                terminalErr = None, terminalEOF = False, st_closed = False\<rparr>\<rparr>)))"

text \<open>The start of a call of \<open>Next\<close>: a result at once, or the stream to read from.\<close>

definition goalstream_top :: "('w \<Rightarrow> 'w) \<Rightarrow> goalOperation \<Rightarrow> GoalStream \<Rightarrow> 'w \<Rightarrow> 'w \<times> GoalStream \<times> go_error option" where
  "goalstream_top unregisterGoal g s w =
    (if gs_done s then (w, s, Some io_EOF)
     else case goalstream_open g s of
         Some s1 \<Rightarrow> (w, s1, None)
       | None \<Rightarrow> (case GoalHandle_Close unregisterGoal (s\<lparr>gs_done := True\<rparr>) w of (w1, s1) \<Rightarrow> (w1, s1, Some io_EOF)))"

text \<open>
  \<open>cancelGoalOperation\<close> after the pause request: interrupt the target, and when the server
  names another active turn (\<open>mismatch\<close> reads it from the error) take that one and try once more.
\<close>

definition cancel_interrupt ::
  "(string \<Rightarrow> 'w \<Rightarrow> 'w \<times> go_error option) \<Rightarrow> (go_error \<Rightarrow> string) \<Rightarrow> goalOperation \<Rightarrow> 'w \<Rightarrow> 'w \<times> goalOperation" where
  "cancel_interrupt interruptTurn mismatch g w =
    (let turnID = interruptTarget g
     in if turnID = '''' then (w, g)
        else (case interruptTurn turnID w of
            (w1, None) \<Rightarrow> (w1, g)
          | (w1, Some e) \<Rightarrow>
             (let nextTurnID = mismatch e
              in if nextTurnID = '''' \<or> nextTurnID = turnID then (w1, g)
                 else (fst (interruptTurn nextTurnID w1),
                   g\<lparr>currentTurnID := nextTurnID, lastTurnID := nextTurnID\<rparr>))))"

datatype goal_next = Return "go_error + ThreadEvent" | Again | AwaitContinuation ThreadEvent

text \<open>What follows \<open>s.current.Next\<close>, up to the call of \<open>awaitContinuation\<close>.\<close>

definition goalstream_error ::
  "(string \<Rightarrow> 'w \<Rightarrow> 'w) \<Rightarrow> ('w \<Rightarrow> 'w) \<Rightarrow> go_error \<Rightarrow> GoalStream \<Rightarrow> 'w \<Rightarrow> 'w \<times> GoalStream \<times> goal_next" where
  "goalstream_error unregisterTurn unregisterGoal e s w =
    (let w1 = (case gs_current s of None \<Rightarrow> w | Some c \<Rightarrow> fst (TurnStream_Close unregisterTurn c w))
     in case GoalHandle_Close unregisterGoal (s\<lparr>gs_current := None\<rparr>) w1 of
          (w2, s2) \<Rightarrow> (w2, s2, Return (Inl e)))"

definition goalstream_event ::
  "(string \<Rightarrow> 'w \<Rightarrow> 'w) \<Rightarrow> ('w \<Rightarrow> 'w) \<Rightarrow> ThreadEvent \<Rightarrow> goalOperation \<Rightarrow> GoalStream \<Rightarrow> 'w \<Rightarrow>
   'w \<times> goalOperation \<times> GoalStream \<times> goal_next" where
  "goalstream_event unregisterTurn unregisterGoal event g s w =
    (let ev = rewriteLogicalGoalEvent event (logicalTurnID g)
     in if ev_Type ev = ''turn.started'' then
          (if gs_turnID s = logicalTurnID g then (w, g, s, Return (Inr ev)) else (w, g, s, Again))
        else if ev_Type ev = ''turn.completed'' \<or> ev_Type ev = ''turn.failed'' then
          (let w1 = (case gs_current s of None \<Rightarrow> w | Some c \<Rightarrow> fst (TurnStream_Close unregisterTurn c w));
               s1 = s\<lparr>gs_current := None\<rparr>;
               g1 = finishPhysicalTurn (gs_turnID s) g
           in if ev_Type ev = ''turn.failed'' then
                (case GoalHandle_Close unregisterGoal (s1\<lparr>gs_done := True\<rparr>) w1 of
                   (w2, s2) \<Rightarrow> (w2, g1, s2, Return (Inr ev)))
              else (w1, g1, s1, AwaitContinuation ev))
        else (w, g, s, Return (Inr ev)))"

text \<open>What follows \<open>awaitContinuation\<close>; \<open>ev\<close> is the event of the turn that ended.\<close>

definition goalstream_continue ::
  "(string \<Rightarrow> 'w \<Rightarrow> 'w \<times> go_error option) \<Rightarrow> ('w \<Rightarrow> 'w) \<Rightarrow> ThreadEvent \<Rightarrow> go_error + string option \<Rightarrow>
   GoalStream \<Rightarrow> 'w \<Rightarrow> 'w \<times> GoalStream \<times> goal_next" where
  "goalstream_continue registerTurn unregisterGoal ev res s w =
    (case res of
       Inl e \<Rightarrow> (case GoalHandle_Close unregisterGoal s w of (w1, s1) \<Rightarrow> (w1, s1, Return (Inl e)))
     | Inr None \<Rightarrow>
        (case GoalHandle_Close unregisterGoal (s\<lparr>gs_done := True\<rparr>) w of (w1, s1) \<Rightarrow> (w1, s1, Return (Inr ev)))
     | Inr (Some t) \<Rightarrow>
        (case registerTurn t w of
           (w1, Some e) \<Rightarrow>
             (case GoalHandle_Close unregisterGoal s w1 of (w2, s2) \<Rightarrow> (w2, s2, Return (Inl e)))
         | (w1, None) \<Rightarrow> (w1, s\<lparr>gs_turnID := t\<rparr>, Again)))"

text \<open>\<open>collectGoalResult\<close>: the loop is that of a turn, the two messages differ.\<close>

definition collectGoalResult ::
  "('s \<Rightarrow> ('s \<times> (go_error + ThreadEvent)) option) \<Rightarrow> 's \<Rightarrow> ('s \<times> (go_error + TurnResult)) option" where
  "collectGoalResult nxt s =
    (case collect_loop nxt no_events s of
       None \<Rightarrow> None
     | Some (s', Inl e) \<Rightarrow> Some (s', Inl e)
     | Some (s', Inr c) \<Rightarrow>
         Some (s', finish_collect ''codex: goal completed event not received'' ''codex: goal turn failed'' c))"

end
