(* ===== verification/Goal_Props.thy ===== *)
theory Goal_Props
  imports Goal
begin

text \<open>
  The goal operation in all interleavings of the route loop with one consumer. The transport is
  a log of the calls made on it; what it answers is left open.
\<close>

section \<open>The system\<close>

datatype call = RegTurn string | UnregTurn string | Interrupt string | UnregGoal

datatype phase = Starting | Idle | Reading | Awaiting ThreadEvent | Popping ThreadEvent string

record gsys =
  op :: goalOperation
  strm :: GoalStream
  phase :: phase
  calls :: "call list"
  noted :: "string list"
  streamed :: "string list"
  out :: "(go_error + ThreadEvent) list"

abbreviation reg :: "go_error option \<Rightarrow> string \<Rightarrow> call list \<Rightarrow> call list \<times> go_error option" where
  "reg e \<equiv> \<lambda>i w. (w @ [RegTurn i], e)"

abbreviation unreg_turn :: "string \<Rightarrow> call list \<Rightarrow> call list" where
  "unreg_turn \<equiv> \<lambda>i w. w @ [UnregTurn i]"

abbreviation unreg_goal :: "call list \<Rightarrow> call list" where
  "unreg_goal \<equiv> \<lambda>w. w @ [UnregGoal]"

text \<open>The turn a notification makes known to the operation.\<close>

definition noted_id :: "string \<Rightarrow> raw \<Rightarrow> string" where
  "noted_id m params =
    (if m = ''thread/goal/updated'' then (case goal_updated_payload params of Some (tid, st) \<Rightarrow> tid | None \<Rightarrow> '''')
     else if m = ''turn/started'' then (case turn_payload_id params of Some i \<Rightarrow> i | None \<Rightarrow> '''')
     else '''')"

definition noted_by :: "go_error + raw \<Rightarrow> string list" where
  "noted_by x = (case x of Inl e \<Rightarrow> [] | Inr r \<Rightarrow>
     (case splitNotification r of Inl e \<Rightarrow> [] | Inr (m, p) \<Rightarrow> if noted_id m p = '''' then [] else [noted_id m p]))"

definition after_next :: "goal_next \<Rightarrow> phase" where
  "after_next x = (case x of Return _ \<Rightarrow> Idle | Again \<Rightarrow> Reading | AwaitContinuation ev \<Rightarrow> Awaiting ev)"

definition outcome :: "goal_next \<Rightarrow> (go_error + ThreadEvent) list" where
  "outcome x = (case x of Return r \<Rightarrow> [r] | _ \<Rightarrow> [])"

definition init_goal :: "string \<Rightarrow> gsys" where
  "init_goal t = \<lparr>op = newGoalOperation t, strm = new_GoalStream, phase = Starting, calls = [], noted = [],
     streamed = [], out = []\<rparr>"

text \<open>
  \<open>reading\<close> opens the next turn's stream when the code goes round its loop; the consumer's
  context may end at any wait.
\<close>

inductive gstep :: "gsys \<Rightarrow> gsys \<Rightarrow> bool" where
  observe: "routeLoop_step (reg err) x (op s) (calls s) = (w, g, True) \<Longrightarrow>
    gstep s (s\<lparr>op := g, calls := w, noted := noted s @ noted_by x\<rparr>)"
| observe_stop: "routeLoop_step (reg err) x (op s) (calls s) = (w, g, False) \<Longrightarrow>
    gstep s (s\<lparr>op := g, calls := w\<rparr>)"
| cancel: "cancel_interrupt (\<lambda>i w. (w @ [Interrupt i], err)) mismatch (op s) (calls s) = (w, g) \<Longrightarrow>
    gstep s (s\<lparr>op := g, calls := w\<rparr>)"
| started: "phase s = Starting \<Longrightarrow> start_check (op s) = Some (Inr t) \<Longrightarrow> gstep s (s\<lparr>phase := Idle\<rparr>)"
| call_next: "phase s = Idle \<Longrightarrow> goalstream_top unreg_goal (op s) (strm s) (calls s) = (w, st, None) \<Longrightarrow>
    gstep s (s\<lparr>strm := st, calls := w, phase := Reading,
      streamed := (if gs_current (strm s) = None then streamed s @ [gs_turnID st] else streamed s)\<rparr>)"
| call_eof: "phase s = Idle \<Longrightarrow> goalstream_top unreg_goal (op s) (strm s) (calls s) = (w, st, Some e) \<Longrightarrow>
    gstep s (s\<lparr>strm := st, calls := w, out := out s @ [Inl e]\<rparr>)"
| read_error: "phase s = Reading \<Longrightarrow>
    goalstream_error unreg_turn unreg_goal e (strm s) (calls s) = (w, st, x) \<Longrightarrow>
    gstep s (s\<lparr>strm := st, calls := w, phase := Idle, out := out s @ outcome x\<rparr>)"
| read_event: "phase s = Reading \<Longrightarrow>
    goalstream_event unreg_turn unreg_goal ev (op s) (strm s) (calls s) = (w, g, st, x) \<Longrightarrow>
    gstep s (s\<lparr>op := g, strm := st, calls := w, phase := after_next x, out := out s @ outcome x\<rparr>)"
| decide_continue: "phase s = Awaiting ev \<Longrightarrow> continuation_check (gs_turnID (strm s)) (op s) = Continue t \<Longrightarrow>
    gstep s (s\<lparr>phase := Popping ev t\<rparr>)"
| decide_end: "phase s = Awaiting ev \<Longrightarrow> continuation_check (gs_turnID (strm s)) (op s) = Terminal \<Longrightarrow>
    goalstream_continue (reg None) unreg_goal ev (Inr None) (strm s) (calls s) = (w, st, x) \<Longrightarrow>
    gstep s (s\<lparr>strm := st, calls := w, phase := after_next x, out := out s @ outcome x\<rparr>)"
| decide_error: "phase s = Awaiting ev \<Longrightarrow>
    goalstream_continue (reg None) unreg_goal ev (Inl e) (strm s) (calls s) = (w, st, x) \<Longrightarrow>
    gstep s (s\<lparr>strm := st, calls := w, phase := after_next x, out := out s @ outcome x\<rparr>)"
| popped: "phase s = Popping ev t \<Longrightarrow>
    goalstream_continue (reg err) unreg_goal ev (Inr (Some t)) (strm s) (calls s) = (w, st, x) \<Longrightarrow>
    goalstream_open (op s) st = Some st' \<Longrightarrow> x = Again \<Longrightarrow>
    gstep s (s\<lparr>op := continuation_pop t (op s), strm := st', calls := w, phase := Reading,
      streamed := streamed s @ [gs_turnID st']\<rparr>)"
| pop_error: "phase s = Popping ev t \<Longrightarrow>
    goalstream_continue (reg err) unreg_goal ev (Inr (Some t)) (strm s) (calls s) = (w, st, x) \<Longrightarrow> x \<noteq> Again \<Longrightarrow>
    gstep s (s\<lparr>op := continuation_pop t (op s), strm := st, calls := w, phase := Idle, out := out s @ outcome x\<rparr>)"

inductive greach :: "string \<Rightarrow> gsys \<Rightarrow> bool" for t where
  start: "greach t (init_goal t)"
| step: "greach t s \<Longrightarrow> gstep s s' \<Longrightarrow> greach t s'"

section \<open>What the route loop does to the operation\<close>

definition pend_ok :: "goalOperation \<Rightarrow> bool" where
  "pend_ok g \<longleftrightarrow> distinct (pendingTurns g) \<and> '''' \<notin> set (pendingTurns g) \<and>
     logicalTurnID g \<notin> set (pendingTurns g) \<and> (logicalTurnID g = '''' \<longrightarrow> pendingTurns g = [])"

text \<open>\<open>grows ids g g'\<close>: the turns \<open>ids\<close> became known, nothing known before is lost or reordered.\<close>

definition grows :: "string list \<Rightarrow> goalOperation \<Rightarrow> goalOperation \<Rightarrow> bool" where
  "grows ids g g' \<longleftrightarrow> (\<exists>ext. pendingTurns g' = pendingTurns g @ ext) \<and> (pend_ok g \<longrightarrow> pend_ok g') \<and>
     (logicalTurnID g \<noteq> '''' \<longrightarrow> logicalTurnID g' = logicalTurnID g) \<and>
     (logicalTurnID g' = '''' \<longrightarrow> ids = []) \<and> set ids \<subseteq> insert (logicalTurnID g') (set (pendingTurns g'))"

lemma grows_same:
  "pendingTurns g' = pendingTurns g \<Longrightarrow> logicalTurnID g' = logicalTurnID g \<Longrightarrow> grows [] g g'"
  by (simp add: grows_def pend_ok_def)

lemma grows_noteTurnID: "i \<noteq> '''' \<Longrightarrow> grows [i] g (noteTurnID i g)"
  by (auto simp: grows_def pend_ok_def noteTurnID_def Let_def)

lemma grows_cong:
  "grows ids g g' \<Longrightarrow> pendingTurns h = pendingTurns g \<Longrightarrow> logicalTurnID h = logicalTurnID g \<Longrightarrow>
   pendingTurns h' = pendingTurns g' \<Longrightarrow> logicalTurnID h' = logicalTurnID g' \<Longrightarrow> grows ids h h'"
  by (simp add: grows_def pend_ok_def)

lemma fail_if_unset_fields [simp]:
  "pendingTurns (fail_if_unset e g) = pendingTurns g" "logicalTurnID (fail_if_unset e g) = logicalTurnID g"
  "currentTurnID (fail_if_unset e g) = currentTurnID g" "g_failed (fail_if_unset e g) \<noteq> None"
  by (auto simp: fail_if_unset_def)

lemma notify_fields [simp]:
  "pendingTurns (notify g) = pendingTurns g" "logicalTurnID (notify g) = logicalTurnID g"
  "currentTurnID (notify g) = currentTurnID g" "g_failed (notify g) = g_failed g" "cleared (notify g) = cleared g"
  "g_status (notify g) = g_status g" "lastTurnID (notify g) = lastTurnID g"
  by (simp_all add: notify_def)

lemma grows_note_from:
  "i \<noteq> [] \<Longrightarrow> pendingTurns h = pendingTurns g \<Longrightarrow> logicalTurnID h = logicalTurnID g \<Longrightarrow>
   grows [i] g (notify (noteTurnID i h))"
  using grows_cong [OF grows_noteTurnID [of i h], of g "notify (noteTurnID i h)"] by simp

lemma grows_observe:
  "grows (if noted_id m p = '''' then [] else [noted_id m p]) g (observeGoalNotification m p g)"
proof -
  consider (upd) "m = ''thread/goal/updated''" | (clr) "m = ''thread/goal/cleared''" | (sta) "m = ''turn/started''"
    | (cmp) "m = ''turn/completed''"
    | (oth) "m \<notin> {''thread/goal/updated'', ''thread/goal/cleared'', ''turn/started'', ''turn/completed''}" by auto
  then show ?thesis
  proof cases
    case upd
    then show ?thesis
      by (auto simp: observeGoalNotification_def observe_goal_updated_def noted_id_def Let_def
          intro!: grows_same grows_note_from split: option.splits)
  next
    case sta
    then show ?thesis
      by (auto simp: observeGoalNotification_def observe_turn_started_def noted_id_def
          intro!: grows_same grows_note_from split: option.splits)
  next
    case cmp
    then show ?thesis
      by (auto simp: observeGoalNotification_def observe_turn_completed_def noted_id_def
          intro!: grows_same split: option.splits)
  next
    case clr
    then show ?thesis by (auto simp: observeGoalNotification_def noted_id_def intro!: grows_same)
  next
    case oth
    then show ?thesis by (auto simp: observeGoalNotification_def noted_id_def intro!: grows_same)
  qed
qed

lemma grows_routeLoop:
  assumes "routeLoop_step r x g w = (w', g', go)"
  shows "grows (if go then noted_by x else []) g g'"
proof (cases "\<exists>q m p. x = Inr q \<and> splitNotification q = Inr (m, p)")
  case True
  then obtain q m p where x: "x = Inr q" "splitNotification q = Inr (m, p)" by blast
  have "grows (noted_by x) h (observeGoalNotification m p h)" for h
    using grows_observe [of m p h] x by (simp add: noted_by_def)
  then have obs: "grows (noted_by x) g (observeGoalNotification m p h)"
    if "pendingTurns h = pendingTurns g" "logicalTurnID h = logicalTurnID g" for h
    using grows_cong [of "noted_by x" h "observeGoalNotification m p h" g] that by simp
  from assms x show ?thesis
    by (auto simp: routeLoop_step_def Let_def goal_fail_def intro!: grows_same obs [unfolded x(1)]
        split: if_splits prod.splits option.splits)
next
  case False
  with assms show ?thesis
    by (auto simp: routeLoop_step_def goal_fail_def intro!: grows_same split: if_splits sum.splits)
qed

lemma routeLoop_calls:
  "routeLoop_step (reg err) x g w = (w', g', go) \<Longrightarrow> \<exists>ts. w' = w @ map RegTurn ts"
  by (auto simp: routeLoop_step_def Let_def intro: exI [of _ "[]"] exI [of _ "[_]"]
      split: if_splits sum.splits prod.splits option.splits)

section \<open>The invariant\<close>

definition logical_event :: "string \<Rightarrow> ThreadEvent \<Rightarrow> bool" where
  "logical_event l ev \<longleftrightarrow> ev_TurnID ev = l \<and> (\<forall>t. ev_Turn ev = Some t \<longrightarrow> ts_ID t = l)"

definition phase_ok :: "gsys \<Rightarrow> bool" where
  "phase_ok s \<longleftrightarrow> (case phase s of
     Starting \<Rightarrow> streamed s = [] \<and> out s = []
   | Idle \<Rightarrow> logicalTurnID (op s) \<noteq> ''''
   | Reading \<Rightarrow> logicalTurnID (op s) \<noteq> '''' \<and> streamed s \<noteq> [] \<and> gs_current (strm s) \<noteq> None
   | Awaiting ev \<Rightarrow> logicalTurnID (op s) \<noteq> '''' \<and> streamed s \<noteq> [] \<and> gs_current (strm s) = None \<and>
       logical_event (logicalTurnID (op s)) ev
   | Popping ev t \<Rightarrow> logicalTurnID (op s) \<noteq> '''' \<and> streamed s \<noteq> [] \<and> gs_current (strm s) = None \<and>
       logical_event (logicalTurnID (op s)) ev \<and> (\<exists>ts. pendingTurns (op s) = t # ts) \<and> t \<noteq> gs_turnID (strm s))"

definition stream_ok :: "gsys \<Rightarrow> bool" where
  "stream_ok s \<longleftrightarrow>
     (if streamed s = [] then gs_turnID (strm s) = '''' \<and> gs_current (strm s) = None
      else hd (streamed s) = logicalTurnID (op s) \<and> gs_turnID (strm s) = last (streamed s) \<and> gs_turnID (strm s) \<noteq> '''')"

definition ginv :: "gsys \<Rightarrow> bool" where
  "ginv s \<longleftrightarrow> pend_ok (op s) \<and> phase_ok s \<and> stream_ok s \<and>
     (\<not> gs_closed (strm s) \<longrightarrow>
       set (noted s) \<subseteq> insert (logicalTurnID (op s)) (set (pendingTurns (op s)) \<union> set (streamed s))) \<and>
     (logicalTurnID (op s) = '''' \<longrightarrow> noted s = []) \<and>
     length (filter (\<lambda>c. c = UnregGoal) (calls s)) = (if gs_closed (strm s) then 1 else 0) \<and>
     (\<forall>ev. Inr ev \<in> set (out s) \<longrightarrow> logical_event (logicalTurnID (op s)) ev)"

abbreviation goal_unregs :: "call list \<Rightarrow> nat" where
  "goal_unregs cs \<equiv> length (filter (\<lambda>c. c = UnregGoal) cs)"

lemma goal_unregs_regs [simp]: "goal_unregs (map RegTurn ts) = 0"
  by (induction ts) auto

lemma ginv_op:
  assumes "ginv s" "grows ids (op s) g" "goal_unregs w = goal_unregs (calls s)"
  shows "ginv (s\<lparr>op := g, calls := w, noted := noted s @ ids\<rparr>)"
proof -
  have keep: "logicalTurnID g = logicalTurnID (op s)" if "logicalTurnID (op s) \<noteq> ''''"
    using assms(2) that by (simp add: grows_def)
  have st: "logicalTurnID (op s) = '''' \<Longrightarrow> phase s = Starting"
    using assms(1) by (auto simp: ginv_def phase_ok_def split: phase.splits)
  show ?thesis
  proof (cases "logicalTurnID (op s) = ''''")
    case True
    then have "phase s = Starting" "streamed s = []" "out s = []" "noted s = []" "pendingTurns (op s) = []"
      using assms(1) st by (auto simp: ginv_def phase_ok_def pend_ok_def)
    then show ?thesis using assms by (auto simp: ginv_def grows_def phase_ok_def stream_ok_def)
  next
    case False
    note l = keep [OF False]
    obtain ext where ext: "pendingTurns g = pendingTurns (op s) @ ext" using assms(2) by (auto simp: grows_def)
    have "phase_ok (s\<lparr>op := g, calls := w, noted := noted s @ ids\<rparr>)"
      using assms(1) l ext by (auto simp: ginv_def phase_ok_def split: phase.splits)
    then show ?thesis using assms l ext False
      by (auto simp: ginv_def grows_def stream_ok_def)
  qed
qed

lemma GoalHandle_Close_cases:
  assumes "GoalHandle_Close unreg_goal st w = (w', st')" "goal_unregs w = (if gs_closed st then 1 else 0)"
  shows "gs_closed st'" "goal_unregs w' = 1" "gs_turnID st' = gs_turnID st" "gs_current st' = gs_current st"
  using assms by (auto simp: GoalHandle_Close_def split: if_splits)

lemma Close_calls [simp]:
  "filter (\<lambda>c. c = UnregGoal) (fst (TurnStream_Close unreg_turn c w)) = filter (\<lambda>c. c = UnregGoal) w"
  by (simp add: TurnStream_Close_def)

lemma ginv_next:
  assumes "ginv s" "phase s = Idle" "goalstream_top unreg_goal (op s) (strm s) (calls s) = (w, st, None)"
  shows "ginv (s\<lparr>strm := st, calls := w, phase := Reading,
      streamed := (if gs_current (strm s) = None then streamed s @ [gs_turnID st] else streamed s)\<rparr>)"
proof -
  have l: "logicalTurnID (op s) \<noteq> ''''" using assms(1,2) by (simp add: ginv_def phase_ok_def)
  have o: "goalstream_open (op s) (strm s) = Some st" "w = calls s"
    using assms(3) by (auto simp: goalstream_top_def split: if_splits option.splits prod.splits)
  show ?thesis
  proof (cases "gs_current (strm s)")
    case (Some c)
    then have "st = strm s" "streamed s \<noteq> []"
      using o assms(1) by (auto simp: goalstream_open_def ginv_def stream_ok_def split: if_splits)
    with Some o assms(1,2) l show ?thesis by (auto simp: ginv_def phase_ok_def stream_ok_def)
  next
    case None
    have t: "gs_turnID st = (if gs_turnID (strm s) = '''' then logicalTurnID (op s) else gs_turnID (strm s))"
      "gs_closed st = gs_closed (strm s)" "gs_current st \<noteq> None" "gs_turnID st \<noteq> ''''"
      using o None l by (auto simp: goalstream_open_def Let_def split: if_splits)
    with None o assms(1,2) l show ?thesis
      by (auto simp: ginv_def phase_ok_def stream_ok_def split: if_splits)
  qed
qed

lemma ginv_eof:
  assumes "ginv s" "phase s = Idle" "goalstream_top unreg_goal (op s) (strm s) (calls s) = (w, st, Some e)"
  shows "ginv (s\<lparr>strm := st, calls := w, out := out s @ [Inl e]\<rparr>)"
proof (cases "gs_done (strm s)")
  case True
  with assms show ?thesis
    by (auto simp: goalstream_top_def ginv_def phase_ok_def stream_ok_def split: if_splits)
next
  case False
  then have c: "GoalHandle_Close unreg_goal ((strm s)\<lparr>gs_done := True\<rparr>) (calls s) = (w, st)"
    using assms(3) by (auto simp: goalstream_top_def split: if_splits option.splits prod.splits)
  from GoalHandle_Close_cases [OF c] assms(1,2) show ?thesis
    by (auto simp: ginv_def phase_ok_def stream_ok_def)
qed

lemma ginv_return:
  assumes "ginv s" "phase s \<noteq> Starting" "gs_closed st" "goal_unregs w = 1" "gs_turnID st = gs_turnID (strm s)"
    "gs_current st = None" "pend_ok g" "logicalTurnID g = logicalTurnID (op s)"
    "case r of Inl e \<Rightarrow> True | Inr ev \<Rightarrow> logical_event (logicalTurnID (op s)) ev"
  shows "ginv (s\<lparr>op := g, strm := st, calls := w, phase := Idle, out := out s @ [r]\<rparr>)"
  using assms by (auto simp: ginv_def phase_ok_def stream_ok_def split: phase.splits sum.splits)

lemma logical_event_rewrite:
  "l \<noteq> '''' \<Longrightarrow> logical_event l (rewriteLogicalGoalEvent ev l)"
  by (auto simp: logical_event_def rewriteLogicalGoalEvent_def)

lemma finishPhysicalTurn_fields [simp]:
  "pendingTurns (finishPhysicalTurn t g) = pendingTurns g" "logicalTurnID (finishPhysicalTurn t g) = logicalTurnID g"
  "g_failed (finishPhysicalTurn t g) = g_failed g" "g_status (finishPhysicalTurn t g) = g_status g"
  "cleared (finishPhysicalTurn t g) = cleared g"
  by (simp_all add: finishPhysicalTurn_def)

lemma ginv_error:
  assumes "ginv s" "phase s = Reading"
    "goalstream_error unreg_turn unreg_goal e (strm s) (calls s) = (w, st, x)"
  shows "ginv (s\<lparr>strm := st, calls := w, phase := Idle, out := out s @ outcome x\<rparr>)"
proof -
  let ?w = "case gs_current (strm s) of None \<Rightarrow> calls s | Some c \<Rightarrow> fst (TurnStream_Close unreg_turn c (calls s))"
  have c: "GoalHandle_Close unreg_goal ((strm s)\<lparr>gs_current := None\<rparr>) ?w = (w, st)" and x: "x = Return (Inl e)"
    using assms(3) by (auto simp: goalstream_error_def Let_def split: prod.splits)
  have u: "goal_unregs ?w = (if gs_closed ((strm s)\<lparr>gs_current := None\<rparr>) then 1 else 0)"
    using assms(1) by (auto simp: ginv_def split: option.splits)
  from GoalHandle_Close_cases [OF c u] ginv_return [OF assms(1), of st w "op s" "Inl e"] assms(1,2) x
  show ?thesis by (simp add: outcome_def ginv_def)
qed

lemma ginv_event:
  assumes "ginv s" "phase s = Reading"
    "goalstream_event unreg_turn unreg_goal ev (op s) (strm s) (calls s) = (w, g, st, x)"
  shows "ginv (s\<lparr>op := g, strm := st, calls := w, phase := after_next x, out := out s @ outcome x\<rparr>)"
proof -
  let ?l = "logicalTurnID (op s)"
  let ?ev = "rewriteLogicalGoalEvent ev ?l"
  let ?w = "case gs_current (strm s) of None \<Rightarrow> calls s | Some c \<Rightarrow> fst (TurnStream_Close unreg_turn c (calls s))"
  have l: "?l \<noteq> ''''" using assms(1,2) by (simp add: ginv_def phase_ok_def)
  have lev: "logical_event ?l ?ev" by (rule logical_event_rewrite [OF l])
  have u: "goal_unregs ?w = (if gs_closed (strm s) then 1 else 0)"
    using assms(1) by (auto simp: ginv_def split: option.splits)
  show ?thesis
  proof (cases "ev_Type ?ev = ''turn.completed'' \<or> ev_Type ?ev = ''turn.failed''")
    case False
    then have "w = calls s" "g = op s" "st = strm s" "x = Again \<or> x = Return (Inr ?ev)"
      using assms(3) by (auto simp: goalstream_event_def Let_def split: if_splits)
    then show ?thesis using assms(1,2) lev
      by (auto simp: ginv_def phase_ok_def stream_ok_def after_next_def outcome_def)
  next
    case fin: True
    show ?thesis
    proof (cases "ev_Type ?ev = ''turn.failed''")
      case True
      then have c: "GoalHandle_Close unreg_goal ((strm s)\<lparr>gs_current := None, gs_done := True\<rparr>) ?w = (w, st)"
        "g = finishPhysicalTurn (gs_turnID (strm s)) (op s)" "x = Return (Inr ?ev)"
        using assms(3) by (auto simp: goalstream_event_def Let_def split: prod.splits)
      have "pend_ok g" using c(2) assms(1) by (simp add: pend_ok_def ginv_def)
      with GoalHandle_Close_cases [OF c(1)] u ginv_return [OF assms(1), of st w g "Inr ?ev"] assms(2) c lev
      show ?thesis by (simp add: outcome_def after_next_def)
    next
      case False
      then have "w = ?w" "g = finishPhysicalTurn (gs_turnID (strm s)) (op s)"
        "st = (strm s)\<lparr>gs_current := None\<rparr>" "x = AwaitContinuation ?ev"
        using fin assms(3) by (auto simp: goalstream_event_def Let_def)
      then show ?thesis using assms(1,2) u lev
        by (auto simp: ginv_def phase_ok_def stream_ok_def pend_ok_def after_next_def outcome_def)
    qed
  qed
qed

lemma ginv_end:
  assumes "ginv s" "phase s = Awaiting ev" "res = Inr None \<or> (\<exists>e. res = Inl e)"
    "goalstream_continue r unreg_goal ev res (strm s) (calls s) = (w, st, x)"
  shows "ginv (s\<lparr>strm := st, calls := w, phase := after_next x, out := out s @ outcome x\<rparr>)"
proof -
  obtain st0 y where c: "GoalHandle_Close unreg_goal st0 (calls s) = (w, st)" and x: "x = Return y"
    and y: "y = Inr ev \<or> (\<exists>e. y = Inl e)" and st0: "gs_closed st0 = gs_closed (strm s)"
      "gs_turnID st0 = gs_turnID (strm s)" "gs_current st0 = gs_current (strm s)"
    using assms(3,4)
    by (auto simp: goalstream_continue_def split: prod.splits)
  have "goal_unregs (calls s) = (if gs_closed st0 then 1 else 0)" using assms(1) st0 by (simp add: ginv_def)
  from GoalHandle_Close_cases [OF c this] ginv_return [OF assms(1), of st w "op s" y] assms(1,2) x y st0
  show ?thesis by (auto simp: outcome_def after_next_def ginv_def phase_ok_def)
qed

lemma ginv_decide:
  assumes "ginv s" "phase s = Awaiting ev" "continuation_check (gs_turnID (strm s)) (op s) = Continue t"
  shows "ginv (s\<lparr>phase := Popping ev t\<rparr>)"
  using assms by (auto simp: ginv_def phase_ok_def stream_ok_def continuation_check_def Let_def
      split: option.splits if_splits list.splits)

lemma ginv_popped:
  assumes "ginv s" "phase s = Popping ev t"
    "goalstream_continue (reg err) unreg_goal ev (Inr (Some t)) (strm s) (calls s) = (w, st, Again)"
    "goalstream_open (op s) st = Some st'"
  shows "ginv (s\<lparr>op := continuation_pop t (op s), strm := st', calls := w, phase := Reading,
      streamed := streamed s @ [gs_turnID st']\<rparr>)"
proof -
  obtain ts where ts: "pendingTurns (op s) = t # ts" "gs_current (strm s) = None"
    using assms(1,2) by (auto simp: ginv_def phase_ok_def)
  then have t: "t \<noteq> ''''" using assms(1) by (auto simp: ginv_def pend_ok_def)
  have st: "st = (strm s)\<lparr>gs_turnID := t\<rparr>" "w = calls s @ [RegTurn t]"
    using assms(3) by (auto simp: goalstream_continue_def split: option.splits prod.splits)
  have st': "gs_turnID st' = t" "gs_current st' \<noteq> None" "gs_closed st' = gs_closed (strm s)"
    using assms(4) st ts t by (auto simp: goalstream_open_def Let_def)
  show ?thesis using assms(1,2) ts st st' t
    by (auto simp: ginv_def phase_ok_def stream_ok_def pend_ok_def continuation_pop_def)
qed

lemma ginv_pop_error:
  assumes "ginv s" "phase s = Popping ev t"
    "goalstream_continue (reg err) unreg_goal ev (Inr (Some t)) (strm s) (calls s) = (w, st, x)" "x \<noteq> Again"
  shows "ginv (s\<lparr>op := continuation_pop t (op s), strm := st, calls := w, phase := Idle, out := out s @ outcome x\<rparr>)"
proof -
  obtain e where c: "GoalHandle_Close unreg_goal (strm s) (calls s @ [RegTurn t]) = (w, st)" "x = Return (Inl e)"
    using assms(3,4) by (auto simp: goalstream_continue_def split: option.splits prod.splits)
  have u: "goal_unregs (calls s @ [RegTurn t]) = (if gs_closed (strm s) then 1 else 0)"
    using assms(1) by (simp add: ginv_def)
  have p: "pend_ok (continuation_pop t (op s))" "logicalTurnID (continuation_pop t (op s)) = logicalTurnID (op s)"
    using assms(1) by (auto simp: ginv_def pend_ok_def continuation_pop_def split: list.splits)
  have "gs_current (strm s) = None" using assms(1,2) by (simp add: ginv_def phase_ok_def)
  with GoalHandle_Close_cases [OF c(1) u] ginv_return [OF assms(1), of st w "continuation_pop t (op s)" "Inl e"] assms(2) p c
  show ?thesis by (simp add: outcome_def)
qed

lemma grows_cancel:
  "cancel_interrupt (\<lambda>i w. (w @ [Interrupt i], err)) mismatch g w = (w', g') \<Longrightarrow>
    grows [] g g' \<and> goal_unregs w' = goal_unregs w"
  by (auto simp: cancel_interrupt_def Let_def intro!: grows_same split: if_splits option.splits prod.splits)

lemma ginv_step: "gstep s s' \<Longrightarrow> ginv s \<Longrightarrow> ginv s'"
proof (induction rule: gstep.induct)
  case (observe err x s w g)
  then show ?case using ginv_op [OF observe.prems grows_routeLoop [OF observe.hyps], of w] routeLoop_calls [OF observe.hyps]
    by auto
next
  case (observe_stop err x s w g)
  then show ?case
    using ginv_op [OF observe_stop.prems grows_routeLoop [OF observe_stop.hyps], of w] routeLoop_calls [OF observe_stop.hyps]
    by auto
next
  case (cancel err mismatch s w g)
  then show ?case using grows_cancel [OF cancel.hyps] ginv_op [OF cancel.prems, of "[]" g w] by simp
next
  case (started s t)
  then show ?case
    by (auto simp: ginv_def phase_ok_def stream_ok_def start_check_def split: option.splits if_splits)
qed (blast intro: ginv_next ginv_eof ginv_error ginv_event ginv_decide ginv_end ginv_popped ginv_pop_error)+

lemma greach_ginv: "greach t s \<Longrightarrow> ginv s"
proof (induction rule: greach.induct)
  case start
  show ?case
    by (simp add: init_goal_def ginv_def pend_ok_def phase_ok_def stream_ok_def newGoalOperation_def new_GoalStream_def)
qed (rule ginv_step)

section \<open>Executable runs\<close>

text \<open>Drivers that take one step of the system when it is enabled.\<close>

definition do_observe :: "raw \<Rightarrow> gsys \<Rightarrow> gsys" where
  "do_observe r s = (case routeLoop_step (reg None) (Inr r) (op s) (calls s) of
     (w, g, go) \<Rightarrow> if go then s\<lparr>op := g, calls := w, noted := noted s @ noted_by (Inr r)\<rparr> else s)"

definition do_start :: "gsys \<Rightarrow> gsys" where
  "do_start s = (case phase s of
     Starting \<Rightarrow> (case start_check (op s) of Some (Inr t) \<Rightarrow> s\<lparr>phase := Idle\<rparr> | _ \<Rightarrow> s)
   | _ \<Rightarrow> s)"

definition do_next :: "gsys \<Rightarrow> gsys" where
  "do_next s = (case phase s of
     Idle \<Rightarrow> (case goalstream_top unreg_goal (op s) (strm s) (calls s) of
         (w, st, None) \<Rightarrow> s\<lparr>strm := st, calls := w, phase := Reading,
            streamed := (if gs_current (strm s) = None then streamed s @ [gs_turnID st] else streamed s)\<rparr>
       | (w, st, Some e) \<Rightarrow> s)
   | _ \<Rightarrow> s)"

definition do_event :: "ThreadEvent \<Rightarrow> gsys \<Rightarrow> gsys" where
  "do_event ev s = (case phase s of
     Reading \<Rightarrow> (case goalstream_event unreg_turn unreg_goal ev (op s) (strm s) (calls s) of
        (w, g, st, x) \<Rightarrow> s\<lparr>op := g, strm := st, calls := w, phase := after_next x, out := out s @ outcome x\<rparr>)
   | _ \<Rightarrow> s)"

definition do_decide :: "gsys \<Rightarrow> gsys" where
  "do_decide s = (case phase s of
     Awaiting ev \<Rightarrow> (case continuation_check (gs_turnID (strm s)) (op s) of
         Continue t \<Rightarrow> s\<lparr>phase := Popping ev t\<rparr>
       | _ \<Rightarrow> s)
   | _ \<Rightarrow> s)"

definition do_pop :: "gsys \<Rightarrow> gsys" where
  "do_pop s = (case phase s of
     Popping ev t \<Rightarrow> (case goalstream_continue (reg None) unreg_goal ev (Inr (Some t)) (strm s) (calls s) of
         (w, st, Again) \<Rightarrow> (case goalstream_open (op s) st of
            Some st' \<Rightarrow> s\<lparr>op := continuation_pop t (op s), strm := st', calls := w, phase := Reading,
               streamed := streamed s @ [gs_turnID st']\<rparr>
          | None \<Rightarrow> s)
       | _ \<Rightarrow> s)
   | _ \<Rightarrow> s)"

lemma greach_do:
  assumes "greach t s"
  shows "greach t (do_observe r s)" "greach t (do_start s)" "greach t (do_next s)" "greach t (do_event ev s)"
    "greach t (do_decide s)" "greach t (do_pop s)"
proof -
  show "greach t (do_observe r s)" using assms
    by (auto simp: do_observe_def intro: greach.step gstep.observe split: prod.splits)
  show "greach t (do_start s)" using assms
    by (auto simp: do_start_def intro: greach.step gstep.started split: phase.splits option.splits sum.splits)
  show "greach t (do_next s)" using greach.step [OF assms gstep.call_next] assms
    by (auto simp: do_next_def split: phase.splits option.splits prod.splits)
  show "greach t (do_event ev s)" using assms
    by (auto simp: do_event_def intro: greach.step gstep.read_event split: phase.splits prod.splits)
  show "greach t (do_decide s)" using assms
    by (auto simp: do_decide_def intro: greach.step gstep.decide_continue split: phase.splits decision.splits)
  show "greach t (do_pop s)" using greach.step [OF assms gstep.popped] assms
    by (auto simp: do_pop_def split: phase.splits prod.splits goal_next.splits option.splits)
qed

definition goal_note :: "string \<Rightarrow> json \<Rightarrow> raw" where
  "goal_note m p = Some (JObj [(''method'', JStr m), (''params'', p)])"

definition started_note :: "string \<Rightarrow> raw" where
  "started_note t = goal_note ''turn/started'' (JObj [(''turn'', JObj [(''id'', JStr t)])])"

definition complete_note :: "string \<Rightarrow> raw" where
  "complete_note t = goal_note ''thread/goal/updated''
     (JObj [(''turnId'', JStr t), (''goal'', JObj [(''status'', JStr ''complete'')])])"

definition turn_done :: "string \<Rightarrow> ThreadEvent" where
  "turn_done t = base_event ''turn.completed'' ''turn/completed'' ''th'' t None"

lemma split_goal_note: "m \<noteq> '''' \<Longrightarrow> splitNotification (goal_note m p) = Inr (m, Some p)"
  by (simp add: splitNotification_def goal_note_def struct_members_def char_upper_def)

lemma note_payloads:
  "turn_payload_id (Some (JObj [(''turn'', JObj [(''id'', JStr t)])])) = Some t"
  "notificationTurnIDLocal (Some (JObj [(''turn'', JObj [(''id'', JStr t)])])) = t"
  "goal_updated_payload (Some (JObj [(''turnId'', JStr t), (''goal'', JObj [(''status'', JStr st)])])) = Some (t, st)"
  "notificationGoalTurnID (Some (JObj [(''turnId'', JStr t), (''goal'', JObj [(''status'', JStr st)])])) = t"
proof -
  have f: "foldName ''turn'' = ''TURN''" "foldName ''id'' = ''ID''" "foldName ''turnId'' = ''TURNID''"
    "foldName ''goal'' = ''GOAL''" "foldName ''status'' = ''STATUS''" by code_simp+
  show "turn_payload_id (Some (JObj [(''turn'', JObj [(''id'', JStr t)])])) = Some t"
    "notificationTurnIDLocal (Some (JObj [(''turn'', JObj [(''id'', JStr t)])])) = t"
    "goal_updated_payload (Some (JObj [(''turnId'', JStr t), (''goal'', JObj [(''status'', JStr st)])])) = Some (t, st)"
    "notificationGoalTurnID (Some (JObj [(''turnId'', JStr t), (''goal'', JObj [(''status'', JStr st)])])) = t"
    by (simp_all add: turn_payload_id_def notificationTurnIDLocal_def goal_updated_payload_def
        notificationGoalTurnID_def struct_members_def f)
qed

lemmas goal_exec = started_note_def complete_note_def split_goal_note note_payloads do_observe_def do_start_def
  do_next_def do_event_def do_decide_def do_pop_def routeLoop_step_def goalRouteTurnID_def noted_by_def noted_id_def
  observeGoalNotification_def observe_turn_started_def observe_goal_updated_def noteTurnID_def notify_def
  start_check_def goalstream_top_def goalstream_open_def goalstream_event_def goalstream_continue_def
  rewriteLogicalGoalEvent_def turn_done_def base_event_def zero_ThreadEvent_def finishPhysicalTurn_def
  continuation_check_def continuation_pop_def after_next_def outcome_def GoalHandle_Close_def TurnStream_Close_def
  init_goal_def newGoalOperation_def new_GoalStream_def goalTerminal_def Let_def

text \<open>One goal of two turns that is reported complete without naming a turn.\<close>

definition two_turns :: gsys where
  "two_turns = do_event (turn_done ''T2'') (do_observe (complete_note '''') (do_pop (do_decide (do_event (turn_done ''T1'')
     (do_next (do_observe (started_note ''T2'') (do_start (do_observe (started_note ''T1'') (init_goal ''th'')))))))))"

text \<open>The same goal, its completion reported by a notification that names the turn it happened in.\<close>

definition two_turns_named :: gsys where
  "two_turns_named = do_event (turn_done ''T2'') (do_observe (complete_note ''T2'') (do_pop (do_decide (do_event (turn_done ''T1'')
     (do_next (do_observe (started_note ''T2'') (do_start (do_observe (started_note ''T1'') (init_goal ''th'')))))))))"

lemma greach_two_turns: "greach ''th'' two_turns" "greach ''th'' two_turns_named"
  unfolding two_turns_def two_turns_named_def by (intro greach_do greach.start)+

section \<open>Properties\<close>



text \<open>C24: A goal looks like one turn to its consumer: every event it hands out, of whichever
  physical turn, carries the identifier of the goal's first turn, in the event and in its turn
  state; that identifier is the first turn streamed and never changes.\<close>
theorem goal_events_logical:
  assumes "greach t s" "Inr ev \<in> set (out s)"
  shows "ev_TurnID ev = logicalTurnID (op s) \<and> (case ev_Turn ev of None \<Rightarrow> True | Some st \<Rightarrow> ts_ID st = logicalTurnID (op s))"
  using greach_ginv [OF assms(1)] assms(2) by (auto simp: ginv_def logical_event_def split: option.splits)

definition ended_two_turns :: gsys where
  "ended_two_turns = do_event ((turn_done ''T2'')\<lparr>ev_Type := ''turn.failed''\<rparr>) (do_pop (do_decide (do_event (turn_done ''T1'')
     (do_next (do_observe (started_note ''T2'') (do_start (do_observe (started_note ''T1'') (init_goal ''th''))))))))"

theorem goal_events_logical_witness:
  "out ended_two_turns = [Inr ((turn_done ''T1'')\<lparr>ev_Type := ''turn.failed''\<rparr>)] \<and>
   logicalTurnID (op ended_two_turns) = ''T1''"
proof -
  have r: "greach ''th'' ended_two_turns" unfolding ended_two_turns_def by (intro greach_do greach.start)
  have o: "out ended_two_turns = [Inr ((turn_done ''T1'')\<lparr>ev_Type := ''turn.failed''\<rparr>)]"
    by (simp add: ended_two_turns_def goal_exec)
  have "ev_TurnID ((turn_done ''T1'')\<lparr>ev_Type := ''turn.failed''\<rparr>) = logicalTurnID (op ended_two_turns)"
    using goal_events_logical [OF r] o by simp
  then show ?thesis using o by (simp add: turn_done_def base_event_def)
qed



lemma check_stuck:
  "pendingTurns g = t # ts \<Longrightarrow> t \<noteq> '''' \<Longrightarrow> continuation_check t g \<in> insert Wait (range Failed)"
  by (auto simp: continuation_check_def Let_def split: option.splits)

lemma observe_keeps_head:
  "pendingTurns g = t # ts \<Longrightarrow> \<exists>us. pendingTurns (fold (\<lambda>(m, p). observeGoalNotification m p) ns g) = t # us"
proof (induction ns arbitrary: g ts)
  case (Cons n ns)
  obtain m p where n: "n = (m, p)" by (cases n)
  obtain us where "pendingTurns (observeGoalNotification m p g) = t # us"
    using grows_observe [of m p g] Cons.prems by (auto simp: grows_def)
  with Cons.IH [OF this] n show ?case by simp
qed simp

text \<open>C26: A continuation turn that is named again after the consumer took it blocks the goal: there
  is a run of two turns after which the goal is complete, no turn is running and nothing failed, and
  \<open>awaitContinuation\<close> neither ends nor goes on, whatever notifications follow; it can only fail.\<close>
theorem goal_continuation_hangs:
  "greach ''th'' two_turns_named \<and> phase two_turns_named = Awaiting (turn_done ''T1'') \<and>
   g_status (op two_turns_named) = ''complete'' \<and> currentTurnID (op two_turns_named) = '''' \<and>
   g_failed (op two_turns_named) = None \<and>
   (\<forall>ns. continuation_check (gs_turnID (strm two_turns_named))
      (fold (\<lambda>(m, p). observeGoalNotification m p) ns (op two_turns_named)) \<in> insert Wait (range Failed))"
proof -
  have e: "phase two_turns_named = Awaiting (turn_done ''T1'')" "g_status (op two_turns_named) = ''complete''"
    "currentTurnID (op two_turns_named) = ''''" "g_failed (op two_turns_named) = None"
    "pendingTurns (op two_turns_named) = [''T2'']" "gs_turnID (strm two_turns_named) = ''T2''"
    by (simp_all add: two_turns_named_def goal_exec)
  have "continuation_check ''T2'' (fold (\<lambda>(m, p). observeGoalNotification m p) ns (op two_turns_named))
      \<in> insert Wait (range Failed)" for ns
    using observe_keeps_head [OF e(5), of ns] check_stuck by auto
  with e greach_two_turns(2) show ?thesis by simp
qed

end
