(* ===== verification/Sdk_Errors.thy ===== *)
theory Sdk_Errors
  imports Go_Errors Complex_Main
begin

text \<open>
  \<open>errors.go\<close>, \<open>retry.go\<close> and the error functions of \<open>client.go\<close>: how a JSON-RPC error is
  classified, which errors are retried and how often, how the transport's errors become the
  public ones, and how the active turn is read from a mismatch message.
\<close>

section \<open>Classification\<close>

definition containsRetryLimit :: "string \<Rightarrow> bool" where
  "containsRetryLimit msg = (let m = toLower msg in
     str_contains m ''retry limit'' \<or> str_contains m ''too many failed attempts'')"

text \<open>
  An object is read into a Go map: of a repeated key only the last value is there to be searched.
\<close>

fun valueContainsServerOverloaded :: "json \<Rightarrow> bool"
and anyContainsServerOverloaded :: "json list \<Rightarrow> bool"
and memberContainsServerOverloaded :: "members \<Rightarrow> bool" where
  "valueContainsServerOverloaded (JStr s) = equalFold s ''server_overloaded''"
| "valueContainsServerOverloaded (JArr vs) = anyContainsServerOverloaded vs"
| "valueContainsServerOverloaded (JObj ms) = memberContainsServerOverloaded ms"
| "valueContainsServerOverloaded JNull = False"
| "valueContainsServerOverloaded (JBool b) = False"
| "valueContainsServerOverloaded (JNum n) = False"
| "anyContainsServerOverloaded [] = False"
| "anyContainsServerOverloaded (v # vs) = (valueContainsServerOverloaded v \<or> anyContainsServerOverloaded vs)"
| "memberContainsServerOverloaded [] = False"
| "memberContainsServerOverloaded ((k, v) # ms) =
     (k \<notin> fst ` set ms \<and> valueContainsServerOverloaded v \<or> memberContainsServerOverloaded ms)"

definition containsServerOverloaded :: "raw \<Rightarrow> bool" where
  "containsServerOverloaded data = (case data of
     None \<Rightarrow> False
   | Some v \<Rightarrow> v \<noteq> JNull \<and> valueContainsServerOverloaded v)"

definition MapRPCError :: "int \<Rightarrow> string \<Rightarrow> raw \<Rightarrow> go_error" where
  "MapRPCError code msg data =
    (let e = \<lparr>Code = code, Message = msg, Data = data\<rparr>
     in if code = - 32700 then RPC ParseError e
        else if code = - 32600 then RPC InvalidRequestError e
        else if code = - 32601 then RPC MethodNotFoundError e
        else if code = - 32602 then RPC InvalidParamsError e
        else if code = - 32603 then RPC InternalRPCError e
        else if - 32099 \<le> code \<and> code \<le> - 32000 then
          (if containsRetryLimit msg then RPC RetryLimitExceededError e
           else if containsServerOverloaded data then RPC ServerBusyError e
           else RPC ServerRPCError e)
        else RPC PlainRPC e)"

definition IsRetryable :: "go_error \<Rightarrow> bool" where
  "IsRetryable err =
    (as_rpc ServerBusyError err \<noteq> None \<or> as_rpc RetryLimitExceededError err \<noteq> None \<or>
     (case as_rpc PlainRPC err of Some e \<Rightarrow> containsServerOverloaded (Data e) | None \<Rightarrow> False))"

section \<open>Retry\<close>

text \<open>
  Durations are \<open>int64\<close> nanoseconds. The random source and the floating-point jitter are the
  parameter \<open>jittered\<close>, which gives the wait from the capped delay, the uncapped delay and the
  ratio. The operation, the wait and the context act on a world \<open>'w\<close>; that none of the four
  functions is nil is the typing of the model.
\<close>

record RetryOptions =
  MaxAttempts :: int
  InitialDelay :: int
  MaxDelay :: int
  JitterRatio :: rat

definition DefaultRetryOptions :: RetryOptions where
  "DefaultRetryOptions = \<lparr>MaxAttempts = 3, InitialDelay = 250000000, MaxDelay = 2000000000,
     JitterRatio = 1 / 5\<rparr>"

definition wrap64 :: "int \<Rightarrow> int" where
  "wrap64 x = (x + 2 ^ 63) mod 2 ^ 64 - 2 ^ 63"

function retry_loop ::
  "('w \<Rightarrow> go_error option) \<Rightarrow> ('w \<Rightarrow> 'w \<times> (go_error + 'a)) \<Rightarrow> (int \<Rightarrow> 'w \<Rightarrow> 'w \<times> go_error option) \<Rightarrow>
   (int \<Rightarrow> int \<Rightarrow> rat \<Rightarrow> 'w \<Rightarrow> 'w \<times> int) \<Rightarrow> RetryOptions \<Rightarrow> int \<Rightarrow> int \<Rightarrow> 'w \<Rightarrow> 'w \<times> (go_error + 'a)" where
  "retry_loop ctxErr f wait jittered opts attempt delay w =
    (if MaxAttempts opts < attempt then (w, Inl (Text ''codex: retry loop exhausted''))
     else case ctxErr w of
         Some e \<Rightarrow> (w, Inl e)
       | None \<Rightarrow>
          (case f w of
             (w1, Inr v) \<Rightarrow> (w1, Inr v)
           | (w1, Inl e) \<Rightarrow>
              if attempt = MaxAttempts opts \<or> \<not> IsRetryable e then (w1, Inl e)
              else
               (case jittered (min delay (MaxDelay opts)) delay (JitterRatio opts) w1 of (w2, waitFor) \<Rightarrow>
                  (case (if waitFor > 0 then wait waitFor w2 else (w2, None)) of
                     (w3, Some e') \<Rightarrow> (w3, Inl e')
                   | (w3, None) \<Rightarrow>
                       retry_loop ctxErr f wait jittered opts (attempt + 1)
                         (min (MaxDelay opts) (wrap64 (delay * 2))) w3))))"
  by pat_completeness auto
termination
  by (relation "measure (\<lambda>(ctxErr, f, wait, jittered, opts, attempt, delay, w). nat (MaxAttempts opts + 1 - attempt))") auto

declare retry_loop.simps [simp del]

definition retryOnOverload ::
  "('w \<Rightarrow> go_error option) \<Rightarrow> ('w \<Rightarrow> 'w \<times> (go_error + 'a)) \<Rightarrow> (int \<Rightarrow> 'w \<Rightarrow> 'w \<times> go_error option) \<Rightarrow>
   (int \<Rightarrow> int \<Rightarrow> rat \<Rightarrow> 'w \<Rightarrow> 'w \<times> int) \<Rightarrow> RetryOptions \<Rightarrow> 'w \<Rightarrow> 'w \<times> (go_error + 'a)" where
  "retryOnOverload ctxErr f wait jittered opts w =
    (if MaxAttempts opts < 1 then (w, Inl (Text ''codex: max attempts must be at least one''))
     else if InitialDelay opts < 0 \<or> MaxDelay opts < 0
     then (w, Inl (Text ''codex: retry delays must not be negative''))
     else if JitterRatio opts < 0 then (w, Inl (Text ''codex: jitter ratio must not be negative''))
     else retry_loop ctxErr f wait jittered opts 1 (InitialDelay opts) w)"

section \<open>The transport's errors\<close>

definition translateAppServerError :: "go_error option \<Rightarrow> go_error option" where
  "translateAppServerError err = (case err of
     None \<Rightarrow> None
   | Some e \<Rightarrow>
      if str_contains (err_text e) (err_text AppErrTransportClosed)
      then Some (Wrapped (err_text ErrTransportClosed @ '': '' @ err_text e) [ErrTransportClosed])
      else if str_contains (err_text e) (err_text AppErrLimitExceeded)
      then Some (Wrapped (err_text ErrLimitExceeded @ '': '' @ err_text e) [ErrLimitExceeded])
      else (case as_app_rpc e of
          Some r \<Rightarrow> Some (RPC PlainRPC r)
        | None \<Rightarrow> Some e))"

section \<open>The active turn in a mismatch message\<close>

definition trim_cut :: "char list \<Rightarrow> string \<Rightarrow> string" where
  "trim_cut cs s = rev (dropWhile (\<lambda>c. c \<in> set cs) (rev (dropWhile (\<lambda>c. c \<in> set cs) s)))"

definition mismatch_turn :: "string \<Rightarrow> string" where
  "mismatch_turn msg =
    (if \<not> hasPrefix msg ''expected active turn id'' then ''''
     else case str_last_index msg ''`'' of
         None \<Rightarrow>
          (case str_last_index msg '' but found '' of
             None \<Rightarrow> ''''
           | Some idx \<Rightarrow> trim_cut (CHR 34 # [CHR 96, CHR 39])
               (trimSpace (drop (idx + length '' but found '') msg)))
       | Some lastTick \<Rightarrow>
          (case str_last_index (take lastTick msg) ''`'' of
             None \<Rightarrow> ''''
           | Some prevTick \<Rightarrow>
               if lastTick \<le> prevTick + 1 then ''''
               else take (lastTick - (prevTick + 1)) (drop (prevTick + 1) msg)))"

definition parseTurnIDMismatch :: "go_error \<Rightarrow> string" where
  "parseTurnIDMismatch err =
    (case as_rpc InvalidRequestError err of
       Some e \<Rightarrow> mismatch_turn (Message e)
     | None \<Rightarrow>
        (case as_rpc PlainRPC err of Some e \<Rightarrow> mismatch_turn (Message e) | None \<Rightarrow> ''''))"

section \<open>Properties\<close>

lemma retry_loop_script:
  fixes xs :: "(go_error + 'a) list"
  assumes "1 \<le> attempt" "attempt \<le> MaxAttempts opts" "nat (MaxAttempts opts + 1 - attempt) = length tries"
    "xs = tries @ rest"
  shows "retry_loop (\<lambda>_. None) (\<lambda>w. (tl w, hd w)) (\<lambda>_ w. (w, None)) (\<lambda>a b c w. (w, jf a b c)) opts attempt delay xs =
    (let n = length (takeWhile (\<lambda>x. case x of Inl e \<Rightarrow> IsRetryable e | Inr v \<Rightarrow> False) tries)
     in if n < length tries then (drop (Suc n) xs, tries ! n) else (rest, last tries))"
  using assms
proof (induction tries arbitrary: attempt delay xs)
  case Nil
  then show ?case by simp
next
  case (Cons x tries)
  note unf = retry_loop.simps [of _ _ _ _ opts attempt delay]
  show ?case
  proof (cases "\<exists>e. x = Inl e \<and> IsRetryable e")
    case False
    then show ?thesis using Cons.prems by (cases x) (auto simp: unf)
  next
    case True
    then obtain e where e: "x = Inl e" "IsRetryable e" by blast
    show ?thesis
    proof (cases "attempt = MaxAttempts opts")
      case True
      then have "tries = []" using Cons.prems by simp
      then show ?thesis using e True Cons.prems by (subst unf) simp
    next
      case False
      then have a: "1 \<le> attempt + 1" "attempt + 1 \<le> MaxAttempts opts"
        "nat (MaxAttempts opts + 1 - (attempt + 1)) = length tries"
        using Cons.prems by auto
      then have "tries \<noteq> []" by auto
      with Cons.IH [OF a, of "tries @ rest" "min (MaxDelay opts) (wrap64 (delay * 2))"] False e Cons.prems show ?thesis
        by (auto simp: unf Let_def)
    qed
  qed
qed

text \<open>C32: Retrying is bounded and stops at the first result that is not a transient overload. On an
  operation whose successive outcomes are \<open>tries @ rest\<close>, with \<open>MaxAttempts\<close> outcomes in \<open>tries\<close>,
  \<open>retryOnOverload\<close> returns the first outcome that is a success or a non-retryable error, and the
  last one when all attempts are used; it calls the operation exactly that many times.\<close>
theorem retry_bounded:
  fixes tries :: "(go_error + 'a) list"
  assumes "1 \<le> MaxAttempts opts" "length tries = nat (MaxAttempts opts)" "0 \<le> InitialDelay opts"
    "0 \<le> MaxDelay opts" "0 \<le> JitterRatio opts"
  shows "retryOnOverload (\<lambda>_. None) (\<lambda>w. (tl w, hd w)) (\<lambda>_ w. (w, None)) (\<lambda>a b c w. (w, jf a b c)) opts (tries @ rest) =
    (let n = length (takeWhile (\<lambda>x. case x of Inl e \<Rightarrow> IsRetryable e | Inr v \<Rightarrow> False) tries)
     in if n < length tries then (drop (Suc n) (tries @ rest), tries ! n) else (rest, last tries))"
  using assms retry_loop_script [of 1 opts tries "tries @ rest" rest jf "InitialDelay opts"]
  by (simp add: retryOnOverload_def)

theorem retry_bounded_witness:
  "retryOnOverload (\<lambda>_. None) (\<lambda>w. (tl w, hd w)) (\<lambda>_ w. (w, None)) (\<lambda>a b c w. (w, a)) DefaultRetryOptions
     [Inl (RPC ServerBusyError \<lparr>Code = - 32000, Message = ''busy'', Data = None\<rparr>), Inr (7::nat), Inr 8, Inr 9] =
   ([Inr 8, Inr 9], Inr 7)"
  using retry_bounded [of DefaultRetryOptions
      "[Inl (RPC ServerBusyError \<lparr>Code = - 32000, Message = ''busy'', Data = None\<rparr>), Inr (7::nat), Inr 8]"
      "\<lambda>a b c. a" "[Inr 9]"]
  by (simp add: DefaultRetryOptions_def IsRetryable_def)

text \<open>Which errors are retried: an error built from a JSON-RPC error is retryable exactly when its
  data mentions \<open>server_overloaded\<close>, or its code is in the server range and its message reports a
  retry limit.\<close>
theorem mapped_retryable:
  "IsRetryable (MapRPCError code msg data) \<longleftrightarrow>
     containsServerOverloaded data \<or> (- 32099 \<le> code \<and> code \<le> - 32000 \<and> containsRetryLimit msg)"
  by (auto simp: IsRetryable_def MapRPCError_def Let_def)

text \<open>The transport does not classify: an error of the server that is not about the transport
  reaches the caller as a plain \<open>RPCError\<close> with its code, message and data, retryable only for its
  data. So a retry-limit error of the server, retryable when classified by \<open>MapRPCError\<close>, is not
  retryable when a request returns it.\<close>
theorem transport_plain_rpc:
  assumes "\<not> str_contains (app_rpc_text e) ''appserver: transport closed''"
    "\<not> str_contains (app_rpc_text e) ''appserver: limit exceeded''"
  shows "translateAppServerError (Some (AppRPC e)) = Some (RPC PlainRPC e) \<and>
    (IsRetryable (RPC PlainRPC e) \<longleftrightarrow> containsServerOverloaded (Data e))"
  using assms by (simp add: translateAppServerError_def sentinel_defs IsRetryable_def)

theorem transport_plain_rpc_witness:
  "\<exists>err. translateAppServerError (Some (AppRPC \<lparr>Code = - 32002, Message = ''retry limit'', Data = None\<rparr>)) = Some err \<and>
     \<not> IsRetryable err \<and> IsRetryable (MapRPCError (- 32002) ''retry limit'' None)"
proof -
  let ?e = "\<lparr>Code = - 32002, Message = ''retry limit'', Data = None\<rparr> :: rpc"
  have "\<not> str_contains (app_rpc_text ?e) ''appserver: transport closed''"
    "\<not> str_contains (app_rpc_text ?e) ''appserver: limit exceeded''"
    by (simp_all add: app_rpc_text_def str_contains_def show_int_def show_nat.simps digit_char_def)
  moreover have "containsRetryLimit ''retry limit''"
    by (simp add: containsRetryLimit_def str_contains_def char_lower_def)
  ultimately show ?thesis using transport_plain_rpc [of ?e]
    by (simp add: IsRetryable_def MapRPCError_def containsServerOverloaded_def)
qed

subsection \<open>Mismatch messages\<close>

lemma str_last_index_none:
  "c \<notin> set s \<Longrightarrow> str_last_index s [c] = None"
  by (induction s) auto

lemma str_last_index_char:
  "c \<notin> set t \<Longrightarrow> str_last_index (s @ c # t) [c] = Some (length s)"
  by (induction s) (auto simp: str_last_index_none)

lemma mismatch_turn_ticks:
  assumes "CHR ''`'' \<notin> set b" "b \<noteq> ''''" "hasPrefix p ''expected active turn id''"
  shows "mismatch_turn (p @ CHR ''`'' # b @ [CHR ''`'']) = b"
proof -
  let ?m = "p @ CHR ''`'' # b @ [CHR ''`'']"
  have l: "str_last_index ?m ''`'' = Some (length (p @ CHR ''`'' # b))"
    using str_last_index_char [of "CHR ''`''" "[]" "p @ CHR ''`'' # b"] by simp
  have k: "str_last_index (take (length (p @ CHR ''`'' # b)) ?m) ''`'' = Some (length p)"
    using str_last_index_char [of "CHR ''`''" b p] assms(1) by simp
  have "hasPrefix ?m ''expected active turn id''" using assms(3) by (auto simp: hasPrefix_iff)
  then show ?thesis unfolding mismatch_turn_def l option.case k using assms(2) by simp
qed

text \<open>The turn the server names is recovered: for every turn identifier without a back-quote, the
  message the server sends on a mismatch, with the identifiers in back-quotes, gives exactly the
  identifier of the turn that is active, whatever the expected one was; also through a typed
  \<open>InvalidRequestError\<close>.\<close>
theorem mismatch_turn_recovered:
  assumes "CHR ''`'' \<notin> set b" "b \<noteq> ''''"
  shows "parseTurnIDMismatch (RPC c \<lparr>Code = code,
     Message = ''expected active turn id `'' @ a @ ''` but found `'' @ b @ ''`'', Data = d\<rparr>) = b"
  using mismatch_turn_ticks [OF assms, of "''expected active turn id `'' @ a @ ''` but found ''"]
  by (simp add: parseTurnIDMismatch_def)

theorem mismatch_turn_recovered_witness:
  "parseTurnIDMismatch (RPC InvalidRequestError \<lparr>Code = - 32600,
     Message = ''expected active turn id `'' @ ''t1'' @ ''` but found `'' @ ''t2'' @ ''`'', Data = None\<rparr>) = ''t2''"
  by (rule mismatch_turn_recovered) simp_all

end
