(* ===== verification/Payload.thy ===== *)
theory Payload
  imports Turn "HOL-Library.List_Lexorder" "HOL-Library.Char_ord" "HOL-Library.Multiset"
begin

text \<open>
  What the SDK sends: \<open>inputs.go\<close>, the payloads of \<open>thread.go\<close>, \<open>turn_api.go\<close> and
  \<open>client.go\<close>, the option helpers of \<open>thread_api.go\<close> and \<open>options.go\<close>, and the command-line
  configuration and environment of \<open>config.go\<close> and \<open>client.go\<close>.
\<close>

section \<open>Go values of type \<open>any\<close>\<close>

text \<open>
  A finite float is its shortest decimal rendering, the one \<open>strconv.FormatFloat\<close> gives. Of a
  value of another kind only the kind is kept (\<open>GKind\<close>); \<open>GMapOther\<close> is a map whose keys are not
  strings, \<open>GNilPtr\<close> a nil pointer held in an interface.
\<close>

datatype gofloat = NaN | PosInf | NegInf | Finite string

datatype goval =
    GNil
  | GNilPtr
  | GPtr goval
  | GStr string
  | GBool bool
  | GInt int
  | GUint nat
  | GFloat gofloat
  | GNumber string
  | GSlice "goval list"
  | GMap "(string \<times> goval) list"
  | GMapOther
  | GKind string

type_synonym payload = "goval gomap"

text \<open>A nilable map; assigning to a nil map panics (\<open>None\<close>).\<close>

type_synonym nilmap = "goval gomap option"

definition cloneMap :: "nilmap \<Rightarrow> nilmap" where
  "cloneMap m = (case m of None \<Rightarrow> None | Some [] \<Rightarrow> None | Some (x # xs) \<Rightarrow> Some (x # xs))"

definition assign :: "string \<Rightarrow> goval \<Rightarrow> nilmap \<Rightarrow> nilmap option" where
  "assign k v m = (case m of None \<Rightarrow> None | Some ms \<Rightarrow> Some (Some (AList.update k v ms)))"

text \<open>\<open>if s != "" { payload[k] = s }\<close>.\<close>

definition put_str :: "string \<Rightarrow> string \<Rightarrow> payload \<Rightarrow> payload" where
  "put_str k s p = (if s \<noteq> '''' then AList.update k (GStr s) p else p)"

definition put_opt :: "string \<Rightarrow> goval option \<Rightarrow> payload \<Rightarrow> payload" where
  "put_opt k v p = (case v of Some x \<Rightarrow> AList.update k x p | None \<Rightarrow> p)"

definition isJSONObject :: "goval \<Rightarrow> bool" where
  "isJSONObject v = (case v of GMap _ \<Rightarrow> True | GMapOther \<Rightarrow> True | GKind k \<Rightarrow> k = ''struct'' | _ \<Rightarrow> False)"

section \<open>Inputs\<close>

record UserInput =
  ui_Type :: string
  ui_Text :: string
  ui_URL :: string
  ui_Name :: string
  ui_Path :: string

record Input =
  in_Text :: string
  in_Items :: "UserInput list"

definition zero_UserInput :: UserInput where
  "zero_UserInput = \<lparr>ui_Type = '''', ui_Text = '''', ui_URL = '''', ui_Name = '''', ui_Path = ''''\<rparr>"

definition DataURLImageInput :: "string \<Rightarrow> UserInput" where
  "DataURLImageInput url = zero_UserInput\<lparr>ui_Type := ''image'', ui_URL := url\<rparr>"

definition LocalImageInput :: "string \<Rightarrow> UserInput" where
  "LocalImageInput path = zero_UserInput\<lparr>ui_Type := ''local_image'', ui_Path := path\<rparr>"

definition SkillInput :: "string \<Rightarrow> string \<Rightarrow> UserInput" where
  "SkillInput name path = zero_UserInput\<lparr>ui_Type := ''skill'', ui_Name := name, ui_Path := path\<rparr>"

definition MentionInput :: "string \<Rightarrow> string \<Rightarrow> UserInput" where
  "MentionInput name path = zero_UserInput\<lparr>ui_Type := ''mention'', ui_Name := name, ui_Path := path\<rparr>"

definition TextInput :: "string \<Rightarrow> Input" where
  "TextInput text = \<lparr>in_Text = text, in_Items = []\<rparr>"

definition ItemsInput :: "UserInput list \<Rightarrow> Input" where
  "ItemsInput items = \<lparr>in_Text = '''', in_Items = items\<rparr>"

definition wire_item :: "UserInput \<Rightarrow> go_error + payload" where
  "wire_item item =
    (if ui_Type item = ''text'' then
       (if ui_Text item = '''' then Inl (Text ''codex: text input is empty'')
        else Inr [(''type'', GStr ''text''), (''text'', GStr (ui_Text item))])
     else if ui_Type item = ''image'' then
       (if \<not> hasPrefix (ui_URL item) ''data:'' then Inl (Text ''codex: image input must be a data url'')
        else Inr [(''type'', GStr ''image''), (''url'', GStr (ui_URL item))])
     else if ui_Type item = ''local_image'' then
       (if ui_Path item = '''' then Inl (Text ''codex: local image path is empty'')
        else Inr [(''type'', GStr ''localImage''), (''path'', GStr (ui_Path item))])
     else if ui_Type item = ''skill'' then
       (if ui_Name item = '''' \<or> ui_Path item = '''' then Inl (Text ''codex: skill input requires name and path'')
        else Inr [(''type'', GStr ''skill''), (''name'', GStr (ui_Name item)), (''path'', GStr (ui_Path item))])
     else if ui_Type item = ''mention'' then
       (if ui_Name item = '''' \<or> ui_Path item = '''' then Inl (Text ''codex: mention input requires name and path'')
        else Inr [(''type'', GStr ''mention''), (''name'', GStr (ui_Name item)), (''path'', GStr (ui_Path item))])
     else Inl (Text ''codex: unsupported input type''))"

fun wire_items :: "UserInput list \<Rightarrow> go_error + payload list" where
  "wire_items [] = Inr []"
| "wire_items (i # is) = (case wire_item i of
     Inl e \<Rightarrow> Inl e
   | Inr w \<Rightarrow> (case wire_items is of Inl e \<Rightarrow> Inl e | Inr ws \<Rightarrow> Inr (w # ws)))"

definition normalizeAppServerInput :: "Input \<Rightarrow> go_error + payload list" where
  "normalizeAppServerInput inp =
    (if in_Items inp = [] then
       (if in_Text inp = '''' then Inl (Text ''codex: input is empty'')
        else Inr [[(''type'', GStr ''text''), (''text'', GStr (in_Text inp))]])
     else wire_items (in_Items inp))"

section \<open>Threads and turns\<close>

record ThreadOptions =
  Config :: nilmap
  ApprovalPreset :: "string option"
  Model :: string
  ModelProvider :: string
  SandboxMode :: string
  WorkingDirectory :: string
  SkipGitRepoCheck :: bool
  ModelReasoningEffort :: string
  NetworkAccessEnabled :: "bool option"
  WebSearchMode :: string
  WebSearchEnabled :: "bool option"
  ApprovalPolicy :: string
  AdditionalDirectories :: "string list"
  BaseInstructions :: string
  DeveloperInstructions :: string
  Ephemeral :: "bool option"
  Personality :: string
  ServiceName :: string
  ServiceTier :: string
  SessionStartSource :: string
  ThreadSource :: nilmap

definition zero_ThreadOptions :: ThreadOptions where
  "zero_ThreadOptions = \<lparr>Config = None, ApprovalPreset = None, Model = '''', ModelProvider = '''',
     SandboxMode = '''', WorkingDirectory = '''', SkipGitRepoCheck = False, ModelReasoningEffort = '''',
     NetworkAccessEnabled = None, WebSearchMode = '''', WebSearchEnabled = None, ApprovalPolicy = '''',
     AdditionalDirectories = [], BaseInstructions = '''', DeveloperInstructions = '''', Ephemeral = None,
     Personality = '''', ServiceName = '''', ServiceTier = '''', SessionStartSource = '''', ThreadSource = None\<rparr>"

definition resolveApprovalSettings :: "string option \<Rightarrow> string \<Rightarrow> bool \<Rightarrow> string \<times> string" where
  "resolveApprovalSettings preset legacy allowLegacy =
    (if preset = Some ''deny_all'' then (''never'', '''')
     else if preset = Some ''auto_review'' then (''on-request'', ''auto_review'')
     else if allowLegacy \<and> legacy \<noteq> '''' then (legacy, '''')
     else ('''', ''''))"

text \<open>A nil map in an interface is not a nil interface: \<open>cloneMap\<close> of an empty map is sent as nil.\<close>

definition map_value :: "nilmap \<Rightarrow> goval" where
  "map_value m = (case m of None \<Rightarrow> GNil | Some ms \<Rightarrow> GMap ms)"

definition thread_config :: "ThreadOptions \<Rightarrow> nilmap option" where
  "thread_config opts = do {
     c0 \<leftarrow> Some (cloneMap (Config opts));
     c1 \<leftarrow> (if ModelReasoningEffort opts \<noteq> ''''
            then assign ''model_reasoning_effort'' (GStr (ModelReasoningEffort opts)) c0 else Some c0);
     c2 \<leftarrow> (if SkipGitRepoCheck opts then assign ''skip_git_repo_check'' (GBool True) c1 else Some c1);
     c3 \<leftarrow> (case NetworkAccessEnabled opts of
              Some b \<Rightarrow> assign ''sandbox_workspace_write'' (GMap [(''network_access'', GBool b)]) c2
            | None \<Rightarrow> Some c2);
     c4 \<leftarrow> (if WebSearchMode opts \<noteq> '''' then assign ''web_search'' (GStr (WebSearchMode opts)) c3
            else case WebSearchEnabled opts of
                Some True \<Rightarrow> assign ''web_search'' (GStr ''live'') c3
              | Some False \<Rightarrow> assign ''web_search'' (GStr ''disabled'') c3
              | None \<Rightarrow> Some c3);
     if AdditionalDirectories opts \<noteq> []
     then assign ''additional_directories'' (GSlice (map GStr (AdditionalDirectories opts))) c4 else Some c4
   }"

definition thread_fields :: "ThreadOptions \<Rightarrow> payload" where
  "thread_fields opts =
    (let (approvalPolicy, reviewer) = resolveApprovalSettings (ApprovalPreset opts) (ApprovalPolicy opts) True;
         p1 = put_str ''model'' (Model opts) [];
         p2 = put_str ''modelProvider'' (ModelProvider opts) p1;
         p3 = put_str ''sandbox'' (SandboxMode opts) p2;
         p4 = put_str ''cwd'' (WorkingDirectory opts) p3;
         p5 = put_str ''baseInstructions'' (BaseInstructions opts) p4;
         p6 = put_str ''developerInstructions'' (DeveloperInstructions opts) p5;
         p7 = put_str ''personality'' (Personality opts) p6;
         p8 = put_str ''serviceName'' (ServiceName opts) p7;
         p9 = put_str ''serviceTier'' (ServiceTier opts) p8;
         p10 = put_str ''sessionStartSource'' (SessionStartSource opts) p9;
         p11 = (if ThreadSource opts \<noteq> None
                then AList.update ''threadSource'' (map_value (cloneMap (ThreadSource opts))) p10 else p10);
         p12 = put_opt ''ephemeral'' (map_option GBool (Ephemeral opts)) p11;
         p13 = put_str ''approvalPolicy'' approvalPolicy p12
     in put_str ''approvalsReviewer'' reviewer p13)"

text \<open>\<open>threadPayload\<close>; \<open>None\<close> is the panic of an assignment to the nil configuration map.\<close>

definition threadPayload :: "ThreadOptions \<Rightarrow> payload option" where
  "threadPayload opts = do {
     c \<leftarrow> thread_config opts;
     Some (case c of
       Some (x # xs) \<Rightarrow> AList.update ''config'' (GMap (x # xs)) (thread_fields opts)
     | _ \<Rightarrow> thread_fields opts)
   }"

record TurnOptions =
  OutputSchema :: goval
  to_ApprovalPreset :: "string option"
  to_ApprovalPolicy :: string
  to_Model :: string
  to_ReasoningEffort :: string
  to_WorkingDirectory :: string
  to_Personality :: string
  to_SandboxMode :: string
  to_ServiceTier :: string
  to_ReasoningSummary :: string

definition buildTurnPayload :: "string \<Rightarrow> Input \<Rightarrow> TurnOptions \<Rightarrow> go_error + payload" where
  "buildTurnPayload threadID inp opts =
    (case normalizeAppServerInput inp of
       Inl e \<Rightarrow> Inl e
     | Inr wire \<Rightarrow>
        (let (approvalPolicy, reviewer) = resolveApprovalSettings (to_ApprovalPreset opts) (to_ApprovalPolicy opts) True;
             p0 = [(''threadId'', GStr threadID), (''input'', GSlice (map GMap wire))];
             p1 = put_str ''approvalPolicy'' approvalPolicy p0;
             p2 = put_str ''approvalsReviewer'' reviewer p1;
             p3 = put_str ''model'' (to_Model opts) p2;
             p4 = put_str ''cwd'' (to_WorkingDirectory opts) p3;
             p5 = put_str ''reasoningEffort'' (to_ReasoningEffort opts) p4;
             p6 = put_str ''personality'' (to_Personality opts) p5;
             p7 = put_str ''sandboxPolicy'' (to_SandboxMode opts) p6;
             p8 = put_str ''serviceTier'' (to_ServiceTier opts) p7;
             p9 = put_str ''reasoningSummary'' (to_ReasoningSummary opts) p8
         in if OutputSchema opts = GNil then Inr p9
            else if \<not> isJSONObject (OutputSchema opts) then Inl (Text ''outputSchema must be a JSON object'')
            else Inr (AList.update ''outputSchema'' (OutputSchema opts) p9)))"

record ThreadListOptions =
  tl_Archived :: "bool option"
  tl_Cursor :: string
  tl_CWD :: "string list"
  tl_Limit :: int
  tl_ModelProviders :: "string list"
  tl_SearchTerm :: string
  tl_SortDirection :: string
  tl_SortKey :: string
  tl_SourceKinds :: "string list"
  tl_UseStateDBOnly :: "bool option"

definition put_list :: "string \<Rightarrow> string list \<Rightarrow> payload \<Rightarrow> payload" where
  "put_list k xs p = (if xs \<noteq> [] then AList.update k (GSlice (map GStr xs)) p else p)"

definition threadListPayload :: "ThreadListOptions \<Rightarrow> payload" where
  "threadListPayload opts =
    (let p1 = put_opt ''archived'' (map_option GBool (tl_Archived opts)) [];
         p2 = put_str ''cursor'' (tl_Cursor opts) p1;
         p3 = put_list ''cwd'' (tl_CWD opts) p2;
         p4 = (if tl_Limit opts > 0 then AList.update ''limit'' (GInt (tl_Limit opts)) p3 else p3);
         p5 = put_list ''modelProviders'' (tl_ModelProviders opts) p4;
         p6 = put_str ''searchTerm'' (tl_SearchTerm opts) p5;
         p7 = put_str ''sortDirection'' (tl_SortDirection opts) p6;
         p8 = put_str ''sortKey'' (tl_SortKey opts) p7;
         p9 = put_list ''sourceKinds'' (tl_SourceKinds opts) p8
     in put_opt ''useStateDbOnly'' (map_option GBool (tl_UseStateDBOnly opts)) p9)"

section \<open>Configuration flags\<close>

fun unwrapReflectValue :: "goval \<Rightarrow> goval option" where
  "unwrapReflectValue GNil = None"
| "unwrapReflectValue GNilPtr = None"
| "unwrapReflectValue (GPtr v) = unwrapReflectValue v"
| "unwrapReflectValue v = Some v"

definition formatTOMLFloat :: "gofloat \<Rightarrow> string" where
  "formatTOMLFloat f = (case f of NaN \<Rightarrow> ''nan'' | PosInf \<Rightarrow> ''inf'' | NegInf \<Rightarrow> ''-inf'' | Finite s \<Rightarrow> s)"

text \<open>The error for a nil value, the same text in both functions that report it.\<close>

definition nil_value :: go_error where
  "nil_value = Text ''nil values are not supported''"

lemma size_list_sort_key: "size_list f (sort_key g xs) = size_list f xs"
proof -
  have "size_list f ys = sum_list (map f ys) + length ys" for ys by (induction ys) auto
  moreover have "sum_list (map f (sort_key g xs)) = sum_list (map f xs)"
    by (metis mset_map mset_sort sum_mset_sum_list)
  ultimately show ?thesis by simp
qed

lemma unwrap_size: "unwrapReflectValue v = Some w \<Longrightarrow> size w \<le> size v"
  by (induction v rule: unwrapReflectValue.induct) auto

text \<open>
  Members are visited in the byte order of their keys; the recursion is on the size of the value,
  whatever the number of pointers around it.
\<close>

function encodeTOMLLiteral :: "goval \<Rightarrow> go_error + string"
and encode_list :: "goval list \<Rightarrow> go_error + string list"
and encode_members :: "(string \<times> goval) list \<Rightarrow> go_error + string list" where
  "encodeTOMLLiteral v =
    (case unwrapReflectValue v of
       None \<Rightarrow> Inl nil_value
     | Some w \<Rightarrow>
        (case w of
           GNumber n \<Rightarrow> Inr n
         | GStr s \<Rightarrow> Inr (json_string s)
         | GBool b \<Rightarrow> Inr (if b then ''true'' else ''false'')
         | GInt i \<Rightarrow> Inr (show_int i)
         | GUint n \<Rightarrow> Inr (show_nat n)
         | GFloat f \<Rightarrow> Inr (formatTOMLFloat f)
         | GSlice vs \<Rightarrow> (case encode_list vs of Inl e \<Rightarrow> Inl e | Inr ps \<Rightarrow> Inr (''['' @ str_join '', '' ps @ '']''))
         | GMapOther \<Rightarrow> Inl (Text ''map keys must be strings'')
         | GMap ms \<Rightarrow> (case encode_members (sort_key fst ms) of
              Inl e \<Rightarrow> Inl e | Inr ps \<Rightarrow> Inr (''{'' @ str_join '', '' ps @ ''}''))
         | GKind k \<Rightarrow> Inl (Text (''unsupported value type '' @ k))
         | _ \<Rightarrow> Inl nil_value))"
| "encode_list [] = Inr []"
| "encode_list (v # vs) = (case encodeTOMLLiteral v of
     Inl e \<Rightarrow> Inl e
   | Inr p \<Rightarrow> (case encode_list vs of Inl e \<Rightarrow> Inl e | Inr ps \<Rightarrow> Inr (p # ps)))"
| "encode_members [] = Inr []"
| "encode_members ((k, v) # ms) = (case encodeTOMLLiteral v of
     Inl e \<Rightarrow> Inl e
   | Inr p \<Rightarrow> (case encode_members ms of Inl e \<Rightarrow> Inl e | Inr ps \<Rightarrow> Inr ((k @ ''='' @ p) # ps)))"
  by pat_completeness auto
termination
  by (relation "measure (\<lambda>x. case x of Inl v \<Rightarrow> size v
       | Inr (Inl vs) \<Rightarrow> size_list size vs | Inr (Inr ms) \<Rightarrow> size_list (size_prod (\<lambda>_. 0) size) ms)")
    (auto dest!: unwrap_size simp: size_list_sort_key)

text \<open>\<open>fmt.Errorf("config %s: %w", path, err)\<close>.\<close>

definition config_error :: "string \<Rightarrow> go_error \<Rightarrow> go_error" where
  "config_error path e = Wrapped (''config '' @ path @ '': '' @ err_text e) [e]"

definition child_path :: "string \<Rightarrow> string \<Rightarrow> string" where
  "child_path path key = (if path \<noteq> '''' then path @ ''.'' @ key else key)"

function flattenConfigValue :: "string \<Rightarrow> goval \<Rightarrow> go_error + string list"
and flatten_members :: "string \<Rightarrow> (string \<times> goval) list \<Rightarrow> go_error + string list" where
  "flattenConfigValue path v =
    (case unwrapReflectValue v of
       None \<Rightarrow> Inl (Text (''config '' @ path @ '': nil values are not supported''))
     | Some w \<Rightarrow>
        (case w of
           GMap ms \<Rightarrow> flatten_members path (sort_key fst ms)
         | GMapOther \<Rightarrow> Inl (Text (''config '' @ path @ '': map keys must be strings''))
         | _ \<Rightarrow> (case encodeTOMLLiteral w of
              Inl e \<Rightarrow> Inl (config_error path e)
            | Inr literal \<Rightarrow> Inr [path @ ''='' @ literal])))"
| "flatten_members path [] = Inr []"
| "flatten_members path ((k, v) # ms) = (case flattenConfigValue (child_path path k) v of
     Inl e \<Rightarrow> Inl e
   | Inr os \<Rightarrow> (case flatten_members path ms of Inl e \<Rightarrow> Inl e | Inr os' \<Rightarrow> Inr (os @ os')))"
  by pat_completeness auto
termination
  by (relation "measure (\<lambda>x. case x of Inl (p, v) \<Rightarrow> size v | Inr (p, ms) \<Rightarrow> size_list (size_prod (\<lambda>_. 0) size) ms)")
    (auto dest!: unwrap_size simp: size_list_sort_key)

declare flattenConfigValue.simps [simp del] encodeTOMLLiteral.simps [simp del]

text \<open>The keys of the whole configuration are the paths: the path so far is empty.\<close>

definition flattenConfigOverrides :: "nilmap \<Rightarrow> go_error + string list" where
  "flattenConfigOverrides config = (case config of
     None \<Rightarrow> Inr []
   | Some ms \<Rightarrow> flatten_members '''' (sort_key fst ms))"

section \<open>Environment\<close>

definition internalOriginatorEnv :: string where
  "internalOriginatorEnv = ''CODEX_INTERNAL_ORIGINATOR_OVERRIDE''"

definition goSDKOriginator :: string where
  "goSDKOriginator = ''codex_sdk_go''"

text \<open>\<open>strings.SplitN(entry, "=", 2)\<close> when it has two parts.\<close>

definition split_entry :: "string \<Rightarrow> (string \<times> string) option" where
  "split_entry entry = (case str_index entry ''='' of
     None \<Rightarrow> None
   | Some i \<Rightarrow> Some (take i entry, drop (i + 1) entry))"

definition parse_environ :: "string list \<Rightarrow> string gomap" where
  "parse_environ es = fold (\<lambda>e m. case split_entry e of None \<Rightarrow> m | Some (k, v) \<Rightarrow> AList.update k v m) es []"

definition copy_map :: "string gomap \<Rightarrow> string gomap" where
  "copy_map m = fold (\<lambda>(k, v). AList.update k v) m []"

text \<open>\<open>environ\<close> is \<open>os.Environ()\<close>.\<close>

definition add_sdk_vars :: "string \<Rightarrow> string \<Rightarrow> string gomap \<Rightarrow> string gomap" where
  "add_sdk_vars baseURL apiKey env =
    (let e1 = (if map_of env internalOriginatorEnv = None
               then AList.update internalOriginatorEnv goSDKOriginator env else env);
         e2 = (if baseURL \<noteq> '''' then AList.update ''OPENAI_BASE_URL'' baseURL e1 else e1)
     in if apiKey \<noteq> '''' then AList.update ''CODEX_API_KEY'' apiKey e2 else e2)"

definition buildEnv :: "string list \<Rightarrow> string gomap option \<Rightarrow> string \<Rightarrow> string \<Rightarrow> string list" where
  "buildEnv environ override baseURL apiKey =
    map (\<lambda>(k, v). k @ ''='' @ v) (add_sdk_vars baseURL apiKey
      (case override of Some m \<Rightarrow> copy_map m | None \<Rightarrow> parse_environ environ))"

definition buildEnvMap :: "string list \<Rightarrow> string gomap option \<Rightarrow> string \<Rightarrow> string \<Rightarrow> string gomap" where
  "buildEnvMap environ override baseURL apiKey =
    add_sdk_vars baseURL apiKey
      (case override of Some m \<Rightarrow> copy_map m | None \<Rightarrow> parse_environ (buildEnv environ None '''' ''''))"

section \<open>Client options\<close>

record CodexOptions =
  CodexPathOverride :: string
  BaseURL :: string
  APIKey :: string
  RuntimeCacheRoot :: string
  RuntimeVersion :: string
  AllowPATH :: bool
  co_Config :: nilmap
  ConfigOverrides :: "string list"
  co_Env :: "string gomap option"

definition zero_CodexOptions :: CodexOptions where
  "zero_CodexOptions = \<lparr>CodexPathOverride = '''', BaseURL = '''', APIKey = '''', RuntimeCacheRoot = '''',
     RuntimeVersion = '''', AllowPATH = False, co_Config = None, ConfigOverrides = [], co_Env = None\<rparr>"

text \<open>
  The options of the SDK; \<open>Whole\<close> is a \<open>CodexOptions\<close> value used as an option, \<open>Custom\<close> an
  implementation of the interface by the caller, which may fail.
\<close>

datatype client_option =
    WithCodexPath string
  | WithBaseURL string
  | WithAPIKey string
  | WithConfig nilmap
  | WithEnv "string gomap option"
  | WithRuntimeCacheRoot string
  | WithRuntimeVersion string
  | WithAllowPATH bool
  | Whole CodexOptions
  | Custom "CodexOptions \<Rightarrow> go_error + CodexOptions"

definition applyCodexOption :: "client_option \<Rightarrow> CodexOptions \<Rightarrow> go_error + CodexOptions" where
  "applyCodexOption opt o0 = (case opt of
     WithCodexPath p \<Rightarrow> Inr (o0\<lparr>CodexPathOverride := p\<rparr>)
   | WithBaseURL u \<Rightarrow> Inr (o0\<lparr>BaseURL := u\<rparr>)
   | WithAPIKey k \<Rightarrow> Inr (o0\<lparr>APIKey := k\<rparr>)
   | WithConfig c \<Rightarrow> Inr (o0\<lparr>co_Config := cloneMap c\<rparr>)
   | WithEnv e \<Rightarrow> Inr (o0\<lparr>co_Env := map_option copy_map e\<rparr>)
   | WithRuntimeCacheRoot r \<Rightarrow> Inr (o0\<lparr>RuntimeCacheRoot := r\<rparr>)
   | WithRuntimeVersion v \<Rightarrow> Inr (o0\<lparr>RuntimeVersion := v\<rparr>)
   | WithAllowPATH a \<Rightarrow> Inr (o0\<lparr>AllowPATH := a\<rparr>)
   | Whole c \<Rightarrow> Inr c
   | Custom f \<Rightarrow> f o0)"

fun apply_options :: "client_option option list \<Rightarrow> CodexOptions \<Rightarrow> go_error + CodexOptions" where
  "apply_options [] o0 = Inr o0"
| "apply_options (None # opts) o0 = apply_options opts o0"
| "apply_options (Some opt # opts) o0 = (case applyCodexOption opt o0 of
     Inl e \<Rightarrow> Inl e
   | Inr o1 \<Rightarrow> apply_options opts o1)"

definition resolveClientOptions :: "client_option option list \<Rightarrow> go_error + CodexOptions" where
  "resolveClientOptions opts = apply_options opts zero_CodexOptions"

end
