(* ===== verification/Payload_Props.thy ===== *)
theory Payload_Props
  imports Payload
begin

text \<open>Properties of inputs, payloads, configuration flags and the environment.\<close>

section \<open>Thread payloads\<close>

definition managed_config :: "ThreadOptions \<Rightarrow> bool" where
  "managed_config opts \<longleftrightarrow> ModelReasoningEffort opts \<noteq> '''' \<or> SkipGitRepoCheck opts \<or> NetworkAccessEnabled opts \<noteq> None \<or>
     WebSearchMode opts \<noteq> '''' \<or> WebSearchEnabled opts \<noteq> None \<or> AdditionalDirectories opts \<noteq> []"

lemma assign_simps [simp]: "assign k v None = None" "assign k v (Some m) = Some (Some (AList.update k v m))"
  by (simp_all add: assign_def)

lemma thread_config_nil: "cloneMap (Config opts) = None \<Longrightarrow> thread_config opts = None \<longleftrightarrow> managed_config opts"
  by (auto simp: thread_config_def managed_config_def split: option.splits bool.splits)

lemma thread_config_map: "cloneMap (Config opts) = Some m \<Longrightarrow> \<exists>c. thread_config opts = Some (Some c)"
  by (auto simp: thread_config_def split: option.splits bool.splits)

text \<open>C33: Building the payload of a thread panics exactly when the caller gives no configuration map
  (nil or empty) and sets any option the SDK puts into that map: the reasoning effort, skipping the
  repository check, network access, web search or additional directories.\<close>
theorem thread_payload_panics:
  "threadPayload opts = None \<longleftrightarrow> (Config opts = None \<or> Config opts = Some []) \<and> managed_config opts"
proof -
  have "cloneMap (Config opts) = None \<longleftrightarrow> Config opts = None \<or> Config opts = Some []"
    by (auto simp: cloneMap_def split: option.splits list.splits)
  then show ?thesis
    using thread_config_nil [of opts] thread_config_map [of opts]
    by (cases "cloneMap (Config opts)") (auto simp: threadPayload_def bind_eq_None_conv)
qed

text \<open>The web search setting the options resolve to.\<close>

definition web_search_setting :: "ThreadOptions \<Rightarrow> string option" where
  "web_search_setting opts = (if WebSearchMode opts \<noteq> '''' then Some (WebSearchMode opts)
     else map_option (\<lambda>b. if b then ''live'' else ''disabled'') (WebSearchEnabled opts))"

definition managed_keys :: "string list" where
  "managed_keys = [''model_reasoning_effort'', ''skip_git_repo_check'', ''sandbox_workspace_write'',
     ''web_search'', ''additional_directories'']"

text \<open>With a configuration map of its own, a thread's configuration is the caller's map with the
  SDK's settings on top: an explicit web search mode wins over the flag, every managed setting that
  is given replaces the caller's entry, and every other entry is the caller's.\<close>
theorem thread_config_merge:
  assumes "Config opts = Some m" "m \<noteq> []"
  shows "\<exists>c. thread_config opts = Some (Some c) \<and>
    map_of c ''web_search'' = (case web_search_setting opts of Some s \<Rightarrow> Some (GStr s) | None \<Rightarrow> map_of m ''web_search'') \<and>
    map_of c ''skip_git_repo_check'' =
      (if SkipGitRepoCheck opts then Some (GBool True) else map_of m ''skip_git_repo_check'') \<and>
    map_of c ''model_reasoning_effort'' = (if ModelReasoningEffort opts \<noteq> '''' then Some (GStr (ModelReasoningEffort opts))
      else map_of m ''model_reasoning_effort'') \<and>
    (\<forall>k. k \<notin> set managed_keys \<longrightarrow> map_of c k = map_of m k)"
proof -
  have "cloneMap (Config opts) = Some m" using assms by (cases m) (simp_all add: cloneMap_def)
  then show ?thesis
    by (auto simp: thread_config_def web_search_setting_def managed_keys_def split: option.splits bool.splits)
qed

theorem thread_config_merge_witness:
  "\<exists>c. thread_config (zero_ThreadOptions\<lparr>Config := Some [(''a'', GInt 1), (''web_search'', GStr ''cached'')],
       WebSearchEnabled := Some False\<rparr>) = Some (Some c) \<and>
     map_of c ''web_search'' = Some (GStr ''disabled'') \<and> map_of c ''a'' = Some (GInt 1)"
proof -
  let ?o = "zero_ThreadOptions\<lparr>Config := Some [(''a'', GInt 1), (''web_search'', GStr ''cached'')],
       WebSearchEnabled := Some False\<rparr>"
  have w: "web_search_setting ?o = Some ''disabled''" "''a'' \<notin> set managed_keys"
    by (simp_all add: web_search_setting_def zero_ThreadOptions_def managed_keys_def)
  obtain c where "thread_config ?o = Some (Some c)"
    "map_of c ''web_search'' = Some (GStr ''disabled'')"
    "\<forall>k. k \<notin> set managed_keys \<longrightarrow> map_of c k = map_of [(''a'', GInt 1), (''web_search'', GStr ''cached'')] k"
    using thread_config_merge [of ?o "[(''a'', GInt 1), (''web_search'', GStr ''cached'')]"] w(1) by force
  with w(2) show ?thesis by (intro exI [of _ c]) simp
qed

section \<open>Inputs\<close>

definition valid_item :: "UserInput \<Rightarrow> bool" where
  "valid_item i \<longleftrightarrow> ui_Type i = ''text'' \<and> ui_Text i \<noteq> '''' \<or> ui_Type i = ''image'' \<and> hasPrefix (ui_URL i) ''data:'' \<or>
     ui_Type i = ''local_image'' \<and> ui_Path i \<noteq> '''' \<or>
     (ui_Type i = ''skill'' \<or> ui_Type i = ''mention'') \<and> ui_Name i \<noteq> '''' \<and> ui_Path i \<noteq> ''''"

lemma wire_item_ok: "(\<exists>w. wire_item i = Inr w) \<longleftrightarrow> valid_item i"
  by (auto simp: wire_item_def valid_item_def)

lemma wire_items_ok: "wire_items is = Inr ws \<longleftrightarrow> map wire_item is = map Inr ws"
proof (induction "is" arbitrary: ws)
  case (Cons i "is")
  show ?case by (cases ws) (auto simp: Cons.IH [symmetric] split: sum.splits)
qed auto

text \<open>An input is accepted exactly when it is a non-empty text or a non-empty list of valid items,
  and it is sent as one wire entry per item in the same order.\<close>
theorem input_accepted:
  "((\<exists>ws. normalizeAppServerInput inp = Inr ws) \<longleftrightarrow>
     (if in_Items inp = [] then in_Text inp \<noteq> '''' else list_all valid_item (in_Items inp))) \<and>
   (normalizeAppServerInput inp = Inr ws \<longleftrightarrow>
     (if in_Items inp = [] then in_Text inp \<noteq> '''' \<and> ws = [[(''type'', GStr ''text''), (''text'', GStr (in_Text inp))]]
      else map wire_item (in_Items inp) = map Inr ws))"
proof (cases "in_Items inp = []")
  case False
  have "(\<exists>ws. wire_items is = Inr ws) \<longleftrightarrow> list_all valid_item is" for "is"
    by (induction "is") (auto split: sum.splits simp: wire_item_ok [symmetric])
  with False show ?thesis by (simp add: normalizeAppServerInput_def wire_items_ok)
qed (auto simp: normalizeAppServerInput_def)

section \<open>Configuration flags\<close>

text \<open>
  A value that can be written: no nil, no map with other keys and no unsupported kind anywhere,
  below any pointers.
\<close>

fun writable :: "goval \<Rightarrow> bool" where
  "writable GNil = False"
| "writable GNilPtr = False"
| "writable (GPtr v) = writable v"
| "writable (GSlice vs) = list_all writable vs"
| "writable (GMap ms) = list_all (\<lambda>(k, v). writable v) ms"
| "writable GMapOther = False"
| "writable (GKind k) = False"
| "writable v = True"

lemma writable_unwrap:
  "unwrapReflectValue v = Some w \<Longrightarrow> writable v = writable w"
  "unwrapReflectValue v = None \<Longrightarrow> \<not> writable v"
  "unwrapReflectValue v = Some w \<Longrightarrow> w \<noteq> GNil \<and> w \<noteq> GNilPtr \<and> (\<forall>u. w \<noteq> GPtr u)"
  by (induction v rule: unwrapReflectValue.induct) auto

lemma set_sort_members [simp]: "list_all P (sort_key f xs) = list_all P xs"
  by (simp add: list_all_iff)

lemma encode_writable:
  "(\<exists>s. encodeTOMLLiteral v = Inr s) \<longleftrightarrow> writable v"
  "(\<exists>ss. encode_list vs = Inr ss) \<longleftrightarrow> list_all writable vs"
  "(\<exists>ss. encode_members ms = Inr ss) \<longleftrightarrow> list_all (\<lambda>(k, v). writable v) ms"
proof (induction v and vs and ms rule: encodeTOMLLiteral_encode_list_encode_members.induct)
  case (1 v)
  show ?case
  proof (cases "unwrapReflectValue v")
    case None
    then show ?thesis using writable_unwrap(2) [of v] by (simp add: encodeTOMLLiteral.simps)
  next
    case (Some w)
    then show ?thesis using 1 writable_unwrap(1,3) [OF Some]
      by (cases w) (auto simp: encodeTOMLLiteral.simps [of v] split: sum.splits)
  qed
qed (auto split: sum.splits)

lemma unwrap_idem: "unwrapReflectValue v = Some w \<Longrightarrow> unwrapReflectValue w = Some w"
  by (induction v rule: unwrapReflectValue.induct) auto

lemma flatten_writable:
  "(\<exists>os. flattenConfigValue p v = Inr os) \<longleftrightarrow> writable v"
  "(\<exists>os. flatten_members p ms = Inr os) \<longleftrightarrow> list_all (\<lambda>(k, v). writable v) ms"
proof (induction p v and p ms rule: flattenConfigValue_flatten_members.induct)
  case (1 p v)
  show ?case
  proof (cases "unwrapReflectValue v")
    case None
    then show ?thesis using writable_unwrap(2) [of v] by (simp add: flattenConfigValue.simps)
  next
    case (Some w)
    then show ?thesis using 1 writable_unwrap(1,3) [OF Some] encode_writable(1) [of w]
      by (cases w) (auto simp: flattenConfigValue.simps [of p v] split: sum.splits)
  qed
qed (auto split: sum.splits)

lemma sort_members_unique:
  assumes "wf_map m1" "wf_map m2" "map_of m1 = map_of m2"
  shows "sort_key fst m1 = sort_key fst m2"
proof (rule sort_key_inj_key_eq)
  have "set m1 = set m2" using map_of_inject_set [OF assms(1,2)] assms(3) by simp
  then show "mset m1 = mset (sort_key fst m2)"
    using assms(1,2) by (simp add: set_eq_iff_mset_eq_distinct distinct_map)
  show "inj_on fst (set m1)" using assms(1) by (simp add: distinct_map)
qed simp

text \<open>The flags of a configuration depend only on the map, never on the order Go happens to visit
  it in, and they exist exactly when every value in it can be written as TOML: a nil, a map whose keys
  are not strings or a value of another kind anywhere in it is an error, never a wrong flag.\<close>
theorem config_flags_deterministic:
  assumes "wf_map m1" "wf_map m2" "map_of m1 = map_of m2"
  shows "flattenConfigOverrides (Some m1) = flattenConfigOverrides (Some m2) \<and>
    ((\<exists>os. flattenConfigOverrides (Some m1) = Inr os) \<longleftrightarrow> list_all (\<lambda>(k, v). writable v) m1)"
proof
  show "flattenConfigOverrides (Some m1) = flattenConfigOverrides (Some m2)"
    by (simp add: flattenConfigOverrides_def sort_members_unique [OF assms])
  show "(\<exists>os. flattenConfigOverrides (Some m1) = Inr os) \<longleftrightarrow> list_all (\<lambda>(k, v). writable v) m1"
    using flatten_writable(2) [of "''''" "sort_key fst m1"] by (simp add: flattenConfigOverrides_def)
qed

theorem config_flags_deterministic_witness:
  "flattenConfigOverrides (Some [(''b'', GBool True), (''a'', GMap [(''x'', GInt 1)])]) =
   flattenConfigOverrides (Some [(''a'', GMap [(''x'', GInt 1)]), (''b'', GBool True)])"
  using config_flags_deterministic [of "[(''b'', GBool True), (''a'', GMap [(''x'', GInt 1)])]"
      "[(''a'', GMap [(''x'', GInt 1)]), (''b'', GBool True)]"]
  by (auto simp: fun_eq_iff)

section \<open>Environment\<close>

lemma map_of_fold_update:
  "wf_map ms \<Longrightarrow> map_of (fold (\<lambda>(k, v). AList.update k v) ms acc) = map_of acc ++ map_of ms"
proof (induction ms arbitrary: acc)
  case (Cons x ms)
  obtain k v where x: "x = (k, v)" by (cases x)
  then have "map_of ms k = None" using Cons.prems by (auto simp: map_of_eq_None_iff)
  then show ?case using Cons x by (auto simp: map_add_def fun_eq_iff split: option.splits)
qed simp

lemma map_of_copy_map: "wf_map m \<Longrightarrow> map_of (copy_map m) = map_of m"
  by (simp add: copy_map_def map_of_fold_update)

definition env_lookup :: "string \<Rightarrow> string \<Rightarrow> (string \<rightharpoonup> string) \<Rightarrow> string \<rightharpoonup> string" where
  "env_lookup baseURL apiKey base = (\<lambda>k.
     if k = ''CODEX_API_KEY'' \<and> apiKey \<noteq> '''' then Some apiKey
     else if k = ''OPENAI_BASE_URL'' \<and> baseURL \<noteq> '''' then Some baseURL
     else if k = internalOriginatorEnv \<and> base k = None then Some goSDKOriginator
     else base k)"

lemma map_of_add_sdk_vars: "map_of (add_sdk_vars b a env) = env_lookup b a (map_of env)"
  by (auto simp: add_sdk_vars_def env_lookup_def Let_def fun_eq_iff internalOriginatorEnv_def)

lemma split_entry_join: "CHR ''='' \<notin> set k \<Longrightarrow> split_entry (k @ ''='' @ v) = Some (k, v)"
  by (simp add: split_entry_def str_index_char)

lemma str_index_char_notin: "str_index s [c] = Some i \<Longrightarrow> c \<notin> set (take i s)"
  by (induction s arbitrary: i) (auto split: if_splits)

lemma split_entry_key: "split_entry e = Some (k, v) \<Longrightarrow> CHR ''='' \<notin> set k"
  by (auto simp: split_entry_def dest: str_index_char_notin split: option.splits)

definition plain_keys :: "string gomap \<Rightarrow> bool" where
  "plain_keys m \<longleftrightarrow> (\<forall>k\<in>dom (map_of m). CHR ''='' \<notin> set k)"

lemma env_lookup_idem: "env_lookup b a (env_lookup '''' '''' f) = env_lookup b a f"
  by (rule ext) (auto simp: env_lookup_def internalOriginatorEnv_def)

lemma plain_keys_update: "plain_keys m \<Longrightarrow> CHR ''='' \<notin> set k \<Longrightarrow> plain_keys (AList.update k v m)"
  unfolding plain_keys_def dom_def by (simp split: if_splits)

lemma parse_environ_keys:
  "plain_keys (parse_environ es) \<and> wf_map (parse_environ es)"
  unfolding parse_environ_def
proof (rule fold_invariant [where Q = "\<lambda>_. True"])
  fix e and m :: "string gomap"
  assume "plain_keys m \<and> wf_map m"
  then show "plain_keys (case split_entry e of None \<Rightarrow> m | Some (k, v) \<Rightarrow> AList.update k v m) \<and>
    wf_map (case split_entry e of None \<Rightarrow> m | Some (k, v) \<Rightarrow> AList.update k v m)"
    using split_entry_key [of e] by (cases "split_entry e") (auto simp: plain_keys_update)
qed (simp_all add: plain_keys_def)

lemma map_of_parse_environ:
  assumes "plain_keys m" "wf_map m"
  shows "map_of (parse_environ (map (\<lambda>(k, v). k @ ''='' @ v) m)) = map_of m"
proof -
  have "fold (\<lambda>e m. case split_entry e of None \<Rightarrow> m | Some (k, v) \<Rightarrow> AList.update k v m)
      (map (\<lambda>(k, v). k @ ''='' @ v) ms) acc = fold (\<lambda>(k, v). AList.update k v) ms acc"
    if "\<forall>k\<in>fst ` set ms. CHR ''='' \<notin> set k" for ms and acc :: "string gomap"
    using that by (induction ms arbitrary: acc) (auto simp: split_entry_join [simplified])
  from this [of m "[]"] assms(1) show ?thesis
    using map_of_fold_update [OF assms(2), of "[]"] by (simp add: parse_environ_def plain_keys_def dom_map_of_conv_image_fst)
qed

lemma wf_add_sdk_vars: "wf_map env \<Longrightarrow> wf_map (add_sdk_vars b a env)"
  by (simp add: add_sdk_vars_def Let_def)

lemma keys_add_sdk_vars:
  "plain_keys env \<Longrightarrow> plain_keys (add_sdk_vars '''' '''' env)"
  by (auto simp: add_sdk_vars_def plain_keys_def internalOriginatorEnv_def split: if_splits)

text \<open>The environment map the client builds for the runtime: with an override, it is the
  override; without one, it is exactly the parent's environment. On top of it the SDK sets the
  base URL and the API key when they are given, and its originator only when none is there.\<close>
theorem env_spec:
  assumes "case override of None \<Rightarrow> True | Some m \<Rightarrow> wf_map m"
  shows "map_of (buildEnvMap environ override baseURL apiKey) =
    env_lookup baseURL apiKey (map_of (case override of Some m \<Rightarrow> m | None \<Rightarrow> parse_environ environ))"
proof (cases override)
  case (Some m)
  then show ?thesis using assms by (simp add: buildEnvMap_def map_of_add_sdk_vars map_of_copy_map)
next
  case None
  let ?e = "add_sdk_vars '''' '''' (parse_environ environ)"
  have "map_of (parse_environ (map (\<lambda>(k, v). k @ ''='' @ v) ?e)) = map_of ?e"
    by (rule map_of_parse_environ)
      (use parse_environ_keys [of environ] keys_add_sdk_vars [of "parse_environ environ"] wf_add_sdk_vars in auto)
  then show ?thesis using None
    by (simp add: buildEnvMap_def buildEnv_def map_of_add_sdk_vars env_lookup_idem)
qed

theorem env_spec_witness:
  "map_of (buildEnvMap [''HOME=/root'', ''PATH=/bin'', ''bad''] None ''https://x'' '''') ''HOME'' = Some ''/root'' \<and>
   map_of (buildEnvMap [''HOME=/root'', ''PATH=/bin'', ''bad''] None ''https://x'' '''') ''OPENAI_BASE_URL'' = Some ''https://x'' \<and>
   map_of (buildEnvMap [''HOME=/root'', ''PATH=/bin'', ''bad''] (Some [(''A'', ''1'')]) '''' '''') ''HOME'' = None"
  using env_spec [of None "[''HOME=/root'', ''PATH=/bin'', ''bad'']" "''https://x''" "''''"]
    env_spec [of "Some [(''A'', ''1'')]" "[''HOME=/root'', ''PATH=/bin'', ''bad'']" "''''" "''''"]
  by (simp add: env_lookup_def parse_environ_def split_entry_def internalOriginatorEnv_def)

end
