(* ===== verification/Appserver.thy ===== *)
theory Appserver
  imports Router Payload
begin

text \<open>
  \<open>internal/appserver/client.go\<close>: the JSON-RPC transport over the child process. The state keeps
  what the code keeps, with the router inside; the child's standard input is the log of the
  messages written to it. Every definition is the work between two points where another
  goroutine may run. What the operating system answers (starting the process, a write, the
  exit status) is an argument. A line of output is the JSON value it holds, \<open>None\<close> when it is
  not JSON.
\<close>

section \<open>Limits and configuration\<close>

record AppLimits =
  MaxLineBytes :: int
  MaxStderrLines :: int
  MaxStderrBytes :: int
  MaxServerRequestHandlers :: int
  ShutdownWait :: int
  KillWait :: int
  RouterLimits :: Limits

definition AppDefaultLimits :: AppLimits where
  "AppDefaultLimits = \<lparr>MaxLineBytes = 16 * mib, MaxStderrLines = 400, MaxStderrBytes = 2 * mib,
     MaxServerRequestHandlers = 64, ShutdownWait = 2000000000, KillWait = 2000000000,
     RouterLimits = DefaultLimits\<rparr>"

definition app_normalizeLimits :: "AppLimits \<Rightarrow> AppLimits" where
  "app_normalizeLimits l =
    \<lparr>MaxLineBytes = (if MaxLineBytes l \<le> 0 then MaxLineBytes AppDefaultLimits else MaxLineBytes l),
     MaxStderrLines = (if MaxStderrLines l \<le> 0 then MaxStderrLines AppDefaultLimits else MaxStderrLines l),
     MaxStderrBytes = (if MaxStderrBytes l \<le> 0 then MaxStderrBytes AppDefaultLimits else MaxStderrBytes l),
     MaxServerRequestHandlers = (if MaxServerRequestHandlers l \<le> 0 then MaxServerRequestHandlers AppDefaultLimits
       else MaxServerRequestHandlers l),
     ShutdownWait = (if ShutdownWait l \<le> 0 then ShutdownWait AppDefaultLimits else ShutdownWait l),
     KillWait = (if KillWait l \<le> 0 then KillWait AppDefaultLimits else KillWait l),
     RouterLimits = DefaultLimitsIfZero (RouterLimits l)\<rparr>"

datatype ApprovalPolicyKind = ApprovalPolicyDeny | ApprovalPolicyAutoReview

text \<open>\<open>Approval\<close> is the caller's handler, a function of method and parameters.\<close>

record AppConfig =
  ExecutablePath :: string
  LaunchArgs :: "string list"
  Cwd :: string
  ac_Env :: "string gomap"
  ConfigFlags :: "string list"
  ClientName :: string
  ClientTitle :: string
  ClientVersion :: string
  Approval :: "(string \<Rightarrow> raw \<Rightarrow> go_error + raw) option"
  ac_ApprovalPolicy :: ApprovalPolicyKind
  ac_Limits :: AppLimits

record ServerInfo =
  si_Name :: string
  si_Version :: string

record Metadata =
  ProtocolVersion :: string
  UserAgent :: string
  PlatformFamily :: string
  PlatformOs :: string
  md_ServerInfo :: "ServerInfo option"

record serverRequest =
  sr_id :: json
  sr_method :: string
  sr_params :: raw

record AppClient =
  cfg :: AppConfig
  al :: AppLimits
  rtr :: MessageRouter
  started :: bool
  ac_closed :: bool
  waitErr :: "go_error option"
  waitDone :: bool
  initDone :: bool
  initMeta :: "Metadata option"
  initErr :: "go_error option"
  requestID :: nat
  stdinOpen :: bool
  written :: "json list"
  stderrLines :: "string list"
  stderrBytes :: int
  serverRequests :: "serverRequest list"
  requestsClosed :: bool
  handlersCancelled :: bool
  workerCount :: int

definition app_New :: "AppConfig \<Rightarrow> AppClient" where
  "app_New c = (let l = app_normalizeLimits (ac_Limits c) in
    \<lparr>cfg = c, al = l, rtr = Router.New (RouterLimits l), started = False, ac_closed = False,
     waitErr = None, waitDone = False, initDone = False, initMeta = None, initErr = None,
     requestID = 0, stdinOpen = False, written = [], stderrLines = [], stderrBytes = 0,
     serverRequests = [], requestsClosed = False, handlersCancelled = False, workerCount = 0\<rparr>)"

section \<open>Starting the process\<close>

definition launchArgs :: "AppConfig \<Rightarrow> go_error + string list" where
  "launchArgs c =
    (if LaunchArgs c \<noteq> [] then Inr (LaunchArgs c)
     else if ExecutablePath c = '''' then Inl (Text ''appserver: executable path is required'')
     else Inr (ExecutablePath c # concat (map (\<lambda>f. [''--config'', f]) (ConfigFlags c)) @
       [''app-server'', ''--listen'', ''stdio://'']))"

text \<open>\<open>buildEnv\<close> of this package; \<open>environ\<close> is \<open>os.Environ()\<close>.\<close>

definition app_env :: "string list \<Rightarrow> string gomap \<Rightarrow> string gomap" where
  "app_env environ override = fold (\<lambda>(k, v). AList.update k v) override (parse_environ environ)"

definition app_buildEnv :: "string list \<Rightarrow> string gomap \<Rightarrow> string list" where
  "app_buildEnv environ override = map (\<lambda>(k, v). k @ ''='' @ v) (app_env environ override)"

text \<open>\<open>osErr\<close>: the first of the three pipes or the start that fails.\<close>

definition startProcess :: "go_error option \<Rightarrow> AppClient \<Rightarrow> AppClient \<times> go_error option" where
  "startProcess osErr c =
    (if started c then (c, None)
     else case launchArgs (cfg c) of
         Inl e \<Rightarrow> (c, Some e)
       | Inr args \<Rightarrow>
          (case osErr of
             Some e \<Rightarrow> (c, Some e)
           | None \<Rightarrow>
              (c\<lparr>stdinOpen := True, started := True, ac_closed := False, waitErr := None, waitDone := False,
                 serverRequests := [], requestsClosed := False, handlersCancelled := False\<rparr>, None)))"

definition ensureUsable :: "AppClient \<Rightarrow> go_error option" where
  "ensureUsable c =
    (if \<not> started c then Some AppErrTransportClosed
     else if ac_closed c then Some AppErrTransportClosed
     else None)"

section \<open>Writing and requests\<close>

text \<open>
  \<open>writeMessage\<close> on a message that can be encoded; \<open>wErr\<close> is the error of the write. The
  standard input is nil before the start and stays set after \<open>Close\<close>: a write to the closed
  pipe is then an error of the operating system.
\<close>

definition writeMessage :: "go_error option \<Rightarrow> json \<Rightarrow> AppClient \<Rightarrow> AppClient \<times> go_error option" where
  "writeMessage wErr msg c =
    (if int (length (json_text msg)) > MaxLineBytes (al c) then (c, Some AppErrLimitExceeded)
     else if \<not> started c then (c, Some AppErrTransportClosed)
     else case wErr of
         Some e \<Rightarrow> (c, Some (Wrapped (err_text AppErrTransportClosed @ '': '' @ err_text e) [AppErrTransportClosed]))
       | None \<Rightarrow> (c\<lparr>written := written c @ [msg]\<rparr>, None))"

text \<open>\<open>json.Marshal\<close> of the request map, its keys sorted; \<open>params\<close> as encoded by the caller.\<close>

definition request_message :: "string \<Rightarrow> string \<Rightarrow> json option \<Rightarrow> json" where
  "request_message rid m params = JObj ([(''id'', JStr rid), (''method'', JStr m)] @
     (case params of Some p \<Rightarrow> [(''params'', p)] | None \<Rightarrow> []))"

definition request_id :: "nat \<Rightarrow> string" where
  "request_id n = ''req-'' @ show_nat n"

text \<open>
  \<open>Request\<close> up to the wait: the identifier and the channel to wait on, or the error it returns.
  The counter is a \<open>uint64\<close>.
\<close>

definition request_send ::
  "go_error option \<Rightarrow> string \<Rightarrow> json option \<Rightarrow> AppClient \<Rightarrow> AppClient \<times> (go_error + string \<times> addr)" where
  "request_send wErr m params c =
    (case ensureUsable c of
       Some e \<Rightarrow> (c, Inl e)
     | None \<Rightarrow>
        (let n = (requestID c + 1) mod 2 ^ 64;
             c1 = c\<lparr>requestID := n\<rparr>;
             rid = request_id n
         in case CreateResponseWaiter rid (rtr c1) of
              (r1, Inl e) \<Rightarrow> (c1\<lparr>rtr := r1\<rparr>, Inl e)
            | (r1, Inr waiter) \<Rightarrow>
               (case writeMessage wErr (request_message rid m params) (c1\<lparr>rtr := r1\<rparr>) of
                  (c2, Some e) \<Rightarrow> (c2\<lparr>rtr := DiscardResponseWaiter rid (rtr c2)\<rparr>, Inl e)
                | (c2, None) \<Rightarrow> (c2, Inr (rid, waiter)))))"

text \<open>
  The wait: \<open>ctxErr\<close> when the context ends it, otherwise the response in the channel; \<open>None\<close>
  while there is none.
\<close>

definition request_wait ::
  "go_error option \<Rightarrow> string \<Rightarrow> addr \<Rightarrow> AppClient \<Rightarrow> (AppClient \<times> (go_error + raw)) option" where
  "request_wait ctxErr rid waiter c =
    (case ctxErr of
       Some e \<Rightarrow> Some (c\<lparr>rtr := DiscardResponseWaiter rid (rtr c)\<rparr>, Inl e)
     | None \<Rightarrow>
        (case chan_recv (waiterHeap (rtr c) waiter) of
           None \<Rightarrow> None
         | Some (resp, q) \<Rightarrow>
            Some (c\<lparr>rtr := (rtr c)\<lparr>waiterHeap := (waiterHeap (rtr c))(waiter := q)\<rparr>\<rparr>,
              case RespErr resp of Some e \<Rightarrow> Inl e | None \<Rightarrow> Inr (Result resp))))"

definition Notify :: "go_error option \<Rightarrow> string \<Rightarrow> json option \<Rightarrow> AppClient \<Rightarrow> AppClient \<times> go_error option" where
  "Notify wErr m params c =
    (case ensureUsable c of
       Some e \<Rightarrow> (c, Some e)
     | None \<Rightarrow> writeMessage wErr (JObj ([(''method'', JStr m)] @
         (case params of Some p \<Rightarrow> [(''params'', p)] | None \<Rightarrow> []))) c)"

section \<open>Initialize\<close>

definition splitUserAgent :: "string \<Rightarrow> string \<times> string" where
  "splitUserAgent userAgent =
    (let r = trimSpace userAgent
     in if r = '''' then ('''', '''')
        else case str_index r ''/'' of
            Some slash \<Rightarrow> (trimSpace (take slash r), trimSpace (drop (slash + 1) r))
          | None \<Rightarrow>
             (case str_fields r of
                f # g # fs \<Rightarrow> (trimSpace f, trimSpace (str_join '' '' (g # fs)))
              | _ \<Rightarrow> (r, '''')))"

definition incomplete_metadata :: go_error where
  "incomplete_metadata = Text ''appserver: initialize returned incomplete metadata''"

definition normalizeInitializeMetadata :: "Metadata \<Rightarrow> go_error + Metadata" where
  "normalizeInitializeMetadata m =
    (let ua = trimSpace (UserAgent m)
     in if ua = '''' then Inl incomplete_metadata
        else
         (let m1 = m\<lparr>UserAgent := ua, md_ServerInfo :=
                map_option (\<lambda>si. \<lparr>si_Name = trimSpace (si_Name si), si_Version = trimSpace (si_Version si)\<rparr>) (md_ServerInfo m)\<rparr>;
              (name, version) = splitUserAgent ua;
              si = (case md_ServerInfo m1 of Some si \<Rightarrow> si | None \<Rightarrow> \<lparr>si_Name = '''', si_Version = ''''\<rparr>);
              si' = \<lparr>si_Name = orDefault (si_Name si) name, si_Version = orDefault (si_Version si) version\<rparr>
          in if si_Name si' = '''' \<or> si_Version si' = '''' then Inl incomplete_metadata
             else Inr (m1\<lparr>md_ServerInfo := Some si'\<rparr>)))"

definition initialize_params :: "AppConfig \<Rightarrow> json" where
  "initialize_params c = JObj
    [(''capabilities'', JObj [(''experimentalApi'', JBool True)]),
     (''clientInfo'', JObj
       [(''name'', JStr (orDefault (ClientName c) ''codex_go_sdk'')),
        (''title'', JStr (orDefault (ClientTitle c) ''Codex Go SDK'')),
        (''version'', JStr (orDefault (ClientVersion c) ''dev''))])]"

definition dec_Metadata :: "raw \<Rightarrow> Metadata option" where
  "dec_Metadata r = do {
     ms \<leftarrow> struct_members r;
     p \<leftarrow> dec_string ''protocolVersion'' '''' ms;
     u \<leftarrow> dec_string ''userAgent'' '''' ms;
     f \<leftarrow> dec_string ''platformFamily'' '''' ms;
     os \<leftarrow> dec_string ''platformOs'' '''' ms;
     si \<leftarrow> dec_struct_ptr (\<lambda>fs si. do { n \<leftarrow> dec_string ''name'' (si_Name si) fs;
              v \<leftarrow> dec_string ''version'' (si_Version si) fs; Some \<lparr>si_Name = n, si_Version = v\<rparr> })
            \<lparr>si_Name = '''', si_Version = ''''\<rparr> ''serverInfo'' None ms;
     Some \<lparr>ProtocolVersion = p, UserAgent = u, PlatformFamily = f, PlatformOs = os, md_ServerInfo = si\<rparr>
   }"

text \<open>\<open>initialize\<close> once the response is there; \<open>wErr\<close> is the write of \<open>initialized\<close>.\<close>

definition initialize_finish ::
  "go_error option \<Rightarrow> go_error + raw \<Rightarrow> AppClient \<Rightarrow> AppClient \<times> (go_error + Metadata)" where
  "initialize_finish wErr payload c =
    (case payload of
       Inl e \<Rightarrow> (c, Inl e)
     | Inr r \<Rightarrow>
        (case dec_Metadata r of
           None \<Rightarrow> (c, Inl json_error)
         | Some m \<Rightarrow>
            (case normalizeInitializeMetadata m of
               Inl _ \<Rightarrow> (c, Inl incomplete_metadata)
             | Inr m1 \<Rightarrow>
                (case Notify wErr ''initialized'' None c of
                   (c1, Some e) \<Rightarrow> (c1, Inl e)
                 | (c1, None) \<Rightarrow> (c1, Inr m1)))))"

text \<open>\<open>initOnce\<close>: the result of the first initialisation is kept for every later \<open>Start\<close>.\<close>

definition record_init :: "go_error + Metadata \<Rightarrow> AppClient \<Rightarrow> AppClient" where
  "record_init res c =
    (if initDone c then c
     else case res of
         Inl e \<Rightarrow> c\<lparr>initDone := True, initErr := Some e\<rparr>
       | Inr m \<Rightarrow> c\<lparr>initDone := True, initMeta := Some m\<rparr>)"

section \<open>Closing\<close>

text \<open>
  The part of \<open>Close\<close> under the lock and the two calls after it: the first close of a started
  client closes the standard input and cancels the handlers. The waits for the exit follow.
\<close>

definition close_begin :: "AppClient \<Rightarrow> AppClient" where
  "close_begin c =
    (if \<not> started c \<or> ac_closed c then c
     else c\<lparr>ac_closed := True, stdinOpen := False, handlersCancelled := True\<rparr>)"

definition start_result :: "AppClient \<Rightarrow> AppClient \<times> (go_error + Metadata option)" where
  "start_result c = (case initErr c of
     Some e \<Rightarrow> (close_begin c, Inl e)
   | None \<Rightarrow> (c, Inr (initMeta c)))"

text \<open>
  What \<open>Close\<close> sends the child: an interrupt when it has not exited within the shutdown wait, a kill
  when it has not exited within the kill wait after that.
\<close>

datatype child_signal = Interrupt | Kill

definition close_signals :: "bool \<Rightarrow> bool \<Rightarrow> child_signal list" where
  "close_signals exitsInShutdownWait exitsInKillWait =
    (if exitsInShutdownWait then [] else Interrupt # (if exitsInKillWait then [] else [Kill]))"

text \<open>\<open>Wait\<close>: \<open>None\<close> until the process has been waited for.\<close>

definition Wait :: "AppClient \<Rightarrow> go_error option option" where
  "Wait c = (if waitDone c then Some (waitErr c) else None)"

section \<open>Redaction\<close>

text \<open>
  The three helpers of \<open>redactSecrets\<close>. Positions found in the lower-cased text are used in the
  text itself, as in the code; \<open>take\<close> and \<open>drop\<close> stand for the slices, which are in range
  whenever lower-casing keeps the length (all ASCII text).
\<close>

definition is_token_char :: "char \<Rightarrow> bool" where
  "is_token_char c \<longleftrightarrow> c = CHR ''-'' \<or> c = CHR ''_'' \<or> (let n = of_char c :: nat in
     48 \<le> n \<and> n \<le> 57 \<or> 65 \<le> n \<and> n \<le> 90 \<or> 97 \<le> n \<and> n \<le> 122)"

partial_function (option) redactTokenLike :: "string \<Rightarrow> string \<Rightarrow> string \<Rightarrow> string option" where
  "redactTokenLike input prefix replacement =
    (case str_index input prefix of
       None \<Rightarrow> Some input
     | Some idx \<Rightarrow>
        redactTokenLike (take idx input @ replacement @
          dropWhile is_token_char (drop (idx + length prefix) input)) prefix replacement)"

definition redacted :: string where
  "redacted = ''[REDACTED]''"

definition is_separator :: "char \<Rightarrow> bool" where
  "is_separator c \<longleftrightarrow> c = CHR '' '' \<or> c = CHR '':'' \<or> c = CHR ''='' \<or> c = CHR 34"

definition ends_value :: "char \<Rightarrow> bool" where
  "ends_value c \<longleftrightarrow> c = CHR '' '' \<or> c = CHR 10 \<or> c = CHR 13 \<or> c = CHR 34"

partial_function (option) redactKeyValue_from :: "nat \<Rightarrow> string \<Rightarrow> string \<Rightarrow> string option" where
  "redactKeyValue_from off input key =
    (case str_index (toLower (drop off input)) (toLower key) of
       None \<Rightarrow> Some input
     | Some i \<Rightarrow>
        (let p0 = i + off + length (toLower key);
             pos = p0 + length (takeWhile is_separator (drop p0 input))
         in redactKeyValue_from (pos + length redacted)
              (take pos input @ redacted @ dropWhile (\<lambda>c. \<not> ends_value c) (drop pos input)) key))"

definition redactKeyValue :: "string \<Rightarrow> string \<Rightarrow> string option" where
  "redactKeyValue input key = redactKeyValue_from 0 input key"

definition json_marker :: "string \<Rightarrow> string" where
  "json_marker key = [CHR 34] @ key @ [CHR 34, CHR '':'', CHR 34]"

partial_function (option) redactJSONValue_from :: "nat \<Rightarrow> string \<Rightarrow> string \<Rightarrow> string option" where
  "redactJSONValue_from off input key =
    (case str_index (toLower (drop off input)) (toLower (json_marker key)) of
       None \<Rightarrow> Some input
     | Some i \<Rightarrow>
        (let start = i + off + length (json_marker key)
         in redactJSONValue_from (start + length redacted)
              (take start input @ redacted @ dropWhile (\<lambda>c. c \<noteq> CHR 34) (drop start input)) key))"

definition redactJSONValue :: "string \<Rightarrow> string \<Rightarrow> string option" where
  "redactJSONValue input key = redactJSONValue_from 0 input key"

definition secret_keys :: "string list" where
  "secret_keys = [''authorization'', ''access_token'', ''access token'', ''refresh_token'', ''refresh token'',
     ''password'', ''userCode'', ''user code'', ''authUrl'', ''auth url'', ''verificationUrl'', ''verification url'']"

definition secret_json_keys :: "string list" where
  "secret_json_keys = [''authUrl'', ''verificationUrl'', ''userCode'']"

fun redact_all :: "(string \<Rightarrow> string \<Rightarrow> string option) \<Rightarrow> string list \<Rightarrow> string \<Rightarrow> string option" where
  "redact_all f [] s = Some s"
| "redact_all f (k # ks) s = (case f s k of None \<Rightarrow> None | Some t \<Rightarrow> redact_all f ks t)"

definition redactSecrets :: "string \<Rightarrow> string option" where
  "redactSecrets input = do {
     s1 \<leftarrow> redactTokenLike input ''sk-'' ''[REDACTED_API_KEY]'';
     s2 \<leftarrow> redact_all redactKeyValue secret_keys s1;
     redact_all redactJSONValue secret_json_keys s2
   }"

section \<open>The standard error ring\<close>

function trim_ring :: "AppLimits \<Rightarrow> string list \<Rightarrow> int \<Rightarrow> string list \<times> int" where
  "trim_ring l ls n =
    (if int (length ls) > MaxStderrLines l \<or> n > MaxStderrBytes l then
       (case ls of [] \<Rightarrow> ([], n) | x # xs \<Rightarrow> trim_ring l xs (n - int (length x)))
     else (ls, n))"
  by pat_completeness auto
termination by (relation "measure (\<lambda>(l, ls, n). length ls)") auto

declare trim_ring.simps [simp del]

text \<open>One line of \<open>drainStderr\<close>; \<open>None\<close> only if the redaction does not return.\<close>

definition drainStderr_line :: "string \<Rightarrow> AppClient \<Rightarrow> AppClient option" where
  "drainStderr_line text c = (case redactSecrets text of
     None \<Rightarrow> None
   | Some line \<Rightarrow>
      (case trim_ring (al c) (stderrLines c @ [line]) (stderrBytes c + int (length line)) of
         (ls, n) \<Rightarrow> Some (c\<lparr>stderrLines := ls, stderrBytes := n\<rparr>)))"

definition StderrTail :: "AppClient \<Rightarrow> string option" where
  "StderrTail c = redactSecrets (str_join [CHR 10] (stderrLines c))"

section \<open>Reading\<close>

definition app_fail :: "go_error \<Rightarrow> AppClient \<Rightarrow> AppClient option" where
  "app_fail e c = map_option (\<lambda>r. c\<lparr>rtr := r\<rparr>) (FailAll (Some e) (rtr c))"

text \<open>\<open>fmt.Errorf("%w: %w: ...", ErrTransportClosed, ErrLimitExceeded, ...)\<close> and its variants.\<close>

definition closed_with :: "string \<Rightarrow> go_error" where
  "closed_with what = Wrapped (err_text AppErrTransportClosed @ '': '' @ what) [AppErrTransportClosed]"

definition closed_limit :: "string \<Rightarrow> go_error" where
  "closed_limit what = Wrapped (err_text AppErrTransportClosed @ '': '' @ err_text AppErrLimitExceeded @ '': '' @ what)
     [AppErrTransportClosed, AppErrLimitExceeded]"

record envelope =
  en_ID :: "json option"
  en_Method :: string
  en_Params :: raw
  en_Result :: raw
  en_Error :: "rpc option"

definition dec_envelope :: "raw \<Rightarrow> envelope option" where
  "dec_envelope r = do {
     ms \<leftarrow> struct_members r;
     m \<leftarrow> dec_string ''method'' '''' ms;
     e \<leftarrow> dec_struct_ptr (\<lambda>fs x. do { c \<leftarrow> dec_int ''code'' (Code x) fs; t \<leftarrow> dec_string ''message'' (Message x) fs;
             Some \<lparr>Code = c, Message = t, Data = dec_raw ''data'' (Data x) fs\<rparr> })
           \<lparr>Code = 0, Message = '''', Data = None\<rparr> ''error'' None ms;
     Some \<lparr>en_ID = dec_any ''id'' ms, en_Method = m, en_Params = dec_raw ''params'' None ms,
           en_Result = dec_raw ''result'' None ms, en_Error = e\<rparr>
   }"

text \<open>
  \<open>ensureServerRequestWorkers\<close>: start workers while there are fewer than the limit and not more
  than there are queued requests.
\<close>

function start_workers :: "int \<Rightarrow> int \<Rightarrow> int \<Rightarrow> int" where
  "start_workers limit queuedReqs n = (if n < limit \<and> n \<le> queuedReqs then start_workers limit queuedReqs (n + 1) else n)"
  by pat_completeness auto
termination by (relation "measure (\<lambda>(limit, q, n). nat (limit - n))") auto

declare start_workers.simps [simp del]

definition ensureServerRequestWorkers :: "AppClient \<Rightarrow> AppClient" where
  "ensureServerRequestWorkers c = c\<lparr>workerCount :=
     start_workers (MaxServerRequestHandlers (al c)) (int (length (serverRequests c))) (workerCount c)\<rparr>"

text \<open>
  One iteration of \<open>readLoop\<close>. \<open>Panics\<close> is the send on a closed channel: \<open>waitLoop\<close> closes
  \<open>serverRequests\<close> without waiting for the reader. \<open>sprint\<close> is \<open>fmt.Sprint\<close> on an identifier
  that is not a string; \<open>Blocks\<close> is a send that finds no room.
\<close>

datatype read_result = Continues AppClient | Stops AppClient | Panics | Blocks

definition stop_with :: "go_error \<Rightarrow> AppClient \<Rightarrow> read_result" where
  "stop_with e c = (case app_fail e c of Some c1 \<Rightarrow> Stops c1 | None \<Rightarrow> Blocks)"

definition id_text :: "(json \<Rightarrow> string) \<Rightarrow> json \<Rightarrow> string" where
  "id_text sprint v = (case v of JStr s \<Rightarrow> s | _ \<Rightarrow> sprint v)"

definition readLoop_request :: "serverRequest \<Rightarrow> AppClient \<Rightarrow> read_result" where
  "readLoop_request req c =
    (if requestsClosed c then Panics
     else case chan_send (nat (MaxServerRequestHandlers (al c))) (serverRequests c) req of
         Some q \<Rightarrow> Continues (ensureServerRequestWorkers (c\<lparr>serverRequests := q\<rparr>))
       | None \<Rightarrow> stop_with (closed_limit ''server request handler queue limit exceeded'') c)"

definition readLoop_notification :: "string \<Rightarrow> raw \<Rightarrow> AppClient \<Rightarrow> read_result" where
  "readLoop_notification m params c =
    (case RouteNotification m params (rtr c) of
       None \<Rightarrow> Blocks
     | Some (r1, None) \<Rightarrow> Continues (c\<lparr>rtr := r1\<rparr>)
     | Some (r1, Some e) \<Rightarrow> stop_with (closed_limit (err_text e)) (c\<lparr>rtr := r1\<rparr>))"

definition readLoop_response :: "string \<Rightarrow> rpc option \<Rightarrow> raw \<Rightarrow> AppClient \<Rightarrow> read_result" where
  "readLoop_response rid err result c =
    (case (case err of
             Some e \<Rightarrow> RouteResponse rid None (Some (AppRPC e)) (rtr c)
           | None \<Rightarrow> RouteResponse rid result None (rtr c)) of
       None \<Rightarrow> Blocks
     | Some r1 \<Rightarrow> Continues (c\<lparr>rtr := r1\<rparr>))"

definition readLoop_line :: "(json \<Rightarrow> string) \<Rightarrow> raw \<Rightarrow> AppClient \<Rightarrow> read_result" where
  "readLoop_line sprint line c =
    (case dec_envelope line of
       None \<Rightarrow> stop_with (closed_with (''invalid json: '' @ err_text json_error)) c
     | Some en \<Rightarrow>
        (case en_ID en of
           Some i \<Rightarrow>
             if en_Method en \<noteq> '''' then
               readLoop_request \<lparr>sr_id = i, sr_method = en_Method en, sr_params = en_Params en\<rparr> c
             else readLoop_response (id_text sprint i) (en_Error en) (en_Result en) c
         | None \<Rightarrow>
             if en_Method en \<noteq> '''' then readLoop_notification (en_Method en) (en_Params en) c
             else Continues c))"

text \<open>The end of the loop: \<open>err\<close> is \<open>scanner.Err()\<close> and whether it is \<open>bufio.ErrTooLong\<close>.\<close>

definition readLoop_end :: "(go_error \<times> bool) option \<Rightarrow> AppClient \<Rightarrow> read_result" where
  "readLoop_end err c = (case err of
     None \<Rightarrow> Stops c
   | Some (e, tooLong) \<Rightarrow>
       if tooLong then stop_with (closed_limit (err_text e)) c else stop_with (closed_with (err_text e)) c)"

section \<open>Requests of the server\<close>

definition defaultApprovalHandler :: "string \<Rightarrow> ApprovalPolicyKind \<Rightarrow> go_error + raw" where
  "defaultApprovalHandler m policy =
    (let decision = (\<lambda>yes no. Inr (Some (JObj [(''decision'',
           JStr (if policy = ApprovalPolicyAutoReview then yes else no))])))
     in if m = ''item/commandExecution/requestApproval'' then decision ''accept'' ''cancel''
        else if m = ''item/fileChange/requestApproval'' then decision ''accept'' ''cancel''
        else if m = ''item/permissions/requestApproval'' then Inl (Text ''appserver: permissions request denied'')
        else if m = ''applyPatchApproval'' then decision ''approved'' ''abort''
        else if m = ''execCommandApproval'' then decision ''approved'' ''abort''
        else if m = ''item/tool/requestUserInput'' then Inl (Text ''appserver: tool user input denied'')
        else if m = ''mcpServer/elicitation/request''
          then Inr (Some (JObj [(''action'', JStr ''cancel''), (''content'', JNull)]))
        else if m = ''item/tool/call''
          then Inr (Some (JObj [(''success'', JBool False), (''contentItems'', JArr [])]))
        else if m = ''account/chatgptAuthTokens/refresh''
          then Inl (Text ''appserver: chatgpt token refresh unsupported'')
        else if m = ''attestation/generate'' then Inl (Text ''appserver: attestation generation unsupported'')
        else Inl (Text (''appserver: unsupported server request '' @ go_quote m)))"

definition defaultHandledServerRequests :: "string list" where
  "defaultHandledServerRequests = [''account/chatgptAuthTokens/refresh'', ''applyPatchApproval'',
     ''attestation/generate'', ''execCommandApproval'', ''item/commandExecution/requestApproval'',
     ''item/fileChange/requestApproval'', ''item/permissions/requestApproval'', ''item/tool/call'',
     ''item/tool/requestUserInput'', ''mcpServer/elicitation/request'']"

text \<open>
  \<open>handleServerRequest\<close>: exactly one reply is written, the error of the write is dropped. An
  empty result becomes an empty object.
\<close>

definition server_reply :: "json \<Rightarrow> go_error + raw \<Rightarrow> json" where
  "server_reply rid res = (case res of
     Inl e \<Rightarrow> JObj [(''error'', JObj [(''code'', JNum ''-32000''), (''message'', JStr (err_text e))]), (''id'', rid)]
   | Inr None \<Rightarrow> JObj [(''id'', rid), (''result'', JObj [])]
   | Inr (Some v) \<Rightarrow> JObj [(''id'', rid), (''result'', v)])"

definition handleServerRequest :: "go_error option \<Rightarrow> serverRequest \<Rightarrow> AppClient \<Rightarrow> AppClient" where
  "handleServerRequest wErr req c =
    (let res = (case Approval (cfg c) of
           Some h \<Rightarrow> h (sr_method req) (sr_params req)
         | None \<Rightarrow> defaultApprovalHandler (sr_method req) (ac_ApprovalPolicy (cfg c)))
     in fst (writeMessage wErr (server_reply (sr_id req) res) c))"

text \<open>One request taken by a worker, and the end of a worker when the channel is closed and empty.\<close>

definition worker_take :: "AppClient \<Rightarrow> (serverRequest \<times> AppClient) option" where
  "worker_take c = (case chan_recv (serverRequests c) of
     None \<Rightarrow> None
   | Some (req, q) \<Rightarrow> Some (req, c\<lparr>serverRequests := q\<rparr>))"

definition worker_exit :: "AppClient \<Rightarrow> AppClient option" where
  "worker_exit c = (if serverRequests c = [] \<and> requestsClosed c then Some (c\<lparr>workerCount := workerCount c - 1\<rparr>) else None)"

section \<open>Process exit\<close>

text \<open>
  \<open>waitLoop\<close>: once the process has been waited for the handlers are cancelled and the request
  channel is closed; after the workers are gone the error is recorded with the tail of the
  standard error, the router fails and \<open>waitDone\<close> is closed.
\<close>

definition wait_exited :: "AppClient \<Rightarrow> AppClient" where
  "wait_exited c = c\<lparr>handlersCancelled := True, requestsClosed := True\<rparr>"

definition exit_error :: "go_error option \<Rightarrow> string \<Rightarrow> go_error option" where
  "exit_error err stderrTail = (case err of
     None \<Rightarrow> None
   | Some e \<Rightarrow> Some (if stderrTail \<noteq> '''' then Wrapped (err_text e @ '': '' @ stderrTail) [e] else e))"

definition wait_finish :: "go_error option \<Rightarrow> AppClient \<Rightarrow> AppClient option" where
  "wait_finish err c = do {
     t \<leftarrow> (if err = None then Some '''' else StderrTail c);
     let e = exit_error err t;
     c1 \<leftarrow> app_fail (case e of Some x \<Rightarrow> closed_with (err_text x) | None \<Rightarrow> AppErrTransportClosed) (c\<lparr>waitErr := e\<rparr>);
     Some (c1\<lparr>waitDone := True\<rparr>)
   }"

end
