(* ===== verification/Redaction.thy ===== *)
theory Redaction
  imports Appserver
begin

text \<open>
  \<open>redactSecrets\<close> of the app-server transport: on ASCII text every one of its loops ends, and no
  API key survives.
\<close>

abbreviation sk :: string where
  "sk \<equiv> ''sk-''"

lemma str_index_skip:
  "c \<noteq> CHR ''s'' \<Longrightarrow> str_index (c # t) sk = map_option Suc (str_index t sk)"
  by simp

lemma str_index_bracket:
  assumes "str_index u sk = None" "c \<notin> set sk"
  shows "str_index (u @ c # t) sk = map_option (\<lambda>i. i + length u + 1) (str_index t sk)"
  using assms(1)
proof (induction u)
  case Nil
  then show ?case using assms(2) by (simp add: option.map_comp comp_def)
next
  case (Cons d u)
  have np: "\<not> hasPrefix (d # u) sk" "str_index u sk = None" using Cons.prems by (auto split: if_splits)
  have "\<not> hasPrefix (d # u @ c # t) sk"
  proof
    assume "hasPrefix (d # u @ c # t) sk"
    then have h: "d = CHR ''s''" "hasPrefix (u @ c # t) ''k-''" by simp_all
    show False
    proof (cases u)
      case Nil
      then show False using h assms(2) by simp
    next
      case (Cons e v)
      then have "e = CHR ''k''" "hasPrefix (v @ c # t) ''-''" using h by simp_all
      then show False using Cons h np(1) assms(2) by (cases v) simp_all
    qed
  qed
  then show ?case using Cons.IH np(2) by (auto simp: option.map_comp comp_def)
qed

lemma no_sk_append:
  assumes "str_index (u @ v) sk = None"
  shows "str_index u sk = None" "str_index v sk = None"
proof -
  have "\<not> str_contains (u @ v) sk" using assms by (simp add: str_contains_def)
  then have "\<not> str_contains u sk" "\<not> str_contains v sk"
    unfolding str_contains_iff by (metis append.assoc)+
  then show "str_index u sk = None" "str_index v sk = None" by (simp_all add: str_contains_def)
qed

lemma no_sk_redacted:
  assumes "str_index u sk = None" "str_index t sk = None"
  shows "str_index (u @ redacted @ t) sk = None"
proof -
  have "str_index (''REDACTED]'' @ t) sk = None" using assms(2) by simp
  then show ?thesis using str_index_bracket [OF assms(1), of "CHR ''[''" "''REDACTED]'' @ t"] by (simp add: redacted_def)
qed

lemma no_sk_take: "str_index s sk = None \<Longrightarrow> str_index (take n s) sk = None"
  using no_sk_append(1) [of "take n s" "drop n s"] by simp

lemma no_sk_drop: "str_index s sk = None \<Longrightarrow> str_index (drop n s) sk = None"
  using no_sk_append(2) [of "take n s" "drop n s"] by simp

lemma no_sk_dropWhile: "str_index s sk = None \<Longrightarrow> str_index (dropWhile P s) sk = None"
  by (simp add: dropWhile_eq_drop no_sk_drop)

lemma str_index_take_None: "str_index s p = Some i \<Longrightarrow> p \<noteq> [] \<Longrightarrow> str_index (take i s) p = None"
proof (induction s arbitrary: i)
  case (Cons c s)
  show ?case
  proof (cases "hasPrefix (c # s) p")
    case True
    with Cons.prems show ?thesis by simp
  next
    case False
    then obtain j where j: "str_index s p = Some j" "i = Suc j" using Cons.prems by auto
    have "\<not> hasPrefix (c # take j s) p"
    proof
      assume "hasPrefix (c # take j s) p"
      then obtain t where "c # take j s = p @ t" by (auto simp: hasPrefix_iff)
      then have "c # s = p @ (t @ drop j s)" by (metis append.assoc append_Cons append_take_drop_id)
      with False show False by (simp add: hasPrefix_iff)
    qed
    with Cons.IH [OF j(1) Cons.prems(2)] j show ?thesis by simp
  qed
qed (auto split: if_splits)

section \<open>API keys\<close>

abbreviation key_mark :: string where
  "key_mark \<equiv> ''[REDACTED_API_KEY]''"

lemma key_mark_index:
  assumes "str_index u sk = None"
  shows "str_index (u @ key_mark @ t) sk = map_option (\<lambda>j. j + (length u + 18)) (str_index t sk)"
proof -
  have "str_index (''REDACTED_API_KEY]'' @ t) sk = map_option (\<lambda>j. j + 17) (str_index t sk)"
    by (simp add: option.map_comp comp_def numeral_eq_Suc)
  then show ?thesis using str_index_bracket [OF assms, of "CHR ''[''" "''REDACTED_API_KEY]'' @ t"]
    by (cases "str_index t sk") simp_all
qed

lemma redactTokenLike_ends:
  assumes "\<And>t. str_index (a @ t) sk = map_option (\<lambda>i. i + length a) (str_index t sk)" "is_ascii (a @ s)"
  shows "\<exists>t. redactTokenLike (a @ s) sk key_mark = Some t \<and> str_index t sk = None \<and> is_ascii t"
  using assms
proof (induction "length s" arbitrary: a s rule: less_induct)
  case less
  show ?case
  proof (cases "str_index s sk")
    case None
    then show ?thesis using less.prems by (subst redactTokenLike.simps) simp
  next
    case (Some i)
    let ?b = "a @ take i s @ key_mark"
    let ?s = "dropWhile is_token_char (drop (3 + i) s)"
    have i: "i + 3 \<le> length s" using str_index_Some [OF Some] by simp
    have step: "redactTokenLike (a @ s) sk key_mark = redactTokenLike (?b @ ?s) sk key_mark"
      using Some less.prems(1) [of s] by (subst redactTokenLike.simps) simp
    have len: "length ?s < length s" using i le_less_trans [OF length_dropWhile_le, of "drop (3 + i) s"] by simp
    have u: "str_index (take i s) sk = None" by (rule str_index_take_None [OF Some]) simp
    have "str_index (?b @ t) sk = map_option (\<lambda>j. j + length ?b) (str_index t sk)" for t
    proof -
      have "str_index (?b @ t) sk = map_option (\<lambda>j. j + length a) (map_option (\<lambda>j. j + (length (take i s) + 18)) (str_index t sk))"
        unfolding append.assoc less.prems(1) key_mark_index [OF u] ..
      moreover have "length ?b = length a + (length (take i s) + 18)" by simp
      ultimately show ?thesis by (cases "str_index t sk") simp_all
    qed
    moreover have "is_ascii (?b @ ?s)"
      using less.prems(2) by (auto simp: is_ascii_def dest: set_dropWhileD in_set_takeD in_set_dropD)
    ultimately show ?thesis using less.hyps [OF len, of ?b] step by simp
  qed
qed

section \<open>Values of secret keys\<close>

lemma is_ascii_redacted [simp]: "is_ascii redacted"
  by (simp add: redacted_def)

lemma is_ascii_dropWhile: "is_ascii s \<Longrightarrow> is_ascii (dropWhile P s)"
  by (auto simp: is_ascii_def dest: set_dropWhileD)

lemmas ascii_parts = is_ascii_take is_ascii_drop is_ascii_dropWhile

text \<open>
  Both loops replace from some position on and go on behind the replacement: what is left to
  search gets shorter.
\<close>

lemma replaced_rest:
  assumes "pos \<le> length input"
  shows "drop (pos + length redacted) (take pos input @ redacted @ dropWhile P (drop pos input)) = dropWhile P (drop pos input)"
  using assms by simp

lemma found_position:
  assumes "str_index (toLower (drop off input)) (toLower key) = Some i" "is_ascii input" "is_ascii key" "key \<noteq> ''''"
  shows "off < i + off + length (toLower key)" "i + off + length (toLower key) \<le> length input"
proof -
  have l: "length (toLower (drop off input)) = length input - off" "length (toLower key) = length key"
    using assms(2,3) by (simp_all add: length_toLower_ascii is_ascii_drop)
  have k: "0 < length key" using assms(4) by simp
  show "off < i + off + length (toLower key)" using l k by linarith
  have "i + length (toLower key) \<le> length input - off" using str_index_Some [OF assms(1)] l(1) by simp
  then show "i + off + length (toLower key) \<le> length input" using l(2) k by linarith
qed

lemma rest_shorter:
  assumes "off < pos" "pos \<le> length input"
  shows "length (dropWhile P (drop pos input)) < length (drop off input)"
  using assms le_less_trans [OF length_dropWhile_le, of "drop pos input"] by simp

lemma redactKeyValue_ends:
  assumes "is_ascii key" "key \<noteq> ''''" "is_ascii input" "str_index input sk = None"
  shows "\<exists>t. redactKeyValue_from off input key = Some t \<and> is_ascii t \<and> str_index t sk = None"
  using assms
proof (induction "length (drop off input)" arbitrary: off input rule: less_induct)
  case less
  show ?case
  proof (cases "str_index (toLower (drop off input)) (toLower key)")
    case None
    then show ?thesis using less.prems by (subst redactKeyValue_from.simps) simp
  next
    case (Some i)
    let ?p0 = "i + off + length (toLower key)"
    let ?pos = "?p0 + length (takeWhile is_separator (drop ?p0 input))"
    let ?in = "take ?pos input @ redacted @ dropWhile (\<lambda>c. \<not> ends_value c) (drop ?pos input)"
    note f = found_position [OF Some less.prems(3,1,2)]
    have pos: "off < ?pos" "?pos \<le> length input"
      using f length_takeWhile_le [of is_separator "drop ?p0 input"] length_drop [of ?p0 input] by linarith+
    have "length (drop (?pos + length redacted) ?in) < length (drop off input)"
      unfolding replaced_rest [OF pos(2)] by (rule rest_shorter [OF pos])
    moreover have "is_ascii ?in" using less.prems(3) by (simp add: ascii_parts)
    moreover have "str_index ?in sk = None"
      using less.prems(4) by (intro no_sk_redacted no_sk_take no_sk_dropWhile no_sk_drop)
    ultimately show ?thesis
      using less.hyps [of "?pos + length redacted" ?in] less.prems(1,2) Some
      by (subst redactKeyValue_from.simps) (simp add: Let_def)
  qed
qed

lemma redactJSONValue_ends:
  assumes "is_ascii key" "is_ascii input" "str_index input sk = None"
  shows "\<exists>t. redactJSONValue_from off input key = Some t \<and> is_ascii t \<and> str_index t sk = None"
  using assms
proof (induction "length (drop off input)" arbitrary: off input rule: less_induct)
  case less
  have m: "is_ascii (json_marker key)" "json_marker key \<noteq> ''''"
    using less.prems(1) by (simp_all add: json_marker_def)
  show ?case
  proof (cases "str_index (toLower (drop off input)) (toLower (json_marker key))")
    case None
    then show ?thesis using less.prems by (subst redactJSONValue_from.simps) simp
  next
    case (Some i)
    let ?pos = "i + off + length (json_marker key)"
    let ?in = "take ?pos input @ redacted @ dropWhile (\<lambda>c. c \<noteq> CHR 34) (drop ?pos input)"
    have pos: "off < ?pos" "?pos \<le> length input"
      using found_position [OF Some less.prems(2) m] m(1) by (simp_all add: length_toLower_ascii)
    have "length (drop (?pos + length redacted) ?in) < length (drop off input)"
      unfolding replaced_rest [OF pos(2)] by (rule rest_shorter [OF pos])
    moreover have "is_ascii ?in" using less.prems(2) by (simp add: ascii_parts)
    moreover have "str_index ?in sk = None"
      using less.prems(3) by (intro no_sk_redacted no_sk_take no_sk_dropWhile no_sk_drop)
    ultimately show ?thesis
      using less.hyps [of "?pos + length redacted" ?in] less.prems(1) Some
      by (subst redactJSONValue_from.simps) (simp add: Let_def)
  qed
qed

lemma redact_all_ends:
  assumes "\<And>s k. is_ascii s \<Longrightarrow> str_index s sk = None \<Longrightarrow> k \<in> set ks \<Longrightarrow>
      \<exists>t. f s k = Some t \<and> is_ascii t \<and> str_index t sk = None"
    "is_ascii s" "str_index s sk = None"
  shows "\<exists>t. redact_all f ks s = Some t \<and> is_ascii t \<and> str_index t sk = None"
  using assms
proof (induction ks arbitrary: s)
  case (Cons k ks)
  obtain t where t: "f s k = Some t" "is_ascii t" "str_index t sk = None"
    using Cons.prems(1) [of s k] Cons.prems(2,3) by auto
  with Cons.IH [of t] Cons.prems(1) show ?case by simp
qed simp

lemma secret_keys_ok: "\<forall>k\<in>set secret_keys. is_ascii k \<and> k \<noteq> ''''" "\<forall>k\<in>set secret_json_keys. is_ascii k"
  by (simp_all add: secret_keys_def secret_json_keys_def)

lemma redactSecrets_ends:
  assumes "is_ascii input"
  shows "\<exists>t. redactSecrets input = Some t \<and> is_ascii t \<and> str_index t sk = None"
proof -
  obtain s1 where s1: "redactTokenLike input sk key_mark = Some s1" "str_index s1 sk = None" "is_ascii s1"
    using redactTokenLike_ends [of "[]" input] assms by (auto simp: option.map_ident)
  have "\<exists>t. redact_all redactKeyValue secret_keys s1 = Some t \<and> is_ascii t \<and> str_index t sk = None"
    by (rule redact_all_ends)
      (use s1 redactKeyValue_ends secret_keys_ok(1) in \<open>auto simp: redactKeyValue_def\<close>)
  then obtain s2 where s2: "redact_all redactKeyValue secret_keys s1 = Some s2" "is_ascii s2" "str_index s2 sk = None"
    by blast
  have "\<exists>t. redact_all redactJSONValue secret_json_keys s2 = Some t \<and> is_ascii t \<and> str_index t sk = None"
    by (rule redact_all_ends)
      (use s2 redactJSONValue_ends secret_json_keys_def secret_keys_ok(2) in \<open>auto simp: redactJSONValue_def\<close>)
  then show ?thesis using s1 s2 by (auto simp: redactSecrets_def)
qed



section \<open>The standard error ring\<close>

definition ring_ok :: "AppClient \<Rightarrow> bool" where
  "ring_ok c \<longleftrightarrow> stderrBytes c = (\<Sum>l\<leftarrow>stderrLines c. int (length l)) \<and>
     int (length (stderrLines c)) \<le> MaxStderrLines (al c) \<and> stderrBytes c \<le> MaxStderrBytes (al c)"

lemma sum_lengths_nonneg: "0 \<le> (\<Sum>l\<leftarrow>(ls :: string list). int (length l))"
  by (induction ls) auto

lemma trim_ring_spec:
  assumes "n = (\<Sum>l\<leftarrow>ls. int (length l))" "0 < MaxStderrLines lim" "0 < MaxStderrBytes lim"
  shows "\<exists>k. trim_ring lim ls n = (drop k ls, \<Sum>l\<leftarrow>drop k ls. int (length l)) \<and>
    int (length (drop k ls)) \<le> MaxStderrLines lim \<and> (\<Sum>l\<leftarrow>drop k ls. int (length l)) \<le> MaxStderrBytes lim"
  using assms
proof (induction lim ls n rule: trim_ring.induct)
  case (1 lim ls n)
  show ?case
  proof (cases "int (length ls) > MaxStderrLines lim \<or> n > MaxStderrBytes lim")
    case False
    then have "trim_ring lim ls n = (ls, n)" by (subst trim_ring.simps) simp
    then show ?thesis using False "1.prems"(1) by (intro exI [of _ 0]) simp
  next
    case True
    show ?thesis
    proof (cases ls)
      case Nil
      then show ?thesis using True "1.prems" by simp
    next
      case (Cons x xs)
      obtain k where "trim_ring lim xs (n - int (length x)) = (drop k xs, \<Sum>l\<leftarrow>drop k xs. int (length l))"
        "int (length (drop k xs)) \<le> MaxStderrLines lim" "(\<Sum>l\<leftarrow>drop k xs. int (length l)) \<le> MaxStderrBytes lim"
        using "1.IH" [OF True Cons] "1.prems" Cons by auto
      moreover have "trim_ring lim ls n = trim_ring lim xs (n - int (length x))"
        using True Cons by (subst trim_ring.simps) simp
      ultimately show ?thesis using Cons by (intro exI [of _ "Suc k"]) simp
    qed
  qed
qed

text \<open>The standard error tail is bounded and loses only old lines: draining one more ASCII line
  ends, keeps the byte count exact and both limits, and what is kept is an end part of the lines seen,
  each of them redacted.\<close>
theorem stderr_ring_bounded:
  assumes "ring_ok c" "is_ascii line" "0 < MaxStderrLines (al c)" "0 < MaxStderrBytes (al c)"
  shows "\<exists>c' t k. drainStderr_line line c = Some c' \<and> redactSecrets line = Some t \<and> ring_ok c' \<and>
    stderrLines c' = drop k (stderrLines c @ [t])"
proof -
  obtain t where t: "redactSecrets line = Some t" using redactSecrets_ends [OF assms(2)] by blast
  have n: "stderrBytes c + int (length t) = (\<Sum>l\<leftarrow>stderrLines c @ [t]. int (length l))"
    using assms(1) by (simp add: ring_ok_def)
  from trim_ring_spec [OF n assms(3,4)] t show ?thesis
    by (auto simp: drainStderr_line_def ring_ok_def)
qed

theorem stderr_ring_bounded_witness:
  "\<exists>c'. drainStderr_line ''warning: sk-1 seen'' (app_New \<lparr>ExecutablePath = ''codex'', LaunchArgs = [], Cwd = [],
      ac_Env = [], ConfigFlags = [], ClientName = [], ClientTitle = [], ClientVersion = [], Approval = None,
      ac_ApprovalPolicy = ApprovalPolicyDeny, ac_Limits = AppDefaultLimits\<lparr>MaxStderrLines := 1\<rparr>\<rparr>) = Some c' \<and>
     length (stderrLines c') \<le> 1"
proof -
  let ?c = "app_New \<lparr>ExecutablePath = ''codex'', LaunchArgs = [], Cwd = [],
      ac_Env = [], ConfigFlags = [], ClientName = [], ClientTitle = [], ClientVersion = [], Approval = None,
      ac_ApprovalPolicy = ApprovalPolicyDeny, ac_Limits = AppDefaultLimits\<lparr>MaxStderrLines := 1\<rparr>\<rparr>"
  have l: "MaxStderrLines (al ?c) = 1" "0 < MaxStderrBytes (al ?c)" "ring_ok ?c"
    by (simp_all add: app_New_def ring_ok_def Let_def app_normalizeLimits_def AppDefaultLimits_def mib_def)
  from stderr_ring_bounded [OF l(3), of "''warning: sk-1 seen''"] l(1,2)
  obtain c' where "drainStderr_line ''warning: sk-1 seen'' ?c = Some c'" "ring_ok c'" by auto
  moreover then have "al c' = al ?c" by (auto simp: drainStderr_line_def split: option.splits prod.splits)
  ultimately show ?thesis using l(1) by (intro exI [of _ c']) (simp add: ring_ok_def)
qed

end
