(* ===== verification/Appserver_Props.thy ===== *)
theory Appserver_Props
  imports Appserver Router_Props Redaction
begin

text \<open>
  The transport as a system of goroutines: requests, the reader, the stderr drain, the workers,
  the waiter for the exit and the consumers of routes take turns on one client. Its router takes
  only steps of the concurrent router of \<open>Router_Inv\<close>, so everything proved there holds here.
\<close>

section \<open>The router inside\<close>

definition quiet :: "rsys \<Rightarrow> bool" where
  "quiet s \<longleftrightarrow> waiting s = [] \<and> recvd s = [] \<and> grecvd s = [] \<and> senders s = [] \<and> failing s = []"

definition router_reach :: "Limits \<Rightarrow> MessageRouter \<Rightarrow> bool" where
  "router_reach l r \<longleftrightarrow> (\<exists>s. rreach l s \<and> rt s = r \<and> quiet s)"

lemma router_reachI: "rreach l s \<Longrightarrow> quiet s \<Longrightarrow> rt s = r \<Longrightarrow> router_reach l r"
  by (auto simp: router_reach_def)

lemma router_reach_step:
  assumes "router_reach l r" "\<And>s. rt s = r \<Longrightarrow> quiet s \<Longrightarrow> rstep s (s\<lparr>rt := r'\<rparr>)"
  shows "router_reach l r'"
proof -
  obtain s where "rreach l s" "rt s = r" "quiet s" using assms(1) by (auto simp: router_reach_def)
  with assms(2) show ?thesis
    by (intro router_reachI [of l "s\<lparr>rt := r'\<rparr>"]) (auto simp: quiet_def intro: rreach.step)
qed

lemma router_reach_New: "router_reach l (Router.New l)"
  by (rule router_reachI [OF rreach.start]) (simp_all add: quiet_def init_sys_def)

lemma router_reach_create: "router_reach l r \<Longrightarrow> router_reach l (fst (CreateResponseWaiter i r))"
  by (erule router_reach_step) (metis rstep.create)

lemma router_reach_discard: "router_reach l r \<Longrightarrow> router_reach l (DiscardResponseWaiter i r)"
  by (erule router_reach_step) (metis rstep.discard)

lemma router_reach_await:
  "router_reach l r \<Longrightarrow> waiterHeap r w = x # q \<Longrightarrow> router_reach l (r\<lparr>waiterHeap := (waiterHeap r)(w := q)\<rparr>)"
  by (erule router_reach_step) (metis rstep.await)

lemma router_reach_register: "router_reach l r \<Longrightarrow> registerRoute i k r = Some (r', e) \<Longrightarrow> router_reach l r'"
  by (erule router_reach_step) (metis rstep.register)

lemma router_reach_unregister: "router_reach l r \<Longrightarrow> router_reach l (unregisterRoute i k r)"
  by (erule router_reach_step) (metis rstep.unregister)

lemma router_reach_scoped:
  "router_reach l r \<Longrightarrow> 0 \<le> Size item \<Longrightarrow> routeScoped i item k only r = Some (r', e) \<Longrightarrow> router_reach l r'"
  by (erule router_reach_step) (metis rstep.scoped)

lemma router_reach_global:
  "router_reach l r \<Longrightarrow> 0 \<le> Size item \<Longrightarrow> routeGlobal item r = Some (r', e) \<Longrightarrow> router_reach l r'"
  by (erule router_reach_step) (metis rstep.global)

lemma notificationItem_Size: "0 \<le> Size (notificationItem m p)"
  by (simp add: notificationItem_def)

lemma router_reach_total:
  assumes "router_reach l r" "0 \<le> Size item"
  shows "routeScoped i item k only r \<noteq> None" "routeGlobal item r \<noteq> None" "registerRoute i k r \<noteq> None"
proof -
  obtain s where s: "rreach l s" "rt s = r" using assms(1) by (auto simp: router_reach_def)
  have "routeScoped i item k only r \<noteq> None \<and> routeGlobal item r \<noteq> None \<and> registerRoute i k r \<noteq> None"
    using rreach_sends [OF s(1) assms(2), of i k only] s(2) by simp
  then show "routeScoped i item k only r \<noteq> None" "routeGlobal item r \<noteq> None" "registerRoute i k r \<noteq> None"
    by auto
qed

lemma router_reach_waiters:
  assumes "router_reach l r"
  shows "\<exists>st. waiters_ok r [] st"
  using assms rreach_inv by (fastforce simp: router_reach_def rinv_def quiet_def)

lemma router_reach_notification:
  assumes r: "router_reach l r"
  shows "\<exists>r' e. RouteNotification m p r = Some (r', e) \<and> router_reach l r'"
proof -
  let ?x = "notificationItem m p"
  have sc: "\<exists>r' e. routeScoped i ?x k only q = Some (r', e) \<and> router_reach l r'" if "router_reach l q" for i k only q
    using router_reach_total(1) [OF that notificationItem_Size] router_reach_scoped [OF that notificationItem_Size]
    by fastforce
  have gl: "\<exists>r' e. routeGlobal ?x q = Some (r', e) \<and> router_reach l r'" if "router_reach l q" for q
    using router_reach_total(2) [OF that notificationItem_Size] router_reach_global [OF that notificationItem_Size]
    by fastforce
  let ?t = "notificationTurnID p" and ?h = "notificationThreadID p"
  obtain r1 e1 where 1: "(if ?t \<noteq> '''' then routeScoped ?t ?x turnRoute False r else Some (r, None)) = Some (r1, e1)"
    "router_reach l r1" using sc [OF r, of ?t turnRoute False] r by (cases "?t = ''''") auto
  obtain r2 e2 where 2: "(if ?h \<noteq> '''' \<and> goalRelevantMethod m then routeScoped ?h ?x goalRoute True r1
      else Some (r1, None)) = Some (r2, e2)" "router_reach l r2"
    using sc [OF 1(2), of ?h goalRoute True] 1(2) by (cases "?h \<noteq> '''' \<and> goalRelevantMethod m") auto
  show ?thesis unfolding RouteNotification_def Let_def 1(1)
    using sc [OF r] 1(2) 2 gl [OF 2(2)] by (auto split: option.splits)
qed

lemma router_reach_response:
  assumes r: "router_reach l r"
  shows "\<exists>r'. RouteResponse i res err r = Some r' \<and> router_reach l r'"
proof -
  obtain s where s: "rreach l s" "rt s = r" "quiet s" using r by (auto simp: router_reach_def)
  obtain r1 ow where t: "takeWaiter i r = (r1, ow)" by fastforce
  show ?thesis
  proof (cases ow)
    case None
    have "router_reach l r1"
      by (rule router_reach_step [OF r]) (metis rstep.take_none t None)
    with t None show ?thesis by (simp add: RouteResponse_def)
  next
    case (Some w)
    let ?resp = "\<lparr>Result = res, RespErr = err\<rparr>"
    let ?s1 = "s\<lparr>rt := r1, senders := (w, ?resp) # senders s\<rparr>"
    have r1: "rreach l ?s1"
      using rreach.step [OF s(1) rstep.take [of i s r1 w ?resp]] t Some s(2) by simp
    have "waiters_ok r1 ([] @ (w, ?resp) # []) (sent s)"
      using rreach_inv [OF r1] s(3) by (simp add: rinv_def quiet_def)
    from waiters_send [OF this] obtain r2 where r2: "sendResponse w ?resp r1 = Some r2" by auto
    have "rreach l (?s1\<lparr>rt := r2, senders := [] @ [], sent := w # sent ?s1\<rparr>)"
      by (rule rreach.step [OF r1 rstep.send]) (use s(3) r2 in \<open>auto simp: quiet_def\<close>)
    then have "router_reach l r2" by (rule router_reachI) (use s(3) in \<open>auto simp: quiet_def\<close>)
    with t Some r2 show ?thesis by (simp add: RouteResponse_def)
  qed
qed

lemma rreach_send_all:
  assumes "rreach l s" "senders s = map (\<lambda>w. (w, resp)) ws"
  shows "\<exists>r' t. sendResponses ws resp (rt s) = Some r' \<and> rreach l t \<and> rt t = r' \<and> senders t = [] \<and>
    waiting t = waiting s \<and> recvd t = recvd s \<and> grecvd t = grecvd s \<and> failing t = failing s"
  using assms
proof (induction ws arbitrary: s)
  case (Cons w ws)
  have sd: "senders s = [] @ (w, resp) # map (\<lambda>w. (w, resp)) ws" using Cons.prems(2) by simp
  have "waiters_ok (rt s) ([] @ (w, resp) # map (\<lambda>w. (w, resp)) ws) (sent s)"
    using rreach_inv [OF Cons.prems(1)] sd by (simp add: rinv_def)
  from waiters_send [OF this] obtain r1 where r1: "sendResponse w resp (rt s) = Some r1" by auto
  let ?s = "s\<lparr>rt := r1, senders := [] @ map (\<lambda>w. (w, resp)) ws, sent := w # sent s\<rparr>"
  have "rreach l ?s" by (rule rreach.step [OF Cons.prems(1) rstep.send [OF sd r1]])
  from Cons.IH [OF this] r1 show ?case by auto
qed auto

lemma rreach_fail_queues:
  assumes "rreach l s" "failing s = map (\<lambda>a. (Some a, e)) qs @ [(None, e)]"
  shows "\<exists>t. rreach l t \<and> rt t = failGlobal e (fold (failQueue e) qs (rt s)) \<and> senders t = senders s \<and>
    waiting t = waiting s \<and> recvd t = recvd s \<and> grecvd t = grecvd s \<and> failing t = []"
  using assms
proof (induction qs arbitrary: s)
  case Nil
  then have "rreach l (s\<lparr>rt := failGlobal e (rt s), failing := []\<rparr>)"
    by (auto intro: rreach.step rstep.fail_global)
  then show ?case by (intro exI [of _ "s\<lparr>rt := failGlobal e (rt s), failing := []\<rparr>"]) simp
next
  case (Cons a qs)
  let ?s = "s\<lparr>rt := failQueue e a (rt s), failing := map (\<lambda>a. (Some a, e)) qs @ [(None, e)]\<rparr>"
  have "rreach l ?s" using Cons.prems by (auto intro: rreach.step rstep.fail_queue)
  from Cons.IH [OF this] show ?case by auto
qed

lemma router_reach_fail:
  assumes r: "router_reach l r"
  shows "\<exists>r'. FailAll err r = Some r' \<and> router_reach l r'"
proof (cases "failed r")
  case (Some e)
  with r show ?thesis by (simp add: FailAll_def failAll_lock_def)
next
  case None
  obtain s where s: "rreach l s" "rt s = r" "quiet s" using r by (auto simp: router_reach_def)
  obtain r1 ws qs where f: "failAll_lock err r = Some (r1, ws, qs)" using None by (simp add: failAll_lock_def)
  let ?e = "failure_of err" and ?resp = "\<lparr>Result = None, RespErr = Some (failure_of err)\<rparr>"
  have "rreach l (s\<lparr>rt := r1, senders := map (\<lambda>w. (w, ?resp)) ws @ senders s,
      failing := map (\<lambda>a. (Some a, ?e)) qs @ [(None, ?e)]\<rparr>)" (is "rreach l ?s1")
    by (rule rreach.step [OF s(1) rstep.fail]) (use f s(2) in simp)
  then obtain t where t: "sendResponses ws ?resp r1 = Some (rt t)" "rreach l t" "senders t = []"
    "waiting t = []" "recvd t = []" "grecvd t = []" "failing t = map (\<lambda>a. (Some a, ?e)) qs @ [(None, ?e)]"
    using rreach_send_all [of l ?s1 ?resp ws] s(3) by (auto simp: quiet_def)
  from rreach_fail_queues [OF t(2,7)] t(3-6)
  have "router_reach l (failGlobal ?e (fold (failQueue ?e) qs (rt t)))"
    by (auto simp: router_reach_def quiet_def)
  with f t(1) show ?thesis by (simp add: FailAll_def)
qed

lemma router_reach_next:
  assumes r: "router_reach l r"
  shows "router_reach l (fst (nextRoute i k ctx r))"
proof (cases "\<exists>a fl item q. lookupRoute i k r = Inr (a, fl) \<and> recvRoute a r = Some (item, q)")
  case True
  then obtain a fl item q where a: "lookupRoute i k r = Inr (a, fl)" "recvRoute a r = Some (item, q)" by blast
  obtain s where s: "rreach l s" "rt s = r" "quiet s" using r by (auto simp: router_reach_def)
  let ?s1 = "s\<lparr>waiting := (k, i, a) # waiting s\<rparr>"
  have 1: "rreach l ?s1" using rreach.step [OF s(1) rstep.lookup] a s(2) by blast
  let ?s2 = "?s1\<lparr>rt := q, waiting := [] @ waiting s, recvd := (k, i, a, Size item) # recvd ?s1\<rparr>"
  have 2: "rreach l ?s2" by (rule rreach.step [OF 1 rstep.receive]) (use a s(2) in auto)
  have "rreach l (?s2\<lparr>rt := releaseRouteItem i a k (Size item) (rt ?s2), recvd := [] @ recvd s\<rparr>)"
    by (rule rreach.step [OF 2 rstep.release]) simp
  then have "router_reach l (releaseRouteItem i a k (Size item) q)"
    by (rule router_reachI) (use s(3) in \<open>auto simp: quiet_def\<close>)
  with a show ?thesis by (simp add: nextRoute_def tryNextRoute_def)
next
  case False
  then have "fst (nextRoute i k ctx r) = r"
    by (auto simp: nextRoute_def tryNextRoute_def split: sum.splits option.splits)
  with r show ?thesis by simp
qed

lemma router_reach_next_global:
  assumes r: "router_reach l r"
  shows "router_reach l (fst (NextGlobal ctx r))"
proof (cases "recvGlobal r")
  case None
  then show ?thesis using r by (simp add: NextGlobal_def tryNextGlobal_def split: option.splits)
next
  case (Some p)
  obtain item q where p: "recvGlobal r = Some (item, q)" using Some by (cases p) auto
  obtain s where s: "rreach l s" "rt s = r" "quiet s" using r by (auto simp: router_reach_def)
  let ?s1 = "s\<lparr>rt := q, grecvd := Size item # grecvd s\<rparr>"
  have 1: "rreach l ?s1" using rreach.step [OF s(1) rstep.receive_global] p s(2) by blast
  have "rreach l (?s1\<lparr>rt := releaseGlobal (Size item) (rt ?s1), grecvd := [] @ grecvd s\<rparr>)"
    by (rule rreach.step [OF 1 rstep.release_global]) simp
  then have "router_reach l (releaseGlobal (Size item) q)"
    by (rule router_reachI) (use s(3) in \<open>auto simp: quiet_def\<close>)
  with p show ?thesis by (simp add: NextGlobal_def tryNextGlobal_def)
qed

lemmas router_reaches = router_reach_create router_reach_discard router_reach_register
  router_reach_unregister router_reach_next router_reach_next_global

section \<open>The client as a system\<close>

text \<open>
  A system state is a client and the requests that wait for their response, each with its
  identifier and channel. The counter of requests does not wrap: fewer than \<open>2^64\<close> are sent.
\<close>

type_synonym asys = "AppClient \<times> (string \<times> addr) list"

inductive astep :: "asys \<Rightarrow> asys \<Rightarrow> bool" where
  start: "astep (c, out) (fst (startProcess osErr c), out)"
| send: "requestID c + 1 < 2 ^ 64 \<Longrightarrow> request_send wErr m p c = (c', Inr (i, w)) \<Longrightarrow> astep (c, out) (c', (i, w) # out)"
| send_err: "requestID c + 1 < 2 ^ 64 \<Longrightarrow> request_send wErr m p c = (c', Inl e) \<Longrightarrow> astep (c, out) (c', out)"
| finish: "out = xs @ (i, w) # ys \<Longrightarrow> request_wait ctx i w c = Some (c', x) \<Longrightarrow> astep (c, out) (c', xs @ ys)"
| notify: "astep (c, out) (fst (Notify wErr m p c), out)"
| line: "readLoop_line sprint l c = Continues c' \<or> readLoop_line sprint l c = Stops c' \<Longrightarrow> astep (c, out) (c', out)"
| eof: "readLoop_end err c = Stops c' \<Longrightarrow> astep (c, out) (c', out)"
| stderr: "drainStderr_line text c = Some c' \<Longrightarrow> astep (c, out) (c', out)"
| take: "worker_take c = Some (req, c') \<Longrightarrow> astep (c, out) (c', out)"
| handle: "astep (c, out) (handleServerRequest wErr req c, out)"
| leave: "0 < workerCount c \<Longrightarrow> worker_exit c = Some c' \<Longrightarrow> astep (c, out) (c', out)"
| exited: "astep (c, out) (wait_exited c, out)"
| gone: "wait_finish err c = Some c' \<Longrightarrow> astep (c, out) (c', out)"
| init: "astep (c, out) (record_init res c, out)"
| close: "astep (c, out) (close_begin c, out)"
| register: "registerRoute i k (rtr c) = Some (r', e) \<Longrightarrow> astep (c, out) (c\<lparr>rtr := r'\<rparr>, out)"
| unregister: "astep (c, out) (c\<lparr>rtr := unregisterRoute i k (rtr c)\<rparr>, out)"
| next_route: "astep (c, out) (c\<lparr>rtr := fst (nextRoute i k ctx (rtr c))\<rparr>, out)"
| next_global: "astep (c, out) (c\<lparr>rtr := fst (NextGlobal ctx (rtr c))\<rparr>, out)"

inductive areach :: "AppConfig \<Rightarrow> asys \<Rightarrow> bool" for cf where
  created: "areach cf (app_New cf, [])"
| moved: "areach cf s \<Longrightarrow> astep s t \<Longrightarrow> areach cf t"

section \<open>What the steps keep\<close>

text \<open>The parts of the state a step may change, operation by operation.\<close>

lemma writeMessage_fields:
  assumes "writeMessage wErr msg c = (c', e)"
  shows "al c' = al c" "rtr c' = rtr c" "requestID c' = requestID c" "serverRequests c' = serverRequests c"
    "workerCount c' = workerCount c" "requestsClosed c' = requestsClosed c"
  using assms by (auto simp: writeMessage_def split: if_splits option.splits)

lemma Notify_fields:
  "al (fst (Notify wErr m p c)) = al c" "rtr (fst (Notify wErr m p c)) = rtr c"
  "requestID (fst (Notify wErr m p c)) = requestID c" "serverRequests (fst (Notify wErr m p c)) = serverRequests c"
  "workerCount (fst (Notify wErr m p c)) = workerCount c" "requestsClosed (fst (Notify wErr m p c)) = requestsClosed c"
  by (auto simp: Notify_def writeMessage_def split: option.splits)

lemma handleServerRequest_fields:
  "al (handleServerRequest wErr req c) = al c" "rtr (handleServerRequest wErr req c) = rtr c"
  "requestID (handleServerRequest wErr req c) = requestID c"
  "serverRequests (handleServerRequest wErr req c) = serverRequests c"
  "workerCount (handleServerRequest wErr req c) = workerCount c"
  by (auto simp: handleServerRequest_def writeMessage_def Let_def split: option.splits)

lemma app_fail_fields:
  assumes "app_fail e c = Some c'"
  shows "al c' = al c" "requestID c' = requestID c" "serverRequests c' = serverRequests c" "workerCount c' = workerCount c"
    "FailAll (Some e) (rtr c) = Some (rtr c')"
  using assms by (auto simp: app_fail_def)

text \<open>How a line can end: the router took a notification or a response, failed, or was left alone.\<close>

definition routed :: "MessageRouter \<Rightarrow> MessageRouter \<Rightarrow> bool" where
  "routed r r' \<longleftrightarrow> r' = r \<or> (\<exists>m p e. RouteNotification m p r = Some (r', e)) \<or>
     (\<exists>i res e. RouteResponse i res e r = Some r') \<or> (\<exists>e. FailAll e r = Some r') \<or>
     (\<exists>m p e f q. RouteNotification m p r = Some (q, e) \<and> FailAll f q = Some r')"

lemma stop_with_Stops: "stop_with e c = Stops c' \<longleftrightarrow> app_fail e c = Some c'" "stop_with e c \<noteq> Continues c'"
  by (auto simp: stop_with_def split: option.splits)

lemma start_workers_le: "n \<le> lim \<Longrightarrow> start_workers lim q n \<le> lim"
  by (induction lim q n rule: start_workers.induct) (simp add: start_workers.simps)

lemma start_workers_ge: "n \<le> start_workers lim q n"
  by (induction lim q n rule: start_workers.induct)
    (metis start_workers.simps dual_order.refl add_le_imp_le_left le_add_same_cancel1 order_trans zero_le_one)

lemma start_workers_pos: "0 < lim \<Longrightarrow> 0 \<le> q \<Longrightarrow> 0 \<le> n \<Longrightarrow> 1 \<le> start_workers lim q n"
  using start_workers_ge [of n lim q] start_workers_ge [of "n + 1" lim q]
  by (cases "n = 0") (auto simp: start_workers.simps [of lim q 0])

definition workers_ok :: "AppClient \<Rightarrow> bool" where
  "workers_ok c \<longleftrightarrow> 0 < MaxServerRequestHandlers (al c) \<and> 0 \<le> workerCount c \<and>
     workerCount c \<le> MaxServerRequestHandlers (al c) \<and>
     int (length (serverRequests c)) \<le> MaxServerRequestHandlers (al c) \<and>
     (serverRequests c \<noteq> [] \<longrightarrow> 1 \<le> workerCount c)"

lemma workers_ok_keep:
  "workers_ok c \<Longrightarrow> al c' = al c \<Longrightarrow> serverRequests c' = serverRequests c \<Longrightarrow> workerCount c' = workerCount c \<Longrightarrow>
     workers_ok c'"
  by (simp add: workers_ok_def)

lemma workers_ok_enqueue:
  assumes "workers_ok c" "chan_send (nat (MaxServerRequestHandlers (al c))) (serverRequests c) req = Some q"
  shows "workers_ok (ensureServerRequestWorkers (c\<lparr>serverRequests := q\<rparr>))"
  using assms start_workers_pos [of "MaxServerRequestHandlers (al c)" "int (length q)" "workerCount c"]
    start_workers_le [of "workerCount c" "MaxServerRequestHandlers (al c)" "int (length q)"]
    start_workers_ge [of "workerCount c" "MaxServerRequestHandlers (al c)" "int (length q)"]
  by (auto simp: workers_ok_def ensureServerRequestWorkers_def chan_send_def split: if_splits)

lemma readLoop_request_keeps:
  assumes "readLoop_request req c = Continues c' \<or> readLoop_request req c = Stops c'"
  shows "al c' = al c \<and> requestID c' = requestID c \<and> routed (rtr c) (rtr c') \<and> (workers_ok c \<longrightarrow> workers_ok c')"
proof (cases "chan_send (nat (MaxServerRequestHandlers (al c))) (serverRequests c) req")
  case None
  with assms obtain e where "app_fail e c = Some c'"
    by (auto simp: readLoop_request_def stop_with_Stops split: if_splits)
  note f = app_fail_fields [OF this]
  then show ?thesis using workers_ok_keep [of c c'] by (auto simp: routed_def)
next
  case (Some q)
  with assms have "c' = ensureServerRequestWorkers (c\<lparr>serverRequests := q\<rparr>)"
    by (auto simp: readLoop_request_def split: if_splits)
  with workers_ok_enqueue [OF _ Some] show ?thesis by (simp add: routed_def ensureServerRequestWorkers_def)
qed

lemma readLoop_response_keeps:
  assumes "readLoop_response i err res c = Continues c' \<or> readLoop_response i err res c = Stops c'"
  shows "al c' = al c \<and> requestID c' = requestID c \<and> routed (rtr c) (rtr c') \<and> (workers_ok c \<longrightarrow> workers_ok c')"
proof -
  obtain r a b where r: "c' = c\<lparr>rtr := r\<rparr>" "RouteResponse i a b (rtr c) = Some r"
    using assms by (auto simp: readLoop_response_def split: option.splits)
  then show ?thesis using workers_ok_keep [of c c'] by (auto simp: routed_def)
qed

lemma readLoop_notification_keeps:
  assumes "readLoop_notification m p c = Continues c' \<or> readLoop_notification m p c = Stops c'"
  shows "al c' = al c \<and> requestID c' = requestID c \<and> routed (rtr c) (rtr c') \<and> (workers_ok c \<longrightarrow> workers_ok c')"
proof (cases "readLoop_notification m p c = Continues c'")
  case True
  then obtain r where "c' = c\<lparr>rtr := r\<rparr>" "RouteNotification m p (rtr c) = Some (r, None)"
    by (auto simp: readLoop_notification_def stop_with_Stops split: option.splits)
  then show ?thesis using workers_ok_keep [of c c'] by (auto simp: routed_def)
next
  case False
  then obtain r e f where r: "RouteNotification m p (rtr c) = Some (r, e)" "app_fail f (c\<lparr>rtr := r\<rparr>) = Some c'"
    using assms by (auto simp: readLoop_notification_def stop_with_Stops split: option.splits)
  note f = app_fail_fields [OF r(2)]
  with r(1) show ?thesis using workers_ok_keep [of c c'] by (auto simp: routed_def)
qed

lemma readLoop_line_keeps:
  assumes "readLoop_line sprint l c = Continues c' \<or> readLoop_line sprint l c = Stops c'"
  shows "al c' = al c \<and> requestID c' = requestID c \<and> routed (rtr c) (rtr c') \<and> (workers_ok c \<longrightarrow> workers_ok c')"
proof (cases "dec_envelope l")
  case None
  with assms have "app_fail (closed_with (''invalid json: '' @ err_text json_error)) c = Some c'"
    by (auto simp: readLoop_line_def stop_with_Stops)
  note f = app_fail_fields [OF this]
  then show ?thesis using workers_ok_keep [of c c'] by (auto simp: routed_def)
next
  case (Some en)
  consider i where "en_ID en = Some i" "en_Method en \<noteq> ''''" | i where "en_ID en = Some i" "en_Method en = ''''"
    | "en_ID en = None" "en_Method en \<noteq> ''''" | "en_ID en = None" "en_Method en = ''''" by (cases "en_ID en") auto
  then show ?thesis
  proof cases
    case 1
    let ?req = "\<lparr>sr_id = i, sr_method = en_Method en, sr_params = en_Params en\<rparr>"
    have "readLoop_line sprint l c = readLoop_request ?req c" using Some 1 by (simp add: readLoop_line_def)
    with assms readLoop_request_keeps show ?thesis by metis
  next
    case 2
    then have "readLoop_line sprint l c = readLoop_response (id_text sprint i) (en_Error en) (en_Result en) c"
      using Some by (simp add: readLoop_line_def)
    with assms readLoop_response_keeps show ?thesis by metis
  next
    case 3
    then have "readLoop_line sprint l c = readLoop_notification (en_Method en) (en_Params en) c"
      using Some by (simp add: readLoop_line_def)
    with assms readLoop_notification_keeps show ?thesis by metis
  next
    case 4
    with Some assms show ?thesis by (simp add: readLoop_line_def routed_def)
  qed
qed

section \<open>Requests in flight\<close>

text \<open>What the routes never touch: the table of waiters, their channels, the failure.\<close>

definition waiter_view :: "MessageRouter \<Rightarrow> addr gomap \<times> (addr \<Rightarrow> Response list) \<times> addr \<times> go_error option" where
  "waiter_view r = (responseWaiters r, waiterHeap r, nextWaiterAddr r, failed r)"

lemma waiter_view_ensureRoute: "ensureRoute i k r = (r', a) \<Longrightarrow> waiter_view r' = waiter_view r"
  by (auto simp: ensureRoute_def waiter_view_def Let_def split: option.splits)

lemma waiter_view_upd [simp]:
  "waiter_view (r\<lparr>routeHeap := h\<rparr>) = waiter_view r" "waiter_view (r\<lparr>routes := rs\<rparr>) = waiter_view r"
  "waiter_view (r\<lparr>closed := cl\<rparr>) = waiter_view r" "waiter_view (r\<lparr>totalEvents := n\<rparr>) = waiter_view r"
  "waiter_view (r\<lparr>totalBytes := n\<rparr>) = waiter_view r" "waiter_view (r\<lparr>globalEvents := n\<rparr>) = waiter_view r"
  "waiter_view (r\<lparr>globalBytes := n\<rparr>) = waiter_view r" "waiter_view (r\<lparr>globalQueue := q\<rparr>) = waiter_view r"
  by (simp_all add: waiter_view_def)

lemma waiter_view_scoped: "routeScoped i item k only r = Some (r', e) \<Longrightarrow> waiter_view r' = waiter_view r"
  by (auto simp: routeScoped_def reserveTotal_def Let_def dest: waiter_view_ensureRoute
      split: option.splits if_splits sum.splits prod.splits)

lemma waiter_view_global: "routeGlobal item r = Some (r', e) \<Longrightarrow> waiter_view r' = waiter_view r"
  by (auto simp: routeGlobal_def reserveTotal_def split: option.splits if_splits sum.splits)

lemma waiter_view_register: "registerRoute i k r = Some (r', e) \<Longrightarrow> waiter_view r' = waiter_view r"
  by (auto simp: registerRoute_def Let_def dest!: waiter_view_ensureRoute
      split: option.splits if_splits prod.splits)

lemma waiter_view_unregister: "waiter_view (unregisterRoute i k r) = waiter_view r"
  by (simp add: unregisterRoute_def Let_def split: option.splits)

lemma waiter_view_next: "waiter_view (fst (nextRoute i k ctx r)) = waiter_view r"
  by (auto simp: nextRoute_def tryNextRoute_def recvRoute_def releaseRouteItem_def
      split: option.splits sum.splits prod.splits)

lemma waiter_view_next_global: "waiter_view (fst (NextGlobal ctx r)) = waiter_view r"
  by (auto simp: NextGlobal_def tryNextGlobal_def recvGlobal_def releaseGlobal_def split: option.splits)

lemma waiter_view_notification:
  assumes "RouteNotification m p r = Some (r', e)"
  shows "waiter_view r' = waiter_view r"
  using assms unfolding RouteNotification_def Let_def
  by (auto dest!: waiter_view_scoped waiter_view_global split: if_splits option.splits prod.splits)

lemma FailAll_waiters:
  assumes "waiters_ok r [] st" "failed r = None" "FailAll err r = Some r'"
  shows "responseWaiters r' = []" "failed r' = Some (failure_of err)" "nextWaiterAddr r' = nextWaiterAddr r"
    "waiterHeap r' w = (if w \<in> snd ` set (responseWaiters r)
       then [\<lparr>Result = None, RespErr = Some (failure_of err)\<rparr>] else waiterHeap r w)"
proof -
  let ?resp = "\<lparr>Result = None, RespErr = Some (failure_of err)\<rparr>"
  let ?r1 = "r\<lparr>failed := Some (failure_of err), responseWaiters := []\<rparr>"
  have "sendResponses (map snd (responseWaiters r)) ?resp ?r1 = Some (?r1\<lparr>waiterHeap :=
      (\<lambda>w. if w \<in> set (map snd (responseWaiters r)) then [?resp] else waiterHeap ?r1 w)\<rparr>)"
    by (rule sendResponses_all) (use assms(1) in \<open>auto simp: waiters_ok_def\<close>)
  with assms(2,3) have r': "r' = failGlobal (failure_of err) (fold (failQueue (failure_of err))
      (concat (map (routeQueuesSnapshot r) all_kinds)) (?r1\<lparr>waiterHeap :=
        (\<lambda>w. if w \<in> set (map snd (responseWaiters r)) then [?resp] else waiterHeap ?r1 w)\<rparr>))"
    by (simp add: FailAll_def failAll_lock_def)
  have n: "nextWaiterAddr (fold (failQueue e) qs q) = nextWaiterAddr q" for e qs q
    by (induction qs arbitrary: q) (simp_all add: failQueue_def split: option.splits)
  show "responseWaiters r' = []" "failed r' = Some (failure_of err)" "nextWaiterAddr r' = nextWaiterAddr r"
    "waiterHeap r' w = (if w \<in> snd ` set (responseWaiters r) then [?resp] else waiterHeap r w)"
    by (simp_all add: r' failGlobal_def fold_failQueue_frame n)
qed

lemma RouteResponse_waiters:
  assumes "waiters_ok r [] st" "RouteResponse i res err r = Some r'"
  shows "responseWaiters r' = AList.delete i (responseWaiters r)" "failed r' = failed r"
    "nextWaiterAddr r' = nextWaiterAddr r"
    "waiterHeap r' = (case map_of (responseWaiters r) i of None \<Rightarrow> waiterHeap r
       | Some w \<Rightarrow> (waiterHeap r)(w := [\<lparr>Result = res, RespErr = err\<rparr>]))"
proof -
  have w: "waiterHeap r w = []" if "map_of (responseWaiters r) i = Some w" for w
    using assms(1) map_of_SomeD [OF that] by (force simp: waiters_ok_def)
  show "responseWaiters r' = AList.delete i (responseWaiters r)" "failed r' = failed r"
    "nextWaiterAddr r' = nextWaiterAddr r"
    "waiterHeap r' = (case map_of (responseWaiters r) i of None \<Rightarrow> waiterHeap r
       | Some w \<Rightarrow> (waiterHeap r)(w := [\<lparr>Result = res, RespErr = err\<rparr>]))"
    using assms(2) w
    by (auto simp: RouteResponse_def takeWaiter_def sendResponse_def chan_send_def split: option.splits)
qed

text \<open>
  A request in flight either is in the table of waiters or has its answer in its channel; a
  router that has failed has no table left.
\<close>

definition in_flight :: "MessageRouter \<Rightarrow> (string \<times> addr) list \<Rightarrow> bool" where
  "in_flight r out \<longleftrightarrow> distinct (map fst out) \<and> distinct (map snd out) \<and>
     (\<forall>(i, w)\<in>set out. w < nextWaiterAddr r \<and> (map_of (responseWaiters r) i = Some w \<or> waiterHeap r w \<noteq> [])) \<and>
     (failed r \<noteq> None \<longrightarrow> responseWaiters r = [])"

lemma in_flight_view: "in_flight r out \<Longrightarrow> waiter_view r' = waiter_view r \<Longrightarrow> in_flight r' out"
  by (simp add: in_flight_def waiter_view_def)

lemma in_flight_fail:
  assumes "in_flight r out" "waiters_ok r [] st" "FailAll err r = Some r'"
  shows "in_flight r' out"
proof (cases "failed r")
  case None
  note f = FailAll_waiters [OF assms(2) None assms(3)]
  have "w \<in> snd ` set (responseWaiters r)" if "map_of (responseWaiters r) i = Some w" for i w
    using map_of_SomeD [OF that] by force
  with assms(1) show ?thesis by (fastforce simp: in_flight_def f)
next
  case (Some e)
  with assms(1,3) show ?thesis by (simp add: FailAll_def failAll_lock_def)
qed

lemma in_flight_response:
  assumes fl: "in_flight r out" and ok: "waiters_ok r [] st" and rr: "RouteResponse i res err r = Some r'"
  shows "in_flight r' out"
proof -
  note f = RouteResponse_waiters [OF ok rr]
  have "map_of (responseWaiters r') j = Some w \<or> waiterHeap r' w \<noteq> []" if "(j, w) \<in> set out" for j w
  proof -
    have "map_of (responseWaiters r) j = Some w \<or> waiterHeap r w \<noteq> []"
      using fl that by (auto simp: in_flight_def)
    then show ?thesis by (cases "j = i") (auto simp: f AList.delete_conv split: option.splits)
  qed
  with fl f show ?thesis by (auto simp: in_flight_def)
qed

lemma in_flight_routed:
  assumes "in_flight r out" "router_reach l r" "routed r r'"
  shows "in_flight r' out \<and> router_reach l r'"
proof -
  have nt: "in_flight q out \<and> router_reach l q" if "RouteNotification m p r = Some (q, e)" for m p e q
    using in_flight_view [OF assms(1) waiter_view_notification [OF that]]
      router_reach_notification [OF assms(2), of m p] that by auto
  have fa: "in_flight q' out \<and> router_reach l q'"
    if "in_flight q out" "router_reach l q" "FailAll e q = Some q'" for e q q'
    using router_reach_waiters [OF that(2)] in_flight_fail [OF that(1) _ that(3)]
      router_reach_fail [OF that(2), of e] that(3) by auto
  have rs: "in_flight q out \<and> router_reach l q" if "RouteResponse i res e r = Some q" for i res e q
    using router_reach_waiters [OF assms(2)] in_flight_response [OF assms(1) _ that]
      router_reach_response [OF assms(2), of i res e] that by auto
  show ?thesis using assms(3) unfolding routed_def
    using assms(1,2) nt fa rs by blast
qed

lemma CreateResponseWaiter_Inr:
  assumes "CreateResponseWaiter i r = (r', Inr w)" "waiters_ok r [] st"
  shows "failed r = None" "failed r' = None" "w = nextWaiterAddr r" "nextWaiterAddr r' = Suc w"
    "map_of (responseWaiters r') j = (if j = i then Some w else map_of (responseWaiters r) j)"
    "waiterHeap r' = (waiterHeap r)(w := [])"
  using assms by (auto simp: CreateResponseWaiter_def Let_def AList.update_conv split: option.splits if_splits)

lemma in_flight_create:
  assumes fl: "in_flight r out" and cr: "CreateResponseWaiter i r = (r', Inr w)" and ok: "waiters_ok r [] st"
    and i: "i \<notin> fst ` set out"
  shows "in_flight r' ((i, w) # out)"
proof -
  note f = CreateResponseWaiter_Inr [OF cr ok]
  have "w \<notin> snd ` set out" using fl f(3) by (fastforce simp: in_flight_def)
  have new: "v < nextWaiterAddr r' \<and> (map_of (responseWaiters r') j = Some v \<or> waiterHeap r' v \<noteq> [])"
    if "(j, v) \<in> set out" for j v
  proof -
    have "v < nextWaiterAddr r" "map_of (responseWaiters r) j = Some v \<or> waiterHeap r v \<noteq> []"
      using fl that by (auto simp: in_flight_def)
    moreover have "j \<noteq> i" using i that by force
    ultimately show ?thesis using f by auto
  qed
  have "\<forall>(j, v)\<in>set ((i, w) # out). v < nextWaiterAddr r' \<and>
      (map_of (responseWaiters r') j = Some v \<or> waiterHeap r' v \<noteq> [])"
    using new f(4,5) by auto
  then show ?thesis using fl i \<open>w \<notin> snd ` set out\<close> f(2) by (simp add: in_flight_def)
qed

lemma in_flight_discard:
  assumes "in_flight r out" "i \<notin> fst ` set out"
  shows "in_flight (DiscardResponseWaiter i r) out"
proof -
  have "j \<noteq> i" if "(j, w) \<in> set out" for j w using that assms(2) by force
  with assms(1) show ?thesis
    by (fastforce simp: in_flight_def DiscardResponseWaiter_def AList.delete_conv)
qed

lemma in_flight_await:
  assumes "in_flight r out" "waiterHeap r w = x # q" "w \<notin> snd ` set out"
  shows "in_flight (r\<lparr>waiterHeap := (waiterHeap r)(w := q)\<rparr>) out"
proof -
  have "v \<noteq> w" if "(j, v) \<in> set out" for j v using that assms(3) by force
  with assms(1) show ?thesis by (fastforce simp: in_flight_def)
qed

lemma in_flight_sub: "in_flight r (xs @ p # ys) \<Longrightarrow> in_flight r (xs @ ys) \<and> fst p \<notin> fst ` set (xs @ ys) \<and> snd p \<notin> snd ` set (xs @ ys)"
  by (auto simp: in_flight_def)

section \<open>The invariant\<close>

text \<open>Identifiers of requests in flight come from the counter.\<close>

lemma request_id_inj: "request_id m = request_id n \<longleftrightarrow> m = n"
proof
  assume "request_id m = request_id n"
  then have "show_nat m = show_nat n" unfolding request_id_def by (simp only: same_append_eq)
  then show "m = n" using read_show_nat by (metis option.inject)
qed simp

definition ainv :: "AppConfig \<Rightarrow> asys \<Rightarrow> bool" where
  "ainv cf s \<longleftrightarrow> (case s of (c, out) \<Rightarrow> al c = app_normalizeLimits (ac_Limits cf) \<and>
     router_reach (RouterLimits (al c)) (rtr c) \<and> in_flight (rtr c) out \<and> workers_ok c \<and>
     (\<forall>(i, w)\<in>set out. \<exists>n\<le>requestID c. i = request_id n))"

lemma ainv_frame:
  assumes "ainv cf (c, out)" "al c' = al c" "requestID c' = requestID c" "routed (rtr c) (rtr c') \<or> waiter_view (rtr c') = waiter_view (rtr c) \<and>
      router_reach (RouterLimits (al c)) (rtr c')" "workers_ok c'"
  shows "ainv cf (c', out)"
proof -
  have a: "router_reach (RouterLimits (al c)) (rtr c)" "in_flight (rtr c) out"
    using assms(1) by (auto simp: ainv_def)
  from assms(4) have "in_flight (rtr c') out \<and> router_reach (RouterLimits (al c)) (rtr c')"
    using in_flight_routed [OF a(2,1)] in_flight_view [OF a(2)] by blast
  with assms show ?thesis by (simp add: ainv_def)
qed

lemma ainv_start: "ainv cf (app_New cf, [])"
  using router_reach_New
  by (auto simp: ainv_def app_New_def Let_def in_flight_def workers_ok_def Router.New_def
      app_normalizeLimits_def AppDefaultLimits_def)

lemma ainv_ids: "ainv cf (c, out) \<Longrightarrow> (j, v) \<in> set out \<Longrightarrow> \<exists>n\<le>requestID c. j = request_id n"
  by (auto simp: ainv_def)

lemma fresh_request_id:
  assumes "ainv cf (c, out)"
  shows "request_id (requestID c + 1) \<notin> fst ` set out"
proof
  assume "request_id (requestID c + 1) \<in> fst ` set out"
  then obtain n where "n \<le> requestID c" "request_id (requestID c + 1) = request_id n"
    using assms by (fastforce simp: ainv_def)
  then show False by (simp add: request_id_inj)
qed

lemma request_send_parts:
  assumes "request_send wErr m p c = (c', x)" "requestID c + 1 < 2 ^ 64" "ensureUsable c = None"
  shows "al c' = al c \<and> requestID c' = requestID c + 1 \<and> serverRequests c' = serverRequests c \<and>
    workerCount c' = workerCount c \<and>
    (case x of
       Inr (i, w) \<Rightarrow> i = request_id (requestID c + 1) \<and> CreateResponseWaiter i (rtr c) = (rtr c', Inr w)
     | Inl e \<Rightarrow> (\<exists>r1 y. CreateResponseWaiter (request_id (requestID c + 1)) (rtr c) = (r1, y) \<and>
         (rtr c' = r1 \<and> y = Inl e \<or> rtr c' = DiscardResponseWaiter (request_id (requestID c + 1)) r1)))"
  using assms
  by (auto simp: request_send_def Let_def writeMessage_def split: option.splits sum.splits prod.splits if_splits)

lemma ainv_send:
  assumes inv: "ainv cf (c, out)" and n: "requestID c + 1 < 2 ^ 64" and s: "request_send wErr m p c = (c', Inr (i, w))"
  shows "ainv cf (c', (i, w) # out)"
proof -
  have u: "ensureUsable c = None" using s by (auto simp: request_send_def split: option.splits)
  note q = request_send_parts [OF s n u]
  then have q: "al c' = al c" "requestID c' = requestID c + 1" "serverRequests c' = serverRequests c"
    "workerCount c' = workerCount c" "i = request_id (requestID c + 1)" "CreateResponseWaiter i (rtr c) = (rtr c', Inr w)"
    by auto
  have a: "router_reach (RouterLimits (al c)) (rtr c)" "in_flight (rtr c) out" "workers_ok c"
    using inv by (auto simp: ainv_def)
  obtain st where st: "waiters_ok (rtr c) [] st" using router_reach_waiters [OF a(1)] by blast
  have "router_reach (RouterLimits (al c)) (rtr c')" using router_reach_create [OF a(1), of i] q(6) by simp
  moreover have "in_flight (rtr c') ((i, w) # out)"
    by (rule in_flight_create [OF a(2) q(6) st]) (use fresh_request_id [OF inv] q(5) in simp)
  moreover have "\<exists>n\<le>requestID c'. j = request_id n" if "(j, v) \<in> set ((i, w) # out)" for j v
    using that ainv_ids [OF inv] unfolding q(2,5) by (metis Pair_inject le_Suc_eq Suc_eq_plus1 set_ConsD)
  ultimately show ?thesis using inv q workers_ok_keep [OF a(3), of c'] by (auto simp: ainv_def)
qed

lemma ainv_send_err:
  assumes inv: "ainv cf (c, out)" and n: "requestID c + 1 < 2 ^ 64" and s: "request_send wErr m p c = (c', Inl e)"
  shows "ainv cf (c', out)"
proof (cases "ensureUsable c")
  case (Some x)
  with s inv show ?thesis by (simp add: request_send_def)
next
  case None
  let ?i = "request_id (requestID c + 1)"
  obtain r1 y where q: "al c' = al c" "requestID c' = requestID c + 1" "serverRequests c' = serverRequests c"
    "workerCount c' = workerCount c" "CreateResponseWaiter ?i (rtr c) = (r1, y)"
    "rtr c' = r1 \<and> y = Inl e \<or> rtr c' = DiscardResponseWaiter ?i r1"
    using request_send_parts [OF s n None] by auto
  have a: "router_reach (RouterLimits (al c)) (rtr c)" "in_flight (rtr c) out" "workers_ok c"
    using inv by (auto simp: ainv_def)
  obtain st where st: "waiters_ok (rtr c) [] st" using router_reach_waiters [OF a(1)] by blast
  have fr: "?i \<notin> fst ` set out" by (rule fresh_request_id [OF inv])
  have r1: "router_reach (RouterLimits (al c)) r1" using router_reach_create [OF a(1), of ?i] q(5) by simp
  have same: "r1 = rtr c" if "y = Inl x" for x
    using q(5) that by (auto simp: CreateResponseWaiter_def Let_def split: option.splits if_splits)
  have f1: "in_flight r1 out"
    using in_flight_create [OF a(2) _ st fr] in_flight_sub [of r1 "[]" _ out] q(5) same a(2)
    by (cases y) (metis append_Nil)+
  have "in_flight (rtr c') out \<and> router_reach (RouterLimits (al c)) (rtr c')"
    using q(6) in_flight_discard [OF f1 fr] f1 r1 router_reach_discard [OF r1, of ?i] by auto
  moreover have "\<exists>n\<le>requestID c'. j = request_id n" if "(j, v) \<in> set out" for j v
    using ainv_ids [OF inv that] unfolding q(2) by (metis le_Suc_eq Suc_eq_plus1)
  ultimately show ?thesis using inv q(1,3,4) workers_ok_keep [OF a(3), of c'] by (auto simp: ainv_def)
qed

lemma ainv_finish:
  assumes inv: "ainv cf (c, xs @ (i, w) # ys)" and r: "request_wait ctx i w c = Some (c', x)"
  shows "ainv cf (c', xs @ ys)"
proof -
  have a: "router_reach (RouterLimits (al c)) (rtr c)" "in_flight (rtr c) (xs @ ys)" "workers_ok c"
    "i \<notin> fst ` set (xs @ ys)" "w \<notin> snd ` set (xs @ ys)"
    using inv in_flight_sub [of "rtr c" xs "(i, w)" ys] by (auto simp: ainv_def)
  have "in_flight (rtr c') (xs @ ys) \<and> router_reach (RouterLimits (al c)) (rtr c')"
  proof (cases ctx)
    case (Some e)
    with r show ?thesis
      using in_flight_discard [OF a(2,4)] router_reach_discard [OF a(1), of i] by (auto simp: request_wait_def)
  next
    case None
    with r obtain resp q where "waiterHeap (rtr c) w = resp # q"
      "rtr c' = (rtr c)\<lparr>waiterHeap := (waiterHeap (rtr c))(w := q)\<rparr>"
      by (auto simp: request_wait_def chan_recv_def split: option.splits list.splits)
    then show ?thesis using in_flight_await [OF a(2) _ a(5)] router_reach_await [OF a(1)] by auto
  qed
  moreover have "al c' = al c" "requestID c' = requestID c" "serverRequests c' = serverRequests c" "workerCount c' = workerCount c"
    using r by (auto simp: request_wait_def split: option.splits)
  ultimately show ?thesis using inv workers_ok_keep [OF a(3), of c'] by (auto simp: ainv_def)
qed

lemma ainv_quiet:
  assumes "ainv cf (c, out)" "al c' = al c" "requestID c' = requestID c" "rtr c' = rtr c"
    "serverRequests c' = serverRequests c" "workerCount c' = workerCount c"
  shows "ainv cf (c', out)"
  using assms workers_ok_keep [of c c'] by (intro ainv_frame [OF assms(1)]) (auto simp: routed_def ainv_def)

lemma ainv_router:
  assumes "ainv cf (c, out)" "waiter_view r' = waiter_view (rtr c)" "router_reach (RouterLimits (al c)) r'"
  shows "ainv cf (c\<lparr>rtr := r'\<rparr>, out)"
  using assms workers_ok_keep [of c "c\<lparr>rtr := r'\<rparr>"] by (intro ainv_frame [OF assms(1)]) (auto simp: ainv_def)

lemma ainv_fail:
  assumes "ainv cf (c, out)" "app_fail e c = Some c'"
  shows "ainv cf (c', out)"
  using app_fail_fields [OF assms(2)] assms(1) workers_ok_keep [of c c']
  by (intro ainv_frame [OF assms(1)]) (auto simp: routed_def ainv_def)

lemma ainv_gone:
  assumes "ainv cf (c, out)" "wait_finish err c = Some c'"
  shows "ainv cf (c', out)"
proof -
  obtain x y c1 where c1: "app_fail x (c\<lparr>waitErr := y\<rparr>) = Some c1" "c' = c1\<lparr>waitDone := True\<rparr>"
    using assms(2) by (auto simp: wait_finish_def Let_def bind_eq_Some_conv)
  have "ainv cf (c\<lparr>waitErr := y\<rparr>, out)" by (rule ainv_quiet [OF assms(1)]) simp_all
  from ainv_fail [OF this c1(1)] show ?thesis by (rule ainv_quiet) (simp_all add: c1(2))
qed

lemma ainv_step: "astep s t \<Longrightarrow> ainv cf s \<Longrightarrow> ainv cf t"
proof (induction rule: astep.induct)
  case (start c out osErr)
  have "workers_ok (fst (startProcess osErr c))"
    using start by (auto simp: ainv_def workers_ok_def startProcess_def split: sum.splits option.splits)
  then show ?case
    by (intro ainv_frame [OF start]) (auto simp: routed_def startProcess_def split: sum.splits option.splits)
next
  case (send c wErr m p c' i w out)
  then show ?case by (blast intro: ainv_send)
next
  case (send_err c wErr m p c' e out)
  then show ?case by (blast intro: ainv_send_err)
next
  case (finish out xs i w ys ctx c c' x)
  then show ?case by (blast intro: ainv_finish)
next
  case (notify c out wErr m p)
  then show ?case by (rule ainv_quiet) (simp_all add: Notify_fields)
next
  case (line sprint l c c' out)
  then show ?case using readLoop_line_keeps [OF line(1)] by (intro ainv_frame [OF line(2)]) (auto simp: ainv_def)
next
  case (eof err c c' out)
  then show ?case
    by (auto simp: readLoop_end_def stop_with_Stops split: option.splits if_splits intro: ainv_fail)
next
  case (stderr ln c c' out)
  then show ?case
    by (auto simp: drainStderr_line_def split: option.splits prod.splits intro: ainv_quiet)
next
  case (take c req c' out)
  have "workers_ok c'" using take by (auto simp: ainv_def workers_ok_def worker_take_def chan_recv_def split: option.splits list.splits)
  then show ?case using take
    by (intro ainv_frame [OF take(2)]) (auto simp: routed_def worker_take_def split: option.splits)
next
  case (handle c out wErr req)
  then show ?case by (rule ainv_quiet) (simp_all add: handleServerRequest_fields)
next
  case (leave c c' out)
  have "workers_ok c'" using leave by (auto simp: ainv_def workers_ok_def worker_exit_def split: if_splits)
  then show ?case using leave
    by (intro ainv_frame [OF leave(3)]) (auto simp: routed_def worker_exit_def split: if_splits)
next
  case (exited c out)
  then show ?case by (rule ainv_quiet) (simp_all add: wait_exited_def)
next
  case (gone err c c' out)
  then show ?case by (blast intro: ainv_gone)
next
  case (init c out res)
  then show ?case by (rule ainv_quiet) (auto simp: record_init_def split: sum.splits)
next
  case (close c out)
  then show ?case by (rule ainv_quiet) (simp_all add: close_begin_def)
next
  case (register i k c r' e out)
  then show ?case
    by (intro ainv_router) (auto simp: ainv_def intro: waiter_view_register router_reach_register)
next
  case (unregister c out i k)
  then show ?case by (intro ainv_router) (auto simp: ainv_def waiter_view_unregister intro: router_reaches)
next
  case (next_route c out i k ctx)
  then show ?case by (intro ainv_router) (auto simp: ainv_def waiter_view_next intro: router_reaches)
next
  case (next_global c out ctx)
  then show ?case by (intro ainv_router) (auto simp: ainv_def waiter_view_next_global intro: router_reaches)
qed

lemma areach_inv: "areach cf s \<Longrightarrow> ainv cf s"
  by (induction rule: areach.induct) (auto intro: ainv_start ainv_step)

section \<open>What the transport guarantees\<close>

lemma areach_router: "areach cf (c, out) \<Longrightarrow> router_reach (RouterLimits (al c)) (rtr c) \<and> in_flight (rtr c) out"
  using areach_inv [of cf "(c, out)"] by (auto simp: ainv_def)

lemma app_fail_total:
  assumes "router_reach l (rtr c)"
  shows "\<exists>c'. app_fail e c = Some c'"
  using router_reach_fail [OF assms, of "Some e"] by (auto simp: app_fail_def)

lemma stop_with_total: "router_reach l (rtr c) \<Longrightarrow> stop_with e c \<noteq> Blocks"
  using app_fail_total [of l c e] by (auto simp: stop_with_def)

text \<open>C9: The reader of the app-server's output never waits for a consumer: in every reachable state
  it finishes with the line it has read (it goes on, stops, or meets the closed request channel,
  but never blocks in a send), and failing the transport, which wakes every waiter, completes.\<close>
theorem reader_never_blocks:
  assumes "areach cf (c, out)"
  shows "readLoop_line sprint l c \<noteq> Blocks \<and> readLoop_end err c \<noteq> Blocks \<and> app_fail e c \<noteq> None"
proof -
  note r = areach_router [OF assms]
  have nt: "readLoop_notification m p c \<noteq> Blocks" for m p
  proof -
    obtain r' e where n: "RouteNotification m p (rtr c) = Some (r', e)" "router_reach (RouterLimits (al c)) r'"
      using router_reach_notification [of "RouterLimits (al c)" "rtr c" m p] r by auto
    then show ?thesis using stop_with_total [of "RouterLimits (al c)" "c\<lparr>rtr := r'\<rparr>"]
      by (cases e) (auto simp: readLoop_notification_def)
  qed
  have "readLoop_response i e v c \<noteq> Blocks" for i e v
    using router_reach_response [of "RouterLimits (al c)" "rtr c" i v None] r
      router_reach_response [of "RouterLimits (al c)" "rtr c" i None "Some (AppRPC (the e))"]
    by (cases e) (auto simp: readLoop_response_def)
  moreover have "readLoop_request q c \<noteq> Blocks" for q
    using stop_with_total r by (auto simp: readLoop_request_def split: option.splits)
  ultimately have "readLoop_line sprint l c \<noteq> Blocks"
    using stop_with_total r nt by (auto simp: readLoop_line_def split: option.splits)
  moreover have "readLoop_end err c \<noteq> Blocks"
    using stop_with_total r by (auto simp: readLoop_end_def split: option.splits)
  ultimately show ?thesis using app_fail_total [of "RouterLimits (al c)" c e] r by auto
qed

lemma closed_errors [simp]:
  "errors_Is (closed_with t) AppErrTransportClosed" "errors_Is (closed_limit t) AppErrTransportClosed"
  by (simp_all add: closed_with_def closed_limit_def AppErrTransportClosed_def)

lemma stops_cases:
  assumes "readLoop_line sprint l c = Stops c'" "router_reach lim (rtr c)"
  shows "\<exists>e r1. errors_Is e AppErrTransportClosed \<and> app_fail e (c\<lparr>rtr := r1\<rparr>) = Some c' \<and>
    waiter_view r1 = waiter_view (rtr c) \<and> router_reach lim r1"
proof -
  have same: "\<exists>e r1. errors_Is e AppErrTransportClosed \<and> app_fail e (c\<lparr>rtr := r1\<rparr>) = Some c' \<and>
      waiter_view r1 = waiter_view (rtr c) \<and> router_reach lim r1"
    if "app_fail e c = Some c'" "errors_Is e AppErrTransportClosed" for e
    using that assms(2) by (intro exI [of _ e] exI [of _ "rtr c"]) simp
  have nt: ?thesis if st: "readLoop_notification m p c = Stops c'" for m p
  proof -
    obtain r1 e where n: "RouteNotification m p (rtr c) = Some (r1, Some e)"
      "app_fail (closed_limit (err_text e)) (c\<lparr>rtr := r1\<rparr>) = Some c'"
      using st by (auto simp: readLoop_notification_def stop_with_Stops split: option.splits)
    then show ?thesis using waiter_view_notification [OF n(1)] router_reach_notification [OF assms(2), of m p]
      by (intro exI [of _ "closed_limit (err_text e)"] exI [of _ r1]) auto
  qed
  have "(\<exists>e. app_fail e c = Some c' \<and> errors_Is e AppErrTransportClosed) \<or>
      (\<exists>m p. readLoop_notification m p c = Stops c')"
    using assms(1) unfolding readLoop_line_def
    by (auto simp: stop_with_Stops readLoop_request_def readLoop_response_def intro: closed_errors
        split: option.splits if_splits)
  then show ?thesis using same nt by blast
qed

text \<open>A client whose process runs and that has sent one request.\<close>

definition demo_config :: AppConfig where
  "demo_config = \<lparr>ExecutablePath = ''codex'', LaunchArgs = [], Cwd = '''', ac_Env = [], ConfigFlags = [],
     ClientName = '''', ClientTitle = '''', ClientVersion = '''', Approval = None, ac_ApprovalPolicy = ApprovalPolicyDeny,
     ac_Limits = AppDefaultLimits\<rparr>"

definition demo_started :: AppClient where
  "demo_started = fst (startProcess None (app_New demo_config))"

definition demo_sent :: AppClient where
  "demo_sent = fst (request_send None ''model/list'' None demo_started)"

lemmas demo_defs = demo_sent_def demo_started_def demo_config_def startProcess_def app_New_def Let_def launchArgs_def
  app_normalizeLimits_def AppDefaultLimits_def Router.New_def normalizeLimits_def DefaultLimits_def DefaultLimitsIfZero_def mib_def

lemma demo_started_fields:
  "ensureUsable demo_started = None" "requestID demo_started = 0" "MaxLineBytes (al demo_started) = 16777216"
  "failed (rtr demo_started) = None" "responseWaiters (rtr demo_started) = []" "nextWaiterAddr (rtr demo_started) = 0"
  "MaxResponseWaiters (limits (rtr demo_started)) = 1024" "started demo_started"
  "cfg demo_started = demo_config" "written demo_started = []"
  by (simp_all add: demo_defs ensureUsable_def)

lemma demo_message:
  "length (json_text (request_message ''req-1'' ''model/list'' None)) = 36" "request_id 1 = ''req-1''"
  by code_simp+

lemma demo_send: "request_send None ''model/list'' None demo_started = (demo_sent, Inr (''req-1'', 0))"
proof -
  from demo_message have "snd (request_send None ''model/list'' None demo_started) = Inr (''req-1'', 0)"
    by (simp add: request_send_def demo_started_fields Let_def CreateResponseWaiter_def writeMessage_def)
  then show ?thesis by (metis demo_sent_def prod.collapse)
qed

lemma demo_sent_fields:
  "responseWaiters (rtr demo_sent) = [(''req-1'', 0)]" "failed (rtr demo_sent) = None"
  "waiterHeap (rtr demo_sent) 0 = []"
  using demo_message
  by (simp_all add: demo_sent_def request_send_def demo_started_fields Let_def CreateResponseWaiter_def writeMessage_def)

lemma areach_started: "areach demo_config (demo_started, [])"
  using areach.moved [OF areach.created astep.start] by (simp add: demo_started_def)

lemma areach_sent: "areach demo_config (demo_sent, [(''req-1'', 0)])"
  by (rule areach.moved [OF areach_started astep.send [OF _ demo_send]]) (simp add: demo_started_fields)

theorem reader_never_blocks_witness:
  "readLoop_line (\<lambda>_. '''') (Some (JObj [(''method'', JStr ''turn/started'')])) demo_sent \<noteq> Blocks"
  using reader_never_blocks [OF areach_sent] by blast

text \<open>C7: A response reaches the request it answers and no other, in whatever order responses come:
  for every request in flight whose waiter is still in the table, reading a line that carries its
  identifier makes the pending call return the line's result, or its error; all other requests
  in flight are left as they were.\<close>
theorem response_delivered:
  assumes "areach cf (c, out)" "(i, w) \<in> set out" "map_of (responseWaiters (rtr c)) i = Some w"
    "dec_envelope l = Some en" "en_ID en = Some (JStr i)" "en_Method en = ''''"
  shows "\<exists>c' c''. readLoop_line sprint l c = Continues c' \<and>
    request_wait None i w c' = Some (c'', case en_Error en of Some e \<Rightarrow> Inl (AppRPC e) | None \<Rightarrow> Inr (en_Result en)) \<and>
    (\<forall>(j, v)\<in>set out. j \<noteq> i \<longrightarrow> map_of (responseWaiters (rtr c')) j = map_of (responseWaiters (rtr c)) j \<and>
       waiterHeap (rtr c') v = waiterHeap (rtr c) v)"
proof -
  note r = areach_router [OF assms(1)]
  obtain st where ok: "waiters_ok (rtr c) [] st" using router_reach_waiters r by blast
  define a where "a = (case en_Error en of None \<Rightarrow> en_Result en | Some e \<Rightarrow> None)"
  define b where "b = map_option AppRPC (en_Error en)"
  obtain r' where r': "RouteResponse i a b (rtr c) = Some r'"
    using router_reach_response [of "RouterLimits (al c)" "rtr c" i a b] r by blast
  note f = RouteResponse_waiters [OF ok r']
  have "readLoop_line sprint l c = Continues (c\<lparr>rtr := r'\<rparr>)"
    using assms(4-6) r' by (auto simp: readLoop_line_def readLoop_response_def id_text_def a_def b_def split: option.splits)
  moreover have "waiterHeap r' w = [\<lparr>Result = a, RespErr = b\<rparr>]" using f(4) assms(3) by simp
  then have "\<exists>c''. request_wait None i w (c\<lparr>rtr := r'\<rparr>) =
      Some (c'', case en_Error en of Some e \<Rightarrow> Inl (AppRPC e) | None \<Rightarrow> Inr (en_Result en))"
    by (auto simp: request_wait_def chan_recv_def a_def b_def split: option.splits)
  moreover have "map_of (responseWaiters r') j = map_of (responseWaiters (rtr c)) j \<and> waiterHeap r' v = waiterHeap (rtr c) v"
    if "(j, v) \<in> set out" "j \<noteq> i" for j v
  proof -
    have "(i, w) \<in> set out" "(j, v) \<in> set out" "distinct (map snd out)" using assms(2) that r by (auto simp: in_flight_def)
    then have "inj_on snd (set out)" by (simp add: distinct_map)
    then have "v \<noteq> w" using assms(2) that by (metis inj_on_eq_iff prod.inject snd_conv)
    then show ?thesis using f(1,4) assms(3) that(2) by (simp add: AList.delete_conv)
  qed
  ultimately show ?thesis by (subst ex_comm) (auto intro!: exI [of _ "c\<lparr>rtr := r'\<rparr>"])
qed

theorem response_delivered_witness:
  "\<exists>c' c''. readLoop_line (\<lambda>_. '''') (Some (JObj [(''id'', JStr ''req-1''), (''result'', JNum ''7'')])) demo_sent = Continues c' \<and>
     request_wait None ''req-1'' 0 c' = Some (c'', Inr (Some (JNum ''7'')))"
proof -
  let ?l = "Some (JObj [(''id'', JStr ''req-1''), (''result'', JNum ''7'')])"
  let ?en = "\<lparr>en_ID = Some (JStr ''req-1''), en_Method = '''', en_Params = None, en_Result = Some (JNum ''7''), en_Error = None\<rparr>"
  have "dec_envelope ?l = Some ?en" by code_simp
  from response_delivered [OF areach_sent _ _ this, of "''req-1''" 0 "\<lambda>_. ''''"] show ?thesis
    by (simp add: demo_sent_fields)
qed



text \<open>C28: Requests of the server: the number of workers and of queued requests stays within the
  handler limit, and whenever a request is queued there is a worker to take it. So a request is
  neither dropped nor left behind, and at most the limit are handled at once.\<close>
theorem server_requests_served:
  assumes "areach cf (c, out)"
  shows "0 \<le> workerCount c \<and> workerCount c \<le> MaxServerRequestHandlers (app_normalizeLimits (ac_Limits cf)) \<and>
    int (length (serverRequests c)) \<le> MaxServerRequestHandlers (app_normalizeLimits (ac_Limits cf)) \<and>
    (serverRequests c \<noteq> [] \<longrightarrow> 1 \<le> workerCount c \<and> (\<exists>req c'. worker_take c = Some (req, c')))"
proof -
  have "al c = app_normalizeLimits (ac_Limits cf)" "workers_ok c"
    using areach_inv [OF assms] by (auto simp: ainv_def)
  then show ?thesis
    by (auto simp: workers_ok_def worker_take_def chan_recv_def split: list.splits)
qed

theorem server_requests_served_witness: "workerCount demo_sent \<le> 64"
  using server_requests_served [OF areach_sent]
  by (simp add: demo_config_def app_normalizeLimits_def AppDefaultLimits_def)



text \<open>C30: A defect of the shutdown. The goroutine that waits for the process closes the channel of
  server requests without waiting for the reader; a reader that still has a request line buffered
  then sends on the closed channel, which is a panic of the whole program. A reachable state where
  that happens: the process has exited, and the line is a request.\<close>
theorem reader_panics_after_exit:
  "\<exists>c out. areach demo_config (c, out) \<and>
     readLoop_line sprint (Some (JObj [(''id'', JNum ''1''), (''method'', JStr ''execCommandApproval'')])) c = Panics"
proof -
  let ?l = "Some (JObj [(''id'', JNum ''1''), (''method'', JStr ''execCommandApproval'')])"
  have "dec_envelope ?l = Some \<lparr>en_ID = Some (JNum ''1''), en_Method = ''execCommandApproval'', en_Params = None,
      en_Result = None, en_Error = None\<rparr>" by code_simp
  then have "readLoop_line sprint ?l (wait_exited demo_started) = Panics"
    by (simp add: readLoop_line_def readLoop_request_def wait_exited_def)
  moreover have "areach demo_config (wait_exited demo_started, [])"
    by (rule areach.moved [OF areach_started astep.exited])
  ultimately show ?thesis by blast
qed

section \<open>The environment of the process\<close>

lemma map_of_app_overrides:
  "map_of (fold (\<lambda>(k, v). AList.update k v) xs m) k = (case map_of (rev xs) k of Some v \<Rightarrow> Some v | None \<Rightarrow> map_of m k)"
  by (induction xs arbitrary: m) (auto simp: AList.update_conv map_add_def split: option.splits)

text \<open>A divergence from the documentation of \<open>CodexOptions.Env\<close>, which says that with \<open>Env\<close> set no
  variable is inherited: the process also gets every variable of the parent that \<open>Env\<close> does not
  set, because \<open>buildEnv\<close> of the transport starts from the parent's environment again.\<close>
theorem parent_environment_inherited:
  assumes "map_of (parse_environ environ) k = Some v"
    "k \<notin> fst ` set (buildEnvMap environ' (Some m) baseURL apiKey)"
  shows "map_of (app_env environ (buildEnvMap environ' (Some m) baseURL apiKey)) k = Some v"
proof -
  have "map_of (rev (buildEnvMap environ' (Some m) baseURL apiKey)) k = None"
    using assms(2) by (simp add: map_of_eq_None_iff)
  with assms(1) show ?thesis by (simp add: app_env_def map_of_app_overrides)
qed

theorem parent_environment_inherited_witness:
  "map_of (app_env [''SECRET=s3''] (buildEnvMap [''SECRET=s3''] (Some [(''PATH'', ''/bin'')]) '''' '''')) ''SECRET'' = Some ''s3''"
proof -
  have "map_of (parse_environ [''SECRET=s3'']) ''SECRET'' = Some ''s3''"
    "''SECRET'' \<notin> fst ` set (buildEnvMap [''SECRET=s3''] (Some [(''PATH'', ''/bin'')]) '''' '''')" by code_simp+
  from parent_environment_inherited [OF this] show ?thesis .
qed

end
