(* ===== verification/Go_Path.thy ===== *)
theory Go_Path
  imports Go_Errors
begin

text \<open>
  \<open>path/filepath\<close> on a system whose separator is the slash: splitting, cleaning, joining, the
  parent and relative paths, with the facts about clean paths the users of paths need.
\<close>

section \<open>The functions\<close>

fun str_split :: "char \<Rightarrow> string \<Rightarrow> string list" where
  "str_split sep [] = [[]]"
| "str_split sep (c # s) =
     (if c = sep then [] # str_split sep s
      else (case str_split sep s of x # xs \<Rightarrow> (c # x) # xs | [] \<Rightarrow> [[c]]))"

text \<open>\<open>filepath.Clean\<close> on the elements: \<open>.\<close> and empty ones vanish, \<open>..\<close> removes the element before it.\<close>

definition clean_step :: "bool \<Rightarrow> string \<Rightarrow> string list \<Rightarrow> string list" where
  "clean_step rooted x st =
    (if x = '''' \<or> x = ''.'' then st
     else if x = ''..'' then
       (case st of
          y # ys \<Rightarrow> if y \<noteq> ''..'' then ys else x # st
        | [] \<Rightarrow> if rooted then [] else [x])
     else x # st)"

definition clean_elems :: "bool \<Rightarrow> string list \<Rightarrow> string list" where
  "clean_elems rooted xs = rev (fold (clean_step rooted) xs [])"

definition is_abs :: "string \<Rightarrow> bool" where
  "is_abs p \<longleftrightarrow> hasPrefix p ''/''"

definition path_elems :: "string \<Rightarrow> string list" where
  "path_elems p = clean_elems (is_abs p) (str_split (CHR ''/'') p)"

definition path_Clean :: "string \<Rightarrow> string" where
  "path_Clean p = (let body = str_join ''/'' (path_elems p) in
     if is_abs p then ''/'' @ body else if body = '''' then ''.'' else body)"

definition path_Join :: "string list \<Rightarrow> string" where
  "path_Join xs = (let ys = filter (\<lambda>x. x \<noteq> '''') xs in if ys = [] then '''' else path_Clean (str_join ''/'' ys))"

definition path_Dir :: "string \<Rightarrow> string" where
  "path_Dir p = (case str_last_index p ''/'' of None \<Rightarrow> ''.'' | Some i \<Rightarrow> path_Clean (take (i + 1) p))"

fun drop_common :: "string list \<Rightarrow> string list \<Rightarrow> string list \<times> string list" where
  "drop_common (x # xs) (y # ys) = (if x = y then drop_common xs ys else (x # xs, y # ys))"
| "drop_common xs ys = (xs, ys)"

definition path_Rel :: "string \<Rightarrow> string \<Rightarrow> go_error + string" where
  "path_Rel base targ =
    (if is_abs base \<noteq> is_abs targ then Inl (Text (''Rel: can't make '' @ targ @ '' relative to '' @ base))
     else case drop_common (path_elems base) (path_elems targ) of
         (b, t) \<Rightarrow>
           if ''..'' \<in> set b then Inl (Text (''Rel: can't make '' @ targ @ '' relative to '' @ base))
           else Inr (case map (\<lambda>_. ''..'') b @ t of [] \<Rightarrow> ''.'' | xs \<Rightarrow> str_join ''/'' xs))"

section \<open>Splitting and joining\<close>

abbreviation slash :: char where
  "slash \<equiv> CHR ''/''"

lemma str_split_nonempty [simp]: "str_split c s \<noteq> []"
  by (cases s) (auto split: list.splits)

lemma str_split_append: "str_split c (a @ c # b) = str_split c a @ str_split c b"
proof (induction a)
  case (Cons x a)
  then show ?case by (cases "str_split c a") auto
qed simp

lemma str_split_single: "c \<notin> set s \<Longrightarrow> str_split c s = [s]"
  by (induction s) auto

lemma str_split_elems: "x \<in> set (str_split c s) \<Longrightarrow> c \<notin> set x"
proof (induction s arbitrary: x)
  case (Cons y s)
  then show ?case by (cases "str_split c s") (auto split: if_splits)
qed simp

lemma str_join_Cons: "xs \<noteq> [] \<Longrightarrow> str_join sep (x # xs) = x @ sep @ str_join sep xs"
  by (cases xs) auto

lemma str_join_append: "xs \<noteq> [] \<Longrightarrow> ys \<noteq> [] \<Longrightarrow> str_join sep (xs @ ys) = str_join sep xs @ sep @ str_join sep ys"
proof (induction xs)
  case (Cons x xs)
  then show ?case by (cases "xs = []") (auto simp: str_join_Cons)
qed simp

lemma str_split_join:
  "xs \<noteq> [] \<Longrightarrow> \<forall>x\<in>set xs. c \<notin> set x \<Longrightarrow> str_split c (str_join [c] xs) = xs"
proof (induction xs)
  case (Cons x xs)
  then show ?case
    by (cases "xs = []") (auto simp: str_join_Cons str_split_append str_split_single)
qed simp

lemma str_join_empty: "\<forall>x\<in>set xs. x \<noteq> '''' \<Longrightarrow> str_join sep xs = '''' \<longleftrightarrow> xs = []"
  by (cases xs; cases "tl xs") (auto simp: str_join_Cons)

section \<open>Clean paths\<close>

text \<open>An element that cleaning keeps, with no separator in it.\<close>

definition normal :: "string \<Rightarrow> bool" where
  "normal x \<longleftrightarrow> x \<noteq> '''' \<and> x \<noteq> ''.'' \<and> x \<noteq> ''..'' \<and> slash \<notin> set x"

text \<open>The stack of \<open>Clean\<close>: kept elements above some leading \<open>..\<close>, none of them on a rooted path.\<close>

definition clean_stack :: "bool \<Rightarrow> string list \<Rightarrow> bool" where
  "clean_stack rooted st \<longleftrightarrow> (\<exists>ns k. st = ns @ replicate k ''..'' \<and> (\<forall>y\<in>set ns. normal y) \<and> (rooted \<longrightarrow> k = 0))"

lemma clean_stackI: "st = ns @ replicate k ''..'' \<Longrightarrow> \<forall>y\<in>set ns. normal y \<Longrightarrow> rooted \<longrightarrow> k = 0 \<Longrightarrow> clean_stack rooted st"
  by (auto simp: clean_stack_def)

lemma fold_clean_normal: "\<forall>x\<in>set xs. normal x \<Longrightarrow> fold (clean_step rooted) xs st = rev xs @ st"
  by (induction xs arbitrary: st) (auto simp: clean_step_def normal_def)

lemma clean_step_stack:
  assumes x: "slash \<notin> set x" and st: "clean_stack rooted st"
  shows "clean_stack rooted (clean_step rooted x st)"
proof -
  obtain ns k where s: "st = ns @ replicate k ''..''" "\<forall>y\<in>set ns. normal y" "rooted \<longrightarrow> k = 0"
    using st by (auto simp: clean_stack_def)
  consider "x = '''' \<or> x = ''.''" | "x = ''..''" "ns \<noteq> []" | "x = ''..''" "ns = []" "k = 0" "rooted"
    | "x = ''..''" "ns = []" "\<not> rooted" | "normal x"
    using x s(3) by (auto simp: normal_def)
  then show ?thesis
  proof cases
    case 1
    then show ?thesis using st by (auto simp: clean_step_def)
  next
    case 2
    then obtain y ys where y: "ns = y # ys" by (cases ns) auto
    then have "y \<noteq> ''..''" using s(2) by (auto simp: normal_def)
    then show ?thesis using 2 s y by (intro clean_stackI [of _ ys k]) (auto simp: clean_step_def)
  next
    case 3
    then show ?thesis using s by (intro clean_stackI [of _ "[]" 0]) (auto simp: clean_step_def)
  next
    case 4
    then show ?thesis using s
      by (intro clean_stackI [of _ "[]" "Suc k"]) (auto simp: clean_step_def split: list.splits, cases k, auto)
  next
    case 5
    then show ?thesis using s
      by (intro clean_stackI [of _ "x # ns" k]) (auto simp: clean_step_def normal_def)
  qed
qed

lemma fold_clean_stack:
  "\<forall>x\<in>set xs. slash \<notin> set x \<Longrightarrow> clean_stack rooted st \<Longrightarrow> clean_stack rooted (fold (clean_step rooted) xs st)"
  by (induction xs arbitrary: st) (auto intro: clean_step_stack)

lemma path_elems_shape:
  "\<exists>k ns. path_elems p = replicate k ''..'' @ ns \<and> (\<forall>y\<in>set ns. normal y) \<and> (is_abs p \<longrightarrow> k = 0)"
proof -
  have "clean_stack (is_abs p) (fold (clean_step (is_abs p)) (str_split slash p) [])"
    by (rule fold_clean_stack) (auto dest: str_split_elems intro: clean_stackI [of _ "[]" 0])
  then obtain ns k where "fold (clean_step (is_abs p)) (str_split slash p) [] = ns @ replicate k ''..''"
    "\<forall>y\<in>set ns. normal y" "is_abs p \<longrightarrow> k = 0" by (auto simp: clean_stack_def)
  then show ?thesis
    by (intro exI [of _ k] exI [of _ "rev ns"]) (simp add: path_elems_def clean_elems_def)
qed

lemma path_elems_plain:
  assumes "x \<in> set (path_elems p)"
  shows "x \<noteq> '''' \<and> slash \<notin> set x"
proof -
  obtain k ns where "path_elems p = replicate k ''..'' @ ns" "\<forall>y\<in>set ns. normal y"
    using path_elems_shape [of p] by blast
  then have "x = ''..'' \<or> normal x" using assms by (auto split: if_splits)
  then show ?thesis by (auto simp: normal_def)
qed

text \<open>The text of a path with the given elements.\<close>

definition path_text :: "bool \<Rightarrow> string list \<Rightarrow> string" where
  "path_text rooted xs = (if rooted then ''/'' else '''') @ str_join ''/'' xs"

lemma path_Clean_text: "path_elems p \<noteq> [] \<Longrightarrow> path_Clean p = path_text (is_abs p) (path_elems p)"
  using str_join_empty [of "path_elems p" "''/''"] path_elems_plain [of _ p]
  by (simp add: path_Clean_def path_text_def)

text \<open>Below a directory, the elements of a path are those of the directory and then its own.\<close>

lemma is_abs_append: "d \<noteq> '''' \<Longrightarrow> is_abs (d @ e) = is_abs d"
  by (cases d) (auto simp: is_abs_def)

lemma path_elems_below:
  assumes "d \<noteq> ''''" "es \<noteq> []" "\<forall>x\<in>set es. normal x"
  shows "path_elems (d @ slash # str_join ''/'' es) = path_elems d @ es"
proof -
  have "str_split slash (d @ slash # str_join ''/'' es) = str_split slash d @ es"
    using assms by (simp add: str_split_append str_split_join normal_def)
  then show ?thesis
    using assms by (simp add: path_elems_def clean_elems_def is_abs_append fold_clean_normal)
qed

definition clean_dir :: "string \<Rightarrow> bool" where
  "clean_dir d \<longleftrightarrow> path_elems d \<noteq> [] \<and> d = path_text (is_abs d) (path_elems d)"

lemma clean_dir_nonempty: "clean_dir d \<Longrightarrow> d \<noteq> ''''"
  by (auto simp: clean_dir_def path_elems_def clean_elems_def clean_step_def)

lemma path_Join_below:
  assumes d: "clean_dir d" and es: "es \<noteq> []" "\<forall>x\<in>set es. normal x"
  shows "path_Join [d, str_join ''/'' es] = d @ slash # str_join ''/'' es"
proof -
  have ne: "d \<noteq> ''''" by (rule clean_dir_nonempty [OF d])
  have "str_join ''/'' es \<noteq> ''''" using es str_join_empty [of es "''/''"] by (auto simp: normal_def)
  then have "path_Join [d, str_join ''/'' es] = path_Clean (d @ slash # str_join ''/'' es)"
    using ne by (simp add: path_Join_def)
  also have "\<dots> = path_text (is_abs d) (path_elems d @ es)"
    using path_Clean_text [of "d @ slash # str_join ''/'' es"] path_elems_below [OF ne es] es(1) ne
    by (simp add: is_abs_append)
  also have "\<dots> = path_text (is_abs d) (path_elems d) @ slash # str_join ''/'' es"
    using d es(1) by (simp add: path_text_def str_join_append clean_dir_def)
  also have "\<dots> = d @ slash # str_join ''/'' es" using d by (simp add: clean_dir_def)
  finally show ?thesis .
qed

lemma clean_dir_below:
  assumes "clean_dir d" "es \<noteq> []" "\<forall>x\<in>set es. normal x"
  shows "clean_dir (d @ slash # str_join ''/'' es)"
proof -
  have ne: "d \<noteq> ''''" by (rule clean_dir_nonempty [OF assms(1)])
  have "d @ slash # str_join ''/'' es = path_text (is_abs d) (path_elems d @ es)"
    using assms by (simp add: path_text_def str_join_append clean_dir_def)
  then show ?thesis unfolding clean_dir_def path_elems_below [OF ne assms(2,3)] is_abs_append [OF ne]
    using assms(2) by simp
qed

text \<open>The parent.\<close>

lemma str_last_index_absent: "slash \<notin> set e \<Longrightarrow> str_last_index e ''/'' = None"
  by (induction e) auto

lemma str_last_index_slash: "slash \<notin> set e \<Longrightarrow> str_last_index (q @ slash # e) ''/'' = Some (length q)"
  by (induction q) (auto simp: str_last_index_absent)

lemma path_Dir_below:
  assumes q: "clean_dir q" and e: "slash \<notin> set e"
  shows "path_Dir (q @ slash # e) = q"
proof -
  have ne: "q \<noteq> ''''" by (rule clean_dir_nonempty [OF q])
  have "str_split slash (q @ [slash]) = str_split slash q @ [[]]" by (simp add: str_split_append)
  then have "path_elems (q @ [slash]) = path_elems q"
    using ne by (simp add: path_elems_def clean_elems_def is_abs_append clean_step_def)
  then show ?thesis
    using path_Clean_text [of "q @ [slash]"] q ne
    by (simp add: path_Dir_def str_last_index_slash [OF e] is_abs_append clean_dir_def)
qed

lemma path_Dir_join:
  assumes d: "clean_dir d" and es: "es \<noteq> []" "\<forall>x\<in>set es. normal x"
  shows "path_Dir (d @ slash # str_join ''/'' es) = (if butlast es = [] then d else d @ slash # str_join ''/'' (butlast es))"
proof (cases "butlast es = []")
  case True
  then obtain e where "es = [e]" using es(1) by (metis append_butlast_last_id append_Nil)
  then show ?thesis using path_Dir_below [OF d] es(2) by (simp add: normal_def)
next
  case False
  have b: "\<forall>x\<in>set (butlast es). normal x" using es(2) in_set_butlastD by fastforce
  have "str_join ''/'' es = str_join ''/'' (butlast es @ [last es])" using es(1) by simp
  also have "\<dots> = str_join ''/'' (butlast es) @ slash # last es" using False by (subst str_join_append) simp_all
  finally have "d @ slash # str_join ''/'' es = (d @ slash # str_join ''/'' (butlast es)) @ slash # last es" by simp
  moreover have "slash \<notin> set (last es)" using es by (simp add: normal_def)
  ultimately show ?thesis using path_Dir_below [OF clean_dir_below [OF d False b]] False by simp
qed

text \<open>Cleaning gives a clean path.\<close>

lemma fold_clean_dots: "fold (clean_step False) (replicate k ''..'') (replicate n ''..'') = replicate (n + k) ''..''"
proof (induction k arbitrary: n)
  case (Suc k)
  have "clean_step False ''..'' (replicate n ''..'') = replicate (Suc n) ''..''"
    by (cases n) (simp_all add: clean_step_def)
  then show ?case using Suc.IH [of "Suc n"] by simp
qed simp

lemma path_elems_text:
  assumes "es = replicate k ''..'' @ ns" "\<forall>y\<in>set ns. normal y" "rooted \<longrightarrow> k = 0" "es \<noteq> []"
  shows "is_abs (path_text rooted es) = rooted" "path_elems (path_text rooted es) = es"
proof -
  have plain: "\<forall>x\<in>set es. x \<noteq> '''' \<and> slash \<notin> set x"
  proof
    fix x
    assume "x \<in> set es"
    then have "x = ''..'' \<or> normal x" using assms(1,2) by (auto split: if_splits)
    then show "x \<noteq> '''' \<and> slash \<notin> set x" by (auto simp: normal_def)
  qed
  obtain x xs where x: "es = x # xs" using assms(4) by (cases es) auto
  then have "x \<noteq> ''''" "slash \<notin> set x" using plain by simp_all
  then have nx: "hd x \<noteq> slash" by (intro notI) (use hd_in_set [of x] in simp)
  have "\<exists>r. str_join ''/'' es = x @ r" unfolding x by (cases xs) auto
  then have "\<exists>r. str_join ''/'' es = hd x # r" using \<open>x \<noteq> ''''\<close> by (cases x) auto
  then have "\<not> is_abs (str_join ''/'' es)" using nx by (auto simp: is_abs_def)
  then show a: "is_abs (path_text rooted es) = rooted"
    by (cases rooted) (simp_all add: path_text_def is_abs_def)
  have s: "str_split slash (str_join ''/'' es) = es" using plain assms(4) by (intro str_split_join) auto
  have "fold (clean_step rooted) es [] = rev ns @ replicate k ''..''"
    using assms(1-3) fold_clean_dots [of k 0] by (cases rooted) (simp_all add: fold_clean_normal)
  then have "clean_elems rooted es = es" using assms(1) by (simp add: clean_elems_def)
  moreover have "clean_elems rooted (''''  # es) = clean_elems rooted es" by (simp add: clean_elems_def clean_step_def)
  ultimately show "path_elems (path_text rooted es) = es"
    unfolding path_elems_def a using s by (cases rooted) (simp_all add: path_text_def)
qed

lemma clean_dir_Clean:
  assumes "path_elems p \<noteq> []"
  shows "clean_dir (path_Clean p)"
proof -
  obtain k ns where "path_elems p = replicate k ''..'' @ ns" "\<forall>y\<in>set ns. normal y" "is_abs p \<longrightarrow> k = 0"
    using path_elems_shape [of p] by blast
  from path_elems_text [OF this assms] show ?thesis
    unfolding clean_dir_def path_Clean_text [OF assms] using assms by simp
qed

end
