(* ===== verification/Go_Pretty.thy ===== *)
theory Go_Pretty
  imports Go_Json
begin

text \<open>
  \<open>json.MarshalIndent\<close> with two blanks, and the file contents the commands write: the indented text
  and a line feed.
\<close>

definition new_line :: "nat \<Rightarrow> string" where
  "new_line n = CHR 0x0A # replicate (2 * n) (CHR '' '')"

fun pretty :: "nat \<Rightarrow> json \<Rightarrow> string"
and pretty_items :: "nat \<Rightarrow> json list \<Rightarrow> string list"
and pretty_members :: "nat \<Rightarrow> members \<Rightarrow> string list" where
  "pretty n (JArr xs) = (if xs = [] then ''[]''
     else ''['' @ str_join '','' (pretty_items (Suc n) xs) @ new_line n @ '']'')"
| "pretty n (JObj ms) = (if ms = [] then ''{}''
     else ''{'' @ str_join '','' (pretty_members (Suc n) ms) @ new_line n @ ''}'')"
| "pretty n JNull = json_text JNull"
| "pretty n (JBool b) = json_text (JBool b)"
| "pretty n (JNum t) = json_text (JNum t)"
| "pretty n (JStr s) = json_text (JStr s)"
| "pretty_items n [] = []"
| "pretty_items n (x # xs) = (new_line n @ pretty n x) # pretty_items n xs"
| "pretty_members n [] = []"
| "pretty_members n ((k, v) # ms) = (new_line n @ json_string k @ '': '' @ pretty n v) # pretty_members n ms"

definition json_strings :: "string list \<Rightarrow> json" where
  "json_strings xs = JArr (map JStr xs)"

definition marshalPretty :: "json \<Rightarrow> string" where
  "marshalPretty v = pretty 0 v @ [CHR 0x0A]"

end
