(* ===== verification/Runtimebin.thy ===== *)
theory Runtimebin
  imports Payload Go_Path Go_Pretty
begin

text \<open>
  \<open>internal/runtimebin\<close>: versions, targets, the release manifest, finding the runtime and
  installing it from a signed archive. The file system is a map from cleaned slash paths to
  nodes, passed as an argument; hashing, signature checking and the tar and gzip formats are
  arguments too, an archive being the list of its entries. Paths are those of \<open>Go_Path\<close>.
\<close>

section \<open>Targets\<close>

definition DefaultRuntimeVersion :: string where
  "DefaultRuntimeVersion = ''0.144.4''"

record TargetSpec =
  GOOS :: string
  GOARCH :: string
  Triple :: string
  Executable :: string
  UpstreamAsset :: string

definition target_spec :: "string \<Rightarrow> string \<Rightarrow> string \<Rightarrow> string \<Rightarrow> TargetSpec" where
  "target_spec os arch triple exe = \<lparr>GOOS = os, GOARCH = arch, Triple = triple, Executable = exe,
     UpstreamAsset = ''codex-package-'' @ triple @ ''.tar.gz''\<rparr>"

definition supportedTargets :: "TargetSpec list" where
  "supportedTargets =
    [target_spec ''darwin'' ''amd64'' ''x86_64-apple-darwin'' ''codex'',
     target_spec ''darwin'' ''arm64'' ''aarch64-apple-darwin'' ''codex'',
     target_spec ''linux'' ''amd64'' ''x86_64-unknown-linux-musl'' ''codex'',
     target_spec ''linux'' ''arm64'' ''aarch64-unknown-linux-musl'' ''codex'',
     target_spec ''windows'' ''amd64'' ''x86_64-pc-windows-msvc'' ''codex.exe'',
     target_spec ''windows'' ''arm64'' ''aarch64-pc-windows-msvc'' ''codex.exe'']"

definition LookupTarget :: "string \<Rightarrow> string \<Rightarrow> go_error + TargetSpec" where
  "LookupTarget goos goarch =
    (case find (\<lambda>t. GOOS t = goos \<and> GOARCH t = goarch) supportedTargets of
       Some t \<Rightarrow> Inr t
     | None \<Rightarrow> Inl (Text (''runtimebin: unsupported target '' @ goos @ ''/'' @ goarch)))"

definition LookupTargetByTriple :: "string \<Rightarrow> go_error + TargetSpec" where
  "LookupTargetByTriple triple =
    (case find (\<lambda>t. Triple t = triple) supportedTargets of
       Some t \<Rightarrow> Inr t
     | None \<Rightarrow> Inl (Text (''runtimebin: unsupported target triple '' @ go_quote triple)))"

definition ArchiveName :: "string \<Rightarrow> TargetSpec \<Rightarrow> string" where
  "ArchiveName v t = ''codex-sdk-go-runtime_'' @ v @ ''_'' @ GOOS t @ ''_'' @ GOARCH t @ ''.tar.gz''"

definition pathSeparator :: "string \<Rightarrow> char" where
  "pathSeparator root = (if CHR 92 \<in> set root then CHR 92 else CHR ''/'')"

definition joinRuntimePath :: "string \<Rightarrow> string \<Rightarrow> string" where
  "joinRuntimePath root child =
    (if hasSuffix root ''/'' \<or> hasSuffix root [CHR 92] then root @ child else root @ [pathSeparator root] @ child)"

definition TargetPathDirs :: "string \<Rightarrow> string list" where
  "TargetPathDirs root = [joinRuntimePath root ''bin'', joinRuntimePath root ''codex-path'']"

section \<open>Versions\<close>

text \<open>
  The regular expressions as scanners. Each is deterministic: after a greedy run of digits no
  shorter run could let the rest match.
\<close>

definition is_digit :: "char \<Rightarrow> bool" where
  "is_digit c \<longleftrightarrow> 48 \<le> (of_char c :: nat) \<and> (of_char c :: nat) \<le> 57"

text \<open>\<open>[0-9]+\<close>.\<close>

definition scan_digits :: "string \<Rightarrow> (string \<times> string) option" where
  "scan_digits s = (case takeWhile is_digit s of [] \<Rightarrow> None | d # ds \<Rightarrow> Some (d # ds, dropWhile is_digit s))"

lemma scan_digits_shorter: "scan_digits s = Some (ds, t) \<Longrightarrow> s = ds @ t \<and> length t < length s"
proof -
  assume a: "scan_digits s = Some (ds, t)"
  then have "ds = takeWhile is_digit s" "ds \<noteq> []" "t = dropWhile is_digit s"
    by (auto simp: scan_digits_def split: list.splits)
  moreover have "takeWhile is_digit s @ dropWhile is_digit s = s" by (rule takeWhile_dropWhile_id)
  ultimately have "s = ds @ t" by simp
  with \<open>ds \<noteq> []\<close> show ?thesis by simp
qed

text \<open>\<open>(?:\.[0-9]+)*\<close>.\<close>

function scan_dotted :: "string \<Rightarrow> string \<times> string" where
  "scan_dotted s = (case s of
     c # t \<Rightarrow> if c = CHR ''.'' then (case scan_digits t of
         Some (ds, u) \<Rightarrow> (case scan_dotted u of (x, y) \<Rightarrow> (CHR ''.'' # ds @ x, y))
       | None \<Rightarrow> ([], s)) else ([], s)
   | [] \<Rightarrow> ([], s))"
  by pat_completeness auto
termination by (relation "measure length") (auto dest: scan_digits_shorter)

declare scan_dotted.simps [simp del]

definition scan_release :: "string \<Rightarrow> (string \<times> string) option" where
  "scan_release s = (case scan_digits s of
     None \<Rightarrow> None
   | Some (ds, t) \<Rightarrow> (case scan_dotted t of (x, y) \<Rightarrow> Some (ds @ x, y)))"

definition scan_pre :: "string \<Rightarrow> (string \<times> string \<times> string) option" where
  "scan_pre s =
    (let try = (\<lambda>p. if hasPrefix s p then map_option (\<lambda>(ds, t). (p, ds, t)) (scan_digits (drop (length p) s)) else None)
     in case try ''a'' of Some r \<Rightarrow> Some r
        | None \<Rightarrow> (case try ''b'' of Some r \<Rightarrow> Some r | None \<Rightarrow> try ''rc''))"

definition scan_post :: "string \<Rightarrow> (string \<times> string) option" where
  "scan_post s = (if hasPrefix s ''.post'' then scan_digits (drop 5 s) else None)"

text \<open>The three parts of a normalised version, when the whole string is one.\<close>

definition parse_version :: "string \<Rightarrow> (string \<times> (string \<times> string) option \<times> string option) option" where
  "parse_version s = (case scan_release s of
     None \<Rightarrow> None
   | Some (rel, t) \<Rightarrow>
      (let (pre, u) = (case scan_pre t of Some (p, ds, u) \<Rightarrow> (Some (p, ds), u) | None \<Rightarrow> (None, t));
           (post, v) = (case scan_post u of Some (ds, v) \<Rightarrow> (Some ds, v) | None \<Rightarrow> (None, u))
       in if v = [] then Some (rel, pre, post) else None))"

text \<open>The four replacements of \<open>NormalizeRuntimeVersion\<close>, on a string that is one match to its end.\<close>

definition skip_dot :: "string \<Rightarrow> string" where
  "skip_dot s = (case s of c # t \<Rightarrow> if c = CHR ''.'' then t else s | [] \<Rightarrow> [])"

definition match_label :: "string \<Rightarrow> string \<Rightarrow> string \<Rightarrow> string option" where
  "match_label label new s =
    (if hasPrefix s label then
       (case scan_digits (skip_dot (drop (length label) s)) of
          Some (ds, []) \<Rightarrow> Some (new @ ds)
        | _ \<Rightarrow> None)
     else None)"

definition match_hotfix :: "string \<Rightarrow> string option" where
  "match_hotfix s =
    (if hasPrefix s ''-alpha'' then
       (case scan_digits (skip_dot (drop 6 s)) of
          Some (ds, c # t) \<Rightarrow>
            if c = CHR ''.'' then (case scan_digits t of Some (es, []) \<Rightarrow> Some (''a'' @ ds @ ''.post'' @ es) | _ \<Rightarrow> None)
            else None
        | _ \<Rightarrow> None)
     else None)"

text \<open>\<open>ReplaceAllString\<close> of a pattern that ends at the end of the text: the leftmost match is the only one.\<close>

fun replace_end :: "(string \<Rightarrow> string option) \<Rightarrow> string \<Rightarrow> string" where
  "replace_end m [] = []"
| "replace_end m (c # s) = (case m (c # s) of Some r \<Rightarrow> r | None \<Rightarrow> c # replace_end m s)"

definition strip_version_prefix :: "string \<Rightarrow> string" where
  "strip_version_prefix s =
    (if hasPrefix s ''rust-v'' then trimPrefix s ''rust-v'' else if hasPrefix s ''v'' then trimPrefix s ''v'' else s)"

definition NormalizeRuntimeVersion :: "string \<Rightarrow> go_error + string" where
  "NormalizeRuntimeVersion version =
    (let n0 = strip_version_prefix (trimSpace version);
         n1 = replace_end match_hotfix n0;
         n2 = replace_end (match_label ''-alpha'' ''a'') n1;
         n3 = replace_end (match_label ''-beta'' ''b'') n2;
         n4 = replace_end (match_label ''-rc'' ''rc'') n3
     in if parse_version n4 = None then Inl (Text (''runtimebin: unsupported runtime version '' @ go_quote version))
        else Inr n4)"

definition release_form :: "string \<Rightarrow> string" where
  "release_form n = (case parse_version n of
     Some (rel, Some (p, ds), Some es) \<Rightarrow> if p = ''a'' then rel @ ''-alpha.'' @ ds @ ''.'' @ es else n
   | Some (rel, Some (p, ds), None) \<Rightarrow>
       rel @ ''-'' @ (if p = ''a'' then ''alpha'' else if p = ''b'' then ''beta'' else ''rc'') @ ''.'' @ ds
   | _ \<Rightarrow> n)"

definition ReleaseVersionForVersion :: "string \<Rightarrow> go_error + string" where
  "ReleaseVersionForVersion version =
    (case NormalizeRuntimeVersion version of Inl e \<Rightarrow> Inl e | Inr n \<Rightarrow> Inr (release_form n))"

definition ReleaseTagForVersion :: "string \<Rightarrow> go_error + string" where
  "ReleaseTagForVersion version =
    (case ReleaseVersionForVersion version of Inl e \<Rightarrow> Inl e | Inr r \<Rightarrow> Inr (''rust-v'' @ r))"

section \<open>The manifest\<close>

record ManifestFile =
  mf_Path :: string
  mf_SHA256 :: string
  mf_Size :: int
  mf_Mode :: int
  mf_Role :: string

record ManifestTarget =
  mt_GOOS :: string
  mt_GOARCH :: string
  mt_Triple :: string
  mt_Executable :: string
  mt_UpstreamAsset :: string
  mt_UpstreamArchiveSHA256 :: string
  mt_UpstreamArchiveSize :: int
  mt_ArchiveName :: string
  mt_ArchiveSHA256 :: string
  mt_ArchiveSize :: int
  mt_Files :: "ManifestFile list"

record Manifest =
  m_SchemaVersion :: int
  m_SDKVersion :: string
  m_RuntimeVersion :: string
  m_UpstreamRepo :: string
  m_UpstreamTag :: string
  m_Targets :: "ManifestTarget list"

text \<open>\<open>hex.DecodeString\<close> accepts the text and it is a SHA-256: 64 hexadecimal digits.\<close>

definition is_hex :: "char \<Rightarrow> bool" where
  "is_hex c \<longleftrightarrow> is_digit c \<or> (let n = of_char c :: nat in 97 \<le> n \<and> n \<le> 102 \<or> 65 \<le> n \<and> n \<le> 70)"

definition is_sha256 :: "string \<Rightarrow> bool" where
  "is_sha256 s \<longleftrightarrow> list_all is_hex s \<and> length s = 64"

definition valid_path :: "string \<Rightarrow> bool" where
  "valid_path p \<longleftrightarrow> p \<noteq> '''' \<and> p = trimPrefix p ''/'' \<and> \<not> hasPrefix p ''..'' \<and> CHR 92 \<notin> set p"

fun validate_files :: "string \<Rightarrow> string \<Rightarrow> ManifestFile list \<Rightarrow> go_error option" where
  "validate_files triple lastPath [] = None"
| "validate_files triple lastPath (f # fs) =
     (if \<not> valid_path (mf_Path f) then Some (Text (''runtimebin: invalid file path '' @ go_quote (mf_Path f)))
      else if mf_Path f \<le> lastPath
        then Some (Text (''runtimebin: manifest files for '' @ go_quote triple @ '' are not sorted''))
      else if \<not> is_sha256 (mf_SHA256 f) then Some (Text (''runtimebin: invalid file sha256 '' @ go_quote (mf_Path f)))
      else if mf_Size f < 0 \<or> mf_Mode f \<le> 0 \<or> mf_Role f = ''''
        then Some (Text (''runtimebin: incomplete file metadata for '' @ go_quote (mf_Path f)))
      else validate_files triple (mf_Path f) fs)"

definition validate_target :: "ManifestTarget \<Rightarrow> TargetSpec \<Rightarrow> go_error option" where
  "validate_target t spec =
    (let bad = (\<lambda>what. Some (Text (''runtimebin: manifest target '' @ go_quote (mt_Triple t) @ what)))
     in if mt_GOOS t \<noteq> GOOS spec \<or> mt_GOARCH t \<noteq> GOARCH spec \<or> mt_Executable t \<noteq> Executable spec \<or>
           mt_UpstreamAsset t \<noteq> UpstreamAsset spec
        then bad '' does not match supported target metadata''
        else if mt_ArchiveName t = '''' \<or> mt_ArchiveSHA256 t = '''' \<or> mt_ArchiveSize t \<le> 0
        then bad '' is missing archive metadata''
        else if mt_UpstreamArchiveSHA256 t \<noteq> '''' \<and> \<not> is_sha256 (mt_UpstreamArchiveSHA256 t)
        then bad '' has invalid upstream archive sha256''
        else if mt_UpstreamArchiveSHA256 t \<noteq> '''' \<and> mt_UpstreamArchiveSize t \<le> 0
        then bad '' has invalid upstream archive size''
        else if \<not> is_sha256 (mt_ArchiveSHA256 t) then bad '' has invalid archive sha256''
        else if mt_Files t = [] then bad '' has no files''
        else validate_files (mt_Triple t) '''' (mt_Files t))"

fun validate_targets :: "string set \<Rightarrow> ManifestTarget list \<Rightarrow> go_error option" where
  "validate_targets seen [] = None"
| "validate_targets seen (t # ts) =
     (case LookupTargetByTriple (mt_Triple t) of
        Inl e \<Rightarrow> Some e
      | Inr spec \<Rightarrow>
         if mt_Triple t \<in> seen then Some (Text (''runtimebin: duplicate target '' @ go_quote (mt_Triple t)))
         else (case validate_target t spec of
             Some e \<Rightarrow> Some e
           | None \<Rightarrow> validate_targets (insert (mt_Triple t) seen) ts))"

definition Validate :: "Manifest \<Rightarrow> go_error option" where
  "Validate m =
    (if m_SchemaVersion m \<noteq> 1
     then Some (Text (''runtimebin: manifest schemaVersion='' @ show_int (m_SchemaVersion m) @ '', want 1''))
     else case NormalizeRuntimeVersion (m_RuntimeVersion m) of
         Inl e \<Rightarrow> Some e
       | Inr _ \<Rightarrow>
          if m_SDKVersion m = '''' \<or> m_UpstreamRepo m = '''' \<or> m_UpstreamTag m = ''''
          then Some (Text ''runtimebin: manifest metadata is incomplete'')
          else if length (m_Targets m) \<noteq> length supportedTargets
          then Some (Text (''runtimebin: manifest has '' @ show_nat (length (m_Targets m)) @ '' targets, want '' @
            show_nat (length supportedTargets)))
          else validate_targets {} (m_Targets m))"

definition Manifest_Target :: "Manifest \<Rightarrow> string \<Rightarrow> go_error + ManifestTarget" where
  "Manifest_Target m triple = (case find (\<lambda>t. mt_Triple t = triple) (m_Targets m) of
     Some t \<Rightarrow> Inr t
   | None \<Rightarrow> Inl (Text (''runtimebin: manifest missing target '' @ go_quote triple)))"

text \<open>\<open>BuildManifest\<close>; \<open>sort.Slice\<close> by triple, which \<open>Validate\<close> requires to be distinct.\<close>

definition BuildManifest :: "string \<Rightarrow> string \<Rightarrow> string \<Rightarrow> ManifestTarget list \<Rightarrow> go_error + Manifest" where
  "BuildManifest sdkVersion runtimeVersion upstreamRepo targets =
    (case ReleaseTagForVersion runtimeVersion of
       Inl e \<Rightarrow> Inl e
     | Inr tag \<Rightarrow>
        (let m = \<lparr>m_SchemaVersion = 1, m_SDKVersion = sdkVersion, m_RuntimeVersion = runtimeVersion,
               m_UpstreamRepo = upstreamRepo, m_UpstreamTag = tag, m_Targets = sort_key mt_Triple targets\<rparr>
         in case Validate m of Some e \<Rightarrow> Inl e | None \<Rightarrow> Inr m))"

section \<open>Signatures\<close>

record SignatureEnvelope =
  se_KeyID :: string
  se_Algorithm :: string
  se_Signature :: string

text \<open>\<open>verify\<close> is \<open>ed25519.Verify\<close>, \<open>decode64\<close> the standard base64 decoding.\<close>

fun verify_roots :: "(string \<Rightarrow> string \<Rightarrow> string \<Rightarrow> bool) \<Rightarrow> string \<Rightarrow> SignatureEnvelope \<Rightarrow> string \<Rightarrow> (string \<times> string) list \<Rightarrow>
   go_error option" where
  "verify_roots verify manifest env sig [] =
     Some (Text (''runtimebin: untrusted manifest signing key '' @ go_quote (se_KeyID env)))"
| "verify_roots verify manifest env sig ((kid, key) # roots) =
     (if kid \<noteq> se_KeyID env then verify_roots verify manifest env sig roots
      else if verify key manifest sig then None
      else Some (Text (''runtimebin: manifest signature verification failed for key '' @ go_quote (se_KeyID env))))"

definition VerifyManifestSignature ::
  "(string \<Rightarrow> string \<Rightarrow> string \<Rightarrow> bool) \<Rightarrow> (string \<Rightarrow> go_error + string) \<Rightarrow> string \<Rightarrow> SignatureEnvelope \<Rightarrow>
   (string \<times> string) list \<Rightarrow> go_error option" where
  "VerifyManifestSignature verify decode64 manifest env roots =
    (if se_Algorithm env \<noteq> ''ed25519''
     then Some (Text (''runtimebin: unsupported signature algorithm '' @ go_quote (se_Algorithm env)))
     else case decode64 (se_Signature env) of
         Inl e \<Rightarrow> Some (Wrapped (''runtimebin: invalid signature encoding: '' @ err_text e) [e])
       | Inr sig \<Rightarrow> verify_roots verify manifest env sig roots)"

section \<open>Finding the runtime\<close>

datatype node = FileNode (file_data: string) (file_mode: nat) | DirNode

type_synonym fs = "string \<Rightarrow> node option"

definition not_exist :: go_error where
  "not_exist = Sentinel ''file does not exist''"

definition exists_error :: go_error where
  "exists_error = Sentinel ''file already exists''"

definition ErrRuntimeNotInstalled :: go_error where
  "ErrRuntimeNotInstalled = Sentinel ''runtimebin: runtime not installed''"

text \<open>\<open>os.Stat\<close> and the error it returns; \<open>cache\<close> is \<open>os.UserCacheDir\<close>, \<open>tmp\<close> is \<open>os.TempDir\<close>.\<close>

record os_env =
  userCacheDir :: "string option"
  tempDir :: string
  environ_of :: "string list"
  windows :: bool

definition defaultCacheRoot :: "os_env \<Rightarrow> string \<Rightarrow> string" where
  "defaultCacheRoot os root =
    (if root \<noteq> '''' then root
     else case userCacheDir os of
         None \<Rightarrow> path_Join [tempDir os, ''codex-sdk-go-runtime'']
       | Some c \<Rightarrow> path_Join [c, ''codex-sdk-go''])"

definition managedInstallRoot :: "os_env \<Rightarrow> string \<Rightarrow> string \<Rightarrow> TargetSpec \<Rightarrow> go_error + string" where
  "managedInstallRoot os cacheRoot version target =
    (case NormalizeRuntimeVersion version of
       Inl e \<Rightarrow> Inl e
     | Inr n \<Rightarrow>
        (let base = path_Join [defaultCacheRoot os cacheRoot, ''targets'', Triple target];
             root = path_Join [base, n]
         in case path_Rel base root of
              Inl e \<Rightarrow> Inl e
            | Inr rel \<Rightarrow>
               if rel = ''.'' \<or> rel = '''' \<or> rel = ''..'' \<or> hasPrefix rel ''../''
               then Inl (Text (''runtimebin: invalid managed runtime version '' @ go_quote version))
               else Inr root))"

text \<open>\<open>PathEnvKey\<close>; on Windows the first variable that is \<open>PATH\<close> up to case, in map order.\<close>

definition PathEnvKey :: "bool \<Rightarrow> string gomap \<Rightarrow> string" where
  "PathEnvKey win env =
    (if \<not> win then ''PATH''
     else if ''Path'' \<in> fst ` set env then ''Path''
     else if ''PATH'' \<in> fst ` set env then ''PATH''
     else (case find (\<lambda>(k, v). equalFold k ''PATH'') env of Some (k, v) \<Rightarrow> k | None \<Rightarrow> ''PATH''))"

fun fresh_dirs :: "string list \<Rightarrow> string list \<Rightarrow> string list" where
  "fresh_dirs seen [] = []"
| "fresh_dirs seen (d # ds) =
     (if d = '''' \<or> d \<in> set seen then fresh_dirs seen ds else d # fresh_dirs (d # seen) ds)"

definition list_sep :: "bool \<Rightarrow> char" where
  "list_sep win = (if win then CHR '';'' else CHR '':'')"

definition PrependPathDirs :: "bool \<Rightarrow> string gomap \<Rightarrow> string list \<Rightarrow> string gomap" where
  "PrependPathDirs win env dirs =
    (if dirs = [] then env
     else
      (let key = PathEnvKey win env;
           env1 = (if win then filter (\<lambda>(k, v). \<not> (equalFold k ''PATH'' \<and> k \<noteq> key)) env else env);
           front = fresh_dirs [] dirs;
           old = (case map_of env1 key of Some v \<Rightarrow> v | None \<Rightarrow> '''');
           rest = filter (\<lambda>d. d \<noteq> '''' \<and> d \<notin> set front) (str_split (list_sep win) old)
       in AList.update key (str_join [list_sep win] (front @ rest)) env1))"

definition binaryBaseName :: "string \<Rightarrow> string" where
  "binaryBaseName e = (if hasSuffix e ''.exe'' then trimSuffix e ''.exe'' else e)"

text \<open>
  \<open>lookPath\<close> in a given environment; \<open>inherited\<close> is \<open>exec.LookPath\<close>, \<open>win\<close> is \<open>isWindowsEnv\<close>: there a
  name without an extension is also tried with those of \<open>PATHEXT\<close>, in lower and in upper case, and
  no permission is asked for. The extensions are ASCII.
\<close>

definition is_executable :: "bool \<Rightarrow> fs \<Rightarrow> string \<Rightarrow> bool" where
  "is_executable win f p = (case f p of
     Some (FileNode _ m) \<Rightarrow> win \<or> m div 64 mod 2 = 1 \<or> m div 8 mod 2 = 1 \<or> m mod 2 = 1
   | _ \<Rightarrow> False)"

definition path_Ext :: "string \<Rightarrow> string" where
  "path_Ext p = (let name = rev (takeWhile (\<lambda>c. c \<noteq> CHR ''/'') (rev p))
     in case str_last_index name ''.'' of None \<Rightarrow> '''' | Some i \<Rightarrow> drop i name)"

definition candidates :: "bool \<Rightarrow> string gomap \<Rightarrow> string \<Rightarrow> string list" where
  "candidates win env file = file #
    (if win \<and> path_Ext file = ''''
     then (let extensions = orDefault (case map_of env ''PATHEXT'' of Some v \<Rightarrow> v | None \<Rightarrow> '''') ''.COM;.EXE;.BAT;.CMD''
           in concat (map (\<lambda>x. if x = '''' then [] else [file @ toLower x, file @ map char_upper x]) (str_split (CHR '';'') extensions)))
     else [])"

definition lookPath :: "bool \<Rightarrow> (string \<Rightarrow> string option) \<Rightarrow> fs \<Rightarrow> string \<Rightarrow> string gomap \<Rightarrow> bool \<Rightarrow> string option" where
  "lookPath win inherited f file env inherit =
    (if inherit then inherited file
     else
      (let dirs = str_split (list_sep win) (case map_of env (PathEnvKey win env) of Some v \<Rightarrow> v | None \<Rightarrow> '''')
       in find (is_executable win f)
            (concat (map (\<lambda>d. if d = '''' then [] else map (\<lambda>c. path_Join [d, c]) (candidates win env file)) dirs))))"

record ResolvedRuntime =
  BinaryPath :: string
  RootDir :: string
  PathDirs :: "string list"
  Source :: string
  rr_Target :: TargetSpec
  rr_Version :: string

record ResolveOptions =
  ExplicitBinary :: string
  ro_Env :: "string gomap option"
  ro_CacheRoot :: string
  ro_RuntimeVersion :: string
  ro_AllowPATH :: bool

definition given_binary :: "string \<Rightarrow> string \<Rightarrow> TargetSpec \<Rightarrow> string \<Rightarrow> ResolvedRuntime" where
  "given_binary source path target version = \<lparr>BinaryPath = path, RootDir = path_Dir (path_Dir path),
     PathDirs = [path_Dir path], Source = source, rr_Target = target, rr_Version = version\<rparr>"

definition managed_runtime :: "string \<Rightarrow> TargetSpec \<Rightarrow> string \<Rightarrow> ResolvedRuntime" where
  "managed_runtime root target version = \<lparr>BinaryPath = path_Join [root, ''bin'', Executable target], RootDir = root,
     PathDirs = TargetPathDirs root, Source = ''managed'', rr_Target = target, rr_Version = version\<rparr>"

text \<open>\<open>ResolveRuntime\<close> for a target; \<open>not_exist\<close> stands for the error of \<open>os.Stat\<close> on a path that is not there.\<close>

definition ResolveRuntime ::
  "os_env \<Rightarrow> (string \<Rightarrow> string option) \<Rightarrow> fs \<Rightarrow> TargetSpec \<Rightarrow> ResolveOptions \<Rightarrow> go_error + ResolvedRuntime" where
  "ResolveRuntime os inherited f target opts =
    (if ExplicitBinary opts \<noteq> '''' then
       (if f (path_Clean (ExplicitBinary opts)) = None
        then Inl (Wrapped (''runtimebin: explicit runtime path '' @ ExplicitBinary opts @ '': '' @ err_text not_exist) [not_exist])
        else Inr (given_binary ''explicit'' (ExplicitBinary opts) target (ro_RuntimeVersion opts)))
     else
      (let env = (case ro_Env opts of Some m \<Rightarrow> m | None \<Rightarrow> parse_environ (environ_of os));
           envPath = (case map_of env ''CODEX_RUNTIME_PATH'' of Some p \<Rightarrow> p | None \<Rightarrow> '''')
       in if envPath \<noteq> '''' then
            (if f (path_Clean envPath) = None
             then Inl (Wrapped (''runtimebin: CODEX_RUNTIME_PATH '' @ envPath @ '': '' @ err_text not_exist) [not_exist])
             else Inr (given_binary ''env'' envPath target (ro_RuntimeVersion opts)))
          else
           (case managedInstallRoot os (ro_CacheRoot opts) (ro_RuntimeVersion opts) target of
              Inl e \<Rightarrow> Inl e
            | Inr root \<Rightarrow>
               if f (path_Join [root, ''bin'', Executable target]) \<noteq> None
               then Inr (managed_runtime root target (ro_RuntimeVersion opts))
               else if ro_AllowPATH opts then
                 (case lookPath (windows os) inherited f (binaryBaseName (Executable target)) env (ro_Env opts = None) of
                    None \<Rightarrow> Inl (Wrapped (err_text ErrRuntimeNotInstalled @ '': install '' @ ro_RuntimeVersion opts @ '' for '' @
                      Triple target @ '' or set CODEX_RUNTIME_PATH'') [ErrRuntimeNotInstalled])
                  | Some p \<Rightarrow> Inr \<lparr>BinaryPath = p, RootDir = path_Dir p, PathDirs = [path_Dir p], Source = ''path'',
                      rr_Target = target, rr_Version = ro_RuntimeVersion opts\<rparr>)
               else Inl (Wrapped (err_text ErrRuntimeNotInstalled @ '': install '' @ ro_RuntimeVersion opts @ '' for '' @
                      Triple target @ '' or set an explicit path'') [ErrRuntimeNotInstalled]))))"

section \<open>Archives\<close>

text \<open>
  An archive is what the tar and gzip readers give: its hash and size as a file, its entries in
  order and the error at the end, if any. \<open>sha\<close> is the hexadecimal SHA-256 of some bytes.
\<close>

record tar_entry =
  te_Name :: string
  te_Type :: nat
  te_Size :: int
  te_Mode :: nat
  te_Data :: string

definition TypeReg :: nat where
  "TypeReg = 48"

definition TypeDir :: nat where
  "TypeDir = 53"

record archive =
  ar_SHA :: string
  ar_Size :: int
  ar_Entries :: "tar_entry list"
  ar_Err :: "go_error option"

definition safeArchivePath :: "string \<Rightarrow> string option" where
  "safeArchivePath name =
    (if name = '''' \<or> CHR 92 \<in> set name \<or> is_abs name then None
     else (let clean = path_Clean name
           in if clean = ''.'' \<or> clean = ''..'' \<or> hasPrefix clean ''../'' then None else Some clean))"

text \<open>The directories on the way to a cleaned path, the path itself last.\<close>

definition ancestors :: "string \<Rightarrow> string list" where
  "ancestors p = map (\<lambda>n. (if is_abs p then ''/'' else '''') @ str_join ''/'' (take (Suc n) (path_elems p)))
     [0..<length (path_elems p)]"

definition MkdirAll :: "string \<Rightarrow> fs \<Rightarrow> go_error + fs" where
  "MkdirAll p f =
    (if list_ex (\<lambda>q. case f q of Some (FileNode _ _) \<Rightarrow> True | _ \<Rightarrow> False) (ancestors p)
     then Inl (Text ''not a directory'')
     else Inr (\<lambda>q. if q \<in> set (ancestors p) \<and> f q = None then Some DirNode else f q))"

text \<open>Addition of \<open>int64\<close>, which wraps around.\<close>

definition add64 :: "int \<Rightarrow> int \<Rightarrow> int" where
  "add64 a b = (a + b + 2 ^ 63) mod 2 ^ 64 - 2 ^ 63"

text \<open>The work on one entry: the new file system and the path written, or the error.\<close>

definition extract_entry ::
  "(string \<Rightarrow> string) \<Rightarrow> int \<Rightarrow> string \<Rightarrow> ManifestFile gomap \<Rightarrow> tar_entry \<Rightarrow> int \<Rightarrow> fs \<Rightarrow> fs \<times> (go_error + string \<times> int)" where
  "extract_entry sha maxBytes dest expected e tot f =
    (if te_Type e \<noteq> TypeReg
     then (f, Inl (Text (''runtimebin: unsupported tar entry '' @ go_quote (te_Name e) @ '' type='' @ show_nat (te_Type e))))
     else case safeArchivePath (te_Name e) of
         None \<Rightarrow> (f, Inl (Text (''runtimebin: invalid archive path '' @ go_quote (te_Name e))))
       | Some clean \<Rightarrow>
          (case map_of expected clean of
             None \<Rightarrow> (f, Inl (Text (''runtimebin: unexpected archive file '' @ go_quote clean)))
           | Some ef \<Rightarrow>
              if te_Size e \<noteq> mf_Size ef
              then (f, Inl (Text (''runtimebin: archive file size mismatch for '' @ go_quote clean)))
              else if add64 tot (te_Size e) > maxBytes
              then (f, Inl (Text ''runtimebin: extracted files exceed size limit''))
              else
               (let path = path_Join [dest, clean]
                in case MkdirAll (path_Dir path) f of
                     Inl err \<Rightarrow> (f, Inl err)
                   | Inr f1 \<Rightarrow>
                      if f1 path \<noteq> None then (f1, Inl exists_error)
                      else
                       (let f2 = f1(path \<mapsto> FileNode (te_Data e) (nat (mf_Mode ef)))
                        in if int (length (te_Data e)) \<noteq> mf_Size ef
                           then (f2, Inl (Text (''runtimebin: extracted file size mismatch for '' @ go_quote clean)))
                           else if sha (te_Data e) \<noteq> mf_SHA256 ef
                           then (f2, Inl (Text (''runtimebin: extracted file sha256 mismatch for '' @ go_quote clean)))
                           else (f2, Inr (clean, add64 tot (te_Size e)))))))"

fun extract_entries ::
  "(string \<Rightarrow> string) \<Rightarrow> int \<Rightarrow> string \<Rightarrow> ManifestFile gomap \<Rightarrow> tar_entry list \<Rightarrow> string list \<Rightarrow> int \<Rightarrow> fs \<Rightarrow> fs \<times> (go_error + string list)" where
  "extract_entries sha maxBytes dest expected [] written tot f = (f, Inr written)"
| "extract_entries sha maxBytes dest expected (e # es) written tot f =
     (case extract_entry sha maxBytes dest expected e tot f of
        (f1, Inl err) \<Rightarrow> (f1, Inl err)
      | (f1, Inr (clean, total1)) \<Rightarrow> extract_entries sha maxBytes dest expected es (clean # written) total1 f1)"

definition expected_files :: "ManifestFile list \<Rightarrow> ManifestFile gomap" where
  "expected_files fs = fold (\<lambda>x. AList.update (mf_Path x) x) fs []"

definition extractArchive ::
  "(string \<Rightarrow> string) \<Rightarrow> archive \<Rightarrow> string \<Rightarrow> ManifestTarget \<Rightarrow> int \<Rightarrow> fs \<Rightarrow> fs \<times> go_error option" where
  "extractArchive sha ar dest rec maxBytes f =
    (if ar_SHA ar \<noteq> mt_ArchiveSHA256 rec
     then (f, Some (Text (''runtimebin: archive sha256 mismatch: got '' @ ar_SHA ar @ '' want '' @ mt_ArchiveSHA256 rec)))
     else if ar_Size ar \<noteq> mt_ArchiveSize rec
     then (f, Some (Text (''runtimebin: archive size mismatch: got '' @ show_int (ar_Size ar) @ '' want '' @ show_int (mt_ArchiveSize rec))))
     else if ar_Size ar > maxBytes then (f, Some (Text ''runtimebin: archive exceeds size limit''))
     else case extract_entries sha maxBytes dest (expected_files (mt_Files rec)) (ar_Entries ar) [] 0 f of
         (f1, Inl e) \<Rightarrow> (f1, Some e)
       | (f1, Inr written) \<Rightarrow>
          (case ar_Err ar of
             Some e \<Rightarrow> (f1, Some e)
           | None \<Rightarrow>
              (case find (\<lambda>x. mf_Path x \<notin> set written) (mt_Files rec) of
                 Some x \<Rightarrow> (f1, Some (Text (''runtimebin: archive missing file '' @ go_quote (mf_Path x))))
               | None \<Rightarrow> (f1, None))))"

section \<open>Installing\<close>

text \<open>A path below a file cannot be opened, which is not the error \<open>os.IsNotExist\<close> tests for.\<close>

definition under_file :: "fs \<Rightarrow> string \<Rightarrow> bool" where
  "under_file f p \<longleftrightarrow> list_ex (\<lambda>q. case f q of Some (FileNode _ _) \<Rightarrow> True | _ \<Rightarrow> False) (ancestors p)"

text \<open>What is found at the paths of a record: all files as recorded, or not, or an error.\<close>

fun verify_files :: "(string \<Rightarrow> string) \<Rightarrow> string \<Rightarrow> ManifestFile list \<Rightarrow> fs \<Rightarrow> go_error + bool" where
  "verify_files sha root [] f = Inr True"
| "verify_files sha root (x # xs) f =
     (case f (path_Join [root, mf_Path x]) of
        None \<Rightarrow> if under_file f (path_Join [root, mf_Path x]) then Inl (Text ''not a directory'') else Inr False
      | Some DirNode \<Rightarrow> Inl (Text (''read '' @ path_Join [root, mf_Path x] @ '': is a directory''))
      | Some (FileNode d m) \<Rightarrow>
          if sha d \<noteq> mf_SHA256 x \<or> int (length d) \<noteq> mf_Size x then Inr False else verify_files sha root xs f)"

definition verifyInstalledRoot ::
  "(string \<Rightarrow> string) \<Rightarrow> string \<Rightarrow> ManifestTarget \<Rightarrow> string \<Rightarrow> TargetSpec \<Rightarrow> fs \<Rightarrow> go_error + ResolvedRuntime option" where
  "verifyInstalledRoot sha root rec version target f =
    (case f root of
       None \<Rightarrow> if under_file f root then Inl (Text ''not a directory'') else Inr None
     | Some (FileNode _ _) \<Rightarrow> Inl (Text (''runtimebin: install root is not a directory: '' @ root))
     | Some DirNode \<Rightarrow>
        (case verify_files sha root (mt_Files rec) f of
           Inl e \<Rightarrow> Inl e
         | Inr ok \<Rightarrow> Inr (if ok then Some (managed_runtime root target version) else None)))"

text \<open>\<open>os.RemoveAll\<close>, and \<open>os.Rename\<close> of a directory: a directory in the way is \<open>ErrExist\<close>.\<close>

definition below :: "string \<Rightarrow> string \<Rightarrow> bool" where
  "below d p \<longleftrightarrow> p = d \<or> hasPrefix p (d @ ''/'')"

definition RemoveAll :: "string \<Rightarrow> fs \<Rightarrow> fs" where
  "RemoveAll d f = (\<lambda>p. if below d p then None else f p)"

definition Rename :: "string \<Rightarrow> string \<Rightarrow> fs \<Rightarrow> go_error + fs" where
  "Rename old new f =
    (case f new of
       Some DirNode \<Rightarrow> Inl exists_error
     | Some (FileNode _ _) \<Rightarrow> Inl (Text ''not a directory'')
     | None \<Rightarrow> Inr (\<lambda>p. if below new p then f (old @ drop (length new) p) else if below old p then None else f p))"

text \<open>
  \<open>acquireLock\<close>: the lock file is created when it is not there or stale; otherwise the wait for
  its owner is over when the context ends (\<open>ctxErr\<close>).
\<close>

definition acquireLock :: "bool \<Rightarrow> go_error \<Rightarrow> string \<Rightarrow> fs \<Rightarrow> fs \<times> go_error option" where
  "acquireLock stale ctxErr lockPath f =
    (case MkdirAll (path_Dir lockPath) f of
       Inl e \<Rightarrow> (f, Some e)
     | Inr f1 \<Rightarrow>
        if f1 lockPath = None \<or> stale then (f1(lockPath \<mapsto> FileNode '''' 420), None) else (f1, Some ctxErr))"

text \<open>
  The part of \<open>Install\<close> under the lock. \<open>temp\<close> is the directory \<open>os.MkdirTemp\<close> made, \<open>meta\<close> the
  text of the metadata file. The temporary directory is removed at the end in every case.
\<close>

definition install_into ::
  "(string \<Rightarrow> string) \<Rightarrow> string \<Rightarrow> string \<Rightarrow> int \<Rightarrow> archive \<Rightarrow> string \<Rightarrow> ManifestTarget \<Rightarrow> string \<Rightarrow> TargetSpec \<Rightarrow> fs \<Rightarrow>
   fs \<times> (go_error + ResolvedRuntime)" where
  "install_into sha temp meta maxBytes ar root rec version target f =
    (case extractArchive sha ar temp rec maxBytes (f(temp \<mapsto> DirNode)) of
       (f1, Some e) \<Rightarrow> (f1, Inl e)
     | (f1, None) \<Rightarrow>
        (let f2 = f1(path_Join [temp, ''.codex-sdk-runtime.json''] \<mapsto> FileNode meta 420)
         in case MkdirAll (path_Dir root) f2 of
              Inl e \<Rightarrow> (f2, Inl e)
            | Inr f3 \<Rightarrow>
               (case Rename temp root f3 of
                  Inl e \<Rightarrow>
                    (f3, if errors_Is e exists_error \<or> str_contains (err_text e) ''file exists''
                         then (case verifyInstalledRoot sha root rec version target f3 of
                                 Inr (Some rt) \<Rightarrow> Inr rt
                               | _ \<Rightarrow> Inl e)
                         else Inl e)
                | Inr f4 \<Rightarrow>
                    (f4, case verifyInstalledRoot sha root rec version target f4 of
                           Inl e \<Rightarrow> Inl e
                         | Inr None \<Rightarrow> Inl (Text ''runtimebin: installed runtime verification failed'')
                         | Inr (Some rt) \<Rightarrow> Inr rt))))"

definition install_locked ::
  "(string \<Rightarrow> string) \<Rightarrow> string \<Rightarrow> string \<Rightarrow> int \<Rightarrow> archive \<Rightarrow> string \<Rightarrow> ManifestTarget \<Rightarrow> string \<Rightarrow> TargetSpec \<Rightarrow> fs \<Rightarrow>
   fs \<times> (go_error + ResolvedRuntime)" where
  "install_locked sha temp meta maxBytes ar root rec version target f =
    (case verifyInstalledRoot sha root rec version target f of
       Inl e \<Rightarrow> (f, Inl e)
     | Inr (Some rt) \<Rightarrow> (f, Inr rt)
     | Inr None \<Rightarrow>
        (case install_into sha temp meta maxBytes ar root rec version target f of (f1, x) \<Rightarrow> (RemoveAll temp f1, x)))"

text \<open>The text \<open>writeInstallMetadata\<close> writes; \<open>now\<close> is the time.\<close>

definition install_metadata :: "string \<Rightarrow> ManifestTarget \<Rightarrow> string \<Rightarrow> TargetSpec \<Rightarrow> string" where
  "install_metadata now rec version target = marshalPretty (JObj [(''runtimeVersion'', JStr version), (''triple'', JStr (Triple target)),
     (''archiveName'', JStr (mt_ArchiveName rec)), (''archiveSha256'', JStr (mt_ArchiveSHA256 rec)), (''installedAt'', JStr now)])"

record install_env =
  ie_os :: os_env
  ie_sha :: "string \<Rightarrow> string"
  ie_verify :: "string \<Rightarrow> string \<Rightarrow> string \<Rightarrow> bool"
  ie_decode64 :: "string \<Rightarrow> go_error + string"
  ie_stale :: bool
  ie_ctxErr :: go_error
  ie_temp :: string
  ie_now :: string

record InstallOptions =
  io_CacheRoot :: string
  io_RuntimeVersion :: string
  io_TrustRoots :: "(string \<times> string) list"
  io_MaxArchiveBytes :: int

text \<open>
  \<open>Install\<close> once the manifest, its bytes, the signature and the archive have been read;
  \<open>defaultRoots\<close> are the built-in trust roots.
\<close>

definition Install ::
  "install_env \<Rightarrow> (string \<times> string) list \<Rightarrow> InstallOptions \<Rightarrow> TargetSpec \<Rightarrow> Manifest \<Rightarrow> string \<Rightarrow> SignatureEnvelope \<Rightarrow> archive \<Rightarrow> fs \<Rightarrow>
   fs \<times> (go_error + ResolvedRuntime \<times> ManifestTarget)" where
  "Install env defaultRoots opts target manifest manifestBytes sigEnv ar f =
    (let version = (if io_RuntimeVersion opts = '''' then DefaultRuntimeVersion else io_RuntimeVersion opts);
         maxBytes = (if io_MaxArchiveBytes opts \<le> 0 then 268435456 else io_MaxArchiveBytes opts);
         roots = (if io_TrustRoots opts = [] then defaultRoots else io_TrustRoots opts);
         cacheRoot = defaultCacheRoot (ie_os env) (io_CacheRoot opts)
     in case VerifyManifestSignature (ie_verify env) (ie_decode64 env) manifestBytes sigEnv roots of
          Some e \<Rightarrow> (f, Inl e)
        | None \<Rightarrow>
           (case Manifest_Target manifest (Triple target) of
              Inl e \<Rightarrow> (f, Inl e)
            | Inr rec \<Rightarrow>
               if m_RuntimeVersion manifest \<noteq> version
               then (f, Inl (Text (''runtimebin: manifest runtime version '' @ m_RuntimeVersion manifest @
                 '' does not match requested '' @ version)))
               else (case managedInstallRoot (ie_os env) cacheRoot version target of
                   Inl e \<Rightarrow> (f, Inl e)
                 | Inr root \<Rightarrow>
                    (case acquireLock (ie_stale env) (ie_ctxErr env) (root @ ''.lock'') f of
                       (f1, Some e) \<Rightarrow> (f1, Inl e)
                     | (f1, None) \<Rightarrow>
                        (case install_locked (ie_sha env) (ie_temp env)
                            (install_metadata (ie_now env) rec version target) maxBytes ar root rec version target f1 of
                           (f2, res) \<Rightarrow>
                             (f2(root @ ''.lock'' := None),
                              case res of Inl e \<Rightarrow> Inl e | Inr rt \<Rightarrow> Inr (rt, rec)))))))"

definition Remove :: "os_env \<Rightarrow> string \<Rightarrow> string \<Rightarrow> TargetSpec \<Rightarrow> fs \<Rightarrow> fs \<times> go_error option" where
  "Remove os cacheRoot version target f =
    (case managedInstallRoot os cacheRoot version target of
       Inl e \<Rightarrow> (f, Some e)
     | Inr root \<Rightarrow> (RemoveAll root f, None))"

definition VerifyInstalled ::
  "os_env \<Rightarrow> (string \<Rightarrow> string) \<Rightarrow> string \<Rightarrow> string \<Rightarrow> TargetSpec \<Rightarrow> ManifestTarget \<Rightarrow> fs \<Rightarrow> go_error + ResolvedRuntime" where
  "VerifyInstalled os sha cacheRoot version target rec f =
    (case managedInstallRoot os cacheRoot version target of
       Inl e \<Rightarrow> Inl e
     | Inr root \<Rightarrow>
        (case verifyInstalledRoot sha root rec version target f of
           Inl e \<Rightarrow> Inl e
         | Inr None \<Rightarrow> Inl ErrRuntimeNotInstalled
         | Inr (Some rt) \<Rightarrow> Inr rt))"

section \<open>Packaging\<close>

definition fileRole :: "string \<Rightarrow> string" where
  "fileRole p =
    (if p = ''codex-package.json'' then ''metadata''
     else if p = ''LICENSE'' then ''license''
     else if p = ''NOTICE'' then ''notice''
     else if p = ''sbom.spdx.json'' then ''sbom''
     else if p = ''provenance.json'' then ''provenance''
     else if p = ''native-signatures.json'' then ''native-signature-evidence''
     else if hasPrefix p ''bin/'' then (if str_contains p ''codex-code-mode-host'' then ''companion'' else ''executable'')
     else if hasPrefix p ''codex-path/'' then ''path''
     else if hasPrefix p ''codex-resources/'' then ''resource''
     else '''')"

text \<open>
  \<open>collectPackageFiles\<close> over the files of the package directory, each with its relative slash
  path, contents and permission bits, in the order \<open>filepath.WalkDir\<close> visits them.
\<close>

type_synonym package_dir = "(string \<times> string \<times> nat) list"

definition package_file :: "(string \<Rightarrow> string) \<Rightarrow> string \<times> string \<times> nat \<Rightarrow> go_error + ManifestFile" where
  "package_file sha = (\<lambda>(p, d, m). if fileRole p = ''''
     then Inl (Text (''runtimebin: unexpected package file '' @ go_quote p))
     else Inr \<lparr>mf_Path = p, mf_SHA256 = sha d, mf_Size = int (length d), mf_Mode = int m, mf_Role = fileRole p\<rparr>)"

fun collect_files :: "(string \<Rightarrow> string) \<Rightarrow> package_dir \<Rightarrow> go_error + ManifestFile list" where
  "collect_files sha [] = Inr []"
| "collect_files sha (x # xs) =
     (case package_file sha x of
        Inl e \<Rightarrow> Inl e
      | Inr f \<Rightarrow> (case collect_files sha xs of Inl e \<Rightarrow> Inl e | Inr fs \<Rightarrow> Inr (f # fs)))"

definition collectPackageFiles :: "(string \<Rightarrow> string) \<Rightarrow> package_dir \<Rightarrow> go_error + ManifestFile list" where
  "collectPackageFiles sha dir = (case collect_files sha dir of Inl e \<Rightarrow> Inl e | Inr fs \<Rightarrow> Inr (sort_key mf_Path fs))"

definition writeArchive :: "package_dir \<Rightarrow> ManifestFile list \<Rightarrow> tar_entry list" where
  "writeArchive dir files = map (\<lambda>x. \<lparr>te_Name = mf_Path x, te_Type = TypeReg, te_Size = mf_Size x, te_Mode = nat (mf_Mode x),
     te_Data = fst (the (map_of dir (mf_Path x)))\<rparr>) files"

text \<open>\<open>seal\<close> is the archive file written for the entries, with its hash and size.\<close>

definition PackageArchive ::
  "(string \<Rightarrow> string) \<Rightarrow> (tar_entry list \<Rightarrow> archive) \<Rightarrow> string \<Rightarrow> TargetSpec \<Rightarrow> string \<Rightarrow> int \<Rightarrow> package_dir \<Rightarrow>
   go_error + archive \<times> ManifestTarget" where
  "PackageArchive sha seal name target upSHA upSize dir =
    (case collectPackageFiles sha dir of
       Inl e \<Rightarrow> Inl e
     | Inr files \<Rightarrow>
        (let ar = seal (writeArchive dir files)
         in Inr (ar, \<lparr>mt_GOOS = GOOS target, mt_GOARCH = GOARCH target, mt_Triple = Triple target,
              mt_Executable = Executable target, mt_UpstreamAsset = UpstreamAsset target,
              mt_UpstreamArchiveSHA256 = upSHA, mt_UpstreamArchiveSize = upSize, mt_ArchiveName = name,
              mt_ArchiveSHA256 = ar_SHA ar, mt_ArchiveSize = ar_Size ar, mt_Files = files\<rparr>)))"

definition codeModeHostExecutable :: "TargetSpec \<Rightarrow> string" where
  "codeModeHostExecutable t = (if GOOS t = ''windows'' then ''codex-code-mode-host.exe'' else ''codex-code-mode-host'')"

definition rgExecutable :: "TargetSpec \<Rightarrow> string" where
  "rgExecutable t = (if GOOS t = ''windows'' then ''rg.exe'' else ''rg'')"

definition expectedUpstreamPaths :: "TargetSpec \<Rightarrow> string list" where
  "expectedUpstreamPaths t =
    [''bin/'' @ Executable t, ''codex-package.json'', ''codex-path/'' @ rgExecutable t, ''bin/'' @ codeModeHostExecutable t] @
    (if GOOS t = ''linux'' then [''codex-resources/bwrap'', ''codex-resources/zsh/bin/zsh'']
     else if GOOS t = ''darwin'' then [''codex-resources/zsh/bin/zsh'']
     else if GOOS t = ''windows'' then [''codex-resources/codex-command-runner.exe'',
       ''codex-resources/codex-windows-sandbox-setup.exe'']
     else [])"

text \<open>The loop of \<open>stageUpstreamArchive\<close>; directories are skipped.\<close>

fun stage_entries :: "string \<Rightarrow> string list \<Rightarrow> tar_entry list \<Rightarrow> string list \<Rightarrow> fs \<Rightarrow> fs \<times> (go_error + string list)" where
  "stage_entries dir expected [] seen f = (f, Inr seen)"
| "stage_entries dir expected (e # es) seen f =
     (if te_Type e = TypeDir then stage_entries dir expected es seen f
      else if te_Type e \<noteq> TypeReg
      then (f, Inl (Text (''runtimebin: upstream archive entry '' @ go_quote (te_Name e) @ '' uses unsupported type '' @ show_nat (te_Type e))))
      else case safeArchivePath (te_Name e) of
          None \<Rightarrow> (f, Inl (Text (''runtimebin: invalid upstream archive path '' @ go_quote (te_Name e))))
        | Some relative \<Rightarrow>
           if relative \<notin> set expected
           then (f, Inl (Text (''runtimebin: unexpected upstream archive file '' @ go_quote relative)))
           else (let dest = path_Join [dir, relative]
                 in case MkdirAll (path_Dir dest) f of
                      Inl err \<Rightarrow> (f, Inl err)
                    | Inr f1 \<Rightarrow>
                       if f1 dest \<noteq> None then (f1, Inl exists_error)
                       else stage_entries dir expected es (relative # seen) (f1(dest \<mapsto> FileNode (te_Data e) (te_Mode e)))))"

definition stageUpstreamArchive :: "archive \<Rightarrow> string \<Rightarrow> TargetSpec \<Rightarrow> fs \<Rightarrow> fs \<times> go_error option" where
  "stageUpstreamArchive ar dir target f =
    (case MkdirAll dir f of
       Inl e \<Rightarrow> (f, Some e)
     | Inr f0 \<Rightarrow>
        (case stage_entries dir (expectedUpstreamPaths target) (ar_Entries ar) [] f0 of
           (f1, Inl e) \<Rightarrow> (f1, Some e)
         | (f1, Inr seen) \<Rightarrow>
            (case ar_Err ar of
               Some e \<Rightarrow> (f1, Some e)
             | None \<Rightarrow>
                (case find (\<lambda>p. p \<notin> set seen) (expectedUpstreamPaths target) of
                   Some p \<Rightarrow> (f1, Some (Text (''runtimebin: upstream archive missing '' @ go_quote p)))
                 | None \<Rightarrow> (f1, None)))))"

definition enforceSameHostPolicy :: "(string \<Rightarrow> go_error + string \<times> string) \<Rightarrow> string list \<Rightarrow> go_error option" where
  "enforceSameHostPolicy parse urls =
    (case fold (\<lambda>u st. case st of
        Inl e \<Rightarrow> Inl e
      | Inr host \<Rightarrow>
         (case parse u of
            Inl e \<Rightarrow> Inl e
          | Inr (scheme, h) \<Rightarrow>
             if scheme \<noteq> ''https'' then Inl (Text ''runtimebin: URL must use https'')
             else if host = '''' then Inr h
             else if \<not> equalFold host h then Inl (Text ''runtimebin: URLs must share one host'')
             else Inr host)) urls (Inr '''') of Inl e \<Rightarrow> Some e | Inr _ \<Rightarrow> None)"

end
