(* ===== verification/Transport.thy ===== *)
theory Transport
  imports Appserver Runtimebin Sdk_Errors
begin

text \<open>
  The \<open>sdkClient\<close> of \<open>client.go\<close>: it resolves the runtime, starts the app-server transport on
  first use and passes requests and routes through, translating the errors. What the operating
  system and the child process answer is the record \<open>host\<close>: \<open>ho_serve\<close> gives the lines the child
  writes once it has been sent the given messages, the last of them new. The reader handles
  those lines while the request waits; requests of the server stay queued for the workers.
\<close>

section \<open>Encoding of parameters\<close>

text \<open>
  \<open>json.Marshal\<close> of a parameter: the names of a map sorted. \<open>other\<close> encodes a value of which
  only the kind is known; \<open>None\<close> is an encoding error.
\<close>

fun to_json :: "(goval \<Rightarrow> json option) \<Rightarrow> goval \<Rightarrow> json option"
and to_jsons :: "(goval \<Rightarrow> json option) \<Rightarrow> goval list \<Rightarrow> json list option"
and to_json_members :: "(goval \<Rightarrow> json option) \<Rightarrow> (string \<times> goval) list \<Rightarrow> members option" where
  "to_json other GNil = Some JNull"
| "to_json other GNilPtr = Some JNull"
| "to_json other (GPtr v) = to_json other v"
| "to_json other (GStr s) = Some (JStr s)"
| "to_json other (GBool b) = Some (JBool b)"
| "to_json other (GInt i) = Some (JNum (show_int i))"
| "to_json other (GUint n) = Some (JNum (show_nat n))"
| "to_json other (GFloat (Finite t)) = Some (JNum t)"
| "to_json other (GFloat NaN) = None"
| "to_json other (GFloat PosInf) = None"
| "to_json other (GFloat NegInf) = None"
| "to_json other (GNumber t) = Some (JNum t)"
| "to_json other (GSlice xs) = map_option JArr (to_jsons other xs)"
| "to_json other (GMap ms) = map_option (\<lambda>xs. JObj (sort_key fst xs)) (to_json_members other ms)"
| "to_json other GMapOther = other GMapOther"
| "to_json other (GKind k) = other (GKind k)"
| "to_jsons other [] = Some []"
| "to_jsons other (x # xs) = (case to_json other x of
     None \<Rightarrow> None
   | Some v \<Rightarrow> map_option ((#) v) (to_jsons other xs))"
| "to_json_members other [] = Some []"
| "to_json_members other ((k, x) # xs) = (case to_json other x of
     None \<Rightarrow> None
   | Some v \<Rightarrow> map_option ((#) (k, v)) (to_json_members other xs))"

definition marshal_error :: go_error where
  "marshal_error = Text ''json: unsupported value''"

section \<open>The host\<close>

record resolvedExecutable =
  re_path :: string
  re_pathDirs :: "string list"

record host =
  ho_environ :: "string list"
  ho_windows :: bool
  ho_osErr :: "go_error option"
  ho_wErr :: "go_error option"
  ho_sprint :: "json \<Rightarrow> string"
  ho_marshal :: "goval \<Rightarrow> json option"
  ho_serve :: "json list \<Rightarrow> raw list"

text \<open>The transport with whether its reader still runs.\<close>

type_synonym conn = "AppClient \<times> bool"

text \<open>The reader over some lines; \<open>None\<close> when it blocks or panics.\<close>

fun read_lines :: "host \<Rightarrow> raw list \<Rightarrow> conn \<Rightarrow> conn option" where
  "read_lines h [] c = Some c"
| "read_lines h (l # ls) (c, reading) =
     (if \<not> reading then Some (c, reading)
      else case readLoop_line (ho_sprint h) l c of
          Continues c1 \<Rightarrow> read_lines h ls (c1, True)
        | Stops c1 \<Rightarrow> Some (c1, False)
        | _ \<Rightarrow> None)"

text \<open>
  \<open>Request\<close> with parameters that are encoded; \<open>None\<close> while the response is missing. \<open>ctxErr\<close> is
  the error of the context when it ends the wait.
\<close>

definition exchange ::
  "host \<Rightarrow> go_error option \<Rightarrow> string \<Rightarrow> json option \<Rightarrow> conn \<Rightarrow> (conn \<times> (go_error + raw)) option" where
  "exchange h ctxErr m params c =
    (case request_send (ho_wErr h) m params (fst c) of
       (c1, Inl e) \<Rightarrow> Some ((c1, snd c), Inl e)
     | (c1, Inr (rid, waiter)) \<Rightarrow>
        (case read_lines h (ho_serve h (written c1)) (c1, snd c) of
           None \<Rightarrow> None
         | Some (c2, reading) \<Rightarrow>
            map_option (\<lambda>(c3, res). ((c3, reading), res)) (request_wait ctxErr rid waiter c2)))"

text \<open>
  Parameters that cannot be encoded: the write fails before anything is sent, the waiter made
  for the response is discarded.
\<close>

definition request_unsent :: "AppClient \<Rightarrow> AppClient \<times> go_error" where
  "request_unsent c =
    (case ensureUsable c of
       Some e \<Rightarrow> (c, e)
     | None \<Rightarrow>
        (let n = (requestID c + 1) mod 2 ^ 64
         in case CreateResponseWaiter (request_id n) (rtr c) of
              (r1, Inl e) \<Rightarrow> (c\<lparr>requestID := n, rtr := r1\<rparr>, e)
            | (r1, Inr _) \<Rightarrow> (c\<lparr>requestID := n, rtr := DiscardResponseWaiter (request_id n) r1\<rparr>, marshal_error)))"

definition app_Request ::
  "host \<Rightarrow> go_error option \<Rightarrow> string \<Rightarrow> goval option \<Rightarrow> conn \<Rightarrow> (conn \<times> (go_error + raw)) option" where
  "app_Request h ctxErr m params c =
    (case params of
       None \<Rightarrow> exchange h ctxErr m None c
     | Some p \<Rightarrow>
        (case to_json (ho_marshal h) p of
           Some v \<Rightarrow> exchange h ctxErr m (Some v) c
         | None \<Rightarrow> (case request_unsent (fst c) of (c1, e) \<Rightarrow> Some ((c1, snd c), Inl e))))"

text \<open>\<open>Start\<close>: the process once, \<open>initialize\<close> once.\<close>

definition app_Start :: "host \<Rightarrow> go_error option \<Rightarrow> conn \<Rightarrow> (conn \<times> (go_error + Metadata option)) option" where
  "app_Start h ctxErr c =
    (case startProcess (ho_osErr h) (fst c) of
       (c1, Some e) \<Rightarrow> Some ((c1, snd c), Inl e)
     | (c1, None) \<Rightarrow>
        (case (if initDone c1 then Some (c1, snd c)
               else (case exchange h ctxErr ''initialize'' (Some (initialize_params (cfg c1)))
                            (c1, snd c \<or> \<not> started (fst c)) of
                   None \<Rightarrow> None
                 | Some ((c2, reading), payload) \<Rightarrow>
                     (case initialize_finish (ho_wErr h) payload c2 of
                        (c3, res) \<Rightarrow> Some (record_init res c3, reading)))) of
           None \<Rightarrow> None
         | Some (c4, reading) \<Rightarrow>
             (case start_result c4 of (c5, res) \<Rightarrow> Some ((c5, reading), res))))"

section \<open>\<open>sdkClient\<close>\<close>

record sdkClient =
  sc_options :: CodexOptions
  resolveRuntime :: "CodexOptions \<Rightarrow> go_error + resolvedExecutable"
  sc_client :: "conn option"
  sc_metadata :: "Metadata option"

text \<open>\<open>runtime\<close> is \<open>runtimebin.ResolveRuntime\<close> on this host and target.\<close>

definition resolveManagedExecutable ::
  "(ResolveOptions \<Rightarrow> go_error + ResolvedRuntime) \<Rightarrow> CodexOptions \<Rightarrow> go_error + resolvedExecutable" where
  "resolveManagedExecutable runtime options =
    (let version = (if RuntimeVersion options = '''' then DefaultRuntimeVersion else RuntimeVersion options)
     in case runtime \<lparr>ExplicitBinary = CodexPathOverride options, ro_Env = co_Env options,
          ro_CacheRoot = RuntimeCacheRoot options, ro_RuntimeVersion = version, ro_AllowPATH = AllowPATH options\<rparr> of
          Inl e \<Rightarrow> Inl e
        | Inr r \<Rightarrow> Inr \<lparr>re_path = BinaryPath r, re_pathDirs = PathDirs r\<rparr>)"

definition newManagedSDKClient :: "(ResolveOptions \<Rightarrow> go_error + ResolvedRuntime) \<Rightarrow> CodexOptions \<Rightarrow> sdkClient" where
  "newManagedSDKClient runtime options = \<lparr>sc_options = options, resolveRuntime = resolveManagedExecutable runtime,
     sc_client = None, sc_metadata = None\<rparr>"

definition zero_limits :: AppLimits where
  "zero_limits = \<lparr>MaxLineBytes = 0, MaxStderrLines = 0, MaxStderrBytes = 0, MaxServerRequestHandlers = 0,
     ShutdownWait = 0, KillWait = 0,
     RouterLimits = \<lparr>MaxResponseWaiters = 0, MaxRouteEvents = 0, MaxRouteBytes = 0, MaxGlobalEvents = 0,
       MaxGlobalBytes = 0, MaxTotalEvents = 0, MaxTotalBytes = 0\<rparr>\<rparr>"

text \<open>The configuration of the transport; the zero \<open>ApprovalPolicy\<close> denies.\<close>

definition transport_config :: "host \<Rightarrow> CodexOptions \<Rightarrow> resolvedExecutable \<Rightarrow> string list \<Rightarrow> AppConfig" where
  "transport_config h options resolved flags =
    (let env = buildEnvMap (ho_environ h) (co_Env options) (BaseURL options) (APIKey options);
         env1 = (if re_pathDirs resolved \<noteq> [] then PrependPathDirs (ho_windows h) env (re_pathDirs resolved) else env)
     in \<lparr>ExecutablePath = re_path resolved, LaunchArgs = [], Cwd = '''', ac_Env = env1, ConfigFlags = flags,
         ClientName = goSDKOriginator, ClientTitle = '''', ClientVersion = ''dev'', Approval = None,
         ac_ApprovalPolicy = ApprovalPolicyDeny, ac_Limits = zero_limits\<rparr>)"

definition newTransport :: "host \<Rightarrow> sdkClient \<Rightarrow> go_error + AppClient" where
  "newTransport h s =
    (case flattenConfigOverrides (co_Config (sc_options s)) of
       Inl e \<Rightarrow> Inl e
     | Inr flags \<Rightarrow>
        (case resolveRuntime s (sc_options s) of
           Inl e \<Rightarrow> Inl e
         | Inr resolved \<Rightarrow>
            Inr (app_New (transport_config h (sc_options s) resolved (flags @ ConfigOverrides (sc_options s))))))"

definition start_conn :: "host \<Rightarrow> go_error option \<Rightarrow> conn \<Rightarrow> sdkClient \<Rightarrow> (sdkClient \<times> go_error option) option" where
  "start_conn h ctxErr c s =
    (case app_Start h ctxErr c of
       None \<Rightarrow> None
     | Some (c1, Inl e) \<Rightarrow> Some (s\<lparr>sc_client := Some c1\<rparr>, Some e)
     | Some (c1, Inr m) \<Rightarrow> Some (s\<lparr>sc_client := Some c1, sc_metadata := m\<rparr>, None))"

definition ensureStarted :: "host \<Rightarrow> go_error option \<Rightarrow> sdkClient \<Rightarrow> (sdkClient \<times> go_error option) option" where
  "ensureStarted h ctxErr s =
    (case sc_client s of
       Some c \<Rightarrow> start_conn h ctxErr c s
     | None \<Rightarrow>
        (case newTransport h s of
           Inl e \<Rightarrow> Some (s, Some e)
         | Inr a \<Rightarrow> start_conn h ctxErr (a, False) (s\<lparr>sc_client := Some (a, False)\<rparr>)))"

text \<open>
  An operation that starts the client first: \<open>f\<close> is what it does with the transport once that
  has succeeded. \<open>None\<close> is an operation that does not return.
\<close>

definition with_started ::
  "host \<Rightarrow> go_error option \<Rightarrow> (conn \<Rightarrow> (conn \<times> (go_error + 'a)) option) \<Rightarrow> sdkClient \<Rightarrow>
   (sdkClient \<times> (go_error + 'a)) option" where
  "with_started h ctxErr f s =
    (case ensureStarted h ctxErr s of
       None \<Rightarrow> None
     | Some (s1, Some e) \<Rightarrow> Some (s1, Inl e)
     | Some (s1, None) \<Rightarrow>
        (case sc_client s1 of
           None \<Rightarrow> None
         | Some c \<Rightarrow> map_option (\<lambda>(c1, res). (s1\<lparr>sc_client := Some c1\<rparr>, res)) (f c)))"

definition translate_result :: "go_error + 'a \<Rightarrow> go_error + 'a" where
  "translate_result res = (case res of
     Inl e \<Rightarrow> Inl (case translateAppServerError (Some e) of Some e1 \<Rightarrow> e1 | None \<Rightarrow> e)
   | Inr x \<Rightarrow> Inr x)"

text \<open>\<open>request\<close> with a result that is decoded by \<open>dec\<close>; without one the response is dropped.\<close>

definition sdk_request ::
  "host \<Rightarrow> go_error option \<Rightarrow> string \<Rightarrow> goval option \<Rightarrow> (raw \<Rightarrow> 'a option) \<Rightarrow> sdkClient \<Rightarrow>
   (sdkClient \<times> (go_error + 'a)) option" where
  "sdk_request h ctxErr m params dec s =
    with_started h ctxErr (\<lambda>c. map_option (\<lambda>(c1, res). (c1,
        case translate_result res of
          Inl e \<Rightarrow> Inl e
        | Inr r \<Rightarrow> (case dec r of None \<Rightarrow> Inl json_error | Some x \<Rightarrow> Inr x)))
      (app_Request h ctxErr m params c)) s"

definition ignore_result :: "raw \<Rightarrow> unit option" where
  "ignore_result r = Some ()"

text \<open>The routes of the transport's router.\<close>

definition upd_router :: "MessageRouter \<Rightarrow> conn \<Rightarrow> conn" where
  "upd_router r c = ((fst c)\<lparr>rtr := r\<rparr>, snd c)"

definition conn_register :: "routeKind \<Rightarrow> string \<Rightarrow> conn \<Rightarrow> (conn \<times> (go_error + unit)) option" where
  "conn_register k i c = (case registerRoute i k (rtr (fst c)) of
     None \<Rightarrow> None
   | Some (r, None) \<Rightarrow> Some (upd_router r c, Inr ())
   | Some (r, Some e) \<Rightarrow> Some (upd_router r c, Inl e))"

definition conn_next :: "routeKind \<Rightarrow> go_error option \<Rightarrow> string \<Rightarrow> conn \<Rightarrow> (conn \<times> (go_error + raw)) option" where
  "conn_next k ctxErr i c = (case nextRoute i k ctxErr (rtr (fst c)) of
     (r, Waits) \<Rightarrow> None
   | (r, NextErr e) \<Rightarrow> Some (upd_router r c, Inl e)
   | (r, Got x (Some e)) \<Rightarrow> Some (upd_router r c, Inl e)
   | (r, Got x None) \<Rightarrow> Some (upd_router r c, Inr x))"

text \<open>\<open>registerTurn\<close> drops the error of the router; the other three return it.\<close>

definition registerTurn :: "host \<Rightarrow> string \<Rightarrow> sdkClient \<Rightarrow> (sdkClient \<times> (go_error + unit)) option" where
  "registerTurn h i = with_started h None (\<lambda>c. map_option (\<lambda>(c1, _). (c1, Inr ())) (conn_register turnRoute i c))"

definition registerLogin :: "host \<Rightarrow> string \<Rightarrow> sdkClient \<Rightarrow> (sdkClient \<times> (go_error + unit)) option" where
  "registerLogin h i = with_started h None (conn_register loginRoute i)"

definition registerGoal :: "host \<Rightarrow> string \<Rightarrow> sdkClient \<Rightarrow> (sdkClient \<times> (go_error + unit)) option" where
  "registerGoal h i = with_started h None (conn_register goalRoute i)"

definition registerCompaction :: "host \<Rightarrow> go_error option \<Rightarrow> string \<Rightarrow> sdkClient \<Rightarrow> (sdkClient \<times> (go_error + unit)) option" where
  "registerCompaction h ctxErr i = with_started h ctxErr (conn_register compactionRoute i)"

definition unregister :: "routeKind \<Rightarrow> string \<Rightarrow> sdkClient \<Rightarrow> sdkClient" where
  "unregister k i s = s\<lparr>sc_client := map_option (\<lambda>c. upd_router (unregisterRoute i k (rtr (fst c))) c) (sc_client s)\<rparr>"

definition unregisterTurn :: "string \<Rightarrow> sdkClient \<Rightarrow> sdkClient" where
  "unregisterTurn = unregister turnRoute"

definition unregisterLogin :: "string \<Rightarrow> sdkClient \<Rightarrow> sdkClient" where
  "unregisterLogin = unregister loginRoute"

definition sdk_unregisterGoal :: "string \<Rightarrow> sdkClient \<Rightarrow> sdkClient" where
  "sdk_unregisterGoal = unregister goalRoute"

definition unregisterCompaction :: "string \<Rightarrow> sdkClient \<Rightarrow> sdkClient" where
  "unregisterCompaction = unregister compactionRoute"

definition next_route :: "host \<Rightarrow> go_error option \<Rightarrow> routeKind \<Rightarrow> string \<Rightarrow> sdkClient \<Rightarrow> (sdkClient \<times> (go_error + raw)) option" where
  "next_route h ctxErr k i = with_started h ctxErr
     (\<lambda>c. map_option (\<lambda>(c1, res). (c1, translate_result res)) (conn_next k ctxErr i c))"

definition nextTurn :: "host \<Rightarrow> go_error option \<Rightarrow> string \<Rightarrow> sdkClient \<Rightarrow> (sdkClient \<times> (go_error + raw)) option" where
  "nextTurn h ctxErr = next_route h ctxErr turnRoute"

definition nextLogin :: "host \<Rightarrow> go_error option \<Rightarrow> string \<Rightarrow> sdkClient \<Rightarrow> (sdkClient \<times> (go_error + raw)) option" where
  "nextLogin h ctxErr = next_route h ctxErr loginRoute"

definition nextGoal :: "host \<Rightarrow> go_error option \<Rightarrow> string \<Rightarrow> sdkClient \<Rightarrow> (sdkClient \<times> (go_error + raw)) option" where
  "nextGoal h ctxErr = next_route h ctxErr goalRoute"

definition nextCompaction :: "host \<Rightarrow> go_error option \<Rightarrow> string \<Rightarrow> sdkClient \<Rightarrow> (sdkClient \<times> (go_error + raw)) option" where
  "nextCompaction h ctxErr = next_route h ctxErr compactionRoute"

text \<open>\<open>metadataSnapshot\<close>: the three fields the public type has.\<close>

definition metadataSnapshot :: "sdkClient \<Rightarrow> (string \<times> string \<times> ServerInfo option) option" where
  "metadataSnapshot s = map_option (\<lambda>m. (ProtocolVersion m, UserAgent m, md_ServerInfo m)) (sc_metadata s)"

text \<open>\<open>close\<close> up to the wait for the exit and \<open>wait\<close>, both translated.\<close>

definition sdk_close_begin :: "sdkClient \<Rightarrow> sdkClient" where
  "sdk_close_begin s = s\<lparr>sc_client := map_option (\<lambda>c. (close_begin (fst c), snd c)) (sc_client s)\<rparr>"

definition sdk_wait :: "sdkClient \<Rightarrow> go_error option option" where
  "sdk_wait s = (case sc_client s of
     None \<Rightarrow> Some None
   | Some c \<Rightarrow> map_option translateAppServerError (Wait (fst c)))"

text \<open>
  \<open>Client.Close\<close> and \<open>Client.CloseContext\<close>: \<open>None\<close> is the client without a transport, \<open>runs\<close> what the
  child, the reader and the waiter do from the beginning of the close on. With a context that ends
  first the close goes on without the caller.
\<close>

definition Client_Close :: "(sdkClient \<Rightarrow> sdkClient) \<Rightarrow> sdkClient option \<Rightarrow> (sdkClient option \<times> go_error option) option" where
  "Client_Close runs s = (case s of
     None \<Rightarrow> Some (None, None)
   | Some c \<Rightarrow> (let c1 = runs (sdk_close_begin c) in map_option (Pair (Some c1)) (sdk_wait c1)))"

definition Client_CloseContext ::
  "bool \<Rightarrow> go_error option \<Rightarrow> (sdkClient \<Rightarrow> sdkClient) \<Rightarrow> sdkClient option \<Rightarrow> (sdkClient option \<times> go_error option) option" where
  "Client_CloseContext ctxNil ctxErr runs s = (case s of
     None \<Rightarrow> Some (None, None)
   | Some c \<Rightarrow>
      if ctxNil then Some (Some c, Some (Text ''codex: nil context''))
      else (case ctxErr of
          Some e \<Rightarrow> Some (Some (runs (sdk_close_begin c)), Some e)
        | None \<Rightarrow> Client_Close runs s))"

end
