(* ===== verification/Thread_Api.thy ===== *)
theory Thread_Api
  imports Payload
begin

text \<open>
  The decoders of \<open>thread_api.go\<close>, which read untyped JSON maps. A \<open>map[string]any\<close> is a map
  from names to JSON values, \<open>None\<close> the nil map; a number in it is a \<open>float64\<close>, kept as the
  literal it was read from and rounded where the code uses it.
\<close>

section \<open>Numbers\<close>

text \<open>
  A JSON number literal as a fraction: sign, digits, fraction and exponent. Literals are taken
  to be in the range of \<open>float64\<close>.
\<close>

definition digits_value :: "string \<Rightarrow> nat" where
  "digits_value ds = (case read_nat 0 ds of Some n \<Rightarrow> n | None \<Rightarrow> 0)"

definition is_dec :: "char \<Rightarrow> bool" where
  "is_dec c \<longleftrightarrow> (let n = of_char c :: nat in 48 \<le> n \<and> n \<le> 57)"

definition exponent_value :: "string \<Rightarrow> int" where
  "exponent_value s = (case s of
     c # d # t \<Rightarrow> if d = CHR ''-'' then - int (digits_value t)
                else if d = CHR ''+'' then int (digits_value t)
                else int (digits_value (d # t))
   | _ \<Rightarrow> 0)"

definition literal_fraction :: "string \<Rightarrow> bool \<times> nat \<times> nat" where
  "literal_fraction s =
    (let neg = (case s of c # _ \<Rightarrow> c = CHR ''-'' | [] \<Rightarrow> False);
         t = (if neg then tl s else s);
         whole = takeWhile is_dec t;
         t1 = dropWhile is_dec t;
         dot = (case t1 of c # _ \<Rightarrow> c = CHR ''.'' | [] \<Rightarrow> False);
         frac = (if dot then takeWhile is_dec (tl t1) else []);
         t2 = (if dot then dropWhile is_dec (tl t1) else t1);
         e = exponent_value t2 - int (length frac);
         m = digits_value (whole @ frac)
     in (neg, m * 10 ^ nat e, 10 ^ nat (- e)))"

text \<open>Rounding of a fraction to an integer, halves to even.\<close>

definition round_even :: "nat \<Rightarrow> nat \<Rightarrow> nat" where
  "round_even a b = (let q = (2 * a + b) div (2 * b) in
     if (2 * a + b) mod (2 * b) = 0 \<and> odd q then q - 1 else q)"

text \<open>\<open>bits.Len\<close>.\<close>

fun bit_len :: "nat \<Rightarrow> nat" where
  "bit_len n = (if n = 0 then 0 else Suc (bit_len (n div 2)))"

declare bit_len.simps [simp del]

text \<open>
  The integer part of the \<open>float64\<close> nearest to \<open>a / b\<close>: the significand has 53 bits. Below one
  only a value within half a unit in the last place of one rounds up to it.
\<close>

definition float_trunc :: "nat \<Rightarrow> nat \<Rightarrow> nat" where
  "float_trunc a b =
    (let l = bit_len (a div b)
     in if l = 0 then (if 2 ^ 54 * (b - a) \<le> b then 1 else 0)
        else if l \<le> 53 then round_even (a * 2 ^ (53 - l)) b div 2 ^ (53 - l)
        else round_even a (b * 2 ^ (l - 53)) * 2 ^ (l - 53))"

text \<open>\<open>int(value)\<close> of a \<open>float64\<close>; out of range it is the smallest \<open>int64\<close>, as on amd64.\<close>

definition float_int :: "string \<Rightarrow> int" where
  "float_int s = (case literal_fraction s of (neg, a, b) \<Rightarrow>
     (let n = (if neg then - int (float_trunc a b) else int (float_trunc a b))
      in if - (2 ^ 63) \<le> n \<and> n < 2 ^ 63 then n else - (2 ^ 63)))"

section \<open>Fields\<close>

type_synonym anymap = "json gomap option"

definition any_lookup :: "anymap \<Rightarrow> string \<Rightarrow> json option" where
  "any_lookup m k = (case m of None \<Rightarrow> None | Some ms \<Rightarrow> map_of ms k)"

text \<open>\<open>value.(map[string]any)\<close>; of a repeated name the last value counts.\<close>

definition as_map :: "json option \<Rightarrow> anymap" where
  "as_map v = (case v of Some (JObj ms) \<Rightarrow> Some (fill_map ms []) | _ \<Rightarrow> None)"

definition stringField :: "anymap \<Rightarrow> string \<Rightarrow> string" where
  "stringField m k = (case any_lookup m k of Some (JStr s) \<Rightarrow> s | _ \<Rightarrow> '''')"

definition boolField :: "anymap \<Rightarrow> string \<Rightarrow> bool" where
  "boolField m k = (case any_lookup m k of Some (JBool b) \<Rightarrow> b | _ \<Rightarrow> False)"

definition intField :: "anymap \<Rightarrow> string \<Rightarrow> int" where
  "intField m k = (case any_lookup m k of Some (JNum t) \<Rightarrow> float_int t | _ \<Rightarrow> 0)"

definition secondsField :: "anymap \<Rightarrow> string \<Rightarrow> int option" where
  "secondsField m k = (case any_lookup m k of Some (JNum t) \<Rightarrow> unixSecondsTime (float_int t) | _ \<Rightarrow> None)"

definition durationField :: "anymap \<Rightarrow> string \<Rightarrow> int" where
  "durationField m k = (case any_lookup m k of Some (JNum t) \<Rightarrow> millis (float_int t) | _ \<Rightarrow> 0)"

definition clone_any :: "anymap \<Rightarrow> anymap" where
  "clone_any m = (case m of Some (x # xs) \<Rightarrow> Some (x # xs) | _ \<Rightarrow> None)"

section \<open>Records\<close>

record ModelInfo =
  mi_ID :: string
  mi_Model :: string
  DisplayName :: string
  Description :: string
  Hidden :: bool
  IsDefault :: bool
  DefaultServiceTier :: string
  SupportedReasoningEfforts :: "string list"
  mi_Raw :: anymap

record TurnRecord =
  tn_ID :: string
  tn_Status :: string
  tn_Error :: "ThreadError option"
  tn_StartedAt :: "int option"
  tn_CompletedAt :: "int option"
  tn_Duration :: int
  tn_Items :: "ThreadItem list"

record ThreadRecord =
  tc_ID :: string
  tc_Name :: string
  tc_Path :: string
  tc_CWD :: string
  Archived :: bool
  Ephemeral :: bool
  tc_Status :: string
  CurrentTurnID :: string
  tc_Goal :: "Goal option"
  tc_Turns :: "TurnRecord list"
  tc_Raw :: anymap

definition as_list :: "json option \<Rightarrow> json list" where
  "as_list v = (case v of Some (JArr xs) \<Rightarrow> xs | _ \<Rightarrow> [])"

definition decodeModelInfo :: "anymap \<Rightarrow> ModelInfo" where
  "decodeModelInfo m = \<lparr>mi_ID = stringField m ''id'', mi_Model = stringField m ''model'',
     DisplayName = stringField m ''displayName'', Description = stringField m ''description'',
     Hidden = boolField m ''hidden'', IsDefault = boolField m ''isDefault'',
     DefaultServiceTier = stringField m ''defaultServiceTier'',
     SupportedReasoningEfforts = concat (map (\<lambda>v. case v of JStr s \<Rightarrow> [s] | _ \<Rightarrow> [])
       (as_list (any_lookup m ''supportedReasoningEfforts''))),
     mi_Raw = clone_any m\<rparr>"

definition decodeAccount :: "anymap \<Rightarrow> Account option" where
  "decodeAccount m = (if m = None then None else Some \<lparr>ac_Type = stringField m ''type'', ac_Raw = clone_any m\<rparr>)"

definition decodeGoalFromAny :: "json option \<Rightarrow> Goal option" where
  "decodeGoalFromAny v = (case as_map v of
     None \<Rightarrow> None
   | m \<Rightarrow> Some \<lparr>gl_Objective = stringField m ''objective'', gl_Status = stringField m ''status'',
       gl_TokenBudget = intField m ''tokenBudget'', gl_TokensUsed = intField m ''tokensUsed'',
       gl_UpdatedAt = secondsField m ''updatedAt''\<rparr>)"

definition decodeThreadStatus :: "json option \<Rightarrow> string" where
  "decodeThreadStatus v = (case as_map v of None \<Rightarrow> '''' | m \<Rightarrow> stringField m ''type'')"

definition decodeThreadErrorFromAny :: "json option \<Rightarrow> ThreadError option" where
  "decodeThreadErrorFromAny v = (case as_map v of
     None \<Rightarrow> None
   | m \<Rightarrow> Some (zero_ThreadError\<lparr>te_Message := stringField m ''message''\<rparr>))"

text \<open>
  \<open>json.Marshal\<close> of a decoded value: the names of a map sorted, of a repeated name the last
  value. \<open>fmtFloat\<close> is the text written for the \<open>float64\<close> a literal was read as.
\<close>

fun remarshal :: "(string \<Rightarrow> string) \<Rightarrow> json \<Rightarrow> json"
and remarshals :: "(string \<Rightarrow> string) \<Rightarrow> json list \<Rightarrow> json list"
and remarshal_members :: "(string \<Rightarrow> string) \<Rightarrow> members \<Rightarrow> members" where
  "remarshal fmtFloat (JNum t) = JNum (fmtFloat t)"
| "remarshal fmtFloat (JArr xs) = JArr (remarshals fmtFloat xs)"
| "remarshal fmtFloat (JObj ms) = JObj (sort_key fst (fill_map (remarshal_members fmtFloat ms) []))"
| "remarshal fmtFloat JNull = JNull"
| "remarshal fmtFloat (JBool b) = JBool b"
| "remarshal fmtFloat (JStr s) = JStr s"
| "remarshals fmtFloat [] = []"
| "remarshals fmtFloat (x # xs) = remarshal fmtFloat x # remarshals fmtFloat xs"
| "remarshal_members fmtFloat [] = []"
| "remarshal_members fmtFloat ((k, v) # ms) = (k, remarshal fmtFloat v) # remarshal_members fmtFloat ms"

definition decodeTurnRecord :: "(string \<Rightarrow> string) \<Rightarrow> anymap \<Rightarrow> TurnRecord" where
  "decodeTurnRecord fmtFloat m = \<lparr>tn_ID = stringField m ''id'', tn_Status = stringField m ''status'',
     tn_Error = decodeThreadErrorFromAny (any_lookup m ''error''),
     tn_StartedAt = secondsField m ''startedAt'', tn_CompletedAt = secondsField m ''completedAt'',
     tn_Duration = durationField m ''durationMs'',
     tn_Items = concat (map (\<lambda>v. case parseThreadItem (Some (remarshal fmtFloat v)) of Some i \<Rightarrow> [i] | None \<Rightarrow> [])
       (as_list (any_lookup m ''items'')))\<rparr>"

definition decodeThreadRecord :: "(string \<Rightarrow> string) \<Rightarrow> anymap \<Rightarrow> ThreadRecord" where
  "decodeThreadRecord fmtFloat m = \<lparr>tc_ID = stringField m ''id'', tc_Name = stringField m ''name'',
     tc_Path = stringField m ''path'', tc_CWD = stringField m ''cwd'', Archived = boolField m ''archived'',
     Ephemeral = boolField m ''ephemeral'', tc_Status = decodeThreadStatus (any_lookup m ''status''),
     CurrentTurnID = stringField m ''currentTurnId'', tc_Goal = decodeGoalFromAny (any_lookup m ''goal''),
     tc_Turns = concat (map (\<lambda>v. case as_map (Some v) of None \<Rightarrow> [] | t \<Rightarrow> [decodeTurnRecord fmtFloat t])
       (as_list (any_lookup m ''turns''))),
     tc_Raw = clone_any m\<rparr>"

definition completedCompactionTurn :: "TurnRecord \<Rightarrow> bool" where
  "completedCompactionTurn t \<longleftrightarrow> tn_Status t = ''completed'' \<and>
     list_ex (\<lambda>i. ItemType i = ''contextCompaction'' \<or> ItemType i = ''context_compaction'') (tn_Items t)"

section \<open>Properties\<close>

text \<open>An integer literal a \<open>float64\<close> represents exactly is read as itself.\<close>

lemma round_even_exact: "0 < b \<Longrightarrow> round_even (n * b) b = n"
proof -
  assume b: "0 < b"
  have "(2 * (n * b) + b) div (2 * b) = (n * (2 * b) + b) div (2 * b)" by (simp add: algebra_simps)
  also have "\<dots> = n" using b by simp
  finally have q: "(2 * (n * b) + b) div (2 * b) = n" .
  have "(2 * (n * b) + b) mod (2 * b) = (b + n * (2 * b)) mod (2 * b)" by (simp add: algebra_simps)
  also have "\<dots> = b" using b by (simp only: mod_mult_self1) simp
  finally show ?thesis using q b by (simp add: round_even_def)
qed

lemma bit_len_le: "n < 2 ^ k \<Longrightarrow> bit_len n \<le> k"
proof (induction k arbitrary: n)
  case 0
  then show ?case by (simp add: bit_len.simps)
next
  case (Suc k)
  then have "n div 2 < 2 ^ k" by auto
  from Suc.IH [OF this] show ?case by (subst bit_len.simps) simp
qed

lemma float_trunc_exact:
  assumes "n < 2 ^ 53"
  shows "float_trunc n 1 = n"
proof (cases "n = 0")
  case True
  then show ?thesis by (simp add: float_trunc_def bit_len.simps)
next
  case False
  have l: "bit_len n \<le> 53" using bit_len_le assms by simp
  have "bit_len n \<noteq> 0" using False by (subst bit_len.simps) simp
  moreover have "round_even (n * 2 ^ (53 - bit_len n)) 1 = n * 2 ^ (53 - bit_len n)"
    using round_even_exact [of 1 "n * 2 ^ (53 - bit_len n)"] by simp
  ultimately show ?thesis using l by (simp add: float_trunc_def)
qed

end
