(* ===== verification/Client.thy ===== *)
theory Client
  imports Transport Thread_Api Goal
begin

text \<open>
  The operations of \<open>client.go\<close>, \<open>thread.go\<close>, \<open>thread_api.go\<close>, \<open>login.go\<close> and the calls of
  \<open>goal.go\<close> over the \<open>sdkClient\<close>. An operation takes the host and the error of the context that
  ends its waits, if any; its result is the new state with an error or a value, and \<open>None\<close> when
  it panics or does not return. The lock of a thread, under which some of them run, is in
  \<open>Thread_Locks\<close>.
\<close>

section \<open>Sequencing\<close>

definition andthen ::
  "('s \<times> (go_error + 'a)) option \<Rightarrow> ('a \<Rightarrow> 's \<Rightarrow> ('s \<times> (go_error + 'b)) option) \<Rightarrow> ('s \<times> (go_error + 'b)) option" where
  "andthen r f = (case r of
     None \<Rightarrow> None
   | Some (s, Inl e) \<Rightarrow> Some (s, Inl e)
   | Some (s, Inr x) \<Rightarrow> f x s)"

definition returning :: "('a \<Rightarrow> 'b) \<Rightarrow> ('s \<times> (go_error + 'a)) option \<Rightarrow> ('s \<times> (go_error + 'b)) option" where
  "returning f r = andthen r (\<lambda>x s. Some (s, Inr (f x)))"

section \<open>Calls with a thread in the response\<close>

definition fmt_call ::
  "host \<Rightarrow> go_error option \<Rightarrow> string \<Rightarrow> payload \<Rightarrow> (raw \<Rightarrow> 'a option) \<Rightarrow> sdkClient \<Rightarrow> (sdkClient \<times> (go_error + 'a)) option" where
  "fmt_call h ctxErr m p dec = sdk_request h ctxErr m (Some (GMap p)) dec"

text \<open>The anonymous response structs.\<close>

definition dec_thread_field :: "string \<Rightarrow> raw \<Rightarrow> anymap option" where
  "dec_thread_field name r = do { ms \<leftarrow> struct_members r; dec_map name None ms }"

definition dec_page :: "raw \<Rightarrow> (anymap list \<times> string \<times> string) option" where
  "dec_page r = do {
     ms \<leftarrow> struct_members r;
     d \<leftarrow> dec_slice elem_map None ''data'' [] ms;
     n \<leftarrow> dec_string ''nextCursor'' '''' ms;
     b \<leftarrow> dec_string ''backwardsCursor'' '''' ms;
     Some (d, n, b)
   }"

definition dec_model_page :: "raw \<Rightarrow> (anymap list \<times> string) option" where
  "dec_model_page r = do {
     ms \<leftarrow> struct_members r;
     d \<leftarrow> dec_slice elem_map None ''data'' [] ms;
     n \<leftarrow> dec_string ''nextCursor'' '''' ms;
     Some (d, n)
   }"

record ModelPage =
  mp_Data :: "ModelInfo list"
  mp_NextCursor :: string

record ThreadPage =
  tp_Data :: "ThreadRecord list"
  tp_NextCursor :: string
  tp_BackwardsCursor :: string

definition ListModels :: "host \<Rightarrow> go_error option \<Rightarrow> bool \<Rightarrow> sdkClient \<Rightarrow> (sdkClient \<times> (go_error + ModelPage)) option" where
  "ListModels h ctxErr includeHidden s =
    returning (\<lambda>(d, n). \<lparr>mp_Data = map decodeModelInfo d, mp_NextCursor = n\<rparr>)
      (fmt_call h ctxErr ''model/list'' [(''includeHidden'', GBool includeHidden)] dec_model_page s)"

text \<open>A \<open>*Thread\<close> is the identifier it has; \<open>fmtFloat\<close> as in \<open>Thread_Api\<close>.\<close>

definition thread_call ::
  "(string \<Rightarrow> string) \<Rightarrow> host \<Rightarrow> go_error option \<Rightarrow> string \<Rightarrow> payload \<Rightarrow> sdkClient \<Rightarrow> (sdkClient \<times> (go_error + ThreadRecord)) option" where
  "thread_call fmtFloat h ctxErr m p s =
    returning (decodeThreadRecord fmtFloat) (fmt_call h ctxErr m p (dec_thread_field ''thread'') s)"

definition StartThread ::
  "(string \<Rightarrow> string) \<Rightarrow> host \<Rightarrow> go_error option \<Rightarrow> ThreadOptions \<Rightarrow> sdkClient \<Rightarrow> (sdkClient \<times> (go_error + string)) option" where
  "StartThread fmtFloat h ctxErr opts s =
    (case threadPayload opts of
       None \<Rightarrow> None
     | Some p \<Rightarrow> returning tc_ID (thread_call fmtFloat h ctxErr ''thread/start'' p s))"

definition ResumeThread ::
  "(string \<Rightarrow> string) \<Rightarrow> host \<Rightarrow> go_error option \<Rightarrow> string \<Rightarrow> ThreadOptions \<Rightarrow> sdkClient \<Rightarrow> (sdkClient \<times> (go_error + string)) option" where
  "ResumeThread fmtFloat h ctxErr threadID opts s =
    (case threadPayload opts of
       None \<Rightarrow> None
     | Some p \<Rightarrow> returning tc_ID
         (thread_call fmtFloat h ctxErr ''thread/resume'' (AList.update ''threadId'' (GStr threadID) p) s))"

definition ForkThread ::
  "(string \<Rightarrow> string) \<Rightarrow> host \<Rightarrow> go_error option \<Rightarrow> string \<Rightarrow> ThreadOptions \<Rightarrow> sdkClient \<Rightarrow> (sdkClient \<times> (go_error + string)) option" where
  "ForkThread fmtFloat h ctxErr threadID opts s =
    (case threadPayload opts of
       None \<Rightarrow> None
     | Some p \<Rightarrow> returning tc_ID
         (thread_call fmtFloat h ctxErr ''thread/fork'' (AList.update ''threadId'' (GStr threadID) p) s))"

definition ReadThread ::
  "(string \<Rightarrow> string) \<Rightarrow> host \<Rightarrow> go_error option \<Rightarrow> string \<Rightarrow> bool \<Rightarrow> sdkClient \<Rightarrow> (sdkClient \<times> (go_error + ThreadRecord)) option" where
  "ReadThread fmtFloat h ctxErr threadID includeTurns =
    thread_call fmtFloat h ctxErr ''thread/read'' [(''threadId'', GStr threadID), (''includeTurns'', GBool includeTurns)]"

definition ListThreads ::
  "(string \<Rightarrow> string) \<Rightarrow> host \<Rightarrow> go_error option \<Rightarrow> ThreadListOptions \<Rightarrow> sdkClient \<Rightarrow> (sdkClient \<times> (go_error + ThreadPage)) option" where
  "ListThreads fmtFloat h ctxErr opts s =
    returning (\<lambda>(d, n, b). \<lparr>tp_Data = map (decodeThreadRecord fmtFloat) d, tp_NextCursor = n, tp_BackwardsCursor = b\<rparr>)
      (fmt_call h ctxErr ''thread/list'' (threadListPayload opts) dec_page s)"

section \<open>Calls without a result\<close>

type_synonym unit_call = "sdkClient \<Rightarrow> (sdkClient \<times> (go_error + unit)) option"

definition ArchiveThread :: "host \<Rightarrow> go_error option \<Rightarrow> string \<Rightarrow> unit_call" where
  "ArchiveThread h ctxErr threadID = fmt_call h ctxErr ''thread/archive'' [(''threadId'', GStr threadID)] ignore_result"

definition UnarchiveThread :: "host \<Rightarrow> go_error option \<Rightarrow> string \<Rightarrow> unit_call" where
  "UnarchiveThread h ctxErr threadID = fmt_call h ctxErr ''thread/unarchive'' [(''threadId'', GStr threadID)] ignore_result"

definition SetThreadName :: "host \<Rightarrow> go_error option \<Rightarrow> string \<Rightarrow> string \<Rightarrow> unit_call" where
  "SetThreadName h ctxErr threadID name =
    fmt_call h ctxErr ''thread/name/set'' [(''threadId'', GStr threadID), (''name'', GStr name)] ignore_result"

definition CompactThread :: "host \<Rightarrow> go_error option \<Rightarrow> string \<Rightarrow> unit_call" where
  "CompactThread h ctxErr threadID = fmt_call h ctxErr ''thread/compact/start'' [(''threadId'', GStr threadID)] ignore_result"

definition steerTurn :: "host \<Rightarrow> go_error option \<Rightarrow> string \<Rightarrow> string \<Rightarrow> Input \<Rightarrow> unit_call" where
  "steerTurn h ctxErr threadID turnID inp s =
    (case normalizeAppServerInput inp of
       Inl e \<Rightarrow> Some (s, Inl e)
     | Inr wire \<Rightarrow> fmt_call h ctxErr ''turn/steer'' [(''threadId'', GStr threadID), (''expectedTurnId'', GStr turnID),
         (''input'', GSlice (map GMap wire))] ignore_result s)"

definition interruptTurn :: "host \<Rightarrow> go_error option \<Rightarrow> string \<Rightarrow> string \<Rightarrow> unit_call" where
  "interruptTurn h ctxErr threadID turnID =
    fmt_call h ctxErr ''turn/interrupt'' [(''threadId'', GStr threadID), (''turnId'', GStr turnID)] ignore_result"

section \<open>Login\<close>

definition LoginAPIKey :: "host \<Rightarrow> go_error option \<Rightarrow> string \<Rightarrow> unit_call" where
  "LoginAPIKey h ctxErr apiKey =
    fmt_call h ctxErr ''account/login/start'' [(''type'', GStr ''apiKey''), (''apiKey'', GStr apiKey)] ignore_result"

text \<open>The handles: the login with its URL, and for a device code the code too.\<close>

definition dec_login :: "string list \<Rightarrow> raw \<Rightarrow> string list option" where
  "dec_login names r = do { ms \<leftarrow> struct_members r; those (map (\<lambda>n. dec_string n '''' ms) names) }"

definition LoginChatGPT :: "host \<Rightarrow> go_error option \<Rightarrow> sdkClient \<Rightarrow> (sdkClient \<times> (go_error + string list)) option" where
  "LoginChatGPT h ctxErr =
    fmt_call h ctxErr ''account/login/start'' [(''type'', GStr ''chatgpt'')] (dec_login [''loginId'', ''authUrl''])"

definition LoginDeviceCode :: "host \<Rightarrow> go_error option \<Rightarrow> sdkClient \<Rightarrow> (sdkClient \<times> (go_error + string list)) option" where
  "LoginDeviceCode h ctxErr =
    fmt_call h ctxErr ''account/login/start'' [(''type'', GStr ''chatgptDeviceCode'')]
      (dec_login [''loginId'', ''verificationUrl'', ''userCode''])"

definition dec_account :: "raw \<Rightarrow> (anymap \<times> bool) option" where
  "dec_account r = do {
     ms \<leftarrow> struct_members r;
     a \<leftarrow> dec_map ''account'' None ms;
     b \<leftarrow> dec_bool ''requiresOpenaiAuth'' False ms;
     Some (a, b)
   }"

definition Client_Account ::
  "host \<Rightarrow> go_error option \<Rightarrow> bool \<Rightarrow> sdkClient \<Rightarrow> (sdkClient \<times> (go_error + Account option \<times> bool)) option" where
  "Client_Account h ctxErr refreshToken s =
    returning (\<lambda>(a, b). (decodeAccount a, b))
      (fmt_call h ctxErr ''account/read'' [(''refreshToken'', GBool refreshToken)] dec_account s)"

definition Logout :: "host \<Rightarrow> go_error option \<Rightarrow> unit_call" where
  "Logout h ctxErr = sdk_request h ctxErr ''account/logout'' None ignore_result"

definition LoginHandle_Cancel :: "host \<Rightarrow> go_error option \<Rightarrow> string \<Rightarrow> unit_call" where
  "LoginHandle_Cancel h ctxErr loginID =
    fmt_call h ctxErr ''account/login/cancel'' [(''loginId'', GStr loginID)] ignore_result"

record LoginResult =
  lr_LoginID :: string
  lr_Account :: "Account option"

definition dec_LoginResult :: "raw \<Rightarrow> LoginResult option" where
  "dec_LoginResult r = do {
     ms \<leftarrow> struct_members r;
     i \<leftarrow> dec_string ''loginId'' '''' ms;
     a \<leftarrow> dec_map ''account'' None ms;
     Some \<lparr>lr_LoginID = i, lr_Account = decodeAccount a\<rparr>
   }"

text \<open>What one notification of a login means: a result, an error, or to go on.\<close>

definition login_notification :: "raw \<Rightarrow> (go_error + LoginResult) option" where
  "login_notification r =
    (case splitNotification r of
       Inl e \<Rightarrow>
        (case dec_LoginResult r of
           Some res \<Rightarrow> Some (if lr_LoginID res \<noteq> '''' then Inr res else Inl e)
         | None \<Rightarrow> Some (Inl e))
     | Inr (m, params) \<Rightarrow>
         if m \<noteq> ''account/login/completed'' then None
         else Some (case dec_LoginResult params of None \<Rightarrow> Inl json_error | Some res \<Rightarrow> Inr res))"

text \<open>The loop of \<open>waitForLogin\<close>; \<open>None\<close> while it waits.\<close>

partial_function (option) login_loop ::
  "host \<Rightarrow> go_error option \<Rightarrow> string \<Rightarrow> sdkClient \<Rightarrow> (sdkClient \<times> (go_error + LoginResult)) option" where
  "login_loop h ctxErr loginID s =
    (case ctxErr of
       Some e \<Rightarrow> Some (s, Inl e)
     | None \<Rightarrow>
        (case nextLogin h ctxErr loginID s of
           None \<Rightarrow> None
         | Some (s1, Inl e) \<Rightarrow> Some (s1, Inl e)
         | Some (s1, Inr r) \<Rightarrow>
            (case login_notification r of
               None \<Rightarrow> login_loop h ctxErr loginID s1
             | Some res \<Rightarrow> Some (s1, res))))"

definition waitForLogin :: "host \<Rightarrow> go_error option \<Rightarrow> string \<Rightarrow> sdkClient \<Rightarrow> (sdkClient \<times> (go_error + LoginResult)) option" where
  "waitForLogin h ctxErr loginID s =
    andthen (registerLogin h loginID s) (\<lambda>_ s1.
      map_option (\<lambda>(s2, res). (unregisterLogin loginID s2, res)) (login_loop h ctxErr loginID s1))"

section \<open>Compaction\<close>

definition decodeCompactionNotification :: "raw \<Rightarrow> string \<Rightarrow> go_error + string" where
  "decodeCompactionNotification r threadID =
    (case (do {
       ms \<leftarrow> struct_members r;
       m \<leftarrow> dec_string ''method'' '''' ms;
       p \<leftarrow> dec_struct (\<lambda>fs (t, u). do { t1 \<leftarrow> dec_string ''threadId'' t fs; u1 \<leftarrow> dec_string ''turnId'' u fs; Some (t1, u1) })
              ''params'' ('''', '''') ms;
       Some (m, p) }) of
       None \<Rightarrow> Inl (Wrapped (''codex: decode compaction notification: '' @ err_text json_error) [json_error])
     | Some (m, t, u) \<Rightarrow>
        if m \<noteq> ''thread/compacted'' \<or> t \<noteq> threadID then Inl (Text ''codex: mismatched compaction notification'')
        else Inr u)"

text \<open>The baseline, \<open>None\<close> when the snapshot could not be read.\<close>

definition completedCompactionTurns ::
  "(string \<Rightarrow> string) \<Rightarrow> host \<Rightarrow> go_error option \<Rightarrow> string \<Rightarrow> sdkClient \<Rightarrow> (sdkClient \<times> string list option) option" where
  "completedCompactionTurns fmtFloat h ctxErr threadID s =
    map_option (\<lambda>(s1, res). (s1, case res of
        Inl _ \<Rightarrow> None
      | Inr rec \<Rightarrow> Some (map tn_ID (filter completedCompactionTurn (tc_Turns rec)))))
    (ReadThread fmtFloat h ctxErr threadID True s)"

text \<open>\<open>pollCompactionSnapshot\<close> over the results of its reads, in order.\<close>

fun poll_snapshots :: "string list \<Rightarrow> (go_error + ThreadRecord) list \<Rightarrow> string option" where
  "poll_snapshots baseline [] = None"
| "poll_snapshots baseline (Inl e # rs) = poll_snapshots baseline rs"
| "poll_snapshots baseline (Inr rec # rs) =
     (case find (\<lambda>t. tn_ID t \<notin> set baseline \<and> completedCompactionTurn t) (tc_Turns rec) of
        Some t \<Rightarrow> Some (tn_ID t)
      | None \<Rightarrow> poll_snapshots baseline rs)"

text \<open>
  \<open>waitForCompaction\<close> waits for the first of three: the notification, a poll of the snapshot
  (when there is a baseline) and the end of the context.
\<close>

datatype compaction_arrival = FromNotification | FromSnapshot "(go_error + ThreadRecord) list" | FromContext go_error

definition waitForCompaction ::
  "host \<Rightarrow> compaction_arrival \<Rightarrow> string \<Rightarrow> string list option \<Rightarrow> sdkClient \<Rightarrow> (sdkClient \<times> (go_error + string)) option" where
  "waitForCompaction h arrival threadID baseline s =
    (case arrival of
       FromNotification \<Rightarrow>
         andthen (nextCompaction h None threadID s) (\<lambda>r s1. Some (s1, decodeCompactionNotification r threadID))
     | FromSnapshot reads \<Rightarrow>
         (case baseline of
            None \<Rightarrow> None
          | Some old \<Rightarrow> map_option (\<lambda>t. (s, Inr t)) (poll_snapshots old reads))
     | FromContext e \<Rightarrow> Some (s, Inl e))"

record CompactionResult =
  cr_ThreadID :: string
  cr_TurnID :: string
  RequestAccepted :: bool
  CompletionConfirmed :: bool

text \<open>The work under the thread's lock: the request, then the wait; the route goes in every case.\<close>

definition compact_locked ::
  "(string \<Rightarrow> string) \<Rightarrow> host \<Rightarrow> go_error option \<Rightarrow> compaction_arrival \<Rightarrow> string \<Rightarrow> sdkClient \<Rightarrow>
   (sdkClient \<times> CompactionResult \<times> go_error option) option" where
  "compact_locked fmtFloat h ctxErr arrival threadID s =
    (let res0 = \<lparr>cr_ThreadID = threadID, cr_TurnID = '''', RequestAccepted = False, CompletionConfirmed = False\<rparr>
     in case registerCompaction h ctxErr threadID s of
          None \<Rightarrow> None
        | Some (s1, Inl e) \<Rightarrow> Some (s1, res0, Some e)
        | Some (s1, Inr _) \<Rightarrow>
           (case completedCompactionTurns fmtFloat h ctxErr threadID s1 of
              None \<Rightarrow> None
            | Some (s2, baseline) \<Rightarrow>
               (case CompactThread h ctxErr threadID s2 of
                  None \<Rightarrow> None
                | Some (s3, Inl e) \<Rightarrow> Some (unregisterCompaction threadID s3, res0, Some e)
                | Some (s3, Inr _) \<Rightarrow>
                   (case waitForCompaction h arrival threadID baseline s3 of
                      None \<Rightarrow> None
                    | Some (s4, Inl e) \<Rightarrow>
                        Some (unregisterCompaction threadID s4, res0\<lparr>RequestAccepted := True\<rparr>, Some e)
                    | Some (s4, Inr t) \<Rightarrow>
                        Some (unregisterCompaction threadID s4,
                          res0\<lparr>RequestAccepted := True, cr_TurnID := t, CompletionConfirmed := True\<rparr>, None)))))"

definition CompactThreadAndWait ::
  "(string \<Rightarrow> string) \<Rightarrow> host \<Rightarrow> go_error option \<Rightarrow> compaction_arrival \<Rightarrow> string \<Rightarrow> sdkClient \<Rightarrow>
   (sdkClient \<times> CompactionResult \<times> go_error option) option" where
  "CompactThreadAndWait fmtFloat h ctxErr arrival threadID s =
    (let t = trimSpace threadID
     in if t = '''' then Some (s, \<lparr>cr_ThreadID = t, cr_TurnID = '''', RequestAccepted = False, CompletionConfirmed = False\<rparr>,
            Some (Text ''codex: thread ID is required for compaction''))
        else compact_locked fmtFloat h ctxErr arrival t s)"

section \<open>Turns\<close>

record Client =
  transport :: sdkClient
  goals :: "goalOperation gomap"

definition on_transport ::
  "(sdkClient \<Rightarrow> (sdkClient \<times> (go_error + 'a)) option) \<Rightarrow> Client \<Rightarrow> (Client \<times> (go_error + 'a)) option" where
  "on_transport f c = map_option (\<lambda>(s, res). (c\<lparr>transport := s\<rparr>, res)) (f (transport c))"

text \<open>\<open>NewClient\<close>: the transport is started at once.\<close>

definition NewClient ::
  "host \<Rightarrow> go_error option \<Rightarrow> (ResolveOptions \<Rightarrow> go_error + ResolvedRuntime) \<Rightarrow> client_option option list \<Rightarrow>
   (go_error + Client) option" where
  "NewClient h ctxErr runtime opts =
    (case resolveClientOptions opts of
       Inl e \<Rightarrow> Some (Inl e)
     | Inr options \<Rightarrow>
        (case ensureStarted h ctxErr (newManagedSDKClient runtime options) of
           None \<Rightarrow> None
         | Some (s, Some e) \<Rightarrow> Some (Inl e)
         | Some (s, None) \<Rightarrow> Some (Inr \<lparr>transport = s, goals = []\<rparr>)))"

definition active_goal :: "string \<Rightarrow> go_error" where
  "active_goal threadID = invalid_request (''thread has an active goal operation: '' @ threadID)"

definition dec_turn :: "raw \<Rightarrow> turnWire option" where
  "dec_turn r = do { ms \<leftarrow> struct_members r; dec_struct dec_turnWire ''turn'' zero_turnWire ms }"

definition startTurn ::
  "host \<Rightarrow> go_error option \<Rightarrow> string \<Rightarrow> Input \<Rightarrow> TurnOptions \<Rightarrow> Client \<Rightarrow> (Client \<times> (go_error + TurnHandle)) option" where
  "startTurn h ctxErr threadID inp opts c =
    (if map_of (goals c) threadID \<noteq> None then Some (c, Inl (active_goal threadID))
     else case buildTurnPayload threadID inp opts of
         Inl e \<Rightarrow> Some (c, Inl e)
       | Inr p \<Rightarrow>
          on_transport (\<lambda>s. andthen (fmt_call h ctxErr ''turn/start'' p dec_turn s) (\<lambda>t s1.
            if tw_ID t = '''' then Some (s1, Inl io_ErrUnexpectedEOF)
            else returning (\<lambda>_. \<lparr>th_threadID = threadID, th_id = tw_ID t, th_started = decodeTurnState t, th_consumed = False\<rparr>)
              (registerTurn h (tw_ID t) s1))) c)"

text \<open>\<open>Thread.RunContext\<close>: start a turn, run the handle. A thread without an identifier is refused.\<close>

definition StartTurnContext ::
  "host \<Rightarrow> go_error option \<Rightarrow> string \<Rightarrow> Input \<Rightarrow> TurnOptions \<Rightarrow> Client \<Rightarrow> (Client \<times> (go_error + TurnHandle)) option" where
  "StartTurnContext h ctxErr threadID inp opts c =
    (if threadID = '''' then Some (c, Inl ErrTransportClosed) else startTurn h ctxErr threadID inp opts c)"

definition Thread_RunContext ::
  "host \<Rightarrow> go_error option \<Rightarrow> string \<Rightarrow> Input \<Rightarrow> TurnOptions \<Rightarrow> Client \<Rightarrow> (Client \<times> (go_error + TurnResult)) option" where
  "Thread_RunContext h ctxErr threadID inp opts c =
    andthen (StartTurnContext h ctxErr threadID inp opts c) (\<lambda>hd c1.
      map_option (\<lambda>(s, hd1, res). (c1\<lparr>transport := s\<rparr>, res))
        (RunContext (nextTurn h ctxErr) unregisterTurn ctxErr hd (transport c1)))"

section \<open>Goals\<close>

definition decode_goal_map :: "anymap \<Rightarrow> Goal" where
  "decode_goal_map m = \<lparr>gl_Objective = stringField m ''objective'', gl_Status = stringField m ''status'',
     gl_TokenBudget = intField m ''tokenBudget'', gl_TokensUsed = intField m ''tokensUsed'',
     gl_UpdatedAt = secondsField m ''updatedAt''\<rparr>"

text \<open>
  \<open>decodeGoalFromAny(response.Goal)\<close>: the argument is a \<open>map[string]any\<close> even when it is nil, so
  the type assertion succeeds and the goal is never nil.
\<close>

definition GetGoal :: "host \<Rightarrow> go_error option \<Rightarrow> string \<Rightarrow> sdkClient \<Rightarrow> (sdkClient \<times> (go_error + Goal)) option" where
  "GetGoal h ctxErr threadID s =
    returning decode_goal_map (fmt_call h ctxErr ''thread/goal/get'' [(''threadId'', GStr threadID)] (dec_thread_field ''goal'') s)"

record GoalUpdate =
  gu_Objective :: "string option"
  gu_Status :: "string option"
  gu_TokenBudget :: "int option"

definition SetGoal :: "host \<Rightarrow> go_error option \<Rightarrow> string \<Rightarrow> GoalUpdate \<Rightarrow> sdkClient \<Rightarrow> (sdkClient \<times> (go_error + Goal)) option" where
  "SetGoal h ctxErr threadID upd s =
    (let p0 = [(''threadId'', GStr threadID)];
         p1 = put_opt ''objective'' (map_option GStr (gu_Objective upd)) p0;
         p2 = put_opt ''status'' (map_option GStr (gu_Status upd)) p1;
         p3 = put_opt ''tokenBudget'' (map_option GInt (gu_TokenBudget upd)) p2
     in returning decode_goal_map (fmt_call h ctxErr ''thread/goal/set'' p3 (dec_thread_field ''goal'') s))"

definition ClearGoal :: "host \<Rightarrow> go_error option \<Rightarrow> string \<Rightarrow> unit_call" where
  "ClearGoal h ctxErr threadID = fmt_call h ctxErr ''thread/goal/clear'' [(''threadId'', GStr threadID)] ignore_result"

definition PauseGoal :: "host \<Rightarrow> go_error option \<Rightarrow> string \<Rightarrow> sdkClient \<Rightarrow> (sdkClient \<times> (go_error + Goal)) option" where
  "PauseGoal h ctxErr threadID =
    SetGoal h ctxErr threadID \<lparr>gu_Objective = None, gu_Status = Some ''paused'', gu_TokenBudget = None\<rparr>"

text \<open>
  The route loop of a goal over what its route holds: it stops at an error, or waits. A started
  client always registers a turn (the router never blocks); a registration that does not return
  would end the loop.
\<close>

definition register_turn_step :: "host \<Rightarrow> string \<Rightarrow> sdkClient \<Rightarrow> sdkClient \<times> go_error option" where
  "register_turn_step h i s = (case registerTurn h i s of
     None \<Rightarrow> (s, Some marshal_error)
   | Some (s1, Inl e) \<Rightarrow> (s1, Some e)
   | Some (s1, Inr _) \<Rightarrow> (s1, None))"

fun goal_routes :: "nat \<Rightarrow> host \<Rightarrow> goalOperation \<Rightarrow> sdkClient \<Rightarrow> sdkClient \<times> goalOperation" where
  "goal_routes 0 h g s = (s, g)"
| "goal_routes (Suc n) h g s =
     (case nextGoal h None (g_threadID g) s of
        None \<Rightarrow> (s, g)
      | Some (s1, nxt) \<Rightarrow>
         (case routeLoop_step (register_turn_step h) nxt g s1 of
            (s2, g1, True) \<Rightarrow> goal_routes n h g1 s2
          | (s2, g1, False) \<Rightarrow> (s2, g1)))"

text \<open>\<open>unregisterGoal\<close> of the client: the route, then the entry.\<close>

definition unregisterGoal :: "string \<Rightarrow> Client \<Rightarrow> Client" where
  "unregisterGoal threadID c =
    c\<lparr>transport := sdk_unregisterGoal threadID (transport c), goals := AList.delete threadID (goals c)\<rparr>"

text \<open>A call under a timeout: when no answer comes the deadline ends the wait.\<close>

definition deadline_exceeded :: go_error where
  "deadline_exceeded = Sentinel ''context deadline exceeded''"

definition bounded_call ::
  "(go_error option \<Rightarrow> sdkClient \<Rightarrow> (sdkClient \<times> (go_error + 'a)) option) \<Rightarrow> sdkClient \<Rightarrow> sdkClient \<times> (go_error + 'a)" where
  "bounded_call f s = (case f None s of
     Some r \<Rightarrow> r
   | None \<Rightarrow> (case f (Some deadline_exceeded) s of Some r \<Rightarrow> r | None \<Rightarrow> (s, Inl deadline_exceeded)))"

definition interrupt_step :: "host \<Rightarrow> string \<Rightarrow> string \<Rightarrow> sdkClient \<Rightarrow> sdkClient \<times> go_error option" where
  "interrupt_step h threadID turnID s =
    (case bounded_call (\<lambda>ctxErr. interruptTurn h ctxErr threadID turnID) s of
       (s1, Inl e) \<Rightarrow> (s1, Some e)
     | (s1, Inr _) \<Rightarrow> (s1, None))"

definition cancelGoalOperation :: "host \<Rightarrow> goalOperation \<Rightarrow> sdkClient \<Rightarrow> sdkClient \<times> goalOperation" where
  "cancelGoalOperation h g s =
    cancel_interrupt (interrupt_step h (g_threadID g)) parseTurnIDMismatch g
      (fst (bounded_call (\<lambda>ctxErr. PauseGoal h ctxErr (g_threadID g)) s))"

text \<open>
  \<open>StartGoal\<close>, the work under the thread's lock. \<open>n\<close> bounds the notifications the route loop
  handles before \<open>awaitStart\<close> looks at the state; \<open>ended\<close> is how that wait ends.
\<close>

definition goal_cleanup :: "host \<Rightarrow> goalOperation \<Rightarrow> Client \<Rightarrow> Client" where
  "goal_cleanup h g c = unregisterGoal (g_threadID g) (c\<lparr>transport := fst (cancelGoalOperation h g (transport c))\<rparr>)"

definition goal_begin ::
  "host \<Rightarrow> go_error option \<Rightarrow> nat \<Rightarrow> wait_end \<Rightarrow> string \<Rightarrow> string \<Rightarrow> Client \<Rightarrow> (Client \<times> (go_error + string)) option" where
  "goal_begin h ctxErr n ended threadID objective c =
    (let g = newGoalOperation threadID
     in case ClearGoal h ctxErr threadID (transport c) of
          None \<Rightarrow> None
        | Some (s1, Inl e) \<Rightarrow> Some (goal_cleanup h g (c\<lparr>transport := s1\<rparr>), Inl e)
        | Some (s1, Inr _) \<Rightarrow>
           (case SetGoal h ctxErr threadID
                   \<lparr>gu_Objective = Some objective, gu_Status = Some ''active'', gu_TokenBudget = None\<rparr> s1 of
              None \<Rightarrow> None
            | Some (s2, Inl e) \<Rightarrow> Some (goal_cleanup h g (c\<lparr>transport := s2\<rparr>), Inl e)
            | Some (s2, Inr _) \<Rightarrow>
               (case goal_routes n h g s2 of
                  (s3, g1) \<Rightarrow>
                    (case awaitStart ended [g1] of
                       Inl e \<Rightarrow> Some (goal_cleanup h g1 (c\<lparr>transport := s3\<rparr>), Inl e)
                     | Inr t \<Rightarrow> Some (c\<lparr>transport := s3, goals := AList.update threadID g1 (goals c)\<rparr>, Inr t)))))"

definition StartGoal ::
  "(string \<Rightarrow> string) \<Rightarrow> host \<Rightarrow> go_error option \<Rightarrow> nat \<Rightarrow> wait_end \<Rightarrow> string \<Rightarrow> string \<Rightarrow> Client \<Rightarrow>
   (Client \<times> (go_error + string)) option" where
  "StartGoal fmtFloat h ctxErr n ended threadID objective c =
    andthen (on_transport (ReadThread fmtFloat h ctxErr threadID False) c) (\<lambda>rec c1.
      if tc_Status rec \<noteq> ''idle''
      then Some (c1, Inl (invalid_request (''thread must be idle before starting a goal: '' @ threadID)))
      else if Ephemeral rec \<or> tc_Path rec = ''''
      then Some (c1, Inl (invalid_request (''thread must be persisted before starting a goal: '' @ threadID)))
      else andthen (on_transport (registerGoal h threadID) c1) (\<lambda>_ c2.
        if map_of (goals c2) threadID \<noteq> None
        then Some (c2\<lparr>transport := sdk_unregisterGoal threadID (transport c2)\<rparr>, Inl (active_goal threadID))
        else goal_begin h ctxErr n ended threadID objective
               (c2\<lparr>goals := AList.update threadID (newGoalOperation threadID) (goals c2)\<rparr>)))"

end
