(* ===== verification/Client_Props.thy ===== *)
theory Client_Props
  imports Client Appserver_Props Turn_Props
begin

text \<open>
  The client over a transport that runs. A turn's stream reads from the route of its turn: the
  interface \<open>turn_source\<close> is interpreted here on \<open>nextTurn\<close> and \<open>unregisterTurn\<close> of the
  \<open>sdkClient\<close>, and a whole call of \<open>Thread.RunContext\<close> is followed from the request to the result.
\<close>

section \<open>A client that runs\<close>

definition live_conn :: "conn \<Rightarrow> bool" where
  "live_conn c \<longleftrightarrow> started (fst c) \<and> initDone (fst c) \<and> initErr (fst c) = None"

definition live_client :: "sdkClient \<Rightarrow> conn \<Rightarrow> bool" where
  "live_client s c \<longleftrightarrow> sc_client s = Some c \<and> live_conn c"

definition with_meta :: "conn \<Rightarrow> sdkClient \<Rightarrow> sdkClient" where
  "with_meta c s = s\<lparr>sc_client := Some c, sc_metadata := initMeta (fst c)\<rparr>"

lemma app_Start_live: "live_conn c \<Longrightarrow> app_Start h ctxErr c = Some (c, Inr (initMeta (fst c)))"
  by (cases c) (simp add: app_Start_def live_conn_def startProcess_def start_result_def)

lemma ensureStarted_live:
  "live_client s c \<Longrightarrow> ensureStarted h ctxErr s = Some (with_meta c s, None)"
  by (simp add: live_client_def ensureStarted_def start_conn_def app_Start_live with_meta_def)

lemma with_started_live:
  assumes "live_client s c"
  shows "with_started h ctxErr f s = map_option (\<lambda>(c1, res). ((with_meta c s)\<lparr>sc_client := Some c1\<rparr>, res)) (f c)"
  using assms by (simp add: with_started_def ensureStarted_live) (simp add: with_meta_def live_client_def)

lemma live_client_meta [simp]: "live_client ((with_meta c s)\<lparr>sc_client := Some c1\<rparr>) c2 \<longleftrightarrow> c1 = c2 \<and> live_conn c2"
  by (auto simp: live_client_def with_meta_def)

lemma live_upd_router [simp]: "live_conn (upd_router r c) \<longleftrightarrow> live_conn c" "rtr (fst (upd_router r c)) = r"
  by (simp_all add: upd_router_def live_conn_def)

section \<open>The routes of turns\<close>

definition turn_ok :: "string \<Rightarrow> sdkClient \<Rightarrow> bool" where
  "turn_ok i s \<longleftrightarrow> (\<exists>c. live_client s c \<and> routes_wf (rtr (fst c)) \<and> registered turnRoute i (rtr (fst c)) \<and>
     (\<forall>x\<in>set (contents turnRoute i (rtr (fst c))). ItemErr x = None))"

definition turn_queue :: "string \<Rightarrow> sdkClient \<Rightarrow> raw list" where
  "turn_queue i s = (case sc_client s of None \<Rightarrow> [] | Some c \<Rightarrow> map Raw (contents turnRoute i (rtr (fst c))))"

lemma nextTurn_queued:
  assumes "turn_ok i s" "turn_queue i s = r # rs"
  shows "\<exists>s'. nextTurn h ctxErr i s = Some (s', Inr r) \<and> turn_ok i s' \<and> turn_queue i s' = rs"
proof -
  obtain c where c: "live_client s c" and wf: "routes_wf (rtr (fst c))" and reg: "registered turnRoute i (rtr (fst c))"
    and err: "\<forall>x\<in>set (contents turnRoute i (rtr (fst c))). ItemErr x = None"
    using assms(1) by (auto simp: turn_ok_def)
  then obtain x xs where x: "contents turnRoute i (rtr (fst c)) = x # xs" "Raw x = r" "map Raw xs = rs"
    using assms(2) by (auto simp: turn_queue_def live_client_def)
  from nextRoute_head [OF wf reg x(1), of ctxErr] obtain q where
    q: "nextRoute i turnRoute ctxErr (rtr (fst c)) = (q, Got (Raw x) (ItemErr x))" "routes_wf q"
      "contents turnRoute i q = xs" "registered turnRoute i q" by blast
  let ?s = "(with_meta c s)\<lparr>sc_client := Some (upd_router q c)\<rparr>"
  have live: "live_client ?s (upd_router q c)" using c by (simp add: live_client_def)
  have "nextTurn h ctxErr i s = Some (?s, Inr r)"
    using err x q by (simp add: nextTurn_def next_route_def with_started_live [OF c] conn_next_def translate_result_def)
  moreover have "turn_ok i ?s" unfolding turn_ok_def
    by (rule exI [of _ "upd_router q c"]) (use live q err x in auto)
  moreover have "turn_queue i ?s = rs" using q(3) x(3) by (simp add: turn_queue_def)
  ultimately show ?thesis by blast
qed

lemma unregisterTurn_empties: "turn_queue i (unregisterTurn i s) = []"
  by (simp add: turn_queue_def unregisterTurn_def unregister_def contents_def unregisterRoute_look
      split: option.splits)

interpretation turns: turn_source "nextTurn h None" unregisterTurn turn_ok turn_queue for h
  using nextTurn_queued unregisterTurn_empties by unfold_locales blast+

section \<open>Notifications of a turn that has just started\<close>

type_synonym notice = "string \<times> json"

definition note_line :: "notice \<Rightarrow> raw" where
  "note_line n = Some (JObj [(''method'', JStr (fst n)), (''params'', snd n)])"

definition note_item :: "notice \<Rightarrow> routeItem" where
  "note_item n = notificationItem (fst n) (Some (snd n))"

text \<open>A notification that belongs to the turn \<open>i\<close> and to no other scope.\<close>

definition turn_note :: "string \<Rightarrow> notice \<Rightarrow> bool" where
  "turn_note i n \<longleftrightarrow> fst n \<noteq> '''' \<and> i \<noteq> '''' \<and> notificationTurnID (Some (snd n)) = i \<and>
     notificationLoginID (fst n) (Some (snd n)) = '''' \<and> fst n \<noteq> ''thread/compacted''"

definition no_goal :: "notice list \<Rightarrow> MessageRouter \<Rightarrow> bool" where
  "no_goal ns r \<longleftrightarrow> (\<forall>n\<in>set ns. map_of (routes r goalRoute) (notificationThreadID (Some (snd n))) = None)"

text \<open>There is room for the items on the route and in the router.\<close>

definition fits :: "string \<Rightarrow> routeItem list \<Rightarrow> MessageRouter \<Rightarrow> bool" where
  "fits i xs r \<longleftrightarrow> int (length (contents turnRoute i r)) + int (length xs) \<le> MaxRouteEvents (limits r) \<and>
     sizes (contents turnRoute i r) + sizes xs \<le> MaxRouteBytes (limits r) \<and>
     totalEvents r + int (length xs) \<le> MaxTotalEvents (limits r) \<and> totalBytes r + sizes xs \<le> MaxTotalBytes (limits r)"

lemma router_reach_parts:
  assumes "router_reach l r" "failed r = None"
  shows "routes_wf r" "acct r [] []" "limits_pos (limits r)"
proof -
  obtain s where "rreach l s" "rt s = r" "quiet s" using assms(1) by (auto simp: router_reach_def)
  with rreach_failed_none [of l s] assms(2) show "routes_wf r" "acct r [] []" "limits_pos (limits r)"
    by (auto simp: quiet_def)
qed

lemma sizes_items_nonneg: "0 \<le> sizes (map note_item ns)"
  by (rule sizes_nonneg) (auto simp: note_item_def notificationItem_Size)

lemma scoped_turn_note:
  assumes r: "router_reach l r" "failed r = None" and cl: "i \<notin> MessageRouter.closed r turnRoute"
    and fit: "fits i (note_item n # map note_item ns) r"
  shows "\<exists>r'. routeScoped i (note_item n) turnRoute False r = Some (r', None) \<and> i \<notin> MessageRouter.closed r' turnRoute \<and>
    contents turnRoute i r' = contents turnRoute i r @ [note_item n] \<and> fits i (map note_item ns) r' \<and>
    routes r' goalRoute = routes r goalRoute"
proof -
  note p = router_reach_parts [OF r]
  let ?x = "note_item n"
  have sz: "0 \<le> sizes (map note_item ns)" by (rule sizes_items_nonneg)
  have st: "events (routeHeap r1 a) = int (length (contents turnRoute i r)) \<and>
      bytes (routeHeap r1 a) = sizes (contents turnRoute i r)" if e: "ensureRoute i turnRoute r = (r1, a)" for r1 a
  proof -
    have "acct r1 [] []" by (rule ensureRoute_acct [OF e p(1,2) _ p(3)]) simp
    moreover have "a \<in> live r1" using ensureRoute_live [OF e] by simp
    ultimately have "route_ok (limits r1) (routeHeap r1 a) []" by (simp add: acct_def held_def)
    moreover have "items (routeHeap r1 a) = contents turnRoute i r"
      using contents_ensureRoute [OF e p(1), of turnRoute i] ensureRoute_fields [OF e] by (simp add: contents_def)
    ultimately show ?thesis by (simp add: route_ok_def)
  qed
  show ?thesis
  proof (rule routeScoped_cases [OF r(2) p(1,2) _ p(3), of i ?x turnRoute False])
    fix r1 a
    assume e: "ensureRoute i turnRoute r = (r1, a)" and res: "routeScoped i ?x turnRoute False r =
        Some (r1\<lparr>totalEvents := totalEvents r + 1, totalBytes := totalBytes r + Size ?x,
           routeHeap := (routeHeap r1)(a := accept ?x (routeHeap r1 a))\<rparr>, None)"
    let ?r = "r1\<lparr>totalEvents := totalEvents r + 1, totalBytes := totalBytes r + Size ?x,
           routeHeap := (routeHeap r1)(a := accept ?x (routeHeap r1 a))\<rparr>"
    note f = ensureRoute_fields [OF e]
    have c: "contents turnRoute i ?r = contents turnRoute i r @ [?x]"
      using f contents_ensureRoute [OF e p(1), of turnRoute i] by (simp add: contents_def accept_fields)
    moreover have "routes ?r goalRoute = routes r goalRoute" "MessageRouter.closed ?r = MessageRouter.closed r" "limits ?r = limits r"
      using e by (auto simp: ensureRoute_def Let_def split: option.splits)
    moreover have "fits i (map note_item ns) ?r" using fit by (simp add: fits_def c f)
    ultimately show ?thesis using res cl by auto
  next
    fix r1 a e
    assume e: "ensureRoute i turnRoute r = (r1, a)"
      "events (routeHeap r1 a) + 1 > MaxRouteEvents (limits r) \<or> bytes (routeHeap r1 a) + Size ?x > MaxRouteBytes (limits r) \<or>
         totalEvents r + 1 > MaxTotalEvents (limits r) \<or> totalBytes r + Size ?x > MaxTotalBytes (limits r)"
    then show ?thesis using fit st [OF e(1)] sz by (auto simp: fits_def)
  qed (use cl in auto)
qed

lemma route_turn_note:
  assumes r: "router_reach l r" "failed r = None" and cl: "i \<notin> MessageRouter.closed r turnRoute" and n: "turn_note i n"
    and fit: "fits i (note_item n # map note_item ns) r"
    and g: "map_of (routes r goalRoute) (notificationThreadID (Some (snd n))) = None"
  shows "\<exists>r'. RouteNotification (fst n) (Some (snd n)) r = Some (r', None) \<and> router_reach l r' \<and>
    waiter_view r' = waiter_view r \<and> i \<notin> MessageRouter.closed r' turnRoute \<and>
    contents turnRoute i r' = contents turnRoute i r @ [note_item n] \<and> fits i (map note_item ns) r' \<and>
    routes r' goalRoute = routes r goalRoute"
proof -
  obtain r1 where r1: "routeScoped i (note_item n) turnRoute False r = Some (r1, None)" "i \<notin> MessageRouter.closed r1 turnRoute"
    "contents turnRoute i r1 = contents turnRoute i r @ [note_item n]" "fits i (map note_item ns) r1"
    "routes r1 goalRoute = routes r goalRoute"
    using scoped_turn_note [OF r cl fit] by blast
  have "failed r1 = None" using waiter_view_scoped [OF r1(1)] r(2) by (simp add: waiter_view_def)
  then have "routeScoped (notificationThreadID (Some (snd n))) (note_item n) goalRoute True r1 = Some (r1, None)"
    using g r1(5) by (simp add: routeScoped_def)
  then have "RouteNotification (fst n) (Some (snd n)) r = Some (r1, None)"
    using n r1(1) by (auto simp: RouteNotification_def Let_def turn_note_def note_item_def)
  moreover have "router_reach l r1"
    by (rule router_reach_scoped [OF r(1) _ r1(1)]) (simp add: note_item_def notificationItem_Size)
  ultimately show ?thesis using r1 waiter_view_scoped [OF r1(1)] by auto
qed

section \<open>The reader over those lines\<close>

lemma folded_fields:
  "foldName ''id'' = ''ID''" "foldName ''method'' = ''METHOD''" "foldName ''params'' = ''PARAMS''"
  "foldName ''result'' = ''RESULT''" "foldName ''error'' = ''ERROR''" "foldName ''turn'' = ''TURN''"
  by code_simp+

lemma dec_envelope_note:
  "dec_envelope (note_line n) = Some \<lparr>en_ID = None, en_Method = fst n, en_Params = Some (snd n), en_Result = None, en_Error = None\<rparr>"
  by (cases n) (simp add: dec_envelope_def note_line_def struct_members_def dec_any_def folded_fields del: foldName.simps)

lemma read_turn_notes:
  assumes "router_reach l (rtr c)" "failed (rtr c) = None" "i \<notin> MessageRouter.closed (rtr c) turnRoute"
    "\<forall>n\<in>set ns. turn_note i n" "fits i (map note_item ns) (rtr c)" "no_goal ns (rtr c)"
  shows "\<exists>r'. read_lines h (map note_line ns) (c, True) = Some (c\<lparr>rtr := r'\<rparr>, True) \<and> router_reach l r' \<and>
    waiter_view r' = waiter_view (rtr c) \<and> contents turnRoute i r' = contents turnRoute i (rtr c) @ map note_item ns"
  using assms
proof (induction ns arbitrary: c)
  case Nil
  then show ?case by (auto intro!: exI [of _ "rtr c"])
next
  case (Cons n ns)
  then have "map_of (routes (rtr c) goalRoute) (notificationThreadID (Some (snd n))) = None" "turn_note i n"
    "fits i (note_item n # map note_item ns) (rtr c)" by (auto simp: no_goal_def)
  from route_turn_note [OF Cons.prems(1-3) this(2,3,1)] obtain r1 where
    r1: "RouteNotification (fst n) (Some (snd n)) (rtr c) = Some (r1, None)" "router_reach l r1"
      "waiter_view r1 = waiter_view (rtr c)" "i \<notin> MessageRouter.closed r1 turnRoute"
      "contents turnRoute i r1 = contents turnRoute i (rtr c) @ [note_item n]" "fits i (map note_item ns) r1"
      "routes r1 goalRoute = routes (rtr c) goalRoute" by blast
  have step: "readLoop_line (ho_sprint h) (note_line n) c = Continues (c\<lparr>rtr := r1\<rparr>)"
    using r1(1) \<open>turn_note i n\<close>
    by (simp add: readLoop_line_def dec_envelope_note readLoop_notification_def turn_note_def)
  have "failed r1 = None" using r1(3) Cons.prems(2) by (simp add: waiter_view_def)
  moreover have "no_goal ns r1" using Cons.prems(6) r1(7) by (auto simp: no_goal_def)
  ultimately obtain r2 where "read_lines h (map note_line ns) (c\<lparr>rtr := r1\<rparr>, True) = Some (c\<lparr>rtr := r2\<rparr>, True)"
    "router_reach l r2" "waiter_view r2 = waiter_view r1"
    "contents turnRoute i r2 = contents turnRoute i r1 @ map note_item ns"
    using Cons.IH [of "c\<lparr>rtr := r1\<rparr>"] r1 Cons.prems(4) by auto
  then show ?case using step r1 by auto
qed

section \<open>A request that is answered\<close>

text \<open>What the waiters never touch.\<close>

definition route_view :: "MessageRouter \<Rightarrow> Limits \<times> (routeKind \<Rightarrow> addr gomap) \<times> (routeKind \<Rightarrow> string set) \<times> (addr \<Rightarrow> routeState) \<times> int \<times> int" where
  "route_view r = (limits r, routes r, MessageRouter.closed r, routeHeap r, totalEvents r, totalBytes r)"

lemma route_view_contents: "route_view r' = route_view r \<Longrightarrow> contents k i r' = contents k i r"
  by (auto simp: route_view_def contents_def split: option.splits)

lemma route_view_fits: "route_view r' = route_view r \<Longrightarrow> fits i xs r' = fits i xs r"
  using route_view_contents [of r' r] by (simp add: fits_def) (simp add: route_view_def)

lemma route_view_create: "route_view (fst (CreateResponseWaiter i r)) = route_view r"
  by (simp add: CreateResponseWaiter_def Let_def route_view_def split: option.splits)

lemma route_view_response: "RouteResponse i res err r = Some r' \<Longrightarrow> route_view r' = route_view r"
  by (auto simp: RouteResponse_def takeWaiter_def sendResponse_def route_view_def split: option.splits)

definition response_line :: "string \<Rightarrow> json \<Rightarrow> raw" where
  "response_line rid res = Some (JObj [(''id'', JStr rid), (''result'', res)])"

lemma dec_envelope_response:
  "dec_envelope (response_line rid res) =
     Some \<lparr>en_ID = Some (JStr rid), en_Method = '''', en_Params = None, en_Result = Some res, en_Error = None\<rparr>"
  by (simp add: dec_envelope_def response_line_def struct_members_def dec_any_def folded_fields del: foldName.simps)

lemma request_send_Inr:
  assumes "request_send wErr m p a = (a1, Inr (rid, w))"
  shows "CreateResponseWaiter rid (rtr a) = (rtr a1, Inr w)" "live_conn (a1, b) = live_conn (a, b')"
    "al a1 = al a" "initMeta a1 = initMeta a"
  using assms by (auto simp: request_send_def Let_def writeMessage_def live_conn_def split: option.splits prod.splits sum.splits if_splits)

lemma exchange_answered:
  assumes r: "router_reach l (rtr a)" and send: "request_send (ho_wErr h) m p a = (a1, Inr (rid, w))"
    and srv: "ho_serve h (written a1) = response_line rid res # map note_line ns"
    and cl: "i \<notin> MessageRouter.closed (rtr a) turnRoute" and ns: "\<forall>n\<in>set ns. turn_note i n"
    and fit: "fits i (map note_item ns) (rtr a)" and g: "no_goal ns (rtr a)"
  shows "\<exists>r'. exchange h None m p (a, True) = Some ((a1\<lparr>rtr := r'\<rparr>, True), Inr (Some res)) \<and> router_reach l r' \<and>
    failed r' = None \<and> contents turnRoute i r' = contents turnRoute i (rtr a) @ map note_item ns"
proof -
  note s = request_send_Inr [OF send]
  obtain st where ok: "waiters_ok (rtr a) [] st" using router_reach_waiters [OF r] by blast
  note c = CreateResponseWaiter_Inr [OF s(1) ok]
  have r1: "router_reach l (rtr a1)" using router_reach_create [OF r, of rid] s(1) by simp
  have v1: "route_view (rtr a1) = route_view (rtr a)" using route_view_create [of rid "rtr a"] s(1) by simp
  obtain r2 where r2: "RouteResponse rid (Some res) None (rtr a1) = Some r2" "router_reach l r2"
    using router_reach_response [OF r1] by blast
  obtain st1 where ok1: "waiters_ok (rtr a1) [] st1" using router_reach_waiters [OF r1] by blast
  note f = RouteResponse_waiters [OF ok1 r2(1)]
  have v2: "route_view r2 = route_view (rtr a)" using route_view_response [OF r2(1)] v1 by simp
  have step: "readLoop_line (ho_sprint h) (response_line rid res) a1 = Continues (a1\<lparr>rtr := r2\<rparr>)"
    using r2(1) by (simp add: readLoop_line_def dec_envelope_response readLoop_response_def id_text_def)
  have "failed r2 = None" "i \<notin> MessageRouter.closed r2 turnRoute" "no_goal ns r2"
    using f(2) c(2) cl g v2 by (auto simp: route_view_def no_goal_def)
  then obtain r3 where r3: "read_lines h (map note_line ns) (a1\<lparr>rtr := r2\<rparr>, True) = Some (a1\<lparr>rtr := r3\<rparr>, True)"
    "router_reach l r3" "waiter_view r3 = waiter_view r2"
    "contents turnRoute i r3 = contents turnRoute i r2 @ map note_item ns"
    using read_turn_notes [of l "a1\<lparr>rtr := r2\<rparr>" i ns h] r2(2) ns fit route_view_fits [OF v2] by auto
  have w: "waiterHeap r3 w = [\<lparr>Result = Some res, RespErr = None\<rparr>]"
    using r3(3) f(4) c(5) by (simp add: waiter_view_def)
  let ?r = "r3\<lparr>waiterHeap := (waiterHeap r3)(w := [])\<rparr>"
  have "exchange h None m p (a, True) = Some ((a1\<lparr>rtr := ?r\<rparr>, True), Inr (Some res))"
    using step r3(1) w by (simp add: exchange_def send srv request_wait_def chan_recv_def)
  moreover have "router_reach l ?r" by (rule router_reach_await [OF r3(2) w])
  moreover have "failed ?r = None" using r3(3) \<open>failed r2 = None\<close> by (simp add: waiter_view_def)
  moreover have "contents turnRoute i ?r = contents turnRoute i (rtr a) @ map note_item ns"
    using r3(4) route_view_contents [OF v2, of turnRoute i] route_view_contents [of ?r r3 turnRoute i]
    by (simp add: route_view_def)
  ultimately show ?thesis by blast
qed

section \<open>Running a turn\<close>

lemma dec_turn_line: "dec_turnWire ms zero_turnWire = Some t \<Longrightarrow> dec_turn (Some (JObj [(''turn'', JObj ms)])) = Some t"
  by (simp add: dec_turn_def struct_members_def)

lemma register_turn_live:
  assumes c: "live_client s c" and r: "router_reach l (rtr (fst c))" "failed (rtr (fst c)) = None"
    and q: "\<forall>x\<in>set (contents turnRoute i (rtr (fst c))). ItemErr x = None"
  shows "\<exists>s'. registerTurn h i s = Some (s', Inr ()) \<and> turn_ok i s' \<and>
    turn_queue i s' = map Raw (contents turnRoute i (rtr (fst c)))"
proof -
  note p = router_reach_parts [OF r]
  obtain q' where q': "registerRoute i turnRoute (rtr (fst c)) = Some (q', None)"
    "abs_routes q' = abs_routes (rtr (fst c))" "registered turnRoute i q'"
    using abs_registerRoute [OF r(2) p(1,2) _ p(3), of i turnRoute] by auto
  have wf: "routes_wf q'" using registerRoute_inv [OF r(2) p(1,2) _ p(3) q'(1)] by simp
  have cs: "contents turnRoute i q' = contents turnRoute i (rtr (fst c))"
    using fun_cong [OF q'(2), of "(turnRoute, i)"] by (simp add: abs_routes_def)
  let ?s = "(with_meta c s)\<lparr>sc_client := Some (upd_router q' c)\<rparr>"
  have "registerTurn h i s = Some (?s, Inr ())"
    using q' by (simp add: registerTurn_def with_started_live [OF c] conn_register_def)
  moreover have "live_conn c" using c by (simp add: live_client_def)
  then have "turn_ok i ?s" unfolding turn_ok_def
    by (intro exI [of _ "upd_router q' c"]) (use wf q' cs q in auto)
  moreover have "turn_queue i ?s = map Raw (contents turnRoute i (rtr (fst c)))" by (simp add: turn_queue_def cs)
  ultimately show ?thesis by blast
qed

text \<open>
  What the client needs to start the turn: a running transport with room for one more request,
  no goal on the thread, and a server that answers the request it is sent with the turn and then
  sends the turn's notifications.
\<close>

definition answers_turn :: "host \<Rightarrow> conn \<Rightarrow> payload \<Rightarrow> members \<Rightarrow> notice list \<Rightarrow> bool" where
  "answers_turn h c p turn ns \<longleftrightarrow> snd c \<and>
    (case to_json (ho_marshal h) (GMap p) of
       None \<Rightarrow> False
     | Some v \<Rightarrow>
        (case request_send (ho_wErr h) ''turn/start'' (Some v) (fst c) of
           (a1, Inl e) \<Rightarrow> False
         | (a1, Inr (rid, w)) \<Rightarrow>
            ho_serve h (written a1) = response_line rid (JObj [(''turn'', JObj turn)]) # map note_line ns))"

definition fresh_turn :: "string \<Rightarrow> notice list \<Rightarrow> MessageRouter \<Rightarrow> bool" where
  "fresh_turn i ns r \<longleftrightarrow> i \<notin> MessageRouter.closed r turnRoute \<and> map_of (routes r turnRoute) i = None \<and>
     (\<forall>n\<in>set ns. turn_note i n) \<and> no_goal ns r \<and> fits i (map note_item ns) r"

lemma startTurn_answered:
  assumes c: "live_client (transport cl) c" and r: "router_reach l (rtr (fst c))"
    and g: "map_of (goals cl) threadID = None" and p: "buildTurnPayload threadID inp opts = Inr p"
    and srv: "answers_turn h c p turn ns" and t: "dec_turnWire turn zero_turnWire = Some t" "tw_ID t = i" "i \<noteq> ''''"
    and fr: "fresh_turn i ns (rtr (fst c))"
  shows "\<exists>cl'. startTurn h None threadID inp opts cl =
      Some (cl', Inr \<lparr>th_threadID = threadID, th_id = i, th_started = decodeTurnState t, th_consumed = False\<rparr>) \<and>
    turn_ok i (transport cl') \<and> turn_queue i (transport cl') = map (Raw \<circ> note_item) ns"
proof -
  obtain a where a: "c = (a, True)" using srv by (cases c) (auto simp: answers_turn_def)
  obtain v a1 rid w where v: "to_json (ho_marshal h) (GMap p) = Some v"
    and send: "request_send (ho_wErr h) ''turn/start'' (Some v) a = (a1, Inr (rid, w))"
    and serve: "ho_serve h (written a1) = response_line rid (JObj [(''turn'', JObj turn)]) # map note_line ns"
    using srv a by (auto simp: answers_turn_def split: option.splits prod.splits sum.splits)
  have fr': "i \<notin> MessageRouter.closed (rtr a) turnRoute" "\<forall>n\<in>set ns. turn_note i n" "no_goal ns (rtr a)"
    "fits i (map note_item ns) (rtr a)" "contents turnRoute i (rtr a) = []"
    using fr a by (auto simp: fresh_turn_def contents_def)
  obtain r' where x: "exchange h None ''turn/start'' (Some v) (a, True) =
      Some ((a1\<lparr>rtr := r'\<rparr>, True), Inr (Some (JObj [(''turn'', JObj turn)])))" "router_reach l r'" "failed r' = None"
    "contents turnRoute i r' = map note_item ns"
    using exchange_answered [OF _ send serve fr'(1,2,4,3), of l] r a fr'(5) by auto
  let ?s = "(with_meta c (transport cl))\<lparr>sc_client := Some (a1\<lparr>rtr := r'\<rparr>, True)\<rparr>"
  have "app_Request h None ''turn/start'' (Some (GMap p)) c =
      Some ((a1\<lparr>rtr := r'\<rparr>, True), Inr (Some (JObj [(''turn'', JObj turn)])))"
    unfolding app_Request_def option.case v a x(1) ..
  then have call: "fmt_call h None ''turn/start'' p dec_turn (transport cl) = Some (?s, Inr t)"
    using dec_turn_line [OF t(1)]
    by (simp add: fmt_call_def sdk_request_def with_started_live [OF c] translate_result_def)
  have "live_conn (a1\<lparr>rtr := r'\<rparr>, True)"
    using request_send_Inr(2) [OF send, of True True] c a by (simp add: live_client_def live_conn_def)
  then have "live_client ?s (a1\<lparr>rtr := r'\<rparr>, True)" by simp
  from register_turn_live [OF this, of l i h] x obtain s2 where
    "registerTurn h i ?s = Some (s2, Inr ())" "turn_ok i s2" "turn_queue i s2 = map Raw (map note_item ns)"
    by (auto simp: note_item_def notificationItem_def)
  then show ?thesis using g p call t
    by (auto simp: startTurn_def on_transport_def andthen_def returning_def)
qed

text \<open>C2: A turn runs end to end: on a client that runs, when the server accepts the request with a
  turn and sends that turn's notifications, however they arrive before anybody listens, then
  \<open>Thread.RunContext\<close> returns exactly the result computed from those notifications in the order they
  were sent, the error of a failed turn included, and the route of the turn is empty afterwards.\<close>
theorem run_turn_end_to_end:
  assumes "live_client (transport cl) c" "router_reach l (rtr (fst c))" "map_of (goals cl) threadID = None"
    "threadID \<noteq> ''''" "buildTurnPayload threadID inp opts = Inr p" "answers_turn h c p turn ns"
    "dec_turnWire turn zero_turnWire = Some t" "tw_ID t = i" "i \<noteq> ''''" "fresh_turn i ns (rtr (fst c))"
    "turn_events threadID None (map (\<lambda>n. Some (notificationEnvelope (fst n) (Some (snd n)))) ns) = Some evs"
  shows "\<exists>cl'. Thread_RunContext h None threadID inp opts cl = Some (cl', turn_result i evs) \<and>
    turn_queue i (transport cl') = []"
proof -
  let ?hd = "\<lparr>th_threadID = threadID, th_id = i, th_started = decodeTurnState t, th_consumed = False\<rparr>"
  obtain cl1 where s: "startTurn h None threadID inp opts cl = Some (cl1, Inr ?hd)" "turn_ok i (transport cl1)"
    "turn_queue i (transport cl1) = map (Raw \<circ> note_item) ns"
    using startTurn_answered [OF assms(1-3,5-10)] by blast
  have "Raw \<circ> note_item = (\<lambda>n. Some (notificationEnvelope (fst n) (Some (snd n))))"
    by (rule ext) (simp add: note_item_def notificationItem_def)
  then have "turn_events (th_threadID ?hd) None (turn_queue (th_id ?hd) (transport cl1)) = Some evs"
    using s(3) assms(11) by simp
  from turns.run_collects [OF _ _ this, of h] s(2) obtain s' where
    "RunContext (nextTurn h None) unregisterTurn None ?hd (transport cl1) =
      Some (s', ?hd\<lparr>th_consumed := True\<rparr>, turn_result i evs)" "turn_queue i s' = []" by auto
  then show ?thesis using s(1) assms(4)
    by (auto simp: Thread_RunContext_def StartTurnContext_def andthen_def)
qed

text \<open>A client on a server that answers every message with one turn, already completed.\<close>

definition demo_note :: notice where
  "demo_note = (''turn/completed'', JObj [(''threadId'', JStr ''th''),
     (''turn'', JObj [(''id'', JStr ''t1''), (''status'', JStr ''completed'')])])"

definition demo_host :: host where
  "demo_host = \<lparr>ho_environ = [], ho_windows = False, ho_osErr = None, ho_wErr = None, ho_sprint = (\<lambda>_. ''''),
     ho_marshal = (\<lambda>_. None), ho_serve = (\<lambda>_. [response_line ''req-1'' (JObj [(''turn'', JObj [(''id'', JStr ''t1'')])]),
       note_line demo_note])\<rparr>"

definition demo_conn :: conn where
  "demo_conn = (demo_started\<lparr>initDone := True\<rparr>, True)"

definition demo_client :: Client where
  "demo_client = \<lparr>transport = \<lparr>sc_options = zero_CodexOptions, resolveRuntime = (\<lambda>_. Inl json_error),
     sc_client = Some demo_conn, sc_metadata = None\<rparr>, goals = []\<rparr>"

definition demo_options :: TurnOptions where
  "demo_options = \<lparr>OutputSchema = GNil, to_ApprovalPreset = None, to_ApprovalPolicy = '''', to_Model = '''',
     to_ReasoningEffort = '''', to_WorkingDirectory = '''', to_Personality = '''', to_SandboxMode = '''',
     to_ServiceTier = '''', to_ReasoningSummary = ''''\<rparr>"

definition demo_payload :: payload where
  "demo_payload = [(''threadId'', GStr ''th''),
     (''input'', GSlice [GMap [(''type'', GStr ''text''), (''text'', GStr ''hi'')]])]"

lemma demo_rtr: "rtr demo_started = Router.New DefaultLimits" "initErr demo_started = None" "started demo_started"
  "\<not> ac_closed demo_started"
  by (simp_all add: demo_defs)

lemma demo_payload: "buildTurnPayload ''th'' (TextInput ''hi'') demo_options = Inr demo_payload"
  by code_simp

lemma demo_json: "to_json (\<lambda>_. None) (GMap demo_payload) = Some (JObj [(''input'', JArr [JObj [(''text'', JStr ''hi''),
    (''type'', JStr ''text'')]]), (''threadId'', JStr ''th'')])"
  by code_simp

lemma demo_turn_message:
  "length (json_text (request_message ''req-1'' ''turn/start'' (Some (JObj [(''input'', JArr [JObj [(''text'', JStr ''hi''),
    (''type'', JStr ''text'')]]), (''threadId'', JStr ''th'')])))) = 101"
  by code_simp

lemma demo_answers: "answers_turn demo_host demo_conn demo_payload [(''id'', JStr ''t1'')] [demo_note]"
  using demo_turn_message demo_message(2)
  by (simp add: answers_turn_def demo_host_def demo_json demo_conn_def request_send_def demo_started_fields Let_def
      CreateResponseWaiter_def writeMessage_def ensureUsable_def demo_rtr(3,4) del: to_json.simps)

lemma demo_fresh: "fresh_turn ''t1'' [demo_note] (rtr (fst demo_conn))"
proof -
  have "turn_note ''t1'' demo_note" by code_simp
  moreover have "Size (note_item demo_note) = 94" by code_simp
  ultimately show ?thesis
    by (simp add: fresh_turn_def demo_conn_def demo_rtr no_goal_def fits_def contents_def Router.New_def
        normalizeLimits_def DefaultLimits_def mib_def)
qed

definition demo_events :: "ThreadEvent list" where
  "demo_events = the (turn_events ''th'' None [Some (notificationEnvelope (fst demo_note) (Some (snd demo_note)))])"

lemma demo_events:
  "turn_events ''th'' None [Some (notificationEnvelope (fst demo_note) (Some (snd demo_note)))] = Some demo_events"
  "\<exists>res. turn_result ''t1'' demo_events = Inr res \<and> tr_ID res = ''t1'' \<and> tr_Status res = ''completed''"
proof -
  have "case turn_events ''th'' None [Some (notificationEnvelope (fst demo_note) (Some (snd demo_note)))] of
      None \<Rightarrow> False
    | Some evs \<Rightarrow> (case turn_result ''t1'' evs of Inl e \<Rightarrow> False | Inr res \<Rightarrow> tr_ID res = ''t1'' \<and> tr_Status res = ''completed'')"
    by code_simp
  then show "turn_events ''th'' None [Some (notificationEnvelope (fst demo_note) (Some (snd demo_note)))] = Some demo_events"
    "\<exists>res. turn_result ''t1'' demo_events = Inr res \<and> tr_ID res = ''t1'' \<and> tr_Status res = ''completed''"
    by (auto simp: demo_events_def split: option.splits sum.splits)
qed

lemma demo_live: "live_client (transport demo_client) demo_conn"
  by (simp add: live_client_def demo_client_def live_conn_def demo_conn_def demo_rtr)

theorem run_turn_end_to_end_witness:
  "\<exists>cl' res. Thread_RunContext demo_host None ''th'' (TextInput ''hi'') demo_options demo_client = Some (cl', Inr res) \<and>
     tr_ID res = ''t1'' \<and> tr_Status res = ''completed''"
proof -
  have "map_option tw_ID (dec_turnWire [(''id'', JStr ''t1'')] zero_turnWire) = Some ''t1''" by code_simp
  then obtain t where t: "dec_turnWire [(''id'', JStr ''t1'')] zero_turnWire = Some t" "tw_ID t = ''t1''" by auto
  have r: "router_reach DefaultLimits (rtr (fst demo_conn))"
    using router_reach_New [of DefaultLimits] by (simp add: demo_conn_def demo_rtr)
  have "map_of (goals demo_client) ''th'' = None" by (simp add: demo_client_def)
  from run_turn_end_to_end [OF demo_live r this _ demo_payload demo_answers t _ demo_fresh] demo_events
  show ?thesis by auto
qed

end
