(* ===== verification/Version_Props.thy ===== *)
theory Version_Props
  imports Runtimebin
begin

text \<open>
  Runtime versions (\<open>internal/runtimebin/versions.go\<close>): the grammar of a normalised version, and
  that a version survives the trip through the release tag it is published under.
\<close>

section \<open>The grammar of normalised versions\<close>

lemma scan_digits_Some:
  assumes "scan_digits s = Some (ds, t)"
  shows "s = ds @ t" "ds \<noteq> []" "\<forall>c\<in>set ds. is_digit c"
proof -
  have d: "ds = takeWhile is_digit s" and ne: "ds \<noteq> []" using assms by (auto simp: scan_digits_def split: list.splits)
  show "s = ds @ t" "ds \<noteq> []" using ne scan_digits_shorter [OF assms] by auto
  show "\<forall>c\<in>set ds. is_digit c" unfolding d by (auto dest: set_takeWhileD)
qed

lemma scan_digits_all:
  assumes "ds \<noteq> []" "\<forall>c\<in>set ds. is_digit c"
  shows "scan_digits (ds @ t) = (case scan_digits t of None \<Rightarrow> Some (ds, t) | Some (es, u) \<Rightarrow> Some (ds @ es, u))"
  using assms takeWhile_append2 [of ds is_digit t] dropWhile_append2 [of ds is_digit t]
  by (cases ds; cases "takeWhile is_digit t")
    (auto simp: scan_digits_def takeWhile_eq_Nil_iff dropWhile_eq_self_iff split: list.splits)

lemma scan_digits_stop: "t = [] \<or> \<not> is_digit (hd t) \<Longrightarrow> scan_digits t = None"
  by (cases t) (auto simp: scan_digits_def)

lemma scan_digits_end:
  assumes "ds \<noteq> []" "\<forall>c\<in>set ds. is_digit c" "t = [] \<or> \<not> is_digit (hd t)"
  shows "scan_digits (ds @ t) = Some (ds, t)"
  by (simp add: scan_digits_all [OF assms(1,2)] scan_digits_stop [OF assms(3)])

definition version_char :: "char \<Rightarrow> bool" where
  "version_char c \<longleftrightarrow> is_digit c \<or> c = CHR ''.''"

lemma scan_dotted_split: "scan_dotted s = (x, y) \<Longrightarrow> s = x @ y \<and> (\<forall>c\<in>set x. version_char c)"
proof (induction s arbitrary: x y rule: scan_dotted.induct)
  case (1 s)
  show ?case
  proof (cases "\<exists>t ds u. s = CHR ''.'' # t \<and> scan_digits t = Some (ds, u)")
    case True
    then obtain t ds u where t: "s = CHR ''.'' # t" "scan_digits t = Some (ds, u)" by blast
    obtain x' y' where u: "scan_dotted u = (x', y')" by fastforce
    have "u = x' @ y' \<and> (\<forall>c\<in>set x'. version_char c)" using "1.IH" [of "CHR ''.''" t] t u by simp
    moreover have "scan_dotted s = (CHR ''.'' # ds @ x', y')" using t u by (subst scan_dotted.simps) simp
    then have "x = CHR ''.'' # ds @ x'" "y = y'" using "1.prems" by simp_all
    ultimately show ?thesis using t scan_digits_Some [OF t(2)] by (auto simp: version_char_def)
  next
    case False
    then have "x = []" "y = s" using "1.prems" by (auto simp: scan_dotted.simps [of s] split: list.splits if_splits option.splits)
    then show ?thesis by simp
  qed
qed

lemma scan_release_Some:
  assumes "scan_release s = Some (rel, t)"
  shows "s = rel @ t" "rel \<noteq> []" "is_digit (hd rel)" "\<forall>c\<in>set rel. version_char c"
proof -
  obtain ds u x where d: "scan_digits s = Some (ds, u)" "scan_dotted u = (x, t)" "rel = ds @ x"
    using assms by (auto simp: scan_release_def split: option.splits prod.splits)
  then show "s = rel @ t" "rel \<noteq> []" "is_digit (hd rel)" "\<forall>c\<in>set rel. version_char c"
    using scan_digits_Some [OF d(1)] scan_dotted_split [OF d(2)] by (auto simp: version_char_def)
qed

definition digits :: "string \<Rightarrow> bool" where
  "digits ds \<longleftrightarrow> ds \<noteq> [] \<and> (\<forall>c\<in>set ds. is_digit c)"

lemma scan_pre_Some:
  assumes "scan_pre s = Some (p, ds, t)"
  shows "s = p @ ds @ t \<and> digits ds \<and> p \<in> {''a'', ''b'', ''rc''}"
proof -
  have "hasPrefix s p \<and> scan_digits (drop (length p) s) = Some (ds, t) \<and> p \<in> {''a'', ''b'', ''rc''}"
    using assms by (auto simp: scan_pre_def Let_def split: option.splits if_splits)
  then show ?thesis using scan_digits_Some by (fastforce simp: hasPrefix_iff digits_def)
qed

lemma scan_post_Some: "scan_post s = Some (es, t) \<Longrightarrow> s = ''.post'' @ es @ t \<and> digits es"
  using scan_digits_Some by (fastforce simp: scan_post_def hasPrefix_iff digits_def split: if_splits)

definition version_text :: "string \<Rightarrow> (string \<times> string) option \<Rightarrow> string option \<Rightarrow> string" where
  "version_text rel pre post = rel @ (case pre of Some (p, ds) \<Rightarrow> p @ ds | None \<Rightarrow> []) @
     (case post of Some es \<Rightarrow> ''.post'' @ es | None \<Rightarrow> [])"

definition version_parts :: "string \<Rightarrow> (string \<times> string) option \<Rightarrow> string option \<Rightarrow> bool" where
  "version_parts rel pre post \<longleftrightarrow> rel \<noteq> [] \<and> is_digit (hd rel) \<and> (\<forall>c\<in>set rel. version_char c) \<and>
     (\<forall>p ds. pre = Some (p, ds) \<longrightarrow> p \<in> {''a'', ''b'', ''rc''} \<and> digits ds) \<and> (\<forall>es. post = Some es \<longrightarrow> digits es)"

text \<open>A normalised version is the text of its parts.\<close>

lemma parse_version_text:
  assumes "parse_version s = Some (rel, pre, post)"
  shows "s = version_text rel pre post \<and> version_parts rel pre post"
proof -
  obtain rel' t where t0: "scan_release s = Some (rel', t)" using assms by (auto simp: parse_version_def split: option.splits)
  obtain pre' u where pre0: "(case scan_pre t of Some (p, ds, u) \<Rightarrow> (Some (p, ds), u) | None \<Rightarrow> (None, t)) = (pre', u)"
    by fastforce
  obtain post' v where post0: "(case scan_post u of Some (ds, v) \<Rightarrow> (Some ds, v) | None \<Rightarrow> (None, u)) = (post', v)"
    by fastforce
  have "v = [] \<and> rel' = rel \<and> pre' = pre \<and> post' = post"
    using assms by (simp add: parse_version_def t0 pre0 post0 split: if_splits)
  then have t: "scan_release s = Some (rel, t)"
    and pre: "(case scan_pre t of Some (p, ds, u) \<Rightarrow> (Some (p, ds), u) | None \<Rightarrow> (None, t)) = (pre, u)"
    and post: "(case scan_post u of Some (ds, v) \<Rightarrow> (Some ds, v) | None \<Rightarrow> (None, u)) = (post, [])"
    using t0 pre0 post0 by auto
  note r = scan_release_Some [OF t]
  have 1: "t = (case pre of Some (p, ds) \<Rightarrow> p @ ds | None \<Rightarrow> []) @ u"
      "\<forall>p ds. pre = Some (p, ds) \<longrightarrow> p \<in> {''a'', ''b'', ''rc''} \<and> digits ds"
    using pre scan_pre_Some [of t] by (auto split: option.splits)
  have 2: "u = (case post of Some es \<Rightarrow> ''.post'' @ es | None \<Rightarrow> [])" "\<forall>es. post = Some es \<longrightarrow> digits es"
    using post scan_post_Some [of u] by (auto split: option.splits)
  show ?thesis unfolding version_text_def version_parts_def using r 1 2 by simp
qed

section \<open>The replacements\<close>

text \<open>A pattern whose matches start with a hyphen.\<close>

definition dash_only :: "(string \<Rightarrow> string option) \<Rightarrow> bool" where
  "dash_only m \<longleftrightarrow> (\<forall>c s. c \<noteq> CHR ''-'' \<longrightarrow> m (c # s) = None)"

lemma replace_end_prefix:
  "dash_only m \<Longrightarrow> CHR ''-'' \<notin> set a \<Longrightarrow> replace_end m (a @ b) = a @ replace_end m b"
proof (induction a)
  case (Cons x a)
  then have "m (x # a @ b) = None" unfolding dash_only_def by (metis list.set_intros(1))
  then show ?case using Cons by simp
qed simp

lemma replace_end_plain: "dash_only m \<Longrightarrow> CHR ''-'' \<notin> set a \<Longrightarrow> replace_end m a = a"
  using replace_end_prefix [of m a "[]"] by simp

lemma replace_end_match:
  "dash_only m \<Longrightarrow> CHR ''-'' \<notin> set a \<Longrightarrow> m (CHR ''-'' # b) = Some r \<Longrightarrow> replace_end m (a @ CHR ''-'' # b) = a @ r"
  by (simp add: replace_end_prefix)

lemma replace_end_skip:
  "dash_only m \<Longrightarrow> CHR ''-'' \<notin> set a \<Longrightarrow> CHR ''-'' \<notin> set b \<Longrightarrow> m (CHR ''-'' # b) = None \<Longrightarrow>
    replace_end m (a @ CHR ''-'' # b) = a @ CHR ''-'' # b"
  by (simp add: replace_end_prefix replace_end_plain)

lemma dash_patterns [simp]:
  "dash_only match_hotfix" "dash_only (match_label (CHR ''-'' # l) new)"
  by (simp_all add: dash_only_def match_hotfix_def match_label_def)

text \<open>What the four replacements do, in their order.\<close>

definition replacements :: "string \<Rightarrow> string" where
  "replacements s = replace_end (match_label ''-rc'' ''rc'') (replace_end (match_label ''-beta'' ''b'')
     (replace_end (match_label ''-alpha'' ''a'') (replace_end match_hotfix s)))"

lemma replacements_plain: "CHR ''-'' \<notin> set s \<Longrightarrow> replacements s = s"
  by (simp add: replacements_def replace_end_plain)

lemma NormalizeRuntimeVersion_replacements:
  "NormalizeRuntimeVersion v = Inr n \<longleftrightarrow>
    n = replacements (strip_version_prefix (trimSpace v)) \<and> parse_version n \<noteq> None"
  by (auto simp: NormalizeRuntimeVersion_def replacements_def Let_def)

lemma digits_not_dash: "digits ds \<Longrightarrow> CHR ''-'' \<notin> set ds"
  by (auto simp: digits_def is_digit_def)

lemma digits_scan: "digits ds \<Longrightarrow> scan_digits ds = Some (ds, [])"
  using scan_digits_end [of ds "[]"] by (simp add: digits_def)

lemma digits_scan_dot: "digits ds \<Longrightarrow> scan_digits (ds @ CHR ''.'' # t) = Some (ds, CHR ''.'' # t)"
  using scan_digits_end [of ds "CHR ''.'' # t"] by (simp add: digits_def is_digit_def)

lemma match_label_dotted:
  "digits ds \<Longrightarrow> match_label l new (l @ CHR ''.'' # ds) = Some (new @ ds)"
  by (simp add: match_label_def skip_dot_def digits_scan)

lemma replacements_label:
  assumes "CHR ''-'' \<notin> set rel" "digits ds"
  shows "replacements (rel @ ''-alpha.'' @ ds) = rel @ ''a'' @ ds"
    "replacements (rel @ ''-beta.'' @ ds) = rel @ ''b'' @ ds"
    "replacements (rel @ ''-rc.'' @ ds) = rel @ ''rc'' @ ds"
proof -
  note nd = digits_not_dash [OF assms(2)]
  note skip = replace_end_skip [OF _ assms(1)] and hit = replace_end_match [OF _ assms(1)]
  have h: "match_hotfix (''-alpha.'' @ ds) = None"
    by (simp add: match_hotfix_def skip_dot_def digits_scan [OF assms(2)])
  note m = match_label_dotted [OF assms(2)]
  show "replacements (rel @ ''-alpha.'' @ ds) = rel @ ''a'' @ ds"
    using h m [of "''-alpha''" "''a''"] nd assms(1) by (simp add: replacements_def skip hit replace_end_plain)
  have b: "match_hotfix (''-beta.'' @ ds) = None" "match_label ''-alpha'' ''a'' (''-beta.'' @ ds) = None"
    by (simp_all add: match_hotfix_def match_label_def)
  show "replacements (rel @ ''-beta.'' @ ds) = rel @ ''b'' @ ds"
    using b m [of "''-beta''" "''b''"] nd assms(1) by (simp add: replacements_def skip hit replace_end_plain)
  have r: "match_hotfix (''-rc.'' @ ds) = None" "match_label ''-alpha'' ''a'' (''-rc.'' @ ds) = None"
    "match_label ''-beta'' ''b'' (''-rc.'' @ ds) = None"
    by (simp_all add: match_hotfix_def match_label_def)
  show "replacements (rel @ ''-rc.'' @ ds) = rel @ ''rc'' @ ds"
    using r m [of "''-rc''" "''rc''"] nd assms(1) by (simp add: replacements_def skip hit replace_end_plain)
qed

lemma replacements_hotfix:
  assumes "CHR ''-'' \<notin> set rel" "digits ds" "digits es"
  shows "replacements (rel @ ''-alpha.'' @ ds @ ''.'' @ es) = rel @ ''a'' @ ds @ ''.post'' @ es"
proof -
  have "match_hotfix (''-alpha.'' @ ds @ ''.'' @ es) = Some (''a'' @ ds @ ''.post'' @ es)"
    using assms(2,3) by (simp add: match_hotfix_def skip_dot_def digits_scan_dot digits_scan)
  then show ?thesis
    using assms digits_not_dash by (simp add: replacements_def replace_end_match replace_end_plain)
qed

section \<open>The trip through the release tag\<close>

definition graphic :: "char \<Rightarrow> bool" where
  "graphic c \<longleftrightarrow> 33 \<le> (of_char c :: nat) \<and> (of_char c :: nat) \<le> 126"

lemma digit_chars: "is_digit c \<Longrightarrow> graphic c \<and> c \<noteq> CHR ''-'' \<and> c \<noteq> CHR ''/''"
  by (auto simp: is_digit_def graphic_def)

lemma space_seqs_not_graphic: "\<forall>p\<in>set space_seqs. p \<noteq> [] \<and> \<not> graphic (hd p) \<and> \<not> graphic (last p)"
  by code_simp

lemma trimSpace_graphic:
  assumes "\<forall>c\<in>set s. graphic c"
  shows "trimSpace s = s"
proof -
  have lead: "lead_seq ps t = None" if "set t = set s" "\<forall>p\<in>set ps. p \<noteq> [] \<and> \<not> graphic (hd p)" for ps t
  proof (unfold lead_seq_None, intro ballI notI)
    fix p
    assume p: "p \<in> set ps" "hasPrefix t p"
    then obtain u where "t = p @ u" by (auto simp: hasPrefix_iff)
    moreover have "p \<noteq> []" "\<not> graphic (hd p)" using that(2) p(1) by auto
    ultimately show False using that(1) assms hd_in_set [of p] by auto
  qed
  have "lead_seq space_seqs s = None" by (rule lead) (use space_seqs_not_graphic in auto)
  moreover have "lead_seq (map rev space_seqs) (rev s) = None"
    by (rule lead) (use space_seqs_not_graphic in \<open>auto simp: hd_rev simp del: space_seqs_def\<close>)
  ultimately show ?thesis by (simp add: trimSpace_def trimLeftSpace_def trimRightSpace_def strip_seqs_fix)
qed

lemma version_parts_chars:
  assumes "version_parts rel pre post"
  shows "CHR ''-'' \<notin> set (version_text rel pre post)" "\<forall>c\<in>set (version_text rel pre post). graphic c"
    "\<forall>c\<in>set (version_text rel pre post). c \<noteq> CHR ''/''"
proof -
  have "is_digit c \<or> c \<in> set ''.abrcpost''" if "c \<in> set (version_text rel pre post)" for c
    using assms that by (auto simp: version_parts_def version_text_def version_char_def digits_def split: option.splits)
  then have "graphic c \<and> c \<noteq> CHR ''-'' \<and> c \<noteq> CHR ''/''" if "c \<in> set (version_text rel pre post)" for c
    using that digit_chars [of c] by (fastforce simp: graphic_def)
  then show "CHR ''-'' \<notin> set (version_text rel pre post)" "\<forall>c\<in>set (version_text rel pre post). graphic c"
    "\<forall>c\<in>set (version_text rel pre post). c \<noteq> CHR ''/''" by auto
qed

lemma release_form_normalises:
  assumes "parse_version n \<noteq> None"
  shows "replacements (release_form n) = n" "\<forall>c\<in>set (release_form n). graphic c"
proof -
  obtain rel pre post where p: "parse_version n = Some (rel, pre, post)" using assms by auto
  have n: "n = version_text rel pre post" and vp: "version_parts rel pre post" using parse_version_text [OF p] by auto
  have g: "graphic c" if "is_digit c" for c using that by (simp add: is_digit_def graphic_def)
  have rel: "CHR ''-'' \<notin> set rel" "\<forall>c\<in>set rel. graphic c"
    using version_parts_chars [OF vp] by (auto simp: version_text_def)
  have dg: "digits ds \<Longrightarrow> c \<in> set ds \<Longrightarrow> graphic c" for ds c by (auto simp: digits_def g)
  note plain = replacements_plain [OF version_parts_chars(1) [OF vp], folded n]
  consider "release_form n = n" | ds es where "digits ds" "digits es" "pre = Some (''a'', ds)" "post = Some es"
    | q ds where "digits ds" "q \<in> {''a'', ''b'', ''rc''}" "pre = Some (q, ds)" "post = None"
    using vp unfolding release_form_def p version_parts_def
    by (cases pre; cases post) (auto split: if_splits)
  then show "replacements (release_form n) = n" "\<forall>c\<in>set (release_form n). graphic c"
  proof (atomize (full), cases)
    case 1
    then show "replacements (release_form n) = n \<and> (\<forall>c\<in>set (release_form n). graphic c)"
      using plain version_parts_chars(2) [OF vp] n by simp
  next
    case 2
    then have "release_form n = rel @ ''-alpha.'' @ ds @ ''.'' @ es" by (simp add: release_form_def p)
    then show "replacements (release_form n) = n \<and> (\<forall>c\<in>set (release_form n). graphic c)"
      using 2 replacements_hotfix [OF rel(1)] rel(2) dg by (auto simp: n version_text_def graphic_def)
  next
    case 3
    then have "release_form n = rel @ ''-'' @ (if q = ''a'' then ''alpha'' else if q = ''b'' then ''beta'' else ''rc'') @ ''.'' @ ds"
      by (simp add: release_form_def p)
    then show "replacements (release_form n) = n \<and> (\<forall>c\<in>set (release_form n). graphic c)"
      using 3 replacements_label [OF rel(1)] rel(2) dg by (auto simp: n version_text_def graphic_def)
  qed
qed

text \<open>A runtime version survives the trip through its release tag: for every version that
  normalises, the upstream tag it is looked up under normalises to the same version, as does the
  normalised version itself.\<close>
theorem release_tag_roundtrip:
  assumes "NormalizeRuntimeVersion v = Inr n"
  shows "NormalizeRuntimeVersion n = Inr n \<and>
    (\<exists>tag. ReleaseTagForVersion v = Inr tag \<and> NormalizeRuntimeVersion tag = Inr n)"
proof -
  have n: "parse_version n \<noteq> None" using assms unfolding NormalizeRuntimeVersion_replacements by (rule conjunct2)
  then obtain rel pre post where "parse_version n = Some (rel, pre, post)" by auto
  then have nt: "n = version_text rel pre post" and vp: "version_parts rel pre post" using parse_version_text by auto
  obtain c r where c: "rel = c # r" "is_digit c" using vp by (cases rel) (auto simp: version_parts_def)
  have "strip_version_prefix n = n"
    using c by (auto simp: strip_version_prefix_def nt version_text_def is_digit_def)
  then have 1: "NormalizeRuntimeVersion n = Inr n"
    using n nt version_parts_chars [OF vp]
    by (simp add: NormalizeRuntimeVersion_replacements trimSpace_graphic replacements_plain)
  note rf = release_form_normalises [OF n]
  have "\<forall>c\<in>set (''rust-v'' @ release_form n). graphic c" using rf(2) by (auto simp: graphic_def)
  moreover have "strip_version_prefix (''rust-v'' @ release_form n) = release_form n"
    by (simp add: strip_version_prefix_def trimPrefix_def)
  ultimately have "NormalizeRuntimeVersion (''rust-v'' @ release_form n) = Inr n"
    using n rf(1) by (simp only: NormalizeRuntimeVersion_replacements trimSpace_graphic simp_thms)
  then show ?thesis using 1 assms by (simp add: ReleaseTagForVersion_def ReleaseVersionForVersion_def)
qed

lemma demo_version: "NormalizeRuntimeVersion ''v0.144.0-alpha3.1'' = Inr ''0.144.0a3.post1''"
  by code_simp

theorem release_tag_roundtrip_witness:
  "NormalizeRuntimeVersion ''0.144.0a3.post1'' = Inr ''0.144.0a3.post1'' \<and>
    (\<exists>tag. ReleaseTagForVersion ''v0.144.0-alpha3.1'' = Inr tag \<and> NormalizeRuntimeVersion tag = Inr ''0.144.0a3.post1'')"
  by (rule release_tag_roundtrip [OF demo_version])

end
