(* ===== verification/Fs_Props.thy ===== *)
theory Fs_Props
  imports Runtimebin
begin

text \<open>
  Facts about the file system of \<open>Runtimebin\<close> that its users share: the directories on the way to a
  path, changes below a directory and what \<open>os.MkdirAll\<close> does; and sorting the images of a list.
\<close>

section \<open>Sorting by a key\<close>

lemma insort_key_map: "insort_key f (g x) (map g xs) = map g (insort_key (\<lambda>x. f (g x)) x xs)"
  by (induction xs) auto

lemma sort_key_map: "sort_key f (map g xs) = map g (sort_key (\<lambda>x. f (g x)) xs)"
  by (induction xs) (auto simp: insort_key_map)

section \<open>The directories on the way to a path\<close>

lemma ancestors_text: "ancestors p = map (\<lambda>n. path_text (is_abs p) (take (Suc n) (path_elems p))) [0..<length (path_elems p)]"
  by (simp add: ancestors_def path_text_def)

lemma ancestors_below:
  assumes d: "clean_dir d" and es: "es \<noteq> []" "\<forall>x\<in>set es. normal x"
    and q: "q \<in> set (ancestors (d @ slash # str_join ''/'' es))"
  shows "q \<in> set (ancestors d) \<or> (\<exists>n<length es. q = d @ slash # str_join ''/'' (take (Suc n) es))"
proof -
  have ne: "d \<noteq> ''''" by (rule clean_dir_nonempty [OF d])
  obtain n where n: "n < length (path_elems d) + length es"
    and qt: "q = path_text (is_abs d) (take (Suc n) (path_elems d @ es))"
    using q es ne by (auto simp: ancestors_text path_elems_below is_abs_append)
  show ?thesis
  proof (cases "n < length (path_elems d)")
    case True
    then have "q = path_text (is_abs d) (take (Suc n) (path_elems d))" using qt by (simp add: Suc_leI)
    then show ?thesis using True by (auto simp: ancestors_text)
  next
    case False
    let ?m = "n - length (path_elems d)"
    have t: "take (Suc n) (path_elems d @ es) = path_elems d @ take (Suc ?m) es" using False by (simp add: Suc_diff_le)
    have "take (Suc ?m) es \<noteq> []" using es(1) by simp
    then have "q = path_text (is_abs d) (path_elems d) @ slash # str_join ''/'' (take (Suc ?m) es)"
      using d qt t by (simp add: path_text_def str_join_append clean_dir_def)
    then have "q = d @ slash # str_join ''/'' (take (Suc ?m) es)" using d by (simp add: clean_dir_def)
    moreover have "?m < length es" using n False by simp
    ultimately show ?thesis by blast
  qed
qed

lemma self_ancestor: "clean_dir d \<Longrightarrow> d \<in> set (ancestors d)"
  unfolding ancestors_text clean_dir_def
  by (auto simp: image_iff intro!: bexI [of _ "length (path_elems d) - 1"])

section \<open>Changes below a directory\<close>

text \<open>The file system \<open>f'\<close> is \<open>f\<close> with new nodes, all of them below \<open>d\<close>.\<close>

definition grows :: "string \<Rightarrow> fs \<Rightarrow> fs \<Rightarrow> bool" where
  "grows d f f' \<longleftrightarrow> (\<forall>p. f' p = f p \<or> f p = None \<and> hasPrefix p (d @ ''/''))"

definition dir_there :: "string \<Rightarrow> fs \<Rightarrow> bool" where
  "dir_there d f \<longleftrightarrow> (\<forall>q\<in>set (ancestors d). f q = Some DirNode)"

lemma grows_refl [simp]: "grows d f f"
  by (simp add: grows_def)

lemma grows_trans: "grows d f g \<Longrightarrow> grows d g h \<Longrightarrow> grows d f h"
  unfolding grows_def by metis

lemma grows_keeps: "grows d f g \<Longrightarrow> f p = Some x \<Longrightarrow> g p = Some x"
  unfolding grows_def by (metis option.distinct(1))

lemma grows_dir_there: "grows d f g \<Longrightarrow> dir_there d f \<Longrightarrow> dir_there d g"
  by (auto simp: dir_there_def dest: grows_keeps)

lemma grows_write: "f p = None \<Longrightarrow> hasPrefix p (d @ ''/'') \<Longrightarrow> grows d f (f(p \<mapsto> x))"
  by (auto simp: grows_def)

lemma below_prefix [simp]: "hasPrefix (d @ slash # e) (d @ ''/'')"
  by (simp add: hasPrefix_iff)

text \<open>For evaluation: the directories on the way are computed once, and each node is looked up once.\<close>

lemma MkdirAll_code [code]:
  "MkdirAll p f = (let as = ancestors p in
     if list_ex (\<lambda>q. case f q of Some (FileNode _ _) \<Rightarrow> True | _ \<Rightarrow> False) as
     then Inl (Text ''not a directory'')
     else Inr (\<lambda>q. case f q of None \<Rightarrow> if q \<in> set as then Some DirNode else None | Some n \<Rightarrow> Some n))"
  by (auto simp: MkdirAll_def Let_def fun_eq_iff split: option.splits)

lemma MkdirAll_Inr:
  "MkdirAll q f = Inr g \<Longrightarrow> g = (\<lambda>p. if p \<in> set (ancestors q) \<and> f p = None then Some DirNode else f p)"
  by (simp add: MkdirAll_def split: if_splits)

lemma MkdirAll_below:
  assumes d: "clean_dir d" "dir_there d f" and es: "\<forall>x\<in>set es. normal x"
    and m: "MkdirAll (if es = [] then d else d @ slash # str_join ''/'' es) f = Inr g"
  shows "grows d f g" "\<And>p dt m. g p = Some (FileNode dt m) \<Longrightarrow> f p = Some (FileNode dt m)"
proof -
  let ?q = "if es = [] then d else d @ slash # str_join ''/'' es"
  have g: "g = (\<lambda>q. if q \<in> set (ancestors ?q) \<and> f q = None then Some DirNode else f q)"
    by (rule MkdirAll_Inr [OF m])
  have "hasPrefix p (d @ ''/'')" if "p \<in> set (ancestors ?q)" "f p = None" for p
  proof (cases "es = []")
    case True
    then show ?thesis using that d(2) by (auto simp: dir_there_def)
  next
    case False
    from ancestors_below [OF d(1) False es, of p] that d(2) False show ?thesis
      by (auto simp: dir_there_def)
  qed
  then show "grows d f g" by (auto simp: grows_def g)
  show "f p = Some (FileNode dt m)" if "g p = Some (FileNode dt m)" for p dt m
    using that by (auto simp: g split: if_splits)
qed

lemma MkdirAll_there:
  assumes "MkdirAll p f = Inr g"
  shows "dir_there p g"
proof -
  have "f q = None \<or> f q = Some DirNode" if "q \<in> set (ancestors p)" for q
    using assms that
    by (cases "f q"; cases "the (f q)") (auto simp: MkdirAll_def list_ex_iff split: if_splits)
  then show ?thesis
    unfolding dir_there_def MkdirAll_Inr [OF assms] by (metis (full_types))
qed

lemma dir_there_above:
  assumes d: "clean_dir d" and es: "es \<noteq> []" "\<forall>x\<in>set es. normal x"
    and there: "dir_there (d @ slash # str_join ''/'' es) f"
  shows "dir_there d f"
proof -
  have ne: "d \<noteq> ''''" by (rule clean_dir_nonempty [OF d])
  have "q \<in> set (ancestors (d @ slash # str_join ''/'' es))" if q: "q \<in> set (ancestors d)" for q
  proof -
    obtain n where n: "n < length (path_elems d)" "q = path_text (is_abs d) (take (Suc n) (path_elems d))"
      using q by (auto simp: ancestors_text)
    then have "q = path_text (is_abs d) (take (Suc n) (path_elems d @ es))" by (simp add: Suc_leI)
    then show ?thesis
      using n(1) es ne by (auto simp: ancestors_text path_elems_below is_abs_append intro!: image_eqI [of _ _ n])
  qed
  then show ?thesis
    using there by (simp add: dir_there_def)
qed

text \<open>Nothing is removed and no directory becomes a file.\<close>

definition keeps :: "fs \<Rightarrow> fs \<Rightarrow> bool" where
  "keeps f g \<longleftrightarrow> (\<forall>p. (f p = Some DirNode \<longrightarrow> g p = Some DirNode) \<and> (f p \<noteq> None \<longrightarrow> g p \<noteq> None))"

lemma keeps_refl [simp]: "keeps f f"
  by (simp add: keeps_def)

lemma keeps_trans: "keeps f g \<Longrightarrow> keeps g h \<Longrightarrow> keeps f h"
  unfolding keeps_def by meson

lemma keeps_MkdirAll: "MkdirAll p f = Inr g \<Longrightarrow> keeps f g"
  by (auto simp: keeps_def dest!: MkdirAll_Inr)

lemma keeps_dir_there: "keeps f g \<Longrightarrow> dir_there d f \<Longrightarrow> dir_there d g"
  by (auto simp: keeps_def dir_there_def)

lemma RemoveAll_grown:
  assumes "\<forall>p. below temp p \<longrightarrow> f p = None" "\<forall>p. \<not> below temp p \<longrightarrow> g p = f p"
  shows "RemoveAll temp g = f"
  using assms by (auto simp: RemoveAll_def fun_eq_iff)

lemma grows_outside: "grows temp (f(temp \<mapsto> DirNode)) g \<Longrightarrow> \<not> below temp p \<Longrightarrow> g p = f p"
  unfolding grows_def below_def by (metis fun_upd_other)

lemma below_same: "below d d"
  by (simp add: below_def)

end
