(* ===== verification/Runtimebin_Props.thy ===== *)
theory Runtimebin_Props
  imports Version_Props Fs_Props
begin

text \<open>
  What holds of the runtime archives: paths in an archive stay below the directory it is
  extracted to, extraction writes exactly the files of the manifest, what is packaged extracts
  to itself, an installation is verified before it is used and is all or nothing, and the order
  in which a runtime is looked for.
\<close>

section \<open>Paths in archives\<close>

lemma safeArchivePath_Some:
  assumes "safeArchivePath name = Some p"
  shows "\<exists>es. es \<noteq> [] \<and> (\<forall>x\<in>set es. normal x) \<and> p = str_join ''/'' es"
proof -
  have a: "\<not> is_abs name" and p: "p = path_Clean name" "p \<noteq> ''.''" "p \<noteq> ''..''" "\<not> hasPrefix p ''../''"
    using assms by (auto simp: safeArchivePath_def Let_def split: if_splits)
  obtain k ns where e: "path_elems name = replicate k ''..'' @ ns" "\<forall>y\<in>set ns. normal y"
    using path_elems_shape [of name] by blast
  have ne: "path_elems name \<noteq> []" using p(1,2) a by (auto simp: path_Clean_def)
  then have j: "p = str_join ''/'' (path_elems name)" using path_Clean_text [OF ne] a p(1) by (simp add: path_text_def)
  have "k = 0"
  proof (rule ccontr)
    assume "k \<noteq> 0"
    then obtain xs where xs: "path_elems name = ''..'' # xs" using e(1) by (cases k) auto
    then show False
      using j p(3,4) by (cases "xs = []") (auto simp: str_join_Cons)
  qed
  then show ?thesis using e ne j by auto
qed

section \<open>Extraction\<close>

text \<open>The file the manifest records under \<open>c\<close> is there, with its contents and mode.\<close>

definition file_there :: "(string \<Rightarrow> string) \<Rightarrow> string \<Rightarrow> ManifestFile gomap \<Rightarrow> fs \<Rightarrow> string \<Rightarrow> bool" where
  "file_there sha d expected f c \<longleftrightarrow> (\<exists>ef dt. map_of expected c = Some ef \<and>
     f (path_Join [d, c]) = Some (FileNode dt (nat (mf_Mode ef))) \<and> sha dt = mf_SHA256 ef \<and> int (length dt) = mf_Size ef)"

definition only_expected :: "string \<Rightarrow> ManifestFile gomap \<Rightarrow> fs \<Rightarrow> fs \<Rightarrow> bool" where
  "only_expected d expected f f' \<longleftrightarrow> (\<forall>p dt m. f' p = Some (FileNode dt m) \<longrightarrow>
     f p = Some (FileNode dt m) \<or> (\<exists>c. map_of expected c \<noteq> None \<and> p = path_Join [d, c]))"

lemma only_expected_refl [simp]: "only_expected d expected f f"
  by (simp add: only_expected_def)

lemma only_expected_trans:
  "only_expected d expected f g \<Longrightarrow> only_expected d expected g h \<Longrightarrow> only_expected d expected f h"
  unfolding only_expected_def by blast

lemma file_there_grows: "file_there sha d expected f c \<Longrightarrow> grows d f g \<Longrightarrow> file_there sha d expected g c"
  unfolding file_there_def using grows_keeps by blast

lemma extract_entry_effect:
  assumes d: "clean_dir d" "dir_there d f" and x: "extract_entry sha mx d expected e tot f = (f', res)"
  shows "grows d f f' \<and> only_expected d expected f f' \<and>
    (\<forall>c t. res = Inr (c, t) \<longrightarrow> file_there sha d expected f' c)"
proof (cases "te_Type e = TypeReg \<and> (\<exists>c ef f1. safeArchivePath (te_Name e) = Some c \<and> map_of expected c = Some ef \<and>
    te_Size e = mf_Size ef \<and> \<not> add64 tot (te_Size e) > mx \<and> MkdirAll (path_Dir (path_Join [d, c])) f = Inr f1)")
  case False
  then have "f' = f \<and> (\<forall>c t. res \<noteq> Inr (c, t))" using x
    by (auto simp: extract_entry_def Let_def split: if_splits option.splits sum.splits)
  then show ?thesis by simp
next
  case True
  then obtain c ef f1 where c: "te_Type e = TypeReg" "safeArchivePath (te_Name e) = Some c" "map_of expected c = Some ef"
    "te_Size e = mf_Size ef" "\<not> add64 tot (te_Size e) > mx" and mk: "MkdirAll (path_Dir (path_Join [d, c])) f = Inr f1"
    by blast
  obtain es where es: "es \<noteq> []" "\<forall>x\<in>set es. normal x" "c = str_join ''/'' es"
    using safeArchivePath_Some [OF c(2)] by blast
  let ?p = "path_Join [d, c]"
  have p: "?p = d @ slash # c" using path_Join_below [OF d(1) es(1,2)] es(3) by simp
  have "\<forall>x\<in>set (butlast es). normal x" using es(2) in_set_butlastD by fastforce
  then have f1: "grows d f f1" "\<And>p dt m. f1 p = Some (FileNode dt m) \<Longrightarrow> f p = Some (FileNode dt m)"
    using MkdirAll_below [OF d, of "butlast es" f1] mk path_Dir_join [OF d(1) es(1,2)] p es(3) by simp_all
  show ?thesis
  proof (cases "f1 ?p = None")
    case False
    then have "f' = f1 \<and> (\<forall>c t. res \<noteq> Inr (c, t))" using x c mk by (auto simp: extract_entry_def Let_def)
    then show ?thesis using f1 by (auto simp: only_expected_def)
  next
    case True
    then have f': "f' = f1(?p \<mapsto> FileNode (te_Data e) (nat (mf_Mode ef)))"
      and r: "\<And>c' t. res = Inr (c', t) \<Longrightarrow> c' = c \<and> sha (te_Data e) = mf_SHA256 ef \<and> int (length (te_Data e)) = mf_Size ef"
      using x c mk by (auto simp: extract_entry_def Let_def split: if_splits)
    have "grows d f1 f'" unfolding f' using True by (rule grows_write) (simp add: p)
    moreover have "only_expected d expected f f'" using f1(2) c(3) by (auto simp: only_expected_def f')
    ultimately show ?thesis using grows_trans [OF f1(1)] r c(3) by (auto simp: file_there_def f')
  qed
qed

lemma extract_entries_effect:
  assumes "clean_dir d" "dir_there d f" "extract_entries sha mx d expected es written tot f = (f', res)"
    "\<forall>c\<in>set written. file_there sha d expected f c"
  shows "grows d f f' \<and> only_expected d expected f f' \<and>
    (\<forall>ws. res = Inr ws \<longrightarrow> (\<forall>c\<in>set ws. file_there sha d expected f' c))"
  using assms
proof (induction es arbitrary: f tot written)
  case Nil
  then show ?case by auto
next
  case (Cons e es)
  obtain f1 r1 where e: "extract_entry sha mx d expected e tot f = (f1, r1)" by fastforce
  note eff = extract_entry_effect [OF Cons.prems(1,2) e]
  show ?case
  proof (cases r1)
    case (Inl err)
    then show ?thesis using Cons.prems(3) e eff by auto
  next
    case (Inr ct)
    obtain c t where ct: "ct = (c, t)" by fastforce
    have "extract_entries sha mx d expected es (c # written) t f1 = (f', res)" using Cons.prems(3) e Inr ct by simp
    moreover have "\<forall>w\<in>set (c # written). file_there sha d expected f1 w"
      using eff Inr ct Cons.prems(4) file_there_grows by auto
    ultimately have "grows d f1 f' \<and> only_expected d expected f1 f' \<and>
        (\<forall>ws. res = Inr ws \<longrightarrow> (\<forall>c\<in>set ws. file_there sha d expected f' c))"
      using Cons.IH [OF Cons.prems(1)] grows_dir_there eff Cons.prems(2) by blast
    then show ?thesis using eff by (blast intro: grows_trans only_expected_trans)
  qed
qed

lemma map_of_expected_files:
  assumes "distinct (map mf_Path fs)" "x \<in> set fs"
  shows "map_of (expected_files fs) (mf_Path x) = Some x"
proof -
  have "map_of (fold (\<lambda>x. AList.update (mf_Path x) x) fs m) k =
      (case find (\<lambda>x. mf_Path x = k) fs of Some x \<Rightarrow> Some x | None \<Rightarrow> map_of m k)"
    if "distinct (map mf_Path fs)" for m k
    using that
  proof (induction fs arbitrary: m)
    case (Cons y fs)
    have "mf_Path y \<notin> mf_Path ` set fs" using Cons.prems by simp
    then have "find (\<lambda>x. mf_Path x = mf_Path y) fs = None"
      unfolding find_None_iff by (auto simp: image_iff eq_commute [of "mf_Path y"])
    then show ?case using Cons by (auto split: option.splits)
  qed simp
  moreover have "find (\<lambda>y. mf_Path y = mf_Path x) fs = Some x"
    using assms by (induction fs) auto
  ultimately show ?thesis using assms(1) by (simp add: expected_files_def)
qed

lemma expected_files_path: "map_of (expected_files fs) c \<noteq> None \<Longrightarrow> c \<in> mf_Path ` set fs"
proof -
  have "map_of (fold (\<lambda>x. AList.update (mf_Path x) x) fs m) c \<noteq> None \<Longrightarrow> c \<in> mf_Path ` set fs \<or> map_of m c \<noteq> None" for m
  proof (induction fs arbitrary: m)
    case (Cons y fs)
    from Cons.IH [of "AList.update (mf_Path y) y m"] Cons.prems show ?case by (auto split: if_splits)
  qed simp
  from this [of "[]"] show "map_of (expected_files fs) c \<noteq> None \<Longrightarrow> c \<in> mf_Path ` set fs"
    by (simp add: expected_files_def)
qed

lemma extract_effect:
  assumes "clean_dir d" "dir_there d f" "distinct (map mf_Path (mt_Files rec))"
    "extractArchive sha ar d rec mx f = (f', err)"
  shows "grows d f f'" "only_expected d (expected_files (mt_Files rec)) f f'"
    "err = None \<Longrightarrow> x \<in> set (mt_Files rec) \<Longrightarrow> \<exists>dt. f' (path_Join [d, mf_Path x]) = Some (FileNode dt (nat (mf_Mode x))) \<and>
       sha dt = mf_SHA256 x \<and> int (length dt) = mf_Size x"
proof -
  let ?ex = "expected_files (mt_Files rec)"
  obtain f1 res where x: "extract_entries sha mx d ?ex (ar_Entries ar) [] 0 f = (f1, res)" by fastforce
  note eff = extract_entries_effect [OF assms(1,2) x, simplified]
  have f': "f' = f \<or> f' = f1" using assms(4) x by (auto simp: extractArchive_def split: if_splits sum.splits option.splits)
  then show "grows d f f'" "only_expected d ?ex f f'" using eff by auto
  have "\<exists>ws. res = Inr ws \<and> f' = f1 \<and> (\<forall>x\<in>set (mt_Files rec). mf_Path x \<in> set ws)" if "err = None"
    using assms(4) x that by (auto simp: extractArchive_def find_None_iff split: if_splits sum.splits option.splits)
  then show "\<exists>dt. f' (path_Join [d, mf_Path x]) = Some (FileNode dt (nat (mf_Mode x))) \<and>
       sha dt = mf_SHA256 x \<and> int (length dt) = mf_Size x" if "err = None" "x \<in> set (mt_Files rec)"
    using eff that map_of_expected_files [OF assms(3)] by (fastforce simp: file_there_def)
qed


section \<open>What is packaged extracts to itself\<close>

lemma add64_small: "0 \<le> a \<Longrightarrow> 0 \<le> b \<Longrightarrow> a + b < 2 ^ 63 \<Longrightarrow> add64 a b = a + b"
  by (simp add: add64_def)

text \<open>Below \<open>d\<close> there are exactly the given files and directories on the way to them.\<close>

definition holds_files :: "string \<Rightarrow> package_dir \<Rightarrow> fs \<Rightarrow> bool" where
  "holds_files d ps f \<longleftrightarrow>
    (\<forall>(w, dt, m)\<in>set ps. f (d @ slash # w) = Some (FileNode dt m)) \<and>
    (\<forall>q. hasPrefix q (d @ ''/'') \<and> f q \<noteq> None \<longrightarrow> (\<exists>w\<in>fst ` set ps. q = d @ slash # w) \<or>
       (f q = Some DirNode \<and> (\<exists>w\<in>fst ` set ps. hasPrefix (d @ slash # w) (q @ ''/''))))"

text \<open>Neither of two paths is a directory on the way to the other.\<close>

definition apart :: "string \<Rightarrow> string \<Rightarrow> bool" where
  "apart p q \<longleftrightarrow> p \<noteq> q \<and> \<not> hasPrefix p (q @ ''/'') \<and> \<not> hasPrefix q (p @ ''/'')"

lemma hasPrefix_below: "hasPrefix (d @ slash # w) ((d @ slash # p) @ ''/'') \<longleftrightarrow> hasPrefix w (p @ ''/'')"
  by (auto simp: hasPrefix_iff)

lemma join_take_prefix:
  assumes "Suc n < length es"
  shows "hasPrefix (str_join ''/'' es) (str_join ''/'' (take (Suc n) es) @ ''/'')"
proof -
  have "str_join ''/'' es = str_join ''/'' (take (Suc n) es @ drop (Suc n) es)" by simp
  also have "\<dots> = str_join ''/'' (take (Suc n) es) @ ''/'' @ str_join ''/'' (drop (Suc n) es)"
    using assms by (subst str_join_append) auto
  finally show ?thesis unfolding hasPrefix_iff by (metis append_assoc)
qed

lemma MkdirAll_dirs:
  assumes "\<And>q. q \<in> set (ancestors p) \<Longrightarrow> f q = None \<or> f q = Some DirNode"
  shows "MkdirAll p f = Inr (\<lambda>q. if q \<in> set (ancestors p) \<and> f q = None then Some DirNode else f q)"
proof -
  have "\<not> list_ex (\<lambda>q. case f q of Some (FileNode _ _) \<Rightarrow> True | _ \<Rightarrow> False) (ancestors p)"
    using assms by (fastforce simp: list_ex_iff split: option.splits node.splits)
  then show ?thesis by (simp add: MkdirAll_def)
qed

lemma holds_files_add:
  assumes files: "\<And>w x y. (w, x, y) \<in> set ps \<Longrightarrow> f (d @ slash # w) = Some (FileNode x y) \<and> w \<noteq> p"
    and dirs: "\<And>q. hasPrefix q (d @ ''/'') \<Longrightarrow> f q \<noteq> None \<Longrightarrow> (\<exists>w\<in>insert p (fst ` set ps). q = d @ slash # w) \<or>
      f q = Some DirNode \<and> (\<exists>w\<in>insert p (fst ` set ps). hasPrefix (d @ slash # w) (q @ ''/''))"
  shows "holds_files d ((p, dt, m) # ps) (f(d @ slash # p \<mapsto> FileNode dt m))"
  unfolding holds_files_def
proof (intro conjI allI impI)
  show "\<forall>(w, x, y)\<in>set ((p, dt, m) # ps). (f(d @ slash # p \<mapsto> FileNode dt m)) (d @ slash # w) = Some (FileNode x y)"
    using files by auto
next
  fix q
  assume q: "hasPrefix q (d @ ''/'') \<and> (f(d @ slash # p \<mapsto> FileNode dt m)) q \<noteq> None"
  show "(\<exists>w\<in>fst ` set ((p, dt, m) # ps). q = d @ slash # w) \<or>
     (f(d @ slash # p \<mapsto> FileNode dt m)) q = Some DirNode \<and>
       (\<exists>w\<in>fst ` set ((p, dt, m) # ps). hasPrefix (d @ slash # w) (q @ ''/''))"
  proof (cases "q = d @ slash # p")
    case False
    then show ?thesis using dirs [of q] q by simp
  qed simp
qed

text \<open>The directories on the way to a new file are above it; none of them is a file.\<close>

lemma parents_above:
  assumes d: "clean_dir d" and es: "es \<noteq> []" "\<forall>x\<in>set es. normal x"
    and that: "q \<in> set (ancestors (if butlast es = [] then d else d @ slash # str_join ''/'' (butlast es)))"
  shows "q \<in> set (ancestors d) \<or> (\<exists>r. q = d @ slash # r \<and> hasPrefix (str_join ''/'' es) (r @ ''/''))"
proof (cases "butlast es = []")
  case False
  with that have "q \<in> set (ancestors (d @ slash # str_join ''/'' (butlast es)))" by simp
  moreover have "\<forall>x\<in>set (butlast es). normal x" using es(2) in_set_butlastD by fastforce
  ultimately show ?thesis
    using ancestors_below [OF d False] join_take_prefix [of _ es] by (fastforce simp: take_butlast)
qed (use that in simp)

lemma parents_dirs:
  assumes "dir_there d f" "holds_files d ps f" "\<forall>w\<in>fst ` set ps. apart (str_join ''/'' es) w"
    and "q \<in> set (ancestors d) \<or> (\<exists>r. q = d @ slash # r \<and> hasPrefix (str_join ''/'' es) (r @ ''/''))"
  shows "f q = None \<or> f q = Some DirNode"
  using assms(4)
proof
  assume "\<exists>r. q = d @ slash # r \<and> hasPrefix (str_join ''/'' es) (r @ ''/'')"
  then obtain r where r: "q = d @ slash # r" "hasPrefix (str_join ''/'' es) (r @ ''/'')" by blast
  then have "r \<notin> fst ` set ps" using assms(3) by (auto simp: apart_def)
  then show ?thesis using assms(2) r(1) unfolding holds_files_def
    by (metis below_prefix append_same_eq list.inject same_append_eq)
qed (use assms(1) in \<open>simp add: dir_there_def\<close>)

lemma MkdirAll_apart:
  assumes d: "clean_dir d" "dir_there d f" and es: "es \<noteq> []" "\<forall>x\<in>set es. normal x"
    and hf: "holds_files d ps f" and ap: "\<forall>w\<in>fst ` set ps. apart (str_join ''/'' es) w"
  shows "\<exists>f1. MkdirAll (path_Dir (d @ slash # str_join ''/'' es)) f = Inr f1 \<and> f1 (d @ slash # str_join ''/'' es) = None \<and>
    dir_there d f1 \<and> holds_files d ((str_join ''/'' es, dt, m) # ps) (f1(d @ slash # str_join ''/'' es \<mapsto> FileNode dt m))"
proof -
  let ?p = "str_join ''/'' es" and ?b = "butlast es"
  let ?q = "if ?b = [] then d else d @ slash # str_join ''/'' ?b"
  note anc = parents_above [OF d(1) es]
  have dir: "f q = None \<or> f q = Some DirNode" if "q \<in> set (ancestors ?q)" for q
    using parents_dirs [OF d(2) hf ap anc [OF that]] .
  define f1 where "f1 = (\<lambda>p. if p \<in> set (ancestors ?q) \<and> f p = None then Some DirNode else f p)"
  have "MkdirAll (path_Dir (d @ slash # ?p)) f = Inr f1"
    unfolding f1_def path_Dir_join [OF d(1) es] by (rule MkdirAll_dirs [OF dir])
  moreover have pn: "f (d @ slash # ?p) = None"
  proof (rule ccontr)
    assume "f (d @ slash # ?p) \<noteq> None"
    then obtain w where "w \<in> fst ` set ps" "?p = w \<or> hasPrefix (d @ slash # w) ((d @ slash # ?p) @ ''/'')"
      using hf unfolding holds_files_def by (metis below_prefix list.inject same_append_eq)
    then show False using ap hasPrefix_below by (auto simp: apart_def)
  qed
  moreover have "d @ slash # ?p \<notin> set (ancestors ?q)"
  proof
    assume "d @ slash # ?p \<in> set (ancestors ?q)"
    from anc [OF this] pn d(2) show False by (auto simp: dir_there_def hasPrefix_iff)
  qed
  then have "f1 (d @ slash # ?p) = None" using pn by (simp add: f1_def)
  moreover have "dir_there d f1" using d(2) by (auto simp: dir_there_def f1_def)
  moreover have "holds_files d ((?p, dt, m) # ps) (f1(d @ slash # ?p \<mapsto> FileNode dt m))"
  proof (rule holds_files_add)
    show "f1 (d @ slash # w) = Some (FileNode x y) \<and> w \<noteq> ?p" if "(w, x, y) \<in> set ps" for w x y
      using hf that ap by (fastforce simp: holds_files_def f1_def apart_def)
    show "(\<exists>w\<in>insert ?p (fst ` set ps). q = d @ slash # w) \<or>
        f1 q = Some DirNode \<and> (\<exists>w\<in>insert ?p (fst ` set ps). hasPrefix (d @ slash # w) (q @ ''/''))"
      if q: "hasPrefix q (d @ ''/'')" "f1 q \<noteq> None" for q
    proof (cases "f q = None")
      case True
      then have "q \<in> set (ancestors ?q)" "f1 q = Some DirNode" using q(2) by (auto simp: f1_def split: if_splits)
      then show ?thesis using anc [of q] True d(2) hasPrefix_below by (auto simp: dir_there_def)
    next
      case False
      then show ?thesis using hf q(1) unfolding holds_files_def f1_def by fastforce
    qed
  qed
  ultimately show ?thesis by blast
qed

text \<open>The record and the archive entry of one file of a package.\<close>

definition file_record :: "(string \<Rightarrow> string) \<Rightarrow> string \<times> string \<times> nat \<Rightarrow> ManifestFile" where
  "file_record sha = (\<lambda>(p, d, m). \<lparr>mf_Path = p, mf_SHA256 = sha d, mf_Size = int (length d), mf_Mode = int m, mf_Role = fileRole p\<rparr>)"

definition file_entry :: "string \<times> string \<times> nat \<Rightarrow> tar_entry" where
  "file_entry = (\<lambda>(p, d, m). \<lparr>te_Name = p, te_Type = TypeReg, te_Size = int (length d), te_Mode = m, te_Data = d\<rparr>)"

lemma file_record_Path [simp]: "mf_Path (file_record sha x) = fst x"
  by (cases x) (simp add: file_record_def)

lemma collectPackageFiles_Inr:
  assumes "collectPackageFiles sha dir = Inr files"
  shows "files = map (file_record sha) (sort_key fst dir)"
proof -
  have "collect_files sha dir = Inr fs \<Longrightarrow> fs = map (file_record sha) dir" for fs
    by (induction dir arbitrary: fs) (auto simp: package_file_def file_record_def split: sum.splits if_splits)
  then show ?thesis using assms by (auto simp: collectPackageFiles_def sort_key_map split: sum.splits)
qed

lemma writeArchive_records:
  assumes "distinct (map fst dir)"
  shows "writeArchive dir (map (file_record sha) (sort_key fst dir)) = map file_entry (sort_key fst dir)"
proof -
  have "map_of dir p = Some (d, m)" if "(p, d, m) \<in> set dir" for p d m using assms that by simp
  then show ?thesis by (auto simp: writeArchive_def file_record_def file_entry_def)
qed

text \<open>A package directory: its paths are clean relative paths, and none is a directory of another.\<close>

definition package_ok :: "package_dir \<Rightarrow> bool" where
  "package_ok dir \<longleftrightarrow> distinct (map fst dir) \<and> (\<forall>x\<in>set dir. safeArchivePath (fst x) = Some (fst x)) \<and>
     (\<forall>x\<in>set dir. \<forall>y\<in>set dir. fst x \<noteq> fst y \<longrightarrow> apart (fst x) (fst y))"

definition data_size :: "package_dir \<Rightarrow> int" where
  "data_size ps = (\<Sum>x\<leftarrow>ps. int (length (fst (snd x))))"

lemma data_size_nonneg: "0 \<le> data_size ps"
  by (auto simp: data_size_def intro!: sum_list_nonneg)

lemma extract_packaged:
  assumes "clean_dir d" "dir_there d f" "holds_files d ps f" "package_ok dir" "set (ts @ ps) \<subseteq> set dir"
    "distinct (map fst (ts @ ps))" "\<forall>x\<in>set ts. map_of expected (fst x) = Some (file_record sha x)"
    "0 \<le> tot" "tot + data_size ts \<le> mx" "mx < 2 ^ 63"
  shows "\<exists>f'. extract_entries sha mx d expected (map file_entry ts) ws tot f = (f', Inr (rev (map fst ts) @ ws)) \<and>
    holds_files d (rev ts @ ps) f'"
  using assms
proof (induction ts arbitrary: f ps ws tot)
  case Nil
  then show ?case by auto
next
  case (Cons t ts)
  obtain p dt m where t: "t = (p, dt, m)" by (cases t)
  have tin: "t \<in> set dir" using Cons.prems(5) by simp
  then have safe: "safeArchivePath p = Some p" using Cons.prems(4) t by (auto simp: package_ok_def)
  then obtain es where es: "es \<noteq> []" "\<forall>x\<in>set es. normal x" "p = str_join ''/'' es"
    using safeArchivePath_Some by blast
  have "apart p w" if w: "w \<in> fst ` set ps" for w
  proof -
    obtain y where y: "y \<in> set dir" "fst y = w" using w Cons.prems(5) by auto
    then have "p \<noteq> fst y" using w Cons.prems(6) t by auto
    then show ?thesis using Cons.prems(4) tin y t unfolding package_ok_def by fastforce
  qed
  then obtain f1 where f1: "MkdirAll (path_Dir (d @ slash # p)) f = Inr f1" "f1 (d @ slash # p) = None" "dir_there d f1"
    "holds_files d (t # ps) (f1(d @ slash # p \<mapsto> FileNode dt m))"
    using MkdirAll_apart [OF Cons.prems(1,2) es(1,2) Cons.prems(3), of dt m] es(3) t by auto
  have pj: "path_Join [d, p] = d @ slash # p" using path_Join_below [OF Cons.prems(1) es(1,2)] es(3) by simp
  have tot: "0 \<le> tot + int (length dt)" "tot + int (length dt) + data_size ts \<le> mx"
    using Cons.prems(8,9) t by (simp_all add: data_size_def)
  then have a: "add64 tot (int (length dt)) = tot + int (length dt)"
    using Cons.prems(8,10) data_size_nonneg [of ts] by (intro add64_small) auto
  let ?g = "f1(d @ slash # p \<mapsto> FileNode dt m)"
  have e: "extract_entry sha mx d expected (file_entry t) tot f = (?g, Inr (p, tot + int (length dt)))"
    using Cons.prems(7) t safe f1(1,2) tot data_size_nonneg [of ts]
    by (simp add: extract_entry_def file_entry_def file_record_def pj a)
  have dg: "dir_there d ?g" using f1(2,3) by (auto simp: dir_there_def)
  have "set (ts @ t # ps) \<subseteq> set dir" "distinct (map fst (ts @ t # ps))"
    "\<forall>x\<in>set ts. map_of expected (fst x) = Some (file_record sha x)" using Cons.prems(5-7) by auto
  from Cons.IH [OF Cons.prems(1) dg f1(4) Cons.prems(4) this tot Cons.prems(10), of "p # ws"]
  obtain f' where "extract_entries sha mx d expected (map file_entry ts) (p # ws) (tot + int (length dt)) ?g =
      (f', Inr (rev (map fst ts) @ p # ws))" "holds_files d (rev ts @ t # ps) f'" by blast
  then show ?case using e t by (simp del: fun_upd_apply)
qed

lemma holds_files_perm: "set ps = set qs \<Longrightarrow> holds_files d ps f = holds_files d qs f"
  by (simp add: holds_files_def)

text \<open>C16: What is packaged extracts to itself: for every package directory that is packaged, the
  archive written for it and the manifest record computed from it agree, so that extraction of the
  archive under that record into an empty directory succeeds and leaves exactly the files of the
  package there, with their contents and modes.\<close>
theorem package_extract_roundtrip:
  assumes "PackageArchive sha seal name target upSHA upSize dir = Inr (ar, rec)" "package_ok dir"
    "\<And>es. ar_Entries (seal es) = es \<and> ar_Err (seal es) = None \<and> ar_Size (seal es) \<le> mx"
    "data_size dir \<le> mx" "mx < 2 ^ 63" "clean_dir d" "dir_there d f" "\<forall>p. hasPrefix p (d @ ''/'') \<longrightarrow> f p = None"
  shows "\<exists>f'. extractArchive sha ar d rec mx f = (f', None) \<and>
    (\<forall>(p, dt, m)\<in>set dir. f' (d @ ''/'' @ p) = Some (FileNode dt m)) \<and>
    (\<forall>q dt m. hasPrefix q (d @ ''/'') \<and> f' q = Some (FileNode dt m) \<longrightarrow> q \<in> (\<lambda>p. d @ ''/'' @ p) ` fst ` set dir)"
proof -
  let ?ts = "sort_key fst dir"
  have dist: "distinct (map fst dir)" using assms(2) by (simp add: package_ok_def)
  have distt: "distinct (map fst ?ts)"
    using dist by (metis distinct_map distinct_sort inj_on_def set_sort distinct_sort)
  have files: "mt_Files rec = map (file_record sha) ?ts" and ar: "ar = seal (map file_entry ?ts)"
    and hd: "mt_ArchiveSHA256 rec = ar_SHA ar" "mt_ArchiveSize rec = ar_Size ar"
    using assms(1) writeArchive_records [OF dist, of sha]
    by (auto simp: PackageArchive_def Let_def dest!: collectPackageFiles_Inr split: sum.splits)
  have ex: "\<forall>x\<in>set ?ts. map_of (expected_files (mt_Files rec)) (fst x) = Some (file_record sha x)"
  proof
    fix x
    assume "x \<in> set ?ts"
    then show "map_of (expected_files (mt_Files rec)) (fst x) = Some (file_record sha x)"
      using map_of_expected_files [of "mt_Files rec" "file_record sha x"] distt files by (simp add: comp_def)
  qed
  have size: "data_size ?ts = data_size dir"
    unfolding data_size_def by (simp add: sum_mset_sum_list [symmetric] del: sum_mset_sum_list)
  have "holds_files d [] f" using assms(8) by (auto simp: holds_files_def)
  from extract_packaged [OF assms(6,7) this assms(2) _ _ ex, of 0 mx "[]"] distt size assms(4,5)
  obtain f' where f': "extract_entries sha mx d (expected_files (mt_Files rec)) (map file_entry ?ts) [] 0 f =
      (f', Inr (rev (map fst ?ts)))" "holds_files d (rev ?ts) f'" by auto
  have "find (\<lambda>x. mf_Path x \<notin> set (rev (map fst ?ts))) (mt_Files rec) = None"
    by (auto simp: find_None_iff files)
  moreover have "ar_Entries ar = map file_entry ?ts \<and> ar_Err ar = None \<and> ar_Size ar \<le> mx"
    unfolding ar by (rule assms(3))
  ultimately have "extractArchive sha ar d rec mx f = (f', None)"
    using f'(1) hd by (simp add: extractArchive_def)
  moreover have "holds_files d dir f'" using f'(2) holds_files_perm [of "rev ?ts" dir] by simp
  ultimately show ?thesis by (force simp: holds_files_def)
qed

section \<open>Installing\<close>

text \<open>Where a runtime is installed is a clean path.\<close>

lemma managedInstallRoot_clean:
  assumes "managedInstallRoot os cacheRoot version target = Inr root"
  shows "clean_dir root"
proof -
  obtain n where n: "NormalizeRuntimeVersion version = Inr n" and r: "\<exists>base. root = path_Join [base, n]"
    using assms by (auto simp: managedInstallRoot_def Let_def split: sum.splits if_splits)
  have "parse_version n \<noteq> None" using n unfolding NormalizeRuntimeVersion_replacements by (rule conjunct2)
  then obtain rel pre post where "parse_version n = Some (rel, pre, post)" by auto
  then have nt: "n = version_text rel pre post" and vp: "version_parts rel pre post" using parse_version_text by auto
  obtain c cs where c: "n = c # cs" "is_digit c"
    using vp nt by (cases rel) (auto simp: version_parts_def version_text_def)
  have "c \<noteq> CHR ''.''" using c(2) by (auto simp: is_digit_def)
  moreover have "slash \<notin> set n" using version_parts_chars(3) [OF vp] nt by blast
  ultimately have "normal n" using c(1) by (simp add: normal_def)
  obtain base where root: "root = path_Join [base, n]" using r by blast
  show ?thesis
  proof (cases "base = ''''")
    case True
    then have "root = path_Clean n" "path_elems n = [n]"
      using root c \<open>normal n\<close> fold_clean_normal [of "[n]"]
      by (auto simp: path_Join_def path_elems_def clean_elems_def normal_def str_split_single)
    then show ?thesis using clean_dir_Clean [of n] by simp
  next
    case False
    then have "root = path_Clean (base @ slash # n)" using root c by (simp add: path_Join_def)
    moreover have "path_elems (base @ slash # n) \<noteq> []"
      using path_elems_below [OF False, of "[n]"] \<open>normal n\<close> by simp
    ultimately show ?thesis using clean_dir_Clean by simp
  qed
qed

text \<open>The files of a record are as recorded.\<close>

definition files_verified :: "(string \<Rightarrow> string) \<Rightarrow> string \<Rightarrow> ManifestTarget \<Rightarrow> fs \<Rightarrow> bool" where
  "files_verified sha root rec f \<longleftrightarrow> (\<forall>x\<in>set (mt_Files rec). \<exists>dt m. f (path_Join [root, mf_Path x]) = Some (FileNode dt m) \<and>
     sha dt = mf_SHA256 x \<and> int (length dt) = mf_Size x)"

lemma verify_files_True:
  "verify_files sha root xs f = Inr True \<longleftrightarrow> (\<forall>x\<in>set xs. \<exists>dt m. f (path_Join [root, mf_Path x]) = Some (FileNode dt m) \<and>
     sha dt = mf_SHA256 x \<and> int (length dt) = mf_Size x)"
  by (induction xs) (auto split: option.splits node.splits)

lemma files_verified_iff: "files_verified sha root rec f \<longleftrightarrow> verify_files sha root (mt_Files rec) f = Inr True"
  by (simp add: files_verified_def verify_files_True)

lemma verifyInstalledRoot_Some:
  "verifyInstalledRoot sha root rec version target f = Inr (Some rt) \<longleftrightarrow>
    f root = Some DirNode \<and> files_verified sha root rec f \<and> rt = managed_runtime root target version"
  by (auto simp: verifyInstalledRoot_def files_verified_iff split: option.splits node.splits sum.splits if_splits)

lemma install_into_verified:
  assumes "install_into sha temp meta mx ar root rec version target f = (f', Inr rt)"
  shows "verifyInstalledRoot sha root rec version target f' = Inr (Some rt)"
  using assms
  by (auto simp: install_into_def Let_def verifyInstalledRoot_Some
      split: prod.splits option.splits sum.splits if_splits)

lemma below_apart:
  assumes "below temp (root @ slash # p)" "\<not> below temp root" "\<not> below root temp"
  shows False
proof -
  have "\<exists>u. root @ slash # p = temp @ u \<and> (u = [] \<or> hd u = slash)"
    using assms(1) by (auto simp: below_def hasPrefix_iff)
  then obtain u where u: "root @ slash # p = temp @ u" "u = [] \<or> hd u = slash" by blast
  from u(1) consider us where "root = temp @ us" "us @ slash # p = u" | us where "root @ us = temp" "slash # p = us @ u"
    by (auto simp: append_eq_append_conv2)
  then show False
  proof cases
    case 1
    then show False using u(2) assms(2) by (cases us) (auto simp: below_def hasPrefix_iff)
  next
    case 2
    then show False using assms(3) by (cases us) (auto simp: below_def hasPrefix_iff)
  qed
qed

lemma safe_join:
  assumes "clean_dir d" "safeArchivePath p = Some p"
  shows "path_Join [d, p] = d @ slash # p"
proof -
  obtain es where "es \<noteq> []" "\<forall>x\<in>set es. normal x" "p = str_join ''/'' es"
    using safeArchivePath_Some [OF assms(2)] by blast
  then show ?thesis using path_Join_below [OF assms(1)] by simp
qed

text \<open>A verified runtime stays verified when nothing below its directory changes.\<close>

lemma verified_stays:
  assumes "verifyInstalledRoot sha root rec version target f = Inr (Some rt)" "clean_dir root"
    "\<forall>x\<in>set (mt_Files rec). safeArchivePath (mf_Path x) = Some (mf_Path x)"
    "\<And>p. below root p \<Longrightarrow> g p = f p"
  shows "verifyInstalledRoot sha root rec version target g = Inr (Some rt)"
proof -
  have "below root (path_Join [root, mf_Path x])" if "x \<in> set (mt_Files rec)" for x
    using safe_join [OF assms(2), of "mf_Path x"] assms(3) that by (simp add: below_def)
  then show ?thesis
    using assms(1,4) by (auto simp: verifyInstalledRoot_Some files_verified_def below_def)
qed

lemma install_locked_verified:
  assumes "install_locked sha temp meta mx ar root rec version target f = (f', Inr rt)" "clean_dir root"
    "\<forall>x\<in>set (mt_Files rec). safeArchivePath (mf_Path x) = Some (mf_Path x)" "\<not> below temp root" "\<not> below root temp"
  shows "verifyInstalledRoot sha root rec version target f' = Inr (Some rt)"
proof (cases "verifyInstalledRoot sha root rec version target f = Inr None")
  case False
  then show ?thesis using assms(1)
    by (auto simp: install_locked_def split: sum.splits option.splits)
next
  case True
  then obtain f1 where f1: "install_into sha temp meta mx ar root rec version target f = (f1, Inr rt)" "f' = RemoveAll temp f1"
    using assms(1) by (auto simp: install_locked_def split: prod.splits)
  have "f' p = f1 p" if "below root p" for p
    using that below_apart [OF _ assms(4,5)] assms(4) by (auto simp: f1(2) RemoveAll_def below_def hasPrefix_iff)
  then show ?thesis
    by (rule verified_stays [OF install_into_verified [OF f1(1)] assms(2,3)])
qed

text \<open>Which record and which runtime an installation returns.\<close>

lemma Install_runtime:
  assumes "Install env defaultRoots opts target m content sigEnv ar f = (f', Inr (rt, rec))"
  shows "Manifest_Target m (Triple target) = Inr rec"
    "m_RuntimeVersion m = (if io_RuntimeVersion opts = '''' then DefaultRuntimeVersion else io_RuntimeVersion opts)"
    "\<exists>root. managedInstallRoot (ie_os env) (defaultCacheRoot (ie_os env) (io_CacheRoot opts)) (m_RuntimeVersion m) target = Inr root \<and>
       rt = managed_runtime root target (m_RuntimeVersion m)"
proof -
  obtain root f1 f2 mx meta where root: "managedInstallRoot (ie_os env) (defaultCacheRoot (ie_os env) (io_CacheRoot opts)) (m_RuntimeVersion m) target = Inr root"
    and il: "install_locked (ie_sha env) (ie_temp env) meta mx ar root rec (m_RuntimeVersion m) target f1 = (f2, Inr rt)"
    using assms unfolding Install_def Let_def by (auto split: option.splits sum.splits if_splits prod.splits)
  have "rt = managed_runtime root target (m_RuntimeVersion m)"
    using il by (auto simp: install_locked_def verifyInstalledRoot_Some dest!: install_into_verified
        split: sum.splits option.splits prod.splits)
  with root show "\<exists>root. managedInstallRoot (ie_os env) (defaultCacheRoot (ie_os env) (io_CacheRoot opts)) (m_RuntimeVersion m) target = Inr root \<and>
       rt = managed_runtime root target (m_RuntimeVersion m)" by blast
qed (use assms in \<open>auto simp: Install_def Let_def split: option.splits sum.splits if_splits prod.splits\<close>)

lemma managedInstallRoot_default:
  "managedInstallRoot os (defaultCacheRoot os c) version target = managedInstallRoot os c version target"
proof -
  have "defaultCacheRoot os (defaultCacheRoot os c) = defaultCacheRoot os c" by (simp add: defaultCacheRoot_def)
  then show ?thesis by (simp only: managedInstallRoot_def)
qed

text \<open>What a successful installation is, without its signature.\<close>

lemma Install_result:
  assumes "Install env defaultRoots opts target manifest manifestBytes sigEnv ar f = (f', Inr (rt, rec))"
    "\<forall>x\<in>set (mt_Files rec). safeArchivePath (mf_Path x) = Some (mf_Path x)"
    "\<not> below (ie_temp env) (RootDir rt)" "\<not> below (RootDir rt) (ie_temp env)"
  shows "VerifyManifestSignature (ie_verify env) (ie_decode64 env) manifestBytes sigEnv
      (if io_TrustRoots opts = [] then defaultRoots else io_TrustRoots opts) = None"
    "Manifest_Target manifest (Triple target) = Inr rec"
    "m_RuntimeVersion manifest = (if io_RuntimeVersion opts = '''' then DefaultRuntimeVersion else io_RuntimeVersion opts)"
    "managedInstallRoot (ie_os env) (io_CacheRoot opts) (m_RuntimeVersion manifest) target = Inr (RootDir rt)"
    "verifyInstalledRoot (ie_sha env) (RootDir rt) rec (m_RuntimeVersion manifest) target f' = Inr (Some rt)"
proof -
  note runtime = Install_runtime [OF assms(1)]
  obtain root where root: "managedInstallRoot (ie_os env) (defaultCacheRoot (ie_os env) (io_CacheRoot opts)) (m_RuntimeVersion manifest) target = Inr root"
    "rt = managed_runtime root target (m_RuntimeVersion manifest)"
    using runtime(3) by blast
  obtain f1 f2 mx meta where il: "install_locked (ie_sha env) (ie_temp env) meta mx ar root rec (m_RuntimeVersion manifest) target f1 = (f2, Inr rt)"
    and f': "f' = f2(root @ ''.lock'' := None)"
    using assms(1) root(1) unfolding Install_def Let_def by (auto split: option.splits sum.splits if_splits prod.splits)
  have c: "clean_dir root" by (rule managedInstallRoot_clean [OF root(1)])
  have rt: "RootDir rt = root" by (simp add: root(2) managed_runtime_def)
  have "verifyInstalledRoot (ie_sha env) root rec (m_RuntimeVersion manifest) target f2 = Inr (Some rt)"
    using install_locked_verified [OF il c assms(2)] assms(3,4) rt by simp
  moreover have "f' p = f2 p" if "below root p" for p
    using that by (auto simp: f' below_def hasPrefix_iff)
  ultimately show "verifyInstalledRoot (ie_sha env) (RootDir rt) rec (m_RuntimeVersion manifest) target f' = Inr (Some rt)"
    using verified_stays [OF _ c assms(2)] rt by blast
  show "managedInstallRoot (ie_os env) (io_CacheRoot opts) (m_RuntimeVersion manifest) target = Inr (RootDir rt)"
    using root(1) rt by (simp add: managedInstallRoot_default)
qed (use assms(1) in \<open>auto simp: Install_def Let_def split: option.splits sum.splits if_splits prod.splits\<close>)

lemma verify_roots_None:
  "verify_roots verify manifest env sig roots = None \<Longrightarrow> \<exists>key. (se_KeyID env, key) \<in> set roots \<and> verify key manifest sig"
  by (induction roots) (auto split: if_splits)

text \<open>C13: An installation that succeeds is the signed one. The manifest bytes carry an Ed25519
  signature by the named key of a trust root, the manifest is for the requested version, the
  record returned is the manifest's record for the target, and the runtime returned is the
  managed one of a directory in which every file of that record has the recorded hash and
  size, however it got there.\<close>
theorem install_verified:
  assumes "Install env defaultRoots opts target manifest manifestBytes sigEnv ar f = (f', Inr (rt, rec))"
    "\<forall>x\<in>set (mt_Files rec). safeArchivePath (mf_Path x) = Some (mf_Path x)"
    "\<not> below (ie_temp env) (RootDir rt)" "\<not> below (RootDir rt) (ie_temp env)"
  shows "(\<exists>key sig. (se_KeyID sigEnv, key) \<in> set (if io_TrustRoots opts = [] then defaultRoots else io_TrustRoots opts) \<and>
      ie_decode64 env (se_Signature sigEnv) = Inr sig \<and> ie_verify env key manifestBytes sig) \<and>
    rec \<in> set (m_Targets manifest) \<and> mt_Triple rec = Triple target \<and> rr_Version rt = m_RuntimeVersion manifest \<and>
    (io_RuntimeVersion opts \<noteq> '''' \<longrightarrow> m_RuntimeVersion manifest = io_RuntimeVersion opts) \<and>
    rt = managed_runtime (RootDir rt) target (m_RuntimeVersion manifest) \<and>
    (\<forall>x\<in>set (mt_Files rec). \<exists>dt m. f' (path_Join [RootDir rt, mf_Path x]) = Some (FileNode dt m) \<and>
       ie_sha env dt = mf_SHA256 x \<and> int (length dt) = mf_Size x)"
proof -
  note r = Install_result [OF assms]
  have key: "\<exists>key sig. (se_KeyID sigEnv, key) \<in> set (if io_TrustRoots opts = [] then defaultRoots else io_TrustRoots opts) \<and>
      ie_decode64 env (se_Signature sigEnv) = Inr sig \<and> ie_verify env key manifestBytes sig"
    using r(1) verify_roots_None by (fastforce simp: VerifyManifestSignature_def split: if_splits sum.splits)
  have v: "files_verified (ie_sha env) (RootDir rt) rec f'" "rt = managed_runtime (RootDir rt) target (m_RuntimeVersion manifest)"
    using r(5) by (simp_all add: verifyInstalledRoot_Some)
  have "rec \<in> set (m_Targets manifest) \<and> mt_Triple rec = Triple target"
    using r(2) by (auto simp: Manifest_Target_def find_Some_iff split: option.splits)
  moreover have "rr_Version rt = m_RuntimeVersion manifest"
    using v(2) by (metis ResolvedRuntime.select_convs(6) managed_runtime_def)
  moreover have "io_RuntimeVersion opts \<noteq> '''' \<longrightarrow> m_RuntimeVersion manifest = io_RuntimeVersion opts"
    using r(3) by simp
  ultimately show ?thesis
    using key v by (simp add: files_verified_def)
qed

section \<open>All or nothing\<close>

text \<open>What the installer relies on: the parent of the root was made when the lock was taken, the
  temporary directory is new and beside the root, and below a missing directory there is nothing.\<close>

definition install_site :: "string \<Rightarrow> string \<Rightarrow> fs \<Rightarrow> bool" where
  "install_site temp root f \<longleftrightarrow> clean_dir temp \<and> clean_dir root \<and> dir_there temp (f(temp \<mapsto> DirNode)) \<and>
     dir_there (path_Dir root) f \<and> (\<forall>p. below temp p \<longrightarrow> f p = None) \<and> (f root = None \<longrightarrow> (\<forall>p. below root p \<longrightarrow> f p = None)) \<and>
     \<not> below temp root \<and> \<not> below root temp"

definition metadata_name :: string where
  "metadata_name = ''.codex-sdk-runtime.json''"

lemma metadata_join: "clean_dir d \<Longrightarrow> path_Join [d, ''.codex-sdk-runtime.json''] = d @ slash # metadata_name"
  using path_Join_below [of d "[''.codex-sdk-runtime.json'']"] by (simp add: normal_def metadata_name_def)

text \<open>The state after extraction and the metadata file; the parent directories are there already.\<close>

lemma extracted_state:
  assumes site: "install_site temp root f" and rec: "distinct (map mf_Path (mt_Files rec))"
    and safe: "\<forall>x\<in>set (mt_Files rec). safeArchivePath (mf_Path x) = Some (mf_Path x) \<and> mf_Path x \<noteq> metadata_name"
    and x: "extractArchive sha ar temp rec mx (f(temp \<mapsto> DirNode)) = (f1, err)"
    and f2: "f2 = f1(path_Join [temp, ''.codex-sdk-runtime.json''] \<mapsto> FileNode meta 420)"
  shows "RemoveAll temp f1 = f" "RemoveAll temp f2 = f" "f2 temp = Some DirNode" "\<forall>p. \<not> below temp p \<longrightarrow> f2 p = f p"
    "err = None \<longrightarrow> files_verified sha temp rec f2" "MkdirAll (path_Dir root) f2 = Inr f2"
proof -
  have ct: "clean_dir temp" and dt: "dir_there temp (f(temp \<mapsto> DirNode))" and new: "\<forall>p. below temp p \<longrightarrow> f p = None"
    using site by (simp_all add: install_site_def)
  note ce = extract_effect [OF ct dt rec x]
  note g = ce(1)
  have mj: "path_Join [temp, ''.codex-sdk-runtime.json''] = temp @ slash # metadata_name" by (rule metadata_join [OF ct])
  have out1: "\<forall>p. \<not> below temp p \<longrightarrow> f1 p = f p" using grows_outside [OF g] by blast
  then show out2: "\<forall>p. \<not> below temp p \<longrightarrow> f2 p = f p" by (auto simp: f2 mj below_def)
  show "RemoveAll temp f1 = f" by (rule RemoveAll_grown [OF new out1])
  show "RemoveAll temp f2 = f" by (rule RemoveAll_grown [OF new out2])
  have "f1 temp = Some DirNode" by (rule grows_keeps [OF g]) simp
  then show "f2 temp = Some DirNode" by (simp add: f2 mj)
  show "err = None \<longrightarrow> files_verified sha temp rec f2"
  proof
    assume "err = None"
    have "\<exists>dt m. f2 (path_Join [temp, mf_Path x]) = Some (FileNode dt m) \<and> sha dt = mf_SHA256 x \<and> int (length dt) = mf_Size x"
      if mem: "x \<in> set (mt_Files rec)" for x
    proof -
      obtain dt where "f1 (path_Join [temp, mf_Path x]) = Some (FileNode dt (nat (mf_Mode x)))"
        "sha dt = mf_SHA256 x" "int (length dt) = mf_Size x" using ce(3) [OF \<open>err = None\<close> mem] by blast
      moreover have "path_Join [temp, mf_Path x] \<noteq> temp @ slash # metadata_name"
        using safe_join [OF ct] safe mem by auto
      ultimately show ?thesis by (auto simp: f2 mj)
    qed
    then show "files_verified sha temp rec f2" by (simp add: files_verified_def)
  qed
  have "f2 q = Some DirNode" if "q \<in> set (ancestors (path_Dir root))" for q
  proof -
    have "f q = Some DirNode" using site that by (auto simp: install_site_def dir_there_def)
    then show ?thesis using new out2 by (metis option.distinct(1))
  qed
  then show "MkdirAll (path_Dir root) f2 = Inr f2"
    using MkdirAll_dirs [of "path_Dir root" f2] by (auto simp: fun_eq_iff)
qed

lemma files_verified_moved:
  assumes "files_verified sha temp rec f" "clean_dir temp" "clean_dir root"
    "\<forall>x\<in>set (mt_Files rec). safeArchivePath (mf_Path x) = Some (mf_Path x)"
    "\<And>p. g (root @ slash # p) = f (temp @ slash # p)"
  shows "files_verified sha root rec g"
  using assms by (simp add: files_verified_def safe_join)

lemma files_verified_same:
  assumes "clean_dir root" "\<forall>x\<in>set (mt_Files rec). safeArchivePath (mf_Path x) = Some (mf_Path x)"
    "\<And>p. below root p \<Longrightarrow> g p = f p"
  shows "files_verified sha root rec g = files_verified sha root rec f"
  using assms by (simp add: files_verified_def safe_join below_def)

lemma Rename_eq:
  "f root = None \<Longrightarrow> Rename temp root f =
    Inr (\<lambda>p. if below root p then f (temp @ drop (length root) p) else if below temp p then None else f p)"
  by (simp add: Rename_def)

text \<open>An existing directory is never replaced.\<close>

lemma install_into_blocked:
  assumes x: "extractArchive sha ar temp rec mx (f(temp \<mapsto> DirNode)) = (f1, None)"
    and f2: "f2 = f1(path_Join [temp, ''.codex-sdk-runtime.json''] \<mapsto> FileNode meta 420)"
    and st: "install_site temp root f" "MkdirAll (path_Dir root) f2 = Inr f2" "\<And>p. below root p \<Longrightarrow> f2 p = f p"
    and safe: "\<forall>x\<in>set (mt_Files rec). safeArchivePath (mf_Path x) = Some (mf_Path x) \<and> mf_Path x \<noteq> metadata_name"
    and there: "f root \<noteq> None" and bad: "verifyInstalledRoot sha root rec version target f = Inr None"
  shows "\<exists>e. install_into sha temp meta mx ar root rec version target f = (f2, Inl e)"
proof -
  have "\<exists>e. Rename temp root f2 = Inl e"
    using there st(3) [OF below_same] by (auto simp: Rename_def split: option.splits node.splits)
  then obtain e where e: "Rename temp root f2 = Inl e" by blast
  have "verifyInstalledRoot sha root rec version target f2 \<noteq> Inr (Some rt)" for rt
    using bad files_verified_same [of root rec f2 f sha, OF _ _ st(3)] st(1) safe st(3) [OF below_same]
      verifyInstalledRoot_Some [of sha root rec version target f "managed_runtime root target version"]
    by (auto simp: verifyInstalledRoot_Some install_site_def)
  then show ?thesis using x st(2) e
    by (auto simp: install_into_def f2 [symmetric] Let_def split: sum.splits option.splits if_splits)
qed

text \<open>Where there is none the extracted directory is moved, as it is.\<close>

lemma install_into_moved:
  assumes x: "extractArchive sha ar temp rec mx (f(temp \<mapsto> DirNode)) = (f1, None)"
    and f2: "f2 = f1(path_Join [temp, ''.codex-sdk-runtime.json''] \<mapsto> FileNode meta 420)"
    and st: "install_site temp root f" "MkdirAll (path_Dir root) f2 = Inr f2" "f2 root = None" "f2 temp = Some DirNode"
      "files_verified sha temp rec f2"
    and safe: "\<forall>x\<in>set (mt_Files rec). safeArchivePath (mf_Path x) = Some (mf_Path x) \<and> mf_Path x \<noteq> metadata_name"
  shows "install_into sha temp meta mx ar root rec version target f =
    (\<lambda>p. if below root p then f2 (temp @ drop (length root) p) else if below temp p then None else f2 p,
     Inr (managed_runtime root target version))"
proof -
  define f4 where "f4 = (\<lambda>p. if below root p then f2 (temp @ drop (length root) p) else if below temp p then None else f2 p)"
  have rn: "Rename temp root f2 = Inr f4" using Rename_eq [of f2 root temp, OF st(3)] by (simp add: f4_def)
  have "f4 root = Some DirNode" using st(4) by (simp add: f4_def below_def)
  moreover have "files_verified sha root rec f4"
    by (rule files_verified_moved [of sha temp rec f2]) (use st safe in \<open>auto simp: f4_def below_def install_site_def\<close>)
  ultimately have "verifyInstalledRoot sha root rec version target f4 = Inr (Some (managed_runtime root target version))"
    by (simp add: verifyInstalledRoot_Some)
  then show ?thesis using x st(2) rn by (simp add: install_into_def f2 [symmetric] Let_def f4_def)
qed

text \<open>C14: Installing under the lock is all or nothing. When it fails the file system is what it
  was before, partial extractions included; when it succeeds nothing that was there has changed.
  A runtime directory that is there but does not have the files of the record is never replaced:
  every attempt to install over it fails.\<close>
theorem install_atomic:
  assumes "install_locked sha temp meta mx ar root rec version target f = (f', res)" "install_site temp root f"
    "distinct (map mf_Path (mt_Files rec))"
    "\<forall>x\<in>set (mt_Files rec). safeArchivePath (mf_Path x) = Some (mf_Path x) \<and> mf_Path x \<noteq> metadata_name"
  shows "(\<forall>p. f p \<noteq> None \<longrightarrow> f' p = f p) \<and> (\<forall>e. res = Inl e \<longrightarrow> f' = f) \<and>
    (f root \<noteq> None \<and> \<not> files_verified sha root rec f \<longrightarrow> (\<exists>e. res = Inl e))"
proof (cases "verifyInstalledRoot sha root rec version target f = Inr None")
  case False
  then show ?thesis using assms(1)
    by (auto simp: install_locked_def verifyInstalledRoot_Some split: sum.splits option.splits)
next
  case True
  note site = assms(2) [unfolded install_site_def]
  obtain g where g: "install_into sha temp meta mx ar root rec version target f = (g, res)" "f' = RemoveAll temp g"
    using assms(1) True by (auto simp: install_locked_def split: prod.splits)
  obtain f1 err where x: "extractArchive sha ar temp rec mx (f(temp \<mapsto> DirNode)) = (f1, err)" by fastforce
  define f2 where "f2 = f1(path_Join [temp, ''.codex-sdk-runtime.json''] \<mapsto> FileNode meta 420)"
  note st = extracted_state [OF assms(2-4) x f2_def]
  have out: "f2 p = f p" if p: "below root p" for p
  proof -
    have "p = root \<or> (\<exists>q. p = root @ slash # q)" using p by (auto simp: below_def hasPrefix_iff)
    then have "\<not> below temp p" using site below_apart by blast
    then show ?thesis using st(4) by blast
  qed
  show ?thesis
  proof (cases err)
    case (Some e)
    then have "g = f1 \<and> (\<exists>e. res = Inl e)" using g(1) x by (auto simp: install_into_def)
    then show ?thesis using g(2) st(1) by auto
  next
    case None
    note ok = x [unfolded None]
    show ?thesis
    proof (cases "f root = None")
      case False
      then have "g = f2 \<and> (\<exists>e. res = Inl e)"
        using install_into_blocked [OF ok f2_def assms(2) st(6) out assms(4) _ True] g(1) by auto
      then show ?thesis using g(2) st(2) by auto
    next
      case no: True
      then have "res = Inr (managed_runtime root target version)"
        "g = (\<lambda>p. if below root p then f2 (temp @ drop (length root) p) else if below temp p then None else f2 p)"
        using install_into_moved [OF ok f2_def assms(2) st(6) _ st(3) st(5) [rule_format, OF None] assms(4)] g(1) out [OF below_same] by auto
      moreover from this have "f' p = f p" if "f p \<noteq> None" for p
        using that site no st(4) by (auto simp: g(2) RemoveAll_def)
      ultimately show ?thesis using no by simp
    qed
  qed
qed

section \<open>A runtime of one file\<close>

definition demo_dir :: package_dir where
  "demo_dir = [(''bin/codex'', ''x'', 493)]"

definition demo_seal :: "tar_entry list \<Rightarrow> archive" where
  "demo_seal es = \<lparr>ar_SHA = ''ar'', ar_Size = 5, ar_Entries = es, ar_Err = None\<rparr>"

definition demo_target :: TargetSpec where
  "demo_target = target_spec ''linux'' ''amd64'' ''x86_64-unknown-linux-musl'' ''codex''"

definition demo_package :: "go_error + archive \<times> ManifestTarget" where
  "demo_package = PackageArchive (\<lambda>s. s) demo_seal ''a.tar.gz'' demo_target '''' 0 demo_dir"

definition demo_ar :: archive where
  "demo_ar = (case demo_package of Inr (ar, rec) \<Rightarrow> ar | Inl _ \<Rightarrow> demo_seal [])"

definition demo_record :: ManifestTarget where
  "demo_record = (case demo_package of Inr (ar, rec) \<Rightarrow> rec
     | Inl _ \<Rightarrow> \<lparr>mt_GOOS = '''', mt_GOARCH = '''', mt_Triple = '''', mt_Executable = '''', mt_UpstreamAsset = '''',
         mt_UpstreamArchiveSHA256 = '''', mt_UpstreamArchiveSize = 0, mt_ArchiveName = '''', mt_ArchiveSHA256 = '''',
         mt_ArchiveSize = 0, mt_Files = []\<rparr>)"

definition demo_fs :: fs where
  "demo_fs = (\<lambda>p. if p = ''/t'' then Some DirNode else None)"

lemma demo_package_eq: "demo_package = Inr (demo_ar, demo_record)"
  by code_simp

lemma demo_files: "mt_Files demo_record = [file_record (\<lambda>s. s) (''bin/codex'', ''x'', 493)]"
  by code_simp

lemma demo_clean: "clean_dir ''/t''"
  by code_simp

lemma demo_there: "dir_there ''/t'' demo_fs"
  by code_simp

lemma demo_ok: "package_ok demo_dir"
  by code_simp

lemma demo_size: "data_size demo_dir \<le> 100"
  by code_simp

lemma demo_extract: "snd (extractArchive (\<lambda>s. s) demo_ar ''/t'' demo_record 100 demo_fs) = None"
  by code_simp

lemma demo_distinct: "distinct (map mf_Path (mt_Files demo_record))"
  by (simp add: demo_files)


theorem package_extract_roundtrip_witness:
  "\<exists>f'. extractArchive (\<lambda>s. s) demo_ar ''/t'' demo_record 100 demo_fs = (f', None) \<and>
    f' (''/t'' @ ''/'' @ ''bin/codex'') = Some (FileNode ''x'' 493)"
proof -
  have s: "ar_Entries (demo_seal es) = es \<and> ar_Err (demo_seal es) = None \<and> ar_Size (demo_seal es) \<le> 100" for es
    by (simp add: demo_seal_def)
  have e: "\<forall>p. hasPrefix p (''/t'' @ ''/'') \<longrightarrow> demo_fs p = None" by (auto simp: demo_fs_def)
  obtain f' where f': "extractArchive (\<lambda>s. s) demo_ar ''/t'' demo_record 100 demo_fs = (f', None)"
    "\<forall>(p, dt, m)\<in>set demo_dir. f' (''/t'' @ ''/'' @ p) = Some (FileNode dt m)"
    using package_extract_roundtrip [OF demo_package_eq [unfolded demo_package_def] demo_ok s demo_size _ demo_clean demo_there e]
    by auto
  then show ?thesis by (intro exI [of _ f'] conjI) (auto simp: demo_dir_def)
qed

definition demo_manifest :: Manifest where
  "demo_manifest = \<lparr>m_SchemaVersion = 1, m_SDKVersion = ''1'', m_RuntimeVersion = ''0.144.4'', m_UpstreamRepo = ''r'',
     m_UpstreamTag = ''t'', m_Targets = [demo_record]\<rparr>"

definition demo_install_env :: install_env where
  "demo_install_env = \<lparr>ie_os = \<lparr>userCacheDir = None, tempDir = ''/tmp'', environ_of = [], windows = False\<rparr>, ie_sha = (\<lambda>s. s),
     ie_verify = (\<lambda>k m s. k = m @ s), ie_decode64 = Inr, ie_stale = False, ie_ctxErr = Text ''canceled'',
     ie_temp = ''/c/targets/x86_64-unknown-linux-musl/tmp1'', ie_now = ''2026-01-01T00:00:00Z''\<rparr>"

definition demo_options :: InstallOptions where
  "demo_options = \<lparr>io_CacheRoot = ''/c'', io_RuntimeVersion = '''', io_TrustRoots = [(''k'', ''ms'')], io_MaxArchiveBytes = 0\<rparr>"

definition demo_envelope :: SignatureEnvelope where
  "demo_envelope = \<lparr>se_KeyID = ''k'', se_Algorithm = ''ed25519'', se_Signature = ''s''\<rparr>"

definition demo_install :: "fs \<times> (go_error + ResolvedRuntime \<times> ManifestTarget)" where
  "demo_install = Install demo_install_env [] demo_options demo_target demo_manifest ''m'' demo_envelope demo_ar (\<lambda>_. None)"

definition demo_runtime :: ResolvedRuntime where
  "demo_runtime = managed_runtime ''/c/targets/x86_64-unknown-linux-musl/0.144.4'' demo_target ''0.144.4''"

lemma demo_installed: "snd demo_install = Inr (demo_runtime, demo_record)"
  by code_simp

lemma demo_temp:
  "\<not> below (ie_temp demo_install_env) (RootDir demo_runtime) \<and> \<not> below (RootDir demo_runtime) (ie_temp demo_install_env)"
  by code_simp

lemma demo_safe: "\<forall>x\<in>set (mt_Files demo_record). safeArchivePath (mf_Path x) = Some (mf_Path x)"
  by code_simp

theorem install_verified_witness:
  "\<exists>f' m. demo_install = (f', Inr (demo_runtime, demo_record)) \<and>
    f' (path_Join [RootDir demo_runtime, ''bin/codex'']) = Some (FileNode ''x'' m)"
proof -
  obtain f' where f': "demo_install = (f', Inr (demo_runtime, demo_record))"
    using demo_installed by (metis prod.collapse)
  from install_verified [OF this [unfolded demo_install_def] demo_safe conjunct1 [OF demo_temp] conjunct2 [OF demo_temp]] f'
  show ?thesis by (auto simp: demo_files file_record_def demo_install_env_def)
qed

definition demo_site :: fs where
  "demo_site = (\<lambda>p. if p = ''/c'' \<or> p = ''/c/r'' then Some DirNode else None)"

lemma demo_site_paths:
  "clean_dir ''/c/t'' \<and> clean_dir ''/c/r'' \<and> path_Dir ''/c/r'' = ''/c'' \<and> dir_there ''/c'' demo_site \<and>
    dir_there ''/c/t'' (demo_site(''/c/t'' \<mapsto> DirNode)) \<and> \<not> below ''/c/t'' ''/c/r'' \<and> \<not> below ''/c/r'' ''/c/t''"
  by code_simp

lemma demo_install_site: "install_site ''/c/t'' ''/c/r'' demo_site"
  using demo_site_paths by (auto simp: install_site_def demo_site_def below_def)

lemma demo_metadata: "\<forall>x\<in>set (mt_Files demo_record). safeArchivePath (mf_Path x) = Some (mf_Path x) \<and> mf_Path x \<noteq> metadata_name"
  by code_simp

lemma demo_not_verified: "\<not> files_verified (\<lambda>s. s) ''/c/r'' demo_record demo_site"
  unfolding files_verified_iff by code_simp

theorem install_atomic_witness:
  "\<exists>e. install_locked (\<lambda>s. s) ''/c/t'' ''m'' 100 demo_ar ''/c/r'' demo_record ''1'' demo_target demo_site = (demo_site, Inl e)"
proof -
  obtain f' res where r: "install_locked (\<lambda>s. s) ''/c/t'' ''m'' 100 demo_ar ''/c/r'' demo_record ''1'' demo_target demo_site = (f', res)"
    by fastforce
  have "demo_site ''/c/r'' \<noteq> None" by (simp add: demo_site_def)
  with install_atomic [OF r demo_install_site demo_distinct demo_metadata] demo_not_verified r show ?thesis by auto
qed

section \<open>Which runtime is used\<close>

definition runtime_env :: "os_env \<Rightarrow> ResolveOptions \<Rightarrow> string" where
  "runtime_env os opts = (case map_of (case ro_Env opts of Some m \<Rightarrow> m | None \<Rightarrow> parse_environ (environ_of os)) ''CODEX_RUNTIME_PATH'' of
     Some p \<Rightarrow> p | None \<Rightarrow> '''')"

lemma given_binary_source: "Source (given_binary src p t v) = src" "BinaryPath (given_binary src p t v) = p"
  by (simp_all add: given_binary_def)

lemma managed_runtime_source:
  "Source (managed_runtime r t v) = ''managed''" "BinaryPath (managed_runtime r t v) = path_Join [r, ''bin'', Executable t]"
  "RootDir (managed_runtime r t v) = r"
  by (simp_all add: managed_runtime_def)

text \<open>The order in which a runtime is looked for: the explicit path, then CODEX_RUNTIME_PATH,
  then the managed directory of the version, then PATH when that is allowed. A path given by the
  first two is used or is an error, never passed over. A managed runtime is taken when its binary
  exists, whatever the files there contain.\<close>
theorem resolution_precedence:
  shows "case ResolveRuntime os inherited f target opts of
      Inr rt \<Rightarrow>
        (if ExplicitBinary opts \<noteq> '''' then Source rt = ''explicit'' \<and> BinaryPath rt = ExplicitBinary opts \<and> f (path_Clean (BinaryPath rt)) \<noteq> None
         else if runtime_env os opts \<noteq> '''' then Source rt = ''env'' \<and> BinaryPath rt = runtime_env os opts \<and> f (path_Clean (BinaryPath rt)) \<noteq> None
         else \<exists>root. managedInstallRoot os (ro_CacheRoot opts) (ro_RuntimeVersion opts) target = Inr root \<and>
           (if f (path_Join [root, ''bin'', Executable target]) \<noteq> None
            then rt = managed_runtime root target (ro_RuntimeVersion opts)
            else ro_AllowPATH opts \<and> Source rt = ''path'' \<and>
              lookPath (windows os) inherited f (binaryBaseName (Executable target)) (case ro_Env opts of Some m \<Rightarrow> m | None \<Rightarrow> parse_environ (environ_of os))
                (ro_Env opts = None) = Some (BinaryPath rt)))
    | Inl e \<Rightarrow>
        (if ExplicitBinary opts \<noteq> '''' then f (path_Clean (ExplicitBinary opts)) = None
         else if runtime_env os opts \<noteq> '''' then f (path_Clean (runtime_env os opts)) = None
         else case managedInstallRoot os (ro_CacheRoot opts) (ro_RuntimeVersion opts) target of
             Inl e' \<Rightarrow> e = e'
           | Inr root \<Rightarrow> f (path_Join [root, ''bin'', Executable target]) = None \<and> errors_Is e ErrRuntimeNotInstalled)"
  unfolding ResolveRuntime_def runtime_env_def Let_def
  by (auto simp: given_binary_source managed_runtime_source ErrRuntimeNotInstalled_def split: sum.splits option.splits if_splits)

end
