(* ===== verification/Install_Inputs.thy ===== *)
theory Install_Inputs
  imports Runtimebin
begin

text \<open>
  \<open>resolveInstallInputs\<close> of \<open>internal/runtimebin/installer.go\<close>: where the manifest, its signature
  and the archive of an installation come from, and \<open>LoadManifest\<close> and \<open>LoadSignatureEnvelope\<close> of
  \<open>manifest.go\<close>. Reading a file, an HTTP exchange, JSON and base64 decoding and the parsing of
  URLs are arguments, kept together in one record.
\<close>

record response =
  rs_StatusCode :: int
  rs_Status :: string
  rs_ContentLength :: int
  rs_Body :: string
  rs_BodyErr :: "go_error option"

record world =
  w_ReadFile :: "string \<Rightarrow> go_error + string"
  w_Do :: "string \<Rightarrow> go_error + response"
  w_Manifest :: "string \<Rightarrow> go_error + Manifest"
  w_Envelope :: "string \<Rightarrow> go_error + SignatureEnvelope"
  w_decode64 :: "string \<Rightarrow> go_error + string"
  w_Parse :: "string \<Rightarrow> go_error + string \<times> string"
  w_sanitizeURL :: "string \<Rightarrow> string"
  w_CreateTemp :: "go_error + string"
  w_WriteFile :: "string \<Rightarrow> string \<Rightarrow> go_error option"

definition LoadManifest :: "world \<Rightarrow> string \<Rightarrow> go_error + Manifest \<times> string" where
  "LoadManifest w path =
    (case w_ReadFile w path of
       Inl e \<Rightarrow> Inl e
     | Inr bytes \<Rightarrow>
        (case w_Manifest w bytes of
           Inl e \<Rightarrow> Inl e
         | Inr m \<Rightarrow> (case Validate m of Some e \<Rightarrow> Inl e | None \<Rightarrow> Inr (m, bytes))))"

definition LoadSignatureEnvelope :: "world \<Rightarrow> string \<Rightarrow> go_error + SignatureEnvelope" where
  "LoadSignatureEnvelope w path =
    (case w_ReadFile w path of
       Inl e \<Rightarrow> Inl e
     | Inr bytes \<Rightarrow>
        (case w_Envelope w bytes of
           Inl e \<Rightarrow> Inl e
         | Inr env \<Rightarrow>
            if se_KeyID env = '''' \<or> se_Algorithm env \<noteq> ''ed25519'' \<or> se_Signature env = ''''
            then Inl (Text ''runtimebin: invalid signature envelope'')
            else (case w_decode64 w (se_Signature env) of
                Inl e \<Rightarrow> Inl (Wrapped (''runtimebin: invalid signature encoding: '' @ err_text e) [e])
              | Inr _ \<Rightarrow> Inr env)))"

text \<open>\<open>io.ReadAll\<close> of a \<open>LimitReader\<close>: an error behind the limit is never seen.\<close>

definition read_limited :: "int \<Rightarrow> response \<Rightarrow> go_error + string" where
  "read_limited limit r =
    (if limit \<le> int (length (rs_Body r)) then Inr (take (nat limit) (rs_Body r))
     else case rs_BodyErr r of Some e \<Rightarrow> Inl e | None \<Rightarrow> Inr (rs_Body r))"

definition downloadURL :: "world \<Rightarrow> string \<Rightarrow> int \<Rightarrow> go_error + string" where
  "downloadURL w rawURL maxBytes =
    (let too_big = Inl (Text (''runtimebin: download '' @ w_sanitizeURL w rawURL @ '' exceeds size limit''))
     in case w_Do w rawURL of
          Inl e \<Rightarrow> Inl e
        | Inr r \<Rightarrow>
           if rs_StatusCode r \<noteq> 200
           then Inl (Text (''runtimebin: download '' @ w_sanitizeURL w rawURL @ '' failed: '' @ rs_Status r))
           else if rs_ContentLength r > maxBytes then too_big
           else (case read_limited (add64 maxBytes 1) r of
               Inl e \<Rightarrow> Inl e
             | Inr d \<Rightarrow> if int (length d) > maxBytes then too_big else Inr d))"

record input_options =
  in_ManifestPath :: string
  in_SignaturePath :: string
  in_ArchivePath :: string
  in_ManifestURL :: string
  in_SignatureURL :: string
  in_BaseURL :: string
  in_MaxArchiveBytes :: int

record install_inputs =
  ii_Manifest :: Manifest
  ii_Bytes :: string
  ii_Envelope :: SignatureEnvelope
  ii_ArchivePath :: string

definition trimRightSlash :: "string \<Rightarrow> string" where
  "trimRightSlash s = rev (dropWhile (\<lambda>c. c = CHR ''/'') (rev s))"

text \<open>The files given by path.\<close>

definition local_inputs :: "world \<Rightarrow> input_options \<Rightarrow> go_error + install_inputs" where
  "local_inputs w opts =
    (case LoadManifest w (in_ManifestPath opts) of
       Inl e \<Rightarrow> Inl e
     | Inr (m, bytes) \<Rightarrow>
        (case LoadSignatureEnvelope w (in_SignaturePath opts) of
           Inl e \<Rightarrow> Inl e
         | Inr env \<Rightarrow> Inr \<lparr>ii_Manifest = m, ii_Bytes = bytes, ii_Envelope = env, ii_ArchivePath = in_ArchivePath opts\<rparr>))"

text \<open>The manifest and signature URLs of an online installation.\<close>

definition input_urls :: "input_options \<Rightarrow> go_error + string \<times> string" where
  "input_urls opts =
    (let base = trimRightSlash (in_BaseURL opts)
     in if in_ManifestURL opts = '''' \<and> \<not> hasPrefix base ''https://''
        then Inl (Text ''runtimebin: online install requires an https base URL'')
        else
         (let (mURL, sURL) = (if in_ManifestURL opts = ''''
              then (base @ ''/codex-sdk-go-runtime-manifest.json'', base @ ''/codex-sdk-go-runtime-manifest.json.sig'')
              else (in_ManifestURL opts, in_SignatureURL opts))
          in if \<not> hasPrefix mURL ''https://'' \<or> \<not> hasPrefix sURL ''https://''
             then Inl (Text ''runtimebin: online install requires https manifest URLs'')
             else Inr (mURL, sURL)))"

text \<open>The manifest and the signature, downloaded and decoded; the manifest is validated.\<close>

definition download_manifest :: "world \<Rightarrow> int \<Rightarrow> string \<Rightarrow> string \<Rightarrow> go_error + Manifest \<times> string \<times> SignatureEnvelope" where
  "download_manifest w maxBytes mURL sURL =
    (case downloadURL w mURL maxBytes of
       Inl e \<Rightarrow> Inl e
     | Inr bytes \<Rightarrow>
        (case w_Manifest w bytes of
           Inl e \<Rightarrow> Inl e
         | Inr m \<Rightarrow>
            (case Validate m of
               Some e \<Rightarrow> Inl e
             | None \<Rightarrow>
                (case downloadURL w sURL 65536 of
                   Inl e \<Rightarrow> Inl e
                 | Inr sbytes \<Rightarrow> (case w_Envelope w sbytes of Inl e \<Rightarrow> Inl e | Inr env \<Rightarrow> Inr (m, bytes, env))))))"

text \<open>The archive, written to a temporary file.\<close>

definition download_archive :: "world \<Rightarrow> int \<Rightarrow> string \<Rightarrow> go_error + string" where
  "download_archive w maxBytes url =
    (case w_CreateTemp w of
       Inl e \<Rightarrow> Inl e
     | Inr tmp \<Rightarrow>
        (case downloadURL w url maxBytes of
           Inl e \<Rightarrow> Inl e
         | Inr bytes \<Rightarrow> (case w_WriteFile w tmp bytes of Some e \<Rightarrow> Inl e | None \<Rightarrow> Inr tmp)))"

definition archive_url :: "input_options \<Rightarrow> ManifestTarget \<Rightarrow> string" where
  "archive_url opts rec =
    (if in_BaseURL opts = '''' then '''' else trimRightSlash (in_BaseURL opts) @ ''/'' @ mt_ArchiveName rec)"

definition resolveInstallInputs :: "world \<Rightarrow> input_options \<Rightarrow> TargetSpec \<Rightarrow> go_error + install_inputs" where
  "resolveInstallInputs w opts target =
    (if in_ManifestPath opts \<noteq> '''' \<and> in_SignaturePath opts \<noteq> '''' \<and> in_ArchivePath opts \<noteq> '''' then local_inputs w opts
     else case input_urls opts of
         Inl e \<Rightarrow> Inl e
       | Inr (mURL, sURL) \<Rightarrow>
          (case download_manifest w (in_MaxArchiveBytes opts) mURL sURL of
             Inl e \<Rightarrow> Inl e
           | Inr (m, bytes, env) \<Rightarrow>
              (case Manifest_Target m (Triple target) of
                 Inl e \<Rightarrow> Inl e
               | Inr rec \<Rightarrow>
                  if \<not> hasPrefix (archive_url opts rec) ''https://''
                  then Inl (Text ''runtimebin: online install requires https archive URLs'')
                  else (case enforceSameHostPolicy (w_Parse w) [mURL, sURL, archive_url opts rec] of
                      Some e \<Rightarrow> Inl e
                    | None \<Rightarrow>
                       (case download_archive w (in_MaxArchiveBytes opts) (archive_url opts rec) of
                          Inl e \<Rightarrow> Inl e
                        | Inr tmp \<Rightarrow>
                           Inr \<lparr>ii_Manifest = m, ii_Bytes = bytes, ii_Envelope = env, ii_ArchivePath = tmp\<rparr>)))))"

end
