(* ===== verification/Thread_Locks.thy ===== *)
theory Thread_Locks
  imports Go_Prelude
begin

text \<open>
  The lock per thread of \<open>client.go\<close>: \<open>threadLock\<close> hands out the entry of a thread and counts
  its users, \<open>releaseThreadLock\<close> removes the entry with the last user, and \<open>withThreadLock\<close> runs
  its function between the two with the mutex of the entry held. Any number of goroutines run
  it at the same time; each of their steps is one step of \<open>lstep\<close>.
\<close>

section \<open>The table\<close>

record threadStartLock =
  mu :: bool
  users :: int

record lock_table =
  threadLocks :: "nat gomap"
  lockHeap :: "nat \<Rightarrow> threadStartLock"
  nextLock :: nat

definition empty_table :: lock_table where
  "empty_table = \<lparr>threadLocks = [], lockHeap = (\<lambda>_. \<lparr>mu = False, users = 0\<rparr>), nextLock = 0\<rparr>"

definition threadLock :: "string \<Rightarrow> lock_table \<Rightarrow> lock_table \<times> nat" where
  "threadLock threadID t =
    (case map_of (threadLocks t) threadID of
       Some a \<Rightarrow> (t\<lparr>lockHeap := (lockHeap t)(a := (lockHeap t a)\<lparr>users := users (lockHeap t a) + 1\<rparr>)\<rparr>, a)
     | None \<Rightarrow>
        (let a = nextLock t
         in (t\<lparr>threadLocks := AList.update threadID a (threadLocks t),
               lockHeap := (lockHeap t)(a := \<lparr>mu = False, users = 1\<rparr>), nextLock := Suc a\<rparr>, a)))"

definition releaseThreadLock :: "string \<Rightarrow> nat \<Rightarrow> lock_table \<Rightarrow> lock_table" where
  "releaseThreadLock threadID a t =
    (let n = users (lockHeap t a) - 1;
         t1 = t\<lparr>lockHeap := (lockHeap t)(a := (lockHeap t a)\<lparr>users := n\<rparr>)\<rparr>
     in if n = 0 then t1\<lparr>threadLocks := AList.delete threadID (threadLocks t1)\<rparr> else t1)"

definition set_mu :: "nat \<Rightarrow> bool \<Rightarrow> lock_table \<Rightarrow> lock_table" where
  "set_mu a b t = t\<lparr>lockHeap := (lockHeap t)(a := (lockHeap t a)\<lparr>mu := b\<rparr>)\<rparr>"

section \<open>The goroutines\<close>

text \<open>Where a goroutine is in \<open>withThreadLock\<close>: at \<open>entry.mu.Lock\<close>, in \<open>fn\<close>, or past the unlock.\<close>

datatype phase = Outside | Waiting string nat | Inside string nat | Leaving string nat

fun target :: "phase \<Rightarrow> (string \<times> nat) option" where
  "target Outside = None"
| "target (Waiting i a) = Some (i, a)"
| "target (Inside i a) = Some (i, a)"
| "target (Leaving i a) = Some (i, a)"

type_synonym lsys = "lock_table \<times> (nat \<Rightarrow> phase)"

inductive lstep :: "lsys \<Rightarrow> lsys \<Rightarrow> bool" where
  enter: "ph p = Outside \<Longrightarrow> threadLock i t = (t', a) \<Longrightarrow> lstep (t, ph) (t', ph(p := Waiting i a))"
| lock: "ph p = Waiting i a \<Longrightarrow> \<not> mu (lockHeap t a) \<Longrightarrow> lstep (t, ph) (set_mu a True t, ph(p := Inside i a))"
| unlock: "ph p = Inside i a \<Longrightarrow> lstep (t, ph) (set_mu a False t, ph(p := Leaving i a))"
| release: "ph p = Leaving i a \<Longrightarrow> lstep (t, ph) (releaseThreadLock i a t, ph(p := Outside))"

inductive lreach :: "lsys \<Rightarrow> bool" where
  start: "lreach (empty_table, \<lambda>_. Outside)"
| step: "lreach s \<Longrightarrow> lstep s s' \<Longrightarrow> lreach s'"

section \<open>The invariant\<close>

definition holders :: "(nat \<Rightarrow> phase) \<Rightarrow> nat \<Rightarrow> nat set" where
  "holders ph a = {p. \<exists>i. target (ph p) = Some (i, a)}"

definition inside :: "(nat \<Rightarrow> phase) \<Rightarrow> nat \<Rightarrow> nat set" where
  "inside ph a = {p. \<exists>i. ph p = Inside i a}"

definition linv :: "lsys \<Rightarrow> bool" where
  "linv s \<longleftrightarrow> (case s of (t, ph) \<Rightarrow>
     (\<forall>p i a. target (ph p) = Some (i, a) \<longrightarrow> map_of (threadLocks t) i = Some a) \<and>
     (\<forall>i j a. map_of (threadLocks t) i = Some a \<longrightarrow> map_of (threadLocks t) j = Some a \<longrightarrow> i = j) \<and>
     (\<forall>i a. map_of (threadLocks t) i = Some a \<longrightarrow> a < nextLock t \<and> holders ph a \<noteq> {}) \<and>
     (\<forall>a. finite (holders ph a) \<and> (holders ph a \<noteq> {} \<longrightarrow> users (lockHeap t a) = int (card (holders ph a)))) \<and>
     (\<forall>a. if mu (lockHeap t a) then \<exists>p. inside ph a = {p} else inside ph a = {}))"

lemma holders_upd:
  "target (ph p) = None \<Longrightarrow> target x = Some (i, a) \<Longrightarrow>
     holders (ph(p := x)) b = (if b = a then insert p (holders ph b) else holders ph b)"
  "target (ph p) = target x \<Longrightarrow> holders (ph(p := x)) b = holders ph b"
  "target (ph p) = Some (i, a) \<Longrightarrow> target x = None \<Longrightarrow>
     holders (ph(p := x)) b = (if b = a then holders ph b - {p} else holders ph b)"
  by (auto simp: holders_def) metis+

lemma linv_look: "linv (t, ph) \<Longrightarrow> target (ph p) = Some (i, a) \<Longrightarrow> map_of (threadLocks t) i = Some a"
  by (auto simp: linv_def)

lemma inside_upd:
  "(\<And>i a. ph p \<noteq> Inside i a) \<Longrightarrow> (\<And>i a. x \<noteq> Inside i a) \<Longrightarrow> inside (ph(p := x)) b = inside ph b"
  "(\<And>i a. ph p \<noteq> Inside i a) \<Longrightarrow> inside (ph(p := Inside i a)) b = (if b = a then insert p (inside ph b) else inside ph b)"
  "ph p = Inside i a \<Longrightarrow> (\<And>i a. x \<noteq> Inside i a) \<Longrightarrow>
     inside (ph(p := x)) b = (if b = a then inside ph b - {p} else inside ph b)"
  by (auto simp: inside_def)

lemma inside_holders: "inside ph a \<subseteq> holders ph a"
  by (auto simp: inside_def holders_def)

lemma fresh_lock:
  assumes "linv (t, ph)" "nextLock t \<le> a"
  shows "holders ph a = {}"
  using assms by (fastforce simp: linv_def holders_def)

lemma linv_enter:
  assumes inv: "linv (t, ph)" and p: "ph p = Outside" and tl: "threadLock i t = (t', a)"
  shows "linv (t', ph(p := Waiting i a))"
proof (cases "map_of (threadLocks t) i")
  case None
  then have a: "a = nextLock t" and t': "t' = t\<lparr>threadLocks := AList.update i a (threadLocks t),
      lockHeap := (lockHeap t)(a := \<lparr>mu = False, users = 1\<rparr>), nextLock := Suc a\<rparr>"
    using tl by (auto simp: threadLock_def Let_def)
  have h: "holders ph a = {}" using fresh_lock [OF inv] a by simp
  then have "inside ph a = {}" using inside_holders [of ph a] by simp
  moreover have "p \<notin> holders ph b" for b using p by (simp add: holders_def)
  ultimately show ?thesis
    using inv None h p unfolding linv_def t' a
    by (auto simp: holders_upd(1) [of ph p _ i] inside_upd(1) less_Suc_eq)
next
  case (Some b)
  then have a: "a = b" and t': "t' = t\<lparr>lockHeap := (lockHeap t)(a := (lockHeap t a)\<lparr>users := users (lockHeap t a) + 1\<rparr>)\<rparr>"
    using tl by (auto simp: threadLock_def)
  have "holders ph a \<noteq> {}" "finite (holders ph a)" "users (lockHeap t a) = int (card (holders ph a))"
    using inv Some a by (auto simp: linv_def)
  moreover have "p \<notin> holders ph c" for c using p by (simp add: holders_def)
  ultimately show ?thesis
    using inv Some p a unfolding linv_def t'
    by (auto simp: holders_upd(1) [of ph p _ i] inside_upd(1))
qed

lemma linv_lock:
  assumes inv: "linv (t, ph)" and p: "ph p = Waiting i a" and m: "\<not> mu (lockHeap t a)"
  shows "linv (set_mu a True t, ph(p := Inside i a))"
proof -
  have h: "holders (ph(p := Inside i a)) b = holders ph b" for b using p by (simp add: holders_upd(2))
  have "inside ph a = {}" using inv m by (auto simp: linv_def split: if_splits)
  then have "inside (ph(p := Inside i a)) b = (if b = a then {p} else inside ph b)" for b
    using p by (simp add: inside_upd(2))
  then show ?thesis using inv h linv_look [OF inv, of p i a] p unfolding linv_def set_mu_def by auto
qed

lemma linv_unlock:
  assumes inv: "linv (t, ph)" and p: "ph p = Inside i a"
  shows "linv (set_mu a False t, ph(p := Leaving i a))"
proof -
  have h: "holders (ph(p := Leaving i a)) b = holders ph b" for b using p by (simp add: holders_upd(2))
  have "p \<in> inside ph a" using p by (auto simp: inside_def)
  moreover have "if mu (lockHeap t a) then \<exists>q. inside ph a = {q} else inside ph a = {}" using inv by (auto simp: linv_def)
  ultimately have "inside ph a = {p}" by (auto split: if_splits)
  then have "inside (ph(p := Leaving i a)) b = (if b = a then {} else inside ph b)" for b
    using p by (simp add: inside_upd(3))
  then show ?thesis using inv h linv_look [OF inv, of p i a] p unfolding linv_def set_mu_def by auto
qed

lemma linv_release:
  assumes inv: "linv (t, ph)" and p: "ph p = Leaving i a"
  shows "linv (releaseThreadLock i a t, ph(p := Outside))"
proof -
  have ia: "map_of (threadLocks t) i = Some a" using linv_look [OF inv, of p i a] p by simp
  have pa: "p \<in> holders ph a" using p by (auto simp: holders_def)
  then have fin: "finite (holders ph a)" and u: "users (lockHeap t a) = int (card (holders ph a))"
    using inv by (auto simp: linv_def)
  have card: "int (card (holders ph a - {p})) = users (lockHeap t a) - 1"
    using fin pa u card_gt_0_iff [of "holders ph a"] by (auto simp: card_Diff_singleton of_nat_diff)
  have h: "holders (ph(p := Outside)) b = (if b = a then holders ph b - {p} else holders ph b)" for b
    using p by (simp add: holders_upd(3))
  have ins: "inside (ph(p := Outside)) b = inside ph b" for b using p by (simp add: inside_upd(1))
  have others: "target (ph q) = Some (j, b) \<Longrightarrow> map_of (threadLocks t) j = Some b" for q j b
    using inv by (auto simp: linv_def)
  have inj: "map_of (threadLocks t) j = Some a \<Longrightarrow> j = i" for j
    using inv ia by (simp add: linv_def)
  show ?thesis
  proof (cases "users (lockHeap t a) - 1 = 0")
    case True
    then have none: "holders ph a - {p} = {}" using card fin by auto
    have "j \<noteq> i" if "q \<noteq> p" "target (ph q) = Some (j, b)" for q j b
    proof
      assume "j = i"
      then have "b = a" using others [OF that(2)] ia by simp
      then have "q \<in> holders ph a" using that(2) by (auto simp: holders_def)
      then show False using none that(1) by auto
    qed
    moreover have "b \<noteq> a" if "map_of (threadLocks t) j = Some b" "j \<noteq> i" for j b using inj that by auto
    ultimately show ?thesis
      using inv True none unfolding linv_def releaseThreadLock_def
      by (auto simp: h ins Let_def split: if_splits)
  next
    case False
    then have "holders ph a - {p} \<noteq> {}" using card fin by (metis card.empty of_nat_0)
    then show ?thesis
      using inv False card fin others unfolding linv_def releaseThreadLock_def
      by (auto simp: h ins Let_def split: if_splits)
  qed
qed

lemma lreach_inv: "lreach s \<Longrightarrow> linv s"
proof (induction rule: lreach.induct)
  case start
  then show ?case by (simp add: linv_def empty_table_def holders_def inside_def)
next
  case (step s s')
  from step.hyps(2) step.IH show ?case
    by (cases rule: lstep.cases) (auto intro: linv_enter linv_lock linv_unlock linv_release)
qed

section \<open>Properties\<close>

text \<open>C12: However many goroutines call \<open>withThreadLock\<close>, at most one at a time runs its function
  for a thread, although entries of the table come and go; a goroutine that waits while nobody is
  inside can always proceed; and when all have returned the table is empty again.\<close>
theorem thread_lock_exclusive:
  assumes "lreach (t, ph)"
  shows "(\<forall>p q i a b. ph p = Inside i a \<and> ph q = Inside i b \<longrightarrow> p = q) \<and>
    (\<forall>p i a. ph p = Waiting i a \<and> (\<forall>q b. ph q \<noteq> Inside i b) \<longrightarrow>
       lstep (t, ph) (set_mu a True t, ph(p := Inside i a))) \<and>
    ((\<forall>p. ph p = Outside) \<longrightarrow> threadLocks t = [])"
proof (intro conjI allI impI)
  note inv = lreach_inv [OF assms]
  have look: "target (ph p) = Some (i, a) \<Longrightarrow> map_of (threadLocks t) i = Some a" for p i a
    using inv by (auto simp: linv_def)
  have one: "if mu (lockHeap t a) then \<exists>p. inside ph a = {p} else inside ph a = {}" for a
    using inv by (auto simp: linv_def)
  fix p q i a b
  {
    assume pq: "ph p = Inside i a \<and> ph q = Inside i b"
    then have "a = b" using look [of p i a] look [of q i b] by simp
    then have "p \<in> inside ph a" "q \<in> inside ph a" using pq by (auto simp: inside_def)
    then show "p = q" using one [of a] by (auto split: if_splits)
  }
  {
    assume w: "ph p = Waiting i a \<and> (\<forall>q b. ph q \<noteq> Inside i b)"
    have "inside ph a = {}"
    proof (rule ccontr)
      assume "inside ph a \<noteq> {}"
      then obtain r j where r: "ph r = Inside j a" by (auto simp: inside_def)
      then have "j = i" using look [of r j a] look [of p i a] w inv by (auto simp: linv_def)
      then show False using w r by blast
    qed
    then have "\<not> mu (lockHeap t a)" using one [of a] by (auto split: if_splits)
    then show "lstep (t, ph) (set_mu a True t, ph(p := Inside i a))" using w by (blast intro: lstep.lock)
  }
  assume "\<forall>p. ph p = Outside"
  then have "holders ph c = {}" for c by (simp add: holders_def)
  then have "map_of (threadLocks t) j = None" for j using inv by (fastforce simp: linv_def)
  then show "threadLocks t = []" by (cases "threadLocks t") (auto split: if_splits prod.splits, metis option.distinct(1) prod.collapse)
qed

text \<open>Two goroutines after the same thread: one inside, one waiting at the same entry.\<close>

definition contended_table :: lock_table where
  "contended_table = \<lparr>threadLocks = [(''th'', 0)],
     lockHeap = (\<lambda>_. \<lparr>mu = False, users = 0\<rparr>)(0 := \<lparr>mu = True, users = 2\<rparr>), nextLock = 1\<rparr>"

definition contended_phases :: "nat \<Rightarrow> phase" where
  "contended_phases = (\<lambda>_. Outside)(0 := Inside ''th'' 0, 1 := Waiting ''th'' 0)"

lemma lreach_contended: "lreach (contended_table, contended_phases)"
proof -
  let ?t1 = "fst (threadLock ''th'' empty_table)"
  have "lreach (?t1, (\<lambda>_. Outside)(0 := Waiting ''th'' 0))"
    by (rule lreach.step [OF lreach.start], rule lstep.enter)
      (simp_all add: threadLock_def empty_table_def)
  moreover have "lstep (?t1, (\<lambda>_. Outside)(0 := Waiting ''th'' 0))
      (set_mu 0 True ?t1, (\<lambda>_. Outside)(0 := Inside ''th'' 0))"
    using lstep.lock [of "(\<lambda>_. Outside)(0 := Waiting ''th'' 0)" 0 "''th''" 0 ?t1]
    by (simp add: threadLock_def empty_table_def)
  ultimately have "lreach (set_mu 0 True ?t1, (\<lambda>_. Outside)(0 := Inside ''th'' 0))"
    by (rule lreach.step)
  then have "lreach (fst (threadLock ''th'' (set_mu 0 True ?t1)), contended_phases)"
    unfolding contended_phases_def
    by (rule lreach.step) (rule lstep.enter, simp_all add: threadLock_def empty_table_def set_mu_def)
  moreover have "fst (threadLock ''th'' (set_mu 0 True ?t1)) = contended_table"
    by (simp add: threadLock_def empty_table_def set_mu_def contended_table_def)
  ultimately show ?thesis by simp
qed

theorem thread_lock_exclusive_witness:
  "contended_phases 1 = Waiting ''th'' 0 \<and> {q. \<exists>b. contended_phases q = Inside ''th'' b} = {0}"
proof -
  have "contended_phases 0 = Inside ''th'' 0" "contended_phases 1 = Waiting ''th'' 0"
    by (simp_all add: contended_phases_def)
  then show ?thesis using thread_lock_exclusive [OF lreach_contended] by blast
qed

end
