(* ===== verification/Thread_Methods.thy ===== *)
theory Thread_Methods
  imports Client
begin

text \<open>
  The methods of \<open>Thread\<close>, \<open>TurnHandle\<close>, \<open>GoalHandle\<close> and the login handles: the checks they make
  before they call the client. A thread is its client, nil or not, and its identifier; a context is
  nil or carries the error that ends it.
\<close>

section \<open>Receivers and contexts\<close>

datatype ctx_arg = NilCtx | Ctx "go_error option"

definition nil_context :: go_error where
  "nil_context = Text ''codex: nil context''"

text \<open>A nil context that reaches the transport is the background context.\<close>

fun ctx_err :: "ctx_arg \<Rightarrow> go_error option" where
  "ctx_err NilCtx = None"
| "ctx_err (Ctx e) = e"

definition with_ctx :: "ctx_arg \<Rightarrow> (go_error option \<Rightarrow> 's \<Rightarrow> ('s \<times> (go_error + 'a)) option) \<Rightarrow> 's \<Rightarrow> ('s \<times> (go_error + 'a)) option" where
  "with_ctx ctx f s = (case ctx of NilCtx \<Rightarrow> Some (s, Inl nil_context) | Ctx e \<Rightarrow> f e s)"

definition ensureMaterialized :: "string \<Rightarrow> Client option \<Rightarrow> go_error option" where
  "ensureMaterialized threadID c = (if c = None \<or> threadID = '''' then Some ErrTransportClosed else None)"

definition on_thread ::
  "string \<Rightarrow> (Client \<Rightarrow> (Client \<times> (go_error + 'a)) option) \<Rightarrow> Client option \<Rightarrow> (Client option \<times> (go_error + 'a)) option" where
  "on_thread threadID f c =
    (case (ensureMaterialized threadID c, c) of
       (None, Some c0) \<Rightarrow> map_option (\<lambda>(c1, r). (Some c1, r)) (f c0)
     | (Some e, _) \<Rightarrow> Some (c, Inl e)
     | (None, None) \<Rightarrow> Some (c, Inl ErrTransportClosed))"

section \<open>Threads\<close>

definition ReadContext ::
  "(string \<Rightarrow> string) \<Rightarrow> host \<Rightarrow> ctx_arg \<Rightarrow> string \<Rightarrow> bool \<Rightarrow> Client option \<Rightarrow> (Client option \<times> (go_error + ThreadRecord)) option" where
  "ReadContext fmtFloat h ctx threadID includeTurns =
    with_ctx ctx (\<lambda>e. on_thread threadID (on_transport (ReadThread fmtFloat h e threadID includeTurns)))"

definition SetNameContext :: "host \<Rightarrow> ctx_arg \<Rightarrow> string \<Rightarrow> string \<Rightarrow> Client option \<Rightarrow> (Client option \<times> (go_error + unit)) option" where
  "SetNameContext h ctx threadID name =
    with_ctx ctx (\<lambda>e. on_thread threadID (on_transport (SetThreadName h e threadID name)))"

definition CompactContext :: "host \<Rightarrow> ctx_arg \<Rightarrow> string \<Rightarrow> Client option \<Rightarrow> (Client option \<times> (go_error + unit)) option" where
  "CompactContext h ctx threadID =
    with_ctx ctx (\<lambda>e. on_thread threadID (on_transport (CompactThread h e threadID)))"

text \<open>The result is nil only when the checks fail; afterwards it comes with the error.\<close>

definition CompactContextAndWait ::
  "(string \<Rightarrow> string) \<Rightarrow> host \<Rightarrow> ctx_arg \<Rightarrow> compaction_arrival \<Rightarrow> string \<Rightarrow> Client option \<Rightarrow>
   (Client option \<times> (go_error + CompactionResult \<times> go_error option)) option" where
  "CompactContextAndWait fmtFloat h ctx arrival threadID =
    with_ctx ctx (\<lambda>e. on_thread threadID (on_transport (\<lambda>s.
      map_option (\<lambda>(s1, r, err). (s1, Inr (r, err))) (CompactThreadAndWait fmtFloat h e arrival threadID s))))"

definition ArchiveContext :: "host \<Rightarrow> ctx_arg \<Rightarrow> string \<Rightarrow> Client option \<Rightarrow> (Client option \<times> (go_error + unit)) option" where
  "ArchiveContext h ctx threadID = on_thread threadID (on_transport (ArchiveThread h (ctx_err ctx) threadID))"

definition UnarchiveContext :: "host \<Rightarrow> ctx_arg \<Rightarrow> string \<Rightarrow> Client option \<Rightarrow> (Client option \<times> (go_error + unit)) option" where
  "UnarchiveContext h ctx threadID = on_thread threadID (on_transport (UnarchiveThread h (ctx_err ctx) threadID))"

definition ForkContext ::
  "(string \<Rightarrow> string) \<Rightarrow> host \<Rightarrow> ctx_arg \<Rightarrow> string \<Rightarrow> ThreadOptions \<Rightarrow> Client option \<Rightarrow> (Client option \<times> (go_error + string)) option" where
  "ForkContext fmtFloat h ctx threadID opts = on_thread threadID (on_transport (ForkThread fmtFloat h (ctx_err ctx) threadID opts))"

text \<open>\<open>StartTurn\<close> takes the context of the options, the background context when that is nil.\<close>

definition Thread_StartTurnContext ::
  "host \<Rightarrow> ctx_arg \<Rightarrow> string \<Rightarrow> Input \<Rightarrow> TurnOptions \<Rightarrow> Client option \<Rightarrow> (Client option \<times> (go_error + TurnHandle)) option" where
  "Thread_StartTurnContext h ctx threadID inp opts =
    with_ctx ctx (\<lambda>e. on_thread threadID (startTurn h e threadID inp opts))"

definition Thread_StartTurn ::
  "host \<Rightarrow> ctx_arg \<Rightarrow> string \<Rightarrow> Input \<Rightarrow> TurnOptions \<Rightarrow> Client option \<Rightarrow> (Client option \<times> (go_error + TurnHandle)) option" where
  "Thread_StartTurn h optCtx threadID inp opts = Thread_StartTurnContext h (Ctx (ctx_err optCtx)) threadID inp opts"

definition GetGoalContext :: "host \<Rightarrow> ctx_arg \<Rightarrow> string \<Rightarrow> Client option \<Rightarrow> (Client option \<times> (go_error + Goal)) option" where
  "GetGoalContext h ctx threadID = on_thread threadID (on_transport (GetGoal h (ctx_err ctx) threadID))"

definition SetGoalContext :: "host \<Rightarrow> ctx_arg \<Rightarrow> string \<Rightarrow> GoalUpdate \<Rightarrow> Client option \<Rightarrow> (Client option \<times> (go_error + Goal)) option" where
  "SetGoalContext h ctx threadID upd = on_thread threadID (on_transport (SetGoal h (ctx_err ctx) threadID upd))"

definition ClearGoalContext :: "host \<Rightarrow> ctx_arg \<Rightarrow> string \<Rightarrow> Client option \<Rightarrow> (Client option \<times> (go_error + unit)) option" where
  "ClearGoalContext h ctx threadID = on_thread threadID (on_transport (ClearGoal h (ctx_err ctx) threadID))"

definition PauseGoalContext :: "host \<Rightarrow> ctx_arg \<Rightarrow> string \<Rightarrow> Client option \<Rightarrow> (Client option \<times> (go_error + Goal)) option" where
  "PauseGoalContext h ctx threadID = on_thread threadID (on_transport (PauseGoal h (ctx_err ctx) threadID))"

definition StartGoalContext ::
  "(string \<Rightarrow> string) \<Rightarrow> host \<Rightarrow> ctx_arg \<Rightarrow> nat \<Rightarrow> wait_end \<Rightarrow> string \<Rightarrow> string \<Rightarrow> Client option \<Rightarrow>
   (Client option \<times> (go_error + string)) option" where
  "StartGoalContext fmtFloat h ctx n ended threadID objective =
    on_thread threadID (\<lambda>c. with_ctx ctx (\<lambda>e. StartGoal fmtFloat h e n ended threadID objective) c)"

section \<open>Handles\<close>

definition SteerContext :: "host \<Rightarrow> ctx_arg \<Rightarrow> TurnHandle \<Rightarrow> Input \<Rightarrow> Client \<Rightarrow> (Client \<times> (go_error + unit)) option" where
  "SteerContext h ctx th inp = on_transport (steerTurn h (ctx_err ctx) (th_threadID th) (th_id th) inp)"

definition InterruptContext :: "host \<Rightarrow> ctx_arg \<Rightarrow> TurnHandle \<Rightarrow> Client \<Rightarrow> (Client \<times> (go_error + unit)) option" where
  "InterruptContext h ctx th = on_transport (interruptTurn h (ctx_err ctx) (th_threadID th) (th_id th))"

definition GoalHandle_CancelContext :: "host \<Rightarrow> goalOperation \<Rightarrow> GoalStream \<Rightarrow> Client \<Rightarrow> Client \<times> goalOperation \<times> GoalStream" where
  "GoalHandle_CancelContext h g s c =
    (case cancelGoalOperation h g (transport c) of
       (t, g1) \<Rightarrow>
        (case GoalHandle_Close (unregisterGoal (g_threadID g)) s (c\<lparr>transport := t\<rparr>) of (c1, s1) \<Rightarrow> (c1, g1, s1)))"

text \<open>The two kinds of login handle check and do the same.\<close>

definition on_login ::
  "ctx_arg \<Rightarrow> (go_error option \<Rightarrow> sdkClient \<Rightarrow> (sdkClient \<times> (go_error + 'a)) option) \<Rightarrow> sdkClient option \<Rightarrow>
   (sdkClient option \<times> (go_error + 'a)) option" where
  "on_login ctx f s =
    (case s of
       None \<Rightarrow> Some (None, Inl ErrTransportClosed)
     | Some s0 \<Rightarrow> map_option (\<lambda>(s1, r). (Some s1, r)) (with_ctx ctx f s0))"

definition Login_WaitContext ::
  "host \<Rightarrow> ctx_arg \<Rightarrow> string \<Rightarrow> sdkClient option \<Rightarrow> (sdkClient option \<times> (go_error + LoginResult)) option" where
  "Login_WaitContext h ctx loginID = on_login ctx (\<lambda>e. waitForLogin h e loginID)"

definition Login_CancelContext ::
  "host \<Rightarrow> ctx_arg \<Rightarrow> string \<Rightarrow> sdkClient option \<Rightarrow> (sdkClient option \<times> (go_error + unit)) option" where
  "Login_CancelContext h ctx loginID = on_login ctx (\<lambda>e. LoginHandle_Cancel h e loginID)"

section \<open>The client\<close>

definition Client_Metadata :: "Client option \<Rightarrow> (string \<times> string \<times> ServerInfo option) option" where
  "Client_Metadata c = (case c of None \<Rightarrow> None | Some c0 \<Rightarrow> metadataSnapshot (transport c0))"

definition Client_Wait :: "Client option \<Rightarrow> go_error option option" where
  "Client_Wait c = (case c of None \<Rightarrow> Some None | Some c0 \<Rightarrow> sdk_wait (transport c0))"

text \<open>\<open>WaitContext\<close>: the context that ends the wait gives its error.\<close>

definition Client_WaitContext :: "ctx_arg \<Rightarrow> Client option \<Rightarrow> go_error option option" where
  "Client_WaitContext ctx c =
    (case c of
       None \<Rightarrow> Some None
     | Some c0 \<Rightarrow> (case ctx of NilCtx \<Rightarrow> Some (Some nil_context) | Ctx (Some e) \<Rightarrow> Some (Some e) | Ctx None \<Rightarrow> sdk_wait (transport c0)))"

section \<open>What the checks are for\<close>

text \<open>A method of a thread without a client or without an identifier changes nothing and reports
  that the transport is closed; otherwise it is the operation of the client.\<close>

lemma on_thread_cases:
  "on_thread threadID f c =
    (if c = None \<or> threadID = '''' then Some (c, Inl ErrTransportClosed)
     else map_option (\<lambda>(c1, r). (Some c1, r)) (f (the c)))"
  by (cases c) (auto simp: on_thread_def ensureMaterialized_def)

lemma thread_start_turn_client:
  "threadID \<noteq> '''' \<Longrightarrow> Thread_StartTurn h optCtx threadID inp opts (Some c) =
    map_option (\<lambda>(c1, r). (Some c1, r)) (StartTurnContext h (ctx_err optCtx) threadID inp opts c)"
  by (simp add: Thread_StartTurn_def Thread_StartTurnContext_def with_ctx_def on_thread_cases StartTurnContext_def)

text \<open>Cancelling a goal releases its route and its entry once; a second call does neither again.\<close>

lemma goal_cancel_releases:
  assumes "GoalHandle_CancelContext h g s c = (c', g', s')"
  shows "gs_closed s'" "\<not> gs_closed s \<Longrightarrow> map_of (goals c') (g_threadID g) = None"
  using assms by (auto simp: GoalHandle_CancelContext_def GoalHandle_Close_def unregisterGoal_def delete_conv' split: prod.splits if_splits)

end
