(* ===== verification/Schema.thy ===== *)
theory Schema
  imports Payload Go_Path
begin

text \<open>
  JSON schemas as \<open>cmd/codex-sdk-gen/protocolgen.go\<close> reads them: a schema node is a non-nil
  \<open>map[string]any\<close>, an association list with distinct keys, and \<open>schema option\<close> is one that
  may be nil. The accessors of the generator, the Go names it derives and the discriminators of a
  union. Reading an absent key of a nil or of an empty map is the same, so an accessor that only
  looks up keys takes \<open>[]\<close> for nil.
\<close>

type_synonym schema = "json gomap"

named_theorems schema_defs \<open>definitions of the schema accessors\<close>

section \<open>Decoding\<close>

text \<open>\<open>json.Unmarshal\<close> into \<open>any\<close>: of a repeated name the last value counts, at every depth.\<close>

fun any_of :: "json \<Rightarrow> json"
and anys_of :: "json list \<Rightarrow> json list"
and any_members :: "members \<Rightarrow> members" where
  "any_of (JArr xs) = JArr (anys_of xs)"
| "any_of (JObj ms) = JObj (fill_map (any_members ms) [])"
| "any_of JNull = JNull"
| "any_of (JBool b) = JBool b"
| "any_of (JNum n) = JNum n"
| "any_of (JStr s) = JStr s"
| "anys_of [] = []"
| "anys_of (x # xs) = any_of x # anys_of xs"
| "any_members [] = []"
| "any_members ((k, v) # ms) = (k, any_of v) # any_members ms"

text \<open>\<open>value.(map[string]any)\<close> and \<open>value.([]any)\<close> on a value that may be absent.\<close>

definition obj_of :: "json option \<Rightarrow> schema option" where
  "obj_of v = (case v of Some (JObj ms) \<Rightarrow> Some ms | _ \<Rightarrow> None)"

definition arr_of :: "json option \<Rightarrow> json list" where
  "arr_of v = (case v of Some (JArr xs) \<Rightarrow> xs | _ \<Rightarrow> [])"

definition str_of :: "json option \<Rightarrow> string" where
  "str_of v = (case v of Some (JStr s) \<Rightarrow> s | _ \<Rightarrow> '''')"

definition nil_map :: "schema option \<Rightarrow> schema" where
  "nil_map m = (case m of None \<Rightarrow> [] | Some ms \<Rightarrow> ms)"

section \<open>Accessors\<close>

fun first_type :: "json list \<Rightarrow> string" where
  "first_type [] = ''''"
| "first_type (JStr s # xs) = (if s \<noteq> ''null'' then s else first_type xs)"
| "first_type (x # xs) = first_type xs"

definition nodeType :: "schema \<Rightarrow> string" where [schema_defs]:
  "nodeType node = (case map_of node ''type'' of
     Some (JStr s) \<Rightarrow> s
   | Some (JArr xs) \<Rightarrow> first_type xs
   | _ \<Rightarrow> '''')"

fun all_strings :: "json list \<Rightarrow> string list option" where
  "all_strings [] = Some []"
| "all_strings (JStr s # xs) = map_option (Cons s) (all_strings xs)"
| "all_strings (x # xs) = None"

text \<open>A value that is not a string makes the whole enumeration empty.\<close>

definition extractEnum :: "schema \<Rightarrow> string list" where [schema_defs]:
  "extractEnum node = (case all_strings (arr_of (map_of node ''enum'')) of Some xs \<Rightarrow> xs | None \<Rightarrow> [])"

fun schemas_in :: "json list \<Rightarrow> schema list" where
  "schemas_in [] = []"
| "schemas_in (JObj ms # xs) = ms # schemas_in xs"
| "schemas_in (x # xs) = schemas_in xs"

definition schemaList :: "json option \<Rightarrow> schema list" where [schema_defs]:
  "schemaList v = schemas_in (arr_of v)"

definition objectProperties :: "schema \<Rightarrow> schema" where [schema_defs]:
  "objectProperties node = nil_map (obj_of (map_of node ''properties''))"

definition additionalProperties :: "schema \<Rightarrow> schema option" where [schema_defs]:
  "additionalProperties node = (case map_of node ''additionalProperties'' of
     Some (JObj ms) \<Rightarrow> Some ms
   | Some (JBool b) \<Rightarrow> if b then Some [] else None
   | _ \<Rightarrow> None)"

definition itemSchema :: "schema \<Rightarrow> schema option" where [schema_defs]:
  "itemSchema node = obj_of (map_of node ''items'')"

fun strings_in :: "json list \<Rightarrow> string list" where
  "strings_in [] = []"
| "strings_in (JStr s # xs) = s # strings_in xs"
| "strings_in (x # xs) = strings_in xs"

definition requiredList :: "schema \<Rightarrow> string list" where [schema_defs]:
  "requiredList node = sort (strings_in (arr_of (map_of node ''required'')))"

definition requiredSet :: "schema \<Rightarrow> string set" where [schema_defs]:
  "requiredSet node = set (requiredList node)"

definition hasUnion :: "schema \<Rightarrow> bool" where [schema_defs]:
  "hasUnion node \<longleftrightarrow> schemaList (map_of node ''oneOf'') \<noteq> [] \<or> schemaList (map_of node ''anyOf'') \<noteq> []"

definition unionVariants :: "schema \<Rightarrow> schema list" where [schema_defs]:
  "unionVariants node = (let variants = schemaList (map_of node ''oneOf'')
     in if variants = [] then schemaList (map_of node ''anyOf'') else variants)"

definition isStringEnum :: "schema \<Rightarrow> bool" where [schema_defs]:
  "isStringEnum node \<longleftrightarrow> nodeType node = ''string'' \<and> extractEnum node \<noteq> []"

text \<open>
  \<open>nullableInner\<close>: a two-element type list with \<open>null\<close> in it, or a union of two variants one of
  which has type \<open>null\<close>; of two entries that are not \<open>null\<close> the later one is kept.
\<close>

definition json_text_of :: "json \<Rightarrow> string" where
  "json_text_of v = str_of (Some v)"

definition nullable_type :: "json list \<Rightarrow> string option" where
  "nullable_type raw =
    (if length raw = 2 \<and> ''null'' \<in> json_text_of ` set raw
     then (case filter (\<lambda>t. t \<noteq> ''null'') (map json_text_of raw) of
         [] \<Rightarrow> None
       | ts \<Rightarrow> if last ts \<noteq> '''' then Some (last ts) else None)
     else None)"

definition nullable_variant :: "schema list \<Rightarrow> schema option" where
  "nullable_variant items =
    (if length items = 2 \<and> (\<exists>item\<in>set items. nodeType item = ''null'')
     then (case filter (\<lambda>item. nodeType item \<noteq> ''null'') items of
         [] \<Rightarrow> None
       | others \<Rightarrow> Some (last others))
     else None)"

definition nullableInner :: "schema \<Rightarrow> schema option" where
  "nullableInner node =
    (case (case map_of node ''type'' of Some (JArr raw) \<Rightarrow> nullable_type raw | _ \<Rightarrow> None) of
       Some nonNull \<Rightarrow> Some (AList.update ''type'' (JStr nonNull) node)
     | None \<Rightarrow>
        (case nullable_variant (schemaList (map_of node ''anyOf'')) of
           Some other \<Rightarrow> Some other
         | None \<Rightarrow> nullable_variant (schemaList (map_of node ''oneOf''))))"

text \<open>
  \<open>walkSchema\<close>, as the calls of \<open>visit\<close> it makes; the members of an object come in map order,
  here that of the association list.
\<close>

fun walkSchema :: "json \<Rightarrow> (string \<times> string list) list"
and walk_list :: "json list \<Rightarrow> (string \<times> string list) list"
and walk_members :: "members \<Rightarrow> (string \<times> string list) list" where
  "walkSchema (JObj ms) =
     (if extractEnum ms \<noteq> [] then [(str_of (map_of ms ''title''), extractEnum ms)] else []) @ walk_members ms"
| "walkSchema (JArr xs) = walk_list xs"
| "walkSchema JNull = []"
| "walkSchema (JBool b) = []"
| "walkSchema (JNum n) = []"
| "walkSchema (JStr s) = []"
| "walk_list [] = []"
| "walk_list (x # xs) = walkSchema x @ walk_list xs"
| "walk_members [] = []"
| "walk_members ((k, v) # ms) = walkSchema v @ walk_members ms"

section \<open>Go names\<close>

text \<open>
  \<open>goTypeName\<close> walks the runes of the name. What package \<open>unicode\<close> says of a rune beyond ASCII
  is the argument \<open>uc\<close>: for a byte string that starts with such a rune its width and, when it is a
  letter or a digit, its upper case.
\<close>

type_synonym unicode = "string \<Rightarrow> nat \<times> string option"

definition ascii_upper :: "char \<Rightarrow> bool" where
  "ascii_upper c \<longleftrightarrow> 65 \<le> (of_char c :: nat) \<and> (of_char c :: nat) \<le> 90"

definition ascii_lower :: "char \<Rightarrow> bool" where
  "ascii_lower c \<longleftrightarrow> 97 \<le> (of_char c :: nat) \<and> (of_char c :: nat) \<le> 122"

definition ascii_digit :: "char \<Rightarrow> bool" where
  "ascii_digit c \<longleftrightarrow> 48 \<le> (of_char c :: nat) \<and> (of_char c :: nat) \<le> 57"

definition ascii_alnum :: "char \<Rightarrow> bool" where
  "ascii_alnum c \<longleftrightarrow> ascii_upper c \<or> ascii_lower c \<or> ascii_digit c"

function camel :: "unicode \<Rightarrow> bool \<Rightarrow> string \<Rightarrow> string" where
  "camel uc upperNext [] = []"
| "camel uc upperNext (c # s) =
     (if (of_char c :: nat) < 128 then
        if ascii_alnum c then (if upperNext then char_upper c else c) # camel uc False s
        else camel uc True s
      else (case uc (c # s) of
          (w, Some up) \<Rightarrow> (if upperNext then up else take (max 1 w) (c # s)) @ camel uc False (drop (w - 1) s)
        | (w, None) \<Rightarrow> camel uc True (drop (w - 1) s)))"
  by pat_completeness auto
termination by (relation "measure (\<lambda>(uc, b, s). length s)") auto

definition goTypeName :: "unicode \<Rightarrow> string \<Rightarrow> string" where
  "goTypeName uc name =
    (case camel uc True name of
       [] \<Rightarrow> ''Unnamed''
     | c # out \<Rightarrow> if ascii_digit c then CHR ''N'' # c # out else c # out)"

definition goFieldName :: "unicode \<Rightarrow> string \<Rightarrow> string" where
  "goFieldName uc name = (let field = goTypeName uc name in
     if field = ''Id'' then ''ID''
     else if hasSuffix field ''Id'' then trimSuffix field ''Id'' @ ''ID''
     else field)"

definition refName :: "unicode \<Rightarrow> schema \<Rightarrow> string" where
  "refName uc node = (let raw = str_of (map_of node ''$ref'') in
     if raw = '''' then '''' else goTypeName uc (last (str_split (CHR ''/'') raw)))"

definition isEnvelopeVariant :: "schema \<Rightarrow> bool" where
  "isEnvelopeVariant node \<longleftrightarrow>
     map_of (objectProperties node) ''method'' \<noteq> None \<and> map_of (objectProperties node) ''params'' \<noteq> None"

definition variantTypeName :: "string \<Rightarrow> schema \<Rightarrow> nat \<Rightarrow> string" where
  "variantTypeName parent variant index = (let title = str_of (map_of variant ''title'') in
     if title \<noteq> '''' then (if isEnvelopeVariant variant then title @ ''Envelope'' else title)
     else parent @ ''Variant'' @ show_nat (index + 1))"

definition applyOptional :: "string \<Rightarrow> bool \<Rightarrow> string" where
  "applyOptional expr optional =
    (if \<not> optional then expr
     else if hasPrefix expr ''[]'' \<or> hasPrefix expr ''map['' \<or> expr = ''any'' \<or> expr = ''json.RawMessage''
     then expr else ''*'' @ expr)"

definition dquote :: "string \<Rightarrow> string" where
  "dquote s = [CHR 34] @ s @ [CHR 34]"

definition jsonTag :: "string \<Rightarrow> bool \<Rightarrow> string" where
  "jsonTag name optional = ''json:'' @ dquote (if optional then name @ '',omitempty'' else name)"

section \<open>Discriminators\<close>

fun first_single :: "schema \<Rightarrow> string list \<Rightarrow> string \<times> string" where
  "first_single props [] = ('''', '''')"
| "first_single props (key # ks) =
     (case extractEnum (nil_map (obj_of (map_of props key))) of
        [v] \<Rightarrow> (key, v)
      | _ \<Rightarrow> first_single props ks)"

definition variantDiscriminator :: "schema \<Rightarrow> string \<times> string" where
  "variantDiscriminator node = first_single (objectProperties node) [''type'', ''method'']"

text \<open>The mapping \<open>detectDiscriminator\<close> also returns is not used by its caller.\<close>

definition all_discriminated :: "string \<Rightarrow> schema list \<Rightarrow> bool" where
  "all_discriminated field variants \<longleftrightarrow>
     (\<forall>v\<in>set variants. fst (variantDiscriminator v) = field \<and> snd (variantDiscriminator v) \<noteq> '''')"

definition detectDiscriminator :: "schema list \<Rightarrow> string \<times> string gomap" where
  "detectDiscriminator variants =
    (let mapping = (\<lambda>field. fold (\<lambda>v. AList.update (snd (variantDiscriminator v)) field) variants [])
     in if all_discriminated ''type'' variants then (''type'', mapping ''type'')
        else if all_discriminated ''method'' variants then (''method'', mapping ''method'')
        else ('''', []))"

definition requiredObjectCheck :: "schema \<Rightarrow> string" where
  "requiredObjectCheck node = (let req = requiredList node in
     if req = [] then ''jsonLooksObject(data)''
     else ''jsonLooksObject(data) && jsonHasKeys(data, '' @ str_join '', '' (map go_quote req) @ '')'')"

definition unionCheck :: "schema \<Rightarrow> string" where
  "unionCheck node =
    (if fst (variantDiscriminator node) \<noteq> '''' then requiredObjectCheck node
     else let t = nodeType node in
       if t = ''object'' then requiredObjectCheck node
       else if t = ''string'' then
         (if extractEnum node \<noteq> [] then ''jsonStringIn(data, '' @ str_join '', '' (map go_quote (extractEnum node)) @ '')''
          else ''jsonLooksString(data)'')
       else if t = ''array'' then ''jsonLooksArray(data)''
       else if t = ''boolean'' then ''jsonLooksBool(data)''
       else if t = ''integer'' then ''jsonLooksNumber(data)''
       else if isStringEnum node then ''jsonLooksString(data)''
       else '''')"

end
