(* ===== verification/Schema_Gen.thy ===== *)
theory Schema_Gen
  imports Schema
begin

text \<open>
  The protocol generator of \<open>cmd/codex-sdk-gen/protocolgen.go\<close>: the schema bundle, the mutually
  recursive functions that emit the declarations, the registries and the manifest. The generator
  object is the record \<open>protocolGenerator\<close>, threaded through the calls; its bundle never changes
  and is an argument. No function of the generator makes an error, so \<open>None\<close> is only the end of
  the fuel, the depth of the calls; \<open>Schema_Gen_Props\<close> shows that \<open>gen_fuel\<close> is always enough.
  \<open>format.Source\<close> is an argument.
\<close>

section \<open>The bundle\<close>

text \<open>A supplemental root read from \<open>null\<close> is a nil map under its name.\<close>

record schemaBundle =
  Definitions :: "schema gomap"
  ClientRequest :: "schema option"
  ServerNotification :: "schema option"
  ServerRequest :: "schema option"
  Supplemental :: "schema option gomap"

record registryEntry =
  re_Method :: string
  re_WrapperType :: string
  re_PayloadType :: string
  re_ResponseType :: string

record protocolGenerator =
  decls :: "string gomap"
  order :: "string list"
  emitted :: "string set"

definition empty_generator :: protocolGenerator where
  "empty_generator = \<lparr>decls = [], order = [], emitted = {}\<rparr>"

definition lookup :: "schemaBundle \<Rightarrow> string \<Rightarrow> schema option" where
  "lookup b name =
    (if name = ''ClientRequest'' then ClientRequest b
     else if name = ''ServerNotification'' then ServerNotification b
     else if name = ''ServerRequest'' then ServerRequest b
     else case map_of (Definitions b) name of
         Some node \<Rightarrow> Some node
       | None \<Rightarrow> (case map_of (Supplemental b) name of Some node \<Rightarrow> node | None \<Rightarrow> None))"

section \<open>Emitted text\<close>

definition ln :: "nat \<Rightarrow> string \<Rightarrow> string" where
  "ln tabs s = replicate tabs (CHR 0x09) @ s @ [CHR 0x0A]"

definition emitEnumType :: "unicode \<Rightarrow> string \<Rightarrow> schema \<Rightarrow> string" where
  "emitEnumType uc name node = (let typeName = goTypeName uc name in
     ln 0 (''type '' @ typeName @ '' string'') @ ln 0 '''' @ ln 0 ''const ('' @
     concat (map (\<lambda>value. ln 1 (typeName @ goTypeName uc value @ '' '' @ typeName @ '' = '' @ go_quote value))
       (extractEnum node)) @
     ln 0 '')'')"

record fieldInfo =
  fi_GoName :: string
  fi_GoType :: string
  fi_JSONName :: string
  fi_JSONTag :: string
  fi_Required :: bool
  fi_Nullable :: bool

definition field_info :: "unicode \<Rightarrow> string set \<Rightarrow> string \<Rightarrow> string \<Rightarrow> bool \<Rightarrow> fieldInfo" where
  "field_info uc required key expr nullable =
    \<lparr>fi_GoName = goFieldName uc key,
     fi_GoType = applyOptional expr (key \<notin> required \<or> nullable),
     fi_JSONName = key,
     fi_JSONTag = jsonTag key (key \<notin> required),
     fi_Required = key \<in> required,
     fi_Nullable = nullable\<rparr>"

definition field_line :: "nat \<Rightarrow> fieldInfo \<Rightarrow> string" where
  "field_line tabs f = ln tabs (fi_GoName f @ '' '' @ fi_GoType f @ '' `'' @ fi_JSONTag f @ ''`'')"

definition alias_struct :: "string \<Rightarrow> fieldInfo list \<Rightarrow> string" where
  "alias_struct aliasName fs =
     ln 1 (''type '' @ aliasName @ '' struct {'') @ concat (map (field_line 2) fs) @ ln 1 ''}''"

definition required_check :: "fieldInfo \<Rightarrow> string" where
  "required_check f =
     ln 1 (''if _, ok := required['' @ go_quote (fi_JSONName f) @ '']; !ok {'') @
     ln 2 (''return &json.UnmarshalTypeError{Value: '' @ dquote ''missing required field'' @ '', Type: nil, Field: '' @
       go_quote (fi_JSONName f) @ ''}'') @
     ln 1 ''}''"

definition struct_unmarshal :: "string \<Rightarrow> fieldInfo list \<Rightarrow> bool \<Rightarrow> bool \<Rightarrow> string" where
  "struct_unmarshal typeName fs hasExtras hasRequiredNullable =
     ln 0 '''' @ ln 0 (''func (v *'' @ typeName @ '') UnmarshalJSON(data []byte) error {'') @
     alias_struct (typeName @ ''Alias'') fs @
     ln 1 (''var aux '' @ typeName @ ''Alias'') @
     ln 1 ''if err := json.Unmarshal(data, &aux); err != nil {'' @ ln 2 ''return err'' @ ln 1 ''}'' @
     concat (map (\<lambda>f. ln 1 (''v.'' @ fi_GoName f @ '' = aux.'' @ fi_GoName f)) fs) @
     (if hasRequiredNullable then
        ln 1 ''var required map[string]json.RawMessage'' @
        ln 1 ''if err := json.Unmarshal(data, &required); err != nil {'' @ ln 2 ''return err'' @ ln 1 ''}'' @
        concat (map required_check (filter (\<lambda>f. fi_Required f \<and> fi_Nullable f) fs))
      else '''') @
     (if hasExtras then
        ln 1 ''var extras map[string]json.RawMessage'' @
        ln 1 ''if err := json.Unmarshal(data, &extras); err != nil {'' @ ln 2 ''return err'' @ ln 1 ''}'' @
        concat (map (\<lambda>f. ln 1 (''delete(extras, '' @ go_quote (fi_JSONName f) @ '')'')) fs) @
        ln 1 ''if len(extras) == 0 {'' @ ln 2 ''v.Extras = nil'' @ ln 1 ''} else {'' @ ln 2 ''v.Extras = extras'' @ ln 1 ''}''
      else '''') @
     ln 1 ''return nil'' @ ln 0 ''}''"

definition struct_marshal :: "string \<Rightarrow> fieldInfo list \<Rightarrow> string" where
  "struct_marshal typeName fs =
     ln 0 '''' @ ln 0 (''func (v '' @ typeName @ '') MarshalJSON() ([]byte, error) {'') @
     alias_struct (typeName @ ''Alias'') fs @
     ln 1 (''aux := '' @ typeName @ ''Alias{'') @
     concat (map (\<lambda>f. ln 2 (fi_GoName f @ '': v.'' @ fi_GoName f @ '','')) fs) @ ln 1 ''}'' @
     ln 1 ''encoded, err := json.Marshal(aux)'' @ ln 1 ''if err != nil {'' @ ln 2 ''return nil, err'' @ ln 1 ''}'' @
     ln 1 ''var payload map[string]json.RawMessage'' @
     ln 1 ''if err := json.Unmarshal(encoded, &payload); err != nil {'' @ ln 2 ''return nil, err'' @ ln 1 ''}'' @
     ln 1 ''for key, value := range v.Extras {'' @ ln 2 ''if _, exists := payload[key]; exists {'' @
     ln 3 ''continue'' @ ln 2 ''}'' @ ln 2 ''payload[key] = append(json.RawMessage(nil), value...)'' @ ln 1 ''}'' @
     ln 1 ''return json.Marshal(payload)'' @ ln 0 ''}''"

definition struct_text :: "string \<Rightarrow> fieldInfo list \<Rightarrow> bool \<Rightarrow> string" where
  "struct_text typeName fs hasExtras =
    (let hasRequiredNullable = (\<exists>f\<in>set fs. fi_Required f \<and> fi_Nullable f)
     in ln 0 (''type '' @ typeName @ '' struct {'') @
        concat (map (field_line 1) fs) @
        (if hasExtras then ln 1 (''Extras map[string]json.RawMessage `json:'' @ dquote ''-'' @ ''`'') else '''') @
        ln 0 ''}'' @
        (if hasExtras \<or> hasRequiredNullable
         then struct_unmarshal typeName fs hasExtras hasRequiredNullable @
           (if hasExtras then struct_marshal typeName fs else '''')
         else ''''))"

record variant_info =
  vi_TypeName :: string
  vi_Check :: string
  vi_Disc :: string

definition disc_case :: "variant_info \<Rightarrow> string" where
  "disc_case info =
    (if vi_Disc info = '''' then ''''
     else ln 2 (''case '' @ go_quote (vi_Disc info) @ '':'') @
       (if vi_Check info \<noteq> '''' then ln 3 (''if !('' @ vi_Check info @ '') {'') @ ln 4 ''break'' @ ln 3 ''}'' else '''') @
       ln 3 (''var v '' @ vi_TypeName info) @
       ln 3 ''if err := json.Unmarshal(data, &v); err != nil {'' @ ln 4 ''return err'' @ ln 3 ''}'' @
       ln 3 ''u.Value = &v'' @ ln 3 ''return nil'')"

definition check_case :: "variant_info \<Rightarrow> string" where
  "check_case info =
    (if vi_Check info = '''' then ''''
     else ln 1 (''if '' @ vi_Check info @ '' {'') @ ln 2 (''var v '' @ vi_TypeName info) @
       ln 2 ''if err := json.Unmarshal(data, &v); err != nil {'' @ ln 3 ''return err'' @ ln 2 ''}'' @
       ln 2 ''u.Value = &v'' @ ln 2 ''return nil'' @ ln 1 ''}'')"

definition union_text :: "string \<Rightarrow> string \<Rightarrow> variant_info list \<Rightarrow> string" where
  "union_text typeName discField infos =
     ln 0 (''type '' @ typeName @ '' struct {'') @
     ln 1 (''Value any `json:'' @ dquote ''-'' @ ''`'') @
     ln 1 (''Raw json.RawMessage `json:'' @ dquote ''-'' @ ''`'') @ ln 0 ''}'' @ ln 0 '''' @
     ln 0 (''func (u *'' @ typeName @ '') UnmarshalJSON(data []byte) error {'') @
     ln 1 ''if u == nil {'' @ ln 2 ''return nil'' @ ln 1 ''}'' @
     ln 1 ''u.Raw = append(json.RawMessage(nil), data...)'' @
     (if discField \<noteq> '''' then
        ln 1 (''if jsonHasField(data, '' @ go_quote discField @ '') {'') @
        ln 2 (''if disc, ok := unionDiscriminator(data, '' @ go_quote discField @ ''); ok {'') @
        ln 2 ''switch disc {'' @ concat (map disc_case infos) @ ln 2 ''}'' @ ln 2 ''}'' @
        ln 2 ''u.Value = &UnknownUnionValue{Raw: append(json.RawMessage(nil), data...)}'' @
        ln 2 ''return nil'' @ ln 1 ''}''
      else '''') @
     concat (map check_case infos) @
     ln 1 ''u.Value = &UnknownUnionValue{Raw: append(json.RawMessage(nil), data...)}'' @
     ln 1 ''return nil'' @ ln 0 ''}'' @ ln 0 '''' @
     ln 0 (''func (u '' @ typeName @ '') MarshalJSON() ([]byte, error) {'') @
     ln 1 ''if u.Value == nil && len(u.Raw) != 0 {'' @
     ln 2 ''return append(json.RawMessage(nil), u.Raw...), nil'' @ ln 1 ''}'' @
     ln 1 ''if u.Value == nil {'' @ ln 2 (''return []byte('' @ dquote ''null'' @ ''), nil'') @ ln 1 ''}'' @
     ln 1 ''return json.Marshal(u.Value)'' @ ln 0 ''}''"

section \<open>The mutually recursive generator\<close>

text \<open>A loop of calls that thread the generator and each give a result.\<close>

fun gen_list :: "('a \<Rightarrow> protocolGenerator \<Rightarrow> ('b \<times> protocolGenerator) option) \<Rightarrow> 'a list \<Rightarrow> protocolGenerator \<Rightarrow>
   ('b list \<times> protocolGenerator) option" where
  "gen_list f [] g = Some ([], g)"
| "gen_list f (x # xs) g =
     (case f x g of
        None \<Rightarrow> None
      | Some (y, g1) \<Rightarrow>
         (case gen_list f xs g1 of None \<Rightarrow> None | Some (ys, g2) \<Rightarrow> Some (y # ys, g2)))"

definition map_text :: "(string \<Rightarrow> string) \<Rightarrow> ((string \<times> bool) \<times> protocolGenerator) option \<Rightarrow>
   ((string \<times> bool) \<times> protocolGenerator) option" where
  "map_text f r = map_option (\<lambda>((expr, nullable), g). ((f expr, False), g)) r"

definition sorted_keys :: "'v gomap \<Rightarrow> string list" where
  "sorted_keys m = sort (map fst m)"

text \<open>What \<open>emitNamedType\<close> writes for a scalar node.\<close>

definition scalar_type :: "string \<Rightarrow> string" where
  "scalar_type t = (if t = ''string'' then ''string'' else if t = ''integer'' then ''int64''
     else if t = ''boolean'' then ''bool'' else ''any'')"

text \<open>
  The functions that emit one declaration call back into \<open>ensureNamedType\<close> and \<open>goTypeExpr\<close>: these
  calls are their arguments \<open>ensure\<close> and \<open>type_expr\<close>, and the two functions are tied together below,
  on the fuel.
\<close>

type_synonym ensure_call = "string \<Rightarrow> schema option \<Rightarrow> protocolGenerator \<Rightarrow> protocolGenerator option"
type_synonym expr_call = "string \<Rightarrow> schema option \<Rightarrow> protocolGenerator \<Rightarrow>
   ((string \<times> bool) \<times> protocolGenerator) option"

definition emitStructType :: "unicode \<Rightarrow> expr_call \<Rightarrow> string \<Rightarrow> schema \<Rightarrow> protocolGenerator \<Rightarrow>
   (string \<times> protocolGenerator) option" where
  "emitStructType uc type_expr name node g =
    (case gen_list (\<lambda>key g1.
            map_option (\<lambda>((expr, nullable), g2). (field_info uc (requiredSet node) key expr nullable, g2))
              (type_expr (goTypeName uc name @ goFieldName uc key) (obj_of (map_of (objectProperties node) key)) g1))
          (sorted_keys (objectProperties node)) g of
       None \<Rightarrow> None
     | Some (fs, g1) \<Rightarrow> Some (struct_text (goTypeName uc name) fs (additionalProperties node \<noteq> None), g1))"

definition variantInfo :: "unicode \<Rightarrow> ensure_call \<Rightarrow> string \<Rightarrow> schema \<Rightarrow> nat \<Rightarrow> protocolGenerator \<Rightarrow>
   (variant_info \<times> protocolGenerator) option" where
  "variantInfo uc ensure parent variant index g =
    (let name = variantTypeName parent variant index;
         info = (\<lambda>typeName. \<lparr>vi_TypeName = typeName, vi_Check = unionCheck variant,
           vi_Disc = (if fst (variantDiscriminator variant) \<noteq> '''' then snd (variantDiscriminator variant) else '''')\<rparr>)
     in if refName uc variant \<noteq> '''' then Some (info (refName uc variant), g)
        else if isStringEnum variant \<or> nodeType variant = ''object'' \<or> objectProperties variant \<noteq> [] then
          map_option (\<lambda>g1. (info (goTypeName uc name), g1)) (ensure name (Some variant) g)
        else Some (info ''UnknownUnionValue'', g))"

definition emitUnionType :: "unicode \<Rightarrow> ensure_call \<Rightarrow> string \<Rightarrow> schema \<Rightarrow> protocolGenerator \<Rightarrow>
   (string \<times> protocolGenerator) option" where
  "emitUnionType uc ensure name node g =
    (case gen_list (\<lambda>(i, variant) g1. variantInfo uc ensure (goTypeName uc name) variant i g1)
          (List.enumerate 0 (unionVariants node)) g of
       None \<Rightarrow> None
     | Some (infos, g1) \<Rightarrow>
        Some (union_text (goTypeName uc name) (fst (detectDiscriminator (unionVariants node))) infos, g1))"

definition emitNamedType :: "unicode \<Rightarrow> ensure_call \<Rightarrow> expr_call \<Rightarrow> string \<Rightarrow> schema \<Rightarrow> protocolGenerator \<Rightarrow>
   (string \<times> protocolGenerator) option" where
  "emitNamedType uc ensure type_expr name node g =
    (if isStringEnum node then Some (emitEnumType uc name node, g)
     else if hasUnion node then emitUnionType uc ensure name node g
     else if nodeType node = ''object'' \<or> objectProperties node \<noteq> [] \<or> additionalProperties node \<noteq> None
     then emitStructType uc type_expr name node g
     else if nodeType node = ''array'' then
       (case type_expr (name @ ''Item'') (itemSchema node) g of
          None \<Rightarrow> None
        | Some ((expr, nullable), g1) \<Rightarrow> Some (ln 0 (''type '' @ goTypeName uc name @ '' []'' @ expr), g1))
     else Some (ln 0 (''type '' @ goTypeName uc name @ '' '' @ scalar_type (nodeType node)), g))"

text \<open>
  \<open>goTypeExpr\<close> either settles the expression at once or goes on with one more call: the type a
  reference names, or another node with a rewriting of what it gives.
\<close>

definition plain_type :: "schema \<Rightarrow> string" where
  "plain_type node =
    (if isStringEnum node \<or> nodeType node = ''string'' then ''string''
     else if nodeType node = ''integer'' then ''int64''
     else if nodeType node = ''boolean'' then ''bool''
     else if nodeType node = ''object'' then ''map[string]any''
     else if hasUnion node then ''json.RawMessage''
     else ''any'')"

definition ensure_body :: "unicode \<Rightarrow> ensure_call \<Rightarrow> expr_call \<Rightarrow> ensure_call" where
  "ensure_body uc ensure type_expr name node g =
    (case node of
       None \<Rightarrow> Some g
     | Some nd \<Rightarrow>
        if name \<in> emitted g then Some g
        else (case emitNamedType uc ensure type_expr name nd
                (g\<lparr>emitted := insert name (emitted g), order := order g @ [name]\<rparr>) of
            None \<Rightarrow> None
          | Some (code, g1) \<Rightarrow> Some (g1\<lparr>decls := AList.update name code (decls g1)\<rparr>)))"

definition expr_body :: "unicode \<Rightarrow> schemaBundle \<Rightarrow> ensure_call \<Rightarrow> expr_call \<Rightarrow> expr_call" where
  "expr_body uc b ensure type_expr hint node g =
    (case node of
       None \<Rightarrow> Some ((''any'', False), g)
     | Some nd \<Rightarrow>
        if refName uc nd \<noteq> '''' then
          map_option (\<lambda>g1. ((refName uc nd, False), g1)) (ensure (refName uc nd) (lookup b (refName uc nd)) g)
        else (case nullableInner nd of
            Some inner \<Rightarrow> map_option (\<lambda>((expr, nullable), g1). ((expr, True), g1)) (type_expr hint (Some inner) g)
          | None \<Rightarrow>
             if length (schemaList (map_of nd ''allOf'')) = 1
             then type_expr hint (Some (schemaList (map_of nd ''allOf'') ! 0)) g
             else if \<not> isStringEnum nd \<and> nodeType nd = ''array'' then
               map_text (\<lambda>expr. ''[]'' @ expr) (type_expr (hint @ ''Item'') (itemSchema nd) g)
             else if \<not> isStringEnum nd \<and> nodeType nd = ''object'' \<and> additionalProperties nd \<noteq> None then
               map_text (\<lambda>expr. ''map[string]'' @ expr) (type_expr (hint @ ''Value'') (additionalProperties nd) g)
             else Some ((plain_type nd, False), g)))"

fun ensureNamedType :: "unicode \<Rightarrow> schemaBundle \<Rightarrow> nat \<Rightarrow> ensure_call"
and goTypeExpr :: "unicode \<Rightarrow> schemaBundle \<Rightarrow> nat \<Rightarrow> expr_call" where
  "ensureNamedType uc b 0 = (\<lambda>name node g. None)"
| "ensureNamedType uc b (Suc n) = ensure_body uc (ensureNamedType uc b n) (goTypeExpr uc b n)"
| "goTypeExpr uc b 0 = (\<lambda>hint node g. None)"
| "goTypeExpr uc b (Suc n) = expr_body uc b (ensureNamedType uc b n) (goTypeExpr uc b n)"

section \<open>Loading the bundle\<close>

text \<open>
  \<open>os.ReadDir\<close> gives the entries sorted by name; an entry is its name and, for a file, what reading
  and decoding it into a \<open>map[string]any\<close> gives: the error of \<open>os.ReadFile\<close>, of \<open>json.Unmarshal\<close>,
  or the map, nil when the file holds \<open>null\<close>.
\<close>

datatype file_read = ReadError go_error | ParseFailure go_error | Root "schema option"

definition ext_json :: "string \<Rightarrow> bool" where
  "ext_json name \<longleftrightarrow> hasSuffix name ''.json''"

definition add_definition :: "string \<times> json \<Rightarrow> (schema \<Rightarrow> 'v) \<Rightarrow> 'v gomap \<Rightarrow> 'v gomap" where
  "add_definition kv wrap target = (case snd kv of
     JObj node \<Rightarrow> (if map_of target (fst kv) = None then AList.update (fst kv) (wrap node) target else target)
   | _ \<Rightarrow> target)"

definition load_root :: "string \<Rightarrow> schema option \<Rightarrow> schemaBundle \<Rightarrow> schemaBundle" where
  "load_root name root b =
    (let defs = nil_map (obj_of (map_of (nil_map root) ''definitions''));
         b1 = (if name = ''codex_app_server_protocol.v2.schemas.json''
           then b\<lparr>Definitions := fold (\<lambda>kv. add_definition kv (\<lambda>node. node)) defs (Definitions b)\<rparr>
           else b\<lparr>Supplemental := fold (\<lambda>kv. add_definition kv Some) defs (Supplemental b)\<rparr>)
     in if name = ''ClientRequest.json'' then b1\<lparr>ClientRequest := root\<rparr>
        else if name = ''ServerNotification.json'' then b1\<lparr>ServerNotification := root\<rparr>
        else if name = ''ServerRequest.json'' then b1\<lparr>ServerRequest := root\<rparr>
        else if map_of (Definitions b1) (trimSuffix name ''.json'') = None
        then b1\<lparr>Supplemental := AList.update (trimSuffix name ''.json'') root (Supplemental b1)\<rparr>
        else b1)"

fun load_entries :: "(string \<times> file_read option) list \<Rightarrow> schemaBundle \<Rightarrow> go_error + schemaBundle" where
  "load_entries [] b = Inr b"
| "load_entries ((name, file) # entries) b =
     (case file of
        None \<Rightarrow> load_entries entries b
      | Some r \<Rightarrow>
         if \<not> ext_json name then load_entries entries b
         else (case r of
             ReadError e \<Rightarrow> Inl e
           | ParseFailure e \<Rightarrow> Inl (Wrapped (''parse '' @ name @ '': '' @ err_text e) [e])
           | Root root \<Rightarrow> load_entries entries (load_root name root b)))"

definition empty_bundle :: schemaBundle where
  "empty_bundle = \<lparr>Definitions = [], ClientRequest = None, ServerNotification = None, ServerRequest = None,
     Supplemental = []\<rparr>"

definition loadSchemaBundle :: "go_error + (string \<times> file_read option) list \<Rightarrow> go_error + schemaBundle" where
  "loadSchemaBundle dir = (case dir of Inl e \<Rightarrow> Inl e | Inr entries \<Rightarrow> load_entries entries empty_bundle)"

section \<open>The registries\<close>

fun registry_loop :: "unicode \<Rightarrow> schema list \<Rightarrow> registryEntry list \<Rightarrow> registryEntry list" where
  "registry_loop uc [] entries = entries"
| "registry_loop uc (variant # vs) entries =
     (let props = objectProperties variant;
          prop = (\<lambda>key. nil_map (obj_of (map_of props key)))
      in case extractEnum (prop ''method'') of
           [m] \<Rightarrow> registry_loop uc vs (entries @
             [\<lparr>re_Method = m,
               re_WrapperType = goTypeName uc (variantTypeName ''Wrapper'' variant (length entries)),
               re_PayloadType = refName uc (prop ''params''),
               re_ResponseType = refName uc (prop ''result'')\<rparr>])
         | _ \<Rightarrow> registry_loop uc vs entries)"

definition registryEntries :: "unicode \<Rightarrow> schema option \<Rightarrow> registryEntry list" where
  "registryEntries uc root = (case root of None \<Rightarrow> [] | Some r \<Rightarrow> registry_loop uc (unionVariants r) [])"

definition typeExists :: "schemaBundle \<Rightarrow> string \<Rightarrow> bool" where
  "typeExists b name \<longleftrightarrow>
     name \<noteq> '''' \<and> (map_of (Definitions b) name \<noteq> None \<or> map_of (Supplemental b) name \<noteq> None)"

definition responseOverrides :: "string gomap" where
  "responseOverrides =
    [(''account/read'', ''GetAccountResponse''),
     (''account/login/start'', ''LoginAccountResponse''),
     (''account/login/cancel'', ''CancelLoginAccountResponse''),
     (''account/logout'', ''LogoutAccountResponse''),
     (''account/rateLimits/read'', ''GetAccountRateLimitsResponse''),
     (''account/usage/read'', ''GetAccountTokenUsageResponse''),
     (''account/workspaceMessages/read'', ''GetWorkspaceMessagesResponse''),
     (''app/installed'', ''AppsInstalledResponse''),
     (''app/list'', ''AppsListResponse''),
     (''app/read'', ''AppsReadResponse''),
     (''config/batchWrite'', ''ConfigWriteResponse''),
     (''config/value/write'', ''ConfigWriteResponse''),
     (''mcpServerStatus/list'', ''ListMcpServerStatusResponse''),
     (''mcpServer/resource/read'', ''McpResourceReadResponse''),
     (''configRequirements/read'', ''ConfigRequirementsReadResponse''),
     (''externalAgentConfig/import/readHistories'', ''ExternalAgentConfigImportHistoriesReadResponse'')]"

definition response_candidates :: "registryEntry \<Rightarrow> bool \<Rightarrow> string list" where
  "response_candidates item serverRequest =
    (let payload = (if re_PayloadType item \<noteq> '''' \<and> hasSuffix (re_PayloadType item) ''Params''
           then [trimSuffix (re_PayloadType item) ''Params'' @ ''Response''] else []);
         wrapper = (if hasSuffix (re_WrapperType item) ''RequestEnvelope''
           then [trimSuffix (re_WrapperType item) ''RequestEnvelope'' @ ''Response''] else [])
     in (case map_of responseOverrides (re_Method item) of
           Some override \<Rightarrow> override # payload @ wrapper
         | None \<Rightarrow> payload @ wrapper) @ (if serverRequest then payload else []))"

definition deriveResponseType :: "schemaBundle \<Rightarrow> registryEntry \<Rightarrow> bool \<Rightarrow> string" where
  "deriveResponseType b item serverRequest =
    (if re_ResponseType item \<noteq> '''' \<and> typeExists b (re_ResponseType item) then re_ResponseType item
     else case find (typeExists b) (response_candidates item serverRequest) of
         Some c \<Rightarrow> c
       | None \<Rightarrow> '''')"

text \<open>\<open>sort.Slice\<close> by method; the methods of a registry are distinct, so the order is determined.\<close>

definition by_method :: "registryEntry list \<Rightarrow> registryEntry list" where
  "by_method items = sort_key re_Method items"

definition registry_line :: "schemaBundle \<Rightarrow> bool \<Rightarrow> registryEntry \<Rightarrow> string" where
  "registry_line b serverRequest item =
     ln 1 (go_quote (re_Method item) @ '': {Method: '' @ go_quote (re_Method item) @ '', WrapperType: '' @
       go_quote (re_WrapperType item) @ '', PayloadType: '' @ go_quote (re_PayloadType item) @ '', ResponseType: '' @
       go_quote (deriveResponseType b item serverRequest) @ ''},'')"

definition writeRegistry :: "schemaBundle \<Rightarrow> string \<Rightarrow> registryEntry list \<Rightarrow> bool \<Rightarrow> string" where
  "writeRegistry b name items serverRequest =
     ln 0 (''var '' @ name @ '' = map[string]MethodSpec{'') @
     concat (map (registry_line b serverRequest) (by_method items)) @ ln 0 ''}'' @ ln 0 ''''"

definition registry_text :: "unicode \<Rightarrow> schemaBundle \<Rightarrow> string" where
  "registry_text uc b =
     ln 0 ''package protocol'' @ ln 0 '''' @
     ln 0 ''type MethodSpec struct {'' @ ln 1 ''Method string'' @ ln 1 ''WrapperType string'' @
     ln 1 ''PayloadType string'' @ ln 1 ''ResponseType string'' @ ln 0 ''}'' @ ln 0 '''' @
     writeRegistry b ''ClientRequestRegistry'' (registryEntries uc (ClientRequest b)) False @
     writeRegistry b ''ServerNotificationRegistry'' (registryEntries uc (ServerNotification b)) False @
     writeRegistry b ''ServerRequestRegistry'' (registryEntries uc (ServerRequest b)) True"

type_synonym formatter = "string \<Rightarrow> go_error + string"

definition emitRegistryFile :: "formatter \<Rightarrow> unicode \<Rightarrow> schemaBundle \<Rightarrow> go_error + string" where
  "emitRegistryFile fmt uc b = fmt (registry_text uc b)"

section \<open>The manifest\<close>

record lockTarget =
  lt_GoOS :: string
  lt_GoArch :: string
  lt_Triple :: string
  lt_Asset :: string

record lockFile =
  lk_UpstreamRepo :: string
  lk_Commit :: string
  lk_PythonRoot :: string
  lk_RuntimePackage :: string
  lk_RuntimeVersion :: string
  lk_SchemaPath :: string
  lk_SchemaFile :: string
  lk_SchemaSHA256 :: string
  lk_Targets :: "lockTarget list"

record manifestSource =
  ms_UpstreamRepo :: string
  ms_Commit :: string
  ms_PythonRoot :: string
  ms_RuntimePackage :: string
  ms_RuntimeVersion :: string
  ms_SchemaFile :: string
  ms_SchemaSHA256 :: string

record manifestCounts =
  mc_AggregateDefinitions :: nat
  mc_SupplementalDefinitions :: nat
  mc_Requests :: nat
  mc_Notifications :: nat
  mc_ServerRequests :: nat

record manifestMethod =
  mm_Method :: string
  mm_Title :: string

record manifest =
  mn_SchemaVersion :: int
  mn_Source :: manifestSource
  mn_Counts :: manifestCounts
  mn_Definitions :: "string list"
  mn_SupplementalDefinitions :: "string list"
  mn_Requests :: "manifestMethod list"
  mn_Notifications :: "manifestMethod list"
  mn_ServerRequests :: "manifestMethod list"
  mn_MissingDefinitions :: "string list"
  mn_MissingMethods :: "string list"
  mn_UnsupportedConstructs :: "string list"
  mn_DuplicateSymbols :: "string list"

definition toManifest :: "registryEntry list \<Rightarrow> manifestMethod list" where
  "toManifest items = map (\<lambda>item. \<lparr>mm_Method = re_Method item, mm_Title = re_WrapperType item\<rparr>) items"

definition buildManifestFromBundle :: "unicode \<Rightarrow> schemaBundle \<Rightarrow> lockFile \<Rightarrow> manifest" where
  "buildManifestFromBundle uc b lock =
    (let definitions = sorted_keys (Definitions b);
         supplemental = sorted_keys (Supplemental b);
         requests = by_method (registryEntries uc (ClientRequest b));
         notifications = by_method (registryEntries uc (ServerNotification b));
         serverRequests = by_method (registryEntries uc (ServerRequest b))
     in \<lparr>mn_SchemaVersion = 1,
         mn_Source = \<lparr>ms_UpstreamRepo = lk_UpstreamRepo lock, ms_Commit = lk_Commit lock,
           ms_PythonRoot = lk_PythonRoot lock, ms_RuntimePackage = lk_RuntimePackage lock,
           ms_RuntimeVersion = lk_RuntimeVersion lock, ms_SchemaFile = lk_SchemaFile lock,
           ms_SchemaSHA256 = lk_SchemaSHA256 lock\<rparr>,
         mn_Counts = \<lparr>mc_AggregateDefinitions = length definitions,
           mc_SupplementalDefinitions = length supplemental, mc_Requests = length requests,
           mc_Notifications = length notifications, mc_ServerRequests = length serverRequests\<rparr>,
         mn_Definitions = definitions,
         mn_SupplementalDefinitions = supplemental,
         mn_Requests = toManifest requests,
         mn_Notifications = toManifest notifications,
         mn_ServerRequests = toManifest serverRequests,
         mn_MissingDefinitions = [],
         mn_MissingMethods = [],
         mn_UnsupportedConstructs = [],
         mn_DuplicateSymbols = []\<rparr>)"

section \<open>The helpers file\<close>

text \<open>\<open>emitProtocolHelpers\<close> formats a constant text.\<close>

definition helpers_source :: string where
  "helpers_source =
     ln 0 ''package protocol'' @
     ln 0 '''' @
     ln 0 (''import '' @ [CHR 34] @ ''encoding/json'' @ [CHR 34]) @
     ln 0 '''' @
     ln 0 ''type UnknownUnionValue struct {'' @
     ln 1 ''Raw json.RawMessage'' @
     ln 0 ''}'' @
     ln 0 '''' @
     ln 0 ''func (v *UnknownUnionValue) UnmarshalJSON(data []byte) error {'' @
     ln 1 ''if v == nil {'' @
     ln 2 ''return nil'' @
     ln 1 ''}'' @
     ln 1 ''v.Raw = append(json.RawMessage(nil), data...)'' @
     ln 1 ''return nil'' @
     ln 0 ''}'' @
     ln 0 '''' @
     ln 0 ''func (v UnknownUnionValue) MarshalJSON() ([]byte, error) {'' @
     ln 1 ''if len(v.Raw) == 0 {'' @
     ln 2 (''return []byte('' @ [CHR 34] @ ''null'' @ [CHR 34] @ ''), nil'') @
     ln 1 ''}'' @
     ln 1 ''return append(json.RawMessage(nil), v.Raw...), nil'' @
     ln 0 ''}'' @
     ln 0 '''' @
     ln 0 ''func unionDiscriminator(data []byte, field string) (string, bool) {'' @
     ln 1 ''var payload map[string]json.RawMessage'' @
     ln 1 ''if err := json.Unmarshal(data, &payload); err != nil {'' @
     ln 2 (''return '' @ [CHR 34] @ [CHR 34] @ '', false'') @
     ln 1 ''}'' @
     ln 1 ''raw, ok := payload[field]'' @
     ln 1 ''if !ok {'' @
     ln 2 (''return '' @ [CHR 34] @ [CHR 34] @ '', false'') @
     ln 1 ''}'' @
     ln 1 ''var out string'' @
     ln 1 ''if err := json.Unmarshal(raw, &out); err != nil {'' @
     ln 2 (''return '' @ [CHR 34] @ [CHR 34] @ '', false'') @
     ln 1 ''}'' @
     ln 1 ''return out, true'' @
     ln 0 ''}'' @
     ln 0 '''' @
     ln 0 ''func jsonLooksObject(data []byte) bool {'' @
     ln 1 ''for _, b := range data {'' @
     ln 2 ''switch b {'' @
     ln 2 (''case '' @ [CHR 39] @ '' '' @ [CHR 39] @ '', '' @ [CHR 39] @ [CHR 92] @ ''n'' @ [CHR 39] @ '', '' @ [CHR 39] @ [CHR 92] @ ''r'' @ [CHR 39] @ '', '' @ [CHR 39] @ [CHR 92] @ ''t'' @ [CHR 39] @ '':'') @
     ln 3 ''continue'' @
     ln 2 (''case '' @ [CHR 39] @ ''{'' @ [CHR 39] @ '':'') @
     ln 3 ''return true'' @
     ln 2 ''default:'' @
     ln 3 ''return false'' @
     ln 2 ''}'' @
     ln 1 ''}'' @
     ln 1 ''return false'' @
     ln 0 ''}'' @
     ln 0 '''' @
     ln 0 ''func jsonLooksString(data []byte) bool {'' @
     ln 1 ''for _, b := range data {'' @
     ln 2 ''switch b {'' @
     ln 2 (''case '' @ [CHR 39] @ '' '' @ [CHR 39] @ '', '' @ [CHR 39] @ [CHR 92] @ ''n'' @ [CHR 39] @ '', '' @ [CHR 39] @ [CHR 92] @ ''r'' @ [CHR 39] @ '', '' @ [CHR 39] @ [CHR 92] @ ''t'' @ [CHR 39] @ '':'') @
     ln 3 ''continue'' @
     ln 2 (''case '' @ [CHR 39] @ [CHR 34] @ [CHR 39] @ '':'') @
     ln 3 ''return true'' @
     ln 2 ''default:'' @
     ln 3 ''return false'' @
     ln 2 ''}'' @
     ln 1 ''}'' @
     ln 1 ''return false'' @
     ln 0 ''}'' @
     ln 0 '''' @
     ln 0 ''func jsonStringIn(data []byte, values ...string) bool {'' @
     ln 1 ''var out string'' @
     ln 1 ''if err := json.Unmarshal(data, &out); err != nil {'' @
     ln 2 ''return false'' @
     ln 1 ''}'' @
     ln 1 ''for _, value := range values {'' @
     ln 2 ''if out == value {'' @
     ln 3 ''return true'' @
     ln 2 ''}'' @
     ln 1 ''}'' @
     ln 1 ''return false'' @
     ln 0 ''}'' @
     ln 0 '''' @
     ln 0 ''func jsonLooksArray(data []byte) bool {'' @
     ln 1 ''for _, b := range data {'' @
     ln 2 ''switch b {'' @
     ln 2 (''case '' @ [CHR 39] @ '' '' @ [CHR 39] @ '', '' @ [CHR 39] @ [CHR 92] @ ''n'' @ [CHR 39] @ '', '' @ [CHR 39] @ [CHR 92] @ ''r'' @ [CHR 39] @ '', '' @ [CHR 39] @ [CHR 92] @ ''t'' @ [CHR 39] @ '':'') @
     ln 3 ''continue'' @
     ln 2 (''case '' @ [CHR 39] @ ''['' @ [CHR 39] @ '':'') @
     ln 3 ''return true'' @
     ln 2 ''default:'' @
     ln 3 ''return false'' @
     ln 2 ''}'' @
     ln 1 ''}'' @
     ln 1 ''return false'' @
     ln 0 ''}'' @
     ln 0 '''' @
     ln 0 ''//lint:ignore U1000 Reserved for generated boolean union variants.'' @
     ln 0 ''func jsonLooksBool(data []byte) bool {'' @
     ln 1 ''for _, b := range data {'' @
     ln 2 ''switch b {'' @
     ln 2 (''case '' @ [CHR 39] @ '' '' @ [CHR 39] @ '', '' @ [CHR 39] @ [CHR 92] @ ''n'' @ [CHR 39] @ '', '' @ [CHR 39] @ [CHR 92] @ ''r'' @ [CHR 39] @ '', '' @ [CHR 39] @ [CHR 92] @ ''t'' @ [CHR 39] @ '':'') @
     ln 3 ''continue'' @
     ln 2 (''case '' @ [CHR 39] @ ''t'' @ [CHR 39] @ '', '' @ [CHR 39] @ ''f'' @ [CHR 39] @ '':'') @
     ln 3 ''return true'' @
     ln 2 ''default:'' @
     ln 3 ''return false'' @
     ln 2 ''}'' @
     ln 1 ''}'' @
     ln 1 ''return false'' @
     ln 0 ''}'' @
     ln 0 '''' @
     ln 0 ''func jsonLooksNumber(data []byte) bool {'' @
     ln 1 ''for _, b := range data {'' @
     ln 2 ''switch b {'' @
     ln 2 (''case '' @ [CHR 39] @ '' '' @ [CHR 39] @ '', '' @ [CHR 39] @ [CHR 92] @ ''n'' @ [CHR 39] @ '', '' @ [CHR 39] @ [CHR 92] @ ''r'' @ [CHR 39] @ '', '' @ [CHR 39] @ [CHR 92] @ ''t'' @ [CHR 39] @ '':'') @
     ln 3 ''continue'' @
     ln 2 (''case '' @ [CHR 39] @ ''-'' @ [CHR 39] @ '', '' @ [CHR 39] @ ''0'' @ [CHR 39] @ '', '' @ [CHR 39] @ ''1'' @ [CHR 39] @ '', '' @ [CHR 39] @ ''2'' @ [CHR 39] @ '', '' @ [CHR 39] @ ''3'' @ [CHR 39] @ '', '' @ [CHR 39] @ ''4'' @ [CHR 39] @ '', '' @ [CHR 39] @ ''5'' @ [CHR 39] @ '', '' @ [CHR 39] @ ''6'' @ [CHR 39] @ '', '' @ [CHR 39] @ ''7'' @ [CHR 39] @ '', '' @ [CHR 39] @ ''8'' @ [CHR 39] @ '', '' @ [CHR 39] @ ''9'' @ [CHR 39] @ '':'') @
     ln 3 ''return true'' @
     ln 2 ''default:'' @
     ln 3 ''return false'' @
     ln 2 ''}'' @
     ln 1 ''}'' @
     ln 1 ''return false'' @
     ln 0 ''}'' @
     ln 0 '''' @
     ln 0 ''func jsonHasKeys(data []byte, keys ...string) bool {'' @
     ln 1 ''var payload map[string]json.RawMessage'' @
     ln 1 ''if err := json.Unmarshal(data, &payload); err != nil {'' @
     ln 2 ''return false'' @
     ln 1 ''}'' @
     ln 1 ''for _, key := range keys {'' @
     ln 2 ''if _, ok := payload[key]; !ok {'' @
     ln 3 ''return false'' @
     ln 2 ''}'' @
     ln 1 ''}'' @
     ln 1 ''return true'' @
     ln 0 ''}'' @
     ln 0 '''' @
     ln 0 ''func jsonHasField(data []byte, field string) bool {'' @
     ln 1 ''var payload map[string]json.RawMessage'' @
     ln 1 ''if err := json.Unmarshal(data, &payload); err != nil {'' @
     ln 2 ''return false'' @
     ln 1 ''}'' @
     ln 1 ''_, ok := payload[field]'' @
     ln 1 ''return ok'' @
     ln 0 ''}''"

definition emitProtocolHelpers :: "formatter \<Rightarrow> go_error + string" where
  "emitProtocolHelpers fmt = fmt helpers_source"

section \<open>The whole run\<close>

text \<open>The weight of a schema, which bounds the depth of the calls on it.\<close>

fun jsize :: "json \<Rightarrow> nat"
and jsizes :: "json list \<Rightarrow> nat"
and msize :: "members \<Rightarrow> nat" where
  "jsize (JArr xs) = Suc (jsizes xs)"
| "jsize (JObj ms) = Suc (msize ms)"
| "jsize JNull = 1"
| "jsize (JBool b) = 1"
| "jsize (JNum n) = 1"
| "jsize (JStr s) = 1"
| "jsizes [] = 0"
| "jsizes (x # xs) = Suc (jsize x + jsizes xs)"
| "msize [] = 0"
| "msize ((k, v) # ms) = Suc (jsize v + msize ms)"

text \<open>The names the generator starts from, sorted; an empty one is skipped.\<close>

definition bundle_names :: "schemaBundle \<Rightarrow> string list" where
  "bundle_names b = sort (map fst (Definitions b) @ map fst (Supplemental b) @
     [''ClientRequest'', ''ServerNotification'', ''ServerRequest''])"

definition node_bound :: "schemaBundle \<Rightarrow> nat" where
  "node_bound b = sum_list (map (\<lambda>name. case lookup b name of Some nd \<Rightarrow> msize nd | None \<Rightarrow> 0) (bundle_names b))"

definition gen_fuel :: "schemaBundle \<Rightarrow> nat" where
  "gen_fuel b = Suc (length (bundle_names b)) * (2 * node_bound b + 1)"

definition ensure_step :: "unicode \<Rightarrow> schemaBundle \<Rightarrow> nat \<Rightarrow> string \<Rightarrow> protocolGenerator \<Rightarrow> protocolGenerator option" where
  "ensure_step uc b n name g = (if name = '''' then Some g else ensureNamedType uc b n name (lookup b name) g)"

fun generate_types :: "unicode \<Rightarrow> schemaBundle \<Rightarrow> nat \<Rightarrow> string list \<Rightarrow> protocolGenerator \<Rightarrow> protocolGenerator option" where
  "generate_types uc b n [] g = Some g"
| "generate_types uc b n (name # names) g =
     (case ensure_step uc b n name g of None \<Rightarrow> None | Some g1 \<Rightarrow> generate_types uc b n names g1)"

definition decl_text :: "protocolGenerator \<Rightarrow> string \<Rightarrow> string" where
  "decl_text g name = (let d = (case map_of (decls g) name of Some d \<Rightarrow> d | None \<Rightarrow> '''')
     in d @ (if hasSuffix d [CHR 0x0A] then '''' else [CHR 0x0A]) @ [CHR 0x0A])"

definition types_text :: "protocolGenerator \<Rightarrow> string" where
  "types_text g = ln 0 ''package protocol'' @ ln 0 '''' @ ln 0 (''import '' @ dquote ''encoding/json'') @ ln 0 '''' @
     concat (map (decl_text g) (order g))"

definition emitTypesFile :: "formatter \<Rightarrow> protocolGenerator \<Rightarrow> go_error + string" where
  "emitTypesFile fmt g = fmt (types_text g)"

record generationOutput =
  go_Files :: "string gomap"
  go_Manifest :: manifest

text \<open>
  \<open>generateProtocol\<close> on a directory; \<open>None\<close> would be the end of the fuel.
\<close>

definition generateProtocol :: "formatter \<Rightarrow> unicode \<Rightarrow> go_error + (string \<times> file_read option) list \<Rightarrow>
   lockFile \<Rightarrow> (go_error + generationOutput) option" where
  "generateProtocol fmt uc dir lock =
    (case loadSchemaBundle dir of
       Inl e \<Rightarrow> Some (Inl e)
     | Inr b \<Rightarrow>
        (case generate_types uc b (gen_fuel b) (bundle_names b) empty_generator of
           None \<Rightarrow> None
         | Some g \<Rightarrow> Some
            (case emitTypesFile fmt g of
               Inl e \<Rightarrow> Inl e
             | Inr typesFile \<Rightarrow>
                (case emitRegistryFile fmt uc b of
                   Inl e \<Rightarrow> Inl e
                 | Inr registryFile \<Rightarrow>
                    (case emitProtocolHelpers fmt of
                       Inl e \<Rightarrow> Inl e
                     | Inr helpersFile \<Rightarrow> Inr \<lparr>
                        go_Files = [(''protocol/generated_types.go'', typesFile),
                          (''protocol/generated_registries.go'', registryFile),
                          (''protocol/helpers.go'', helpersFile)],
                        go_Manifest = buildManifestFromBundle uc b lock\<rparr>)))))"

end
