(* ===== verification/Schema_Gen_Props.thy ===== *)
theory Schema_Gen_Props
  imports Schema_Gen
begin

text \<open>
  The generator always ends, within a depth of calls read off the bundle, and declares every
  schema of the bundle once, under its Go name. The functions that emit a declaration are studied
  against any pair of calls back into the generator (locale \<open>generator_calls\<close>), and the two
  functions of the code are shown to be such a pair.
\<close>

section \<open>The weight of what an accessor returns\<close>

named_theorems lighter \<open>sub-schemas are lighter than the schema they come from\<close>

lemma msize_member: "map_of ms k = Some v \<Longrightarrow> Suc (jsize v) \<le> msize ms"
  by (induction ms) (auto split: if_splits)

lemma msize_update:
  "map_of ms k = Some old \<Longrightarrow> msize (AList.update k v ms) + jsize old = msize ms + jsize v"
  by (induction ms) (auto split: if_splits)

lemma obj_of_lighter: "obj_of (map_of ms k) = Some nd \<Longrightarrow> msize nd + 2 \<le> msize ms"
  using msize_member [of ms k "JObj nd"] by (auto simp: obj_of_def split: option.splits json.splits)

lemma schemas_in_lighter: "nd \<in> set (schemas_in xs) \<Longrightarrow> msize nd < jsizes xs"
  by (induction xs rule: schemas_in.induct) auto

lemma schemaList_lighter [lighter]:
  assumes "nd \<in> set (schemaList (map_of ms k))"
  shows "msize nd < msize ms"
proof -
  obtain xs where xs: "map_of ms k = Some (JArr xs)" "nd \<in> set (schemas_in xs)"
    using assms by (auto simp: schemaList_def arr_of_def split: option.splits json.splits)
  then show ?thesis
    using msize_member [OF xs(1)] schemas_in_lighter [OF xs(2)] by simp
qed

lemma unionVariants_lighter [lighter]: "nd \<in> set (unionVariants ms) \<Longrightarrow> msize nd < msize ms"
  by (auto simp: unionVariants_def Let_def intro: schemaList_lighter split: if_splits)

lemma property_lighter [lighter]:
  assumes "obj_of (map_of (objectProperties ms) k) = Some nd"
  shows "msize nd < msize ms"
proof (cases "obj_of (map_of ms ''properties'')")
  case None
  then show ?thesis
    using assms by (simp add: objectProperties_def nil_map_def obj_of_def)
next
  case (Some props)
  then show ?thesis
    using assms obj_of_lighter [OF Some] obj_of_lighter [of props k nd] by (simp add: objectProperties_def nil_map_def)
qed

lemma itemSchema_lighter [lighter]: "itemSchema ms = Some nd \<Longrightarrow> msize nd < msize ms"
  using obj_of_lighter [of ms "''items''" nd] by (simp add: itemSchema_def)

lemma additional_lighter [lighter]: "additionalProperties ms = Some nd \<Longrightarrow> msize nd < msize ms"
  using msize_member [of ms "''additionalProperties''"]
  by (auto simp: additionalProperties_def split: option.splits json.splits if_splits dest: Suc_le_lessD)

lemma last_of_filter: "filter P xs = y # ys \<Longrightarrow> last (y # ys) \<in> set xs"
  by (metis filter_is_subset last_in_set list.distinct(1) subset_iff)

lemma nullable_variant_in: "nullable_variant items = Some nd \<Longrightarrow> nd \<in> set items"
  using last_of_filter [of _ items]
  by (force simp: nullable_variant_def split: if_splits list.splits)

lemma nullableInner_lighter [lighter]:
  assumes "nullableInner ms = Some nd"
  shows "msize nd < msize ms"
proof (cases "\<exists>raw t. map_of ms ''type'' = Some (JArr raw) \<and> nullable_type raw = Some t")
  case True
  then obtain raw t where raw: "map_of ms ''type'' = Some (JArr raw)" "nullable_type raw = Some t" by blast
  then obtain x y where "raw = [x, y]"
    by (auto simp: nullable_type_def length_Suc_conv eval_nat_numeral split: if_splits)
  then show ?thesis
    using assms raw msize_update [OF raw(1), of "JStr t"] by (auto simp: nullableInner_def)
next
  case False
  then have "nullable_variant (schemaList (map_of ms ''anyOf'')) = Some nd \<or>
      nullable_variant (schemaList (map_of ms ''oneOf'')) = Some nd"
    using assms by (auto simp: nullableInner_def split: option.splits json.splits)
  then show ?thesis
    using nullable_variant_in schemaList_lighter by blast
qed

lemma ref_nonempty: "refName uc ms \<noteq> '''' \<Longrightarrow> 1 \<le> msize ms"
  by (cases ms) (auto simp: refName_def str_of_def Let_def)

lemma single_in: "length xs = 1 \<Longrightarrow> xs ! 0 \<in> set xs"
  by (simp add: nth_mem)

section \<open>Loops of the generator\<close>

lemma gen_list_rel:
  assumes "\<And>x g y g1. x \<in> set xs \<Longrightarrow> f x g = Some (y, g1) \<Longrightarrow> R g g1"
    and "\<And>g. R g g" "\<And>g g1 g2. R g g1 \<Longrightarrow> R g1 g2 \<Longrightarrow> R g g2"
    and "gen_list f xs g = Some (ys, g')"
  shows "R g g'"
  using assms(1,4)
proof (induction xs arbitrary: g ys)
  case Nil
  then show ?case using assms(2) by simp
next
  case (Cons x xs)
  then obtain y g1 zs where "f x g = Some (y, g1)" "gen_list f xs g1 = Some (zs, g')"
    by (auto split: option.splits)
  then show ?case
    using Cons.IH [of g1 zs] Cons.prems(1) assms(3) by (meson list.set_intros)
qed

lemma gen_list_total:
  assumes "\<And>x g1. x \<in> set xs \<Longrightarrow> R g g1 \<Longrightarrow> \<exists>y g2. f x g1 = Some (y, g2) \<and> R g1 g2"
    and "R g g" "\<And>g1 g2. R g g1 \<Longrightarrow> R g1 g2 \<Longrightarrow> R g g2"
  shows "\<exists>ys g'. gen_list f xs g = Some (ys, g')"
proof -
  have "\<exists>ys g'. gen_list f xs g1 = Some (ys, g')" if "R g g1" for g1
    using that assms(1)
  proof (induction xs arbitrary: g1)
    case (Cons x xs)
    then obtain y g2 where "f x g1 = Some (y, g2)" "R g1 g2" by (meson list.set_intros(1))
    moreover have "R g g2"
      using assms(3) Cons.prems(1) \<open>R g1 g2\<close> by blast
    ultimately show ?case
      using Cons.IH [of g2] Cons.prems(2) by fastforce
  qed simp
  then show ?thesis using assms(2) by blast
qed

lemma gen_list_cong:
  assumes "\<And>x g y g1. x \<in> set xs \<Longrightarrow> f x g = Some (y, g1) \<Longrightarrow> f' x g = Some (y, g1)"
    and "gen_list f xs g = Some r"
  shows "gen_list f' xs g = Some r"
  using assms
proof (induction xs arbitrary: g r)
  case (Cons x xs)
  then obtain y g1 where f: "f x g = Some (y, g1)" by (auto split: option.splits)
  moreover obtain zs g2 where "gen_list f xs g1 = Some (zs, g2)" "r = (y # zs, g2)"
    using Cons.prems(2) f by (auto split: option.splits)
  moreover have "f' x g = Some (y, g1)" using f Cons.prems(1) by simp
  ultimately show ?case
    using Cons.IH [of g1] Cons.prems(1) by simp
qed simp

section \<open>What an emitting function keeps of its calls\<close>

text \<open>
  A relation between the generator before and after that is reflexive and transitive and that both
  calls respect is respected by every function that emits a declaration.
\<close>

locale generator_calls =
  fixes ensure :: ensure_call and type_expr :: expr_call
    and R :: "protocolGenerator \<Rightarrow> protocolGenerator \<Rightarrow> bool"
  assumes R_refl: "R g g"
    and R_trans: "R g g1 \<Longrightarrow> R g1 g2 \<Longrightarrow> R g g2"
    and ensure_R: "ensure name node g = Some g1 \<Longrightarrow> R g g1"
    and expr_R: "type_expr hint node g = Some (r, g1) \<Longrightarrow> R g g1"
begin

lemma struct_R: "emitStructType uc type_expr name node g = Some (code, g1) \<Longrightarrow> R g g1"
  by (auto simp: emitStructType_def split: option.splits
      elim!: gen_list_rel [where R = R, rotated 3] intro: R_refl R_trans expr_R)

lemma variant_R: "variantInfo uc ensure parent variant i g = Some (info, g1) \<Longrightarrow> R g g1"
  by (auto simp: variantInfo_def Let_def split: if_splits intro: R_refl ensure_R)

lemma union_R: "emitUnionType uc ensure name node g = Some (code, g1) \<Longrightarrow> R g g1"
  by (auto simp: emitUnionType_def split: option.splits
      elim!: gen_list_rel [where R = R, rotated 3] intro: R_refl R_trans variant_R)

lemma named_R: "emitNamedType uc ensure type_expr name node g = Some (code, g1) \<Longrightarrow> R g g1"
  by (auto simp: emitNamedType_def split: if_splits option.splits intro: R_refl struct_R union_R expr_R)

lemma body_R: "expr_body uc b ensure type_expr hint node g = Some (r, g1) \<Longrightarrow> R g g1"
  by (cases r) (auto simp: expr_body_def map_text_def split: if_splits option.splits intro: R_refl ensure_R expr_R)

end

section \<open>The invariant\<close>

text \<open>
  \<open>pending\<close> are the names whose declaration is being emitted: marked, but not yet declared. Every
  call leaves them as they were.
\<close>

definition type_head :: "unicode \<Rightarrow> string \<Rightarrow> string" where
  "type_head uc name = CHR ''t'' # CHR ''y'' # CHR ''p'' # CHR ''e'' # CHR '' '' # goTypeName uc name @ [CHR '' '']"

definition gen_inv :: "unicode \<Rightarrow> protocolGenerator \<Rightarrow> bool" where
  "gen_inv uc g \<longleftrightarrow> distinct (order g) \<and> set (order g) = emitted g \<and> fst ` set (decls g) \<subseteq> emitted g \<and>
     wf_map (decls g) \<and> (\<forall>(name, code)\<in>set (decls g). hasPrefix code (type_head uc name))"

definition pending :: "protocolGenerator \<Rightarrow> string set" where
  "pending g = emitted g - fst ` set (decls g)"

definition step_ok :: "unicode \<Rightarrow> protocolGenerator \<Rightarrow> protocolGenerator \<Rightarrow> bool" where
  "step_ok uc g g1 \<longleftrightarrow> emitted g \<subseteq> emitted g1 \<and>
     (gen_inv uc g \<longrightarrow> gen_inv uc g1 \<and> pending g1 = pending g)"

lemma step_ok_refl: "step_ok uc g g"
  by (simp add: step_ok_def)

lemma step_ok_trans: "step_ok uc g g1 \<Longrightarrow> step_ok uc g1 g2 \<Longrightarrow> step_ok uc g g2"
  by (auto simp: step_ok_def)

lemma head_struct: "hasPrefix (struct_text (goTypeName uc name) fs e) (type_head uc name)"
  by (simp add: struct_text_def Let_def ln_def type_head_def hasPrefix_iff)

lemma head_union: "hasPrefix (union_text (goTypeName uc name) d infos) (type_head uc name)"
  by (simp add: union_text_def ln_def type_head_def hasPrefix_iff)

lemma head_enum: "hasPrefix (emitEnumType uc name node) (type_head uc name)"
  by (simp add: emitEnumType_def Let_def ln_def type_head_def hasPrefix_iff)

lemma head_line: "hasPrefix (ln 0 (''type '' @ goTypeName uc name @ '' '' @ t)) (type_head uc name)"
  by (simp add: ln_def type_head_def hasPrefix_iff)

lemma named_head:
  "emitNamedType uc ensure type_expr name node g = Some (code, g1) \<Longrightarrow> hasPrefix code (type_head uc name)"
  using head_line [of uc name] head_line [of uc name "''[]'' @ t" for t]
  by (auto simp: emitNamedType_def emitStructType_def emitUnionType_def head_enum head_struct head_union
      split: if_splits option.splits)

section \<open>Every call keeps the invariant\<close>

text \<open>
  \<open>ensureNamedType\<close> marks the name, emits and declares: the pending names grow by the name while its
  declaration is emitted and are the old ones at the end.
\<close>

lemma mark_inv:
  assumes "gen_inv uc g" "name \<notin> emitted g"
  shows "gen_inv uc (g\<lparr>emitted := insert name (emitted g), order := order g @ [name]\<rparr>)"
    and "pending (g\<lparr>emitted := insert name (emitted g), order := order g @ [name]\<rparr>) = insert name (pending g)"
  using assms by (auto simp: gen_inv_def pending_def)

lemma declare_inv:
  assumes inv: "gen_inv uc g" and name: "name \<in> pending g" and code: "hasPrefix code (type_head uc name)"
  shows "gen_inv uc (g\<lparr>decls := AList.update name code (decls g)\<rparr>)"
    and "pending (g\<lparr>decls := AList.update name code (decls g)\<rparr>) = pending g - {name}"
proof -
  have fresh: "map_of (decls g) name = None" and marked: "name \<in> emitted g"
    using name by (auto simp: pending_def map_of_eq_None_iff)
  then have upd: "AList.update name code (decls g) = decls g @ [(name, code)]"
    by (simp add: update_fresh)
  show "gen_inv uc (g\<lparr>decls := AList.update name code (decls g)\<rparr>)"
    using inv fresh marked code by (auto simp: gen_inv_def upd map_of_eq_None_iff)
  show "pending (g\<lparr>decls := AList.update name code (decls g)\<rparr>) = pending g - {name}"
    by (auto simp: pending_def upd)
qed

lemma ensure_body_ok:
  assumes calls: "generator_calls ensure type_expr (step_ok uc)"
    and run: "ensure_body uc ensure type_expr name node g = Some g2"
  shows "step_ok uc g g2"
proof (cases "node = None \<or> name \<in> emitted g")
  case True
  then show ?thesis
    using run by (auto simp: ensure_body_def step_ok_refl split: option.splits)
next
  case False
  define g0 where "g0 = g\<lparr>emitted := insert name (emitted g), order := order g @ [name]\<rparr>"
  obtain nd code g1 where emit: "emitNamedType uc ensure type_expr name nd g0 = Some (code, g1)"
    and g2: "g2 = g1\<lparr>decls := AList.update name code (decls g1)\<rparr>"
    using run False by (auto simp: ensure_body_def g0_def split: option.splits)
  have step: "step_ok uc g0 g1"
    by (rule generator_calls.named_R [OF calls emit])
  have "emitted g \<subseteq> emitted g2"
    using step g2 by (auto simp: step_ok_def g0_def)
  moreover have "gen_inv uc g2 \<and> pending g2 = pending g" if inv: "gen_inv uc g"
  proof -
    have g0: "gen_inv uc g0" "pending g0 = insert name (pending g)"
      using mark_inv [OF inv] False by (auto simp: g0_def)
    then have "gen_inv uc g1" "pending g1 = insert name (pending g)"
      using step by (simp_all add: step_ok_def)
    then show ?thesis
      using declare_inv [of uc g1 name code] named_head [OF emit] False g2 by (auto simp: pending_def)
  qed
  ultimately show ?thesis by (simp add: step_ok_def)
qed

lemma calls_ok: "generator_calls (ensureNamedType uc b n) (goTypeExpr uc b n) (step_ok uc)"
proof (induction n)
  case 0
  show ?case
    by unfold_locales (auto simp: step_ok_refl intro: step_ok_trans)
next
  case (Suc n)
  show ?case
  proof unfold_locales
    show "step_ok uc g g1" if "ensureNamedType uc b (Suc n) name node g = Some g1" for name node g g1
      using ensure_body_ok [OF Suc.IH] that by simp
    show "step_ok uc g g1" if "goTypeExpr uc b (Suc n) hint node g = Some (r, g1)" for hint node g r g1
      using generator_calls.body_R [OF Suc.IH] that by simp
  qed (auto simp: step_ok_refl intro: step_ok_trans)
qed

interpretation gen: generator_calls "ensureNamedType uc b n" "goTypeExpr uc b n" "step_ok uc" for uc b n
  by (rule calls_ok)

section \<open>Enough fuel\<close>

text \<open>
  A call that finds a schema of the bundle marks a name that was free, and every other call goes to
  a lighter schema: \<open>free\<close> counts the names of the bundle still to be emitted.
\<close>

definition free :: "schemaBundle \<Rightarrow> string set \<Rightarrow> nat" where
  "free b done = card (set (bundle_names b) - done)"

definition unit_fuel :: "schemaBundle \<Rightarrow> nat" where
  "unit_fuel b = 2 * node_bound b + 1"

definition osize :: "schema option \<Rightarrow> nat" where
  "osize node = (case node of None \<Rightarrow> 0 | Some nd \<Rightarrow> msize nd)"

lemma free_mono: "s \<subseteq> t \<Longrightarrow> free b t \<le> free b s"
  by (auto simp: free_def intro!: card_mono)

lemma free_insert: "name \<in> set (bundle_names b) \<Longrightarrow> name \<notin> s \<Longrightarrow> Suc (free b (insert name s)) = free b s"
  unfolding free_def by (subst card_Suc_Diff1 [symmetric, of _ name]) (auto simp: Diff_insert2 [symmetric] insert_commute)

lemma lookup_in_bundle:
  assumes "lookup b name = Some nd"
  shows "name \<in> set (bundle_names b)" and "msize nd \<le> node_bound b"
proof -
  show mem: "name \<in> set (bundle_names b)"
    using assms
    by (auto simp: lookup_def bundle_names_def split: if_splits option.splits dest: map_of_SomeD intro: rev_image_eqI)
  have "osize (lookup b name) \<le> sum_list (map (\<lambda>name. osize (lookup b name)) (bundle_names b))"
    using mem by (intro member_le_sum_list) simp_all
  then show "msize nd \<le> node_bound b"
    using assms by (simp add: node_bound_def osize_def option.case_eq_if)
qed

definition ensure_need :: "schemaBundle \<Rightarrow> string \<Rightarrow> schema option \<Rightarrow> protocolGenerator \<Rightarrow> nat" where
  "ensure_need b name node g =
    (if node = None \<or> name \<in> emitted g then 1
     else free b (insert name (emitted g)) * unit_fuel b + 2 * osize node + 1)"

definition expr_need :: "schemaBundle \<Rightarrow> schema option \<Rightarrow> protocolGenerator \<Rightarrow> nat" where
  "expr_need b node g = free b (emitted g) * unit_fuel b + 2 * osize node + 1"

lemma expr_need_mono: "emitted g \<subseteq> emitted g1 \<Longrightarrow> expr_need b node g1 \<le> expr_need b node g"
  by (simp add: expr_need_def free_mono)

lemma ensure_need_le: "ensure_need b name node g \<le> expr_need b node g"
  by (simp add: ensure_need_def expr_need_def free_mono subset_insertI)

lemma ref_need:
  assumes "refName uc nd \<noteq> ''''"
  shows "ensure_need b (refName uc nd) (lookup b (refName uc nd)) g < expr_need b (Some nd) g"
proof (cases "lookup b (refName uc nd) = None \<or> refName uc nd \<in> emitted g")
  case True
  then show ?thesis
    using ref_nonempty [OF assms] by (simp add: ensure_need_def expr_need_def osize_def)
next
  case False
  then obtain target where target: "lookup b (refName uc nd) = Some target" by auto
  have "Suc (free b (insert (refName uc nd) (emitted g))) = free b (emitted g)"
    using free_insert lookup_in_bundle(1) [OF target] False by simp
  then have "free b (emitted g) * unit_fuel b = unit_fuel b + free b (insert (refName uc nd) (emitted g)) * unit_fuel b"
    by (metis mult_Suc)
  then show ?thesis
    using lookup_in_bundle(2) [OF target] ref_nonempty [OF assms] False target
    by (simp add: ensure_need_def expr_need_def osize_def unit_fuel_def)
qed

lemma need_step:
  assumes "osize sub < msize node" "expr_need b (Some node) g \<le> Suc n" "step_ok uc g g1"
  shows "expr_need b sub g1 \<le> n"
proof -
  have "expr_need b sub g1 \<le> expr_need b sub g"
    using assms(3) by (intro expr_need_mono) (simp add: step_ok_def)
  also have "expr_need b sub g < expr_need b (Some node) g"
    using assms(1) by (simp add: expr_need_def osize_def)
  finally show ?thesis
    using assms(2) by simp
qed

lemma nodeType_lighter: "nodeType node \<noteq> '''' \<Longrightarrow> osize (itemSchema node) < msize node"
  using itemSchema_lighter [of node] by (cases node) (auto simp: osize_def nodeType_def split: option.splits)

lemma property_osize: "props = objectProperties node \<Longrightarrow> key \<in> fst ` set props \<Longrightarrow>
   osize (obj_of (map_of props key)) < msize node"
  using property_lighter [of node key]
  by (cases node) (auto simp: osize_def objectProperties_def nil_map_def obj_of_def split: option.splits)

text \<open>With calls that answer whatever they have the fuel for, every declaration is emitted.\<close>

lemma struct_total:
  assumes calls: "generator_calls ensure type_expr (step_ok uc)"
    and expr: "\<And>hint sub g1. expr_need b sub g1 \<le> n \<Longrightarrow> type_expr hint sub g1 \<noteq> None"
    and need: "expr_need b (Some node) g \<le> Suc n"
  shows "\<exists>r. emitStructType uc type_expr name node g = Some r"
proof -
  have one: "\<exists>r g2. type_expr hint (obj_of (map_of (objectProperties node) key)) g1 = Some (r, g2) \<and> step_ok uc g1 g2"
    if key: "key \<in> set (sorted_keys (objectProperties node))" and g1: "step_ok uc g g1" for key g1 hint
  proof -
    have "osize (obj_of (map_of (objectProperties node) key)) < msize node"
      using key by (intro property_osize) (auto simp: sorted_keys_def)
    then obtain r g2 where "type_expr hint (obj_of (map_of (objectProperties node) key)) g1 = Some (r, g2)"
      using expr need_step [OF _ need g1] by fastforce
    then show ?thesis
      using generator_calls.expr_R [OF calls] by blast
  qed
  have "\<exists>fs g'. gen_list (\<lambda>key g1.
      map_option (\<lambda>((expr, nullable), g2). (field_info uc (requiredSet node) key expr nullable, g2))
        (type_expr (goTypeName uc name @ goFieldName uc key) (obj_of (map_of (objectProperties node) key)) g1))
      (sorted_keys (objectProperties node)) g = Some (fs, g')"
    by (rule gen_list_total [where R = "step_ok uc"])
      (use one in \<open>fastforce intro: step_ok_refl step_ok_trans\<close>)+
  then show ?thesis by (auto simp: emitStructType_def)
qed

lemma union_total:
  assumes calls: "generator_calls ensure type_expr (step_ok uc)"
    and ens: "\<And>name sub g1. ensure_need b name sub g1 \<le> n \<Longrightarrow> ensure name sub g1 \<noteq> None"
    and need: "expr_need b (Some node) g \<le> Suc n"
  shows "\<exists>r. emitUnionType uc ensure name node g = Some r"
proof -
  have one: "\<exists>info g2. variantInfo uc ensure parent variant i g1 = Some (info, g2) \<and> step_ok uc g1 g2"
    if mem: "variant \<in> set (unionVariants node)" and g1: "step_ok uc g g1" for parent variant i g1
  proof -
    have "osize (Some variant) < msize node"
      using unionVariants_lighter [OF mem] by (simp add: osize_def)
    then have "ensure (variantTypeName parent variant i) (Some variant) g1 \<noteq> None"
      using need_step [OF _ need g1, of "Some variant"]
      by (intro ens) (auto intro: order_trans ensure_need_le)
    then have "variantInfo uc ensure parent variant i g1 \<noteq> None"
      by (simp add: variantInfo_def Let_def)
    then obtain info g2 where "variantInfo uc ensure parent variant i g1 = Some (info, g2)" by auto
    then show ?thesis
      using generator_calls.variant_R [OF calls] by blast
  qed
  have "\<exists>infos g'. gen_list (\<lambda>(i, variant) g1. variantInfo uc ensure (goTypeName uc name) variant i g1)
      (List.enumerate 0 (unionVariants node)) g = Some (infos, g')"
    by (rule gen_list_total [where R = "step_ok uc"])
      (use one in \<open>fastforce simp: in_set_enumerate_eq intro: step_ok_refl step_ok_trans\<close>)+
  then show ?thesis by (auto simp: emitUnionType_def)
qed

lemma named_total:
  assumes calls: "generator_calls ensure type_expr (step_ok uc)"
    and ens: "\<And>name sub g1. ensure_need b name sub g1 \<le> n \<Longrightarrow> ensure name sub g1 \<noteq> None"
    and expr: "\<And>hint sub g1. expr_need b sub g1 \<le> n \<Longrightarrow> type_expr hint sub g1 \<noteq> None"
    and need: "expr_need b (Some node) g \<le> Suc n"
  shows "\<exists>r. emitNamedType uc ensure type_expr name node g = Some r"
proof -
  have "\<exists>r. type_expr (name @ ''Item'') (itemSchema node) g = Some r" if "nodeType node = ''array''"
    using expr [OF need_step [OF nodeType_lighter need step_ok_refl]] that by auto
  then show ?thesis
    using struct_total [OF calls expr need] union_total [OF calls ens need]
    by (auto simp: emitNamedType_def)
qed

lemma expr_body_total:
  assumes ens: "\<And>name sub g1. ensure_need b name sub g1 \<le> n \<Longrightarrow> ensure name sub g1 \<noteq> None"
    and expr: "\<And>hint sub g1. expr_need b sub g1 \<le> n \<Longrightarrow> type_expr hint sub g1 \<noteq> None"
    and need: "expr_need b node g \<le> Suc n"
  shows "expr_body uc b ensure type_expr hint node g \<noteq> None"
proof (cases node)
  case (Some nd)
  have step: "type_expr hint' sub g \<noteq> None" if "osize sub < msize nd" for sub hint'
    using expr [OF need_step [OF that _ step_ok_refl]] need Some by blast
  have ref: "ensure (refName uc nd) (lookup b (refName uc nd)) g \<noteq> None" if "refName uc nd \<noteq> ''''"
    using ref_need [OF that, of b g] need Some by (intro ens) simp
  have inner: "type_expr hint (Some i) g \<noteq> None" if "nullableInner nd = Some i" for i
    using nullableInner_lighter [OF that] by (intro step) (simp add: osize_def)
  have all_of: "type_expr hint (Some (schemaList (map_of nd ''allOf'') ! 0)) g \<noteq> None"
    if "length (schemaList (map_of nd ''allOf'')) = 1"
    using schemaList_lighter [OF single_in [OF that]] by (intro step) (simp add: osize_def)
  have item: "type_expr (hint @ ''Item'') (itemSchema nd) g \<noteq> None" if "nodeType nd = ''array''"
    using nodeType_lighter [of nd] that by (intro step) simp
  have add: "type_expr (hint @ ''Value'') (additionalProperties nd) g \<noteq> None" if "additionalProperties nd \<noteq> None"
    using additional_lighter [of nd] that by (intro step) (auto simp: osize_def)
  show ?thesis
    using ref inner all_of item add
    by (simp add: expr_body_def map_text_def Some option.map_disc_iff del: not_None_eq split: option.split)
qed (simp add: expr_body_def)

lemma calls_total:
  "(\<forall>name node g. ensure_need b name node g \<le> n \<longrightarrow> ensureNamedType uc b n name node g \<noteq> None) \<and>
   (\<forall>hint node g. expr_need b node g \<le> n \<longrightarrow> goTypeExpr uc b n hint node g \<noteq> None)"
proof (induction n)
  case 0
  show ?case
    by (simp add: ensure_need_def expr_need_def)
next
  case (Suc n)
  have ens: "ensureNamedType uc b n name node g \<noteq> None" if "ensure_need b name node g \<le> n" for name node g
    using Suc.IH that by blast
  have expr: "goTypeExpr uc b n hint node g \<noteq> None" if "expr_need b node g \<le> n" for hint node g
    using Suc.IH that by blast
  have "ensureNamedType uc b (Suc n) name node g \<noteq> None" if need: "ensure_need b name node g \<le> Suc n" for name node g
  proof (cases "node = None \<or> name \<in> emitted g")
    case True
    then show ?thesis by (auto simp: ensure_body_def split: option.splits)
  next
    case False
    then obtain nd where node: "node = Some nd" by auto
    have "expr_need b (Some nd) (g\<lparr>emitted := insert name (emitted g), order := order g @ [name]\<rparr>) \<le> Suc n"
      using need False by (simp add: ensure_need_def expr_need_def node)
    then have "\<exists>r. emitNamedType uc (ensureNamedType uc b n) (goTypeExpr uc b n) name nd
        (g\<lparr>emitted := insert name (emitted g), order := order g @ [name]\<rparr>) = Some r"
      by (intro named_total [OF calls_ok]) (erule ens expr | assumption)+
    then show ?thesis
      using False by (auto simp: ensure_body_def node)
  qed
  moreover have "goTypeExpr uc b (Suc n) hint node g \<noteq> None" if "expr_need b node g \<le> Suc n" for hint node g
    using expr_body_total [of b n, OF ens expr that] by simp
  ultimately show ?case by blast
qed

section \<open>More fuel changes nothing\<close>

text \<open>Calls that answer more often, and the same, make every emitting function answer the same.\<close>

locale call_extension =
  fixes ensure ensure' :: ensure_call and type_expr type_expr' :: expr_call
  assumes ensure_le: "ensure name node g = Some g1 \<Longrightarrow> ensure' name node g = Some g1"
    and expr_le: "type_expr hint node g = Some r \<Longrightarrow> type_expr' hint node g = Some r"
begin

lemma struct_le:
  assumes "emitStructType uc type_expr name node g = Some r"
  shows "emitStructType uc type_expr' name node g = Some r"
proof -
  let ?f = "\<lambda>te key g1. map_option (\<lambda>((expr, nullable), g2). (field_info uc (requiredSet node) key expr nullable, g2))
        (te (goTypeName uc name @ goFieldName uc key) (obj_of (map_of (objectProperties node) key)) g1)"
  obtain fs g1 where "gen_list (?f type_expr) (sorted_keys (objectProperties node)) g = Some (fs, g1)"
    using assms by (auto simp: emitStructType_def split: option.splits)
  moreover from this have "gen_list (?f type_expr') (sorted_keys (objectProperties node)) g = Some (fs, g1)"
    by (rule gen_list_cong [rotated]) (auto dest: expr_le)
  ultimately show ?thesis
    using assms by (simp add: emitStructType_def)
qed

lemma variant_le: "variantInfo uc ensure parent variant i g = Some r \<Longrightarrow> variantInfo uc ensure' parent variant i g = Some r"
  by (auto simp: variantInfo_def Let_def split: if_splits dest: ensure_le)

lemma union_le:
  assumes "emitUnionType uc ensure name node g = Some r"
  shows "emitUnionType uc ensure' name node g = Some r"
proof -
  let ?f = "\<lambda>ens (i, variant) g1. variantInfo uc ens (goTypeName uc name) variant i g1"
  obtain infos g1 where "gen_list (?f ensure) (List.enumerate 0 (unionVariants node)) g = Some (infos, g1)"
    using assms by (auto simp: emitUnionType_def split: option.splits)
  moreover from this have "gen_list (?f ensure') (List.enumerate 0 (unionVariants node)) g = Some (infos, g1)"
    by (rule gen_list_cong [rotated]) (auto dest: variant_le)
  ultimately show ?thesis
    using assms by (simp add: emitUnionType_def)
qed

lemma named_le:
  "emitNamedType uc ensure type_expr name node g = Some r \<Longrightarrow> emitNamedType uc ensure' type_expr' name node g = Some r"
  by (auto simp: emitNamedType_def split: if_splits option.splits dest: struct_le union_le expr_le)

lemma ensure_body_le:
  "ensure_body uc ensure type_expr name node g = Some g1 \<Longrightarrow> ensure_body uc ensure' type_expr' name node g = Some g1"
  by (auto simp: ensure_body_def split: if_splits option.splits dest: named_le)

lemma expr_body_le:
  "expr_body uc b ensure type_expr hint node g = Some r \<Longrightarrow> expr_body uc b ensure' type_expr' hint node g = Some r"
  by (auto simp: expr_body_def map_text_def split: if_splits option.splits dest: ensure_le expr_le)

end

lemma calls_extend:
  "call_extension (ensureNamedType uc b n) (ensureNamedType uc b (n + k)) (goTypeExpr uc b n) (goTypeExpr uc b (n + k))"
proof (induction n)
  case (Suc n)
  then show ?case
    using call_extension.ensure_body_le [OF Suc.IH] call_extension.expr_body_le [OF Suc.IH]
    by (intro call_extension.intro) simp_all
qed (simp add: call_extension_def)

interpretation fuel: call_extension "ensureNamedType uc b n" "ensureNamedType uc b (n + k)"
  "goTypeExpr uc b n" "goTypeExpr uc b (n + k)" for uc b n k
  by (rule calls_extend)

section \<open>The whole run\<close>

lemma ensure_step_ok:
  assumes "gen_fuel b \<le> n"
  shows "\<exists>g1. ensure_step uc b n name g = Some g1 \<and> step_ok uc g g1 \<and>
    (name \<noteq> '''' \<longrightarrow> lookup b name \<noteq> None \<longrightarrow> name \<in> emitted g1)"
proof (cases "name = ''''")
  case True
  then show ?thesis by (simp add: ensure_step_def step_ok_refl)
next
  case False
  have "free b s \<le> length (bundle_names b)" for s
    unfolding free_def by (metis card_length card_mono Diff_subset List.finite_set order_trans)
  then have "free b (insert name (emitted g)) * unit_fuel b \<le> length (bundle_names b) * unit_fuel b"
    by (rule mult_le_mono1)
  moreover have "2 * osize (lookup b name) + 1 \<le> unit_fuel b"
    using lookup_in_bundle(2) [of b name] by (auto simp: osize_def unit_fuel_def split: option.splits)
  ultimately have "ensure_need b name (lookup b name) g \<le> gen_fuel b"
    by (simp add: ensure_need_def gen_fuel_def unit_fuel_def)
  then have need: "ensure_need b name (lookup b name) g \<le> n"
    using assms by (rule order_trans)
  then obtain g1 where g1: "ensureNamedType uc b n name (lookup b name) g = Some g1"
    using calls_total [of b n uc] by blast
  have "name \<in> emitted g1" if look: "lookup b name = Some nd" for nd
  proof (cases "name \<in> emitted g")
    case True
    then show ?thesis
      using gen.ensure_R [OF g1] by (auto simp: step_ok_def)
  next
    case False
    obtain m where m: "n = Suc m"
      using g1 by (cases n) auto
    obtain code g2 where "emitNamedType uc (ensureNamedType uc b m) (goTypeExpr uc b m) name nd
        (g\<lparr>emitted := insert name (emitted g), order := order g @ [name]\<rparr>) = Some (code, g2)"
      and g2: "g1 = g2\<lparr>decls := AList.update name code (decls g2)\<rparr>"
      using g1 False look by (auto simp: m ensure_body_def split: option.splits)
    from gen.named_R [OF this(1)] show ?thesis
      using g2 by (auto simp: step_ok_def)
  qed
  then show ?thesis
    using g1 gen.ensure_R [OF g1] False by (auto simp: ensure_step_def)
qed

lemma generate_types_ok:
  assumes "gen_fuel b \<le> n"
  shows "\<exists>g1. generate_types uc b n names g = Some g1 \<and> step_ok uc g g1 \<and>
    (\<forall>name\<in>set names. name \<noteq> '''' \<longrightarrow> lookup b name \<noteq> None \<longrightarrow> name \<in> emitted g1)"
proof (induction names arbitrary: g)
  case Nil
  show ?case by (simp add: step_ok_refl)
next
  case (Cons name names)
  obtain g1 where g1: "ensure_step uc b n name g = Some g1" "step_ok uc g g1"
    "name \<noteq> '''' \<longrightarrow> lookup b name \<noteq> None \<longrightarrow> name \<in> emitted g1"
    using ensure_step_ok [OF assms] by blast
  obtain g2 where g2: "generate_types uc b n names g1 = Some g2" "step_ok uc g1 g2"
    "\<forall>name\<in>set names. name \<noteq> '''' \<longrightarrow> lookup b name \<noteq> None \<longrightarrow> name \<in> emitted g2"
    using Cons.IH [of g1] by blast
  have "emitted g1 \<subseteq> emitted g2"
    using g2(2) by (simp add: step_ok_def)
  then show ?case
    using g1 g2 step_ok_trans [OF g1(2) g2(2)] by auto
qed

lemma generate_types_more:
  "generate_types uc b n names g = Some g1 \<Longrightarrow> generate_types uc b (n + k) names g = Some g1"
proof (induction names arbitrary: g)
  case (Cons name names)
  then obtain g2 where g2: "ensure_step uc b n name g = Some g2" "generate_types uc b n names g2 = Some g1"
    by (auto split: option.splits)
  then have "ensure_step uc b (n + k) name g = Some g2"
    by (auto simp: ensure_step_def dest: fuel.ensure_le split: if_splits)
  then show ?case
    using Cons.IH [OF g2(2)] by simp
qed simp

lemma empty_generator_inv: "gen_inv uc empty_generator" "pending empty_generator = {}"
  by (simp_all add: gen_inv_def pending_def empty_generator_def)

section \<open>Go names\<close>

definition exported_identifier :: "string \<Rightarrow> bool" where
  "exported_identifier s \<longleftrightarrow> s \<noteq> [] \<and> ascii_upper (s ! 0) \<and> list_all ascii_alnum s"

lemma char_upper_alnum:
  assumes "ascii_alnum c"
  shows "ascii_alnum (char_upper c)" and "ascii_upper (char_upper c) \<or> ascii_digit (char_upper c)"
  using assms by (auto simp: ascii_alnum_def ascii_upper_def ascii_lower_def ascii_digit_def char_upper_def)

lemma alnum_ascii: "ascii_alnum c \<Longrightarrow> (of_char c :: nat) < 128"
  by (auto simp: ascii_alnum_def ascii_upper_def ascii_lower_def ascii_digit_def)

lemma camel_alnum: "is_ascii s \<Longrightarrow> list_all ascii_alnum (camel uc up s)"
  by (induction uc up s rule: camel.induct) (auto simp: char_upper_alnum)

lemma camel_first:
  "is_ascii s \<Longrightarrow> camel uc True s = c # out \<Longrightarrow> ascii_upper c \<or> ascii_digit c"
  by (induction s) (auto split: if_splits dest: char_upper_alnum(2))

lemma camel_keeps: "list_all ascii_alnum s \<Longrightarrow> camel uc False s = s"
  by (induction s) (auto simp: alnum_ascii)

lemma goTypeName_exported: "is_ascii name \<Longrightarrow> exported_identifier (goTypeName uc name)"
  using camel_alnum [of name uc True] camel_first [of name uc]
  by (auto simp: goTypeName_def exported_identifier_def ascii_upper_def ascii_alnum_def ascii_lower_def split: list.split)

lemma goTypeName_keeps:
  assumes "exported_identifier s"
  shows "goTypeName uc s = s"
proof -
  obtain c out where s: "s = c # out" "ascii_upper c" "ascii_alnum c" "list_all ascii_alnum out"
    using assms by (cases s) (auto simp: exported_identifier_def)
  have "char_upper c = c" "\<not> ascii_digit c"
    using s(2) by (auto simp: ascii_upper_def ascii_digit_def char_upper_def)
  then show ?thesis
    using s camel_keeps [OF s(4)] by (simp add: goTypeName_def alnum_ascii)
qed

section \<open>Properties\<close>

text \<open>C17: For every schema bundle, cyclic ones included, the generator returns: at the depth of
  calls \<open>gen_fuel\<close> reads off the bundle and at any larger one it ends with the same generator, so
  \<open>generateProtocol\<close> always gives an output or the error of a file or of the formatter.\<close>

theorem generator_terminates:
  "(\<exists>g. \<forall>k. generate_types uc b (gen_fuel b + k) (bundle_names b) empty_generator = Some g) \<and>
   generateProtocol fmt uc dir lock \<noteq> None"
proof -
  have ends: "\<exists>g. generate_types uc b (gen_fuel b) (bundle_names b) empty_generator = Some g" for b
    using generate_types_ok [of b "gen_fuel b"] by blast
  have returns: "generateProtocol fmt uc dir lock \<noteq> None"
  proof (cases "loadSchemaBundle dir")
    case (Inr b')
    then show ?thesis
      using ends [of b'] by (auto simp: generateProtocol_def)
  qed (simp add: generateProtocol_def)
  obtain g where "generate_types uc b (gen_fuel b) (bundle_names b) empty_generator = Some g"
    using ends by blast
  then have "\<forall>k. generate_types uc b (gen_fuel b + k) (bundle_names b) empty_generator = Some g"
    by (simp add: generate_types_more)
  then show ?thesis
    using returns by blast
qed


text \<open>The Go name of an ASCII name is an exported identifier, an upper-case letter followed by
  letters and digits, and naming it again changes nothing.\<close>

theorem go_names_exported:
  "is_ascii name \<Longrightarrow> exported_identifier (goTypeName uc name) \<and> goTypeName uc (goTypeName uc name) = goTypeName uc name"
  by (simp add: goTypeName_exported goTypeName_keeps)

theorem go_names_exported_witness:
  "exported_identifier (goTypeName (\<lambda>s. (1, None)) ''thread/token-usage2'') \<and>
   goTypeName (\<lambda>s. (1, None)) (goTypeName (\<lambda>s. (1, None)) ''thread/token-usage2'') =
     goTypeName (\<lambda>s. (1, None)) ''thread/token-usage2'' \<and>
   goTypeName (\<lambda>s. (1, None)) ''thread/token-usage2'' = ''ThreadTokenUsage2''"
  using go_names_exported [of "''thread/token-usage2''" "\<lambda>s. (1, None)"]
  by (simp add: is_ascii_def) code_simp

end
