(* ===== verification/Protocol_Unions.thy ===== *)
theory Protocol_Unions
  imports Schema_Gen
begin

text \<open>
  What the generated union types do: the functions of \<open>protocol/helpers.go\<close> and the methods
  \<open>emitUnionType\<close> writes for a union. A check that the generator emits as text is a value of type
  \<open>check\<close> here, with its text and its meaning; \<open>data\<close> is a JSON value and the byte scans of the
  helpers run on its text.
\<close>

section \<open>The helpers\<close>

definition is_blank :: "char \<Rightarrow> bool" where
  "is_blank c \<longleftrightarrow> c = CHR '' '' \<or> c = CHR 0x0A \<or> c = CHR 0x0D \<or> c = CHR 0x09"

fun looks :: "(char \<Rightarrow> bool) \<Rightarrow> string \<Rightarrow> bool" where
  "looks first [] = False"
| "looks first (b # s) = (if is_blank b then looks first s else first b)"

definition jsonLooksObject :: "string \<Rightarrow> bool" where
  "jsonLooksObject s = looks (\<lambda>b. b = CHR ''{'') s"

definition jsonLooksString :: "string \<Rightarrow> bool" where
  "jsonLooksString s = looks (\<lambda>b. b = CHR 34) s"

definition jsonLooksArray :: "string \<Rightarrow> bool" where
  "jsonLooksArray s = looks (\<lambda>b. b = CHR ''['') s"

definition jsonLooksBool :: "string \<Rightarrow> bool" where
  "jsonLooksBool s = looks (\<lambda>b. b = CHR ''t'' \<or> b = CHR ''f'') s"

definition jsonLooksNumber :: "string \<Rightarrow> bool" where
  "jsonLooksNumber s = looks (\<lambda>b. b = CHR ''-'' \<or> ascii_digit b) s"

text \<open>\<open>json.Unmarshal\<close> into a \<open>map[string]json.RawMessage\<close> and into a \<open>string\<close>; \<open>null\<close> leaves both zero.\<close>

definition payload_map :: "json \<Rightarrow> json gomap option" where
  "payload_map v = (case v of JObj ms \<Rightarrow> Some (fill_map ms []) | JNull \<Rightarrow> Some [] | _ \<Rightarrow> None)"

definition string_value :: "json \<Rightarrow> string option" where
  "string_value v = (case v of JStr s \<Rightarrow> Some s | JNull \<Rightarrow> Some '''' | _ \<Rightarrow> None)"

definition unionDiscriminator :: "json \<Rightarrow> string \<Rightarrow> string option" where
  "unionDiscriminator v field = (case payload_map v of
     None \<Rightarrow> None
   | Some p \<Rightarrow> (case map_of p field of None \<Rightarrow> None | Some raw \<Rightarrow> string_value raw))"

definition jsonStringIn :: "json \<Rightarrow> string list \<Rightarrow> bool" where
  "jsonStringIn v values = (case string_value v of None \<Rightarrow> False | Some out \<Rightarrow> out \<in> set values)"

definition jsonHasKeys :: "json \<Rightarrow> string list \<Rightarrow> bool" where
  "jsonHasKeys v keys = (case payload_map v of
     None \<Rightarrow> False
   | Some p \<Rightarrow> list_all (\<lambda>key. map_of p key \<noteq> None) keys)"

definition jsonHasField :: "json \<Rightarrow> string \<Rightarrow> bool" where
  "jsonHasField v field = (case payload_map v of None \<Rightarrow> False | Some p \<Rightarrow> map_of p field \<noteq> None)"

section \<open>Checks\<close>

datatype check = NoCheck | LooksObject | LooksKeys "string list" | StringIn "string list" | LooksString | LooksArray
  | LooksBool | LooksNumber

fun check_text :: "check \<Rightarrow> string" where
  "check_text NoCheck = ''''"
| "check_text LooksObject = ''jsonLooksObject(data)''"
| "check_text (LooksKeys keys) =
     ''jsonLooksObject(data) && jsonHasKeys(data, '' @ str_join '', '' (map go_quote keys) @ '')''"
| "check_text (StringIn values) = ''jsonStringIn(data, '' @ str_join '', '' (map go_quote values) @ '')''"
| "check_text LooksString = ''jsonLooksString(data)''"
| "check_text LooksArray = ''jsonLooksArray(data)''"
| "check_text LooksBool = ''jsonLooksBool(data)''"
| "check_text LooksNumber = ''jsonLooksNumber(data)''"

fun check_holds :: "check \<Rightarrow> json \<Rightarrow> bool" where
  "check_holds NoCheck v = True"
| "check_holds LooksObject v = jsonLooksObject (json_text v)"
| "check_holds (LooksKeys keys) v = (jsonLooksObject (json_text v) \<and> jsonHasKeys v keys)"
| "check_holds (StringIn values) v = jsonStringIn v values"
| "check_holds LooksString v = jsonLooksString (json_text v)"
| "check_holds LooksArray v = jsonLooksArray (json_text v)"
| "check_holds LooksBool v = jsonLooksBool (json_text v)"
| "check_holds LooksNumber v = jsonLooksNumber (json_text v)"

definition object_check :: "schema \<Rightarrow> check" where
  "object_check node = (if requiredList node = [] then LooksObject else LooksKeys (requiredList node))"

text \<open>The check \<open>unionCheck\<close> writes for a variant.\<close>

definition check_of :: "schema \<Rightarrow> check" where
  "check_of node =
    (if fst (variantDiscriminator node) \<noteq> '''' \<or> nodeType node = ''object'' then object_check node
     else if nodeType node = ''string'' then (if extractEnum node \<noteq> [] then StringIn (extractEnum node) else LooksString)
     else if nodeType node = ''array'' then LooksArray
     else if nodeType node = ''boolean'' then LooksBool
     else if nodeType node = ''integer'' then LooksNumber
     else NoCheck)"

section \<open>Decoding a union\<close>

record variant =
  va_TypeName :: string
  va_Check :: check
  va_Disc :: string

text \<open>
  \<open>UnmarshalJSON\<close> of a union: \<open>decode\<close> is \<open>json.Unmarshal\<close> into the type of a variant, an error being
  \<open>None\<close>. The raw data is always kept beside the value.
\<close>

datatype 'a union_value = Decoded 'a | UnknownUnionValue json

definition decode_variant :: "(string \<Rightarrow> json \<Rightarrow> 'a option) \<Rightarrow> variant \<Rightarrow> json \<Rightarrow> 'a union_value option" where
  "decode_variant decode i v = map_option Decoded (decode (va_TypeName i) v)"

definition union_switch :: "(string \<Rightarrow> json \<Rightarrow> 'a option) \<Rightarrow> string \<Rightarrow> variant list \<Rightarrow> json \<Rightarrow> 'a union_value option" where
  "union_switch decode disc infos v =
    (case find (\<lambda>i. va_Disc i \<noteq> '''' \<and> va_Disc i = disc) infos of
       None \<Rightarrow> Some (UnknownUnionValue v)
     | Some i \<Rightarrow> if check_holds (va_Check i) v then decode_variant decode i v else Some (UnknownUnionValue v))"

definition union_checks :: "(string \<Rightarrow> json \<Rightarrow> 'a option) \<Rightarrow> variant list \<Rightarrow> json \<Rightarrow> 'a union_value option" where
  "union_checks decode infos v =
    (case find (\<lambda>i. va_Check i \<noteq> NoCheck \<and> check_holds (va_Check i) v) infos of
       None \<Rightarrow> Some (UnknownUnionValue v)
     | Some i \<Rightarrow> decode_variant decode i v)"

definition union_UnmarshalJSON :: "(string \<Rightarrow> json \<Rightarrow> 'a option) \<Rightarrow> string \<Rightarrow> variant list \<Rightarrow> json \<Rightarrow>
   (json \<times> 'a union_value) option" where
  "union_UnmarshalJSON decode discField infos v =
    map_option (Pair v)
     (if discField \<noteq> '''' \<and> jsonHasField v discField then
        (case unionDiscriminator v discField of
           Some disc \<Rightarrow> union_switch decode disc infos v
         | None \<Rightarrow> Some (UnknownUnionValue v))
      else union_checks decode infos v)"

text \<open>\<open>MarshalJSON\<close>: of a zero union the raw data or \<open>null\<close>, else the value.\<close>

definition union_MarshalJSON :: "('a \<Rightarrow> json) \<Rightarrow> json option \<times> 'a union_value option \<Rightarrow> json" where
  "union_MarshalJSON encode u = (case u of
     (Some raw, None) \<Rightarrow> raw
   | (None, None) \<Rightarrow> JNull
   | (_, Some (Decoded x)) \<Rightarrow> encode x
   | (_, Some (UnknownUnionValue raw)) \<Rightarrow> raw)"

text \<open>The variants of a generated union, as \<open>variantInfo\<close> records them.\<close>

definition variant_of :: "unicode \<Rightarrow> string \<Rightarrow> nat \<times> schema \<Rightarrow> variant" where
  "variant_of uc typeName iv = (case iv of (i, node) \<Rightarrow>
    \<lparr>va_TypeName = (if refName uc node \<noteq> '''' then refName uc node
       else if isStringEnum node \<or> nodeType node = ''object'' \<or> objectProperties node \<noteq> []
       then goTypeName uc (variantTypeName typeName node i) else ''UnknownUnionValue''),
     va_Check = check_of node, va_Disc = snd (variantDiscriminator node)\<rparr>)"

definition union_variants :: "unicode \<Rightarrow> string \<Rightarrow> schema \<Rightarrow> variant list" where
  "union_variants uc name node = map (variant_of uc (goTypeName uc name)) (List.enumerate 0 (unionVariants node))"

section \<open>The emitted checks are those of the model\<close>

lemma requiredObjectCheck_text: "requiredObjectCheck node = check_text (object_check node)"
  by (simp add: requiredObjectCheck_def object_check_def Let_def)

lemma first_single_snd: "fst (first_single props ks) = '''' \<Longrightarrow> '''' \<notin> set ks \<Longrightarrow> snd (first_single props ks) = ''''"
  by (induction ks) (auto split: list.splits)

lemma unionCheck_text: "unionCheck node = check_text (check_of node)"
  by (auto simp: unionCheck_def check_of_def requiredObjectCheck_text isStringEnum_def Let_def)

definition info_of :: "variant \<Rightarrow> variant_info" where
  "info_of i = \<lparr>vi_TypeName = va_TypeName i, vi_Check = check_text (va_Check i), vi_Disc = va_Disc i\<rparr>"

lemma variantInfo_info:
  assumes "variantInfo uc ensure parent node i g = Some (info, g1)"
  shows "info = info_of (variant_of uc parent (i, node))"
proof -
  have "snd (variantDiscriminator node) = ''''" if "fst (variantDiscriminator node) = ''''"
    using that first_single_snd [of "objectProperties node" "[''type'', ''method'']"] by (simp add: variantDiscriminator_def)
  then show ?thesis
    using assms by (auto simp: variantInfo_def info_of_def variant_of_def unionCheck_text Let_def split: if_splits)
qed

lemma gen_list_infos:
  assumes "\<And>x g y g1. x \<in> set xs \<Longrightarrow> f x g = Some (y, g1) \<Longrightarrow> y = h x" "gen_list f xs g = Some (ys, g')"
  shows "ys = map h xs"
  using assms
proof (induction xs arbitrary: g ys)
  case (Cons x xs)
  then obtain y g1 zs where "f x g = Some (y, g1)" "gen_list f xs g1 = Some (zs, g')" "ys = y # zs"
    by (auto split: option.splits)
  then show ?case
    using Cons.IH [of g1 zs] Cons.prems(1) by simp
qed simp


section \<open>What a generated union decodes\<close>

text \<open>The scans on the text of a value tell its kind; the literals of numbers begin like a number.\<close>

lemma looks_text:
  "jsonLooksObject (json_text v) \<longleftrightarrow> (\<exists>ms. v = JObj ms) \<or> (\<exists>n. v = JNum n \<and> jsonLooksObject n)"
  "jsonLooksArray (json_text v) \<longleftrightarrow> (\<exists>xs. v = JArr xs) \<or> (\<exists>n. v = JNum n \<and> jsonLooksArray n)"
  "jsonLooksString (json_text v) \<longleftrightarrow> (\<exists>s. v = JStr s) \<or> (\<exists>n. v = JNum n \<and> jsonLooksString n)"
  "jsonLooksBool (json_text v) \<longleftrightarrow> (\<exists>b. v = JBool b) \<or> (\<exists>n. v = JNum n \<and> jsonLooksBool n)"
  "jsonLooksNumber (json_text v) \<longleftrightarrow> (\<exists>n. v = JNum n \<and> jsonLooksNumber n)"
  by (cases v; simp add: jsonLooksObject_def jsonLooksArray_def jsonLooksString_def jsonLooksBool_def jsonLooksNumber_def
      is_blank_def json_string_def ascii_digit_def)+

lemma map_of_fill_acc:
  "wf_map ms \<Longrightarrow> map_of (fill_map ms acc) k = (case map_of ms k of None \<Rightarrow> map_of acc k | Some v \<Rightarrow> Some v)"
proof (induction ms arbitrary: acc)
  case (Cons kv ms)
  obtain k' v where kv: "kv = (k', v)" by (cases kv)
  have "map_of (fill_map (kv # ms) acc) k = map_of (fill_map ms (AList.update k' v acc)) k"
    by (simp add: fill_map_def kv)
  moreover have "map_of ms k' = None"
    using Cons.prems kv by (simp add: map_of_eq_None_iff)
  ultimately show ?case
    using Cons.IH [of "AList.update k' v acc"] Cons.prems by (auto simp: kv split: option.splits)
qed (simp add: fill_map_def)

lemma map_of_fill: "wf_map ms \<Longrightarrow> map_of (fill_map ms []) k = map_of ms k"
  by (simp add: map_of_fill_acc option.case_eq_if)

lemma looks_object_text: "jsonLooksObject (CHR ''{'' # s)"
  by (simp add: jsonLooksObject_def is_blank_def)

lemma disc_all:
  assumes "fst (detectDiscriminator vs) = field" "field \<noteq> ''''" "w \<in> set vs"
  shows "fst (variantDiscriminator w) = field" "snd (variantDiscriminator w) \<noteq> ''''"
  using assms by (auto simp: detectDiscriminator_def all_discriminated_def Let_def split: if_splits)

lemma find_unique:
  assumes "distinct (map f xs)" "i < length xs" "f (xs ! i) = d" "P (xs ! i)"
  shows "find (\<lambda>x. P x \<and> f x = d) xs = Some (xs ! i)"
proof -
  have "f (xs ! j) \<noteq> d" if j: "j < i" for j
  proof
    assume "f (xs ! j) = d"
    then have "map f xs ! j = map f xs ! i" using assms(2,3) j by simp
    then show False
      using nth_eq_iff_index_eq [OF assms(1), of j i] assms(2) j by simp
  qed
  then show ?thesis
    unfolding find_Some_iff using assms(2-4) by (intro exI [of _ i]) simp
qed

text \<open>C34: A value of a discriminated union is decoded as the variant its discriminator names when it
  has the required members of that variant; with a discriminator no variant has it is kept as an
  unknown value, and encoding that gives the value back.\<close>

theorem union_decode_spec:
  assumes disc: "fst (detectDiscriminator (unionVariants node)) = field" "field \<noteq> ''''"
    and dist: "distinct (map (\<lambda>w. snd (variantDiscriminator w)) (unionVariants node))"
    and obj: "wf_map ms" "map_of ms field = Some (JStr d)"
  shows "(\<forall>i<length (unionVariants node). snd (variantDiscriminator (unionVariants node ! i)) = d \<longrightarrow>
      set (requiredList (unionVariants node ! i)) \<subseteq> fst ` set ms \<longrightarrow>
      union_UnmarshalJSON decode field (union_variants uc name node) (JObj ms) = map_option (\<lambda>x. (JObj ms, Decoded x))
        (decode (va_TypeName (variant_of uc (goTypeName uc name) (i, unionVariants node ! i))) (JObj ms))) \<and>
    (d \<notin> (\<lambda>w. snd (variantDiscriminator w)) ` set (unionVariants node) \<longrightarrow>
      union_UnmarshalJSON decode field (union_variants uc name node) (JObj ms) = Some (JObj ms, UnknownUnionValue (JObj ms)) \<and>
      union_MarshalJSON encode (Some (JObj ms), Some (UnknownUnionValue (JObj ms) :: 'a union_value)) = JObj ms)"
proof -
  let ?vs = "unionVariants node"
  let ?is = "union_variants uc name node"
  let ?result = "union_UnmarshalJSON decode field ?is (JObj ms)"
  have len: "length ?is = length ?vs" and nth: "\<And>i. i < length ?vs \<Longrightarrow> ?is ! i = variant_of uc (goTypeName uc name) (i, ?vs ! i)"
    by (simp_all add: union_variants_def nth_enumerate_eq)
  have discs: "map va_Disc ?is = map (\<lambda>w. snd (variantDiscriminator w)) ?vs"
    by (rule nth_equalityI) (simp_all add: len nth variant_of_def)
  have switch: "?result = map_option (Pair (JObj ms)) (union_switch decode d ?is (JObj ms))"
    using disc(2) obj by (simp add: union_UnmarshalJSON_def jsonHasField_def unionDiscriminator_def payload_map_def
        string_value_def map_of_fill)
  have known: "?result = map_option (\<lambda>x. (JObj ms, Decoded x)) (decode (va_TypeName (?is ! i)) (JObj ms))"
    if i: "i < length ?vs" "snd (variantDiscriminator (?vs ! i)) = d" and req: "set (requiredList (?vs ! i)) \<subseteq> fst ` set ms" for i
  proof -
    have mem: "?vs ! i \<in> set ?vs" using i(1) by simp
    have "find (\<lambda>x. va_Disc x \<noteq> '''' \<and> va_Disc x = d) ?is = Some (?is ! i)"
      using dist discs i disc_all(2) [OF disc mem] by (intro find_unique) (simp_all add: len nth variant_of_def)
    moreover have "va_Check (?is ! i) = object_check (?vs ! i)"
      using i(1) disc(2) disc_all(1) [OF disc mem] by (simp add: nth variant_of_def check_of_def)
    moreover have "check_holds (object_check (?vs ! i)) (JObj ms)"
      using req obj(1)
      by (auto simp: object_check_def looks_object_text jsonHasKeys_def payload_map_def list_all_iff map_of_fill map_of_eq_None_iff)
    ultimately show ?thesis
      by (simp add: switch union_switch_def decode_variant_def option.map_comp comp_def)
  qed
  have unknown: "?result = Some (JObj ms, UnknownUnionValue (JObj ms))" if "d \<notin> (\<lambda>w. snd (variantDiscriminator w)) ` set ?vs"
  proof -
    have "set (map va_Disc ?is) = (\<lambda>w. snd (variantDiscriminator w)) ` set ?vs"
      by (simp only: discs set_map)
    then have "find (\<lambda>x. va_Disc x \<noteq> '''' \<and> va_Disc x = d) ?is = None"
      using that by (auto simp: find_None_iff)
    then show ?thesis
      by (simp add: switch union_switch_def)
  qed
  show ?thesis
    using known unknown nth by (simp add: union_MarshalJSON_def)
qed

section \<open>An example\<close>

definition demo_variant :: "string \<Rightarrow> string \<Rightarrow> json" where
  "demo_variant title disc = JObj [(''title'', JStr title), (''type'', JStr ''object''), (''required'', JArr [JStr ''type'']),
     (''properties'', JObj [(''type'', JObj [(''enum'', JArr [JStr disc]), (''type'', JStr ''string'')])])]"

definition demo_union :: schema where
  "demo_union = [(''oneOf'', JArr [demo_variant ''Alpha'' ''a'', demo_variant ''Beta'' ''b''])]"

definition demo_bundle :: schemaBundle where
  "demo_bundle = empty_bundle\<lparr>Definitions := [(''Choice'', demo_union)]\<rparr>"

lemma demo_discriminator:
  "fst (detectDiscriminator (unionVariants demo_union)) = ''type'' \<and>
   distinct (map (\<lambda>w. snd (variantDiscriminator w)) (unionVariants demo_union)) \<and>
   length (unionVariants demo_union) = 2 \<and> snd (variantDiscriminator (unionVariants demo_union ! 1)) = ''b'' \<and>
   requiredList (unionVariants demo_union ! 1) = [''type''] \<and>
   list_all (\<lambda>w. snd (variantDiscriminator w) \<noteq> ''c'') (unionVariants demo_union) \<and>
   va_TypeName (variant_of (\<lambda>s. (1, None)) (goTypeName (\<lambda>s. (1, None)) ''choice'') (1, unionVariants demo_union ! 1)) = ''Beta''"
  by code_simp

theorem union_decode_spec_witness:
  "union_UnmarshalJSON (\<lambda>t v. Some t) ''type'' (union_variants (\<lambda>s. (1, None)) ''choice'' demo_union) (JObj [(''type'', JStr ''b'')]) =
     Some (JObj [(''type'', JStr ''b'')], Decoded ''Beta'') \<and>
   union_UnmarshalJSON (\<lambda>t v. Some t) ''type'' (union_variants (\<lambda>s. (1, None)) ''choice'' demo_union) (JObj [(''type'', JStr ''c'')]) =
     Some (JObj [(''type'', JStr ''c'')], UnknownUnionValue (JObj [(''type'', JStr ''c'')]))"
  using union_decode_spec [of demo_union "''type''" "[(''type'', JStr ''b'')]" "''b''" "\<lambda>t v. Some t" "\<lambda>s. (1, None)" "''choice''" JStr,
      THEN conjunct1, THEN spec, of 1]
    union_decode_spec [of demo_union "''type''" "[(''type'', JStr ''c'')]" "''c''" "\<lambda>t v. Some t" "\<lambda>s. (1, None)" "''choice''" JStr]
    demo_discriminator
  by (auto simp: list_all_iff)


end
