(* ===== verification/Fs_Ops.thy ===== *)
theory Fs_Ops
  imports Fs_Props
begin

text \<open>
  Reading and writing files and listing directories on the file system of \<open>Runtimebin\<close>, as the
  commands use them, with what the operations keep.
\<close>

section \<open>Operations\<close>

definition ReadFile :: "string \<Rightarrow> fs \<Rightarrow> go_error + string" where
  "ReadFile p f = (case f p of
     Some (FileNode d m) \<Rightarrow> Inr d
   | Some DirNode \<Rightarrow> Inl (Text (''read '' @ p @ '': is a directory''))
   | None \<Rightarrow> Inl not_exist)"

text \<open>A new file gets mode 644, as under the usual umask; an existing one keeps its mode.\<close>

definition WriteFile :: "string \<Rightarrow> string \<Rightarrow> fs \<Rightarrow> go_error + fs" where
  "WriteFile p d f = (case f p of
     Some DirNode \<Rightarrow> Inl (Text (''open '' @ p @ '': is a directory''))
   | Some (FileNode old m) \<Rightarrow> Inr (f(p \<mapsto> FileNode d m))
   | None \<Rightarrow> if f (path_Dir p) = Some DirNode then Inr (f(p \<mapsto> FileNode d 420)) else Inl not_exist)"

text \<open>The entries of a directory, sorted by name: those of the \<open>names\<close> on the disk that are there.\<close>

definition ReadDir :: "string list \<Rightarrow> string \<Rightarrow> fs \<Rightarrow> go_error + string list" where
  "ReadDir names dir f =
    (if f dir = Some DirNode
     then Inr (filter (\<lambda>n. normal n \<and> f (path_Join [dir, n]) \<noteq> None) (sort (remdups names)))
     else Inl not_exist)"

text \<open>\<open>filepath.Base\<close>.\<close>

definition path_Base :: "string \<Rightarrow> string" where
  "path_Base p =
    (let q = rev (dropWhile (\<lambda>c. c = CHR ''/'') (rev p))
     in if p = '''' then ''.'' else if q = '''' then ''/'' else last (str_split (CHR ''/'') q))"

section \<open>What they keep\<close>

lemma WriteFile_keeps: "WriteFile p d f = Inr g \<Longrightarrow> keeps f g"
  by (auto simp: WriteFile_def keeps_def split: option.splits node.splits if_splits)

lemma WriteFile_other: "WriteFile p d f = Inr g \<Longrightarrow> q \<noteq> p \<Longrightarrow> g q = f q"
  by (auto simp: WriteFile_def split: option.splits node.splits if_splits)

lemma WriteFile_there: "WriteFile p d f = Inr g \<Longrightarrow> ReadFile p g = Inr d"
  by (auto simp: WriteFile_def ReadFile_def split: option.splits node.splits if_splits)

lemma MkdirAll_files: "MkdirAll p f = Inr g \<Longrightarrow> ReadFile q f = Inr d \<Longrightarrow> ReadFile q g = Inr d"
  by (auto simp: ReadFile_def dest!: MkdirAll_Inr split: option.splits node.splits)

lemma WriteFile_files: "WriteFile p x f = Inr g \<Longrightarrow> q \<noteq> p \<Longrightarrow> ReadFile q f = Inr d \<Longrightarrow> ReadFile q g = Inr d"
  by (simp add: ReadFile_def WriteFile_other)

end
