(* ===== verification/Gen_Main.thy ===== *)
theory Gen_Main
  imports Schema_Gen Fs_Ops Go_Pretty
begin

text \<open>
  \<open>cmd/codex-sdk-gen/main.go\<close>: the commands \<open>refresh\<close>, which copies the pinned schemas and writes
  the generated files, and \<open>verify\<close>, which checks that they are up to date. The file system is that
  of \<open>Runtimebin\<close>; a directory is listed from the names in use on the disk, one of the arguments
  kept in \<open>gen_env\<close> with git, the hash, the parsing of JSON text and \<open>format.Source\<close>.
\<close>

record gen_env =
  ge_reference :: string
  ge_git :: "string \<Rightarrow> go_error + string"
  ge_parse :: "string \<Rightarrow> go_error + json"
  ge_sha :: "string \<Rightarrow> string"
  ge_fmt :: formatter
  ge_uc :: unicode
  ge_names :: "string list"

section \<open>The lock file\<close>

definition elem_lockTarget :: "json \<Rightarrow> lockTarget option" where
  "elem_lockTarget v = (case struct_members (Some v) of
     None \<Rightarrow> None
   | Some ms \<Rightarrow>
      (case (dec_string ''goos'' '''' ms, dec_string ''goarch'' '''' ms, dec_string ''triple'' '''' ms,
          dec_string ''asset'' '''' ms) of
         (Some a, Some b, Some c, Some d) \<Rightarrow> Some \<lparr>lt_GoOS = a, lt_GoArch = b, lt_Triple = c, lt_Asset = d\<rparr>
       | _ \<Rightarrow> None))"

fun dec_lockTargets :: "lockTarget list \<Rightarrow> members \<Rightarrow> lockTarget list option" where
  "dec_lockTargets acc [] = Some acc"
| "dec_lockTargets acc ((k, v) # ms) =
     (if is_field ''targets'' k then
        (case v of
           JArr xs \<Rightarrow> (case those (map elem_lockTarget xs) of Some ts \<Rightarrow> dec_lockTargets ts ms | None \<Rightarrow> None)
         | JNull \<Rightarrow> dec_lockTargets [] ms
         | _ \<Rightarrow> None)
      else dec_lockTargets acc ms)"

definition json_lock :: "json \<Rightarrow> lockFile option" where
  "json_lock v = (case struct_members (Some v) of
     None \<Rightarrow> None
   | Some ms \<Rightarrow>
      (case (those (map (\<lambda>name. dec_string name '''' ms)
            [''upstreamRepo'', ''commit'', ''pythonRoot'', ''runtimePackage'', ''runtimeVersion'', ''schemaPath'',
             ''schemaFile'', ''schemaSHA256'']), dec_lockTargets [] ms) of
         (Some [repo, commit, python, pkg, ver, spath, sfile, sha], Some targets) \<Rightarrow>
           Some \<lparr>lk_UpstreamRepo = repo, lk_Commit = commit, lk_PythonRoot = python, lk_RuntimePackage = pkg,
             lk_RuntimeVersion = ver, lk_SchemaPath = spath, lk_SchemaFile = sfile, lk_SchemaSHA256 = sha,
             lk_Targets = targets\<rparr>
       | _ \<Rightarrow> None))"

definition unmarshal_error :: go_error where
  "unmarshal_error = Text ''json: cannot unmarshal''"

definition readLock :: "gen_env \<Rightarrow> string \<Rightarrow> fs \<Rightarrow> go_error + lockFile" where
  "readLock env path f =
    (case ReadFile path f of
       Inl e \<Rightarrow> Inl e
     | Inr d \<Rightarrow>
        (case ge_parse env d of
           Inl e \<Rightarrow> Inl e
         | Inr v \<Rightarrow> (case json_lock v of Some lock \<Rightarrow> Inr lock | None \<Rightarrow> Inl unmarshal_error)))"

section \<open>The manifest file\<close>

text \<open>The JSON of the manifest, in the order of its fields.\<close>

definition json_nat :: "nat \<Rightarrow> json" where
  "json_nat n = JNum (show_nat n)"

definition json_methods :: "manifestMethod list \<Rightarrow> json" where
  "json_methods ms = JArr (map (\<lambda>m. JObj [(''method'', JStr (mm_Method m)), (''title'', JStr (mm_Title m))]) ms)"

definition manifest_json :: "manifest \<Rightarrow> json" where
  "manifest_json m = (let s = mn_Source m; c = mn_Counts m in JObj
     [(''schemaVersion'', JNum (show_int (mn_SchemaVersion m))),
      (''source'', JObj [(''upstreamRepo'', JStr (ms_UpstreamRepo s)), (''commit'', JStr (ms_Commit s)),
        (''pythonRoot'', JStr (ms_PythonRoot s)), (''runtimePackage'', JStr (ms_RuntimePackage s)),
        (''runtimeVersion'', JStr (ms_RuntimeVersion s)), (''schemaFile'', JStr (ms_SchemaFile s)),
        (''schemaSHA256'', JStr (ms_SchemaSHA256 s))]),
      (''counts'', JObj [(''aggregateDefinitions'', json_nat (mc_AggregateDefinitions c)),
        (''supplementalDefinitions'', json_nat (mc_SupplementalDefinitions c)),
        (''requests'', json_nat (mc_Requests c)), (''notifications'', json_nat (mc_Notifications c)),
        (''serverRequests'', json_nat (mc_ServerRequests c))]),
      (''definitions'', json_strings (mn_Definitions m)),
      (''supplementalDefinitions'', json_strings (mn_SupplementalDefinitions m)),
      (''requests'', json_methods (mn_Requests m)),
      (''notifications'', json_methods (mn_Notifications m)),
      (''serverRequests'', json_methods (mn_ServerRequests m)),
      (''missingDefinitions'', json_strings (mn_MissingDefinitions m)),
      (''missingMethods'', json_strings (mn_MissingMethods m)),
      (''unsupportedConstructs'', json_strings (mn_UnsupportedConstructs m)),
      (''duplicateSymbols'', json_strings (mn_DuplicateSymbols m))])"

section \<open>The reference checkout\<close>

definition gitHead :: "gen_env \<Rightarrow> string \<Rightarrow> go_error + string" where
  "gitHead env repo = (case ge_git env repo of Inl e \<Rightarrow> Inl e | Inr out \<Rightarrow> Inr (trimSpace out))"

definition reference_ok :: "gen_env \<Rightarrow> lockFile \<Rightarrow> fs \<Rightarrow> string \<Rightarrow> bool" where
  "reference_ok env lock f candidate \<longleftrightarrow>
     candidate \<noteq> '''' \<and> f (path_Clean candidate) = Some DirNode \<and> gitHead env candidate = Inr (lk_Commit lock) \<and>
     f (path_Join [candidate, lk_PythonRoot lock]) \<noteq> None"

definition reference_candidates :: "gen_env \<Rightarrow> string \<Rightarrow> string list" where
  "reference_candidates env root =
     (if ge_reference env \<noteq> '''' then [ge_reference env] else []) @
     [path_Clean (path_Join [root, ''../../other/codex'']), path_Join [root, ''_reference'', ''codex'']]"

definition resolveReferenceRoot :: "gen_env \<Rightarrow> string \<Rightarrow> lockFile \<Rightarrow> fs \<Rightarrow> go_error + string" where
  "resolveReferenceRoot env root lock f =
    (case find (reference_ok env lock f) (reference_candidates env root) of
       Some candidate \<Rightarrow> Inr candidate
     | None \<Rightarrow> Inl (Text ''unable to resolve pinned codex reference checkout''))"

section \<open>Copying and checking\<close>

definition copyFile :: "string \<Rightarrow> string \<Rightarrow> fs \<Rightarrow> fs \<times> go_error option" where
  "copyFile src dst f =
    (case MkdirAll (path_Dir dst) f of
       Inl e \<Rightarrow> (f, Some e)
     | Inr f1 \<Rightarrow>
        (case ReadFile src f1 of
           Inl e \<Rightarrow> (f1, Some e)
         | Inr d \<Rightarrow> (case WriteFile dst d f1 of Inl e \<Rightarrow> (f1, Some e) | Inr f2 \<Rightarrow> (f2, None))))"

fun copy_entries :: "string \<Rightarrow> string \<Rightarrow> string list \<Rightarrow> fs \<Rightarrow> fs \<times> go_error option" where
  "copy_entries srcDir dstDir [] f = (f, None)"
| "copy_entries srcDir dstDir (n # ns) f =
     (if f (path_Join [srcDir, n]) = Some DirNode \<or> \<not> ext_json n then copy_entries srcDir dstDir ns f
      else (case copyFile (path_Join [srcDir, n]) (path_Join [dstDir, n]) f of
          (f1, Some e) \<Rightarrow> (f1, Some e)
        | (f1, None) \<Rightarrow> copy_entries srcDir dstDir ns f1))"

definition copySchemaDirectory :: "gen_env \<Rightarrow> string \<Rightarrow> string \<Rightarrow> fs \<Rightarrow> fs \<times> go_error option" where
  "copySchemaDirectory env srcDir dstDir f =
    (case ReadDir (ge_names env) srcDir f of
       Inl e \<Rightarrow> (f, Some e)
     | Inr entries \<Rightarrow>
        (case MkdirAll dstDir f of
           Inl e \<Rightarrow> (f, Some e)
         | Inr f1 \<Rightarrow> copy_entries srcDir dstDir entries f1))"

definition verifyFileBytes :: "string \<Rightarrow> string \<Rightarrow> fs \<Rightarrow> go_error option" where
  "verifyFileBytes path want f =
    (case ReadFile path f of
       Inl e \<Rightarrow> Some e
     | Inr got \<Rightarrow> if got \<noteq> want
         then Some (Text (path @ '' is stale; run `go run ./cmd/codex-sdk-gen refresh`'')) else None)"

definition verifySchemaSHA :: "gen_env \<Rightarrow> string \<Rightarrow> string \<Rightarrow> fs \<Rightarrow> go_error option" where
  "verifySchemaSHA env path want f =
    (case ReadFile path f of
       Inl e \<Rightarrow> Some e
     | Inr d \<Rightarrow> if ge_sha env d \<noteq> want
         then Some (Text (''schema sha mismatch: got '' @ ge_sha env d @ '' want '' @ want)) else None)"

section \<open>The commands\<close>

text \<open>The schema directory as the generator reads it.\<close>

definition read_root :: "gen_env \<Rightarrow> string \<Rightarrow> fs \<Rightarrow> file_read" where
  "read_root env path f =
    (case ReadFile path f of
       Inl e \<Rightarrow> ReadError e
     | Inr d \<Rightarrow>
        (case ge_parse env d of
           Inl e \<Rightarrow> ParseFailure e
         | Inr v \<Rightarrow>
            (case any_of v of
               JObj ms \<Rightarrow> Root (Some ms)
             | JNull \<Rightarrow> Root None
             | _ \<Rightarrow> ParseFailure unmarshal_error)))"

definition schema_entries :: "gen_env \<Rightarrow> string \<Rightarrow> fs \<Rightarrow> go_error + (string \<times> file_read option) list" where
  "schema_entries env dir f =
    (case ReadDir (ge_names env) dir f of
       Inl e \<Rightarrow> Inl e
     | Inr ns \<Rightarrow> Inr (map (\<lambda>n. (n, if f (path_Join [dir, n]) = Some DirNode then None
         else Some (read_root env (path_Join [dir, n]) f))) ns))"

text \<open>The generator on that directory; it never runs out of its fuel.\<close>

definition generated :: "gen_env \<Rightarrow> string \<Rightarrow> lockFile \<Rightarrow> fs \<Rightarrow> go_error + generationOutput" where
  "generated env root lock f =
    (case generateProtocol (ge_fmt env) (ge_uc env) (schema_entries env (path_Join [root, ''schema'']) f) lock of
       Some r \<Rightarrow> r
     | None \<Rightarrow> Inl (Text ''out of fuel''))"

fun write_files :: "string \<Rightarrow> string gomap \<Rightarrow> fs \<Rightarrow> fs \<times> go_error option" where
  "write_files root [] f = (f, None)"
| "write_files root ((path, d) # files) f =
     (case MkdirAll (path_Dir (path_Join [root, path])) f of
        Inl e \<Rightarrow> (f, Some e)
      | Inr f1 \<Rightarrow>
         (case WriteFile (path_Join [root, path]) d f1 of
            Inl e \<Rightarrow> (f1, Some e)
          | Inr f2 \<Rightarrow> write_files root files f2))"

definition refresh :: "gen_env \<Rightarrow> string \<Rightarrow> lockFile \<Rightarrow> fs \<Rightarrow> fs \<times> go_error option" where
  "refresh env root lock f =
    (case resolveReferenceRoot env root lock f of
       Inl e \<Rightarrow> (f, Some e)
     | Inr referenceRoot \<Rightarrow>
        (case copySchemaDirectory env (path_Join [referenceRoot, path_Dir (lk_SchemaPath lock)])
            (path_Join [root, ''schema'']) f of
           (f1, Some e) \<Rightarrow> (f1, Some e)
         | (f1, None) \<Rightarrow>
            (case verifySchemaSHA env (path_Join [root, ''schema'', lk_SchemaFile lock]) (lk_SchemaSHA256 lock) f1 of
               Some e \<Rightarrow> (f1, Some e)
             | None \<Rightarrow>
                (case generated env root lock f1 of
                   Inl e \<Rightarrow> (f1, Some e)
                 | Inr out \<Rightarrow>
                    (case write_files root (go_Files out) f1 of
                       (f2, Some e) \<Rightarrow> (f2, Some e)
                     | (f2, None) \<Rightarrow>
                        (case WriteFile (path_Join [root, ''protocol'', ''manifest.json''])
                            (marshalPretty (manifest_json (go_Manifest out))) f2 of
                           Inl e \<Rightarrow> (f2, Some e)
                         | Inr f3 \<Rightarrow> (f3, None)))))))"

fun verify_outputs :: "string \<Rightarrow> string gomap \<Rightarrow> fs \<Rightarrow> go_error option" where
  "verify_outputs root [] f = None"
| "verify_outputs root ((path, d) # files) f =
     (case verifyFileBytes (path_Join [root, path]) d f of
        Some e \<Rightarrow> Some e
      | None \<Rightarrow> verify_outputs root files f)"

definition verify :: "gen_env \<Rightarrow> string \<Rightarrow> lockFile \<Rightarrow> fs \<Rightarrow> go_error option" where
  "verify env root lock f =
    (case resolveReferenceRoot env root lock f of
       Inl e \<Rightarrow> Some e
     | Inr _ \<Rightarrow>
        (case verifySchemaSHA env (path_Join [root, ''schema'', lk_SchemaFile lock]) (lk_SchemaSHA256 lock) f of
           Some e \<Rightarrow> Some e
         | None \<Rightarrow>
            (case generated env root lock f of
               Inl e \<Rightarrow> Some e
             | Inr out \<Rightarrow>
                (case verifyFileBytes (path_Join [root, ''protocol'', ''manifest.json''])
                    (marshalPretty (manifest_json (go_Manifest out))) f of
                   Some e \<Rightarrow> Some e
                 | None \<Rightarrow> verify_outputs root (go_Files out) f))))"

definition run :: "gen_env \<Rightarrow> go_error + string \<Rightarrow> string list \<Rightarrow> fs \<Rightarrow> fs \<times> go_error option" where
  "run env cwd args f =
    (let cmd = (case args of [] \<Rightarrow> ''verify'' | a # _ \<Rightarrow> a)
     in case cwd of
          Inl e \<Rightarrow> (f, Some e)
        | Inr root \<Rightarrow>
           (case readLock env (path_Join [root, ''reference.lock.json'']) f of
              Inl e \<Rightarrow> (f, Some e)
            | Inr lock \<Rightarrow>
               if cmd = ''refresh'' then refresh env root lock f
               else if cmd = ''verify'' then (f, verify env root lock f)
               else (f, Some (Text (''unknown command '' @ go_quote cmd @ '' (supported: verify, refresh)'')))))"

end
