(* ===== verification/Gen_Main_Props.thy ===== *)
theory Gen_Main_Props
  imports Gen_Main
begin

text \<open>
  After a successful \<open>refresh\<close> the files it wrote pass \<open>verify\<close>: the generated files are those the
  generator gives again, because writing them leaves the schemas as they were.
\<close>

section \<open>Writing\<close>

lemma copyFile_keeps: "copyFile src dst f = (g, err) \<Longrightarrow> keeps f g"
  by (auto simp: copyFile_def split: sum.splits dest: keeps_MkdirAll WriteFile_keeps intro: keeps_trans)

lemma copy_entries_keeps: "copy_entries s d ns f = (g, err) \<Longrightarrow> keeps f g"
  by (induction ns arbitrary: f)
    (auto split: if_splits prod.splits option.splits dest: copyFile_keeps intro: keeps_trans)

lemma copySchemaDirectory_effect:
  assumes "copySchemaDirectory env src dst f = (g, None)"
  shows "keeps f g \<and> dir_there dst g"
proof -
  obtain ns f1 where f1: "MkdirAll dst f = Inr f1" "copy_entries src dst ns f1 = (g, None)"
    using assms by (auto simp: copySchemaDirectory_def split: sum.splits)
  have "keeps f1 g" by (rule copy_entries_keeps [OF f1(2)])
  then show ?thesis
    using keeps_trans [OF keeps_MkdirAll [OF f1(1)]] keeps_dir_there MkdirAll_there [OF f1(1)] by blast
qed

section \<open>The protocol directory\<close>

text \<open>Only paths at or below the protocol directory of \<open>root\<close> change.\<close>

definition only_protocol :: "string \<Rightarrow> fs \<Rightarrow> fs \<Rightarrow> bool" where
  "only_protocol root f g \<longleftrightarrow> keeps f g \<and> (\<forall>p. \<not> hasPrefix p (root @ slash # ''protocol'') \<longrightarrow> g p = f p)"

lemma only_protocol_refl [simp]: "only_protocol root f f"
  by (simp add: only_protocol_def)

lemma only_protocol_trans: "only_protocol root f g \<Longrightarrow> only_protocol root g h \<Longrightarrow> only_protocol root f h"
  unfolding only_protocol_def using keeps_trans by force

lemma normal_protocol [simp]: "normal ''protocol''" and normal_schema [simp]: "normal ''schema''"
  by (simp_all add: normal_def)

lemma path_Join_three: "a \<noteq> '''' \<Longrightarrow> b \<noteq> '''' \<Longrightarrow> path_Join [d, a, b] = path_Join [d, a @ slash # b]"
  by (simp add: path_Join_def)

lemma protocol_path:
  assumes "clean_dir root" "normal x"
  shows "path_Join [root, ''protocol'' @ slash # x] = root @ slash # ''protocol'' @ slash # x"
    and "path_Join [root, ''protocol'', x] = root @ slash # ''protocol'' @ slash # x"
    and "path_Dir (root @ slash # ''protocol'' @ slash # x) = root @ slash # ''protocol''"
  using path_Join_below [OF assms(1), of "[''protocol'', x]"] path_Dir_join [OF assms(1), of "[''protocol'', x]"] assms(2)
    path_Join_three [of "''protocol''" x root]
  by (simp_all add: normal_def)

lemma MkdirAll_protocol:
  assumes root: "clean_dir root" "dir_there root f" and m: "MkdirAll (root @ slash # ''protocol'') f = Inr g"
  shows "only_protocol root f g"
proof -
  have "hasPrefix q (root @ slash # ''protocol'')"
    if "q \<in> set (ancestors (root @ slash # ''protocol''))" "f q = None" for q
    using ancestors_below [OF root(1), of "[''protocol'']" q] root(2) that by (auto simp: dir_there_def hasPrefix_iff)
  then show ?thesis
    using keeps_MkdirAll [OF m] unfolding only_protocol_def MkdirAll_Inr [OF m] by auto
qed

lemma WriteFile_protocol:
  assumes "WriteFile (root @ slash # ''protocol'' @ slash # x) d f = Inr g"
  shows "only_protocol root f g"
proof -
  have "p \<noteq> root @ slash # ''protocol'' @ slash # x" if "\<not> hasPrefix p (root @ slash # ''protocol'')" for p
    using that by (intro notI) (simp add: hasPrefix_def)
  then show ?thesis
    using WriteFile_keeps [OF assms] WriteFile_other [OF assms] by (simp add: only_protocol_def)
qed

lemma write_files_effect:
  assumes root: "clean_dir root"
    and there: "dir_there root f"
    and paths: "\<forall>x\<in>set (map fst files). normal x"
    and dist: "distinct (map fst files)"
    and run: "write_files root (map (\<lambda>(x, d). (''protocol'' @ slash # x, d)) files) f = (g, None)"
  shows "only_protocol root f g \<and> (\<forall>(x, d)\<in>set files. ReadFile (root @ slash # ''protocol'' @ slash # x) g = Inr d) \<and>
    (\<forall>q d. q \<notin> (\<lambda>x. root @ slash # ''protocol'' @ slash # x) ` set (map fst files) \<longrightarrow>
      ReadFile q f = Inr d \<longrightarrow> ReadFile q g = Inr d)"
  using there paths dist run
proof (induction files arbitrary: f)
  case (Cons xd files)
  obtain x d where xd: "xd = (x, d)" by (cases xd)
  have x: "normal x" using Cons.prems xd by simp
  let ?p = "root @ slash # ''protocol'' @ slash # x"
  obtain f1 f2 where f1: "MkdirAll (root @ slash # ''protocol'') f = Inr f1" and f2: "WriteFile ?p d f1 = Inr f2"
    and rest: "write_files root (map (\<lambda>(x, d). (''protocol'' @ slash # x, d)) files) f2 = (g, None)"
    using Cons.prems(4) xd protocol_path [OF root x] by (auto split: sum.splits)
  have step: "only_protocol root f f2"
    using MkdirAll_protocol [OF root Cons.prems(1) f1] WriteFile_protocol [OF f2] by (rule only_protocol_trans)
  then have "dir_there root f2"
    using Cons.prems(1) by (auto simp: only_protocol_def intro: keeps_dir_there)
  then have IH: "only_protocol root f2 g"
    "\<forall>(x, d)\<in>set files. ReadFile (root @ slash # ''protocol'' @ slash # x) g = Inr d"
    "\<forall>q d. q \<notin> (\<lambda>x. root @ slash # ''protocol'' @ slash # x) ` set (map fst files) \<longrightarrow>
      ReadFile q f2 = Inr d \<longrightarrow> ReadFile q g = Inr d"
    using Cons.IH [of f2] Cons.prems(2,3) rest by simp_all
  have "?p \<notin> (\<lambda>x. root @ slash # ''protocol'' @ slash # x) ` set (map fst files)"
    using Cons.prems(3) xd by auto
  then have "ReadFile ?p g = Inr d"
    using IH(3) WriteFile_there [OF f2] by blast
  moreover have "ReadFile q g = Inr e" if "q \<notin> (\<lambda>x. root @ slash # ''protocol'' @ slash # x) ` set (map fst (xd # files))"
    "ReadFile q f = Inr e" for q e
    using IH(3) WriteFile_files [OF f2 _ MkdirAll_files [OF f1 that(2)]] that(1) xd by auto
  ultimately show ?case
    using IH(2) only_protocol_trans [OF step IH(1)] xd by auto
qed simp

section \<open>The schemas are untouched\<close>

lemma schema_paths:
  assumes "clean_dir root"
  shows "path_Join [root, ''schema''] = root @ slash # ''schema''"
    and "normal n \<Longrightarrow> path_Join [root @ slash # ''schema'', n] = root @ slash # ''schema'' @ slash # n"
    and "normal n \<Longrightarrow> path_Join [root, ''schema'', n] = root @ slash # ''schema'' @ slash # n"
proof -
  show d: "path_Join [root, ''schema''] = root @ slash # ''schema''"
    using path_Join_below [OF assms, of "[''schema'']"] by simp
  assume n: "normal n"
  have "clean_dir (root @ slash # ''schema'')"
    using clean_dir_below [OF assms, of "[''schema'']"] by simp
  from path_Join_below [OF this, of "[n]"] n
  show "path_Join [root @ slash # ''schema'', n] = root @ slash # ''schema'' @ slash # n" by simp
  show "path_Join [root, ''schema'', n] = root @ slash # ''schema'' @ slash # n"
    using path_Join_below [OF assms, of "[''schema'', n]"] path_Join_three [of "''schema''" n root] n
    by (simp add: normal_def)
qed

lemma schema_apart: "\<not> hasPrefix (root @ slash # ''schema'' @ e) (root @ slash # ''protocol'')"
  by (simp add: hasPrefix_def)

lemma same_schema:
  assumes "only_protocol root f g"
  shows "g (root @ slash # ''schema'' @ e) = f (root @ slash # ''schema'' @ e)"
  using assms schema_apart [of root e] by (simp add: only_protocol_def)

lemma same_entries:
  assumes root: "clean_dir root" and "only_protocol root f g"
  shows "schema_entries env (path_Join [root, ''schema'']) g = schema_entries env (path_Join [root, ''schema'']) f"
proof -
  have same: "g (path_Join [root @ slash # ''schema'', n]) = f (path_Join [root @ slash # ''schema'', n])" if "normal n" for n
    using same_schema [OF assms(2), of "slash # n"] schema_paths(2) [OF root that] by simp
  have dir: "g (root @ slash # ''schema'') = f (root @ slash # ''schema'')"
    using same_schema [OF assms(2), of "[]"] by simp
  have "ReadDir (ge_names env) (root @ slash # ''schema'') g = ReadDir (ge_names env) (root @ slash # ''schema'') f"
    by (auto simp: ReadDir_def dir same intro: filter_cong)
  moreover have "normal n" if "ReadDir (ge_names env) (root @ slash # ''schema'') f = Inr ns" "n \<in> set ns" for ns n
    using that by (auto simp: ReadDir_def split: if_splits)
  ultimately show ?thesis
    by (auto simp: schema_entries_def schema_paths(1) [OF root] read_root_def ReadFile_def same split: sum.split)
qed

lemma reference_stays:
  assumes "keeps f g" "resolveReferenceRoot env root lock f = Inr r"
  shows "\<exists>r'. resolveReferenceRoot env root lock g = Inr r'"
proof -
  have mono: "reference_ok env lock g c" if "reference_ok env lock f c" for c
    using assms(1) that by (auto simp: reference_ok_def keeps_def)
  have "find (reference_ok env lock f) (reference_candidates env root) \<noteq> None"
    using assms(2) by (auto simp: resolveReferenceRoot_def split: option.splits)
  then have "find (reference_ok env lock g) (reference_candidates env root) \<noteq> None"
    using mono by (auto simp: find_None_iff)
  then show ?thesis
    by (auto simp: resolveReferenceRoot_def)
qed

section \<open>Refreshing and verifying\<close>

lemma generated_files:
  assumes "generated env root lock f = Inr out"
  shows "\<exists>t r h. go_Files out = map (\<lambda>(x, d). (''protocol'' @ slash # x, d))
    [(''generated_types.go'', t), (''generated_registries.go'', r), (''helpers.go'', h)]"
  using assms by (auto simp: generated_def generateProtocol_def split: option.splits sum.splits)

lemma verify_outputs_ok:
  "\<forall>(p, d)\<in>set files. ReadFile (path_Join [root, p]) f = Inr d \<Longrightarrow> verify_outputs root files f = None"
  by (induction files) (auto simp: verifyFileBytes_def)

text \<open>What the second half of \<open>refresh\<close> writes.\<close>

lemma outputs_written:
  assumes root: "clean_dir root" and there: "dir_there root f1" and out: "generated env root lock f1 = Inr out"
    and files: "write_files root (go_Files out) f1 = (f2, None)"
    and manifest: "WriteFile (path_Join [root, ''protocol'', ''manifest.json''])
      (marshalPretty (manifest_json (go_Manifest out))) f2 = Inr f'"
  shows "only_protocol root f1 f'" "\<forall>(p, d)\<in>set (go_Files out). ReadFile (path_Join [root, p]) f' = Inr d"
proof -
  obtain t g h where out_files: "go_Files out = map (\<lambda>(x, d). (''protocol'' @ slash # x, d))
      [(''generated_types.go'', t), (''generated_registries.go'', g), (''helpers.go'', h)]"
    using generated_files [OF out] by blast
  let ?fs = "[(''generated_types.go'', t), (''generated_registries.go'', g), (''helpers.go'', h)]"
  have plain: "\<forall>x\<in>set (map fst ?fs). normal x" "distinct (map fst ?fs)" "normal ''manifest.json''"
    by (simp_all add: normal_def)
  have written: "only_protocol root f1 f2"
    "\<forall>(x, d)\<in>set ?fs. ReadFile (root @ slash # ''protocol'' @ slash # x) f2 = Inr d"
    using write_files_effect [OF root there plain(1,2)] files out_files by auto
  have last: "WriteFile (root @ slash # ''protocol'' @ slash # ''manifest.json'')
      (marshalPretty (manifest_json (go_Manifest out))) f2 = Inr f'"
    using manifest protocol_path(2) [OF root plain(3)] by simp
  show "only_protocol root f1 f'"
    using written(1) WriteFile_protocol [OF last] by (rule only_protocol_trans)
  show "\<forall>(p, d)\<in>set (go_Files out). ReadFile (path_Join [root, p]) f' = Inr d"
    using written(2) WriteFile_files [OF last] protocol_path(1) [OF root] plain(1) by (simp add: out_files)
qed

text \<open>C19: In a working directory whose lock file names a schema file of the schema directory, a
  \<open>refresh\<close> that reports no error leaves a tree that \<open>verify\<close> accepts.\<close>

theorem refresh_then_verify:
  assumes root: "clean_dir root" and schema: "normal (lk_SchemaFile lock)"
    and run: "refresh env root lock f = (f', None)"
  shows "verify env root lock f' = None"
proof -
  obtain r f1 out f2 where r: "resolveReferenceRoot env root lock f = Inr r"
    and copy: "copySchemaDirectory env (path_Join [r, path_Dir (lk_SchemaPath lock)]) (path_Join [root, ''schema'']) f = (f1, None)"
    and sha: "verifySchemaSHA env (path_Join [root, ''schema'', lk_SchemaFile lock]) (lk_SchemaSHA256 lock) f1 = None"
    and out: "generated env root lock f1 = Inr out"
    and files: "write_files root (go_Files out) f1 = (f2, None)"
    and manifest: "WriteFile (path_Join [root, ''protocol'', ''manifest.json''])
      (marshalPretty (manifest_json (go_Manifest out))) f2 = Inr f'"
    using run by (auto simp: refresh_def split: sum.splits prod.splits option.splits)
  have keeps1: "keeps f f1" and "dir_there (root @ slash # ''schema'') f1"
    using copySchemaDirectory_effect [OF copy] schema_paths(1) [OF root] by simp_all
  then have there: "dir_there root f1"
    using dir_there_above [OF root, of "[''schema'']" f1] by simp
  note written = outputs_written [OF root there out files manifest]
  have "keeps f f'"
    using keeps1 written(1) keeps_trans by (auto simp: only_protocol_def)
  then obtain r' where "resolveReferenceRoot env root lock f' = Inr r'"
    using reference_stays r by blast
  moreover have "verifySchemaSHA env (path_Join [root, ''schema'', lk_SchemaFile lock]) (lk_SchemaSHA256 lock) f' = None"
    using sha same_schema [OF written(1), of "slash # lk_SchemaFile lock"] schema_paths(3) [OF root schema]
    by (simp add: verifySchemaSHA_def ReadFile_def)
  moreover have "generated env root lock f' = Inr out"
    using out same_entries [OF root written(1)] by (simp add: generated_def)
  moreover have "verifyFileBytes (path_Join [root, ''protocol'', ''manifest.json''])
      (marshalPretty (manifest_json (go_Manifest out))) f' = None"
    using WriteFile_there [OF manifest] by (simp add: verifyFileBytes_def)
  ultimately show ?thesis
    using verify_outputs_ok [OF written(2)] by (simp add: verify_def)
qed

text \<open>A tree on which \<open>refresh\<close> succeeds.\<close>

definition demo_env :: gen_env where
  "demo_env = \<lparr>ge_reference = ''/ref'', ge_git = (\<lambda>repo. Inr ''c0''), ge_parse = (\<lambda>d. Inr (JObj [])),
     ge_sha = (\<lambda>d. d), ge_fmt = Inr, ge_uc = (\<lambda>s. (1, None)), ge_names = [''a.json'']\<rparr>"

definition demo_lock :: lockFile where
  "demo_lock = \<lparr>lk_UpstreamRepo = '''', lk_Commit = ''c0'', lk_PythonRoot = ''py'', lk_RuntimePackage = '''',
     lk_RuntimeVersion = '''', lk_SchemaPath = ''s/a.json'', lk_SchemaFile = ''a.json'', lk_SchemaSHA256 = ''x'',
     lk_Targets = []\<rparr>"

definition demo_tree :: fs where
  "demo_tree = map_of [(''/w'', DirNode), (''/ref'', DirNode), (''/ref/py'', DirNode), (''/ref/s'', DirNode),
     (''/ref/s/a.json'', FileNode ''x'' 420)]"

theorem refresh_then_verify_witness:
  "snd (refresh demo_env ''/w'' demo_lock demo_tree) = None \<and>
   verify demo_env ''/w'' demo_lock (fst (refresh demo_env ''/w'' demo_lock demo_tree)) = None"
proof -
  have "snd (refresh demo_env ''/w'' demo_lock demo_tree) = None" by code_simp
  moreover have "clean_dir ''/w''" "normal (lk_SchemaFile demo_lock)" by code_simp+
  ultimately show ?thesis
    using refresh_then_verify [of "''/w''" demo_lock demo_env demo_tree] by (metis prod.collapse)
qed

end
