(* ===== verification/Smoke.thy ===== *)
theory Smoke
  imports Appserver Thread_Api Fs_Ops
begin

text \<open>
  The native smoke test: the records of \<open>internal/runtimebin/smoke.go\<close>, the code-signature evidence
  of \<open>native_signatures_*.go\<close>, and \<open>cmd/codex-sdk-runtime/native_smoke.go\<close>, which drives a runtime
  through one turn against a mock model provider and records what it saw. What the app server
  answers to each call is an argument (\<open>smoke_io\<close>); the calls, their arguments and the checks between
  them are those of \<open>runNativeSmokeCommand\<close>.
\<close>

section \<open>Signature evidence\<close>

record SignatureRecord =
  sr_Path :: string
  sr_Tool :: string
  sr_Subject :: string
  sr_Status :: string
  sr_Raw :: string

record NativeSignatureEvidence =
  nse_Available :: bool
  nse_Verified :: bool
  nse_Reason :: string
  nse_Files :: "SignatureRecord list"

definition allVerified :: "SignatureRecord list \<Rightarrow> bool" where
  "allVerified records \<longleftrightarrow> list_all (\<lambda>r. sr_Status r = ''verified'') records \<and> records \<noteq> []"

text \<open>The file chosen at build time is that of the host; \<open>tool\<close> runs the host's signature tool.\<close>

datatype host = DarwinHost | WindowsHost | OtherHost

definition unavailable :: "string \<Rightarrow> NativeSignatureEvidence" where
  "unavailable reason = \<lparr>nse_Available = False, nse_Verified = False, nse_Reason = reason, nse_Files = []\<rparr>"

definition codesign_record :: "(string \<Rightarrow> string \<times> bool) \<Rightarrow> string \<Rightarrow> string \<Rightarrow> SignatureRecord" where
  "codesign_record tool stageDir exe = (case tool (path_Join [stageDir, ''bin'', exe]) of (raw, ok) \<Rightarrow>
     \<lparr>sr_Path = exe, sr_Tool = ''codesign'', sr_Subject = '''',
      sr_Status = (if ok then ''verified'' else ''failed''), sr_Raw = trimSpace raw\<rparr>)"

definition authenticode_record :: "(string \<Rightarrow> string \<times> bool) \<Rightarrow> string \<Rightarrow> string \<Rightarrow> SignatureRecord" where
  "authenticode_record tool stageDir exe = (case tool (path_Join [stageDir, ''bin'', exe]) of (raw, ok) \<Rightarrow>
     \<lparr>sr_Path = exe, sr_Tool = ''Get-AuthenticodeSignature'', sr_Subject = '''',
      sr_Status = (if \<not> ok \<or> \<not> str_contains raw (go_quote ''Status'' @ '':'' @ go_quote ''Valid'')
        then ''failed'' else ''verified''), sr_Raw = trimSpace raw\<rparr>)"

definition signed_files :: "TargetSpec \<Rightarrow> string list" where
  "signed_files target = [Executable target, codeModeHostExecutable target]"

definition CollectNativeSignatureEvidence ::
  "host \<Rightarrow> (string \<Rightarrow> string \<times> bool) \<Rightarrow> string \<Rightarrow> TargetSpec \<Rightarrow> NativeSignatureEvidence" where
  "CollectNativeSignatureEvidence h tool stageDir target =
    (let found = (\<lambda>records. \<lparr>nse_Available = True, nse_Verified = allVerified records, nse_Reason = '''',
           nse_Files = records\<rparr>)
     in if GOOS target = ''darwin'' then
          (if h = DarwinHost then found (map (codesign_record tool stageDir) (signed_files target))
           else unavailable ''codesign verification requires a darwin host'')
        else if GOOS target = ''windows'' then
          (if h = WindowsHost then found (map (authenticode_record tool stageDir) (signed_files target))
           else unavailable ''Authenticode verification requires a windows host'')
        else unavailable ''native code signatures are not distributed for this target'')"

section \<open>The result\<close>

record RunnerIdentity =
  ri_Hostname :: string
  ri_RunnerName :: string
  ri_RunnerOS :: string
  ri_RunnerArch :: string
  ri_ImageOS :: string
  ri_ImageVersion :: string

record NativeSmokeUsage =
  nu_InputTokens :: int
  nu_CachedInputTokens :: int
  nu_CacheWriteInputTokens :: int
  nu_OutputTokens :: int
  nu_ReasoningOutputTokens :: int
  nu_TotalTokens :: int

record NativeSmokeResult =
  ns_TargetTriple :: string
  ns_RuntimeVersion :: string
  ns_RuntimeGOOS :: string
  ns_RuntimeGOARCH :: string
  ns_BinaryPath :: string
  ns_VersionOutput :: string
  ns_InitializeSucceeded :: bool
  ns_CloseSucceeded :: bool
  ns_ModelListSucceeded :: bool
  ns_ThreadStartSucceeded :: bool
  ns_TurnStartSucceeded :: bool
  ns_StreamSucceeded :: bool
  ns_ProtocolVersion :: string
  ns_ServerInfo :: "(string \<times> string) option"
  ns_ModelCount :: nat
  ns_ModelID :: string
  ns_ThreadID :: string
  ns_TurnID :: string
  ns_TurnStatus :: string
  ns_StreamEventCount :: nat
  ns_CompletedItemCount :: nat
  ns_FinalResponse :: string
  ns_Usage :: "NativeSmokeUsage option"
  ns_MockRequestCount :: nat
  ns_ArchiveName :: string
  ns_ArchiveSHA256 :: string
  ns_ArchiveSize :: int
  ns_UpstreamArchiveSHA256 :: string
  ns_UpstreamArchiveSize :: int
  ns_ManifestSHA256 :: string
  ns_Runner :: RunnerIdentity
  ns_NativeSignatures :: NativeSignatureEvidence

section \<open>Token usage\<close>

text \<open>The numbers of a decoded map are \<open>float64\<close>s; no other numeric type occurs in it.\<close>

definition numericValue :: "json \<Rightarrow> int option" where
  "numericValue v = (case v of JNum t \<Rightarrow> Some (float_int t) | _ \<Rightarrow> None)"

fun assignUsageField :: "int \<Rightarrow> json gomap \<Rightarrow> string list \<Rightarrow> int" where
  "assignUsageField dst fs [] = dst"
| "assignUsageField dst fs (key # ks) =
     (case map_of fs key of
        None \<Rightarrow> assignUsageField dst fs ks
      | Some v \<Rightarrow> (case numericValue v of Some n \<Rightarrow> n | None \<Rightarrow> assignUsageField dst fs ks))"

definition zero_SmokeUsage :: NativeSmokeUsage where
  "zero_SmokeUsage = \<lparr>nu_InputTokens = 0, nu_CachedInputTokens = 0, nu_CacheWriteInputTokens = 0, nu_OutputTokens = 0,
     nu_ReasoningOutputTokens = 0, nu_TotalTokens = 0\<rparr>"

definition ensureUsage :: "NativeSmokeUsage option \<Rightarrow> NativeSmokeUsage" where
  "ensureUsage u = (case u of None \<Rightarrow> zero_SmokeUsage | Some x \<Rightarrow> x)"

definition hasAnyUsage :: "NativeSmokeUsage \<Rightarrow> bool" where
  "hasAnyUsage u \<longleftrightarrow> nu_InputTokens u \<noteq> 0 \<or> nu_CachedInputTokens u \<noteq> 0 \<or> nu_CacheWriteInputTokens u \<noteq> 0 \<or>
     nu_OutputTokens u \<noteq> 0 \<or> nu_ReasoningOutputTokens u \<noteq> 0 \<or> nu_TotalTokens u \<noteq> 0"

definition assign_usage :: "json gomap \<Rightarrow> NativeSmokeUsage \<Rightarrow> NativeSmokeUsage" where
  "assign_usage fs u = \<lparr>
     nu_InputTokens = assignUsageField (nu_InputTokens u) fs [''input_tokens'', ''inputTokens''],
     nu_CachedInputTokens = assignUsageField (nu_CachedInputTokens u) fs [''cached_input_tokens'', ''cachedInputTokens''],
     nu_CacheWriteInputTokens =
       assignUsageField (nu_CacheWriteInputTokens u) fs [''cache_write_input_tokens'', ''cacheWriteInputTokens''],
     nu_OutputTokens = assignUsageField (nu_OutputTokens u) fs [''output_tokens'', ''outputTokens''],
     nu_ReasoningOutputTokens =
       assignUsageField (nu_ReasoningOutputTokens u) fs [''reasoning_output_tokens'', ''reasoningOutputTokens''],
     nu_TotalTokens = assignUsageField (nu_TotalTokens u) fs [''total_tokens'', ''totalTokens'']\<rparr>"

definition mergeUsage :: "NativeSmokeUsage option \<Rightarrow> json gomap option \<Rightarrow> NativeSmokeUsage option" where
  "mergeUsage dst fs = (case fs of
     Some (f # fs') \<Rightarrow>
      (let u = assign_usage (f # fs') (ensureUsage dst)
       in Some (if nu_TotalTokens u = 0 \<and> hasAnyUsage u
            then u\<lparr>nu_TotalTokens := add64 (nu_InputTokens u) (nu_OutputTokens u)\<rparr> else u))
   | _ \<Rightarrow> dst)"

section \<open>Events\<close>

definition isAgentMessageType :: "string \<Rightarrow> bool" where
  "isAgentMessageType value \<longleftrightarrow> value = ''agentMessage'' \<or> value = ''agent_message''"

definition messagePhase :: "raw \<Rightarrow> string" where
  "messagePhase r = (case r of
     Some (JStr s) \<Rightarrow> s
   | Some (JObj ms) \<Rightarrow>
      (case (dec_string ''value'' '''' ms, dec_string ''type'' '''' ms) of
         (Some v, Some t) \<Rightarrow> if v \<noteq> '''' then v else t
       | _ \<Rightarrow> '''')
   | _ \<Rightarrow> '''')"

record smoke_item =
  si_Type :: string
  si_Text :: string
  si_Phase :: raw

definition dec_smoke_item :: "members \<Rightarrow> smoke_item \<Rightarrow> smoke_item option" where
  "dec_smoke_item ms x = do {
     t \<leftarrow> dec_string ''type'' (si_Type x) ms; s \<leftarrow> dec_string ''text'' (si_Text x) ms;
     Some \<lparr>si_Type = t, si_Text = s, si_Phase = dec_raw ''phase'' (si_Phase x) ms\<rparr>
   }"

definition dec_smoke_turn :: "members \<Rightarrow> string \<times> string \<Rightarrow> (string \<times> string) option" where
  "dec_smoke_turn ms x = do {
     i \<leftarrow> dec_string ''id'' (fst x) ms; s \<leftarrow> dec_string ''status'' (snd x) ms; Some (i, s)
   }"

definition dec_token_usage :: "members \<Rightarrow> json gomap option \<times> json gomap option \<Rightarrow>
   (json gomap option \<times> json gomap option) option" where
  "dec_token_usage ms x = do {
     l \<leftarrow> dec_map ''last'' (fst x) ms; t \<leftarrow> dec_map ''total'' (snd x) ms; Some (l, t)
   }"

record smoke_payload =
  sp_TokenUsage :: "(json gomap option \<times> json gomap option) option"
  sp_Usage :: "json gomap option"
  sp_Turn :: "(string \<times> string) option"
  sp_Item :: "smoke_item option"

definition dec_smoke_payload :: "members \<Rightarrow> smoke_payload option" where
  "dec_smoke_payload ms = do {
     _ \<leftarrow> dec_string ''turnId'' '''' ms; _ \<leftarrow> dec_string ''threadId'' '''' ms;
     tu \<leftarrow> dec_struct_ptr dec_token_usage (None, None) ''tokenUsage'' None ms;
     u \<leftarrow> dec_map ''usage'' None ms;
     t \<leftarrow> dec_struct_ptr dec_smoke_turn ('''', '''') ''turn'' None ms;
     i \<leftarrow> dec_struct_ptr dec_smoke_item \<lparr>si_Type = '''', si_Text = '''', si_Phase = None\<rparr> ''item'' None ms;
     Some \<lparr>sp_TokenUsage = tu, sp_Usage = u, sp_Turn = t, sp_Item = i\<rparr>
   }"

text \<open>The method and parameters of an event in an envelope; else the event is its own parameters.\<close>

definition event_envelope :: "raw \<Rightarrow> string \<times> raw" where
  "event_envelope r = (case struct_members r of
     None \<Rightarrow> ('''', r)
   | Some ms \<Rightarrow>
      (case dec_string ''method'' '''' ms of
         Some m \<Rightarrow> if m \<noteq> '''' then (m, dec_raw ''params'' None ms) else ('''', r)
       | None \<Rightarrow> ('''', r)))"

definition unmarshal_failed :: go_error where
  "unmarshal_failed = Text ''json: cannot unmarshal''"

definition merge_event_usage :: "smoke_payload \<Rightarrow> NativeSmokeUsage option \<Rightarrow> NativeSmokeUsage option" where
  "merge_event_usage p u =
    mergeUsage (case sp_TokenUsage p of None \<Rightarrow> u | Some (l, t) \<Rightarrow> mergeUsage (mergeUsage u l) t) (sp_Usage p)"

definition merge_item :: "smoke_item option \<Rightarrow> NativeSmokeResult \<Rightarrow> NativeSmokeResult" where
  "merge_item i r = (case i of
     None \<Rightarrow> r
   | Some item \<Rightarrow>
      (let r1 = r\<lparr>ns_CompletedItemCount := Suc (ns_CompletedItemCount r)\<rparr>
       in if isAgentMessageType (si_Type item) \<and>
             (messagePhase (si_Phase item) = ''final_answer'' \<or> ns_FinalResponse r = '''')
          then r1\<lparr>ns_FinalResponse := si_Text item\<rparr> else r1))"

definition terminal_status :: "string \<Rightarrow> bool" where
  "terminal_status s \<longleftrightarrow> s = ''completed'' \<or> s = ''failed'' \<or> s = ''interrupted''"

text \<open>The result is changed up to the failing decoding also when an error is returned.\<close>

definition accumulateTurnEvent :: "raw \<Rightarrow> NativeSmokeResult \<Rightarrow> NativeSmokeResult \<times> (go_error + bool)" where
  "accumulateTurnEvent ev r =
    (let r0 = r\<lparr>ns_StreamEventCount := Suc (ns_StreamEventCount r)\<rparr>
     in case event_envelope ev of
          (m, params) \<Rightarrow>
            (case (case struct_members params of None \<Rightarrow> None | Some ms \<Rightarrow> dec_smoke_payload ms) of
               None \<Rightarrow> (r0, Inl unmarshal_failed)
             | Some p \<Rightarrow>
                (let r1 = merge_item (sp_Item p) (r0\<lparr>ns_Usage := merge_event_usage p (ns_Usage r0)\<rparr>);
                     ended = (m = ''turn/completed'' \<or> m = ''turn/failed'')
                 in case sp_Turn p of
                      Some (i, s) \<Rightarrow>
                        if s \<noteq> '''' then (r1\<lparr>ns_TurnStatus := s\<rparr>, Inr (terminal_status s \<or> ended))
                        else (r1, Inr ended)
                    | None \<Rightarrow> (r1, Inr ended))))"

record nativeSmokeRequest =
  nr_Method :: string
  nr_Path :: string
  nr_Body :: string

type_synonym mockResponsesServer = "nativeSmokeRequest list"

definition requestCount :: "mockResponsesServer \<Rightarrow> nat" where
  "requestCount m = length m"

section \<open>The environment of the run\<close>

definition smoke_config :: "string \<Rightarrow> string" where
  "smoke_config baseURL = concat (map (\<lambda>l. l @ [CHR 0x0A])
    [''model = '' @ go_quote ''mock-model'',
     ''approval_policy = '' @ go_quote ''never'',
     ''sandbox_mode = '' @ go_quote ''read-only'',
     ''model_provider = '' @ go_quote ''mock_provider'',
     '''',
     ''[model_providers.mock_provider]'',
     ''name = '' @ go_quote ''Mock provider for runtime smoke'',
     ''base_url = '' @ [CHR 0x22] @ baseURL @ ''/v1'' @ [CHR 0x22],
     ''wire_api = '' @ go_quote ''responses'',
     ''request_max_retries = 0'',
     ''stream_max_retries = 0''])"

definition buildNativeSmokeConfig :: "string \<Rightarrow> string \<Rightarrow> fs \<Rightarrow> fs \<times> go_error option" where
  "buildNativeSmokeConfig root baseURL f =
    (let codexHome = path_Join [root, ''codex-home'']
     in case MkdirAll codexHome f of
          Inl e \<Rightarrow> (f, Some e)
        | Inr f1 \<Rightarrow>
           (case WriteFile (path_Join [codexHome, ''config.toml'']) (smoke_config baseURL) f1 of
              Inl e \<Rightarrow> (f1, Some e)
            | Inr f2 \<Rightarrow> (f2, None)))"

text \<open>\<open>environmentMap\<close> of the command is the same code as \<open>parse_environ\<close>.\<close>

definition smoke_env :: "bool \<Rightarrow> string list \<Rightarrow> string \<Rightarrow> string \<Rightarrow> string gomap" where
  "smoke_env win environ tempRoot rootDir =
    PrependPathDirs win
      (AList.update ''CODEX_API_KEY'' ''runtime-smoke-dummy-key''
      (AList.update ''RUST_LOG'' ''warn''
      (AList.update ''CODEX_APP_SERVER_DISABLE_MANAGED_CONFIG'' ''1''
      (AList.update ''CODEX_HOME'' (path_Join [tempRoot, ''codex-home'']) (parse_environ environ)))))
      (TargetPathDirs rootDir)"

definition DefaultSDKVersion :: string where
  "DefaultSDKVersion = ''v0.2.0''"

definition smoke_app_config :: "string \<Rightarrow> string gomap \<Rightarrow> AppConfig" where
  "smoke_app_config runtimePath env = \<lparr>ExecutablePath = runtimePath, LaunchArgs = [], Cwd = '''', ac_Env = env,
     ConfigFlags = [], ClientName = ''codex_sdk_go_runtime_smoke'', ClientTitle = ''Codex SDK Go Runtime Smoke'',
     ClientVersion = DefaultSDKVersion, Approval = None, ac_ApprovalPolicy = ApprovalPolicyDeny,
     ac_Limits = AppDefaultLimits\<rparr>"

section \<open>The command\<close>

text \<open>
  What the surroundings answer to each call, with the arguments the code passes: starting the app
  server sees the configuration and the file system; a request its method and parameters.
  \<open>io_events\<close> are the results of \<open>NextTurn\<close> for a turn; when there are no more the 20 seconds of
  the stream pass.
\<close>

record smoke_io =
  io_listen :: "go_error + string"
  io_temp :: "go_error + string"
  io_environ :: "string list"
  io_start :: "AppConfig \<Rightarrow> fs \<Rightarrow> go_error + Metadata option"
  io_version :: "string \<Rightarrow> go_error + string"
  io_request :: "string \<Rightarrow> json \<Rightarrow> go_error + raw"
  io_register :: "string \<Rightarrow> go_error option"
  io_events :: "string \<Rightarrow> (go_error + raw) list"
  io_mock :: "nativeSmokeRequest list"
  io_close :: "go_error option"
  io_host :: host
  io_tool :: "string \<Rightarrow> string \<times> bool"
  io_runner :: RunnerIdentity
  io_goos :: string
  io_goarch :: string

definition stream_deadline :: go_error where
  "stream_deadline = Sentinel ''context deadline exceeded''"

fun stream_loop :: "(go_error + raw) list \<Rightarrow> NativeSmokeResult \<Rightarrow> go_error + NativeSmokeResult" where
  "stream_loop [] r = Inl stream_deadline"
| "stream_loop (Inl e # evs) r = (if e = io_EOF then Inr r else Inl e)"
| "stream_loop (Inr ev # evs) r =
     (case accumulateTurnEvent ev r of
        (r1, Inl e) \<Rightarrow> Inl e
      | (r1, Inr done) \<Rightarrow> if done then Inr r1 else stream_loop evs r1)"

definition decode_models :: "raw \<Rightarrow> json gomap option list option" where
  "decode_models r = (case struct_members r of
     None \<Rightarrow> None
   | Some ms \<Rightarrow> dec_slice elem_map None ''data'' [] ms)"

text \<open>\<open>struct{ Thread struct{ ID string } }\<close> and the like: the identifier below \<open>outer\<close>.\<close>

fun dec_inner_id :: "string \<Rightarrow> string \<Rightarrow> members \<Rightarrow> string option" where
  "dec_inner_id outer acc [] = Some acc"
| "dec_inner_id outer acc ((k, v) # ms) =
     (if is_field outer k then
        (case v of
           JObj fs \<Rightarrow> (case dec_string ''id'' acc fs of Some i \<Rightarrow> dec_inner_id outer i ms | None \<Rightarrow> None)
         | JNull \<Rightarrow> dec_inner_id outer acc ms
         | _ \<Rightarrow> None)
      else dec_inner_id outer acc ms)"

definition decode_id :: "string \<Rightarrow> raw \<Rightarrow> string option" where
  "decode_id outer r = (case struct_members r of None \<Rightarrow> None | Some ms \<Rightarrow> dec_inner_id outer '''' ms)"

definition first_model_id :: "json gomap option list \<Rightarrow> string" where
  "first_model_id data = (case data of [] \<Rightarrow> '''' | m # _ \<Rightarrow> stringField m ''id'')"

definition initial_result :: "smoke_io \<Rightarrow> string \<Rightarrow> TargetSpec \<Rightarrow> string \<Rightarrow> ManifestTarget option \<Rightarrow> string \<Rightarrow>
   NativeSmokeResult" where
  "initial_result io runtimePath target runtimeVersion rec manifestSHA =
    \<lparr>ns_TargetTriple = Triple target, ns_RuntimeVersion = runtimeVersion, ns_RuntimeGOOS = io_goos io,
     ns_RuntimeGOARCH = io_goarch io, ns_BinaryPath = runtimePath, ns_VersionOutput = '''',
     ns_InitializeSucceeded = False, ns_CloseSucceeded = False, ns_ModelListSucceeded = False,
     ns_ThreadStartSucceeded = False, ns_TurnStartSucceeded = False, ns_StreamSucceeded = False,
     ns_ProtocolVersion = '''', ns_ServerInfo = None, ns_ModelCount = 0, ns_ModelID = '''', ns_ThreadID = '''',
     ns_TurnID = '''', ns_TurnStatus = '''', ns_StreamEventCount = 0, ns_CompletedItemCount = 0,
     ns_FinalResponse = '''', ns_Usage = None, ns_MockRequestCount = 0,
     ns_ArchiveName = (case rec of None \<Rightarrow> '''' | Some t \<Rightarrow> mt_ArchiveName t),
     ns_ArchiveSHA256 = (case rec of None \<Rightarrow> '''' | Some t \<Rightarrow> mt_ArchiveSHA256 t),
     ns_ArchiveSize = (case rec of None \<Rightarrow> 0 | Some t \<Rightarrow> mt_ArchiveSize t),
     ns_UpstreamArchiveSHA256 = (case rec of None \<Rightarrow> '''' | Some t \<Rightarrow> mt_UpstreamArchiveSHA256 t),
     ns_UpstreamArchiveSize = (case rec of None \<Rightarrow> 0 | Some t \<Rightarrow> mt_UpstreamArchiveSize t),
     ns_ManifestSHA256 = manifestSHA, ns_Runner = io_runner io, ns_NativeSignatures = unavailable ''''\<rparr>"

definition record_initialize :: "Metadata option \<Rightarrow> NativeSmokeResult \<Rightarrow> NativeSmokeResult" where
  "record_initialize meta r = (case meta of
     None \<Rightarrow> r
   | Some m \<Rightarrow> r\<lparr>ns_InitializeSucceeded := True, ns_ProtocolVersion := ProtocolVersion m,
       ns_ServerInfo := map_option (\<lambda>i. (si_Name i, si_Version i)) (md_ServerInfo m)\<rparr>)"

text \<open>\<open>e ?? k\<close> of the code's \<open>if err != nil { return ..., err }\<close>.\<close>

definition then_do :: "go_error + 'a \<Rightarrow> ('a \<Rightarrow> go_error + 'b) \<Rightarrow> go_error + 'b" where
  "then_do x k = (case x of Inl e \<Rightarrow> Inl e | Inr v \<Rightarrow> k v)"

definition no_error :: "go_error option \<Rightarrow> go_error + unit" where
  "no_error e = (case e of None \<Rightarrow> Inr () | Some x \<Rightarrow> Inl x)"

definition decoded :: "'a option \<Rightarrow> go_error + 'a" where
  "decoded v = (case v of None \<Rightarrow> Inl unmarshal_failed | Some x \<Rightarrow> Inr x)"

definition thread_params :: "string \<Rightarrow> json" where
  "thread_params workspace = JObj [(''model'', JStr ''mock-model''), (''modelProvider'', JStr ''mock_provider''),
     (''sandbox'', JStr ''read-only''), (''cwd'', JStr workspace)]"

definition turn_params :: "string \<Rightarrow> json" where
  "turn_params threadID = JObj [(''threadId'', JStr threadID),
     (''input'', JArr [JObj [(''type'', JStr ''text''), (''text'', JStr ''say hello'')]])]"

definition smoke_requests :: "smoke_io \<Rightarrow> string \<Rightarrow> NativeSmokeResult \<Rightarrow> go_error + NativeSmokeResult" where
  "smoke_requests io workspace r =
     then_do (io_request io ''model/list'' (JObj [(''includeHidden'', JBool True)])) (\<lambda>modelsRaw.
     then_do (decoded (decode_models modelsRaw)) (\<lambda>data.
     then_do (io_request io ''thread/start'' (thread_params workspace)) (\<lambda>threadRaw.
     then_do (decoded (decode_id ''thread'' threadRaw)) (\<lambda>threadID.
     then_do (io_request io ''turn/start'' (turn_params threadID)) (\<lambda>turnRaw.
     then_do (decoded (decode_id ''turn'' turnRaw)) (\<lambda>turnID.
     then_do (no_error (io_register io turnID)) (\<lambda>_.
       Inr (r\<lparr>ns_ModelListSucceeded := True, ns_ModelCount := length data, ns_ModelID := first_model_id data,
         ns_ThreadStartSucceeded := True, ns_ThreadID := threadID,
         ns_TurnStartSucceeded := True, ns_TurnID := turnID\<rparr>))))))))"

definition smoke_finish :: "smoke_io \<Rightarrow> string \<Rightarrow> TargetSpec \<Rightarrow> NativeSmokeResult \<Rightarrow> go_error + NativeSmokeResult" where
  "smoke_finish io rootDir target r =
     then_do (no_error (io_close io)) (\<lambda>_.
       (let r1 = r\<lparr>ns_StreamSucceeded := True, ns_MockRequestCount := requestCount (io_mock io), ns_CloseSucceeded := True,
              ns_NativeSignatures := CollectNativeSignatureEvidence (io_host io) (io_tool io) rootDir target\<rparr>
        in if ns_FinalResponse r1 = '''' then Inl (Text ''native smoke did not produce a final response'')
           else Inr (if ns_TurnStatus r1 = '''' then r1\<lparr>ns_TurnStatus := ''completed''\<rparr> else r1)))"

text \<open>What is done once the configuration and the workspace are there.\<close>

definition smoke_session :: "smoke_io \<Rightarrow> string \<Rightarrow> string \<Rightarrow> TargetSpec \<Rightarrow> string \<Rightarrow> ManifestTarget option \<Rightarrow> string \<Rightarrow>
   string \<Rightarrow> fs \<Rightarrow> go_error + NativeSmokeResult" where
  "smoke_session io runtimePath rootDir target runtimeVersion rec manifestSHA tempRoot f =
     then_do (io_start io (smoke_app_config runtimePath
       (smoke_env (io_goos io = ''windows'') (io_environ io) tempRoot rootDir)) f) (\<lambda>meta.
     then_do (io_version io runtimePath) (\<lambda>versionOut.
     then_do (smoke_requests io (path_Join [tempRoot, ''workspace'']) (record_initialize meta
       ((initial_result io runtimePath target runtimeVersion rec manifestSHA)\<lparr>ns_VersionOutput := trimSpace versionOut\<rparr>))) (\<lambda>r.
     then_do (stream_loop (io_events io (ns_TurnID r)) r) (\<lambda>r1. smoke_finish io rootDir target r1))))"

definition smoke_in :: "smoke_io \<Rightarrow> string \<Rightarrow> string \<Rightarrow> TargetSpec \<Rightarrow> string \<Rightarrow> ManifestTarget option \<Rightarrow> string \<Rightarrow>
   string \<Rightarrow> string \<Rightarrow> fs \<Rightarrow> fs \<times> (go_error + NativeSmokeResult)" where
  "smoke_in io runtimePath rootDir target runtimeVersion rec manifestSHA url tempRoot f =
    (case buildNativeSmokeConfig tempRoot url f of
       (f1, Some e) \<Rightarrow> (f1, Inl e)
     | (f1, None) \<Rightarrow>
        (case MkdirAll (path_Join [tempRoot, ''workspace'']) f1 of
           Inl e \<Rightarrow> (f1, Inl e)
         | Inr f2 \<Rightarrow> (f2, smoke_session io runtimePath rootDir target runtimeVersion rec manifestSHA tempRoot f2)))"

text \<open>The temporary directory is removed at the end in every case.\<close>

definition runNativeSmokeCommand :: "smoke_io \<Rightarrow> string \<Rightarrow> string \<Rightarrow> TargetSpec \<Rightarrow> string \<Rightarrow> ManifestTarget option \<Rightarrow> string \<Rightarrow>
   fs \<Rightarrow> fs \<times> (go_error + NativeSmokeResult)" where
  "runNativeSmokeCommand io runtimePath rootDir target runtimeVersion rec manifestSHA f =
    (case io_listen io of
       Inl e \<Rightarrow> (f, Inl e)
     | Inr url \<Rightarrow>
        (case io_temp io of
           Inl e \<Rightarrow> (f, Inl e)
         | Inr tempRoot \<Rightarrow>
            (case smoke_in io runtimePath rootDir target runtimeVersion rec manifestSHA url tempRoot (f(tempRoot \<mapsto> DirNode)) of
               (f1, x) \<Rightarrow> (RemoveAll tempRoot f1, x))))"

section \<open>The mock provider\<close>

definition recordRequest :: "nativeSmokeRequest \<Rightarrow> mockResponsesServer \<Rightarrow> mockResponsesServer" where
  "recordRequest req m = m @ [req]"

text \<open>\<open>json.Marshal\<close> of a map sorts its names, as the members below are.\<close>

definition handleModels :: "nativeSmokeRequest \<Rightarrow> mockResponsesServer \<Rightarrow> mockResponsesServer \<times> string" where
  "handleModels req m = (recordRequest (req\<lparr>nr_Body := ''''\<rparr>) m, json_text (JObj
     [(''data'', JArr [JObj [(''created'', JNum ''0''), (''id'', JStr ''mock-model''), (''object'', JStr ''model''),
        (''owned_by'', JStr ''openai'')]]),
      (''object'', JStr ''list'')]))"

definition mock_events :: "(string \<times> json) list" where
  "mock_events =
    [(''response.created'', JObj [(''response'', JObj [(''id'', JStr ''resp-1'')]), (''type'', JStr ''response.created'')]),
     (''response.output_item.done'', JObj
       [(''item'', JObj [(''content'', JArr [JObj [(''text'', JStr ''runtime smoke ok''), (''type'', JStr ''output_text'')]]),
          (''id'', JStr ''msg-1''), (''role'', JStr ''assistant''), (''type'', JStr ''message'')]),
        (''type'', JStr ''response.output_item.done'')]),
     (''response.completed'', JObj
       [(''response'', JObj [(''id'', JStr ''resp-1''),
          (''usage'', JObj [(''input_tokens'', JNum ''2''), (''input_tokens_details'', JNull), (''output_tokens'', JNum ''3''),
             (''output_tokens_details'', JObj [(''reasoning_tokens'', JNum ''0'')]), (''total_tokens'', JNum ''5'')])]),
        (''type'', JStr ''response.completed'')])]"

definition handleResponses :: "nativeSmokeRequest \<Rightarrow> mockResponsesServer \<Rightarrow> mockResponsesServer \<times> string" where
  "handleResponses req m = (recordRequest req m,
     concat (map (\<lambda>(t, v). ''event: '' @ t @ [CHR 0x0A] @ ''data: '' @ json_text v @ [CHR 0x0A, CHR 0x0A]) mock_events))"

end
