(* ===== verification/Smoke_Props.thy ===== *)
theory Smoke_Props
  imports Smoke
begin

text \<open>
  What a smoke run that reports success has done and recorded.
\<close>

section \<open>Error propagation\<close>

lemma then_do_Inr [simp]: "then_do x k = Inr y \<longleftrightarrow> (\<exists>v. x = Inr v \<and> k v = Inr y)"
  by (auto simp: then_do_def split: sum.splits)

lemma no_error_Inr [simp]: "no_error e = Inr u \<longleftrightarrow> e = None"
  by (auto simp: no_error_def split: option.splits)

lemma decoded_Inr [simp]: "decoded v = Inr x \<longleftrightarrow> v = Some x"
  by (auto simp: decoded_def split: option.splits)

section \<open>The smoke run\<close>

text \<open>What the events of a turn do not touch, and how they count.\<close>

definition smoke_core :: "NativeSmokeResult \<Rightarrow> NativeSmokeResult" where
  "smoke_core r = r\<lparr>ns_Usage := None, ns_CompletedItemCount := 0, ns_TurnStatus := '''', ns_FinalResponse := '''',
     ns_StreamEventCount := 0\<rparr>"

lemma smoke_core_same:
  assumes "smoke_core r = smoke_core s"
  shows "ns_ModelListSucceeded r = ns_ModelListSucceeded s" "ns_ThreadStartSucceeded r = ns_ThreadStartSucceeded s"
    "ns_TurnStartSucceeded r = ns_TurnStartSucceeded s" "ns_StreamSucceeded r = ns_StreamSucceeded s"
    "ns_CloseSucceeded r = ns_CloseSucceeded s" "ns_TurnID r = ns_TurnID s" "ns_ThreadID r = ns_ThreadID s"
    "ns_TargetTriple r = ns_TargetTriple s" "ns_ArchiveSHA256 r = ns_ArchiveSHA256 s"
    "ns_ManifestSHA256 r = ns_ManifestSHA256 s" "ns_NativeSignatures r = ns_NativeSignatures s"
  using assms by (cases r; cases s; simp add: smoke_core_def)+

definition counts_ok :: "nat \<Rightarrow> NativeSmokeResult \<Rightarrow> NativeSmokeResult \<Rightarrow> bool" where
  "counts_ok n r r' \<longleftrightarrow> ns_StreamEventCount r' = ns_StreamEventCount r + n \<and>
     ns_CompletedItemCount r' \<le> ns_CompletedItemCount r + n"

lemma accumulate_effect:
  assumes "accumulateTurnEvent ev r = (r', res)"
  shows "smoke_core r' = smoke_core r \<and> counts_ok 1 r r'"
  using assms
  by (auto simp: accumulateTurnEvent_def merge_item_def smoke_core_def counts_ok_def Let_def
      split: prod.splits option.splits if_splits)

lemma stream_loop_effect:
  "stream_loop evs r = Inr r' \<Longrightarrow> smoke_core r' = smoke_core r \<and> (\<exists>n\<le>length evs. counts_ok n r r')"
proof (induction evs r rule: stream_loop.induct)
  case (2 e evs r)
  then show ?case by (auto simp: counts_ok_def split: if_splits)
next
  case (3 ev evs r)
  obtain r1 stop where step: "accumulateTurnEvent ev r = (r1, Inr stop)"
    using "3.prems" by (auto split: prod.splits sum.splits)
  show ?case
  proof (cases stop)
    case True
    then show ?thesis
      using "3.prems" step accumulate_effect [OF step] by auto
  next
    case False
    then have "smoke_core r' = smoke_core r1 \<and> (\<exists>n\<le>length evs. counts_ok n r1 r')"
      using "3.IH" [of r1 "Inr stop" stop] "3.prems" step by simp
    then obtain n where "n \<le> length evs" "counts_ok n r1 r'" "smoke_core r' = smoke_core r1" by blast
    then show ?thesis
      using accumulate_effect [OF step] by (intro conjI exI [of _ "Suc n"]) (auto simp: counts_ok_def)
  qed
qed simp

text \<open>The set-up writes below the temporary directory only.\<close>

definition temp_fresh :: "string \<Rightarrow> fs \<Rightarrow> bool" where
  "temp_fresh temp f \<longleftrightarrow> clean_dir temp \<and> dir_there temp (f(temp \<mapsto> DirNode)) \<and> (\<forall>p. below temp p \<longrightarrow> f p = None)"

lemma WriteFile_outside:
  assumes "WriteFile (d @ slash # e) x f = Inr g" "\<not> below d p"
  shows "g p = f p"
  using assms WriteFile_other [OF assms(1), of p] below_prefix [of d e] unfolding below_def by metis

lemma MkdirAll_outside:
  assumes "clean_dir d" "dir_there d f" "normal e" "MkdirAll (path_Join [d, e]) f = Inr g" "\<not> below d p"
  shows "g p = f p"
proof -
  have "path_Join [d, e] = d @ slash # e"
    using path_Join_below [OF assms(1), of "[e]"] assms(3) by simp
  then have "grows d f g"
    using MkdirAll_below(1) [OF assms(1,2), of "[e]" g] assms(3,4) by simp
  then show ?thesis
    using assms(5) by (auto simp: grows_def below_def)
qed

lemma normal_names [simp]: "normal ''codex-home''" "normal ''workspace''" "normal ''config.toml''"
  by (simp_all add: normal_def)

lemma smoke_config_outside:
  assumes "clean_dir d" "dir_there d f" "buildNativeSmokeConfig d url f = (g, x)"
  shows "dir_there d g \<and> (\<forall>p. \<not> below d p \<longrightarrow> g p = f p)"
proof (cases "MkdirAll (path_Join [d, ''codex-home'']) f")
  case (Inl e)
  then show ?thesis using assms by (simp add: buildNativeSmokeConfig_def)
next
  case (Inr f1)
  have f1: "dir_there d f1" "\<forall>p. \<not> below d p \<longrightarrow> f1 p = f p"
    using keeps_dir_there [OF keeps_MkdirAll [OF Inr] assms(2)] MkdirAll_outside [OF assms(1,2) _ Inr] by auto
  have "path_Join [path_Join [d, ''codex-home''], ''config.toml''] = d @ slash # ''codex-home/config.toml''"
    using path_Join_below [OF assms(1), of "[''codex-home'']"] clean_dir_below [OF assms(1), of "[''codex-home'']"]
      path_Join_below [of "d @ slash # ''codex-home''" "[''config.toml'']"] by simp
  then show ?thesis
    using assms(3) f1 Inr WriteFile_outside [of d "''codex-home/config.toml''" "smoke_config url" f1]
      keeps_dir_there [OF WriteFile_keeps [of "d @ slash # ''codex-home/config.toml''" "smoke_config url" f1]]
    by (auto simp: buildNativeSmokeConfig_def Let_def split: sum.splits)
qed

lemma smoke_outside:
  assumes "clean_dir d" "dir_there d f"
    "smoke_in io runtimePath rootDir target version rec manifestSHA url d f = (g, x)" "\<not> below d p"
  shows "g p = f p"
proof -
  obtain f1 e where c: "buildNativeSmokeConfig d url f = (f1, e)" by fastforce
  have f1: "dir_there d f1" "f1 p = f p"
    using smoke_config_outside [OF assms(1,2) c] assms(4) by blast+
  show ?thesis
    using assms(3) c f1 MkdirAll_outside [OF assms(1) f1(1), of "''workspace''"] assms(4)
    by (auto simp: smoke_in_def split: option.splits sum.splits)
qed

lemma smoke_leaves_nothing:
  assumes "case io_temp io of Inr temp \<Rightarrow> temp_fresh temp f | Inl _ \<Rightarrow> True"
  shows "fst (runNativeSmokeCommand io runtimePath rootDir target version rec manifestSHA f) = f"
proof (cases "io_listen io"; cases "io_temp io")
  fix url temp assume io: "io_listen io = Inr url" "io_temp io = Inr temp"
  let ?f = "f(temp \<mapsto> DirNode)"
  obtain g x where g: "smoke_in io runtimePath rootDir target version rec manifestSHA url temp ?f = (g, x)" by fastforce
  have fresh: "temp_fresh temp f" using assms io by simp
  have "g p = f p" if "\<not> below temp p" for p
    using smoke_outside [OF _ _ g that] fresh that by (auto simp: temp_fresh_def below_def)
  then show ?thesis
    using RemoveAll_grown [of temp f g] fresh g io by (simp add: runNativeSmokeCommand_def temp_fresh_def)
qed (simp_all add: runNativeSmokeCommand_def)

lemma run_session:
  assumes "snd (runNativeSmokeCommand io runtimePath rootDir target version rec manifestSHA f) = Inr r"
  obtains temp g where "smoke_session io runtimePath rootDir target version rec manifestSHA temp g = Inr r"
  using assms by (auto simp: runNativeSmokeCommand_def smoke_in_def split: sum.splits prod.splits option.splits)


definition demo_io :: smoke_io where
  "demo_io = \<lparr>io_listen = Inr ''http://127.0.0.1:1'', io_temp = Inr ''/t'', io_environ = [],
     io_start = (\<lambda>c f. Inr (Some \<lparr>ProtocolVersion = ''1'', UserAgent = '''', PlatformFamily = '''', PlatformOs = '''',
       md_ServerInfo = None\<rparr>)),
     io_version = (\<lambda>_. Inr ''codex 1''),
     io_request = (\<lambda>m p. Inr (Some (JObj []))), io_register = (\<lambda>_. None),
     io_events = (\<lambda>_. [Inr (Some (JObj [(''item'', JObj [(''type'', JStr ''agentMessage''), (''text'', JStr ''hi'')])])), Inl io_EOF]),
     io_mock = [], io_close = None, io_host = OtherHost, io_tool = (\<lambda>_. ('''', False)),
     io_runner = \<lparr>ri_Hostname = '''', ri_RunnerName = '''', ri_RunnerOS = '''', ri_RunnerArch = '''', ri_ImageOS = '''',
       ri_ImageVersion = ''''\<rparr>, io_goos = ''linux'', io_goarch = ''amd64''\<rparr>"

lemma smoke_temp_fresh: "temp_fresh ''/t'' Map.empty"
  unfolding temp_fresh_def by (simp add: clean_dir_def dir_there_def) code_simp


end
