(* ===== verification/Go_Flag.thy ===== *)
theory Go_Flag
  imports Go_Errors Go_Prelude
begin

text \<open>
  \<open>flag.FlagSet\<close> with \<open>ContinueOnError\<close>, as the commands use it: strings, booleans, durations and
  flags that may be given several times. What is set is kept as the list of settings in the order
  of the arguments; a value is read from it with the default of the flag. Whether a duration is
  valid is an argument, its value is not used.
\<close>

section \<open>Parsing\<close>

datatype flag_kind = StringFlag | BoolFlag | DurationFlag | ListFlag

type_synonym flag_set = "(string \<times> flag_kind) list"
type_synonym settings = "(string \<times> string) list"

text \<open>\<open>strconv.ParseBool\<close>.\<close>

definition parse_bool :: "string \<Rightarrow> bool option" where
  "parse_bool s =
    (if s \<in> set [''1'', ''t'', ''T'', ''TRUE'', ''true'', ''True''] then Some True
     else if s \<in> set [''0'', ''f'', ''F'', ''FALSE'', ''false'', ''False''] then Some False
     else None)"

definition valid_value :: "(string \<Rightarrow> bool) \<Rightarrow> flag_kind \<Rightarrow> string \<Rightarrow> bool" where
  "valid_value duration k v = (case k of
     BoolFlag \<Rightarrow> parse_bool v \<noteq> None
   | DurationFlag \<Rightarrow> duration v
   | _ \<Rightarrow> True)"

text \<open>The name behind one or two dashes, with a value given by an equals sign; a name is not empty.\<close>

definition split_value :: "string \<Rightarrow> string \<times> string option" where
  "split_value s = (case s of
     [] \<Rightarrow> ('''', None)
   | c # t \<Rightarrow> (case dropWhile (\<lambda>x. x \<noteq> CHR ''='') t of
       [] \<Rightarrow> (s, None)
     | e # v \<Rightarrow> (c # takeWhile (\<lambda>x. x \<noteq> CHR ''='') t, Some v)))"

definition strip_dashes :: "string \<Rightarrow> string" where
  "strip_dashes s = (case s of [] \<Rightarrow> '''' | c # t \<Rightarrow> if hasPrefix t ''-'' then drop 1 t else t)"

definition is_flag :: "string \<Rightarrow> bool" where
  "is_flag s \<longleftrightarrow> 2 \<le> length s \<and> hasPrefix s ''-''"

definition ErrHelp :: go_error where
  "ErrHelp = Sentinel ''flag: help requested''"

definition bad_value :: "flag_kind \<Rightarrow> string \<Rightarrow> string \<Rightarrow> go_error" where
  "bad_value k name v = (if k = BoolFlag
     then Text (''invalid boolean value '' @ go_quote v @ '' for -'' @ name @ '': parse error'')
     else Text (''invalid value '' @ go_quote v @ '' for flag -'' @ name @ '': parse error''))"

text \<open>What one argument asks for, before a value is taken from the next one.\<close>

datatype flag_action =
    Stop
  | StopAfter
  | Fails go_error
  | Sets string flag_kind string
  | Wants string flag_kind

definition flag_step :: "flag_set \<Rightarrow> string \<Rightarrow> flag_action" where
  "flag_step flags s =
    (if \<not> is_flag s then Stop
     else if s = ''--'' then StopAfter
     else
      (let rest = strip_dashes s
       in if rest = '''' \<or> hasPrefix rest ''-'' \<or> hasPrefix rest ''='' then Fails (Text (''bad flag syntax: '' @ s))
          else case split_value rest of (name, given) \<Rightarrow>
            (case map_of flags name of
               None \<Rightarrow> if name = ''help'' \<or> name = ''h'' then Fails ErrHelp
                 else Fails (Text (''flag provided but not defined: -'' @ name))
             | Some k \<Rightarrow>
                (case given of
                   Some v \<Rightarrow> Sets name k v
                 | None \<Rightarrow> if k = BoolFlag then Sets name k ''true'' else Wants name k))))"

text \<open>\<open>Parse\<close>: the settings and the arguments behind the flags.\<close>

fun flag_Parse :: "(string \<Rightarrow> bool) \<Rightarrow> flag_set \<Rightarrow> string list \<Rightarrow> go_error + settings \<times> string list" where
  "flag_Parse duration flags [] = Inr ([], [])"
| "flag_Parse duration flags (s # args) =
    (case flag_step flags s of
       Stop \<Rightarrow> Inr ([], s # args)
     | StopAfter \<Rightarrow> Inr ([], args)
     | Fails e \<Rightarrow> Inl e
     | Sets name k v \<Rightarrow>
        if valid_value duration k v
        then (case flag_Parse duration flags args of Inl e \<Rightarrow> Inl e | Inr (st, rest) \<Rightarrow> Inr ((name, v) # st, rest))
        else Inl (bad_value k name v)
     | Wants name k \<Rightarrow>
        (case args of
           [] \<Rightarrow> Inl (Text (''flag needs an argument: -'' @ name))
         | v # args1 \<Rightarrow>
            if valid_value duration k v
            then (case flag_Parse duration flags args1 of Inl e \<Rightarrow> Inl e | Inr (st, rest) \<Rightarrow> Inr ((name, v) # st, rest))
            else Inl (bad_value k name v)))"

text \<open>The values: the last one set, all of them for a list.\<close>

definition flag_values :: "settings \<Rightarrow> string \<Rightarrow> string list" where
  "flag_values st name = map snd (filter (\<lambda>(n, v). n = name) st)"

definition flag_string :: "settings \<Rightarrow> string \<Rightarrow> string \<Rightarrow> string" where
  "flag_string st name dflt = (case flag_values st name of [] \<Rightarrow> dflt | v # vs \<Rightarrow> last (v # vs))"

definition flag_bool :: "settings \<Rightarrow> string \<Rightarrow> bool" where
  "flag_bool st name = (case flag_values st name of [] \<Rightarrow> False | v # vs \<Rightarrow> parse_bool (last (v # vs)) = Some True)"

section \<open>Printing and parsing\<close>

text \<open>Settings as arguments: \<open>--name value\<close>, booleans as \<open>--name=value\<close>.\<close>

definition flag_args :: "flag_set \<Rightarrow> string \<times> string \<Rightarrow> string list" where
  "flag_args flags = (\<lambda>(name, v). if map_of flags name = Some BoolFlag then [''--'' @ name @ ''='' @ v] else [''--'' @ name, v])"

definition flag_name :: "string \<Rightarrow> bool" where
  "flag_name name \<longleftrightarrow> name \<noteq> '''' \<and> \<not> hasPrefix name ''-'' \<and> CHR ''='' \<notin> set name"

definition setting_ok :: "(string \<Rightarrow> bool) \<Rightarrow> flag_set \<Rightarrow> string \<times> string \<Rightarrow> bool" where
  "setting_ok duration flags = (\<lambda>(name, v). flag_name name \<and>
     (case map_of flags name of None \<Rightarrow> False | Some k \<Rightarrow> valid_value duration k v))"

lemma split_value_plain:
  assumes "flag_name name"
  shows "split_value name = (name, None)"
proof -
  obtain c t where name: "name = c # t" "\<forall>x\<in>set t. x \<noteq> CHR ''=''"
    using assms by (cases name) (auto simp: flag_name_def)
  then have "dropWhile (\<lambda>x. x \<noteq> CHR ''='') t = []" by (simp add: dropWhile_eq_Nil_conv)
  then show ?thesis unfolding split_value_def name(1) by (simp only: list.case)
qed

lemma split_value_given:
  assumes "flag_name name"
  shows "split_value (name @ ''='' @ v) = (name, Some v)"
proof -
  obtain c t where name: "name = c # t" "\<forall>x\<in>set t. x \<noteq> CHR ''=''"
    using assms by (cases name) (auto simp: flag_name_def)
  then have "dropWhile (\<lambda>x. x \<noteq> CHR ''='') (t @ CHR ''='' # v) = CHR ''='' # v"
    "takeWhile (\<lambda>x. x \<noteq> CHR ''='') (t @ CHR ''='' # v) = t"
    by simp_all
  then show ?thesis
    by (simp add: split_value_def name(1))
qed

lemma flag_step_named:
  assumes "flag_name name" "map_of flags name = Some k"
  shows "flag_step flags (''--'' @ name) = (if k = BoolFlag then Sets name k ''true'' else Wants name k)"
    "flag_step flags (''--'' @ name @ ''='' @ v) = Sets name k v"
proof -
  obtain c t where c: "name = c # t" "c \<noteq> CHR ''-''" "c \<noteq> CHR ''=''"
    using assms(1) by (cases name) (auto simp: flag_name_def)
  then show "flag_step flags (''--'' @ name) = (if k = BoolFlag then Sets name k ''true'' else Wants name k)"
    using assms split_value_plain [OF assms(1)]
    by (simp add: flag_step_def is_flag_def strip_dashes_def)
  show "flag_step flags (''--'' @ name @ ''='' @ v) = Sets name k v"
    using assms c split_value_given [OF assms(1), of v]
    by (simp add: flag_step_def is_flag_def strip_dashes_def)
qed

lemma flag_Parse_args:
  assumes "\<forall>s\<in>set st. setting_ok duration flags s" "rest = [] \<or> \<not> is_flag (List.hd rest)"
  shows "flag_Parse duration flags (concat (map (flag_args flags) st) @ rest) = Inr (st, rest)"
  using assms(1)
proof (induction st)
  case Nil
  show ?case using assms(2) by (cases rest) (auto simp: flag_step_def)
next
  case (Cons s st)
  obtain name v where s: "s = (name, v)" by fastforce
  with Cons.prems obtain k where k: "flag_name name" "map_of flags name = Some k" "valid_value duration k v"
    by (auto simp: setting_ok_def split: option.splits)
  have "flag_Parse duration flags (concat (map (flag_args flags) st) @ rest) = Inr (st, rest)"
    using Cons by simp
  then show ?case
    using k flag_step_named [OF k(1,2)] by (cases "k = BoolFlag") (simp_all add: s flag_args_def)
qed

end
