(* ===== verification/Release_Evidence.thy ===== *)
theory Release_Evidence
  imports Smoke Install_Inputs Fs_Ops Go_Pretty Go_Flag
begin

text \<open>
  \<open>scripts/ci/release_evidence/main.go\<close>: the bundle a release is published with, assembled from the
  signed runtime manifest, the archives and the evidence of the workflows, together with the
  canonical form and the signing of the manifest (\<open>manifest.go\<close>, \<open>trust_roots.go\<close>). Files are read
  through the record \<open>world\<close> of \<open>Install_Inputs\<close>; walking a directory, hashing and the decoding of
  each JSON file are further arguments.
\<close>

section \<open>The canonical manifest\<close>

definition opt_member :: "bool \<Rightarrow> string \<times> json \<Rightarrow> members" where
  "opt_member present kv = (if present then [kv] else [])"

definition ManifestFile_json :: "ManifestFile \<Rightarrow> json" where
  "ManifestFile_json f = JObj [(''path'', JStr (mf_Path f)), (''sha256'', JStr (mf_SHA256 f)),
     (''size'', JNum (show_int (mf_Size f))), (''mode'', JNum (show_int (mf_Mode f))), (''role'', JStr (mf_Role f))]"

text \<open>A package without files has a nil slice; the files of a validated manifest are not empty.\<close>

definition ManifestTarget_json :: "ManifestTarget \<Rightarrow> json" where
  "ManifestTarget_json t = JObj (
     [(''goos'', JStr (mt_GOOS t)), (''goarch'', JStr (mt_GOARCH t)), (''triple'', JStr (mt_Triple t)),
      (''executable'', JStr (mt_Executable t)), (''upstreamAsset'', JStr (mt_UpstreamAsset t))] @
     opt_member (mt_UpstreamArchiveSHA256 t \<noteq> '''') (''upstreamArchiveSha256'', JStr (mt_UpstreamArchiveSHA256 t)) @
     opt_member (mt_UpstreamArchiveSize t \<noteq> 0) (''upstreamArchiveSize'', JNum (show_int (mt_UpstreamArchiveSize t))) @
     [(''archiveName'', JStr (mt_ArchiveName t)), (''archiveSha256'', JStr (mt_ArchiveSHA256 t)),
      (''archiveSize'', JNum (show_int (mt_ArchiveSize t))),
      (''files'', if mt_Files t = [] then JNull else JArr (map ManifestFile_json (mt_Files t)))])"

definition Manifest_json :: "Manifest \<Rightarrow> json" where
  "Manifest_json m = JObj [(''schemaVersion'', JNum (show_int (m_SchemaVersion m))), (''sdkVersion'', JStr (m_SDKVersion m)),
     (''runtimeVersion'', JStr (m_RuntimeVersion m)), (''upstreamRepo'', JStr (m_UpstreamRepo m)),
     (''upstreamTag'', JStr (m_UpstreamTag m)), (''targets'', JArr (map ManifestTarget_json (m_Targets m)))]"

text \<open>
  \<open>CanonicalBytes\<close> has a value receiver, but the copy shares the slices: the targets and their files
  are sorted in the caller's manifest too, which is returned with the text.
\<close>

definition sort_manifest :: "Manifest \<Rightarrow> Manifest" where
  "sort_manifest m = m\<lparr>m_Targets := map (\<lambda>t. t\<lparr>mt_Files := sort_key mf_Path (mt_Files t)\<rparr>) (sort_key mt_Triple (m_Targets m))\<rparr>"

definition CanonicalBytes :: "Manifest \<Rightarrow> Manifest \<times> string" where
  "CanonicalBytes m = (sort_manifest m, pretty 0 (Manifest_json (sort_manifest m)))"

text \<open>\<open>SignManifest\<close>; \<open>sign\<close> is \<open>ed25519.Sign\<close>, \<open>encode64\<close> the standard base64 encoding.\<close>

definition SignManifest ::
  "(string \<Rightarrow> string \<Rightarrow> string) \<Rightarrow> (string \<Rightarrow> string) \<Rightarrow> string \<Rightarrow> string \<Rightarrow> string \<Rightarrow> go_error + SignatureEnvelope" where
  "SignManifest sign encode64 manifest keyID privateKey =
    (if length privateKey \<noteq> 64
     then Inl (Text (''runtimebin: invalid ed25519 private key length '' @ show_nat (length privateKey)))
     else Inr \<lparr>se_KeyID = keyID, se_Algorithm = ''ed25519'', se_Signature = encode64 (sign privateKey manifest)\<rparr>)"

section \<open>The inputs\<close>

record ciEvidence =
  ce_WorkflowName :: string
  ce_WorkflowRunURL :: string
  ce_WorkflowRunID :: string
  ce_Commit :: string
  ce_GoVersion :: string
  ce_Commands :: "string list"
  ce_StaticAnalyzer :: string
  ce_RequiredRuntimeWorkflows :: "string list"

text \<open>The coverage report is passed on as it is; \<open>cp_Passed\<close> is its verdict on a package.\<close>

record coverage_package =
  cp_Package :: string
  cp_Threshold :: string
  cp_Covered :: string
  cp_Passed :: bool

record workflowJob =
  wj_Name :: string
  wj_URL :: string

record release_lock =
  rl_Commit :: string
  rl_RuntimeVersion :: string
  rl_SchemaSHA256 :: string

record stressSummary =
  ss_DurationSeconds :: int
  ss_Iterations :: int
  ss_Commands :: "string list"
  ss_FuzzTarget :: string
  ss_FuzzTime :: string
  ss_Package :: string

record releaseEvidenceConfig =
  rc_Output :: string
  rc_Tag :: string
  rc_ReleaseWorkflowURL :: string
  rc_CIEvidence :: string
  rc_CoverageEvidence :: string
  rc_CIJobs :: string
  rc_RuntimeTestsRunID :: string
  rc_RuntimeTestsRunURL :: string
  rc_StressRunID :: string
  rc_StressRunURL :: string
  rc_StressEvidenceDir :: string
  rc_RuntimeNativeRunID :: string
  rc_RuntimeNativeRunURL :: string
  rc_RuntimeNativeJobs :: string
  rc_RuntimeBundleDir :: string
  rc_RuntimeManifest :: string
  rc_RuntimeManifestSig :: string
  rc_ProtocolManifest :: string
  rc_ReferenceLock :: string
  rc_KnownLimitationsJSON :: string

record release_env =
  rv_world :: world
  rv_verify :: "string \<Rightarrow> string \<Rightarrow> string \<Rightarrow> bool"
  rv_roots :: "(string \<times> string) list"
  rv_sha :: "string \<Rightarrow> string"
  rv_walk :: "string \<Rightarrow> go_error + string list"
  rv_glob :: "string \<Rightarrow> go_error + string list"
  rv_record :: "string \<Rightarrow> go_error + ManifestTarget"
  rv_smoke :: "string \<Rightarrow> go_error + NativeSmokeResult"
  rv_stress :: "string \<Rightarrow> go_error + stressSummary"
  rv_ci :: "string \<Rightarrow> go_error + ciEvidence"
  rv_coverage :: "string \<Rightarrow> go_error + coverage_package list"
  rv_jobs :: "string \<Rightarrow> go_error + workflowJob list"
  rv_lock :: "string \<Rightarrow> go_error + release_lock"
  rv_strings :: "string \<Rightarrow> go_error + string list"
  rv_go_version :: "go_error + string"
  rv_repo_root :: string

definition readJSON :: "release_env \<Rightarrow> (string \<Rightarrow> go_error + 'a) \<Rightarrow> string \<Rightarrow> go_error + 'a" where
  "readJSON env decode path = (case w_ReadFile (rv_world env) path of Inl e \<Rightarrow> Inl e | Inr content \<Rightarrow> decode content)"

section \<open>Finding the files of a target\<close>

definition exactly_one :: "(nat \<Rightarrow> string) \<Rightarrow> string list \<Rightarrow> go_error + string" where
  "exactly_one complaint matches = (case matches of [p] \<Rightarrow> Inr p | _ \<Rightarrow> Inl (Text (complaint (length matches))))"

definition findTargetFile :: "release_env \<Rightarrow> string \<Rightarrow> string \<Rightarrow> string \<Rightarrow> go_error + string" where
  "findTargetFile env root triple exactName = then_do (rv_walk env root) (\<lambda>paths.
     exactly_one (\<lambda>n. ''release_evidence: expected exactly one '' @ exactName @ '' for '' @ triple @ '' under '' @ root @
         '', got '' @ show_nat n)
       (filter (\<lambda>p. path_Base p = exactName \<and> str_contains p triple) paths))"

definition findTargetEvidence :: "release_env \<Rightarrow> string \<Rightarrow> string \<Rightarrow> go_error + string" where
  "findTargetEvidence env root triple = then_do (rv_walk env root) (\<lambda>paths.
     exactly_one (\<lambda>n. ''release_evidence: expected exactly one native evidence JSON for '' @ triple @ '' under '' @ root @
         '', got '' @ show_nat n)
       (filter (\<lambda>p. hasSuffix p ''.json'' \<and> path_Base (path_Dir p) = ''evidence'' \<and> str_contains p triple) paths))"

definition findArchive :: "release_env \<Rightarrow> string \<Rightarrow> string \<Rightarrow> go_error + string" where
  "findArchive env root archiveName = then_do (rv_walk env root) (\<lambda>paths.
     exactly_one (\<lambda>n. ''release_evidence: expected exactly one archive '' @ archiveName @ '' under '' @ root @
         '', got '' @ show_nat n)
       (filter (\<lambda>p. path_Base p = archiveName) paths))"

definition fileSHA256AndSize :: "release_env \<Rightarrow> string \<Rightarrow> go_error + string \<times> int" where
  "fileSHA256AndSize env path = then_do (w_ReadFile (rv_world env) path) (\<lambda>content. Inr (rv_sha env content, int (length content)))"

definition collectTargetJobs :: "workflowJob list \<Rightarrow> workflowJob list" where
  "collectTargetJobs jobs = sort_key wj_Name (filter (\<lambda>j. wj_URL j \<noteq> '''') jobs)"

definition job_matches :: "workflowJob \<Rightarrow> TargetSpec \<Rightarrow> bool" where
  "job_matches j t \<longleftrightarrow> str_contains (wj_Name j) (Triple t) \<or> str_contains (wj_Name j) (GOOS t @ ''_'' @ GOARCH t)"

definition mapJobURLs :: "workflowJob list \<Rightarrow> string gomap" where
  "mapJobURLs jobs = fold (\<lambda>j m. fold (\<lambda>t m. if job_matches j t then AList.update (Triple t) (wj_URL j) m else m)
     supportedTargets m) jobs []"

section \<open>The evidence of the runtime\<close>

record artifactEvidence =
  ae_Path :: string
  ae_SHA256 :: string
  ae_Size :: int

record provenanceEvidence =
  pe_Target :: string
  pe_Path :: string
  pe_SHA256 :: string

record targetMatrixEvidence =
  tm_TargetTriple :: string
  tm_RuntimeGOOS :: string
  tm_RuntimeGOARCH :: string
  tm_ArchiveSHA256 :: string
  tm_ManifestSHA256 :: string
  tm_VersionOutput :: string
  tm_InitializeSucceeded :: bool
  tm_CloseSucceeded :: bool
  tm_ModelListSucceeded :: bool
  tm_ThreadStartSucceeded :: bool
  tm_TurnStartSucceeded :: bool
  tm_StreamSucceeded :: bool
  tm_JobURL :: string

definition matrix_row :: "string \<Rightarrow> string \<Rightarrow> NativeSmokeResult \<Rightarrow> targetMatrixEvidence" where
  "matrix_row manifestSHA url smoke =
    \<lparr>tm_TargetTriple = ns_TargetTriple smoke, tm_RuntimeGOOS = ns_RuntimeGOOS smoke,
     tm_RuntimeGOARCH = ns_RuntimeGOARCH smoke, tm_ArchiveSHA256 = ns_ArchiveSHA256 smoke,
     tm_ManifestSHA256 = manifestSHA, tm_VersionOutput = ns_VersionOutput smoke,
     tm_InitializeSucceeded = ns_InitializeSucceeded smoke, tm_CloseSucceeded = ns_CloseSucceeded smoke,
     tm_ModelListSucceeded = ns_ModelListSucceeded smoke, tm_ThreadStartSucceeded = ns_ThreadStartSucceeded smoke,
     tm_TurnStartSucceeded = ns_TurnStartSucceeded smoke, tm_StreamSucceeded = ns_StreamSucceeded smoke,
     tm_JobURL = url\<rparr>"

definition target_provenance :: "ManifestTarget \<Rightarrow> provenanceEvidence list" where
  "target_provenance t = map (\<lambda>f. \<lparr>pe_Target = mt_Triple t, pe_Path = mf_Path f, pe_SHA256 = mf_SHA256 f\<rparr>)
     (filter (\<lambda>f. mf_Role f = ''provenance'') (mt_Files t))"

text \<open>One round of the loop: the artifact and the matrix row of a target.\<close>

definition target_evidence :: "release_env \<Rightarrow> string \<Rightarrow> string \<Rightarrow> string gomap \<Rightarrow> string list \<Rightarrow> ManifestTarget \<Rightarrow>
   go_error + artifactEvidence \<times> targetMatrixEvidence" where
  "target_evidence env root manifestSHA urls seen t =
     then_do (findTargetFile env root (mt_Triple t) ''record.json'') (\<lambda>recordPath.
     then_do (findTargetEvidence env root (mt_Triple t)) (\<lambda>evidencePath.
     then_do (findArchive env root (mt_ArchiveName t)) (\<lambda>archivePath.
     then_do (readJSON env (rv_record env) recordPath) (\<lambda>rec.
     then_do (readJSON env (rv_smoke env) evidencePath) (\<lambda>smoke.
       if mt_Triple rec \<noteq> mt_Triple t \<or> ns_TargetTriple smoke \<noteq> mt_Triple t
       then Inl (Text (''release_evidence: mismatched target evidence for '' @ mt_Triple t))
       else if mt_Triple t \<in> set seen
       then Inl (Text (''release_evidence: duplicate target evidence for '' @ mt_Triple t))
       else then_do (fileSHA256AndSize env archivePath) (\<lambda>(sha, size).
         if sha \<noteq> mt_ArchiveSHA256 t \<or> size \<noteq> mt_ArchiveSize t
         then Inl (Text (''release_evidence: archive mismatch for '' @ mt_Triple t))
         else Inr (\<lparr>ae_Path = archivePath, ae_SHA256 = sha, ae_Size = size\<rparr>,
           matrix_row manifestSHA (case map_of urls (mt_Triple t) of Some u \<Rightarrow> u | None \<Rightarrow> '''') smoke)))))))"

fun evidence_loop :: "release_env \<Rightarrow> string \<Rightarrow> string \<Rightarrow> string gomap \<Rightarrow> string list \<Rightarrow> ManifestTarget list \<Rightarrow>
   go_error + (artifactEvidence \<times> targetMatrixEvidence) list" where
  "evidence_loop env root manifestSHA urls seen [] = Inr []"
| "evidence_loop env root manifestSHA urls seen (t # ts) =
     then_do (target_evidence env root manifestSHA urls seen t) (\<lambda>row.
     then_do (evidence_loop env root manifestSHA urls (mt_Triple t # seen) ts) (\<lambda>rows. Inr (row # rows)))"

definition collectRuntimeEvidence :: "release_env \<Rightarrow> string \<Rightarrow> Manifest \<Rightarrow> string \<Rightarrow> workflowJob list \<Rightarrow>
   go_error + artifactEvidence list \<times> provenanceEvidence list \<times> targetMatrixEvidence list" where
  "collectRuntimeEvidence env root m manifestSHA jobs =
     then_do (evidence_loop env root manifestSHA (mapJobURLs jobs) [] (m_Targets m)) (\<lambda>rows.
       if length rows \<noteq> length supportedTargets
       then Inl (Text (''release_evidence: found '' @ show_nat (length rows) @ '' target evidence files, want '' @
         show_nat (length supportedTargets)))
       else Inr (sort_key ae_Path (map fst rows), sort_key pe_Target (concat (map target_provenance (m_Targets m))),
         sort_key tm_TargetTriple (map snd rows)))"

section \<open>Stress summaries\<close>

definition valid_summary :: "string \<Rightarrow> stressSummary \<Rightarrow> go_error option" where
  "valid_summary path s =
    (if path_Base path = ''stress-summary.json''
     then (if ss_DurationSeconds s < 1800 \<or> ss_Commands s = []
       then Some (Text (''release_evidence: invalid 30m stress summary at '' @ path)) else None)
     else (if ss_FuzzTarget s = '''' \<or> ss_FuzzTime s \<noteq> ''10m'' \<or> ss_Package s = ''''
       then Some (Text (''release_evidence: invalid fuzz summary at '' @ path)) else None))"

fun read_summaries :: "release_env \<Rightarrow> string list \<Rightarrow> go_error + stressSummary list" where
  "read_summaries env [] = Inr []"
| "read_summaries env (p # ps) =
     then_do (readJSON env (rv_stress env) p) (\<lambda>s.
     then_do (no_error (valid_summary p s)) (\<lambda>_.
     then_do (read_summaries env ps) (\<lambda>ss. Inr (s # ss))))"

definition summary_key :: "stressSummary \<Rightarrow> string" where
  "summary_key s = (if ss_FuzzTarget s = '''' then ''0000-stress'' else ss_FuzzTarget s)"

definition loadStressSummaries :: "release_env \<Rightarrow> string \<Rightarrow> go_error + stressSummary list" where
  "loadStressSummaries env root =
     then_do (rv_glob env (path_Join [root, ''*.json''])) (\<lambda>paths.
       if length paths \<noteq> 8
       then Inl (Text (''release_evidence: expected 8 stress summaries under '' @ root @ '', got '' @ show_nat (length paths)))
       else then_do (read_summaries env paths) (\<lambda>ss. Inr (sort_key summary_key ss)))"

section \<open>The bundle\<close>

fun hash_input :: "release_env \<Rightarrow> string list \<Rightarrow> go_error + string" where
  "hash_input env [] = Inr ''''"
| "hash_input env (p # ps) =
     then_do (w_ReadFile (rv_world env) p) (\<lambda>content.
     then_do (hash_input env ps) (\<lambda>rest. Inr (p @ [CHR 0x00] @ content @ [CHR 0x00] @ rest)))"

definition hashPaths :: "release_env \<Rightarrow> string list \<Rightarrow> go_error + string" where
  "hashPaths env paths = then_do (hash_input env paths) (\<lambda>input. Inr (rv_sha env input))"

record releaseBundle =
  rb_Commit :: string
  rb_Tag :: string
  rb_GoVersion :: string
  rb_RuntimeVersion :: string
  rb_SchemaSHA256 :: string
  rb_GeneratorSHA256 :: string
  rb_CI :: "(string \<times> string) \<times> string list \<times> string"
  rb_Coverage :: "coverage_package list"
  rb_Stress :: "(string \<times> string) \<times> stressSummary list"
  rb_RuntimeNative :: "(string \<times> string) \<times> workflowJob list"
  rb_RuntimeTests :: "string \<times> string"
  rb_Artifacts :: "artifactEvidence list"
  rb_Provenance :: "provenanceEvidence list"
  rb_KnownLimitations :: "string list"
  rb_CompletedMatrix :: "targetMatrixEvidence list"
  rb_ManifestSignature :: "string \<times> string"
  rb_ReleaseWorkflowURL :: string

definition detectGoVersion :: "release_env \<Rightarrow> string" where
  "detectGoVersion env = (case rv_go_version env of Inl e \<Rightarrow> '''' | Inr out \<Rightarrow> trimSpace out)"

definition buildBundle :: "release_env \<Rightarrow> releaseEvidenceConfig \<Rightarrow> ciEvidence \<Rightarrow> coverage_package list \<Rightarrow>
   workflowJob list \<Rightarrow> release_lock \<Rightarrow> Manifest \<Rightarrow> SignatureEnvelope \<Rightarrow> go_error + releaseBundle" where
  "buildBundle env conf ci coverage jobs lock m envelope =
     then_do (hashPaths env [path_Join [rv_repo_root env, ''cmd'', ''codex-sdk-gen'', ''main.go''],
       path_Join [rv_repo_root env, ''cmd'', ''codex-sdk-gen'', ''protocolgen.go'']]) (\<lambda>generatorHash.
     then_do (if rc_KnownLimitationsJSON conf \<noteq> '''' then readJSON env (rv_strings env) (rc_KnownLimitationsJSON conf) else Inr []) (\<lambda>limitations.
     then_do (loadStressSummaries env (rc_StressEvidenceDir conf)) (\<lambda>stress.
     then_do (collectRuntimeEvidence env (rc_RuntimeBundleDir conf) (fst (CanonicalBytes m))
         (rv_sha env (snd (CanonicalBytes m))) jobs) (\<lambda>(artifacts, provenance, matrix).
       Inr \<lparr>rb_Commit = ce_Commit ci, rb_Tag = rc_Tag conf,
         rb_GoVersion = (if trimSpace (ce_GoVersion ci) = '''' then detectGoVersion env else trimSpace (ce_GoVersion ci)),
         rb_RuntimeVersion = m_RuntimeVersion m, rb_SchemaSHA256 = rl_SchemaSHA256 lock,
         rb_GeneratorSHA256 = generatorHash,
         rb_CI = ((ce_WorkflowRunID ci, ce_WorkflowRunURL ci), ce_Commands ci, ce_StaticAnalyzer ci),
         rb_Coverage = coverage,
         rb_Stress = ((rc_StressRunID conf, rc_StressRunURL conf), stress),
         rb_RuntimeNative = ((rc_RuntimeNativeRunID conf, rc_RuntimeNativeRunURL conf), collectTargetJobs jobs),
         rb_RuntimeTests = (rc_RuntimeTestsRunID conf, rc_RuntimeTestsRunURL conf),
         rb_Artifacts = artifacts, rb_Provenance = provenance, rb_KnownLimitations = limitations,
         rb_CompletedMatrix = matrix, rb_ManifestSignature = (se_KeyID envelope, se_Algorithm envelope),
         rb_ReleaseWorkflowURL = rc_ReleaseWorkflowURL conf\<rparr>))))"

definition missing_flags :: "releaseEvidenceConfig \<Rightarrow> bool" where
  "missing_flags conf \<longleftrightarrow> rc_Output conf = '''' \<or> rc_Tag conf = '''' \<or> rc_CIEvidence conf = '''' \<or>
     rc_CoverageEvidence conf = '''' \<or> rc_StressEvidenceDir conf = '''' \<or> rc_RuntimeNativeJobs conf = '''' \<or>
     rc_RuntimeBundleDir conf = '''' \<or> rc_RuntimeManifest conf = '''' \<or> rc_RuntimeManifestSig conf = '''' \<or>
     rc_ProtocolManifest conf = ''''"

text \<open>\<open>run\<close> once the flags are parsed, up to the bundle.\<close>

definition release_evidence :: "release_env \<Rightarrow> releaseEvidenceConfig \<Rightarrow> go_error + releaseBundle" where
  "release_evidence env conf =
    (if missing_flags conf then Inl (Text ''release_evidence: missing required flags'')
     else
      then_do (readJSON env (rv_ci env) (rc_CIEvidence conf)) (\<lambda>ci.
      then_do (readJSON env (rv_coverage env) (rc_CoverageEvidence conf)) (\<lambda>coverage.
      then_do (readJSON env (rv_jobs env) (rc_RuntimeNativeJobs conf)) (\<lambda>jobs.
      then_do (readJSON env (rv_lock env) (rc_ReferenceLock conf)) (\<lambda>lock.
      then_do (LoadManifest (rv_world env) (rc_RuntimeManifest conf)) (\<lambda>(m, content).
      then_do (LoadSignatureEnvelope (rv_world env) (rc_RuntimeManifestSig conf)) (\<lambda>envelope.
      then_do (no_error (VerifyManifestSignature (rv_verify env) (w_decode64 (rv_world env)) content envelope (rv_roots env))) (\<lambda>_.
        if m_RuntimeVersion m \<noteq> rl_RuntimeVersion lock
        then Inl (Text (''release_evidence: runtime manifest version '' @ m_RuntimeVersion m @
          '' does not match lock '' @ rl_RuntimeVersion lock))
        else buildBundle env conf ci coverage jobs lock m envelope))))))))"

section \<open>The command line\<close>

definition release_flags :: flag_set where
  "release_flags = map (\<lambda>n. (n, StringFlag)) [''output'', ''tag'', ''release-workflow-url'', ''ci-evidence'', ''coverage-evidence'', ''ci-jobs'',
     ''runtime-tests-run-id'', ''runtime-tests-run-url'', ''stress-run-id'', ''stress-run-url'', ''stress-evidence-dir'',
     ''runtime-native-run-id'', ''runtime-native-run-url'', ''runtime-native-jobs'', ''runtime-bundle-dir'', ''runtime-manifest'',
     ''runtime-manifest-signature'', ''protocol-manifest'', ''reference-lock'', ''known-limitations-json'']"

definition release_config :: "settings \<Rightarrow> releaseEvidenceConfig" where
  "release_config st = \<lparr>rc_Output = flag_string st ''output'' '''', rc_Tag = flag_string st ''tag'' '''',
     rc_ReleaseWorkflowURL = flag_string st ''release-workflow-url'' '''', rc_CIEvidence = flag_string st ''ci-evidence'' '''',
     rc_CoverageEvidence = flag_string st ''coverage-evidence'' '''', rc_CIJobs = flag_string st ''ci-jobs'' '''',
     rc_RuntimeTestsRunID = flag_string st ''runtime-tests-run-id'' '''', rc_RuntimeTestsRunURL = flag_string st ''runtime-tests-run-url'' '''',
     rc_StressRunID = flag_string st ''stress-run-id'' '''', rc_StressRunURL = flag_string st ''stress-run-url'' '''',
     rc_StressEvidenceDir = flag_string st ''stress-evidence-dir'' '''',
     rc_RuntimeNativeRunID = flag_string st ''runtime-native-run-id'' '''', rc_RuntimeNativeRunURL = flag_string st ''runtime-native-run-url'' '''',
     rc_RuntimeNativeJobs = flag_string st ''runtime-native-jobs'' '''', rc_RuntimeBundleDir = flag_string st ''runtime-bundle-dir'' '''',
     rc_RuntimeManifest = flag_string st ''runtime-manifest'' '''', rc_RuntimeManifestSig = flag_string st ''runtime-manifest-signature'' '''',
     rc_ProtocolManifest = flag_string st ''protocol-manifest'' '''', rc_ReferenceLock = flag_string st ''reference-lock'' ''reference.lock.json'',
     rc_KnownLimitationsJSON = flag_string st ''known-limitations-json'' ''''\<rparr>"

text \<open>\<open>run\<close> up to the bundle and the path it is written to.\<close>

definition release_run :: "release_env \<Rightarrow> string list \<Rightarrow> go_error + string \<times> releaseBundle" where
  "release_run env args =
     then_do (flag_Parse (\<lambda>_. False) release_flags args) (\<lambda>(st, rest).
     then_do (release_evidence env (release_config st)) (\<lambda>bundle. Inr (rc_Output (release_config st), bundle)))"

end
