(* ===== verification/Release_Props.thy ===== *)
theory Release_Props
  imports Release_Evidence Smoke_Props
begin

text \<open>
  What a successful release bundle guarantees, the canonical form of the manifest, and that what
  \<open>SignManifest\<close> signs \<open>VerifyManifestSignature\<close> accepts.
\<close>

section \<open>Validated manifests\<close>

lemma LookupTargetByTriple_Inr: "LookupTargetByTriple s = Inr t \<Longrightarrow> s \<in> Triple ` set supportedTargets"
  by (auto simp: LookupTargetByTriple_def find_Some_iff split: option.splits)

lemma validate_targets_None:
  "validate_targets seen ts = None \<Longrightarrow>
     distinct (map mt_Triple ts) \<and> set (map mt_Triple ts) \<inter> seen = {} \<and> set (map mt_Triple ts) \<subseteq> Triple ` set supportedTargets"
proof (induction ts arbitrary: seen)
  case (Cons t ts)
  obtain spec where spec: "LookupTargetByTriple (mt_Triple t) = Inr spec" "mt_Triple t \<notin> seen"
    and rest: "validate_targets (insert (mt_Triple t) seen) ts = None"
    using Cons.prems by (auto split: sum.splits if_splits option.splits)
  then show ?case
    using Cons.IH [OF rest] LookupTargetByTriple_Inr [OF spec(1)] by auto
qed simp

lemma distinct_supported: "distinct (map Triple supportedTargets)"
  by (simp add: supportedTargets_def target_spec_def)

lemma valid_triples:
  assumes "Validate m = None"
  shows "mset (map mt_Triple (m_Targets m)) = mset (map Triple supportedTargets)"
proof -
  have v: "validate_targets {} (m_Targets m) = None" "length (m_Targets m) = length supportedTargets"
    using assms by (auto simp: Validate_def split: if_splits sum.splits)
  have d: "distinct (map mt_Triple (m_Targets m))" "set (map mt_Triple (m_Targets m)) \<subseteq> set (map Triple supportedTargets)"
    using validate_targets_None [OF v(1)] by auto
  moreover have "card (set (map mt_Triple (m_Targets m))) = card (set (map Triple supportedTargets))"
    using distinct_card [OF d(1)] distinct_card [OF distinct_supported] v(2) by simp
  ultimately have "set (map mt_Triple (m_Targets m)) = set (map Triple supportedTargets)"
    by (intro card_subset_eq) simp_all
  then show ?thesis
    using set_eq_iff_mset_eq_distinct [OF d(1) distinct_supported] by blast
qed

section \<open>The canonical manifest\<close>

lemma map_sort_key: "map f (sort_key f xs) = sort (map f xs)"
  by (rule properties_for_sort [symmetric]) simp_all

lemma sort_key_perm:
  assumes "mset xs = mset ys" "distinct (map f xs)"
  shows "sort_key f xs = sort_key f ys"
proof -
  have "inj_on f (set xs)" "set ys = set xs"
    using assms by (auto simp: distinct_map dest: mset_eq_setD)
  then show ?thesis
    using assms(1) by (intro sort_key_inj_key_eq) simp_all
qed

text \<open>The sorted manifest has the same targets, and sorting it again changes nothing.\<close>

lemma sort_manifest_triples: "mset (map mt_Triple (m_Targets (sort_manifest m))) = mset (map mt_Triple (m_Targets m))"
  by (simp add: sort_manifest_def comp_def)

lemma sort_manifest_idem: "sort_manifest (sort_manifest m) = sort_manifest m"
proof -
  let ?g = "\<lambda>t. t\<lparr>mt_Files := sort_key mf_Path (mt_Files t)\<rparr>"
  let ?ts = "sort_key mt_Triple (m_Targets m)"
  have "sort_key mt_Triple (map ?g ?ts) = map ?g ?ts"
    by (rule sort_key_id_if_sorted) (simp add: comp_def)
  moreover have "?g (?g t) = ?g t" for t :: ManifestTarget
    by (simp add: sort_key_id_if_sorted)
  ultimately show ?thesis
    by (simp add: sort_manifest_def comp_def)
qed

text \<open>C35: The canonical text of a manifest does not depend on the order of its targets, and the text
  of the manifest that \<open>CanonicalBytes\<close> leaves behind in the caller is the same.\<close>

theorem canonical_stable:
  assumes "mset ts = mset (m_Targets m)" "distinct (map mt_Triple (m_Targets m))"
  shows "CanonicalBytes (m\<lparr>m_Targets := ts\<rparr>) = CanonicalBytes m \<and>
    CanonicalBytes (fst (CanonicalBytes m)) = CanonicalBytes m"
proof -
  have "sort_key mt_Triple ts = sort_key mt_Triple (m_Targets m)"
    using assms by (intro sort_key_perm [symmetric]) simp_all
  then show ?thesis
    by (simp add: CanonicalBytes_def sort_manifest_idem) (simp add: sort_manifest_def)
qed

section \<open>Signatures\<close>

text \<open>A manifest signed with the private key of a trust root is accepted under that root, whatever
  other roots there are, provided no earlier root has the same key identifier. Of the cryptography
  only this is used: a signature verifies under the public key of its private key, and base64
  decodes what it encodes.\<close>

theorem sign_then_verify:
  assumes sound: "\<And>msg. verify pub msg (sign priv msg)"
    and base64: "\<And>s. decode64 (encode64 s) = Inr s"
    and signed: "SignManifest sign encode64 manifest kid priv = Inr env"
    and root: "roots = before @ (kid, pub) # after" "kid \<notin> fst ` set before"
  shows "VerifyManifestSignature verify decode64 manifest env roots = None"
proof -
  have env: "env = \<lparr>se_KeyID = kid, se_Algorithm = ''ed25519'', se_Signature = encode64 (sign priv manifest)\<rparr>"
    using signed by (simp add: SignManifest_def split: if_splits)
  have "verify_roots verify manifest env (sign priv manifest) (before @ (kid, pub) # after) = None"
    using root(2) by (induction before) (auto simp: env sound)
  then show ?thesis
    by (simp add: VerifyManifestSignature_def env base64 root(1))
qed

theorem sign_then_verify_witness:
  "\<exists>env. SignManifest (\<lambda>k m. k @ m) (\<lambda>s. CHR ''x'' # s) ''manifest'' ''root'' (replicate 64 (CHR ''k'')) = Inr env \<and>
     VerifyManifestSignature (\<lambda>k m s. s = k @ m) (\<lambda>s. case s of [] \<Rightarrow> Inl io_EOF | c # t \<Rightarrow> Inr t)
       ''manifest'' env [(''other'', ''p''), (''root'', replicate 64 (CHR ''k''))] = None"
proof -
  obtain env where env: "SignManifest (\<lambda>k m. k @ m) (\<lambda>s. CHR ''x'' # s) ''manifest'' ''root'' (replicate 64 (CHR ''k'')) = Inr env"
    by (simp add: SignManifest_def)
  have "VerifyManifestSignature (\<lambda>k m s. s = k @ m) (\<lambda>s. case s of [] \<Rightarrow> Inl io_EOF | c # t \<Rightarrow> Inr t)
      ''manifest'' env [(''other'', ''p''), (''root'', replicate 64 (CHR ''k''))] = None"
    by (rule sign_then_verify [OF _ _ env, where before = "[(''other'', ''p'')]" and after = "[]"]) simp_all
  then show ?thesis
    using env by blast
qed

section \<open>The release bundle\<close>

text \<open>What one round of the evidence loop has checked about its target.\<close>

definition row_ok :: "release_env \<Rightarrow> ManifestTarget \<Rightarrow> artifactEvidence \<times> targetMatrixEvidence \<Rightarrow> bool" where
  "row_ok env t row \<longleftrightarrow> tm_TargetTriple (snd row) = mt_Triple t \<and>
     ae_SHA256 (fst row) = mt_ArchiveSHA256 t \<and> ae_Size (fst row) = mt_ArchiveSize t \<and>
     path_Base (ae_Path (fst row)) = mt_ArchiveName t \<and>
     (\<exists>bytes. w_ReadFile (rv_world env) (ae_Path (fst row)) = Inr bytes \<and> rv_sha env bytes = ae_SHA256 (fst row) \<and>
       int (length bytes) = ae_Size (fst row))"

lemma exactly_one_Inr: "exactly_one c ms = Inr p \<Longrightarrow> ms = [p]"
  by (auto simp: exactly_one_def split: list.splits)

lemma findArchive_Inr:
  assumes "findArchive env root name = Inr p"
  shows "path_Base p = name"
proof -
  obtain paths where "filter (\<lambda>p. path_Base p = name) paths = [p]"
    using assms by (auto simp: findArchive_def dest: exactly_one_Inr)
  then have "p \<in> set (filter (\<lambda>p. path_Base p = name) paths)" by simp
  then show ?thesis by simp
qed

lemma target_evidence_ok:
  assumes "target_evidence env root msha urls seen t = Inr row"
  shows "row_ok env t row"
  using assms by (auto simp: target_evidence_def row_ok_def fileSHA256AndSize_def matrix_row_def
      dest!: findArchive_Inr split: if_splits)

lemma evidence_loop_ok: "evidence_loop env root msha urls seen ts = Inr rows \<Longrightarrow> list_all2 (row_ok env) ts rows"
  by (induction ts arbitrary: seen rows) (auto dest: target_evidence_ok)

lemma rows_triples: "list_all2 (row_ok env) ts rows \<Longrightarrow> map (tm_TargetTriple \<circ> snd) rows = map mt_Triple ts"
  by (induction rule: list_all2_induct) (auto simp: row_ok_def)

definition artifact_of :: "release_env \<Rightarrow> ManifestTarget \<Rightarrow> artifactEvidence \<Rightarrow> bool" where
  "artifact_of env t a \<longleftrightarrow> path_Base (ae_Path a) = mt_ArchiveName t \<and> ae_SHA256 a = mt_ArchiveSHA256 t \<and>
     ae_Size a = mt_ArchiveSize t \<and>
     (\<exists>bytes. w_ReadFile (rv_world env) (ae_Path a) = Inr bytes \<and> rv_sha env bytes = mt_ArchiveSHA256 t)"

lemma rows_artifacts: "list_all2 (row_ok env) ts rows \<Longrightarrow> \<forall>t\<in>set ts. \<exists>a\<in>set (map fst rows). artifact_of env t a"
  by (induction rule: list_all2_induct) (auto simp: row_ok_def artifact_of_def)

lemma collect_ok:
  assumes "collectRuntimeEvidence env root m msha jobs = Inr (artifacts, provenance, matrix)"
  shows "map tm_TargetTriple matrix = sort (map mt_Triple (m_Targets m)) \<and> length artifacts = length (m_Targets m) \<and>
    (\<forall>t\<in>set (m_Targets m). \<exists>a\<in>set artifacts. artifact_of env t a)"
proof -
  obtain rows where loop: "evidence_loop env root msha (mapJobURLs jobs) [] (m_Targets m) = Inr rows"
    and art: "artifacts = sort_key ae_Path (map fst rows)" and mat: "matrix = sort_key tm_TargetTriple (map snd rows)"
    using assms by (auto simp: collectRuntimeEvidence_def split: if_splits)
  note rows = evidence_loop_ok [OF loop]
  have "map tm_TargetTriple matrix = sort (map mt_Triple (m_Targets m))"
    using rows_triples [OF rows] by (simp add: mat map_sort_key comp_def)
  then show ?thesis
    using rows_artifacts [OF rows] list_all2_lengthD [OF rows] by (simp add: art)
qed

lemma stress_ok: "loadStressSummaries env root = Inr ss \<Longrightarrow> length ss = 8"
proof -
  have "read_summaries env ps = Inr ss \<Longrightarrow> length ss = length ps" for ps ss
    by (induction ps arbitrary: ss) auto
  then show "loadStressSummaries env root = Inr ss \<Longrightarrow> length ss = 8"
    by (auto simp: loadStressSummaries_def split: if_splits)
qed

lemma buildBundle_ok:
  assumes valid: "Validate m = None" and run: "buildBundle env conf ci coverage jobs lock m envelope = Inr b"
  shows "map tm_TargetTriple (rb_CompletedMatrix b) = sort (map Triple supportedTargets) \<and>
    length (rb_Artifacts b) = length supportedTargets \<and>
    (\<forall>t\<in>set (m_Targets m). \<exists>a\<in>set (rb_Artifacts b). artifact_of env t a) \<and>
    length (snd (rb_Stress b)) = 8 \<and> rb_RuntimeVersion b = m_RuntimeVersion m"
proof -
  let ?m = "sort_manifest m"
  obtain stress artifacts provenance matrix where
    stress: "loadStressSummaries env (rc_StressEvidenceDir conf) = Inr stress"
    and collect: "collectRuntimeEvidence env (rc_RuntimeBundleDir conf) ?m (rv_sha env (snd (CanonicalBytes m))) jobs =
      Inr (artifacts, provenance, matrix)"
    and b: "rb_CompletedMatrix b = matrix" "rb_Artifacts b = artifacts" "snd (rb_Stress b) = stress"
      "rb_RuntimeVersion b = m_RuntimeVersion m"
    using run by (auto simp: buildBundle_def CanonicalBytes_def)
  have triples: "mset (map mt_Triple (m_Targets ?m)) = mset (map Triple supportedTargets)"
    using valid_triples [OF valid] sort_manifest_triples by metis
  have len: "length (m_Targets ?m) = length supportedTargets"
    using arg_cong [OF triples, of size] by simp
  have sorted: "sort (map mt_Triple (m_Targets ?m)) = sort (map Triple supportedTargets)"
    by (rule properties_for_sort) (simp only: mset_sort triples, simp)
  have same: "artifact_of env t a = artifact_of env (t\<lparr>mt_Files := fs\<rparr>) a" for t a fs
    by (simp add: artifact_of_def)
  have "\<forall>t\<in>set (m_Targets m). \<exists>a\<in>set artifacts. artifact_of env t a"
    using collect_ok [OF collect] by (simp add: sort_manifest_def same [symmetric])
  then show ?thesis
    using collect_ok [OF collect] len sorted stress_ok [OF stress] b by simp
qed

text \<open>C21: A release bundle is only written from a manifest whose signature verifies under a trust root
  and whose version is that of the lock file; it has one matrix row for each supported target, one
  archive on disk for each target of the manifest, with the recorded name, hash and size, and all
  eight stress summaries.\<close>

theorem release_evidence_complete:
  assumes "release_evidence env conf = Inr b"
  shows "\<exists>m bytes envelope lock. LoadManifest (rv_world env) (rc_RuntimeManifest conf) = Inr (m, bytes) \<and>
    LoadSignatureEnvelope (rv_world env) (rc_RuntimeManifestSig conf) = Inr envelope \<and>
    readJSON env (rv_lock env) (rc_ReferenceLock conf) = Inr lock \<and> m_RuntimeVersion m = rl_RuntimeVersion lock \<and>
    VerifyManifestSignature (rv_verify env) (w_decode64 (rv_world env)) bytes envelope (rv_roots env) = None \<and>
    rb_RuntimeVersion b = m_RuntimeVersion m \<and>
    map tm_TargetTriple (rb_CompletedMatrix b) = sort (map Triple supportedTargets) \<and>
    length (rb_Artifacts b) = length supportedTargets \<and>
    (\<forall>t\<in>set (m_Targets m). \<exists>a\<in>set (rb_Artifacts b). artifact_of env t a) \<and>
    length (snd (rb_Stress b)) = 8"
proof -
  obtain ci coverage jobs lock m bytes envelope where
    load: "LoadManifest (rv_world env) (rc_RuntimeManifest conf) = Inr (m, bytes)"
    and sig: "LoadSignatureEnvelope (rv_world env) (rc_RuntimeManifestSig conf) = Inr envelope"
      "VerifyManifestSignature (rv_verify env) (w_decode64 (rv_world env)) bytes envelope (rv_roots env) = None"
    and lock: "readJSON env (rv_lock env) (rc_ReferenceLock conf) = Inr lock" "m_RuntimeVersion m = rl_RuntimeVersion lock"
    and build: "buildBundle env conf ci coverage jobs lock m envelope = Inr b"
    using assms by (auto simp: release_evidence_def split: if_splits)
  have "Validate m = None"
    using load by (auto simp: LoadManifest_def split: sum.splits option.splits)
  then show ?thesis
    using buildBundle_ok [OF _ build] load sig lock by blast
qed

section \<open>Examples\<close>

definition demo_sha :: string where
  "demo_sha = replicate 64 (CHR ''a'')"

definition demo_target :: "TargetSpec \<Rightarrow> ManifestTarget" where
  "demo_target t = \<lparr>mt_GOOS = GOOS t, mt_GOARCH = GOARCH t, mt_Triple = Triple t, mt_Executable = Executable t,
     mt_UpstreamAsset = UpstreamAsset t, mt_UpstreamArchiveSHA256 = '''', mt_UpstreamArchiveSize = 0,
     mt_ArchiveName = ''a.tgz'', mt_ArchiveSHA256 = demo_sha, mt_ArchiveSize = 7,
     mt_Files = [\<lparr>mf_Path = ''provenance.json'', mf_SHA256 = demo_sha, mf_Size = 1, mf_Mode = 420, mf_Role = ''provenance''\<rparr>]\<rparr>"

definition demo_manifest :: Manifest where
  "demo_manifest = \<lparr>m_SchemaVersion = 1, m_SDKVersion = ''1'', m_RuntimeVersion = DefaultRuntimeVersion,
     m_UpstreamRepo = ''openai/codex'', m_UpstreamTag = ''t'', m_Targets = map demo_target supportedTargets\<rparr>"

theorem canonical_stable_witness:
  "CanonicalBytes (demo_manifest\<lparr>m_Targets := rev (map demo_target supportedTargets)\<rparr>) = CanonicalBytes demo_manifest"
proof -
  have "mset (rev (map demo_target supportedTargets)) = mset (m_Targets demo_manifest)"
    by (simp add: demo_manifest_def)
  moreover have "distinct (map mt_Triple (m_Targets demo_manifest))"
    using distinct_supported by (simp add: demo_manifest_def demo_target_def comp_def)
  ultimately show ?thesis
    using canonical_stable [of "rev (map demo_target supportedTargets)" demo_manifest] by simp
qed

definition demo_of_path :: "string \<Rightarrow> ManifestTarget" where
  "demo_of_path p = (case find (\<lambda>t. str_contains p (Triple t)) supportedTargets of
     Some t \<Rightarrow> demo_target t | None \<Rightarrow> demo_target (supportedTargets ! 0))"

definition demo_smoke :: "string \<Rightarrow> NativeSmokeResult" where
  "demo_smoke p = (initial_result demo_io ''/codex'' (supportedTargets ! 0) DefaultRuntimeVersion None '''')
     \<lparr>ns_TargetTriple := mt_Triple (demo_of_path p)\<rparr>"

definition demo_world :: world where
  "demo_world = \<lparr>w_ReadFile = (\<lambda>p. if hasSuffix p ''.tgz'' then Inr ''archive'' else Inr p), w_Do = (\<lambda>u. Inl io_EOF),
     w_Manifest = (\<lambda>d. Inr demo_manifest),
     w_Envelope = (\<lambda>d. Inr \<lparr>se_KeyID = ''k'', se_Algorithm = ''ed25519'', se_Signature = ''s''\<rparr>),
     w_decode64 = Inr, w_Parse = (\<lambda>u. Inl io_EOF), w_sanitizeURL = (\<lambda>u. u), w_CreateTemp = Inl io_EOF,
     w_WriteFile = (\<lambda>p d. None)\<rparr>"

definition demo_release :: release_env where
  "demo_release = \<lparr>rv_world = demo_world, rv_verify = (\<lambda>k m s. True), rv_roots = [(''k'', ''p'')], rv_sha = (\<lambda>d. demo_sha),
     rv_walk = (\<lambda>root. Inr (''a.tgz'' # map (\<lambda>t. Triple t @ ''/evidence/record.json'') supportedTargets)),
     rv_glob = (\<lambda>p. Inr (replicate 8 ''f.json'')), rv_record = (\<lambda>d. Inr (demo_of_path d)),
     rv_smoke = (\<lambda>d. Inr (demo_smoke d)),
     rv_stress = (\<lambda>d. Inr \<lparr>ss_DurationSeconds = 0, ss_Iterations = 0, ss_Commands = [], ss_FuzzTarget = ''f'', ss_FuzzTime = ''10m'',
       ss_Package = ''p''\<rparr>),
     rv_ci = (\<lambda>d. Inr \<lparr>ce_WorkflowName = '''', ce_WorkflowRunURL = '''', ce_WorkflowRunID = '''', ce_Commit = ''c'', ce_GoVersion = ''go'',
       ce_Commands = [], ce_StaticAnalyzer = '''', ce_RequiredRuntimeWorkflows = []\<rparr>),
     rv_coverage = (\<lambda>d. Inr []), rv_jobs = (\<lambda>d. Inr []),
     rv_lock = (\<lambda>d. Inr \<lparr>rl_Commit = ''c'', rl_RuntimeVersion = DefaultRuntimeVersion, rl_SchemaSHA256 = ''''\<rparr>),
     rv_strings = (\<lambda>d. Inr []), rv_go_version = Inr ''go'', rv_repo_root = ''/r''\<rparr>"

definition demo_config :: releaseEvidenceConfig where
  "demo_config = \<lparr>rc_Output = ''o'', rc_Tag = ''v1'', rc_ReleaseWorkflowURL = '''', rc_CIEvidence = ''ci'', rc_CoverageEvidence = ''cov'', rc_CIJobs = '''',
     rc_RuntimeTestsRunID = '''', rc_RuntimeTestsRunURL = '''', rc_StressRunID = '''', rc_StressRunURL = '''',
     rc_StressEvidenceDir = ''s'', rc_RuntimeNativeRunID = '''', rc_RuntimeNativeRunURL = '''', rc_RuntimeNativeJobs = ''jobs'',
     rc_RuntimeBundleDir = ''b'', rc_RuntimeManifest = ''m'', rc_RuntimeManifestSig = ''sig'', rc_ProtocolManifest = ''p'',
     rc_ReferenceLock = ''lock'', rc_KnownLimitationsJSON = ''''\<rparr>"

lemma demo_valid: "Validate demo_manifest = None"
proof -
  have "is_sha256 demo_sha" "demo_sha \<noteq> ''''"
    by (simp_all add: is_sha256_def demo_sha_def is_hex_def list_all_iff Let_def)
  moreover have "isl (NormalizeRuntimeVersion DefaultRuntimeVersion) = False" by code_simp
  ultimately show ?thesis
    by (auto simp: Validate_def demo_manifest_def demo_target_def supportedTargets_def target_spec_def
        LookupTargetByTriple_def validate_target_def valid_path_def trimPrefix_def hasPrefix_def Let_def isl_def split: sum.split)
qed

lemma demo_record_file:
  "list_all (\<lambda>t. findTargetFile demo_release ''b'' (Triple t) ''record.json'' = Inr (Triple t @ ''/evidence/record.json'')) supportedTargets"
  by code_simp

lemma demo_evidence_file:
  "list_all (\<lambda>t. findTargetEvidence demo_release ''b'' (Triple t) = Inr (Triple t @ ''/evidence/record.json'')) supportedTargets"
  by code_simp

lemma demo_archive: "findArchive demo_release ''b'' ''a.tgz'' = Inr ''a.tgz''"
  by code_simp

lemma demo_paths:
  "list_all (\<lambda>t. demo_of_path (Triple t @ ''/evidence/record.json'') = demo_target t \<and>
     \<not> hasSuffix (Triple t @ ''/evidence/record.json'') ''.tgz'') supportedTargets"
  by code_simp

lemma demo_row:
  assumes "t \<in> set supportedTargets" "Triple t \<notin> set seen"
  shows "\<exists>row. target_evidence demo_release ''b'' msha urls seen (demo_target t) = Inr row"
proof -
  have found: "findTargetFile demo_release ''b'' (Triple t) ''record.json'' = Inr (Triple t @ ''/evidence/record.json'')"
    "findTargetEvidence demo_release ''b'' (Triple t) = Inr (Triple t @ ''/evidence/record.json'')"
    "demo_of_path (Triple t @ ''/evidence/record.json'') = demo_target t"
    "\<not> hasSuffix (Triple t @ ''/evidence/record.json'') ''.tgz''"
    using demo_record_file demo_evidence_file demo_paths assms(1) by (auto simp: list_all_iff)
  let ?p = "Triple t @ ''/evidence/record.json''"
  have size: "fileSHA256AndSize demo_release ''a.tgz'' = Inr (demo_sha, 7)" by code_simp
  have rec: "readJSON demo_release (rv_record demo_release) ?p = Inr (demo_target t)"
    and smoke: "readJSON demo_release (rv_smoke demo_release) ?p = Inr (demo_smoke ?p)"
    using found(3,4) by (simp_all add: readJSON_def demo_release_def demo_world_def)
  have triple: "ns_TargetTriple (demo_smoke ?p) = Triple t" "mt_Triple (demo_target t) = Triple t"
    "mt_ArchiveName (demo_target t) = ''a.tgz''" "mt_ArchiveSHA256 (demo_target t) = demo_sha" "mt_ArchiveSize (demo_target t) = 7"
    by (simp_all add: demo_smoke_def found(3)) (simp_all add: demo_target_def)
  show ?thesis
    using assms(2) by (simp add: target_evidence_def triple found(1,2) demo_archive rec smoke size)
qed

lemma demo_loop:
  "set ts \<subseteq> set supportedTargets \<Longrightarrow> distinct (map Triple ts) \<Longrightarrow> set (map Triple ts) \<inter> set seen = {} \<Longrightarrow>
     \<exists>rows. evidence_loop demo_release ''b'' msha urls seen (map demo_target ts) = Inr rows \<and> length rows = length ts"
proof (induction ts arbitrary: seen)
  case (Cons t ts)
  obtain row where row: "target_evidence demo_release ''b'' msha urls seen (demo_target t) = Inr row"
    using demo_row [of t seen msha urls] Cons.prems by auto
  moreover obtain rows where "evidence_loop demo_release ''b'' msha urls (Triple t # seen) (map demo_target ts) = Inr rows"
    "length rows = length ts"
    using Cons.IH [of "Triple t # seen"] Cons.prems by auto
  moreover have "mt_Triple (demo_target t) = Triple t" by (simp add: demo_target_def)
  ultimately show ?case
    by (auto simp: then_do_def)
qed simp

lemma demo_collect: "\<exists>r. collectRuntimeEvidence demo_release ''b'' (sort_manifest demo_manifest) msha jobs = Inr r"
proof -
  let ?ts = "sort_key Triple supportedTargets"
  have files: "(demo_target t)\<lparr>mt_Files := sort_key mf_Path (mt_Files (demo_target t))\<rparr> = demo_target t" for t
    by (simp add: demo_target_def)
  have "sort_key mt_Triple (map demo_target supportedTargets) = map demo_target ?ts"
    by (simp add: sort_key_map demo_target_def comp_def)
  then have targets: "m_Targets (sort_manifest demo_manifest) = map demo_target ?ts"
    by (simp add: sort_manifest_def demo_manifest_def files comp_def)
  have "distinct (map Triple ?ts)"
    using distinct_supported by (metis distinct_sort map_sort_key)
  then obtain rows where "evidence_loop demo_release ''b'' msha (mapJobURLs jobs) [] (map demo_target ?ts) = Inr rows"
    "length rows = length supportedTargets"
    using demo_loop [of ?ts "[]" msha "mapJobURLs jobs"] by auto
  then show ?thesis
    by (simp add: collectRuntimeEvidence_def targets)
qed

lemma demo_stress: "isl (loadStressSummaries demo_release ''s'') = False"
  by code_simp

theorem release_evidence_complete_witness:
  "\<exists>b. release_evidence demo_release demo_config = Inr b \<and>
     map tm_TargetTriple (rb_CompletedMatrix b) = sort (map Triple supportedTargets) \<and>
     length (rb_Artifacts b) = length supportedTargets"
proof -
  obtain stress where stress: "loadStressSummaries demo_release ''s'' = Inr stress"
    using demo_stress by (cases "loadStressSummaries demo_release ''s''") auto
  obtain a p x where collect: "collectRuntimeEvidence demo_release ''b'' (sort_manifest demo_manifest)
      (rv_sha demo_release (snd (CanonicalBytes demo_manifest))) [] = Inr (a, p, x)"
    using demo_collect by (metis prod_cases3)
  have "\<not> hasSuffix q ''.tgz''" if "q \<in> {''ci'', ''cov'', ''jobs'', ''lock'', ''m'', ''sig''}" for q
    using that by (auto simp: hasSuffix_def hasPrefix_def)
  then have reads: "w_ReadFile (rv_world demo_release) q = Inr q" if "q \<in> {''ci'', ''cov'', ''jobs'', ''lock'', ''m'', ''sig''}" for q
    using that by (simp add: demo_release_def demo_world_def)
  obtain h where hash: "hashPaths demo_release [path_Join [rv_repo_root demo_release, ''cmd'', ''codex-sdk-gen'', ''main.go''],
      path_Join [rv_repo_root demo_release, ''cmd'', ''codex-sdk-gen'', ''protocolgen.go'']] = Inr h"
    by (auto simp: hashPaths_def demo_release_def demo_world_def)
  have inputs: "\<exists>v. readJSON demo_release (rv_ci demo_release) ''ci'' = Inr v"
    "\<exists>v. readJSON demo_release (rv_coverage demo_release) ''cov'' = Inr v"
    "readJSON demo_release (rv_jobs demo_release) ''jobs'' = Inr []"
    "\<exists>v. readJSON demo_release (rv_lock demo_release) ''lock'' = Inr v \<and> rl_RuntimeVersion v = m_RuntimeVersion demo_manifest"
    by (simp_all add: readJSON_def reads) (simp_all add: demo_release_def demo_manifest_def)
  have load: "LoadManifest (rv_world demo_release) ''m'' = Inr (demo_manifest, ''m'')"
    by (simp add: LoadManifest_def reads, simp add: demo_release_def demo_world_def demo_valid)
  have sig: "\<exists>v. LoadSignatureEnvelope (rv_world demo_release) ''sig'' = Inr v \<and>
      VerifyManifestSignature (rv_verify demo_release) (w_decode64 (rv_world demo_release)) ''m'' v (rv_roots demo_release) = None"
    by (simp add: LoadSignatureEnvelope_def reads) (simp add: demo_release_def demo_world_def VerifyManifestSignature_def)
  have build: "\<exists>b. buildBundle demo_release demo_config ci coverage [] lock demo_manifest envelope = Inr b" for ci coverage lock envelope
    using hash stress collect by (simp add: buildBundle_def demo_config_def CanonicalBytes_def)
  have "\<not> missing_flags demo_config"
    by (simp add: missing_flags_def demo_config_def)
  then obtain b where b: "release_evidence demo_release demo_config = Inr b"
    using inputs load sig build by (fastforce simp: release_evidence_def demo_config_def [THEN arg_cong, of rc_CIEvidence]
        demo_config_def [THEN arg_cong, of rc_CoverageEvidence] demo_config_def [THEN arg_cong, of rc_RuntimeNativeJobs]
        demo_config_def [THEN arg_cong, of rc_ReferenceLock] demo_config_def [THEN arg_cong, of rc_RuntimeManifest]
        demo_config_def [THEN arg_cong, of rc_RuntimeManifestSig])
  then show ?thesis
    using release_evidence_complete [OF b] by blast
qed

end
