(* ===== verification/Repack.thy ===== *)
theory Repack
  imports Release_Evidence
begin

text \<open>
  The rest of \<open>internal/runtimebin/repack.go\<close>: fetching the upstream archive, staging it, writing the
  licence, the notice, the SBOM, the provenance and the signature evidence beside it, and packaging
  the stage directory. The clock, the temporary names, the decoding of an archive file and the
  relative paths in use on the disk, from which a directory is walked, are arguments (\<open>repack_env\<close>).
\<close>

section \<open>Options\<close>

definition DefaultUpstreamRepo :: string where
  "DefaultUpstreamRepo = ''openai/codex''"

definition DefaultMaxArchiveBytes :: int where
  "DefaultMaxArchiveBytes = 256 * 2 ^ 20"

record RepackOptions =
  rp_SDKVersion :: string
  rp_RuntimeVersion :: string
  rp_Target :: TargetSpec
  rp_UpstreamArchive :: string
  rp_DownloadUpstream :: bool
  rp_UpstreamBaseURL :: string
  rp_StageDir :: string
  rp_OutputArchive :: string
  rp_LicensePath :: string
  rp_NoticePath :: string
  rp_SBOMPath :: string
  rp_ProvenancePath :: string
  rp_NativeSignPath :: string

record repack_env =
  pk_world :: world
  pk_sha :: "string \<Rightarrow> string"
  pk_archive :: "string \<Rightarrow> archive"
  pk_seal :: "tar_entry list \<Rightarrow> archive"
  pk_now :: string
  pk_host :: host
  pk_tool :: "string \<Rightarrow> string \<times> bool"
  pk_stage_temp :: "go_error + string"
  pk_download_temp :: "go_error + string"
  pk_names :: "string list"

section \<open>Files of a stage directory\<close>

definition licenseFileName :: string where "licenseFileName = ''LICENSE''"
definition noticeFileName :: string where "noticeFileName = ''NOTICE''"
definition sbomFileName :: string where "sbomFileName = ''sbom.spdx.json''"
definition provenanceFileName :: string where "provenanceFileName = ''provenance.json''"
definition nativeSignaturesFileName :: string where "nativeSignaturesFileName = ''native-signatures.json''"

text \<open>\<open>filepath.WalkDir\<close> of the stage directory: the files among the relative paths in use.\<close>

definition stage_files :: "string list \<Rightarrow> string \<Rightarrow> fs \<Rightarrow> package_dir" where
  "stage_files names dir f = concat (map (\<lambda>p. case f (path_Join [dir, p]) of
     Some (FileNode d m) \<Rightarrow> [(p, d, m)] | _ \<Rightarrow> []) (sort (remdups names)))"

text \<open>\<open>copyFile\<close> opens the source before it makes the directory of the destination.\<close>

definition copy_into :: "string \<Rightarrow> string \<Rightarrow> fs \<Rightarrow> fs \<times> go_error option" where
  "copy_into dest source f =
    (case ReadFile source f of
       Inl e \<Rightarrow> (f, Some e)
     | Inr d \<Rightarrow>
        (case MkdirAll (path_Dir dest) f of
           Inl e \<Rightarrow> (f, Some e)
         | Inr f1 \<Rightarrow> (case WriteFile dest d f1 of Inl e \<Rightarrow> (f1, Some e) | Inr f2 \<Rightarrow> (f2, None))))"

definition put_file :: "string \<Rightarrow> string \<Rightarrow> fs \<Rightarrow> fs \<times> go_error option" where
  "put_file dest d f = (case WriteFile dest d f of Inl e \<Rightarrow> (f, Some e) | Inr f1 \<Rightarrow> (f1, None))"

definition writeJSONFile :: "string \<Rightarrow> json \<Rightarrow> fs \<Rightarrow> fs \<times> go_error option" where
  "writeJSONFile path v f = put_file path (marshalPretty v) f"

definition copyOrDefaultLicense :: "string \<Rightarrow> string \<Rightarrow> fs \<Rightarrow> fs \<times> go_error option" where
  "copyOrDefaultLicense stageDir source f =
    (let dest = path_Join [stageDir, licenseFileName]
     in if source \<noteq> '''' then copy_into dest source f
        else if f ''LICENSE'' \<noteq> None then copy_into dest ''LICENSE'' f
        else put_file dest (''Runtime packaging license material not provided.'' @ [CHR 0x0A]) f)"

definition notice_text :: "RepackOptions \<Rightarrow> string \<Rightarrow> string" where
  "notice_text opts tag =
     ''Codex SDK Go runtime package'' @ [CHR 0x0A, CHR 0x0A] @
     ''SDK version: '' @ rp_SDKVersion opts @ [CHR 0x0A] @
     ''Runtime version: '' @ rp_RuntimeVersion opts @ [CHR 0x0A] @
     ''Upstream: '' @ DefaultUpstreamRepo @ '' '' @ tag @ [CHR 0x0A] @
     ''Asset: '' @ UpstreamAsset (rp_Target opts) @ [CHR 0x0A]"

definition copyOrGeneratedNotice :: "string \<Rightarrow> RepackOptions \<Rightarrow> fs \<Rightarrow> fs \<times> go_error option" where
  "copyOrGeneratedNotice stageDir opts f =
    (let dest = path_Join [stageDir, noticeFileName]
     in if rp_NoticePath opts \<noteq> '''' then copy_into dest (rp_NoticePath opts) f
        else case ReleaseTagForVersion (rp_RuntimeVersion opts) of
            Inl e \<Rightarrow> (f, Some e)
          | Inr tag \<Rightarrow> put_file dest (notice_text opts tag) f)"

definition sbom_json :: "repack_env \<Rightarrow> RepackOptions \<Rightarrow> ManifestFile list \<Rightarrow> json" where
  "sbom_json env opts files = JObj
     [(''SPDXID'', JStr ''SPDXRef-DOCUMENT''),
      (''creationInfo'', JObj [(''created'', JStr (pk_now env)), (''creators'', json_strings [''Tool: codex-sdk-runtime''])]),
      (''dataLicense'', JStr ''CC0-1.0''),
      (''files'', JArr (map (\<lambda>x. JObj [(''fileName'', JStr (mf_Path x)), (''sha256'', JStr (mf_SHA256 x))])
        (filter (\<lambda>x. mf_Path x \<noteq> sbomFileName) files))),
      (''name'', JStr (''codex-sdk-go-runtime-'' @ rp_RuntimeVersion opts @ ''-'' @ Triple (rp_Target opts))),
      (''spdxVersion'', JStr ''SPDX-2.3'')]"

definition writeSBOM :: "repack_env \<Rightarrow> string \<Rightarrow> RepackOptions \<Rightarrow> fs \<Rightarrow> fs \<times> go_error option" where
  "writeSBOM env stageDir opts f =
    (case collectPackageFiles (pk_sha env) (stage_files (pk_names env) stageDir f) of
       Inl e \<Rightarrow> (f, Some e)
     | Inr files \<Rightarrow> writeJSONFile (path_Join [stageDir, sbomFileName]) (sbom_json env opts files) f)"

definition provenance_json :: "repack_env \<Rightarrow> RepackOptions \<Rightarrow> string \<Rightarrow> string \<Rightarrow> int \<Rightarrow> string list \<Rightarrow> json" where
  "provenance_json env opts tag upstreamSHA upstreamSize stageFiles = JObj
     [(''generatedAt'', JStr (pk_now env)), (''sdkVersion'', JStr (rp_SDKVersion opts)),
      (''runtimeVersion'', JStr (rp_RuntimeVersion opts)), (''target'', JStr (Triple (rp_Target opts))),
      (''upstreamRepo'', JStr DefaultUpstreamRepo), (''upstreamTag'', JStr tag),
      (''upstreamAsset'', JStr (UpstreamAsset (rp_Target opts))), (''upstreamArchiveSha256'', JStr upstreamSHA),
      (''upstreamArchiveSize'', JNum (show_int upstreamSize)), (''stageFiles'', json_strings stageFiles)]"

definition writeProvenance :: "repack_env \<Rightarrow> string \<Rightarrow> RepackOptions \<Rightarrow> string \<Rightarrow> int \<Rightarrow> fs \<Rightarrow> fs \<times> go_error option" where
  "writeProvenance env stageDir opts upstreamSHA upstreamSize f =
    (case ReleaseTagForVersion (rp_RuntimeVersion opts) of
       Inl e \<Rightarrow> (f, Some e)
     | Inr tag \<Rightarrow>
        (case collectPackageFiles (pk_sha env) (stage_files (pk_names env) stageDir f) of
           Inl e \<Rightarrow> (f, Some e)
         | Inr files \<Rightarrow> writeJSONFile (path_Join [stageDir, provenanceFileName])
             (provenance_json env opts tag upstreamSHA upstreamSize (sort (map mf_Path files))) f))"

text \<open>Fields tagged \<open>omitempty\<close> are left out when zero.\<close>

definition signature_json :: "SignatureRecord \<Rightarrow> json" where
  "signature_json r = JObj ([(''path'', JStr (sr_Path r))] @
     opt_member (sr_Tool r \<noteq> '''') (''tool'', JStr (sr_Tool r)) @
     opt_member (sr_Subject r \<noteq> '''') (''subject'', JStr (sr_Subject r)) @
     [(''status'', JStr (sr_Status r))] @ opt_member (sr_Raw r \<noteq> '''') (''raw'', JStr (sr_Raw r)))"

definition evidence_json :: "NativeSignatureEvidence \<Rightarrow> json" where
  "evidence_json e = JObj ([(''available'', JBool (nse_Available e)), (''verified'', JBool (nse_Verified e))] @
     opt_member (nse_Reason e \<noteq> '''') (''reason'', JStr (nse_Reason e)) @
     opt_member (nse_Files e \<noteq> []) (''files'', JArr (map signature_json (nse_Files e))))"

section \<open>The evidence beside the files\<close>

text \<open>A step on the file system and, when it reports no error, the next one.\<close>

definition and_then :: "(fs \<Rightarrow> fs \<times> go_error option) \<Rightarrow> (fs \<Rightarrow> fs \<times> go_error option) \<Rightarrow> fs \<Rightarrow> fs \<times> go_error option" where
  "and_then s t f = (case s f of (f1, Some e) \<Rightarrow> (f1, Some e) | (f1, None) \<Rightarrow> t f1)"

definition writeReleaseEvidence :: "repack_env \<Rightarrow> string \<Rightarrow> RepackOptions \<Rightarrow> string \<Rightarrow> int \<Rightarrow> fs \<Rightarrow> fs \<times> go_error option" where
  "writeReleaseEvidence env stageDir opts upstreamSHA upstreamSize =
     and_then (copyOrDefaultLicense stageDir (rp_LicensePath opts))
    (and_then (copyOrGeneratedNotice stageDir opts)
    (and_then (if rp_SBOMPath opts \<noteq> '''' then copy_into (path_Join [stageDir, sbomFileName]) (rp_SBOMPath opts)
       else writeSBOM env stageDir opts)
    (and_then (if rp_ProvenancePath opts \<noteq> '''' then copy_into (path_Join [stageDir, provenanceFileName]) (rp_ProvenancePath opts)
       else writeProvenance env stageDir opts upstreamSHA upstreamSize)
     (if rp_NativeSignPath opts \<noteq> '''' then copy_into (path_Join [stageDir, nativeSignaturesFileName]) (rp_NativeSignPath opts)
      else writeJSONFile (path_Join [stageDir, nativeSignaturesFileName])
        (evidence_json (CollectNativeSignatureEvidence (pk_host env) (pk_tool env) stageDir (rp_Target opts)))))))"

section \<open>Repacking\<close>

definition upstream_url :: "RepackOptions \<Rightarrow> go_error + string" where
  "upstream_url opts =
     then_do (ReleaseTagForVersion (rp_RuntimeVersion opts)) (\<lambda>tag.
       (let given = trimRightSlash (rp_UpstreamBaseURL opts);
            baseURL = (if given = '''' then ''https://github.com/'' @ DefaultUpstreamRepo @ ''/releases/download/'' @ tag else given)
        in if \<not> hasPrefix baseURL ''https://'' then Inl (Text ''runtimebin: upstream base URL must use https'')
           else Inr (baseURL @ ''/'' @ UpstreamAsset (rp_Target opts))))"

text \<open>The downloaded archive is written to a temporary file, which the caller removes.\<close>

definition DownloadUpstreamArchive :: "repack_env \<Rightarrow> RepackOptions \<Rightarrow> fs \<Rightarrow> fs \<times> (go_error + string)" where
  "DownloadUpstreamArchive env opts f =
    (case then_do (upstream_url opts) (\<lambda>url. downloadURL (pk_world env) url DefaultMaxArchiveBytes) of
       Inl e \<Rightarrow> (f, Inl e)
     | Inr content \<Rightarrow>
        (case pk_download_temp env of
           Inl e \<Rightarrow> (f, Inl e)
         | Inr tmp \<Rightarrow> (f(tmp \<mapsto> FileNode content 384), Inr tmp)))"

definition with_defaults :: "RepackOptions \<Rightarrow> RepackOptions" where
  "with_defaults opts = opts\<lparr>rp_SDKVersion := orDefault (rp_SDKVersion opts) DefaultSDKVersion,
     rp_RuntimeVersion := orDefault (rp_RuntimeVersion opts) DefaultRuntimeVersion\<rparr>"

definition repack_staged :: "repack_env \<Rightarrow> RepackOptions \<Rightarrow> string \<Rightarrow> string \<Rightarrow> fs \<Rightarrow> fs \<times> (go_error + archive \<times> ManifestTarget)" where
  "repack_staged env opts upstreamArchive stageDir f =
    (case ReadFile upstreamArchive f of
       Inl e \<Rightarrow> (f, Inl e)
     | Inr content \<Rightarrow>
        (let upstreamSHA = pk_sha env content; upstreamSize = int (length content)
         in case and_then (stageUpstreamArchive (pk_archive env content) stageDir (rp_Target opts))
                (writeReleaseEvidence env stageDir opts upstreamSHA upstreamSize) f of
              (f1, Some e) \<Rightarrow> (f1, Inl e)
            | (f1, None) \<Rightarrow> (f1, PackageArchive (pk_sha env) (pk_seal env) (path_Base (rp_OutputArchive opts)) (rp_Target opts)
                upstreamSHA upstreamSize (stage_files (pk_names env) stageDir f1))))"

text \<open>The deferred clean-up: a temporary stage directory and a downloaded archive are removed.\<close>

definition RepackRuntime :: "repack_env \<Rightarrow> RepackOptions \<Rightarrow> fs \<Rightarrow> fs \<times> (go_error + archive \<times> ManifestTarget)" where
  "RepackRuntime env opts0 f =
    (let opts = with_defaults opts0;
         download = (rp_UpstreamArchive opts = '''' \<or> rp_DownloadUpstream opts)
     in case (if download then DownloadUpstreamArchive env opts f else (f, Inr (rp_UpstreamArchive opts))) of
          (f1, Inl e) \<Rightarrow> (f1, Inl e)
        | (f1, Inr upstreamArchive) \<Rightarrow>
           (let drop_download = (\<lambda>g :: fs. if download then g(upstreamArchive := None) else g)
            in if rp_StageDir opts \<noteq> ''''
               then (case repack_staged env opts upstreamArchive (rp_StageDir opts) f1 of (f2, r) \<Rightarrow> (drop_download f2, r))
               else (case pk_stage_temp env of
                   Inl e \<Rightarrow> (drop_download f1, Inl e)
                 | Inr stageDir \<Rightarrow>
                    (case repack_staged env opts upstreamArchive stageDir (f1(stageDir \<mapsto> DirNode)) of
                       (f2, r) \<Rightarrow> (drop_download (RemoveAll stageDir f2), r)))))"

end
