(* ===== verification/Repack_Props.thy ===== *)
theory Repack_Props
  imports Repack Runtimebin_Props
begin

text \<open>
  What a repacked runtime holds: every file expected of the upstream archive and the evidence files,
  each with its role. The steps before packaging only add files, so what an early step writes is
  still there when the stage directory is packaged.
\<close>

section \<open>Files that stay\<close>

definition is_file :: "fs \<Rightarrow> string \<Rightarrow> bool" where
  "is_file f p \<longleftrightarrow> (\<exists>d m. f p = Some (FileNode d m))"

definition keeps_files :: "fs \<Rightarrow> fs \<Rightarrow> bool" where
  "keeps_files f g \<longleftrightarrow> (\<forall>p. is_file f p \<longrightarrow> is_file g p)"

named_theorems keeping

lemma keeps_files_refl [keeping]: "keeps_files f f"
  by (simp add: keeps_files_def)

lemma keeps_files_trans: "keeps_files f g \<Longrightarrow> keeps_files g h \<Longrightarrow> keeps_files f h"
  by (simp add: keeps_files_def)

lemma keeps_files_MkdirAll [keeping]: "MkdirAll p f = Inr g \<Longrightarrow> keeps_files f g"
  by (auto simp: keeps_files_def is_file_def dest!: MkdirAll_Inr)

lemma keeps_files_WriteFile [keeping]: "WriteFile p d f = Inr g \<Longrightarrow> keeps_files f g"
  by (auto simp: keeps_files_def is_file_def WriteFile_def split: option.splits node.splits if_splits)

lemma WriteFile_is_file: "WriteFile p d f = Inr g \<Longrightarrow> is_file g p"
  by (auto simp: is_file_def WriteFile_def split: option.splits node.splits if_splits)

lemma stage_entries_files:
  "stage_entries dir expected es seen f = (g, Inr seen') \<Longrightarrow> \<forall>p\<in>set seen. is_file f (path_Join [dir, p]) \<Longrightarrow>
     keeps_files f g \<and> (\<forall>p\<in>set seen'. is_file g (path_Join [dir, p]))"
proof (induction dir expected es seen f rule: stage_entries.induct)
  case (1 dir expected seen f)
  then show ?case by (auto simp: keeping)
next
  case (2 dir expected e es seen f)
  show ?case
  proof (cases "te_Type e = TypeDir")
    case True
    then show ?thesis using 2 by simp
  next
    case False
    from "2.prems"(1) False obtain rel f1 where step: "te_Type e = TypeReg" "safeArchivePath (te_Name e) = Some rel"
      "rel \<in> set expected" "MkdirAll (path_Dir (path_Join [dir, rel])) f = Inr f1" "f1 (path_Join [dir, rel]) = None"
      "stage_entries dir expected es (rel # seen) (f1(path_Join [dir, rel] \<mapsto> FileNode (te_Data e) (te_Mode e))) = (g, Inr seen')"
      by (auto simp: Let_def split: if_splits option.splits sum.splits)
    let ?g = "f1(path_Join [dir, rel] \<mapsto> FileNode (te_Data e) (te_Mode e))"
    have k: "keeps_files f ?g"
      using keeps_files_MkdirAll [OF step(4)] by (auto simp: keeps_files_def is_file_def)
    then have "\<forall>p\<in>set (rel # seen). is_file ?g (path_Join [dir, p])"
      using "2.prems"(2) by (auto simp: keeps_files_def is_file_def)
    then show ?thesis
      using "2.IH"(2) [OF False _ step(2) _ refl step(4)] step(1,3,5,6) keeps_files_trans [OF k]
      by (simp add: fun_upd_def)
  qed
qed

lemma stageUpstreamArchive_files:
  assumes "stageUpstreamArchive ar dir target f = (g, None)"
  shows "keeps_files f g" "p \<in> set (expectedUpstreamPaths target) \<Longrightarrow> is_file g (path_Join [dir, p])"
proof -
  obtain f0 seen where s: "MkdirAll dir f = Inr f0"
    "stage_entries dir (expectedUpstreamPaths target) (ar_Entries ar) [] f0 = (g, Inr seen)"
    "find (\<lambda>p. p \<notin> set seen) (expectedUpstreamPaths target) = None"
    using assms by (auto simp: stageUpstreamArchive_def split: sum.splits prod.splits option.splits)
  have "keeps_files f0 g" and seen: "\<forall>p\<in>set seen. is_file g (path_Join [dir, p])"
    using stage_entries_files [OF s(2)] by simp_all
  then show "keeps_files f g"
    using keeps_files_trans [OF keeps_files_MkdirAll [OF s(1)]] by blast
  show "is_file g (path_Join [dir, p])" if "p \<in> set (expectedUpstreamPaths target)"
    using seen s(3) that by (auto simp: find_None_iff)
qed

section \<open>The evidence files\<close>

text \<open>A step that, when it succeeds, keeps the files there are and leaves one at \<open>p\<close>.\<close>

definition writes :: "string \<Rightarrow> (fs \<Rightarrow> fs \<times> go_error option) \<Rightarrow> bool" where
  "writes p s \<longleftrightarrow> (\<forall>f g. s f = (g, None) \<longrightarrow> keeps_files f g \<and> is_file g p)"

lemma writesI: "(\<And>f g. s f = (g, None) \<Longrightarrow> keeps_files f g \<and> is_file g p) \<Longrightarrow> writes p s"
  by (simp add: writes_def)

lemma writesD: "writes p s \<Longrightarrow> s f = (g, None) \<Longrightarrow> keeps_files f g \<and> is_file g p"
  by (simp add: writes_def)

lemma writes_if: "writes p s \<Longrightarrow> writes p t \<Longrightarrow> writes p (if c then s else t)"
  by simp

lemma put_file_writes: "writes p (put_file p d)"
  by (rule writesI) (auto simp: put_file_def intro: keeping WriteFile_is_file split: sum.splits)

lemma copy_into_writes: "writes p (copy_into p source)"
proof (rule writesI)
  fix f g assume "copy_into p source f = (g, None)"
  then obtain d f1 where "MkdirAll (path_Dir p) f = Inr f1" "WriteFile p d f1 = Inr g"
    by (auto simp: copy_into_def split: sum.splits)
  then show "keeps_files f g \<and> is_file g p"
    by (meson WriteFile_is_file keeps_files_MkdirAll keeps_files_WriteFile keeps_files_trans)
qed

lemma writes_guarded:
  assumes "\<And>f g. s f = (g, None) \<Longrightarrow> \<exists>t. writes p t \<and> t f = (g, None)"
  shows "writes p s"
  using assms by (auto simp: writes_def)

lemma evidence_writes:
  "writes (path_Join [dir, licenseFileName]) (copyOrDefaultLicense dir source)"
  "writes (path_Join [dir, noticeFileName]) (copyOrGeneratedNotice dir opts)"
  "writes (path_Join [dir, sbomFileName]) (writeSBOM env dir opts)"
  "writes (path_Join [dir, provenanceFileName]) (writeProvenance env dir opts upSHA upSize)"
  "writes p (writeJSONFile p v)"
  by (rule writes_guarded;
      auto simp: copyOrDefaultLicense_def copyOrGeneratedNotice_def writeSBOM_def writeProvenance_def writeJSONFile_def Let_def
        intro: put_file_writes copy_into_writes split: if_splits sum.splits)+

lemma and_then_None:
  "and_then s t f = (g, None) \<longleftrightarrow> (\<exists>f1. s f = (f1, None) \<and> t f1 = (g, None))"
  by (auto simp: and_then_def split: prod.splits option.splits)

definition evidence_names :: "string list" where
  "evidence_names = [licenseFileName, noticeFileName, sbomFileName, provenanceFileName, nativeSignaturesFileName]"

lemma writeReleaseEvidence_files:
  assumes "writeReleaseEvidence env dir opts upSHA upSize f = (g, None)"
  shows "keeps_files f g" "p \<in> set evidence_names \<Longrightarrow> is_file g (path_Join [dir, p])"
proof -
  let ?p = "\<lambda>n. path_Join [dir, n]"
  obtain f1 f2 f3 f4 where s: "copyOrDefaultLicense dir (rp_LicensePath opts) f = (f1, None)"
    "copyOrGeneratedNotice dir opts f1 = (f2, None)"
    "(if rp_SBOMPath opts \<noteq> '''' then copy_into (?p sbomFileName) (rp_SBOMPath opts) else writeSBOM env dir opts) f2 = (f3, None)"
    "(if rp_ProvenancePath opts \<noteq> '''' then copy_into (?p provenanceFileName) (rp_ProvenancePath opts)
      else writeProvenance env dir opts upSHA upSize) f3 = (f4, None)"
    "(if rp_NativeSignPath opts \<noteq> '''' then copy_into (?p nativeSignaturesFileName) (rp_NativeSignPath opts)
      else writeJSONFile (?p nativeSignaturesFileName)
        (evidence_json (CollectNativeSignatureEvidence (pk_host env) (pk_tool env) dir (rp_Target opts)))) f4 = (g, None)"
    using assms unfolding writeReleaseEvidence_def and_then_None by blast
  note w = writesD [OF evidence_writes(1) s(1)] writesD [OF evidence_writes(2) s(2)]
    writesD [OF writes_if [OF copy_into_writes evidence_writes(3)] s(3)]
    writesD [OF writes_if [OF copy_into_writes evidence_writes(4)] s(4)]
    writesD [OF writes_if [OF copy_into_writes evidence_writes(5)] s(5)]
  show "keeps_files f g" "p \<in> set evidence_names \<Longrightarrow> is_file g (?p p)"
    using w by (auto simp: keeps_files_def evidence_names_def)
qed

section \<open>The packaged record\<close>

lemma stage_files_paths:
  "map fst (stage_files names dir f) = filter (\<lambda>p. is_file f (path_Join [dir, p])) (sort (remdups names))"
proof -
  have "map fst (concat (map (\<lambda>p. case f (path_Join [dir, p]) of Some (FileNode d m) \<Rightarrow> [(p, d, m)] | _ \<Rightarrow> []) ps)) =
      filter (\<lambda>p. is_file f (path_Join [dir, p])) ps" for ps
    by (induction ps) (auto simp: is_file_def split: option.splits node.splits)
  then show ?thesis by (simp add: stage_files_def)
qed

text \<open>The bytes of the upstream archive: the given file, or what the download returns.\<close>

definition upstream_bytes :: "repack_env \<Rightarrow> RepackOptions \<Rightarrow> fs \<Rightarrow> go_error + string" where
  "upstream_bytes env opts f =
    (if rp_UpstreamArchive opts = '''' \<or> rp_DownloadUpstream opts
     then then_do (upstream_url (with_defaults opts)) (\<lambda>url. downloadURL (pk_world env) url DefaultMaxArchiveBytes)
     else ReadFile (rp_UpstreamArchive opts) f)"

definition required_files :: "TargetSpec \<Rightarrow> string set" where
  "required_files target = set (expectedUpstreamPaths target) \<union> set evidence_names"

lemma package_record:
  assumes "PackageArchive sha seal name target upSHA upSize dir = Inr (ar, rec)"
  shows "mt_Files rec = map (file_record sha) (sort_key fst dir)" "\<forall>x\<in>set (mt_Files rec). mf_Role x \<noteq> ''''"
    "mt_UpstreamArchiveSHA256 rec = upSHA" "mt_ArchiveSHA256 rec = ar_SHA ar" "mt_Triple rec = Triple target"
proof -
  obtain files where files: "collectPackageFiles sha dir = Inr files" and rec: "mt_Files rec = files"
    using assms by (auto simp: PackageArchive_def Let_def split: sum.splits)
  have roles: "collect_files sha xs = Inr fs \<Longrightarrow> \<forall>x\<in>set fs. mf_Role x \<noteq> ''''" for xs fs
    by (induction xs arbitrary: fs) (auto simp: package_file_def split: sum.splits if_splits)
  obtain fs where "collect_files sha dir = Inr fs" "files = sort_key mf_Path fs"
    using files by (auto simp: collectPackageFiles_def split: sum.splits)
  then show "\<forall>x\<in>set (mt_Files rec). mf_Role x \<noteq> ''''"
    using roles rec by simp
  show "mt_Files rec = map (file_record sha) (sort_key fst dir)"
    using collectPackageFiles_Inr [OF files] rec by simp
  show "mt_UpstreamArchiveSHA256 rec = upSHA" "mt_ArchiveSHA256 rec = ar_SHA ar" "mt_Triple rec = Triple target"
    using assms by (auto simp: PackageArchive_def Let_def split: sum.splits)
qed

lemma repack_staged_record:
  assumes "repack_staged env opts upstream dir f = (g, Inr (ar, rec))" "required_files (rp_Target opts) \<subseteq> set (pk_names env)"
  shows "required_files (rp_Target opts) \<subseteq> mf_Path ` set (mt_Files rec)"
    "sorted (map mf_Path (mt_Files rec)) \<and> distinct (map mf_Path (mt_Files rec))"
    "\<forall>x\<in>set (mt_Files rec). mf_Role x \<noteq> ''''"
    "\<exists>content. ReadFile upstream f = Inr content \<and> mt_UpstreamArchiveSHA256 rec = pk_sha env content"
    "mt_ArchiveSHA256 rec = ar_SHA ar \<and> mt_Triple rec = Triple (rp_Target opts)"
proof -
  let ?dir = "stage_files (pk_names env) dir"
  obtain content f1 where read: "ReadFile upstream f = Inr content"
    and stage: "stageUpstreamArchive (pk_archive env content) dir (rp_Target opts) f = (f1, None)"
    and evidence: "writeReleaseEvidence env dir opts (pk_sha env content) (int (length content)) f1 = (g, None)"
    and pack: "PackageArchive (pk_sha env) (pk_seal env) (path_Base (rp_OutputArchive opts)) (rp_Target opts)
      (pk_sha env content) (int (length content)) (?dir g) = Inr (ar, rec)"
    using assms(1)
    by (auto simp: repack_staged_def Let_def and_then_def split: sum.splits prod.splits option.splits)
  note rec = package_record [OF pack]
  have paths: "map mf_Path (mt_Files rec) = sort (map fst (?dir g))"
    using sort_key_map [of "\<lambda>x. x" fst "?dir g"] by (simp add: rec(1) comp_def)
  then show "sorted (map mf_Path (mt_Files rec)) \<and> distinct (map mf_Path (mt_Files rec))"
    by (simp add: stage_files_paths)
  have "is_file g (path_Join [dir, p])" if "p \<in> required_files (rp_Target opts)" for p
    using that stageUpstreamArchive_files(2) [OF stage, of p] writeReleaseEvidence_files [OF evidence]
    by (auto simp: required_files_def keeps_files_def)
  moreover have "mf_Path ` set (mt_Files rec) = set (map fst (?dir g))"
    using arg_cong [OF paths, of set] by simp
  ultimately show "required_files (rp_Target opts) \<subseteq> mf_Path ` set (mt_Files rec)"
    using assms(2) by (auto simp: stage_files_paths simp del: set_map)
  show "\<forall>x\<in>set (mt_Files rec). mf_Role x \<noteq> ''''"
    "\<exists>content. ReadFile upstream f = Inr content \<and> mt_UpstreamArchiveSHA256 rec = pk_sha env content"
    "mt_ArchiveSHA256 rec = ar_SHA ar \<and> mt_Triple rec = Triple (rp_Target opts)"
    using rec read by auto
qed

lemma RepackRuntime_staged:
  assumes "snd (RepackRuntime env opts f) = Inr (ar, rec)"
  obtains upstream dir g h where "repack_staged env (with_defaults opts) upstream dir g = (h, Inr (ar, rec))"
    "\<And>content. ReadFile upstream g = Inr content \<Longrightarrow> upstream_bytes env opts f = Inr content"
proof -
  let ?opts = "with_defaults opts"
  let ?download = "rp_UpstreamArchive opts = '''' \<or> rp_DownloadUpstream opts"
  have same: "rp_UpstreamArchive ?opts = rp_UpstreamArchive opts" "rp_DownloadUpstream ?opts = rp_DownloadUpstream opts"
    by (simp_all add: with_defaults_def)
  obtain f1 upstream where src: "(if ?download then DownloadUpstreamArchive env ?opts f else (f, Inr (rp_UpstreamArchive opts))) = (f1, Inr upstream)"
    and staged: "\<exists>dir h. repack_staged env ?opts upstream dir f1 = (h, Inr (ar, rec)) \<or>
      repack_staged env ?opts upstream dir (f1(dir \<mapsto> DirNode)) = (h, Inr (ar, rec))"
    using assms unfolding RepackRuntime_def Let_def same
    by (fastforce split: prod.splits sum.splits if_splits)
  have bytes: "upstream_bytes env opts f = Inr content" if "ReadFile upstream f1 = Inr content" for content
    using src that
    by (auto simp: upstream_bytes_def DownloadUpstreamArchive_def ReadFile_def split: if_splits sum.splits)
  have "ReadFile upstream f1 = Inr content" if "ReadFile upstream (f1(dir \<mapsto> DirNode)) = Inr content" for dir content
    using that by (auto simp: ReadFile_def split: if_splits)
  then show ?thesis
    using staged bytes that by blast
qed

text \<open>C22: A repacked runtime is complete. When repacking succeeds, the record lists every file expected
  of the upstream archive for the target and the licence, the notice, the SBOM, the provenance and
  the signature evidence; its files are in order of their paths, without duplicates, each with a
  role; and it names the hash of the upstream archive that was given or downloaded, the hash of the
  archive that was written, and the target. The names on the disk, by which the stage directory is
  walked, are supposed to include these files.\<close>

theorem repack_complete:
  assumes "snd (RepackRuntime env opts f) = Inr (ar, rec)" "required_files (rp_Target opts) \<subseteq> set (pk_names env)"
  shows "required_files (rp_Target opts) \<subseteq> mf_Path ` set (mt_Files rec) \<and>
    sorted (map mf_Path (mt_Files rec)) \<and> distinct (map mf_Path (mt_Files rec)) \<and>
    (\<forall>x\<in>set (mt_Files rec). mf_Role x \<noteq> '''') \<and>
    (\<exists>content. upstream_bytes env opts f = Inr content \<and> mt_UpstreamArchiveSHA256 rec = pk_sha env content) \<and>
    mt_ArchiveSHA256 rec = ar_SHA ar \<and> mt_Triple rec = Triple (rp_Target opts)"
proof -
  obtain upstream dir g h where staged: "repack_staged env (with_defaults opts) upstream dir g = (h, Inr (ar, rec))"
    and content: "\<And>content. ReadFile upstream g = Inr content \<Longrightarrow> upstream_bytes env opts f = Inr content"
    using RepackRuntime_staged [OF assms(1)] by blast
  have "rp_Target (with_defaults opts) = rp_Target opts" by (simp add: with_defaults_def)
  then show ?thesis
    using repack_staged_record [OF staged] assms(2) content by auto
qed

definition demo_repack_target :: TargetSpec where
  "demo_repack_target = target_spec ''darwin'' ''arm64'' ''aarch64-apple-darwin'' ''codex''"

definition demo_names :: "string list" where
  "demo_names = expectedUpstreamPaths demo_repack_target @ evidence_names"

definition offline :: world where
  "offline = \<lparr>w_ReadFile = (\<lambda>p. Inl not_exist), w_Do = (\<lambda>u. Inl io_EOF), w_Manifest = (\<lambda>d. Inl io_EOF),
     w_Envelope = (\<lambda>d. Inl io_EOF), w_decode64 = Inr, w_Parse = (\<lambda>u. Inl io_EOF), w_sanitizeURL = (\<lambda>u. u),
     w_CreateTemp = Inl io_EOF, w_WriteFile = (\<lambda>p d. None)\<rparr>"

definition demo_repack_env :: repack_env where
  "demo_repack_env = \<lparr>pk_world = offline, pk_sha = (\<lambda>s. ''h''),
     pk_archive = (\<lambda>_. demo_seal (map (\<lambda>p. file_entry (p, ''x'', 493)) (expectedUpstreamPaths demo_repack_target))),
     pk_seal = demo_seal, pk_now = ''now'', pk_host = OtherHost, pk_tool = (\<lambda>_. ('''', False)),
     pk_stage_temp = Inl io_EOF, pk_download_temp = Inl io_EOF, pk_names = demo_names\<rparr>"

definition demo_repack_options :: RepackOptions where
  "demo_repack_options = \<lparr>rp_SDKVersion = '''', rp_RuntimeVersion = '''', rp_Target = demo_repack_target,
     rp_UpstreamArchive = ''/u'', rp_DownloadUpstream = False, rp_UpstreamBaseURL = '''', rp_StageDir = ''/s'',
     rp_OutputArchive = ''/o/a.tgz'', rp_LicensePath = '''', rp_NoticePath = '''', rp_SBOMPath = '''',
     rp_ProvenancePath = '''', rp_NativeSignPath = ''''\<rparr>"

definition demo_repack :: "go_error + archive \<times> ManifestTarget" where
  "demo_repack = snd (RepackRuntime demo_repack_env demo_repack_options (Map.empty(''/u'' \<mapsto> FileNode ''up'' 420)))"

lemma demo_repack_ok: "isl demo_repack = False"
  by code_simp

theorem repack_complete_witness:
  "\<exists>ar rec. demo_repack = Inr (ar, rec) \<and> ''LICENSE'' \<in> mf_Path ` set (mt_Files rec) \<and>
     ''bin/codex'' \<in> mf_Path ` set (mt_Files rec)"
proof -
  obtain ar rec where r: "demo_repack = Inr (ar, rec)"
    using demo_repack_ok by (cases demo_repack) (auto simp: isl_def)
  have names: "required_files (rp_Target demo_repack_options) \<subseteq> set (pk_names demo_repack_env)"
    by (simp add: required_files_def demo_names_def demo_repack_env_def demo_repack_options_def)
  have "''LICENSE'' \<in> required_files (rp_Target demo_repack_options)" "''bin/codex'' \<in> required_files (rp_Target demo_repack_options)"
    by (simp_all add: required_files_def evidence_names_def licenseFileName_def expectedUpstreamPaths_def demo_repack_options_def
        demo_repack_target_def target_spec_def)
  then show ?thesis
    using repack_complete [OF r [unfolded demo_repack_def] names] r by blast
qed

end
