(* ===== verification/Runtime_Cmd.thy ===== *)
theory Runtime_Cmd
  imports Repack Go_Flag
begin

text \<open>
  \<open>cmd/codex-sdk-runtime/main.go\<close>: the command that packages, repacks, signs, installs, tries,
  verifies, finds and removes the runtime. A command takes the arguments and the file system and
  gives the file system back with what it prints or its error. Decoding JSON, the archive formats,
  cryptography, the network and the process environment are arguments (\<open>cmd_env\<close>).
\<close>

section \<open>The environment\<close>

record cmd_env =
  ce_world :: world
  ce_install :: install_env
  ce_roots :: "(string \<times> string) list"
  ce_repack :: repack_env
  ce_smoke :: smoke_io
  ce_open :: "string \<Rightarrow> fs \<Rightarrow> archive"
  ce_file :: "archive \<Rightarrow> string"
  ce_record :: "string \<Rightarrow> go_error + ManifestTarget"
  ce_sign :: "string \<Rightarrow> string \<Rightarrow> string"
  ce_encode64 :: "string \<Rightarrow> string"
  ce_environ :: "string list"
  ce_goos :: string
  ce_goarch :: string
  ce_duration :: "string \<Rightarrow> bool"
  ce_lookpath :: "string \<Rightarrow> string option"

type_synonym command = "string list \<Rightarrow> fs \<Rightarrow> fs \<times> (go_error + string)"

text \<open>The files are those of the file system.\<close>

definition world_at :: "cmd_env \<Rightarrow> fs \<Rightarrow> world" where
  "world_at env f = (ce_world env)\<lparr>w_ReadFile := (\<lambda>p. ReadFile p f)\<rparr>"

definition environmentMap :: "cmd_env \<Rightarrow> string gomap" where
  "environmentMap env = parse_environ (ce_environ env)"

definition getenv :: "cmd_env \<Rightarrow> string \<Rightarrow> string" where
  "getenv env k = (case map_of (environmentMap env) k of Some v \<Rightarrow> v | None \<Rightarrow> '''')"

definition CurrentTarget :: "cmd_env \<Rightarrow> go_error + TargetSpec" where
  "CurrentTarget env = LookupTarget (ce_goos env) (ce_goarch env)"

definition lookupTargetFlag :: "cmd_env \<Rightarrow> string \<Rightarrow> go_error + TargetSpec" where
  "lookupTargetFlag env triple = (if triple = '''' then CurrentTarget env else LookupTargetByTriple triple)"

section \<open>What is printed\<close>

text \<open>\<open>writeJSON\<close> prints what \<open>json.MarshalIndent\<close> gives and a line feed; the structs without tags keep their field names.\<close>

definition TargetSpec_json :: "TargetSpec \<Rightarrow> json" where
  "TargetSpec_json t = JObj [(''goos'', JStr (GOOS t)), (''goarch'', JStr (GOARCH t)), (''triple'', JStr (Triple t)),
     (''executable'', JStr (Executable t)), (''upstreamAsset'', JStr (UpstreamAsset t))]"

definition ResolvedRuntime_json :: "ResolvedRuntime \<Rightarrow> json" where
  "ResolvedRuntime_json r = JObj [(''BinaryPath'', JStr (BinaryPath r)), (''RootDir'', JStr (RootDir r)),
     (''PathDirs'', json_strings (PathDirs r)), (''Source'', JStr (Source r)), (''Target'', TargetSpec_json (rr_Target r)),
     (''Version'', JStr (rr_Version r))]"

definition InstallResult_json :: "ResolvedRuntime \<times> ManifestTarget \<Rightarrow> json" where
  "InstallResult_json = (\<lambda>(rt, rec). JObj [(''Runtime'', ResolvedRuntime_json rt), (''Target'', ManifestTarget_json rec)])"

definition SignatureEnvelope_json :: "SignatureEnvelope \<Rightarrow> json" where
  "SignatureEnvelope_json e = JObj [(''keyId'', JStr (se_KeyID e)), (''algorithm'', JStr (se_Algorithm e)),
     (''signature'', JStr (se_Signature e))]"

definition opt_string :: "string \<Rightarrow> string \<Rightarrow> members" where
  "opt_string k s = opt_member (s \<noteq> '''') (k, JStr s)"

definition opt_int :: "string \<Rightarrow> int \<Rightarrow> members" where
  "opt_int k n = opt_member (n \<noteq> 0) (k, JNum (show_int n))"

definition RunnerIdentity_json :: "RunnerIdentity \<Rightarrow> json" where
  "RunnerIdentity_json r = JObj (opt_string ''hostname'' (ri_Hostname r) @ opt_string ''runnerName'' (ri_RunnerName r) @
     opt_string ''runnerOS'' (ri_RunnerOS r) @ opt_string ''runnerArch'' (ri_RunnerArch r) @
     opt_string ''imageOS'' (ri_ImageOS r) @ opt_string ''imageVersion'' (ri_ImageVersion r))"

definition NativeSmokeUsage_json :: "NativeSmokeUsage \<Rightarrow> json" where
  "NativeSmokeUsage_json u = JObj (opt_int ''input_tokens'' (nu_InputTokens u) @
     opt_int ''cached_input_tokens'' (nu_CachedInputTokens u) @ opt_int ''cache_write_input_tokens'' (nu_CacheWriteInputTokens u) @
     opt_int ''output_tokens'' (nu_OutputTokens u) @ opt_int ''reasoning_output_tokens'' (nu_ReasoningOutputTokens u) @
     opt_int ''total_tokens'' (nu_TotalTokens u))"

definition NativeSmokeResult_json :: "NativeSmokeResult \<Rightarrow> json" where
  "NativeSmokeResult_json r = JObj (
     [(''targetTriple'', JStr (ns_TargetTriple r)), (''runtimeVersion'', JStr (ns_RuntimeVersion r)),
      (''runtimeGOOS'', JStr (ns_RuntimeGOOS r)), (''runtimeGOARCH'', JStr (ns_RuntimeGOARCH r)),
      (''binaryPath'', JStr (ns_BinaryPath r)), (''versionOutput'', JStr (ns_VersionOutput r)),
      (''initializeSucceeded'', JBool (ns_InitializeSucceeded r)), (''closeSucceeded'', JBool (ns_CloseSucceeded r)),
      (''modelListSucceeded'', JBool (ns_ModelListSucceeded r)), (''threadStartSucceeded'', JBool (ns_ThreadStartSucceeded r)),
      (''turnStartSucceeded'', JBool (ns_TurnStartSucceeded r)), (''streamSucceeded'', JBool (ns_StreamSucceeded r)),
      (''protocolVersion'', JStr (ns_ProtocolVersion r))] @
     (case ns_ServerInfo r of None \<Rightarrow> []
      | Some (n, v) \<Rightarrow> [(''serverInfo'', JObj [(''name'', JStr n), (''version'', JStr v)])]) @
     opt_int ''modelCount'' (int (ns_ModelCount r)) @ opt_string ''modelID'' (ns_ModelID r) @
     opt_string ''threadID'' (ns_ThreadID r) @ opt_string ''turnID'' (ns_TurnID r) @ opt_string ''turnStatus'' (ns_TurnStatus r) @
     opt_int ''streamEventCount'' (int (ns_StreamEventCount r)) @ opt_int ''completedItemCount'' (int (ns_CompletedItemCount r)) @
     opt_string ''finalResponse'' (ns_FinalResponse r) @
     (case ns_Usage r of None \<Rightarrow> [] | Some u \<Rightarrow> [(''usage'', NativeSmokeUsage_json u)]) @
     opt_int ''mockRequestCount'' (int (ns_MockRequestCount r)) @ opt_string ''archiveName'' (ns_ArchiveName r) @
     opt_string ''archiveSha256'' (ns_ArchiveSHA256 r) @ opt_int ''archiveSize'' (ns_ArchiveSize r) @
     opt_string ''upstreamArchiveSha256'' (ns_UpstreamArchiveSHA256 r) @
     opt_int ''upstreamArchiveSize'' (ns_UpstreamArchiveSize r) @ opt_string ''manifestSha256'' (ns_ManifestSHA256 r) @
     [(''runner'', RunnerIdentity_json (ns_Runner r)), (''nativeSignatures'', evidence_json (ns_NativeSignatures r))])"

definition WriteEvidence :: "string \<Rightarrow> NativeSmokeResult \<Rightarrow> fs \<Rightarrow> fs \<times> go_error option" where
  "WriteEvidence path r f = put_file path (marshalPretty (NativeSmokeResult_json r)) f"

section \<open>The commands\<close>

text \<open>\<open>Parse\<close> and then the command on the settings; the arguments behind the flags are not used.\<close>

definition with_flags :: "cmd_env \<Rightarrow> flag_set \<Rightarrow> (settings \<Rightarrow> fs \<Rightarrow> fs \<times> (go_error + string)) \<Rightarrow> command" where
  "with_flags env flags body args f = (case flag_Parse (ce_duration env) flags args of
     Inl e \<Rightarrow> (f, Inl e)
   | Inr (st, rest) \<Rightarrow> body st f)"

definition then_fs :: "fs \<Rightarrow> go_error + 'a \<Rightarrow> ('a \<Rightarrow> fs \<times> (go_error + 'b)) \<Rightarrow> fs \<times> (go_error + 'b)" where
  "then_fs f x k = (case x of Inl e \<Rightarrow> (f, Inl e) | Inr v \<Rightarrow> k v)"

definition then_step :: "fs \<times> go_error option \<Rightarrow> (fs \<Rightarrow> fs \<times> (go_error + 'b)) \<Rightarrow> fs \<times> (go_error + 'b)" where
  "then_step s k = (case s of (f, Some e) \<Rightarrow> (f, Inl e) | (f, None) \<Rightarrow> k f)"

text \<open>
  The archive file \<open>writeArchive\<close> leaves; its directory is made first. After repacking it is written
  when the temporary directories are gone: the output is not below them.
\<close>

definition put_archive :: "cmd_env \<Rightarrow> string \<Rightarrow> archive \<Rightarrow> fs \<Rightarrow> fs \<times> go_error option" where
  "put_archive env path ar f = (case MkdirAll (path_Dir path) f of
     Inl e \<Rightarrow> (f, Some e)
   | Inr f1 \<Rightarrow> put_file path (ce_file env ar) f1)"

definition package_flags :: flag_set where
  "package_flags = [(''package-dir'', StringFlag), (''archive'', StringFlag), (''target'', StringFlag),
     (''runtime-version'', StringFlag)]"

definition runPackage :: "cmd_env \<Rightarrow> command" where
  "runPackage env = with_flags env package_flags (\<lambda>st f.
     (let packageDir = flag_string st ''package-dir'' ''''; archivePath = flag_string st ''archive'' '''';
          targetTriple = flag_string st ''target'' ''''
      in if packageDir = '''' \<or> archivePath = '''' \<or> targetTriple = ''''
         then (f, Inl (Text ''package requires --package-dir, --archive, and --target''))
         else
           then_fs f (LookupTargetByTriple targetTriple) (\<lambda>target.
           then_fs f (PackageArchive (pk_sha (ce_repack env)) (pk_seal (ce_repack env)) (path_Base archivePath) target '''' 0
               (stage_files (pk_names (ce_repack env)) packageDir f)) (\<lambda>(ar, rec).
           then_step (put_archive env archivePath ar f) (\<lambda>f1. (f1, Inr (marshalPretty (ManifestTarget_json rec))))))))"

definition repack_flags :: flag_set where
  "repack_flags = [(''target'', StringFlag), (''runtime-version'', StringFlag), (''sdk-version'', StringFlag),
     (''upstream-archive'', StringFlag), (''download-upstream'', BoolFlag), (''upstream-base-url'', StringFlag),
     (''http-timeout'', DurationFlag), (''stage-dir'', StringFlag), (''archive'', StringFlag), (''record'', StringFlag),
     (''license'', StringFlag), (''notice'', StringFlag), (''sbom'', StringFlag), (''provenance'', StringFlag),
     (''native-signatures'', StringFlag)]"

definition repack_options :: "settings \<Rightarrow> TargetSpec \<Rightarrow> RepackOptions" where
  "repack_options st target = \<lparr>rp_SDKVersion = flag_string st ''sdk-version'' DefaultSDKVersion,
     rp_RuntimeVersion = flag_string st ''runtime-version'' DefaultRuntimeVersion, rp_Target = target,
     rp_UpstreamArchive = flag_string st ''upstream-archive'' '''', rp_DownloadUpstream = flag_bool st ''download-upstream'',
     rp_UpstreamBaseURL = flag_string st ''upstream-base-url'' '''', rp_StageDir = flag_string st ''stage-dir'' '''',
     rp_OutputArchive = flag_string st ''archive'' '''', rp_LicensePath = flag_string st ''license'' '''',
     rp_NoticePath = flag_string st ''notice'' '''', rp_SBOMPath = flag_string st ''sbom'' '''',
     rp_ProvenancePath = flag_string st ''provenance'' '''', rp_NativeSignPath = flag_string st ''native-signatures'' ''''\<rparr>"

definition runRepack :: "cmd_env \<Rightarrow> command" where
  "runRepack env = with_flags env repack_flags (\<lambda>st f.
     (let targetTriple = flag_string st ''target'' ''''; archivePath = flag_string st ''archive'' '''';
          recordPath = flag_string st ''record'' ''''
      in if targetTriple = '''' \<or> archivePath = '''' then (f, Inl (Text ''repack requires --target and --archive''))
         else
           then_fs f (LookupTargetByTriple targetTriple) (\<lambda>target.
             (case RepackRuntime (ce_repack env) (repack_options st target) f of
                (f1, Inl e) \<Rightarrow> (f1, Inl e)
              | (f1, Inr (ar, rec)) \<Rightarrow>
                  then_step (put_archive env archivePath ar f1) (\<lambda>f2.
                  then_step (if recordPath \<noteq> '''' then writeJSONFile recordPath (ManifestTarget_json rec) f2 else (f2, None)) (\<lambda>f3.
                    (f3, Inr (marshalPretty (ManifestTarget_json rec)))))))))"

definition manifest_flags :: flag_set where
  "manifest_flags = [(''sdk-version'', StringFlag), (''runtime-version'', StringFlag), (''upstream-repo'', StringFlag),
     (''output'', StringFlag), (''record'', ListFlag)]"

fun read_records :: "cmd_env \<Rightarrow> fs \<Rightarrow> string list \<Rightarrow> go_error + ManifestTarget list" where
  "read_records env f [] = Inr []"
| "read_records env f (p # ps) =
     then_do (ReadFile p f) (\<lambda>content.
     then_do (ce_record env content) (\<lambda>t.
     then_do (read_records env f ps) (\<lambda>ts. Inr (t # ts))))"

definition runManifest :: "cmd_env \<Rightarrow> command" where
  "runManifest env = with_flags env manifest_flags (\<lambda>st f.
     (let outputPath = flag_string st ''output'' ''''; recordPaths = flag_values st ''record''
      in if outputPath = '''' \<or> recordPaths = [] then (f, Inl (Text ''manifest requires --output and at least one --record''))
         else
           then_fs f (read_records env f recordPaths) (\<lambda>targets.
           then_fs f (BuildManifest (flag_string st ''sdk-version'' DefaultSDKVersion)
               (flag_string st ''runtime-version'' DefaultRuntimeVersion)
               (flag_string st ''upstream-repo'' DefaultUpstreamRepo) targets) (\<lambda>m.
           then_step (put_file outputPath (snd (CanonicalBytes m) @ [CHR 0x0A]) f) (\<lambda>f1. (f1, Inr ''''))))))"

definition sign_flags :: flag_set where
  "sign_flags = [(''manifest'', StringFlag), (''output'', StringFlag), (''key-id'', StringFlag)]"

definition runSign :: "cmd_env \<Rightarrow> command" where
  "runSign env = with_flags env sign_flags (\<lambda>st f.
     (let manifestPath = flag_string st ''manifest'' ''''; outputPath = flag_string st ''output'' '''';
          keyID = flag_string st ''key-id'' ''''; privateKey = getenv env ''CODEX_RUNTIME_MANIFEST_PRIVATE_KEY_BASE64''
      in if manifestPath = '''' \<or> outputPath = '''' \<or> keyID = '''' \<or> privateKey = ''''
         then (f, Inl (Text ''sign requires --manifest, --output, --key-id, and CODEX_RUNTIME_MANIFEST_PRIVATE_KEY_BASE64''))
         else
           then_fs f (ReadFile manifestPath f) (\<lambda>manifestBytes.
           then_fs f (w_decode64 (ce_world env) privateKey) (\<lambda>key.
           then_fs f (SignManifest (ce_sign env) (ce_encode64 env) manifestBytes keyID key) (\<lambda>envelope.
           then_step (put_file outputPath (marshalPretty (SignatureEnvelope_json envelope)) f) (\<lambda>f1. (f1, Inr '''')))))))"

definition install_flags :: flag_set where
  "install_flags = [(''cache-root'', StringFlag), (''target'', StringFlag), (''runtime-version'', StringFlag),
     (''manifest'', StringFlag), (''manifest-signature'', StringFlag), (''archive'', StringFlag), (''base-url'', StringFlag),
     (''http-timeout'', DurationFlag)]"

definition install_input_options :: "settings \<Rightarrow> input_options" where
  "install_input_options st = \<lparr>in_ManifestPath = flag_string st ''manifest'' '''',
     in_SignaturePath = flag_string st ''manifest-signature'' '''', in_ArchivePath = flag_string st ''archive'' '''',
     in_ManifestURL = '''', in_SignatureURL = '''', in_BaseURL = flag_string st ''base-url'' '''',
     in_MaxArchiveBytes = DefaultMaxArchiveBytes\<rparr>"

definition runInstall :: "cmd_env \<Rightarrow> command" where
  "runInstall env = with_flags env install_flags (\<lambda>st f.
     then_fs f (lookupTargetFlag env (flag_string st ''target'' '''')) (\<lambda>target.
     then_fs f (resolveInstallInputs (world_at env f) (install_input_options st) target) (\<lambda>inputs.
       (case Install (ce_install env) (ce_roots env)
           \<lparr>io_CacheRoot = flag_string st ''cache-root'' '''',
            io_RuntimeVersion = flag_string st ''runtime-version'' DefaultRuntimeVersion, io_TrustRoots = [], io_MaxArchiveBytes = 0\<rparr>
           target (ii_Manifest inputs) (ii_Bytes inputs) (ii_Envelope inputs) (ce_open env (ii_ArchivePath inputs) f) f of
          (f1, Inl e) \<Rightarrow> (f1, Inl e)
        | (f1, Inr result) \<Rightarrow> (f1, Inr (marshalPretty (InstallResult_json result)))))))"

definition smoke_flags :: flag_set where
  "smoke_flags = [(''runtime-path'', StringFlag), (''root-dir'', StringFlag), (''target'', StringFlag),
     (''runtime-version'', StringFlag), (''record'', StringFlag), (''manifest-sha256'', StringFlag), (''evidence'', StringFlag)]"

definition read_record :: "cmd_env \<Rightarrow> fs \<Rightarrow> string \<Rightarrow> go_error + ManifestTarget option" where
  "read_record env f path = (if path = '''' then Inr None
     else then_do (ReadFile path f) (\<lambda>content. then_do (ce_record env content) (\<lambda>t. Inr (Some t))))"

definition runNativeSmoke :: "cmd_env \<Rightarrow> command" where
  "runNativeSmoke env = with_flags env smoke_flags (\<lambda>st f.
     (let runtimePath = flag_string st ''runtime-path'' ''''; rootDir = flag_string st ''root-dir'' '''';
          targetTriple = flag_string st ''target'' ''''; evidencePath = flag_string st ''evidence'' ''''
      in if runtimePath = '''' \<or> rootDir = '''' \<or> targetTriple = ''''
         then (f, Inl (Text ''native-smoke requires --runtime-path, --root-dir, and --target''))
         else
           then_fs f (LookupTargetByTriple targetTriple) (\<lambda>target.
           then_fs f (read_record env f (flag_string st ''record'' '''')) (\<lambda>rec.
             (case runNativeSmokeCommand (ce_smoke env) runtimePath rootDir target
                 (flag_string st ''runtime-version'' DefaultRuntimeVersion) rec (flag_string st ''manifest-sha256'' '''') f of
                (f1, Inl e) \<Rightarrow> (f1, Inl e)
              | (f1, Inr result) \<Rightarrow>
                  then_step (if evidencePath \<noteq> '''' then WriteEvidence evidencePath result f1 else (f1, None)) (\<lambda>f2.
                    (f2, Inr (marshalPretty (NativeSmokeResult_json result)))))))))"

definition verify_flags :: flag_set where
  "verify_flags = [(''cache-root'', StringFlag), (''target'', StringFlag), (''runtime-version'', StringFlag), (''manifest'', StringFlag)]"

definition runVerify :: "cmd_env \<Rightarrow> command" where
  "runVerify env = with_flags env verify_flags (\<lambda>st f.
     (f, then_do (lookupTargetFlag env (flag_string st ''target'' '''')) (\<lambda>target.
         then_do (LoadManifest (world_at env f) (flag_string st ''manifest'' (path_Join [''runtime'', ''manifest.json'']))) (\<lambda>(m, content).
         then_do (Manifest_Target m (Triple target)) (\<lambda>rec.
         then_do (VerifyInstalled (ie_os (ce_install env)) (ie_sha (ce_install env)) (flag_string st ''cache-root'' '''')
             (flag_string st ''runtime-version'' DefaultRuntimeVersion) target rec f) (\<lambda>rt.
           Inr (marshalPretty (ResolvedRuntime_json rt))))))))"

definition path_flags :: flag_set where
  "path_flags = [(''cache-root'', StringFlag), (''target'', StringFlag), (''runtime-version'', StringFlag),
     (''allow-path'', BoolFlag), (''runtime-path'', StringFlag)]"

definition runPath :: "cmd_env \<Rightarrow> command" where
  "runPath env = with_flags env path_flags (\<lambda>st f.
     (f, then_do (lookupTargetFlag env (flag_string st ''target'' '''')) (\<lambda>target.
         then_do (ResolveRuntime (ie_os (ce_install env)) (ce_lookpath env) f target
             \<lparr>ExplicitBinary = flag_string st ''runtime-path'' '''', ro_Env = Some (environmentMap env),
              ro_CacheRoot = flag_string st ''cache-root'' '''',
              ro_RuntimeVersion = flag_string st ''runtime-version'' DefaultRuntimeVersion,
              ro_AllowPATH = flag_bool st ''allow-path''\<rparr>) (\<lambda>rt. Inr (BinaryPath rt @ [CHR 0x0A])))))"

definition remove_flags :: flag_set where
  "remove_flags = [(''cache-root'', StringFlag), (''target'', StringFlag), (''runtime-version'', StringFlag)]"

definition runRemove :: "cmd_env \<Rightarrow> command" where
  "runRemove env = with_flags env remove_flags (\<lambda>st f.
     then_fs f (lookupTargetFlag env (flag_string st ''target'' '''')) (\<lambda>target.
     then_step (Remove (ie_os (ce_install env)) (flag_string st ''cache-root'' '''')
       (flag_string st ''runtime-version'' DefaultRuntimeVersion) target f) (\<lambda>f1. (f1, Inr ''''))))"

definition runVersion :: "command" where
  "runVersion args f = (f, case args of
     [v] \<Rightarrow> then_do (ReleaseTagForVersion v) (\<lambda>tag. Inr (tag @ [CHR 0x0A]))
   | _ \<Rightarrow> Inl (Text ''version requires one argument''))"

definition usageError :: go_error where
  "usageError = Text ''usage: codex-sdk-runtime <package|repack|manifest|sign|install|native-smoke|verify|path|remove|version>''"

definition runtime_run :: "cmd_env \<Rightarrow> command" where
  "runtime_run env args f = (case args of
     [] \<Rightarrow> (f, Inl usageError)
   | cmd # more_args \<Rightarrow>
      if cmd = ''package'' then runPackage env more_args f
      else if cmd = ''repack'' then runRepack env more_args f
      else if cmd = ''manifest'' then runManifest env more_args f
      else if cmd = ''sign'' then runSign env more_args f
      else if cmd = ''install'' then runInstall env more_args f
      else if cmd = ''native-smoke'' then runNativeSmoke env more_args f
      else if cmd = ''verify'' then runVerify env more_args f
      else if cmd = ''path'' then runPath env more_args f
      else if cmd = ''remove'' then runRemove env more_args f
      else if cmd = ''version'' then runVersion more_args f
      else (f, Inl usageError))"

end
