(* ===== verification/Runtime_Cmd_Props.thy ===== *)
theory Runtime_Cmd_Props
  imports Runtime_Cmd Release_Props
begin

text \<open>
  The commands over the functions they call: what \<open>manifest\<close> and \<open>sign\<close> write is what an installation
  accepts, and the commands that only look change nothing.
\<close>

section \<open>Arguments\<close>

declare flag_Parse.simps [simp del]

text \<open>An output and a list of values.\<close>

lemma output_list_args:
  assumes "map_of flags ''output'' = Some StringFlag" "map_of flags name = Some ListFlag" "flag_name name"
  shows "flag_Parse duration flags (''--output'' # out # concat (map (\<lambda>r. [''--'' @ name, r]) vs)) =
     Inr ((''output'', out) # map (Pair name) vs, [])"
proof -
  let ?st = "(''output'', out) # map (Pair name) vs"
  have "concat (map (flag_args flags) ?st) = [''--output'', out] @ concat (map (\<lambda>r. [''--'' @ name, r]) vs)"
    using assms by (simp add: flag_args_def comp_def)
  moreover have "\<forall>s\<in>set ?st. setting_ok duration flags s"
    using assms by (auto simp: setting_ok_def flag_name_def valid_value_def)
  ultimately show ?thesis
    using flag_Parse_args [of ?st duration flags "[]"] by simp
qed

lemma output_list_values:
  "name \<noteq> ''output'' \<Longrightarrow> flag_values ((''output'', out) # map (Pair name) vs) n = (if n = ''output'' then [out] else if n = name then vs else [])"
proof -
  assume name: "name \<noteq> ''output''"
  have "filter (\<lambda>(m, v). m = n) (map (Pair name) vs) = (if n = name then map (Pair name) vs else [])"
    by (induction vs) auto
  then show ?thesis using name by (simp add: flag_values_def comp_def)
qed

lemma manifest_args:
  "flag_Parse duration manifest_flags (''--output'' # out # concat (map (\<lambda>r. [''--record'', r]) records)) =
     Inr ((''output'', out) # map (Pair ''record'') records, [])"
  using output_list_args [of manifest_flags "''record''" duration out records] by (simp add: manifest_flags_def flag_name_def)

lemma manifest_values:
  "flag_values ((''output'', out) # map (Pair ''record'') records) name =
     (if name = ''output'' then [out] else if name = ''record'' then records else [])"
  by (rule output_list_values) simp

lemma sign_args:
  "flag_Parse duration sign_flags [''--manifest'', m, ''--output'', out, ''--key-id'', kid] =
     Inr ([(''manifest'', m), (''output'', out), (''key-id'', kid)], [])"
proof -
  let ?st = "[(''manifest'', m), (''output'', out), (''key-id'', kid)]"
  have "concat (map (flag_args sign_flags) ?st) = [''--manifest'', m, ''--output'', out, ''--key-id'', kid]"
    by (simp add: flag_args_def sign_flags_def)
  moreover have "\<forall>s\<in>set ?st. setting_ok duration sign_flags s"
    by (auto simp: setting_ok_def sign_flags_def flag_name_def valid_value_def)
  ultimately show ?thesis
    using flag_Parse_args [of ?st duration sign_flags "[]"] by simp
qed

lemmas flag_reading = flag_string_def flag_values_def

section \<open>Results\<close>

lemma then_fs_Inr: "then_fs f x k = (g, Inr y) \<longleftrightarrow> (\<exists>v. x = Inr v \<and> k v = (g, Inr y))"
  by (auto simp: then_fs_def split: sum.splits)

lemma then_step_Inr: "then_step s k = (g, Inr y) \<longleftrightarrow> (\<exists>f. s = (f, None) \<and> k f = (g, Inr y))"
  by (auto simp: then_step_def split: prod.splits option.splits)

lemma put_file_None: "put_file p d f = (g, None) \<longleftrightarrow> WriteFile p d f = Inr g"
  by (auto simp: put_file_def split: sum.splits)

section \<open>Manifests that are built\<close>

text \<open>The files of a validated target are in order, so a manifest that is built is canonical already.\<close>

lemma validate_files_sorted:
  "validate_files triple lastPath fs = None \<Longrightarrow> sorted (map mf_Path fs) \<and> (\<forall>x\<in>set fs. lastPath < mf_Path x)"
  by (induction triple lastPath fs rule: validate_files.induct) (fastforce split: if_splits)+

lemma validate_targets_files:
  "validate_targets seen ts = None \<Longrightarrow> \<forall>t\<in>set ts. sorted (map mf_Path (mt_Files t))"
  by (induction seen ts rule: validate_targets.induct)
    (auto simp: validate_target_def dest: validate_files_sorted split: sum.splits if_splits option.splits)

lemma built_canonical:
  assumes "BuildManifest sdk version repo targets = Inr m"
  shows "Validate m = None" "sort_manifest m = m" "mset (m_Targets m) = mset targets"
proof -
  show v: "Validate m = None" and ts: "mset (m_Targets m) = mset targets"
    using assms by (auto simp: BuildManifest_def Let_def split: sum.splits option.splits)
  have sorted: "sort_key mt_Triple (m_Targets m) = m_Targets m"
    using assms by (auto simp: BuildManifest_def Let_def sort_key_id_if_sorted split: sum.splits option.splits)
  have "validate_targets {} (m_Targets m) = None"
    using v by (auto simp: Validate_def split: if_splits sum.splits)
  then have "\<forall>t\<in>set (m_Targets m). t\<lparr>mt_Files := sort_key mf_Path (mt_Files t)\<rparr> = t"
    using validate_targets_files [of "{}" "m_Targets m"] by (simp add: sort_key_id_if_sorted)
  then have "map (\<lambda>t. t\<lparr>mt_Files := sort_key mf_Path (mt_Files t)\<rparr>) (m_Targets m) = m_Targets m"
    by (simp add: map_idI)
  then show "sort_manifest m = m"
    by (simp add: sort_manifest_def sorted)
qed

section \<open>From records to a signed manifest\<close>

lemma runManifest_writes:
  assumes "runManifest env ([''--output'', mp] @ concat (map (\<lambda>r. [''--record'', r]) records)) f = (f1, Inr out)"
  obtains targets m where "read_records env f records = Inr targets"
    "BuildManifest DefaultSDKVersion DefaultRuntimeVersion DefaultUpstreamRepo targets = Inr m"
    "WriteFile mp (snd (CanonicalBytes m) @ [CHR 0x0A]) f = Inr f1"
  using assms
  by (auto simp: runManifest_def with_flags_def manifest_args Let_def then_fs_Inr then_step_Inr put_file_None
      flag_string_def manifest_values split: if_splits)

lemma runSign_writes:
  assumes "runSign env [''--manifest'', mp, ''--output'', sp, ''--key-id'', kid] f = (f1, Inr out)"
  obtains content key envelope where "ReadFile mp f = Inr content"
    "w_decode64 (ce_world env) (getenv env ''CODEX_RUNTIME_MANIFEST_PRIVATE_KEY_BASE64'') = Inr key"
    "SignManifest (ce_sign env) (ce_encode64 env) content kid key = Inr envelope"
    "WriteFile sp (marshalPretty (SignatureEnvelope_json envelope)) f = Inr f1"
  using assms
  by (auto simp: runSign_def with_flags_def sign_args Let_def then_fs_Inr then_step_Inr put_file_None flag_reading
      split: if_splits)

text \<open>C36: What \<open>codex-sdk-runtime manifest\<close> and \<open>sign\<close> leave is what an installation takes. When both
  report success, the manifest file holds the canonical text of a valid manifest with exactly the
  targets of the given records, which sorting does not change, and the signature file an envelope
  under which an installation accepts that text, provided the private key in the environment
  belongs to a trust root with the given key identifier and no earlier root has that identifier.
  Of the cryptography only this is used: a signature verifies under the public key of its private
  key, and base64 decodes what it encodes.\<close>

theorem manifest_sign_pipeline:
  assumes manifest: "runtime_run env (''manifest'' # [''--output'', mp] @ concat (map (\<lambda>r. [''--record'', r]) records)) f = (f1, Inr out1)"
    and sign: "runtime_run env [''sign'', ''--manifest'', mp, ''--output'', sp, ''--key-id'', kid] f1 = (f2, Inr out2)"
    and apart: "sp \<noteq> mp"
    and key: "w_decode64 (ce_world env) (getenv env ''CODEX_RUNTIME_MANIFEST_PRIVATE_KEY_BASE64'') = Inr key"
    and sound: "\<And>msg. ie_verify (ce_install env) pub msg (ce_sign env key msg)"
    and base64: "\<And>s. ie_decode64 (ce_install env) (ce_encode64 env s) = Inr s"
    and root: "ce_roots env = before @ (kid, pub) # after" "kid \<notin> fst ` set before"
  shows "\<exists>targets m content envelope. read_records env f records = Inr targets \<and> mset (m_Targets m) = mset targets \<and>
    Validate m = None \<and> CanonicalBytes m = (m, content) \<and> ReadFile mp f2 = Inr (content @ [CHR 0x0A]) \<and>
    ReadFile sp f2 = Inr (marshalPretty (SignatureEnvelope_json envelope)) \<and>
    VerifyManifestSignature (ie_verify (ce_install env)) (ie_decode64 (ce_install env)) (content @ [CHR 0x0A]) envelope
      (ce_roots env) = None"
proof -
  have manifest_run: "runManifest env ([''--output'', mp] @ concat (map (\<lambda>r. [''--record'', r]) records)) f = (f1, Inr out1)"
    using manifest by (simp add: runtime_run_def)
  obtain targets m where targets: "read_records env f records = Inr targets"
    and m: "BuildManifest DefaultSDKVersion DefaultRuntimeVersion DefaultUpstreamRepo targets = Inr m"
    and mp: "WriteFile mp (snd (CanonicalBytes m) @ [CHR 0x0A]) f = Inr f1"
    using runManifest_writes [OF manifest_run] by blast
  let ?content = "snd (CanonicalBytes m)"
  have content: "ReadFile mp f1 = Inr (?content @ [CHR 0x0A])"
    by (rule WriteFile_there [OF mp])
  have sign_run: "runSign env [''--manifest'', mp, ''--output'', sp, ''--key-id'', kid] f1 = (f2, Inr out2)"
    using sign by (simp add: runtime_run_def)
  obtain envelope where env: "SignManifest (ce_sign env) (ce_encode64 env) (?content @ [CHR 0x0A]) kid key = Inr envelope"
    and sp: "WriteFile sp (marshalPretty (SignatureEnvelope_json envelope)) f1 = Inr f2"
    using runSign_writes [OF sign_run] content key by (metis sum.inject(2))
  have "CanonicalBytes m = (m, ?content)"
    by (simp add: CanonicalBytes_def built_canonical(2) [OF m])
  moreover have "ReadFile mp f2 = Inr (?content @ [CHR 0x0A])"
    using WriteFile_files [OF sp _ content] apart by blast
  moreover have "VerifyManifestSignature (ie_verify (ce_install env)) (ie_decode64 (ce_install env)) (?content @ [CHR 0x0A])
      envelope (ce_roots env) = None"
    using sign_then_verify [of "ie_verify (ce_install env)" pub "ce_sign env" key "ie_decode64 (ce_install env)" "ce_encode64 env"]
      sound base64 env root by blast
  ultimately show ?thesis
    using targets built_canonical(1,3) [OF m] WriteFile_there [OF sp] by blast
qed

section \<open>An example\<close>

lemma runManifest_ok:
  assumes "mp \<noteq> ''''" "records \<noteq> []" "read_records env f records = Inr targets"
    "BuildManifest DefaultSDKVersion DefaultRuntimeVersion DefaultUpstreamRepo targets = Inr m"
    "WriteFile mp (snd (CanonicalBytes m) @ [CHR 0x0A]) f = Inr f1"
  shows "runtime_run env (''manifest'' # [''--output'', mp] @ concat (map (\<lambda>r. [''--record'', r]) records)) f = (f1, Inr '''')"
  using assms
  by (simp add: runtime_run_def runManifest_def with_flags_def manifest_args Let_def then_fs_def then_step_def put_file_def
      flag_string_def manifest_values)

lemma runSign_ok:
  assumes "mp \<noteq> ''''" "sp \<noteq> ''''" "kid \<noteq> ''''" "ReadFile mp f = Inr content"
    "getenv env ''CODEX_RUNTIME_MANIFEST_PRIVATE_KEY_BASE64'' = secret" "secret \<noteq> ''''"
    "w_decode64 (ce_world env) secret = Inr key"
    "SignManifest (ce_sign env) (ce_encode64 env) content kid key = Inr envelope"
    "WriteFile sp (marshalPretty (SignatureEnvelope_json envelope)) f = Inr f1"
  shows "runtime_run env [''sign'', ''--manifest'', mp, ''--output'', sp, ''--key-id'', kid] f = (f1, Inr '''')"
  using assms
  by (simp add: runtime_run_def runSign_def with_flags_def sign_args Let_def then_fs_def then_step_def put_file_def flag_reading)

definition demo_cmd :: cmd_env where
  "demo_cmd = \<lparr>ce_world = demo_world,
     ce_install = \<lparr>ie_os = \<lparr>userCacheDir = None, tempDir = ''/tmp'', environ_of = [], windows = False\<rparr>, ie_sha = (\<lambda>s. s),
       ie_verify = (\<lambda>k m s. s = m), ie_decode64 = Inr, ie_stale = False, ie_ctxErr = io_EOF, ie_temp = ''/t'', ie_now = ''t''\<rparr>,
     ce_roots = [(''root'', ''pub'')],
     ce_repack = \<lparr>pk_world = demo_world, pk_sha = (\<lambda>s. s), pk_archive = (\<lambda>_. \<lparr>ar_SHA = '''', ar_Size = 0, ar_Entries = [], ar_Err = None\<rparr>),
       pk_seal = (\<lambda>es. \<lparr>ar_SHA = '''', ar_Size = 0, ar_Entries = es, ar_Err = None\<rparr>), pk_now = '''', pk_host = OtherHost,
       pk_tool = (\<lambda>_. ('''', False)), pk_stage_temp = Inl io_EOF, pk_download_temp = Inl io_EOF, pk_names = []\<rparr>,
     ce_smoke = demo_io, ce_open = (\<lambda>p f. \<lparr>ar_SHA = '''', ar_Size = 0, ar_Entries = [], ar_Err = None\<rparr>), ce_file = (\<lambda>ar. ''''),
     ce_record = (\<lambda>d. Inr (demo_of_path d)), ce_sign = (\<lambda>k m. m), ce_encode64 = (\<lambda>s. s),
     ce_environ = [''CODEX_RUNTIME_MANIFEST_PRIVATE_KEY_BASE64='' @ replicate 64 (CHR ''k'')], ce_goos = ''linux'', ce_goarch = ''amd64'',
     ce_duration = (\<lambda>_. True), ce_lookpath = (\<lambda>_. None)\<rparr>"

definition demo_record_paths :: "string list" where
  "demo_record_paths = map Triple supportedTargets"

definition demo_disk :: fs where
  "demo_disk = (\<lambda>p. if p = ''/o'' then Some DirNode else if p \<in> set demo_record_paths then Some (FileNode p 420) else None)"

definition demo_built :: Manifest where
  "demo_built = demo_manifest\<lparr>m_SDKVersion := DefaultSDKVersion,
     m_UpstreamTag := (case ReleaseTagForVersion DefaultRuntimeVersion of Inr t \<Rightarrow> t | Inl _ \<Rightarrow> ''''),
     m_UpstreamRepo := DefaultUpstreamRepo,
     m_Targets := sort_key mt_Triple (map demo_target supportedTargets)\<rparr>"

lemma demo_records: "read_records demo_cmd demo_disk demo_record_paths = Inr (map demo_target supportedTargets)"
  by code_simp

lemma demo_build: "BuildManifest DefaultSDKVersion DefaultRuntimeVersion DefaultUpstreamRepo (map demo_target supportedTargets) = Inr demo_built"
  by code_simp

lemma demo_output_paths: "path_Dir ''/o/m'' = ''/o''" "path_Dir ''/o/s'' = ''/o''" "''/o/m'' \<notin> set demo_record_paths" "''/o/s'' \<notin> set demo_record_paths"
  by code_simp+

lemma demo_key: "getenv demo_cmd ''CODEX_RUNTIME_MANIFEST_PRIVATE_KEY_BASE64'' = replicate 64 (CHR ''k'')"
  by code_simp

lemma demo_write:
  "WriteFile ''/o/m'' d demo_disk = Inr (demo_disk(''/o/m'' \<mapsto> FileNode d 420))"
  "WriteFile ''/o/s'' e (demo_disk(''/o/m'' \<mapsto> FileNode d 420)) =
     Inr (demo_disk(''/o/m'' \<mapsto> FileNode d 420, ''/o/s'' \<mapsto> FileNode e 420))"
  using demo_output_paths by (simp_all add: WriteFile_def demo_disk_def)

lemma demo_run_manifest:
  "\<exists>d. runtime_run demo_cmd (''manifest'' # [''--output'', ''/o/m''] @ concat (map (\<lambda>r. [''--record'', r]) demo_record_paths)) demo_disk =
     (demo_disk(''/o/m'' \<mapsto> FileNode d 420), Inr '''')"
proof -
  have "demo_record_paths \<noteq> []" by (simp add: demo_record_paths_def supportedTargets_def)
  from runManifest_ok [OF _ this demo_records demo_build demo_write(1)] show ?thesis by blast
qed

lemma demo_run_sign:
  "\<exists>e. runtime_run demo_cmd [''sign'', ''--manifest'', ''/o/m'', ''--output'', ''/o/s'', ''--key-id'', ''root'']
       (demo_disk(''/o/m'' \<mapsto> FileNode d 420)) =
     (demo_disk(''/o/m'' \<mapsto> FileNode d 420, ''/o/s'' \<mapsto> FileNode e 420), Inr '''')"
proof -
  have "\<exists>v. SignManifest (ce_sign demo_cmd) (ce_encode64 demo_cmd) d ''root'' (replicate 64 (CHR ''k'')) = Inr v"
    by (simp add: SignManifest_def)
  then obtain v where v: "SignManifest (ce_sign demo_cmd) (ce_encode64 demo_cmd) d ''root'' (replicate 64 (CHR ''k'')) = Inr v"
    by blast
  have key: "w_decode64 (ce_world demo_cmd) (replicate 64 (CHR ''k'')) = Inr (replicate 64 (CHR ''k''))"
    by (simp add: demo_cmd_def demo_world_def)
  have read: "ReadFile ''/o/m'' (demo_disk(''/o/m'' \<mapsto> FileNode d 420)) = Inr d"
    by (simp add: ReadFile_def)
  have "replicate 64 (CHR ''k'') \<noteq> ''''" by (simp add: replicate_empty)
  from runSign_ok [OF _ _ _ read demo_key this key v demo_write(2)] show ?thesis by blast
qed

theorem manifest_sign_pipeline_witness:
  "\<exists>f1 f2 content envelope. fst (runtime_run demo_cmd (''manifest'' # [''--output'', ''/o/m''] @
       concat (map (\<lambda>r. [''--record'', r]) demo_record_paths)) demo_disk) = f1 \<and>
     fst (runtime_run demo_cmd [''sign'', ''--manifest'', ''/o/m'', ''--output'', ''/o/s'', ''--key-id'', ''root''] f1) = f2 \<and>
     ReadFile ''/o/m'' f2 = Inr content \<and> VerifyManifestSignature (ie_verify (ce_install demo_cmd)) (ie_decode64 (ce_install demo_cmd))
       content envelope (ce_roots demo_cmd) = None"
proof -
  obtain d where m: "runtime_run demo_cmd (''manifest'' # [''--output'', ''/o/m''] @ concat (map (\<lambda>r. [''--record'', r]) demo_record_paths))
      demo_disk = (demo_disk(''/o/m'' \<mapsto> FileNode d 420), Inr '''')"
    using demo_run_manifest by blast
  obtain e where s: "runtime_run demo_cmd [''sign'', ''--manifest'', ''/o/m'', ''--output'', ''/o/s'', ''--key-id'', ''root'']
      (demo_disk(''/o/m'' \<mapsto> FileNode d 420)) = (demo_disk(''/o/m'' \<mapsto> FileNode d 420, ''/o/s'' \<mapsto> FileNode e 420), Inr '''')"
    using demo_run_sign by blast
  have key: "w_decode64 (ce_world demo_cmd) (getenv demo_cmd ''CODEX_RUNTIME_MANIFEST_PRIVATE_KEY_BASE64'') = Inr (replicate 64 (CHR ''k''))"
    using demo_key by (simp add: demo_cmd_def demo_world_def)
  have crypto: "ie_verify (ce_install demo_cmd) ''pub'' msg (ce_sign demo_cmd key msg)" "ie_decode64 (ce_install demo_cmd) (ce_encode64 demo_cmd t) = Inr t"
    "ce_roots demo_cmd = [] @ (''root'', ''pub'') # []" for msg key t
    by (simp_all add: demo_cmd_def)
  have apart: "''/o/s'' \<noteq> ''/o/m''" and none: "''root'' \<notin> fst ` set ([] :: (string \<times> string) list)" by simp_all
  obtain content envelope where "ReadFile ''/o/m'' (demo_disk(''/o/m'' \<mapsto> FileNode d 420, ''/o/s'' \<mapsto> FileNode e 420)) = Inr content"
    "VerifyManifestSignature (ie_verify (ce_install demo_cmd)) (ie_decode64 (ce_install demo_cmd)) content envelope (ce_roots demo_cmd) = None"
    using manifest_sign_pipeline [OF m s apart key crypto none] by blast
  then show ?thesis
    using arg_cong [OF m, of fst] arg_cong [OF s, of fst] unfolding fst_conv by blast
qed

end
