(* ===== verification/Runtime_Cmd_Life.thy ===== *)
theory Runtime_Cmd_Life
  imports Runtime_Cmd_Props Runtimebin_Props
begin

text \<open>
  The life of an installed runtime at the command line: what \<open>install\<close> leaves is what \<open>verify\<close> accepts
  and \<open>path\<close> prints, until \<open>remove\<close> takes it away.
\<close>

section \<open>Files an installation leaves alone\<close>

definition files_kept :: "(string \<Rightarrow> bool) \<Rightarrow> fs \<Rightarrow> fs \<Rightarrow> bool" where
  "files_kept P f g \<longleftrightarrow> (\<forall>p d m. P p \<longrightarrow> f p = Some (FileNode d m) \<longrightarrow> g p = Some (FileNode d m))"

lemma files_kept_refl [simp]: "files_kept P f f"
  by (simp add: files_kept_def)

lemma files_kept_trans: "files_kept P f g \<Longrightarrow> files_kept P g h \<Longrightarrow> files_kept P f h"
  by (simp add: files_kept_def)

lemma kept_MkdirAll: "MkdirAll q f = Inr g \<Longrightarrow> files_kept P f g"
  by (auto simp: files_kept_def dest!: MkdirAll_Inr)

lemma kept_extract_entry: "files_kept P f (fst (extract_entry sha mx dest expected e tot f))"
  by (auto simp: extract_entry_def Let_def files_kept_def dest!: MkdirAll_Inr split: option.splits sum.splits)

lemma kept_extract_entries: "files_kept P f (fst (extract_entries sha mx dest expected es ws tot f))"
proof (induction es arbitrary: ws tot f)
  case (Cons e es)
  obtain f1 x where x: "extract_entry sha mx dest expected e tot f = (f1, x)" by fastforce
  then have "files_kept P f f1" using kept_extract_entry by (metis fst_conv)
  then show ?case
    using x files_kept_trans [OF _ Cons.IH] by (auto split: sum.splits)
qed simp

lemma kept_extract: "files_kept P f (fst (extractArchive sha ar dest rec mx f))"
proof -
  obtain f1 x where x: "extract_entries sha mx dest (expected_files (mt_Files rec)) (ar_Entries ar) [] 0 f = (f1, x)" by fastforce
  then have "files_kept P f f1" using kept_extract_entries by (metis fst_conv)
  then show ?thesis by (auto simp: extractArchive_def x split: sum.splits option.splits)
qed

lemma kept_read: "files_kept P f g \<Longrightarrow> P p \<Longrightarrow> ReadFile p f = Inr d \<Longrightarrow> ReadFile p g = Inr d"
  by (auto simp: files_kept_def ReadFile_def split: option.splits node.splits)

abbreviation outside :: "string \<Rightarrow> string \<Rightarrow> string \<Rightarrow> bool" where
  "outside temp root p \<equiv> \<not> below temp p \<and> \<not> below root p"

lemma kept_install_into:
  assumes "clean_dir temp"
  shows "files_kept (outside temp root) f (fst (install_into sha temp meta mx ar root rec version target f))"
proof -
  obtain f1 err where x: "extractArchive sha ar temp rec mx (f(temp \<mapsto> DirNode)) = (f1, err)" by fastforce
  have "files_kept (outside temp root) (f(temp \<mapsto> DirNode)) f1" using kept_extract x by (metis fst_conv)
  then have f1: "files_kept (outside temp root) f f1" by (auto simp: files_kept_def below_def)
  have meta: "files_kept (outside temp root) f1 (f1(path_Join [temp, ''.codex-sdk-runtime.json''] \<mapsto> FileNode meta 420))"
    using metadata_join [OF assms] by (auto simp: files_kept_def below_def)
  show ?thesis
  proof (cases err)
    case None
    have rn: "files_kept (outside temp root) f3 f4" if "Rename temp root f3 = Inr f4" for f3 f4
      using that by (auto simp: Rename_def files_kept_def split: option.splits node.splits)
    show ?thesis
      using None x files_kept_trans [OF f1 meta] kept_MkdirAll [of _ _ _ "outside temp root"] rn files_kept_trans
      by (auto simp: install_into_def Let_def split: sum.splits) blast+
  qed (use x f1 in \<open>simp add: install_into_def\<close>)
qed

lemma kept_install_locked:
  assumes "clean_dir temp"
  shows "files_kept (outside temp root) f (fst (install_locked sha temp meta mx ar root rec version target f))"
proof -
  obtain g x where g: "install_into sha temp meta mx ar root rec version target f = (g, x)" by fastforce
  then have "files_kept (outside temp root) f g" using kept_install_into [OF assms] by (metis fst_conv)
  then have "files_kept (outside temp root) f (RemoveAll temp g)" by (auto simp: files_kept_def RemoveAll_def)
  then show ?thesis by (auto simp: install_locked_def g split: sum.splits option.splits)
qed

text \<open>The files are kept; the lock file is made and taken away.\<close>

lemma kept_Install:
  assumes "Install env roots opts target m content sigEnv ar f = (f', Inr (rt, rec))" "clean_dir (ie_temp env)"
    "managedInstallRoot (ie_os env) (defaultCacheRoot (ie_os env) (io_CacheRoot opts)) (m_RuntimeVersion m) target = Inr root"
  shows "files_kept (\<lambda>p. outside (ie_temp env) root p \<and> p \<noteq> root @ ''.lock'') f f'"
proof -
  obtain f1 f2 mx meta where lock: "acquireLock (ie_stale env) (ie_ctxErr env) (root @ ''.lock'') f = (f1, None)"
    and il: "install_locked (ie_sha env) (ie_temp env) meta mx ar root rec (m_RuntimeVersion m) target f1 = (f2, Inr rt)"
    and f': "f' = f2(root @ ''.lock'' := None)"
    using assms(1,3) unfolding Install_def Let_def by (auto split: option.splits sum.splits if_splits prod.splits)
  have "files_kept (\<lambda>p. p \<noteq> root @ ''.lock'') f f1"
    using lock kept_MkdirAll by (auto simp: acquireLock_def files_kept_def dest!: MkdirAll_Inr split: sum.splits if_splits)
  moreover have "files_kept (outside (ie_temp env) root) f1 f2"
    using kept_install_locked [OF assms(2)] il by (metis fst_conv)
  ultimately show ?thesis by (auto simp: files_kept_def f')
qed

section \<open>Arguments\<close>

lemma string_args:
  assumes "\<forall>(n, v)\<in>set st. map_of flags n = Some StringFlag \<and> flag_name n"
  shows "flag_Parse duration flags (concat (map (\<lambda>(n, v). [''--'' @ n, v]) st)) = Inr (st, [])"
proof -
  have "concat (map (flag_args flags) st) = concat (map (\<lambda>(n, v). [''--'' @ n, v]) st)"
    using assms by (intro arg_cong [where f = concat] map_cong) (auto simp: flag_args_def)
  moreover have "\<forall>s\<in>set st. setting_ok duration flags s"
    using assms by (auto simp: setting_ok_def valid_value_def)
  ultimately show ?thesis
    using flag_Parse_args [of st duration flags "[]"] by simp
qed

abbreviation at :: "string \<Rightarrow> string \<Rightarrow> string list" where
  "at c t \<equiv> [''--cache-root'', c, ''--target'', t]"

lemma life_args:
  "flag_Parse dur install_flags (at c t @ [''--manifest'', mp, ''--manifest-signature'', sp, ''--archive'', ap]) =
     Inr ([(''cache-root'', c), (''target'', t), (''manifest'', mp), (''manifest-signature'', sp), (''archive'', ap)], [])"
  "flag_Parse dur verify_flags (at c t @ [''--manifest'', mp]) = Inr ([(''cache-root'', c), (''target'', t), (''manifest'', mp)], [])"
  "flag_Parse dur path_flags (at c t) = Inr ([(''cache-root'', c), (''target'', t)], [])"
  "flag_Parse dur remove_flags (at c t) = Inr ([(''cache-root'', c), (''target'', t)], [])"
  using string_args [of "[(''cache-root'', c), (''target'', t), (''manifest'', mp), (''manifest-signature'', sp), (''archive'', ap)]" install_flags dur]
    string_args [of "[(''cache-root'', c), (''target'', t), (''manifest'', mp)]" verify_flags dur]
    string_args [of "[(''cache-root'', c), (''target'', t)]" path_flags dur]
    string_args [of "[(''cache-root'', c), (''target'', t)]" remove_flags dur]
  by (simp_all add: install_flags_def verify_flags_def path_flags_def remove_flags_def flag_name_def)

lemma life_values:
  "flag_values ((''cache-root'', c) # st) name = (if name = ''cache-root'' then c # flag_values st name else flag_values st name)"
  "flag_values ((''target'', t) # st) name = (if name = ''target'' then t # flag_values st name else flag_values st name)"
  "flag_values ((''manifest'', mp) # st) name = (if name = ''manifest'' then mp # flag_values st name else flag_values st name)"
  "flag_values ((''manifest-signature'', sp) # st) name = (if name = ''manifest-signature'' then sp # flag_values st name else flag_values st name)"
  "flag_values ((''archive'', ap) # st) name = (if name = ''archive'' then ap # flag_values st name else flag_values st name)"
  "flag_values [] name = []"
  by (simp_all add: flag_values_def)

lemmas life_simps = with_flags_def life_args [simplified append_Cons append_Nil] flag_string_def flag_bool_def life_values

section \<open>Install, verify, path, remove\<close>

text \<open>What the commands need to know of where the runtime goes and of the files of its record.\<close>

definition life_site :: "cmd_env \<Rightarrow> string \<Rightarrow> string \<Rightarrow> string \<Rightarrow> Manifest \<Rightarrow> TargetSpec \<Rightarrow> ManifestTarget \<Rightarrow> string \<Rightarrow> fs \<Rightarrow> bool" where
  "life_site env c t mp m target rec root f \<longleftrightarrow>
     lookupTargetFlag env t = Inr target \<and> (\<exists>content. LoadManifest (world_at env f) mp = Inr (m, content)) \<and>
     Manifest_Target m (Triple target) = Inr rec \<and> managedInstallRoot (ie_os (ce_install env)) c DefaultRuntimeVersion target = Inr root \<and>
     clean_dir (ie_temp (ce_install env)) \<and> outside (ie_temp (ce_install env)) root mp \<and> mp \<noteq> root @ ''.lock'' \<and>
     \<not> below (ie_temp (ce_install env)) root \<and> \<not> below root (ie_temp (ce_install env)) \<and>
     (\<forall>x\<in>set (mt_Files rec). safeArchivePath (mf_Path x) = Some (mf_Path x)) \<and>
     ''bin/'' @ Executable target \<in> mf_Path ` set (mt_Files rec) \<and> getenv env ''CODEX_RUNTIME_PATH'' = ''''"

lemma printed:
  "(case s of (f, Inl e) \<Rightarrow> (f, Inl e) | (f, Inr r) \<Rightarrow> (f, Inr (k r))) = (g, Inr y) \<longleftrightarrow> (\<exists>r. s = (g, Inr r) \<and> y = k r)"
  by (cases s; cases "snd s") auto

lemma no_bin_dir: "safeArchivePath ''bin/'' \<noteq> Some ''bin/''"
  by code_simp

lemma runInstall_Inr:
  assumes "runInstall env (at c t @ [''--manifest'', mp, ''--manifest-signature'', sp, ''--archive'', ap]) f = (f1, Inr out)"
    "lookupTargetFlag env t = Inr target" "LoadManifest (world_at env f) mp = Inr (m, content)"
  obtains envelope rt rec where
    "Install (ce_install env) (ce_roots env) \<lparr>io_CacheRoot = c, io_RuntimeVersion = DefaultRuntimeVersion, io_TrustRoots = [], io_MaxArchiveBytes = 0\<rparr>
       target m content envelope (ce_open env ap f) f = (f1, Inr (rt, rec))"
    "out = marshalPretty (InstallResult_json (rt, rec))"
proof -
  let ?opts = "\<lparr>in_ManifestPath = mp, in_SignaturePath = sp, in_ArchivePath = ap, in_ManifestURL = '''', in_SignatureURL = '''', in_BaseURL = '''',
     in_MaxArchiveBytes = DefaultMaxArchiveBytes\<rparr>"
  obtain inputs rt rec where inputs: "resolveInstallInputs (world_at env f) ?opts target = Inr inputs"
    and i: "Install (ce_install env) (ce_roots env) \<lparr>io_CacheRoot = c, io_RuntimeVersion = DefaultRuntimeVersion, io_TrustRoots = [], io_MaxArchiveBytes = 0\<rparr>
       target (ii_Manifest inputs) (ii_Bytes inputs) (ii_Envelope inputs) (ce_open env (ii_ArchivePath inputs) f) f = (f1, Inr (rt, rec))"
    "out = marshalPretty (InstallResult_json (rt, rec))"
    using assms(1,2) by (auto simp: runInstall_def life_simps install_input_options_def then_fs_Inr printed)
  have "input_urls ?opts = Inl (Text ''runtimebin: online install requires an https base URL'')"
    by (simp add: input_urls_def trimRightSlash_def)
  then have "local_inputs (world_at env f) ?opts = Inr inputs"
    using inputs by (simp add: resolveInstallInputs_def split: if_splits)
  then have "ii_Manifest inputs = m" "ii_Bytes inputs = content" "ii_ArchivePath inputs = ap"
    using assms(3) by (auto simp: local_inputs_def split: sum.splits)
  then show thesis using that i by metis
qed

lemma installed_binary:
  assumes "verifyInstalledRoot sha root rec version target f = Inr (Some rt)" "clean_dir root"
    "''bin/'' @ Executable target \<in> mf_Path ` set (mt_Files rec)" "\<forall>x\<in>set (mt_Files rec). safeArchivePath (mf_Path x) = Some (mf_Path x)"
  shows "f (path_Join [root, ''bin'', Executable target]) \<noteq> None" "below root (path_Join [root, ''bin'', Executable target])"
proof -
  obtain x where x: "x \<in> set (mt_Files rec)" "mf_Path x = ''bin/'' @ Executable target" using assms(3) by force
  have safe: "safeArchivePath (''bin/'' @ Executable target) = Some (''bin/'' @ Executable target)" using assms(4) x by metis
  then have "Executable target \<noteq> ''''" using no_bin_dir by auto
  then have join: "path_Join [root, ''bin'', Executable target] = path_Join [root, ''bin/'' @ Executable target]"
    by (simp add: path_Join_def)
  show "f (path_Join [root, ''bin'', Executable target]) \<noteq> None"
    using assms(1) x by (fastforce simp: verifyInstalledRoot_Some files_verified_def join)
  show "below root (path_Join [root, ''bin'', Executable target])"
    unfolding join safe_join [OF assms(2) safe] by (simp add: below_def)
qed

lemma path_run:
  assumes "lookupTargetFlag env t = Inr target" "managedInstallRoot (ie_os (ce_install env)) c DefaultRuntimeVersion target = Inr root"
    "getenv env ''CODEX_RUNTIME_PATH'' = ''''"
  shows "f (path_Join [root, ''bin'', Executable target]) \<noteq> None \<Longrightarrow> runPath env (at c t) f =
      (f, Inr (BinaryPath (managed_runtime root target DefaultRuntimeVersion) @ [CHR 0x0A]))"
    "f (path_Join [root, ''bin'', Executable target]) = None \<Longrightarrow> \<exists>e. runPath env (at c t) f = (f, Inl e) \<and> errors_Is e ErrRuntimeNotInstalled"
  using assms
  by (auto simp: runPath_def life_simps then_do_def ResolveRuntime_def getenv_def ErrRuntimeNotInstalled_def split: option.splits)

text \<open>C38: What the \<open>install\<close> command leaves can be used, verified and removed. When \<open>install\<close> succeeds from
  local files, \<open>verify\<close> with the same manifest prints the managed runtime of the default version and
  \<open>path\<close> prints its binary, both without changing a file; after \<open>remove\<close>, which changes only what is
  below the runtime's directory, \<open>path\<close> reports that the runtime is not installed. The files of the
  record must be inside the runtime, the executable one of them, the manifest and the temporary
  directory apart from the runtime's directory and CODEX_RUNTIME_PATH not set.\<close>

theorem install_life_cycle:
  assumes "runtime_run env (''install'' # at c t @ [''--manifest'', mp, ''--manifest-signature'', sp, ''--archive'', ap]) f = (f1, Inr out)"
    and "life_site env c t mp m target rec root f"
  shows "out = marshalPretty (InstallResult_json (managed_runtime root target DefaultRuntimeVersion, rec)) \<and>
    runtime_run env (''verify'' # at c t @ [''--manifest'', mp]) f1 =
      (f1, Inr (marshalPretty (ResolvedRuntime_json (managed_runtime root target DefaultRuntimeVersion)))) \<and>
    runtime_run env (''path'' # at c t) f1 = (f1, Inr (path_Join [root, ''bin'', Executable target] @ [CHR 0x0A])) \<and>
    runtime_run env (''remove'' # at c t) f1 = (RemoveAll root f1, Inr '''') \<and>
    (\<exists>e. runtime_run env (''path'' # at c t) (RemoveAll root f1) = (RemoveAll root f1, Inl e) \<and> errors_Is e ErrRuntimeNotInstalled)"
proof -
  let ?ie = "ce_install env"
  obtain content where site: "lookupTargetFlag env t = Inr target" "LoadManifest (world_at env f) mp = Inr (m, content)"
    "Manifest_Target m (Triple target) = Inr rec" "managedInstallRoot (ie_os ?ie) c DefaultRuntimeVersion target = Inr root"
    "clean_dir (ie_temp ?ie)" "outside (ie_temp ?ie) root mp \<and> mp \<noteq> root @ ''.lock''" "\<not> below (ie_temp ?ie) root" "\<not> below root (ie_temp ?ie)"
    "\<forall>x\<in>set (mt_Files rec). safeArchivePath (mf_Path x) = Some (mf_Path x)" "''bin/'' @ Executable target \<in> mf_Path ` set (mt_Files rec)"
    "getenv env ''CODEX_RUNTIME_PATH'' = ''''"
    using assms(2) unfolding life_site_def by blast
  have run: "runInstall env (at c t @ [''--manifest'', mp, ''--manifest-signature'', sp, ''--archive'', ap]) f = (f1, Inr out)"
    using assms(1) by (simp add: runtime_run_def)
  obtain envelope rt where install: "Install ?ie (ce_roots env) \<lparr>io_CacheRoot = c, io_RuntimeVersion = DefaultRuntimeVersion,
      io_TrustRoots = [], io_MaxArchiveBytes = 0\<rparr> target m content envelope (ce_open env ap f) f = (f1, Inr (rt, rec))"
    and out: "out = marshalPretty (InstallResult_json (rt, rec))"
    using runInstall_Inr [OF run site(1,2)] Install_runtime(1) site(3) by (metis sum.inject(2))
  note rt = Install_runtime [OF install]
  have v: "m_RuntimeVersion m = DefaultRuntimeVersion" using rt(2) by (simp add: DefaultRuntimeVersion_def)
  have r: "rt = managed_runtime root target DefaultRuntimeVersion"
    using rt(3) site(4) v by (simp add: managedInstallRoot_default)
  have ok: "verifyInstalledRoot (ie_sha ?ie) root rec DefaultRuntimeVersion target f1 = Inr (Some rt)"
    using Install_result(5) [OF install site(9)] site(7,8) v by (simp add: r managed_runtime_source)
  have clean: "clean_dir root" using site(4) by (rule managedInstallRoot_clean)
  have kept: "files_kept (\<lambda>p. outside (ie_temp ?ie) root p \<and> p \<noteq> root @ ''.lock'') f f1"
    using kept_Install [OF install site(5), of root] site(4) v by (simp add: managedInstallRoot_default)
  have load: "LoadManifest (world_at env f1) mp = Inr (m, content)"
    using site(2) kept_read [OF kept, of mp] site(6) by (auto simp: LoadManifest_def world_at_def split: sum.splits)
  note binary = installed_binary [OF ok clean site(10,9)]
  have "runVerify env (at c t @ [''--manifest'', mp]) f1 = (f1, Inr (marshalPretty (ResolvedRuntime_json rt)))"
    using site(1,3,4) load ok by (simp add: runVerify_def life_simps then_do_def VerifyInstalled_def)
  moreover have "runRemove env (at c t) f1 = (RemoveAll root f1, Inr '''')"
    using site(1,4) by (simp add: runRemove_def life_simps then_fs_def then_step_def Remove_def)
  moreover have "(RemoveAll root f1) (path_Join [root, ''bin'', Executable target]) = None"
    using binary(2) by (simp add: RemoveAll_def)
  ultimately show ?thesis
    using out path_run [OF site(1,4,11)] binary(1) unfolding r by (simp add: runtime_run_def managed_runtime_source)
qed

section \<open>An example\<close>

definition life_record :: "TargetSpec \<Rightarrow> ManifestTarget" where
  "life_record t = (Release_Props.demo_target t)\<lparr>mt_Files := [\<lparr>mf_Path = ''bin/'' @ Executable t, mf_SHA256 = demo_sha, mf_Size = 1,
     mf_Mode = 493, mf_Role = ''executable''\<rparr>]\<rparr>"

definition life_manifest :: Manifest where
  "life_manifest = Release_Props.demo_manifest\<lparr>m_Targets := map life_record supportedTargets\<rparr>"

definition life_target :: TargetSpec where
  "life_target = supportedTargets ! 0"

definition life_env :: cmd_env where
  "life_env = demo_cmd\<lparr>ce_world := demo_world\<lparr>w_Manifest := (\<lambda>d. Inr life_manifest)\<rparr>,
     ce_install := \<lparr>ie_os = \<lparr>userCacheDir = None, tempDir = ''/tmp'', environ_of = [], windows = False\<rparr>, ie_sha = (\<lambda>s. demo_sha),
       ie_verify = (\<lambda>k m s. k = ''pub'' \<and> s = ''s''), ie_decode64 = Inr, ie_stale = False, ie_ctxErr = io_EOF, ie_temp = ''/c/t'', ie_now = ''t''\<rparr>,
     ce_roots := [(''k'', ''pub'')], ce_environ := [],
     ce_open := (\<lambda>p f. \<lparr>ar_SHA = demo_sha, ar_Size = 7, ar_Entries = [\<lparr>te_Name = ''bin/'' @ Executable life_target, te_Type = TypeReg, te_Size = 1, te_Mode = 493,
       te_Data = ''x''\<rparr>], ar_Err = None\<rparr>)\<rparr>"

definition life_fs :: fs where
  "life_fs p = (if p = ''/m'' \<or> p = ''/s'' then Some (FileNode p 420) else None)"

definition life_run :: "fs \<times> (go_error + string)" where
  "life_run = runtime_run life_env (''install'' # at ''/c'' (Triple life_target) @ [''--manifest'', ''/m'', ''--manifest-signature'', ''/s'', ''--archive'', ''/a'']) life_fs"

definition is_Inr :: "'a + 'b \<Rightarrow> bool" where
  "is_Inr x = (case x of Inl _ \<Rightarrow> False | Inr _ \<Rightarrow> True)"

lemma life_valid: "Validate life_manifest = None"
  by code_simp

lemma life_installs: "is_Inr (snd life_run)"
  by code_simp

definition life_root :: string where
  "life_root = path_Join [''/c'', ''targets'', Triple life_target, DefaultRuntimeVersion]"

lemma life_paths:
  "managedInstallRoot (ie_os (ce_install life_env)) ''/c'' DefaultRuntimeVersion life_target = Inr life_root"
  "clean_dir ''/c/t'' \<and> outside ''/c/t'' life_root ''/m'' \<and> ''/m'' \<noteq> life_root @ ''.lock'' \<and> \<not> below ''/c/t'' life_root \<and> \<not> below life_root ''/c/t''"
  by code_simp+

lemma life_lookup:
  "lookupTargetFlag life_env (Triple life_target) = Inr life_target" "Manifest_Target life_manifest (Triple life_target) = Inr (life_record life_target)"
  "getenv life_env ''CODEX_RUNTIME_PATH'' = ''''"
  by code_simp+

lemma life_files:
  "(\<forall>x\<in>set (mt_Files (life_record life_target)). safeArchivePath (mf_Path x) = Some (mf_Path x)) \<and>
    ''bin/'' @ Executable life_target \<in> mf_Path ` set (mt_Files (life_record life_target))"
  by code_simp

lemma life_demo_site: "life_site life_env ''/c'' (Triple life_target) ''/m'' life_manifest life_target (life_record life_target) life_root life_fs"
proof -
  have "LoadManifest (world_at life_env life_fs) ''/m'' = Inr (life_manifest, ''/m'')"
    using life_valid by (simp add: LoadManifest_def world_at_def life_env_def ReadFile_def life_fs_def)
  moreover have "ie_temp (ce_install life_env) = ''/c/t''" by (simp add: life_env_def)
  ultimately show ?thesis
    unfolding life_site_def using life_paths life_lookup life_files by metis
qed

theorem install_life_cycle_witness:
  "\<exists>f1 out. life_run = (f1, Inr out) \<and> runtime_run life_env (''path'' # at ''/c'' (Triple life_target)) f1 =
     (f1, Inr (path_Join [life_root, ''bin'', Executable life_target] @ [CHR 0x0A]))"
proof -
  obtain out where "snd life_run = Inr out" using life_installs by (auto simp: is_Inr_def split: sum.splits)
  then obtain f1 where run: "life_run = (f1, Inr out)" by (metis prod.collapse)
  from install_life_cycle [OF this [unfolded life_run_def] life_demo_site] run show ?thesis by blast
qed

end
