(* ===== verification/Go_Float.thy ===== *)
theory Go_Float
  imports Complex_Main
begin

text \<open>
  What the source uses of \<open>float64\<close>: conversion of integers, products and quotients that stay in the
  range of normal numbers, and comparison. A finite value is the rational number it stands for;
  an operation is the exact one followed by rounding to 53 binary digits, to the nearest and to
  the even one of two. Zeros are not told apart, which no comparison does.
\<close>

section \<open>Rounding\<close>

datatype float64 = NaN | PosInf | NegInf | Fin rat

text \<open>The exponent of the leading binary digit of a positive fraction: \<open>2^e \<le> x < 2^(e + 1)\<close>.\<close>

fun bit_length :: "nat \<Rightarrow> nat" where
  "bit_length n = (if n = 0 then 0 else Suc (bit_length (n div 2)))"

declare bit_length.simps [simp del]

definition exponent :: "rat \<Rightarrow> int" where
  "exponent x = (case quotient_of x of (a, b) \<Rightarrow>
     (let e = int (bit_length (nat a)) - int (bit_length (nat b))
      in if 2 powi e \<le> x then e else e - 1))"

definition half_even :: "rat \<Rightarrow> int" where
  "half_even m = (let n = \<lfloor>m\<rfloor>; r = m - of_int n
     in if r < 1 / 2 then n else if 1 / 2 < r then n + 1 else if even n then n else n + 1)"

definition quantum :: "rat \<Rightarrow> rat" where
  "quantum x = 2 powi (exponent x - 52)"

definition round53 :: "rat \<Rightarrow> rat" where
  "round53 x = (if x = 0 then 0
     else if 0 < x then of_int (half_even (x / quantum x)) * quantum x
     else - (of_int (half_even (- x / quantum (- x))) * quantum (- x)))"

text \<open>The numbers of 53 binary digits.\<close>

definition double :: "rat \<Rightarrow> bool" where
  "double y \<longleftrightarrow> (\<exists>m k. y = of_int m * 2 powi k \<and> \<bar>m\<bar> \<le> 2 ^ 53)"

fun float_le :: "float64 \<Rightarrow> float64 \<Rightarrow> bool" where
  "float_le (Fin x) (Fin y) \<longleftrightarrow> x \<le> y"
| "float_le NaN y \<longleftrightarrow> False"
| "float_le x NaN \<longleftrightarrow> False"
| "float_le NegInf y \<longleftrightarrow> True"
| "float_le x PosInf \<longleftrightarrow> True"
| "float_le PosInf y \<longleftrightarrow> False"
| "float_le x NegInf \<longleftrightarrow> False"

definition float_lt :: "float64 \<Rightarrow> float64 \<Rightarrow> bool" where
  "float_lt x y \<longleftrightarrow> float_le x y \<and> \<not> float_le y x"

section \<open>The exponent\<close>

lemma bit_length_bounds: "0 < n \<Longrightarrow> 2 ^ (bit_length n - 1) \<le> n \<and> n < 2 ^ bit_length n \<and> 0 < bit_length n"
proof (induction n rule: bit_length.induct)
  case (1 n)
  show ?case
  proof (cases "n = 1")
    case True
    then show ?thesis by (simp add: bit_length.simps [of "Suc 0"] bit_length.simps [of 0])
  next
    case False
    with 1 have half: "0 < n div 2" and step: "bit_length n = Suc (bit_length (n div 2))"
      by (simp_all add: bit_length.simps [of n])
    with "1.IH" "1.prems" have "2 ^ (bit_length (n div 2) - 1) \<le> n div 2" "n div 2 < 2 ^ bit_length (n div 2)" "0 < bit_length (n div 2)"
      by auto
    then obtain j where j: "bit_length (n div 2) = Suc j" "2 ^ j \<le> n div 2" "n div 2 < 2 ^ Suc j"
      by (cases "bit_length (n div 2)") auto
    from j(2,3) have "2 ^ Suc j \<le> n" "n < 2 ^ Suc (Suc j)" by simp_all
    then show ?thesis using step j(1) by simp
  qed
qed

lemma powi_mono: "i \<le> j \<Longrightarrow> (2::rat) powi i \<le> 2 powi j"
  by (simp add: power_int_increasing)

lemma exponent_bounds:
  assumes "0 < x"
  shows "2 powi exponent x \<le> x" "x < 2 powi (exponent x + 1)"
proof -
  obtain a b where q: "quotient_of x = (a, b)" by fastforce
  have b: "0 < b" and x: "x = of_int a / of_int b"
    using quotient_of_denom_pos [OF q] quotient_of_div [OF q] by auto
  have a: "0 < a" using assms x b by (simp add: zero_less_divide_iff)
  let ?i = "bit_length (nat a)" and ?j = "bit_length (nat b)"
  have bounds: "2 ^ (?i - 1) \<le> nat a" "nat a < 2 ^ ?i" "0 < ?i" "2 ^ (?j - 1) \<le> nat b" "nat b < 2 ^ ?j" "0 < ?j"
    using bit_length_bounds [of "nat a"] bit_length_bounds [of "nat b"] a b by auto
  have ra: "2 ^ (?i - 1) \<le> (of_int a :: rat)" "(of_int a :: rat) < 2 ^ ?i"
    and rb: "2 ^ (?j - 1) \<le> (of_int b :: rat)" "(of_int b :: rat) < 2 ^ ?j"
    using bounds a b by (metis of_int_less_iff of_int_le_iff of_int_numeral of_int_power nat_less_iff le_nat_iff int_nat_eq less_imp_le of_nat_le_iff of_nat_less_iff of_nat_numeral of_nat_power)+
  have low: "2 powi (int ?i - int ?j - 1) < x"
  proof -
    have "(2::rat) powi (int ?i - int ?j - 1) = 2 ^ (?i - 1) / 2 ^ ?j"
      using bounds(3) by (cases ?i) (simp_all add: power_int_diff)
    also have "\<dots> < of_int a / of_int b"
      using ra(1) rb(2) b by (intro frac_less2) auto
    finally show ?thesis by (simp add: x)
  qed
  have high: "x < 2 powi (int ?i - int ?j + 1)"
  proof -
    have "of_int a / of_int b < (2::rat) ^ ?i / 2 ^ (?j - 1)"
      using ra rb(1) a by (intro frac_less) auto
    also have "\<dots> = 2 powi (int ?i - int ?j + 1)"
      using bounds(6) by (cases ?j) (simp_all add: power_int_diff power_int_add)
    finally show ?thesis by (simp add: x)
  qed
  show "2 powi exponent x \<le> x" "x < 2 powi (exponent x + 1)"
    using low high by (auto simp: exponent_def q Let_def not_le)
qed

lemma quantum_pos [simp]: "0 < quantum x"
  by (simp add: quantum_def)

lemma powi_quantum: "2 powi (exponent x + j) = (2::rat) powi (52 + j) * quantum x"
  by (simp add: quantum_def add.commute flip: power_int_add)

section \<open>Rounding and the numbers that need none\<close>

lemma half_even_ge: "of_int n \<le> m \<Longrightarrow> n \<le> half_even m"
proof -
  assume "of_int n \<le> m"
  then have "n \<le> \<lfloor>m\<rfloor>" by (simp add: le_floor_iff)
  then show ?thesis by (auto simp: half_even_def Let_def)
qed

lemma half_even_le: "m \<le> of_int n \<Longrightarrow> half_even m \<le> n"
proof -
  assume m: "m \<le> of_int n"
  show ?thesis
  proof (cases "m = of_int n")
    case True
    then show ?thesis by (simp add: half_even_def)
  next
    case False
    with m have "\<lfloor>m\<rfloor> < n" by (simp add: floor_less_iff)
    then show ?thesis by (auto simp: half_even_def Let_def)
  qed
qed

lemma double_multiple:
  assumes "double y" "2 powi exponent x \<le> y"
  shows "\<exists>n. y = of_int n * quantum x"
proof -
  obtain m k where y: "y = of_int m * 2 powi k" and m: "\<bar>m\<bar> \<le> 2 ^ 53" using assms(1) by (auto simp: double_def)
  show ?thesis
  proof (cases "exponent x - 52 \<le> k")
    case True
    have "(2::rat) powi k = 2 powi (k - (exponent x - 52)) * quantum x"
      unfolding quantum_def by (subst power_int_add [symmetric]) simp_all
    also have "2 powi (k - (exponent x - 52)) = (of_int (2 ^ nat (k - (exponent x - 52))) :: rat)"
      using True by (simp add: power_int_def)
    finally have "(2::rat) powi k = of_int (2 ^ nat (k - (exponent x - 52))) * quantum x" .
    then have "y = of_int (m * 2 ^ nat (k - (exponent x - 52))) * quantum x"
      unfolding y by (simp only: of_int_mult mult.assoc)
    then show ?thesis by (rule exI)
  next
    case False
    have "of_int m \<le> (2::rat) ^ 53" using m by (metis abs_le_D1 of_int_le_iff of_int_numeral of_int_power)
    then have "y \<le> 2 ^ 53 * 2 powi k" unfolding y by (intro mult_right_mono) auto
    also have "\<dots> = 2 powi (53 + k)" by (simp add: power_int_add)
    also have "\<dots> \<le> 2 powi exponent x" using False by (intro powi_mono) simp
    finally have "y = 2 powi exponent x" using assms(2) by simp
    then have "y = of_int (2 ^ 52) * quantum x" using powi_quantum [of x 0] by simp
    then show ?thesis by blast
  qed
qed

text \<open>Rounding does not move a number across one that needs no rounding.\<close>

lemma round53_ge:
  assumes "double y" "0 < y" "y \<le> x"
  shows "y \<le> round53 x"
proof -
  let ?q = "quantum x" and ?r = "of_int (half_even (x / quantum x)) * quantum x"
  have x: "0 < x" using assms by simp
  have r: "round53 x = ?r" using x by (simp add: round53_def)
  have grid: "of_int n * ?q \<le> ?r" if "of_int n * ?q \<le> x" for n
    using that half_even_ge [of n "x / ?q"] by (simp add: pos_le_divide_eq)
  show ?thesis
  proof (cases "2 powi exponent x \<le> y")
    case True
    then show ?thesis using double_multiple [OF assms(1)] grid assms(3) r by metis
  next
    case False
    have "of_int (2 ^ 52) * ?q \<le> ?r"
      using grid [of "2 ^ 52"] exponent_bounds(1) [OF x] powi_quantum [of x 0] by simp
    moreover have "y \<le> of_int (2 ^ 52) * ?q" using False powi_quantum [of x 0] by simp
    ultimately show ?thesis unfolding r by (rule order_trans [rotated])
  qed
qed

lemma round53_le:
  assumes "double y" "0 < x" "x \<le> y"
  shows "round53 x \<le> y"
proof -
  let ?q = "quantum x" and ?r = "of_int (half_even (x / quantum x)) * quantum x"
  have r: "round53 x = ?r" using assms by (simp add: round53_def)
  have grid: "?r \<le> of_int n * ?q" if "x \<le> of_int n * ?q" for n
    using that half_even_le [of "x / ?q" n] by (simp add: pos_divide_le_eq)
  have "2 powi exponent x \<le> y" using exponent_bounds(1) [OF assms(2)] assms(3) by simp
  then show ?thesis using double_multiple [OF assms(1)] grid assms(3) r by metis
qed

lemma round53_double: "double y \<Longrightarrow> 0 \<le> y \<Longrightarrow> round53 y = y"
  using round53_ge [of y y] round53_le [of y y] by (cases "y = 0") (auto simp: round53_def)

lemma double_int: "\<bar>n\<bar> \<le> 2 ^ 53 \<Longrightarrow> double (of_int n)"
  unfolding double_def by (intro exI [of _ n] exI [of _ "0::int"]) simp

section \<open>Percentages\<close>

text \<open>
  A share of a hundred as Go computes it, \<open>float64(part) * 100 / float64(whole)\<close>: each operation
  rounds.
\<close>

definition percent :: "int \<Rightarrow> int \<Rightarrow> rat" where
  "percent part whole = round53 (round53 (round53 (of_int part) * 100) / round53 (of_int whole))"

lemma round53_nonneg: "0 \<le> x \<Longrightarrow> 0 \<le> round53 x"
  using half_even_ge [of 0 "x / quantum x"] by (auto simp: round53_def less_imp_le intro!: mult_nonneg_nonneg)

lemma double_below: "k \<le> 100 \<Longrightarrow> double (of_nat k - 1 / 2 ^ 46)"
  unfolding double_def
  by (intro exI [of _ "int k * 2 ^ 46 - 1"] exI [of _ "- 46 :: int"]) (simp add: power_int_minus field_simps)

lemma below_by_part:
  assumes "100 * part + 1 \<le> int k * whole" "0 < whole" "whole \<le> 2 ^ 46"
  shows "100 * of_int part / of_int whole \<le> (of_nat k - 1 / 2 ^ 46 :: rat)"
proof -
  have w: "0 < (of_int whole :: rat)" "(of_int whole :: rat) \<le> 2 ^ 46"
    using assms(2,3) of_int_le_iff [of whole "2 ^ 46", where 'a = rat] by simp_all
  have "(of_int (100 * part + 1) :: rat) \<le> of_int (int k * whole)"
    using assms(1) by (simp only: of_int_le_iff)
  then have "(100 * of_int part + 1) / of_int whole \<le> (of_nat k :: rat)"
    using w by (simp add: pos_divide_le_eq)
  moreover have "1 / 2 ^ 46 \<le> 1 / (of_int whole :: rat)"
    using w by (intro divide_left_mono) auto
  ultimately show ?thesis by (simp add: add_divide_distrib)
qed

text \<open>Against a whole number of percents the comparison is exact, up to \<open>2^46\<close> parts.\<close>

lemma percent_exact:
  assumes "0 \<le> part" "part \<le> whole" "0 < whole" "whole \<le> 2 ^ 46" "k \<le> 100"
  shows "of_nat k \<le> percent part whole \<longleftrightarrow> int k * whole \<le> 100 * part"
proof -
  let ?x = "100 * of_int part / of_int whole :: rat"
  have "round53 (of_int part) = of_int part" "round53 (of_int whole) = of_int whole"
    using assms by (auto intro!: round53_double double_int)
  moreover have "round53 (of_int part * 100) = of_int part * 100"
    using assms double_int [of "part * 100"] round53_double [of "of_int (part * 100)"] by simp
  ultimately have p: "percent part whole = round53 ?x" by (simp add: percent_def mult.commute)
  have exact: "of_nat k \<le> ?x \<longleftrightarrow> int k * whole \<le> 100 * part"
  proof -
    have "of_nat k \<le> ?x \<longleftrightarrow> (of_int (int k * whole) :: rat) \<le> of_int (100 * part)"
      using assms(3) by (simp add: pos_le_divide_eq)
    then show ?thesis by (simp only: of_int_le_iff)
  qed
  show ?thesis
  proof
    assume "int k * whole \<le> 100 * part"
    then have "of_nat k \<le> ?x" by (simp add: exact)
    then show "of_nat k \<le> percent part whole"
      using p round53_ge [of "of_nat k" ?x] round53_nonneg [of ?x] double_int [of "int k"] assms by (cases "k = 0") auto
  next
    assume le: "of_nat k \<le> percent part whole"
    show "int k * whole \<le> 100 * part"
    proof (rule ccontr)
      assume "\<not> ?thesis"
      then have less: "100 * part + 1 \<le> int k * whole" by simp
      with assms have k: "1 \<le> k" by (cases k) auto
      have "?x \<le> of_nat k - 1 / 2 ^ 46"
        by (rule below_by_part [OF less assms(3,4)])
      then have "round53 ?x \<le> of_nat k - 1 / 2 ^ 46"
        using round53_le [OF double_below [OF assms(5)], of ?x] k assms by (cases "part = 0") (auto simp: round53_def)
      then show False using le p by simp
    qed
  qed
qed

end
