(* ===== verification/Coverage_Gate.thy ===== *)
theory Coverage_Gate
  imports Runtime_Cmd Go_Float
begin

text \<open>
  \<open>scripts/ci/coverage_gate/main.go\<close>: the coverage of each package, read from the profile that
  \<open>go test\<close> writes, against a threshold, and the report of it. Statements are counted in \<open>int64\<close>
  arithmetic, percentages are \<open>float64\<close> values. Reading a decimal number as a \<open>float64\<close> and
  printing one are arguments.
\<close>

section \<open>Numbers and lines\<close>

text \<open>\<open>strconv.ParseInt(s, 10, 64)\<close>. The digits are read into a \<open>uint64\<close>; the first thing that is wrong is the error.\<close>

definition syntaxError :: "string \<Rightarrow> go_error" where
  "syntaxError s = Wrapped (''strconv.ParseInt: parsing '' @ go_quote s @ '': invalid syntax'') [Sentinel ''invalid syntax'']"

definition rangeError :: "string \<Rightarrow> go_error" where
  "rangeError s = Wrapped (''strconv.ParseInt: parsing '' @ go_quote s @ '': value out of range'') [Sentinel ''value out of range'']"

fun read_uint64 :: "string \<Rightarrow> nat \<Rightarrow> string \<Rightarrow> go_error + nat" where
  "read_uint64 s0 acc [] = Inr acc"
| "read_uint64 s0 acc (c # s) =
     (if 48 \<le> (of_char c :: nat) \<and> (of_char c :: nat) \<le> 57
      then (let n = 10 * acc + ((of_char c :: nat) - 48) in if 2 ^ 64 \<le> n then Inl (rangeError s0) else read_uint64 s0 n s)
      else Inl (syntaxError s0))"

definition ParseInt :: "string \<Rightarrow> go_error + int" where
  "ParseInt s0 =
    (let neg = hasPrefix s0 ''-''; s = (if neg \<or> hasPrefix s0 ''+'' then drop 1 s0 else s0)
     in if s = '''' then Inl (syntaxError s0)
        else then_do (read_uint64 s0 0 s) (\<lambda>n.
          if \<not> neg \<and> 2 ^ 63 \<le> n then Inl (rangeError s0)
          else if neg \<and> 2 ^ 63 < n then Inl (rangeError s0)
          else Inr (if neg then - int n else int n)))"

text \<open>
  \<open>bufio.Scanner\<close> over the lines of a file: the line feed is cut off and a carriage return before
  it, an empty last line is none, and a line of 64 KiB ends the scan with an error.
\<close>

definition ErrTooLong :: go_error where
  "ErrTooLong = Sentinel ''bufio.Scanner: token too long''"

definition drop_cr :: "string \<Rightarrow> string" where
  "drop_cr s = (if hasSuffix s [CHR 0x0D] then butlast s else s)"

definition max_line :: nat where
  "max_line = 65536"

function scan_lines :: "string \<Rightarrow> string list \<times> go_error option" where
  "scan_lines s =
    (if s = '''' then ([], None)
     else
      (let line = takeWhile (\<lambda>c. c \<noteq> CHR 0x0A) s; rest = dropWhile (\<lambda>c. c \<noteq> CHR 0x0A) s
       in if max_line \<le> length line then ([], Some ErrTooLong)
          else if rest = '''' then ([drop_cr line], None)
          else (case scan_lines (tl rest) of (ls, err) \<Rightarrow> (drop_cr line # ls, err))))"
  by pat_completeness auto
termination
proof (relation "measure length", simp)
  fix s line rest :: string
  assume "rest = dropWhile (\<lambda>c. c \<noteq> CHR 0x0A) s" "rest \<noteq> ''''"
  then have "length (tl rest) < length rest" "length rest \<le> length s"
    by (simp_all add: length_dropWhile_le)
  then show "(tl rest, s) \<in> measure length" by simp
qed

declare scan_lines.simps [simp del]

section \<open>The gate\<close>

record gate_env =
  ge_float :: "string \<Rightarrow> go_error + float64"
  ge_show :: "rat \<Rightarrow> string"
  ge_duration :: "string \<Rightarrow> bool"

record packageCoverage =
  pc_Package :: string
  pc_Profile :: string
  ThresholdPercent :: float64
  CoveredPercent :: rat
  pc_Passed :: bool

text \<open>\<open>strings.SplitN(raw, ":", 3)\<close> when it has three parts.\<close>

definition split3 :: "string \<Rightarrow> (string \<times> string \<times> string) option" where
  "split3 raw = (case str_index raw '':'' of
     None \<Rightarrow> None
   | Some i \<Rightarrow>
      (case str_index (drop (i + 1) raw) '':'' of
         None \<Rightarrow> None
       | Some j \<Rightarrow> Some (take i raw, take j (drop (i + 1) raw), drop (i + 1 + j + 1) raw)))"

definition invalid_gate :: "string \<Rightarrow> go_error" where
  "invalid_gate raw = Text (''coverage_gate: invalid gate '' @ go_quote raw)"

definition parseGate :: "gate_env \<Rightarrow> string \<Rightarrow> go_error + string \<times> float64 \<times> string" where
  "parseGate env raw = (case split3 raw of
     None \<Rightarrow> Inl (invalid_gate raw)
   | Some (pkg, number, profile) \<Rightarrow>
      (case ge_float env number of
         Inl e \<Rightarrow> Inl (Wrapped (''coverage_gate: invalid threshold in '' @ go_quote raw @ '': '' @ err_text e) [e])
       | Inr threshold \<Rightarrow>
          if float_lt threshold (Fin 0) \<or> float_lt (Fin 100) threshold
          then Inl (Text (''coverage_gate: threshold must be between 0 and 100 in '' @ go_quote raw))
          else if pkg = '''' \<or> profile = '''' then Inl (invalid_gate raw)
          else Inr (pkg, threshold, profile)))"

text \<open>One line behind the first; the counters are the statements and those that ran.\<close>

definition profile_line :: "string \<Rightarrow> nat \<Rightarrow> string \<Rightarrow> int \<times> int \<Rightarrow> go_error + int \<times> int" where
  "profile_line path lineNo line = (\<lambda>(totalStatements, coveredStatements).
     if line = '''' then Inr (totalStatements, coveredStatements)
     else (case str_fields line of
        [block, stmts_text, runs_text] \<Rightarrow>
         (case ParseInt stmts_text of
            Inl e \<Rightarrow> Inl (Wrapped (''coverage_gate: invalid statement count in '' @ path @ '' line '' @ show_nat lineNo @ '': '' @ err_text e) [e])
          | Inr statements \<Rightarrow>
             (case ParseInt runs_text of
                Inl e \<Rightarrow> Inl (Wrapped (''coverage_gate: invalid execution count in '' @ path @ '' line '' @ show_nat lineNo @ '': '' @ err_text e) [e])
              | Inr runs \<Rightarrow> Inr (add64 totalStatements statements,
                  if 0 < runs then add64 coveredStatements statements else coveredStatements)))
      | _ \<Rightarrow> Inl (Text (''coverage_gate: malformed profile line '' @ show_nat lineNo @ '' in '' @ path))))"

fun profile_loop :: "string \<Rightarrow> nat \<Rightarrow> int \<times> int \<Rightarrow> string list \<Rightarrow> go_error + int \<times> int" where
  "profile_loop path lineNo acc [] = Inr acc"
| "profile_loop path lineNo acc (text_line # ls) =
    (let line = trimSpace text_line; n = Suc lineNo
     in if n = 1
        then if hasPrefix line ''mode:'' then profile_loop path n acc ls
             else Inl (Text (''coverage_gate: invalid coverage profile header in '' @ path))
        else then_do (profile_line path n line acc) (\<lambda>acc1. profile_loop path n acc1 ls))"

definition coverageFromProfile :: "fs \<Rightarrow> string \<Rightarrow> go_error + rat" where
  "coverageFromProfile f path =
     then_do (ReadFile path f) (\<lambda>content. case scan_lines content of (ls, err) \<Rightarrow>
     then_do (profile_loop path 0 (0, 0) ls) (\<lambda>(totalStatements, coveredStatements).
       case err of Some e \<Rightarrow> Inl e
       | None \<Rightarrow>
          if totalStatements = 0 then Inl (Text (''coverage_gate: no statements found in '' @ path))
          else Inr (percent coveredStatements totalStatements)))"

text \<open>The loop over the gates, in order; the first error ends it.\<close>

fun gate_loop :: "gate_env \<Rightarrow> fs \<Rightarrow> string list \<Rightarrow> go_error + packageCoverage list" where
  "gate_loop env f [] = Inr []"
| "gate_loop env f (raw # gates) =
     then_do (parseGate env raw) (\<lambda>(pkg, threshold, profile).
     then_do (coverageFromProfile f profile) (\<lambda>covered.
     then_do (gate_loop env f gates) (\<lambda>items.
       Inr (\<lparr>pc_Package = pkg, pc_Profile = profile, ThresholdPercent = threshold, CoveredPercent = covered,
         pc_Passed = float_le threshold (Fin covered)\<rparr> # items))))"

text \<open>The report; \<open>encoding/json\<close> refuses to print what is not a number.\<close>

definition float_json :: "gate_env \<Rightarrow> float64 \<Rightarrow> go_error + json" where
  "float_json env x = (case x of
     Fin r \<Rightarrow> Inr (JNum (ge_show env r))
   | NaN \<Rightarrow> Inl (Text ''json: unsupported value: NaN'')
   | PosInf \<Rightarrow> Inl (Text ''json: unsupported value: +Inf'')
   | NegInf \<Rightarrow> Inl (Text ''json: unsupported value: -Inf''))"

definition packageCoverage_json :: "gate_env \<Rightarrow> packageCoverage \<Rightarrow> go_error + json" where
  "packageCoverage_json env p = then_do (float_json env (ThresholdPercent p)) (\<lambda>threshold.
     Inr (JObj [(''package'', JStr (pc_Package p)), (''profile'', JStr (pc_Profile p)), (''thresholdPercent'', threshold),
       (''coveredPercent'', JNum (ge_show env (CoveredPercent p))), (''passed'', JBool (pc_Passed p))]))"

fun items_json :: "gate_env \<Rightarrow> packageCoverage list \<Rightarrow> go_error + json list" where
  "items_json env [] = Inr []"
| "items_json env (p # ps) = then_do (packageCoverage_json env p) (\<lambda>j. then_do (items_json env ps) (\<lambda>js. Inr (j # js)))"

definition gate_flags :: flag_set where
  "gate_flags = [(''output'', StringFlag), (''gate'', ListFlag)]"

definition coverage_gate_run :: "gate_env \<Rightarrow> string list \<Rightarrow> fs \<Rightarrow> fs \<times> (go_error + unit)" where
  "coverage_gate_run env args f = (case flag_Parse (ge_duration env) gate_flags args of
     Inl e \<Rightarrow> (f, Inl e)
   | Inr (st, rest) \<Rightarrow>
      (let output = flag_string st ''output'' ''''; gates = flag_values st ''gate''
       in if output = '''' then (f, Inl (Text ''coverage_gate: --output is required''))
          else if gates = [] then (f, Inl (Text ''coverage_gate: at least one --gate is required''))
          else
            then_fs f (gate_loop env f gates) (\<lambda>items.
            then_fs f (items_json env items) (\<lambda>js.
            then_step (writeJSONFile output (JObj [(''packages'', JArr js)]) f) (\<lambda>f1.
              (f1, if \<exists>p\<in>set items. \<not> pc_Passed p
                   then Inl (Text ''coverage_gate: one or more coverage thresholds were not met'') else Inr ()))))))"

end
