(* ===== verification/Coverage_Gate_Props.thy ===== *)
theory Coverage_Gate_Props
  imports Coverage_Gate Runtime_Cmd_Props
begin

text \<open>
  The coverage gate decides by exact arithmetic: for profiles as \<open>go test\<close> writes them and whole
  thresholds, the comparison of rounded percentages is that of the statement counts.
\<close>

section \<open>Words and lines\<close>

definition graphic :: "char \<Rightarrow> bool" where
  "graphic c \<longleftrightarrow> 33 \<le> (of_char c :: nat) \<and> (of_char c :: nat) \<le> 126"

definition word :: "string \<Rightarrow> bool" where
  "word w \<longleftrightarrow> w \<noteq> '''' \<and> (\<forall>c\<in>set w. graphic c)"

lemma lead_graphic: "graphic c \<Longrightarrow> lead_seq space_seqs (c # s) = None"
  unfolding lead_seq_None by (auto simp: space_seqs_def hasPrefix_def graphic_def)

lemma lead_rev_graphic: "graphic c \<Longrightarrow> lead_seq (map rev space_seqs) (c # s) = None"
  unfolding lead_seq_None by (auto simp: space_seqs_def hasPrefix_def graphic_def)

lemma lead_space: "lead_seq space_seqs (CHR '' '' # s) = Some 1"
  by (simp add: space_seqs_def hasPrefix_def)

lemma trimLeft_graphic [simp]: "graphic c \<Longrightarrow> trimLeftSpace (c # s) = c # s"
  by (simp add: trimLeftSpace_def strip_seqs_fix lead_graphic)

lemma trimLeft_space [simp]: "trimLeftSpace (CHR '' '' # s) = trimLeftSpace s"
  by (simp add: trimLeftSpace_def strip_seqs.simps [of _ "CHR '' '' # s"] lead_space)

lemma trimSpace_words: "graphic c \<Longrightarrow> graphic d \<Longrightarrow> trimSpace (c # s @ [d]) = c # s @ [d]"
  by (simp add: trimSpace_def trimRightSpace_def strip_seqs_fix lead_rev_graphic)

lemma word_len_word: "\<forall>c\<in>set w. graphic c \<Longrightarrow> word_len w = length w"
  by (induction w) (auto simp: lead_graphic)

lemma word_len_space: "\<forall>c\<in>set w. graphic c \<Longrightarrow> word_len (w @ CHR '' '' # s) = length w"
  by (induction w) (auto simp: lead_graphic lead_space)

lemma fields_Nil: "str_fields '''' = []"
  by (subst str_fields.simps) (simp add: trimLeftSpace_def strip_seqs_fix lead_seq_None space_seqs_def)

lemma fields_unfold: "word w \<Longrightarrow> str_fields (w @ s) =
    (let n = word_len (w @ s) in take n (w @ s) # str_fields (drop n (w @ s)))"
  by (subst str_fields.simps) (cases w; simp add: word_def Let_def lead_graphic)

lemma fields_word: "word w \<Longrightarrow> str_fields w = [w]"
  using fields_unfold [of w "''''"] by (simp add: word_def word_len_word fields_Nil)

lemma fields_space: "str_fields (CHR '' '' # s) = str_fields s"
  by (subst (1 2) str_fields.simps) simp

lemma fields_cons: "word w \<Longrightarrow> str_fields (w @ CHR '' '' # s) = w # str_fields s"
  using fields_unfold [of w "CHR '' '' # s"] by (simp add: word_def word_len_space fields_space)

subsection \<open>Numbers\<close>

lemma show_nat_digits: "c \<in> set (show_nat n) \<Longrightarrow> \<exists>d<10. c = digit_char d"
proof (induction n rule: show_nat.induct)
  case (1 n)
  then show ?case
  proof (cases "n < 10")
    case True
    with "1.prems" show ?thesis by (auto simp: show_nat.simps [of n])
  next
    case False
    with 1 show ?thesis by (auto simp: show_nat.simps [of n] intro: exI [of _ "n mod 10"])
  qed
qed

lemma show_nat_nonempty: "show_nat n \<noteq> ''''"
  by (simp add: show_nat.simps [of n])

lemma graphic_digit: "d < 10 \<Longrightarrow> graphic (digit_char d)"
  by (simp add: graphic_def of_digit_char)

lemma word_show_nat: "word (show_nat n)"
  by (auto simp: word_def show_nat_nonempty graphic_digit dest: show_nat_digits)

lemma read_nat_mono: "read_nat acc s = Some n \<Longrightarrow> acc \<le> n"
  by (induction acc s rule: read_nat.induct) (auto split: if_splits)

lemma read_uint64_nat: "read_nat acc s = Some n \<Longrightarrow> n < 2 ^ 64 \<Longrightarrow> read_uint64 s0 acc s = Inr n"
proof (induction acc s rule: read_nat.induct)
  case (2 acc c s)
  then have "read_nat (10 * acc + (of_char c - 48)) s = Some n" by (simp split: if_splits)
  then have "10 * acc + ((of_char c :: nat) - 48) \<le> n" by (rule read_nat_mono)
  with 2 show ?case by (simp add: Let_def split: if_splits)
qed simp

lemma no_sign: "d < 10 \<Longrightarrow> digit_char d \<noteq> CHR ''-'' \<and> digit_char d \<noteq> CHR ''+''"
  using of_digit_char [of d] by auto

lemma ParseInt_show: 
  assumes "n < 2 ^ 63"
  shows "ParseInt (show_nat n) = Inr (int n)"
proof -
  obtain c s where s: "show_nat n = c # s" using show_nat_nonempty by (metis neq_Nil_conv)
  then obtain d where d: "d < 10" "c = digit_char d" using show_nat_digits [of c n] by auto
  have "\<not> hasPrefix (show_nat n) ''-''" "\<not> hasPrefix (show_nat n) ''+''"
    using s d no_sign [of d] by auto
  moreover have "read_uint64 (show_nat n) 0 (show_nat n) = Inr n"
    using read_uint64_nat [OF read_show_nat] assms by simp
  ultimately show ?thesis
    using assms by (simp add: ParseInt_def show_nat_nonempty then_do_def Let_def)
qed

subsection \<open>Lines\<close>

definition plain_line :: "string \<Rightarrow> bool" where
  "plain_line l \<longleftrightarrow> CHR 0x0A \<notin> set l \<and> \<not> hasSuffix l [CHR 0x0D] \<and> length l < max_line"

lemma until_char: "x \<notin> set l \<Longrightarrow> takeWhile (\<lambda>c. c \<noteq> x) (l @ x # r) = l"
  "x \<notin> set l \<Longrightarrow> dropWhile (\<lambda>c. c \<noteq> x) (l @ x # r) = x # r"
  by (induction l) auto

lemma scan_lines_text: "\<forall>l\<in>set ls. plain_line l \<Longrightarrow> scan_lines (concat (map (\<lambda>l. l @ [CHR 0x0A]) ls)) = (ls, None)"
proof (induction ls)
  case Nil
  then show ?case by (simp add: scan_lines.simps)
next
  case (Cons l ls)
  let ?rest = "concat (map (\<lambda>l. l @ [CHR 0x0A]) ls)"
  have l: "CHR 0x0A \<notin> set l" "\<not> hasSuffix l [CHR 0x0D]" "length l < max_line" using Cons.prems by (auto simp: plain_line_def)
  show ?case
    using Cons l until_char [OF l(1), of ?rest] by (simp add: scan_lines.simps [of "l @ CHR 0x0A # ?rest"] drop_cr_def)
qed

section \<open>Profiles\<close>

text \<open>
  A profile as the Go tools write it: the mode, then a line for each block of code with its place,
  its number of statements and how often it ran.
\<close>

type_synonym block = "string \<times> nat \<times> nat"

definition block_line :: "block \<Rightarrow> string" where
  "block_line = (\<lambda>(place, n, runs). place @ '' '' @ show_nat n @ '' '' @ show_nat runs)"

definition profile_text :: "block list \<Rightarrow> string" where
  "profile_text blocks = concat (map (\<lambda>l. l @ [CHR 0x0A]) (''mode: atomic'' # map block_line blocks))"

definition statements :: "block list \<Rightarrow> nat" where
  "statements blocks = sum_list (map (\<lambda>(place, n, runs). n) blocks)"

definition covered :: "block list \<Rightarrow> nat" where
  "covered blocks = statements (filter (\<lambda>(place, n, runs). 0 < runs) blocks)"

definition block_ok :: "block \<Rightarrow> bool" where
  "block_ok = (\<lambda>(place, n, runs). word place \<and> runs < 2 ^ 63 \<and> length (block_line (place, n, runs)) < max_line)"

definition profile_ok :: "block list \<Rightarrow> bool" where
  "profile_ok blocks \<longleftrightarrow> (\<forall>b\<in>set blocks. block_ok b) \<and> 0 < statements blocks \<and> statements blocks \<le> 2 ^ 46"

lemma statements_simps [simp]: "statements [] = 0" "statements ((place, n, runs) # bs) = n + statements bs"
  by (simp_all add: statements_def)

lemma covered_simps [simp]: "covered [] = 0" "covered ((place, n, runs) # bs) = (if 0 < runs then n else 0) + covered bs"
  by (simp_all add: covered_def)

lemma covered_le: "covered blocks \<le> statements blocks"
  by (induction blocks) auto

lemma word_ends: "word w \<Longrightarrow> \<exists>c s. w = c # s \<and> graphic c" "word w \<Longrightarrow> \<exists>s d. w = s @ [d] \<and> graphic d"
  by (cases w; auto simp: word_def) (cases w rule: rev_cases; auto simp: word_def)

lemma block_line_shape:
  assumes "block_ok b"
  shows "\<exists>c s d. block_line b = c # s @ [d] \<and> graphic c \<and> graphic d"
proof -
  obtain place n runs where b: "b = (place, n, runs)" by (cases b)
  obtain c s where "place = c # s" "graphic c" using word_ends(1) [of place] assms b by (auto simp: block_ok_def)
  moreover obtain t d where "show_nat runs = t @ [d]" "graphic d" using word_ends(2) [OF word_show_nat] by blast
  ultimately show ?thesis by (auto simp: b block_line_def)
qed

lemma trim_block: "block_ok b \<Longrightarrow> trimSpace (block_line b) = block_line b \<and> block_line b \<noteq> ''''"
  using block_line_shape [of b] by (auto simp: trimSpace_words)

lemma plain_block: 
  assumes "block_ok b"
  shows "plain_line (block_line b)"
proof -
  obtain c s d where s: "block_line b = (c # s) @ [d]" "graphic d" using block_line_shape [OF assms] by auto
  obtain place n runs where b: "b = (place, n, runs)" by (cases b)
  have "\<forall>x\<in>set (block_line b). graphic x \<or> x = CHR '' ''"
    using assms word_show_nat by (auto simp: b block_ok_def block_line_def word_def)
  moreover have "\<not> graphic (CHR 0x0A)" "\<not> graphic (CHR 0x0D)" by (simp_all add: graphic_def)
  ultimately have "CHR 0x0A \<notin> set (block_line b)" "\<not> hasSuffix (block_line b) [CHR 0x0D]"
    using s by (auto simp: hasSuffix_def)
  then show ?thesis using assms by (simp add: plain_line_def b block_ok_def)
qed

lemma fields_block: "block_ok (place, n, runs) \<Longrightarrow> str_fields (block_line (place, n, runs)) = [place, show_nat n, show_nat runs]"
  by (simp add: block_ok_def block_line_def fields_cons fields_word word_show_nat)

lemma add64_nat: "m + n < 2 ^ 63 \<Longrightarrow> add64 (int m) (int n) = int (m + n)"
  by (simp add: add64_def)

lemma profile_loop_blocks:
  assumes "\<forall>b\<in>set blocks. block_ok b" "m + statements blocks < 2 ^ 63" "k \<le> m" "0 < lineNo"
  shows "profile_loop path lineNo (int m, int k) (map block_line blocks) = Inr (int (m + statements blocks), int (k + covered blocks))"
  using assms
proof (induction blocks arbitrary: m k lineNo)
  case (Cons b bs)
  obtain place n runs where b: "b = (place, n, runs)" by (cases b)
  have ok: "block_ok (place, n, runs)" using Cons.prems b by simp
  have small: "m + n < 2 ^ 63" "n < 2 ^ 63" "k + n < 2 ^ 63" using Cons.prems by (auto simp: b)
  have "runs < 2 ^ 63" using ok by (simp add: block_ok_def)
  then have "profile_line path (Suc lineNo) (block_line b) (int m, int k) = Inr (int (m + n), int (if 0 < runs then k + n else k))"
    using trim_block [OF ok] small by (simp add: profile_line_def b fields_block [OF ok] ParseInt_show add64_nat)
  moreover have "profile_loop path (Suc lineNo) (int (m + n), int (if 0 < runs then k + n else k)) (map block_line bs) =
      Inr (int (m + n + statements bs), int ((if 0 < runs then k + n else k) + covered bs))"
    using Cons.prems by (intro Cons.IH) (auto simp: b)
  ultimately show ?case
    using Cons.prems trim_block [OF ok] by (simp add: b Let_def then_do_def)
qed simp

lemma mode_line: "plain_line ''mode: atomic''" "hasPrefix (trimSpace ''mode: atomic'') ''mode:''"
  by (simp add: plain_line_def hasSuffix_def max_line_def) code_simp

lemma coverage_percent:
  assumes "profile_ok blocks" "ReadFile path f = Inr (profile_text blocks)"
  shows "coverageFromProfile f path = Inr (percent (int (covered blocks)) (int (statements blocks)))"
proof -
  have ok: "\<forall>b\<in>set blocks. block_ok b" "0 < statements blocks" "statements blocks < 2 ^ 63" using assms(1) by (auto simp: profile_ok_def)
  have "scan_lines (profile_text blocks) = (''mode: atomic'' # map block_line blocks, None)"
    unfolding profile_text_def by (rule scan_lines_text) (use ok(1) in \<open>auto simp: mode_line plain_block\<close>)
  moreover have "profile_loop path 0 (0, 0) (''mode: atomic'' # map block_line blocks) = Inr (int (statements blocks), int (covered blocks))"
    using profile_loop_blocks [of blocks 0 0 1 path] ok by (simp add: mode_line Let_def)
  ultimately show ?thesis
    using assms(2) ok(2) by (simp add: coverageFromProfile_def then_do_def)
qed

section \<open>Gates\<close>

text \<open>A gate with a whole threshold, as an argument and as what it stands for.\<close>

type_synonym gate = "string \<times> nat \<times> string"

definition gate_arg :: "gate \<Rightarrow> string" where
  "gate_arg = (\<lambda>(pkg, k, profile). pkg @ '':'' @ show_nat k @ '':'' @ profile)"

definition gate_ok :: "gate_env \<Rightarrow> gate \<Rightarrow> bool" where
  "gate_ok env = (\<lambda>(pkg, k, profile). pkg \<noteq> '''' \<and> CHR '':'' \<notin> set pkg \<and> k \<le> 100 \<and> profile \<noteq> '''' \<and>
     ge_float env (show_nat k) = Inr (Fin (of_nat k)))"

definition gate_met :: "gate \<Rightarrow> block list \<Rightarrow> bool" where
  "gate_met = (\<lambda>(pkg, k, profile) blocks. k * statements blocks \<le> 100 * covered blocks)"

definition gate_item :: "gate \<Rightarrow> block list \<Rightarrow> packageCoverage" where
  "gate_item = (\<lambda>(pkg, k, profile) blocks. \<lparr>pc_Package = pkg, pc_Profile = profile, ThresholdPercent = Fin (of_nat k),
     CoveredPercent = percent (int (covered blocks)) (int (statements blocks)), pc_Passed = gate_met (pkg, k, profile) blocks\<rparr>)"

lemma gate_item_verdict: "pc_Passed (gate_item g blocks) = gate_met g blocks"
  by (cases g) (simp add: gate_item_def)

lemma no_colon: "CHR '':'' \<notin> set (show_nat k)"
proof
  assume "CHR '':'' \<in> set (show_nat k)"
  then obtain d where d: "d < 10" "CHR '':'' = digit_char d" using show_nat_digits by blast
  have "(of_char (CHR '':'') :: nat) = 48 + d" unfolding d(2) using d(1) by (rule of_digit_char)
  then show False using d(1) by simp
qed

lemma split_gate: "CHR '':'' \<notin> set pkg \<Longrightarrow> split3 (gate_arg (pkg, k, profile)) = Some (pkg, show_nat k, profile)"
  using str_index_char [OF no_colon, of k profile] by (simp add: split3_def gate_arg_def str_index_char)

lemma parse_gate: "gate_ok env (pkg, k, profile) \<Longrightarrow> parseGate env (gate_arg (pkg, k, profile)) = Inr (pkg, Fin (of_nat k), profile)"
  by (auto simp: parseGate_def split_gate gate_ok_def float_lt_def)

lemma gate_item_passed:
  assumes "profile_ok blocks" "k \<le> 100"
  shows "of_nat k \<le> percent (int (covered blocks)) (int (statements blocks)) \<longleftrightarrow> gate_met (pkg, k, profile) blocks"
proof -
  have "of_nat k \<le> percent (int (covered blocks)) (int (statements blocks)) \<longleftrightarrow> int k * int (statements blocks) \<le> 100 * int (covered blocks)"
    using assms covered_le [of blocks] by (intro percent_exact) (auto simp: profile_ok_def)
  also have "\<dots> \<longleftrightarrow> int (k * statements blocks) \<le> int (100 * covered blocks)" by simp
  finally show ?thesis by (simp only: of_nat_le_iff gate_met_def split_conv)
qed

definition profile_at :: "fs \<Rightarrow> gate \<Rightarrow> block list \<Rightarrow> bool" where
  "profile_at f = (\<lambda>(pkg, k, profile) blocks. profile_ok blocks \<and> ReadFile profile f = Inr (profile_text blocks))"

lemma gate_loop_items:
  "list_all2 (profile_at f) gates profiles \<Longrightarrow> \<forall>g\<in>set gates. gate_ok env g \<Longrightarrow>
   gate_loop env f (map gate_arg gates) = Inr (map2 gate_item gates profiles)"
proof (induction gates profiles rule: list_all2_induct)
  case (Cons g gs blocks ps)
  obtain pkg k profile where g: "g = (pkg, k, profile)" by (cases g)
  have "k \<le> 100" "gate_ok env (pkg, k, profile)" using Cons.prems g by (auto simp: gate_ok_def)
  moreover have "profile_ok blocks" "ReadFile profile f = Inr (profile_text blocks)"
    using Cons.hyps(1) g by (auto simp: profile_at_def)
  ultimately show ?case
    using Cons by (simp add: g parse_gate coverage_percent then_do_def gate_item_def gate_item_passed [of blocks k pkg profile])
qed simp

definition item_json :: "gate_env \<Rightarrow> gate \<Rightarrow> block list \<Rightarrow> json" where
  "item_json env = (\<lambda>(pkg, k, profile) blocks. JObj [(''package'', JStr pkg), (''profile'', JStr profile),
     (''thresholdPercent'', JNum (ge_show env (of_nat k))),
     (''coveredPercent'', JNum (ge_show env (percent (int (covered blocks)) (int (statements blocks))))),
     (''passed'', JBool (gate_met (pkg, k, profile) blocks))])"

lemma gate_items_json: "items_json env (map (\<lambda>(g, b). gate_item g b) gs) = Inr (map (\<lambda>(g, b). item_json env g b) gs)"
proof -
  have "packageCoverage_json env (gate_item g b) = Inr (item_json env g b)" for g b
    by (cases g) (simp add: packageCoverage_json_def gate_item_def item_json_def float_json_def then_do_def)
  then show ?thesis
    by (induction gs) (auto simp: then_do_def)
qed

lemma gate_args:
  "flag_Parse duration gate_flags (''--output'' # out # concat (map (\<lambda>g. [''--gate'', g]) gates)) =
     Inr ((''output'', out) # map (Pair ''gate'') gates, [])"
  using output_list_args [of gate_flags "''gate''" duration out gates] by (simp add: gate_flags_def flag_name_def)

section \<open>The decision\<close>

text \<open>C39: The coverage gate decides by the statement counts. Every profile is one as the Go tools write
  it with some statements and at most \<open>2^46\<close> of them, every threshold a whole number of percents
  that is read as that number, and the report can be written. Then \<open>coverage_gate\<close> succeeds exactly
  when in every gate the covered statements times a hundred are at least the threshold times all
  statements, as if nothing were rounded, although it compares quotients of \<open>float64\<close> values; in
  either case the report is written first and has for each gate, in order, its package, profile,
  threshold, percentage and whether it was met.\<close>

theorem coverage_gate_exact:
  assumes "list_all2 (profile_at f) gates profiles" "gates \<noteq> []" "\<forall>g\<in>set gates. gate_ok env g" "out \<noteq> ''''"
    and "WriteFile out (marshalPretty (JObj [(''packages'', JArr (map2 (item_json env) gates profiles))])) f = Inr f1"
  shows "coverage_gate_run env ([''--output'', out] @ concat (map (\<lambda>g. [''--gate'', gate_arg g]) gates)) f =
    (f1, if list_all2 gate_met gates profiles then Inr ()
         else Inl (Text ''coverage_gate: one or more coverage thresholds were not met''))"
proof -
  have len: "length gates = length profiles" using assms(1) by (rule list_all2_lengthD)
  have parse: "flag_Parse (ge_duration env) gate_flags ([''--output'', out] @ concat (map (\<lambda>g. [''--gate'', gate_arg g]) gates)) =
      Inr ((''output'', out) # map (Pair ''gate'') (map gate_arg gates), [])"
    using gate_args [of "ge_duration env" out "map gate_arg gates"] by (simp add: comp_def)
  have passed: "(\<exists>p\<in>set (map2 gate_item gates profiles). \<not> pc_Passed p) \<longleftrightarrow> \<not> list_all2 gate_met gates profiles"
    using len by (simp add: list_all2_iff case_prod_beta gate_item_verdict)
  have "coverage_gate_run env ([''--output'', out] @ concat (map (\<lambda>g. [''--gate'', gate_arg g]) gates)) f =
      (f1, if \<exists>p\<in>set (map2 gate_item gates profiles). \<not> pc_Passed p
           then Inl (Text ''coverage_gate: one or more coverage thresholds were not met'') else Inr ())"
    using assms(2,4,5) gate_loop_items [OF assms(1,3)] gate_items_json [of env "zip gates profiles"]
    unfolding coverage_gate_run_def parse
    by (simp add: Let_def flag_string_def output_list_values then_fs_def then_step_def writeJSONFile_def put_file_def
        del: map_map list.map_comp)
  then show ?thesis by (simp only: passed if_not_P split: if_split) simp
qed

section \<open>An example\<close>

definition demo_gate_env :: gate_env where
  "demo_gate_env = \<lparr>ge_float = (\<lambda>s. case read_nat 0 s of Some n \<Rightarrow> Inr (Fin (of_nat n)) | None \<Rightarrow> Inl io_EOF),
     ge_show = (\<lambda>r. show_int \<lfloor>r\<rfloor>), ge_duration = (\<lambda>_. True)\<rparr>"

definition demo_gates :: "gate list" where
  "demo_gates = [(''.'', 85, ''/r''), (''./internal/router'', 90, ''/s'')]"

definition demo_profiles :: "block list list" where
  "demo_profiles = [[(''a.go:1.1,2.2'', 17, 4), (''a.go:3.1,4.2'', 3, 0)], [(''b.go:1.1,2.2'', 8, 1), (''b.go:3.1,4.2'', 2, 0)]]"

definition demo_coverage_fs :: fs where
  "demo_coverage_fs p = (if p = ''/'' then Some DirNode else if p = ''/r'' then Some (FileNode (profile_text (demo_profiles ! 0)) 420)
     else if p = ''/s'' then Some (FileNode (profile_text (demo_profiles ! 1)) 420) else None)"

lemma demo_gates_ok: "\<forall>g\<in>set demo_gates. gate_ok demo_gate_env g"
  by (simp add: demo_gates_def gate_ok_def demo_gate_env_def read_show_nat)

lemma demo_profiles_ok: "list_all2 (profile_at demo_coverage_fs) demo_gates demo_profiles"
  by (simp add: demo_gates_def demo_profiles_def profile_at_def profile_ok_def block_ok_def word_def graphic_def block_line_def
      show_nat.simps max_line_def ReadFile_def demo_coverage_fs_def)

lemma demo_gates_met: "\<not> list_all2 gate_met demo_gates demo_profiles" "gate_met (demo_gates ! 0) (demo_profiles ! 0)"
  by (simp_all add: demo_gates_def demo_profiles_def gate_met_def)

theorem coverage_gate_exact_witness:
  "\<exists>f1. coverage_gate_run demo_gate_env ([''--output'', ''/o''] @ concat (map (\<lambda>g. [''--gate'', gate_arg g]) demo_gates)) demo_coverage_fs =
     (f1, Inl (Text ''coverage_gate: one or more coverage thresholds were not met'')) \<and>
   f1 ''/o'' = Some (FileNode (marshalPretty (JObj [(''packages'', JArr (map2 (item_json demo_gate_env) demo_gates demo_profiles))])) 420)"
proof -
  let ?d = "marshalPretty (JObj [(''packages'', JArr (map2 (item_json demo_gate_env) demo_gates demo_profiles))])"
  have "path_Dir ''/o'' = ''/''" by code_simp
  then have "WriteFile ''/o'' ?d demo_coverage_fs = Inr (demo_coverage_fs(''/o'' \<mapsto> FileNode ?d 420))"
    by (simp add: WriteFile_def demo_coverage_fs_def)
  from coverage_gate_exact [OF demo_profiles_ok _ demo_gates_ok _ this] show ?thesis
    using demo_gates_met(1) by (simp add: demo_gates_def)
qed

end
