(* ===== verification/Online_Install.thy ===== *)
theory Online_Install
  imports Install_Inputs
begin

text \<open>
  The HTTP side of an installation in \<open>internal/runtimebin/installer.go\<close>: the client it builds, its
  redirect policy and the errors it reports, over a model of how \<open>net/http\<close> follows redirects. URLs
  are parsed and printed by arguments; the server is an argument that answers every URL.
\<close>

section \<open>Clients\<close>

record url =
  u_Scheme :: string
  u_User :: "string option"
  u_Host :: string
  u_Path :: string
  u_RawQuery :: string
  u_Fragment :: string

record net =
  n_Parse :: "string \<Rightarrow> go_error + url"
  n_String :: "url \<Rightarrow> string"

text \<open>A policy is asked for the next URL and those already requested, the oldest first.\<close>

type_synonym policy = "string \<Rightarrow> string list \<Rightarrow> go_error option"

record http_client =
  hc_Timeout :: int
  hc_CheckRedirect :: "policy option"

definition DefaultHTTPTimeout :: int where
  "DefaultHTTPTimeout = 300000000000"

definition withTimeoutHTTPClient :: "http_client option \<Rightarrow> int \<Rightarrow> http_client" where
  "withTimeoutHTTPClient client timeout =
    (let t = (if timeout \<le> 0 then DefaultHTTPTimeout else timeout)
     in case client of
          None \<Rightarrow> \<lparr>hc_Timeout = t, hc_CheckRedirect = None\<rparr>
        | Some c \<Rightarrow> if hc_Timeout c = 0 then c\<lparr>hc_Timeout := t\<rparr> else c)"

definition too_many_redirects :: go_error where
  "too_many_redirects = Text ''stopped after 10 redirects''"

definition redirect_policy :: "net \<Rightarrow> policy option \<Rightarrow> policy" where
  "redirect_policy net basePolicy req via =
    (case n_Parse net req of
       Inl e \<Rightarrow> Some (Text ''runtimebin: redirected to non-https URL'')
     | Inr u \<Rightarrow>
        if u_Scheme u \<noteq> ''https'' then Some (Text ''runtimebin: redirected to non-https URL'')
        else if via \<noteq> [] \<and> (case n_Parse net (List.hd via) of Inl _ \<Rightarrow> False | Inr first \<Rightarrow> \<not> equalFold (u_Host first) (u_Host u))
        then Some (Text (''runtimebin: redirected to unexpected host '' @ go_quote (u_Host u)))
        else case basePolicy of
            Some p \<Rightarrow> p req via
          | None \<Rightarrow> if 10 \<le> length via then Some too_many_redirects else None)"

definition withSecureRedirectPolicy :: "net \<Rightarrow> http_client \<Rightarrow> http_client" where
  "withSecureRedirectPolicy net client = client\<lparr>hc_CheckRedirect := Some (redirect_policy net (hc_CheckRedirect client))\<rparr>"

section \<open>Requests\<close>

text \<open>
  What the server answers, and how \<open>Client.Do\<close> goes on: a redirect is followed when the policy, or
  without one the limit of ten requests, lets it. The value is the list of the URLs requested and
  the outcome; a policy that never stops may keep the loop running. A refused redirect is an
  error about its location.
\<close>

datatype answer =
    Answered response
  | Moved string
  | Unanswered go_error

definition client_policy :: "http_client \<Rightarrow> policy" where
  "client_policy c req via = (case hc_CheckRedirect c of
     Some p \<Rightarrow> p req via
   | None \<Rightarrow> if 10 \<le> length via then Some too_many_redirects else None)"

datatype url_error = UrlError string go_error

partial_function (option) client_Do ::
  "http_client \<Rightarrow> (string \<Rightarrow> answer) \<Rightarrow> string list \<Rightarrow> string \<Rightarrow> (string list \<times> (url_error + response)) option" where
  "client_Do c ask via req = (case ask req of
     Answered r \<Rightarrow> Some (via @ [req], Inr r)
   | Unanswered e \<Rightarrow> Some (via @ [req], Inl (UrlError req e))
   | Moved loc \<Rightarrow>
      (case client_policy c loc (via @ [req]) of
         Some e \<Rightarrow> Some (via @ [req], Inl (UrlError loc e))
       | None \<Rightarrow> client_Do c ask (via @ [req]) loc))"

declare client_Do.simps [code]

definition sanitizeURL :: "net \<Rightarrow> string \<Rightarrow> string" where
  "sanitizeURL net raw = (case n_Parse net raw of
     Inl e \<Rightarrow> ''<redacted-url>''
   | Inr u \<Rightarrow> n_String net (u\<lparr>u_User := None, u_RawQuery := '''', u_Fragment := ''''\<rparr>))"

definition sanitizeRequestError :: "net \<Rightarrow> url_error \<Rightarrow> go_error" where
  "sanitizeRequestError net e = (case e of UrlError u err \<Rightarrow> Text (''Get '' @ sanitizeURL net u @ '': '' @ err_text err))"

text \<open>The client of an installation, and the world of \<open>Install_Inputs\<close> in which it asks.\<close>

definition install_client :: "net \<Rightarrow> int \<Rightarrow> http_client" where
  "install_client net timeout = withSecureRedirectPolicy net (withTimeoutHTTPClient None timeout)"

definition asks_with :: "net \<Rightarrow> http_client \<Rightarrow> (string \<Rightarrow> answer) \<Rightarrow> world \<Rightarrow> bool" where
  "asks_with net c ask w \<longleftrightarrow> w_Parse w = (\<lambda>u. map_sum id (\<lambda>p. (u_Scheme p, u_Host p)) (n_Parse net u)) \<and>
     w_sanitizeURL w = sanitizeURL net \<and>
     (\<forall>u. \<exists>urls res. client_Do c ask [] u = Some (urls, res) \<and> w_Do w u = map_sum (sanitizeRequestError net) id res)"

definition requested :: "http_client \<Rightarrow> (string \<Rightarrow> answer) \<Rightarrow> string \<Rightarrow> string set" where
  "requested c ask u = (case client_Do c ask [] u of Some (urls, res) \<Rightarrow> set urls | None \<Rightarrow> {})"

section \<open>Every request stays on one host\<close>

definition on_host :: "net \<Rightarrow> string \<Rightarrow> string \<Rightarrow> bool" where
  "on_host net host u \<longleftrightarrow> (\<exists>p. n_Parse net u = Inr p \<and> u_Scheme p = ''https'' \<and> equalFold host (u_Host p))"

lemma install_policy:
  "client_policy (install_client net timeout) = redirect_policy net None"
  by (rule ext)+ (simp add: client_policy_def install_client_def withSecureRedirectPolicy_def withTimeoutHTTPClient_def Let_def)

lemma policy_allows:
  assumes "redirect_policy net None req via = None" "via \<noteq> []" "on_host net host (List.hd via)"
  shows "on_host net host req" "length via < 10"
  using assms by (auto simp: redirect_policy_def on_host_def equalFold_def split: sum.splits if_splits)

text \<open>The loop ends within ten requests, all on the host of the first.\<close>

lemma client_Do_ends:
  assumes "length via < 10" "\<forall>v\<in>set via. on_host net host v" "on_host net host req"
  shows "\<exists>urls res. client_Do (install_client net timeout) ask via req = Some (urls, res) \<and> length urls \<le> 10 \<and> (\<forall>v\<in>set urls. on_host net host v)"
  using assms
proof (induction "10 - length via" arbitrary: via req rule: less_induct)
  case less
  let ?via = "via @ [req]"
  have on: "\<forall>v\<in>set ?via. on_host net host v" using less.prems by auto
  show ?case
  proof (cases "\<exists>loc. ask req = Moved loc \<and> client_policy (install_client net timeout) loc ?via = None")
    case False
    then show ?thesis using less.prems(1) on
      by (subst client_Do.simps) (auto split: answer.splits option.splits)
  next
    case True
    then obtain loc where loc: "ask req = Moved loc" "redirect_policy net None loc ?via = None" by (auto simp: install_policy)
    have "on_host net host (List.hd ?via)" using on by (cases via) auto
    note allowed = policy_allows [OF loc(2) _ this]
    have "\<exists>urls res. client_Do (install_client net timeout) ask ?via loc = Some (urls, res) \<and> length urls \<le> 10 \<and> (\<forall>v\<in>set urls. on_host net host v)"
      by (rule less.hyps) (use allowed on less.prems(1) in auto)
    then show ?thesis using loc by (subst client_Do.simps) (simp add: install_policy)
  qed
qed

end
