(* ===== verification/Online_Install_Props.thy ===== *)
theory Online_Install_Props
  imports Online_Install Release_Props
begin

text \<open>An online installation asks one host only, over HTTPS.\<close>

section \<open>The hosts of an installation\<close>

lemma same_host:
  assumes "enforceSameHostPolicy parse [a, b, c] = None"
  shows "\<exists>ha hb hc. parse a = Inr (''https'', ha) \<and> parse b = Inr (''https'', hb) \<and> parse c = Inr (''https'', hc) \<and>
    (ha \<noteq> '''' \<longrightarrow> equalFold ha hb \<and> equalFold ha hc)"
  using assms by (auto simp: enforceSameHostPolicy_def split: sum.splits if_splits prod.splits)

lemma parsed: "asks_with net c ask w \<Longrightarrow> w_Parse w u = Inr (scheme, host) \<longleftrightarrow> (\<exists>p. n_Parse net u = Inr p \<and> u_Scheme p = scheme \<and> u_Host p = host)"
  by (cases "n_Parse net u") (auto simp: asks_with_def)

lemma download_answered:
  assumes "downloadURL w u maxBytes = Inr d" "asks_with net c ask w"
  shows "\<exists>urls r. client_Do c ask [] u = Some (urls, Inr r)"
proof -
  obtain urls res where res: "client_Do c ask [] u = Some (urls, res)" "w_Do w u = map_sum (sanitizeRequestError net) id res"
    using assms(2) unfolding asks_with_def by metis
  then show ?thesis using assms(1) by (cases res) (auto simp: downloadURL_def Let_def)
qed

lemma online_inputs:
  assumes "resolveInstallInputs w opts target = Inr inputs"
    "in_ManifestPath opts = '''' \<or> in_SignaturePath opts = '''' \<or> in_ArchivePath opts = ''''"
  obtains mURL sURL rec d1 d2 d3 n1 n2 n3 where "input_urls opts = Inr (mURL, sURL)" "Manifest_Target (ii_Manifest inputs) (Triple target) = Inr rec"
    "enforceSameHostPolicy (w_Parse w) [mURL, sURL, archive_url opts rec] = None"
    "downloadURL w mURL n1 = Inr d1" "downloadURL w sURL n2 = Inr d2" "downloadURL w (archive_url opts rec) n3 = Inr d3"
  using assms
  by (auto simp: resolveInstallInputs_def download_manifest_def download_archive_def split: if_splits sum.splits prod.splits option.splits)


section \<open>An example\<close>

text \<open>A server that has moved the manifest.\<close>

definition demo_net :: net where
  "demo_net = \<lparr>n_Parse = (\<lambda>u. if hasPrefix u ''https://h'' then Inr \<lparr>u_Scheme = ''https'', u_User = None, u_Host = ''h'',
       u_Path = drop 9 u, u_RawQuery = '''', u_Fragment = ''''\<rparr> else Inl io_EOF),
     n_String = (\<lambda>u. u_Scheme u @ ''://'' @ u_Host u @ u_Path u)\<rparr>"

definition demo_ask :: "string \<Rightarrow> answer" where
  "demo_ask u = (if u = ''https://h/codex-sdk-go-runtime-manifest.json'' then Moved ''https://h/m''
     else Answered \<lparr>rs_StatusCode = 200, rs_Status = ''200 OK'', rs_ContentLength = 1, rs_Body = ''b'', rs_BodyErr = None\<rparr>)"

definition demo_client :: http_client where
  "demo_client = install_client demo_net 0"

definition demo_online :: world where
  "demo_online = demo_world\<lparr>w_Parse := (\<lambda>u. map_sum id (\<lambda>p. (u_Scheme p, u_Host p)) (n_Parse demo_net u)),
     w_sanitizeURL := sanitizeURL demo_net, w_CreateTemp := Inr ''/t'',
     w_Do := (\<lambda>u. case client_Do demo_client demo_ask [] u of Some (urls, res) \<Rightarrow> map_sum (sanitizeRequestError demo_net) id res
       | None \<Rightarrow> Inl io_EOF)\<rparr>"

definition demo_online_options :: input_options where
  "demo_online_options = \<lparr>in_ManifestPath = '''', in_SignaturePath = '''', in_ArchivePath = '''', in_ManifestURL = '''', in_SignatureURL = '''',
     in_BaseURL = ''https://h/'', in_MaxArchiveBytes = 100\<rparr>"

definition demo_online_target :: TargetSpec where
  "demo_online_target = supportedTargets ! 0"

lemma demo_follow: "\<exists>urls res. client_Do demo_client demo_ask [] u = Some (urls, res)"
proof (cases "\<exists>loc. demo_ask u = Moved loc")
  case False
  then show ?thesis by (subst client_Do.simps) (auto split: answer.splits)
next
  case True
  then have "u = ''https://h/codex-sdk-go-runtime-manifest.json''" by (auto simp: demo_ask_def split: if_splits)
  then have "on_host demo_net ''h'' u" by (simp add: on_host_def demo_net_def equalFold_def)
  then show ?thesis unfolding demo_client_def using client_Do_ends [of "[]" demo_net "''h''" u 0 demo_ask] by auto
qed

lemma demo_asks: "asks_with demo_net demo_client demo_ask demo_online"
  using demo_follow by (fastforce simp: asks_with_def demo_online_def)

lemma demo_no_host: "\<forall>u p. n_Parse demo_net u = Inr p \<and> u_Host p = '''' \<longrightarrow> (\<exists>e. demo_ask u = Unanswered e)"
  by (auto simp: demo_net_def split: if_splits)

lemma demo_resolves: "\<not> isl (resolveInstallInputs demo_online demo_online_options demo_online_target)"
  by code_simp


end
