(* ===== verification/Spec2Isabelle.thy ===== *)
theory Spec2Isabelle
  imports Router_Props Turn_Props Goal_Props Sdk_Errors Payload_Props Appserver_Props Redaction Client_Props
    Runtimebin_Props Version_Props Install_Inputs Thread_Locks Thread_Methods
    Schema_Gen_Props Protocol_Unions Gen_Main_Props Smoke_Props Release_Props Repack_Props Runtime_Cmd_Props
    Runtime_Cmd_Life Coverage_Gate_Props Online_Install_Props
begin

text \<open>
  \<^bold>\<open>The program.\<close> \<open>codex-sdk-go\<close> is a Go client for the Codex app-server. A \<open>Client\<close> starts the
  app-server as a child process and speaks JSON-RPC with it over pipes. One goroutine reads every
  line the server writes and gives it to a message router: responses go to the request that waits
  for them, notifications to the route of the turn, login, goal or compaction they belong to, the
  rest to a global queue. Turn handles pull typed events from their route, goal handles follow a
  logical goal over several turns, and the results of both are collected from the events. The
  child's binary is found, or installed from a signed archive, by \<open>internal/runtimebin\<close>. Beside the
  client stand the tools of its releases: a generator that prints the protocol types from a JSON
  schema, a command that repackages, signs, installs and tries the runtime, a script that gathers
  the evidence of a release and one that checks its test coverage.

  \<^bold>\<open>The theories\<close>, in the order of the layers.

  \<^item> \<open>Go_Prelude\<close>, \<open>Go_Strings\<close>, \<open>Go_Json\<close>, \<open>Go_Errors\<close>, \<open>Go_Path\<close>: what the source uses of Go. Maps
    are association lists with distinct keys, buffered channels are lists with a capacity and a
    send on a full one is \<open>None\<close>; byte strings are \<open>string\<close>; a \<open>json.RawMessage\<close> is the JSON value it
    holds and the decoders follow \<open>encoding/json\<close>, repeated and case-folded names included; errors
    are a datatype with \<open>errors.Is\<close>; paths are those of \<open>path/filepath\<close> with the slash. The locale
    \<open>bounded_fifo\<close> is the contract of a channel, interpreted on the list model.
  \<^item> \<open>Router\<close> models \<open>internal/router/router.go\<close> operation by operation: \<open>MessageRouter\<close> is its struct,
    pointers to route states and response channels are addresses into heaps. \<open>Router_Inv\<close> makes it a
    concurrent system in which every critical section and every channel operation is one step, with
    its invariant by rule induction. \<open>Router_Props\<close> has the claims: nothing blocks, limits hold,
    counters are exact, a waiter gets one response, the routes refine one FIFO list each (locale
    \<open>route_source\<close>, interpreted on the router), \<open>FailAll\<close> wakes everyone.
  \<^item> \<open>Codex_Types\<close> models \<open>types.go\<close>, \<open>Turn\<close> models \<open>turn_api.go\<close>: the decoding of every notification,
    the pull stream, the collected result. \<open>Turn_Props\<close> proves the round trip of token usage, the
    shape of streams and what a result holds, over any transport that meets the locale
    \<open>turn_source\<close>.
  \<^item> \<open>Goal\<close> models \<open>goal.go\<close>, \<open>Goal_Props\<close> runs its route loop and one consumer in every interleaving.
  \<^item> \<open>Sdk_Errors\<close> models \<open>errors.go\<close>, \<open>retry.go\<close> and the error functions of \<open>client.go\<close>; delays are kept
    in \<open>int64\<close> arithmetic.
  \<^item> \<open>Payload\<close> models \<open>options.go\<close>, \<open>inputs.go\<close>, \<open>config.go\<close> and the request payloads; an assignment to
    a nil map is a panic of the model. \<open>Payload_Props\<close> has what is sent and when building it panics.
  \<^item> \<open>Appserver\<close> models \<open>internal/appserver/client.go\<close>: starting, requests, the reader, the server
    request workers, standard error and exit. \<open>Redaction\<close> is about the redaction of its log lines,
    \<open>Appserver_Props\<close> about the transport as a system of goroutines whose router takes only steps of
    the system of \<open>Router_Inv\<close>.
  \<^item> \<open>Transport\<close> models \<open>sdkClient\<close> of \<open>client.go\<close>, \<open>Thread_Api\<close> the decoders of \<open>thread_api.go\<close>, \<open>Client\<close>
    the public operations of \<open>client.go\<close>, \<open>thread.go\<close>, \<open>login.go\<close> and \<open>goal.go\<close>, \<open>Thread_Methods\<close> the
    methods of threads and handles with the checks they make first. \<open>Client_Props\<close>
    interprets \<open>turn_source\<close> on the client's own operations and proves a turn from the call to the
    collected result through client, transport, reader and router. \<open>Thread_Locks\<close> is the table of
    locks per thread, in every interleaving of its users.
  \<^item> \<open>Runtimebin\<close> models \<open>internal/runtimebin\<close>: targets, versions, the manifest and its signature, finding,
    packaging, extracting and installing the runtime on a file system that is a map from cleaned
    paths to nodes. \<open>Install_Inputs\<close> has where the inputs of an installation come from.
    \<open>Version_Props\<close> proves the round trip of versions through release tags, \<open>Runtimebin_Props\<close> that
    extraction is confined and exact, that what is packaged extracts to itself, that an
    installation is verified, and that it is all or nothing.
  \<^item> \<open>Fs_Props\<close>, \<open>Fs_Ops\<close> and \<open>Go_Pretty\<close>: facts about that file system, reading, writing and listing on
    it, and \<open>json.MarshalIndent\<close>.
  \<^item> \<open>Schema\<close> and \<open>Schema_Gen\<close> model \<open>cmd/codex-sdk-gen/protocolgen.go\<close>: the views of a JSON schema and
    the printing of Go declarations, registries and the manifest as text. \<open>Schema_Gen_Props\<close> proves
    that the generator ends on every bundle and declares every schema, over the locales
    \<open>generator_calls\<close> and \<open>call_extension\<close> for the calls back into it. \<open>Protocol_Unions\<close> models
    \<open>protocol/helpers.go\<close> and what the code printed for a union does, and ties it to that text.
    \<open>Gen_Main\<close> models \<open>cmd/codex-sdk-gen/main.go\<close>; \<open>Gen_Main_Props\<close> proves that \<open>verify\<close> accepts what
    \<open>refresh\<close> leaves.
  \<^item> \<open>Smoke\<close> models the native smoke test, \<open>cmd/codex-sdk-runtime/native_smoke.go\<close> with \<open>smoke.go\<close> and
    \<open>native_signatures_*.go\<close> of \<open>internal/runtimebin\<close>; \<open>Smoke_Props\<close> has what a run leaves and records.
    \<open>Release_Evidence\<close> models the canonical form of manifests, their signing and
    \<open>scripts/ci/release_evidence\<close>; \<open>Release_Props\<close> proves that the canonical form is one, that what is
    signed verifies and that a release bundle is complete. \<open>Repack\<close> models \<open>repack.go\<close>;
    \<open>Repack_Props\<close> proves that a repacked runtime lists every file it must.
  \<^item> \<open>Online_Install\<close> models the HTTP client an installation uses, over a model of how \<open>net/http\<close> follows
    redirects; \<open>Online_Install_Props\<close> proves that it never leaves HTTPS and the host it began with.
  \<^item> \<open>Go_Flag\<close> is what the commands use of Go's package \<open>flag\<close>. \<open>Runtime_Cmd\<close> models
    \<open>cmd/codex-sdk-runtime/main.go\<close>: each command takes its arguments and the file system and gives
    the file system back with what it prints or its error. \<open>Runtime_Cmd_Props\<close> proves that what
    \<open>manifest\<close> and \<open>sign\<close> write is what an installation accepts, \<open>Runtime_Cmd_Life\<close> that what
    \<open>install\<close> leaves is what \<open>verify\<close> accepts and \<open>path\<close> prints until \<open>remove\<close>.
  \<^item> \<open>Go_Float\<close> has the rounding of \<open>float64\<close>: a finite value is a rational number, an operation rounds
    to 53 binary digits. \<open>Coverage_Gate\<close> models \<open>scripts/ci/coverage_gate\<close>; \<open>Coverage_Gate_Props\<close>
    proves that its comparison of rounded percentages is exact.

  \<^bold>\<open>State and effects.\<close> A Go struct is a record with the fields of the source; an operation takes the
  state and returns it changed, with \<open>go_error + 'a\<close> for a result with an error. What runs under a
  mutex is one step. An operation of which \<open>None\<close> is a possible value waits (a channel, a response)
  or panics there; the claims that something returns prove \<open>Some\<close>. What the source only calls is an
  argument: the server's answers, the errors of writes and of the operating system, the random
  source, hashing, Ed25519, base64, gzip and tar, HTTP. The end of a context is an argument of the
  operation that selects on it.

  \<^bold>\<open>Termination.\<close> Loops over data are structural or have a measure. The loops that wait for
  notifications are \<open>partial_function (option)\<close>: not returning is \<open>None\<close>. \<open>goal_routes\<close> of \<open>Client\<close>, the
  route loop during \<open>StartGoal\<close>, takes the number of notifications it handles before the caller
  looks at the state: every number is a schedule of the two goroutines. The loop of redaction is
  proved to end on ASCII text. The generator calls itself through references, which may be cyclic:
  its definitions take the depth of calls left, and \<open>gen_fuel\<close>, the number of names times the size of
  the schemas, is proved to be enough for every bundle.

  \<^bold>\<open>Assumptions of the model.\<close> Fewer than \<open>2^64\<close> requests are sent over one transport. Durations
  other than retry delays and all timers are not measured: a timeout is the argument that says how
  a wait ends. File systems have no links and no concurrent writers besides the installer's lock;
  the separator is the slash. Text is bytes, case folding follows the ASCII and the few other
  letters \<open>encoding/json\<close> folds.

  \<^bold>\<open>Not modelled.\<close> \<open>protocol/generated_types.go\<close> and \<open>generated_registries.go\<close> are output of the
  generator, which is modelled, and hold no code of their own but the union decoders of
  \<open>Protocol_Unions\<close>. Of the release evidence, the JSON text of the bundle is left out: the bundle and the
  path it goes to are the result. Signals to the child process and timers have no effect beyond
  how a wait ends. The examples and tests are not modelled.
\<close>

end
